(* ===== verification/Prelude.thy ===== *)
theory Prelude
  imports Main "HOL-Library.Word"
begin

text \<open>
  Shared vocabulary of the development: the machine integer types of the C++ code, the
  lemma collections the component theories add to, and facts about lists, maps and words
  that several components use.
\<close>

type_synonym u8 = "8 word"
type_synonym u16 = "16 word"
type_synonym u32 = "32 word"
type_synonym u64 = "64 word"

text \<open>
  \<open>vec_simps\<close>: what each container operation does to the contents.
  \<open>limb_simps\<close>: values of the big integer routines.
  \<open>parse_simps\<close>: results of the primitive parsers.
  \<open>shard_simps\<close>: unfolding rules of the event handlers' building blocks.
\<close>

named_theorems vec_simps
named_theorems limb_simps
named_theorems parse_simps
named_theorems shard_simps

section \<open>Lists\<close>

definition drop_while_end :: "('a \<Rightarrow> bool) \<Rightarrow> 'a list \<Rightarrow> 'a list" where
  "drop_while_end p xs = rev (dropWhile p (rev xs))"

lemma drop_while_end_Nil [simp]: "drop_while_end p [] = []"
  by (simp add: drop_while_end_def)

lemma drop_while_end_snoc:
  "drop_while_end p (xs @ [x]) = (if p x then drop_while_end p xs else xs @ [x])"
  by (simp add: drop_while_end_def)

lemma drop_while_end_last: "drop_while_end p xs \<noteq> [] \<Longrightarrow> \<not> p (last (drop_while_end p xs))"
  by (induction xs rule: rev_induct) (auto simp: drop_while_end_snoc)

lemma drop_while_end_id: "xs = [] \<or> \<not> p (last xs) \<Longrightarrow> drop_while_end p xs = xs"
  by (induction xs rule: rev_induct) (auto simp: drop_while_end_snoc)

lemma drop_while_end_split:
  "\<exists>ys. xs = drop_while_end p xs @ ys \<and> (\<forall>y \<in> set ys. p y)"
proof (induction xs rule: rev_induct)
  case (snoc x xs)
  then obtain ys where ys: "xs = drop_while_end p xs @ ys" "\<forall>y \<in> set ys. p y" by blast
  show ?case
  proof (cases "p x")
    case True
    with ys have "xs @ [x] = drop_while_end p (xs @ [x]) @ (ys @ [x])"
      by (simp add: drop_while_end_snoc)
    with True ys(2) show ?thesis by (metis Un_iff set_append set_ConsD empty_iff list.set(1))
  qed (simp add: drop_while_end_snoc)
qed simp

definition pad_to :: "nat \<Rightarrow> 'a \<Rightarrow> 'a list \<Rightarrow> 'a list" where
  "pad_to n z xs = xs @ replicate (n - length xs) z"

lemma length_pad_to [simp]: "length (pad_to n z xs) = max n (length xs)"
  by (simp add: pad_to_def)

lemma nth_pad_to: "i < max n (length xs) \<Longrightarrow>
    pad_to n z xs ! i = (if i < length xs then xs ! i else z)"
  by (auto simp: pad_to_def nth_append)

lemma pad_to_le [simp]: "n \<le> length xs \<Longrightarrow> pad_to n z xs = xs"
  by (simp add: pad_to_def)

text \<open>Insertion of an entry in a list, at an index.\<close>

definition insert_at :: "nat \<Rightarrow> 'a \<Rightarrow> 'a list \<Rightarrow> 'a list" where
  "insert_at i x xs = take i xs @ x # drop i xs"

definition remove_range :: "nat \<Rightarrow> nat \<Rightarrow> 'a list \<Rightarrow> 'a list" where
  "remove_range i j xs = take i xs @ drop j xs"

lemma length_insert_at [simp]: "length (insert_at i x xs) = Suc (length xs)"
  by (simp add: insert_at_def)

lemma set_insert_at [simp]: "set (insert_at i x xs) = insert x (set xs)"
  using append_take_drop_id [of i xs] by (metis insert_at_def list.set(2) set_append Un_insert_right)

end
