(* ===== verification/Sbo_Vector.thy ===== *)
theory Sbo_Vector
  imports Prelude
begin

text \<open>
  The vector with a small inline buffer, \<open>common/sbo_vector.h\<close>. A vector is its capacity
  and the elements it counts; whether the elements lie in the inline buffer or on the heap
  is, as in the code, the test \<open>m_capacity = sbo_size\<close>. The element type is one whose
  destructor does nothing (the code's uses are 32-bit limbs and ids), so destroying an
  element without lowering the size leaves it readable. Sizes are below 2 to the 31st, the range
  of the code's \<open>int\<close> fields. An operation with undefined behaviour in the source has the
  result \<open>None\<close>.
\<close>

section \<open>State and operations\<close>

record 'a sbo_vector =
  m_capacity :: nat
  m_elems :: "'a list"

definition sbo_empty :: "nat \<Rightarrow> 'a sbo_vector" where
  "sbo_empty N = \<lparr>m_capacity = N, m_elems = []\<rparr>"

definition sbo_size :: "'a sbo_vector \<Rightarrow> nat" where
  "sbo_size v = length (m_elems v)"

definition is_sbo :: "nat \<Rightarrow> 'a sbo_vector \<Rightarrow> bool" where
  "is_sbo N v = (m_capacity v = N)"

definition sbo_reserve :: "nat \<Rightarrow> 'a sbo_vector \<Rightarrow> 'a sbo_vector" where
  "sbo_reserve n v = (if n \<le> m_capacity v then v else v\<lparr>m_capacity := n\<rparr>)"

definition sbo_reserve_wat :: "nat \<Rightarrow> nat \<Rightarrow> nat \<Rightarrow> 'a sbo_vector \<Rightarrow> 'a sbo_vector" where
  "sbo_reserve_wat N a b v =
     (let mn = min a b; mx = max a b in
      if mn \<le> N then (if mx \<le> N * 2 then v else sbo_reserve mx v) else sbo_reserve mx v)"

definition sbo_clear :: "'a sbo_vector \<Rightarrow> 'a sbo_vector" where
  "sbo_clear v = v\<lparr>m_elems := []\<rparr>"

definition sbo_die :: "nat \<Rightarrow> 'a sbo_vector \<Rightarrow> 'a sbo_vector" where
  "sbo_die N v = (let v' = sbo_clear v in if \<not> is_sbo N v' then v'\<lparr>m_capacity := N\<rparr> else v')"

definition sbo_copy :: "nat \<Rightarrow> 'a sbo_vector \<Rightarrow> 'a sbo_vector" where
  "sbo_copy N other = (sbo_reserve (sbo_size other) (sbo_empty N))\<lparr>m_elems := m_elems other\<rparr>"

text \<open>The move constructor: the new vector and what is left of the source.\<close>

definition sbo_move :: "nat \<Rightarrow> 'a sbo_vector \<Rightarrow> 'a sbo_vector \<times> 'a sbo_vector" where
  "sbo_move N other =
     (if is_sbo N other then ((sbo_empty N)\<lparr>m_elems := m_elems other\<rparr>, other)
      else (other, sbo_empty N))"

definition sbo_copy_assign :: "'a sbo_vector \<Rightarrow> 'a sbo_vector \<Rightarrow> 'a sbo_vector" where
  "sbo_copy_assign v other =
     (sbo_reserve (sbo_size other) (sbo_clear v))\<lparr>m_elems := m_elems other\<rparr>"

definition sbo_move_assign :: "nat \<Rightarrow> 'a sbo_vector \<Rightarrow> 'a sbo_vector \<Rightarrow> 'a sbo_vector \<times> 'a sbo_vector" where
  "sbo_move_assign N v other =
     (let v' = sbo_die N v in
      if is_sbo N other then (v'\<lparr>m_capacity := N, m_elems := m_elems other\<rparr>, sbo_clear other)
      else (v'\<lparr>m_capacity := m_capacity other, m_elems := m_elems other\<rparr>, sbo_empty N))"

definition sbo_push_back :: "'a sbo_vector \<Rightarrow> 'a \<Rightarrow> 'a sbo_vector" where
  "sbo_push_back v x =
     (let v' = (if sbo_size v = m_capacity v then sbo_reserve (m_capacity v * 2) v else v)
      in v'\<lparr>m_elems := m_elems v' @ [x]\<rparr>)"

definition sbo_emplace_back :: "'a sbo_vector \<Rightarrow> 'a \<Rightarrow> 'a sbo_vector" where
  "sbo_emplace_back v x =
     (let v' = (if sbo_size v = m_capacity v then sbo_reserve (max 1 (m_capacity v * 2)) v else v)
      in v'\<lparr>m_elems := m_elems v' @ [x]\<rparr>)"

definition sbo_pop_back :: "'a sbo_vector \<Rightarrow> 'a sbo_vector option" where
  "sbo_pop_back v = (if m_elems v = [] then None else Some (v\<lparr>m_elems := butlast (m_elems v)\<rparr>))"

text \<open>\<open>resize(n)\<close>: new elements are zeroed memory, \<open>z\<close>.\<close>

definition sbo_resize :: "'a \<Rightarrow> nat \<Rightarrow> 'a sbo_vector \<Rightarrow> 'a sbo_vector" where
  "sbo_resize z n v =
     (if n < sbo_size v then v\<lparr>m_elems := take n (m_elems v)\<rparr>
      else if n > sbo_size v then
        (let v' = sbo_reserve n v in v'\<lparr>m_elems := m_elems v' @ replicate (n - sbo_size v) z\<rparr>)
      else v)"

text \<open>
  \<open>resize(n, val)\<close>: the branch that shrinks destroys elements and does not lower
  \<open>m_size\<close>.
\<close>

definition sbo_resize_val :: "nat \<Rightarrow> 'a \<Rightarrow> 'a sbo_vector \<Rightarrow> 'a sbo_vector" where
  "sbo_resize_val n x v =
     (if n < sbo_size v then v
      else if n > sbo_size v then
        (let v' = sbo_reserve n v in v'\<lparr>m_elems := m_elems v' @ replicate (n - sbo_size v) x\<rparr>)
      else v)"

text \<open>\<open>assign\<close> over a sized range: it reserves, then appends.\<close>

definition sbo_assign :: "'a list \<Rightarrow> 'a sbo_vector \<Rightarrow> 'a sbo_vector" where
  "sbo_assign ys v = foldl sbo_push_back (sbo_reserve (length ys) v) ys"

text \<open>
  Insertion of one element. The iterator is taken before \<open>push_back\<close>, which reallocates
  when the vector is full, and is then dangling.
\<close>

definition sbo_insert :: "nat \<Rightarrow> 'a \<Rightarrow> 'a sbo_vector \<Rightarrow> 'a sbo_vector option" where
  "sbo_insert i x v =
     (if i > sbo_size v then None
      else if sbo_size v = m_capacity v then None
      else (let v' = sbo_push_back v x in
            Some (v'\<lparr>m_elems := insert_at i (last (m_elems v')) (butlast (m_elems v'))\<rparr>)))"

definition sbo_insert_range :: "nat \<Rightarrow> 'a list \<Rightarrow> 'a sbo_vector \<Rightarrow> 'a sbo_vector option" where
  "sbo_insert_range i ys v =
     (if i > sbo_size v then None
      else (let v' = (if sbo_size v + length ys > m_capacity v
                      then sbo_reserve (max (m_capacity v * 2) (sbo_size v + length ys)) v else v)
            in Some (v'\<lparr>m_elems := take i (m_elems v') @ ys @ drop i (m_elems v')\<rparr>)))"

definition sbo_erase_range :: "nat \<Rightarrow> nat \<Rightarrow> 'a sbo_vector \<Rightarrow> 'a sbo_vector option" where
  "sbo_erase_range i j v =
     (if i \<le> j \<and> j \<le> sbo_size v then Some (v\<lparr>m_elems := remove_range i j (m_elems v)\<rparr>) else None)"

definition sbo_erase_at :: "nat \<Rightarrow> 'a sbo_vector \<Rightarrow> 'a sbo_vector option" where
  "sbo_erase_at i v =
     (if i < sbo_size v then Some (v\<lparr>m_elems := remove_range i (Suc i) (m_elems v)\<rparr>) else None)"

definition sbo_erase_value :: "'a \<Rightarrow> 'a sbo_vector \<Rightarrow> 'a sbo_vector" where
  "sbo_erase_value x v = v\<lparr>m_elems := filter (\<lambda>y. y \<noteq> x) (m_elems v)\<rparr>"

definition sbo_erase_if :: "('a \<Rightarrow> bool) \<Rightarrow> 'a sbo_vector \<Rightarrow> 'a sbo_vector" where
  "sbo_erase_if p v = v\<lparr>m_elems := filter (\<lambda>y. \<not> p y) (m_elems v)\<rparr>"

datatype sbo_error = Runtime_error

definition sbo_at :: "nat \<Rightarrow> 'a sbo_vector \<Rightarrow> sbo_error + 'a" where
  "sbo_at i v = (if i \<ge> sbo_size v then Inl Runtime_error else Inr (m_elems v ! i))"

definition sbo_eq :: "'a sbo_vector \<Rightarrow> 'a sbo_vector \<Rightarrow> bool" where
  "sbo_eq v w = (sbo_size v = sbo_size w \<and> list_all2 (=) (m_elems v) (m_elems w))"

section \<open>The invariant\<close>

text \<open>The inline buffer is the least capacity, and the elements fit the capacity.\<close>

definition sbo_inv :: "nat \<Rightarrow> 'a sbo_vector \<Rightarrow> bool" where
  "sbo_inv N v = (0 < N \<and> N \<le> m_capacity v \<and> length (m_elems v) \<le> m_capacity v)"

lemmas sbo_defs = sbo_empty_def sbo_size_def is_sbo_def sbo_reserve_def sbo_clear_def sbo_die_def
  Let_def

lemma sbo_elems [vec_simps]:
  "m_elems (sbo_empty N) = []"
  "m_elems (sbo_reserve n v) = m_elems v"
  "m_elems (sbo_reserve_wat N a b v) = m_elems v"
  "m_elems (sbo_clear v) = []"
  "m_elems (sbo_copy N v) = m_elems v"
  "m_elems (fst (sbo_move N v)) = m_elems v"
  "m_elems (sbo_copy_assign w v) = m_elems v"
  "m_elems (fst (sbo_move_assign N w v)) = m_elems v"
  "m_elems (sbo_push_back v x) = m_elems v @ [x]"
  "m_elems (sbo_emplace_back v x) = m_elems v @ [x]"
  "m_elems (sbo_erase_value x v) = filter (\<lambda>y. y \<noteq> x) (m_elems v)"
  "m_elems (sbo_erase_if p v) = filter (\<lambda>y. \<not> p y) (m_elems v)"
  by (simp_all add: sbo_defs sbo_reserve_wat_def sbo_copy_def sbo_move_def sbo_copy_assign_def
      sbo_move_assign_def sbo_push_back_def sbo_emplace_back_def sbo_erase_value_def
      sbo_erase_if_def)

lemma sbo_resize_elems [vec_simps]:
  "m_elems (sbo_resize z n v) = take n (m_elems v) @ replicate (n - length (m_elems v)) z"
  by (auto simp: sbo_resize_def sbo_defs)

lemma sbo_resize_val_elems [vec_simps]:
  "m_elems (sbo_resize_val n x v) = pad_to n x (m_elems v)"
  by (auto simp: sbo_resize_val_def sbo_defs pad_to_def)

lemma sbo_inv_basic [vec_simps, intro]:
  "0 < N \<Longrightarrow> sbo_inv N (sbo_empty N)"
  "sbo_inv N v \<Longrightarrow> sbo_inv N (sbo_reserve n v)"
  "sbo_inv N v \<Longrightarrow> sbo_inv N (sbo_reserve_wat N a b v)"
  "sbo_inv N v \<Longrightarrow> sbo_inv N (sbo_clear v)"
  "sbo_inv N v \<Longrightarrow> sbo_inv N (sbo_push_back v x)"
  "sbo_inv N v \<Longrightarrow> sbo_inv N (sbo_emplace_back v x)"
  "sbo_inv N v \<Longrightarrow> sbo_inv N (sbo_resize z n v)"
  "sbo_inv N v \<Longrightarrow> sbo_inv N (sbo_resize_val n x v)"
  "sbo_inv N v \<Longrightarrow> sbo_inv N (sbo_copy N v)"
  "sbo_inv N v \<Longrightarrow> sbo_inv N w \<Longrightarrow> sbo_inv N (sbo_copy_assign v w)"
  by (auto simp: sbo_inv_def sbo_defs sbo_reserve_wat_def sbo_push_back_def sbo_emplace_back_def
      sbo_resize_def sbo_resize_val_def sbo_copy_def sbo_copy_assign_def)

lemma sbo_inv_move [vec_simps, intro]:
  "sbo_inv N v \<Longrightarrow> sbo_inv N (fst (sbo_move N v)) \<and> sbo_inv N (snd (sbo_move N v))"
  "sbo_inv N v \<Longrightarrow> sbo_inv N w \<Longrightarrow>
     sbo_inv N (fst (sbo_move_assign N v w)) \<and> sbo_inv N (snd (sbo_move_assign N v w))"
  by (auto simp: sbo_inv_def sbo_defs sbo_move_def sbo_move_assign_def)

section \<open>The contract of a growable vector\<close>

text \<open>
  What the code above the vector (the big integers, the role lists) relies on: the vector
  is its contents, appending and resizing act on them, and the invariant survives.
\<close>

locale vec_contract =
  fixes contents :: "'v \<Rightarrow> 'a list"
    and invar :: "'v \<Rightarrow> bool"
    and push :: "'v \<Rightarrow> 'a \<Rightarrow> 'v"
    and resize :: "'a \<Rightarrow> nat \<Rightarrow> 'v \<Rightarrow> 'v"
  assumes push_contents: "invar v \<Longrightarrow> contents (push v x) = contents v @ [x]"
    and push_invar: "invar v \<Longrightarrow> invar (push v x)"
    and resize_contents: "invar v \<Longrightarrow>
      contents (resize z n v) = take n (contents v) @ replicate (n - length (contents v)) z"
    and resize_invar: "invar v \<Longrightarrow> invar (resize z n v)"
begin

lemma push_all:
  "invar v \<Longrightarrow> invar (foldl push v xs) \<and> contents (foldl push v xs) = contents v @ xs"
  by (induction xs arbitrary: v) (auto simp: push_contents push_invar)

lemma resize_length: "invar v \<Longrightarrow> length (contents (resize z n v)) = n"
  by (auto simp: resize_contents)

lemma resize_grow: "invar v \<Longrightarrow> length (contents v) \<le> n \<Longrightarrow>
    contents (resize z n v) = pad_to n z (contents v)"
  by (simp add: resize_contents pad_to_def)

lemma resize_resize: "invar v \<Longrightarrow> n \<le> m \<Longrightarrow>
    contents (resize z n (resize z m v)) = contents (resize z n v)"
  by (simp add: resize_contents resize_invar min_def take_replicate)

end

interpretation sbo: vec_contract m_elems "sbo_inv N" sbo_push_back sbo_resize for N :: nat
  by unfold_locales (auto simp: vec_simps)

interpretation sbo_e: vec_contract m_elems "sbo_inv N" sbo_emplace_back sbo_resize for N :: nat
  by unfold_locales (auto simp: vec_simps)

section \<open>Properties\<close>

lemma foldl_sbo_push_capacity: "m_capacity v \<le> m_capacity (foldl sbo_push_back v xs)"
proof (induction xs arbitrary: v)
  case (Cons x xs)
  have "m_capacity v \<le> m_capacity (sbo_push_back v x)"
    by (auto simp: sbo_push_back_def sbo_defs)
  with Cons show ?case by (metis foldl_Cons order_trans)
qed simp

lemma sbo_insert_elems:
  "i \<le> length (m_elems v) \<Longrightarrow> length (m_elems v) < m_capacity v \<Longrightarrow>
    \<exists>v'. sbo_insert i x v = Some v' \<and> m_elems v' = insert_at i x (m_elems v)
      \<and> m_capacity v' = m_capacity v"
  by (auto simp: sbo_insert_def sbo_defs sbo_push_back_def)

lemma sbo_pop_back_elems:
  "m_elems v \<noteq> [] \<Longrightarrow> \<exists>v'. sbo_pop_back v = Some v' \<and> m_elems v' = butlast (m_elems v)
     \<and> m_capacity v' = m_capacity v"
  by (simp add: sbo_pop_back_def)

lemma sbo_erase_range_elems:
  "i \<le> j \<Longrightarrow> j \<le> length (m_elems v) \<Longrightarrow>
    \<exists>v'. sbo_erase_range i j v = Some v' \<and> m_elems v' = remove_range i j (m_elems v)
     \<and> m_capacity v' = m_capacity v"
  by (simp add: sbo_erase_range_def sbo_size_def)

lemma sbo_insert_range_elems:
  "sbo_inv N v \<Longrightarrow> i \<le> length (m_elems v) \<Longrightarrow>
    \<exists>v'. sbo_insert_range i ys v = Some v' \<and> sbo_inv N v'
      \<and> m_elems v' = take i (m_elems v) @ ys @ drop i (m_elems v)"
  by (auto simp: sbo_insert_range_def sbo_defs sbo_inv_def)



text \<open>Inserting one element by iterator is defined exactly when the position is in the
  vector and the vector is not full: on a full vector \<open>push_back\<close> reallocates and the
  iterator handed to \<open>std::rotate\<close> dangles. Where it is defined, the element lands at its
  position and the others keep their order.\<close>
theorem sbo_insert_defined_iff:
  "sbo_insert i x v = (if i \<le> length (m_elems v) \<and> length (m_elems v) \<noteq> m_capacity v
     then Some (v\<lparr>m_elems := insert_at i x (m_elems v)\<rparr>) else None)"
  by (auto simp: sbo_insert_def sbo_push_back_def sbo_defs)

text \<open>The shrinking branch of \<open>resize(n, val)\<close> leaves the vector as it was, where
  \<open>resize(n)\<close> truncates it.\<close>
theorem sbo_resize_val_does_not_shrink:
  "n < length (m_elems v) \<Longrightarrow>
    sbo_resize_val n x v = v \<and> m_elems (sbo_resize z n v) = take n (m_elems v)"
  by (simp add: sbo_resize_val_def sbo_resize_def sbo_defs)

text \<open>\<open>assign\<close> keeps the old contents in front of the assigned ones.\<close>
theorem sbo_assign_appends:
  "sbo_inv N v \<Longrightarrow> m_elems (sbo_assign ys v) = m_elems v @ ys"
  using sbo.push_all [of N "sbo_reserve (length ys) v" ys] by (simp add: sbo_assign_def vec_simps)

end
