(* ===== verification/Cpp_Std.thy ===== *)
theory Cpp_Std
  imports Prelude
begin

text \<open>
  The functions of the C++ standard library that the modelled code calls, as the standard
  describes them: decimal and based number reading (\<open>std::from_chars\<close>), decimal printing
  (\<open>std::to_string\<close>, \<open>std::to_chars\<close>), and the sorted-range searches.
\<close>

section \<open>Digits\<close>

definition is_digit :: "char \<Rightarrow> bool" where
  "is_digit c = (48 \<le> (of_char c :: nat) \<and> (of_char c :: nat) \<le> 57)"

definition digit_val :: "char \<Rightarrow> nat" where
  "digit_val c = of_char c - 48"

definition digit_char :: "nat \<Rightarrow> char" where
  "digit_char d = char_of (48 + d)"

text \<open>The value of a digit of a base up to 36; letters of both cases.\<close>

definition base_digit :: "nat \<Rightarrow> char \<Rightarrow> nat option" where
  "base_digit b c =
     (let n = of_char c :: nat;
          d = (if 48 \<le> n \<and> n \<le> 57 then Some (n - 48)
               else if 97 \<le> n \<and> n \<le> 122 then Some (n - 87)
               else if 65 \<le> n \<and> n \<le> 90 then Some (n - 55)
               else None)
      in case d of None \<Rightarrow> None | Some k \<Rightarrow> if k < b then Some k else None)"

definition base_val :: "nat \<Rightarrow> string \<Rightarrow> nat" where
  "base_val b s = foldl (\<lambda>a c. b * a + the (base_digit b c)) 0 s"

definition dec_val :: "string \<Rightarrow> nat" where
  "dec_val s = foldl (\<lambda>a c. 10 * a + digit_val c) 0 s"

section \<open>\<open>std::from_chars\<close>\<close>

text \<open>
  Reading an unsigned number of \<open>bits\<close> bits: the longest prefix of digits is consumed.
  Without a digit nothing is consumed, and a number that does not fit is consumed and not
  stored: in both cases the target keeps its old value. The result is the target's value
  and the number of characters consumed.
\<close>

definition from_chars_base :: "nat \<Rightarrow> nat \<Rightarrow> nat \<Rightarrow> string \<Rightarrow> nat \<times> nat" where
  "from_chars_base bits b old s =
     (let ds = takeWhile (\<lambda>c. base_digit b c \<noteq> None) s; v = base_val b ds
      in (if ds \<noteq> [] \<and> v < 2 ^ bits then v else old, length ds))"

definition from_chars :: "nat \<Rightarrow> nat \<Rightarrow> string \<Rightarrow> nat \<times> nat" where
  "from_chars bits old s =
     (let ds = takeWhile is_digit s; v = dec_val ds
      in (if ds \<noteq> [] \<and> v < 2 ^ bits then v else old, length ds))"

text \<open>Reading a signed number: an optional minus sign in front of the digits.\<close>

definition from_chars_int :: "nat \<Rightarrow> int \<Rightarrow> string \<Rightarrow> int \<times> nat" where
  "from_chars_int bits old s =
     (let neg = (s \<noteq> [] \<and> hd s = CHR ''-'');
          ds = takeWhile is_digit (if neg then tl s else s);
          v = (if neg then - int (dec_val ds) else int (dec_val ds))
      in if ds = [] then (old, 0)
         else (if - (2 ^ (bits - 1)) \<le> v \<and> v < 2 ^ (bits - 1) then v else old,
               length ds + (if neg then 1 else 0)))"

section \<open>\<open>std::to_string\<close>\<close>

fun dec_digits :: "nat \<Rightarrow> nat list" where
  "dec_digits n = (if n < 10 then [n] else dec_digits (n div 10) @ [n mod 10])"

declare dec_digits.simps [simp del]

definition std_to_string :: "nat \<Rightarrow> string" where
  "std_to_string n = map digit_char (dec_digits n)"

section \<open>Searches\<close>

text \<open>
  \<open>lower_bound\<close> and \<open>upper_bound\<close> on a range partitioned by the key: the index of the
  first element that is not less than, or that is greater than, the key.
\<close>

definition lower_bound :: "'k::linorder list \<Rightarrow> 'k \<Rightarrow> nat" where
  "lower_bound ks k = length (takeWhile (\<lambda>x. x < k) ks)"

definition upper_bound :: "'k::linorder list \<Rightarrow> 'k \<Rightarrow> nat" where
  "upper_bound ks k = length (takeWhile (\<lambda>x. x \<le> k) ks)"

definition find_index :: "('a \<Rightarrow> bool) \<Rightarrow> 'a list \<Rightarrow> nat" where
  "find_index p xs = length (takeWhile (\<lambda>x. \<not> p x) xs)"

lemma find_index_less: "find_index p xs \<noteq> length xs \<Longrightarrow> find_index p xs < length xs \<and> p (xs ! find_index p xs)"
proof -
  assume "find_index p xs \<noteq> length xs"
  then have "find_index p xs < length xs"
    using length_takeWhile_le [of "\<lambda>x. \<not> p x" xs] by (simp add: find_index_def)
  with nth_length_takeWhile [of "\<lambda>x. \<not> p x" xs] show ?thesis by (simp add: find_index_def)
qed

lemma find_index_none: "find_index p xs = length xs \<longleftrightarrow> (\<forall>x \<in> set xs. \<not> p x)"
  by (metis (mono_tags, lifting) find_index_def takeWhile_eq_all_conv takeWhile_eq_take take_all_iff
      order_refl set_takeWhileD)

section \<open>Facts about digits\<close>

lemma digit_char_code: "d < 10 \<Longrightarrow> of_char (digit_char d) = (48 + d :: nat)"
  by (simp add: digit_char_def of_char_of)

lemma is_digit_code: "is_digit c \<longleftrightarrow> 48 \<le> (of_char c :: nat) \<and> (of_char c :: nat) \<le> 57"
  by (simp add: is_digit_def)

lemma digit_char_is_digit [simp]: "d < 10 \<Longrightarrow> is_digit (digit_char d)"
  by (simp add: is_digit_code digit_char_code)

lemma digit_val_digit_char [simp]: "d < 10 \<Longrightarrow> digit_val (digit_char d) = d"
  by (simp add: digit_val_def digit_char_code)

lemma digit_val_less: "is_digit c \<Longrightarrow> digit_val c < 10"
  by (auto simp: is_digit_code digit_val_def)

lemma digit_char_zero [simp]: "d < 10 \<Longrightarrow> (digit_char d = CHR ''0'') = (d = 0)"
proof -
  assume d: "d < 10"
  have "(digit_char d = CHR ''0'') = ((of_char (digit_char d) :: nat) = of_char (CHR ''0''))"
    by (metis of_char_eq_iff)
  with d show ?thesis by (simp add: digit_char_code)
qed

lemma dec_val_Nil [simp]: "dec_val [] = 0"
  by (simp add: dec_val_def)

lemma dec_val_snoc [simp]: "dec_val (s @ [c]) = 10 * dec_val s + digit_val c"
  by (simp add: dec_val_def)

lemma dec_val_append: "dec_val (s @ t) = 10 ^ length t * dec_val s + dec_val t"
proof (induction t rule: rev_induct)
  case (snoc c t)
  have "dec_val (s @ t @ [c]) = 10 * dec_val (s @ t) + digit_val c"
    using dec_val_snoc [of "s @ t" c] by simp
  with snoc show ?case by (simp add: algebra_simps)
qed simp

lemma dec_val_less: "list_all is_digit s \<Longrightarrow> dec_val s < 10 ^ length s"
proof (induction s rule: rev_induct)
  case (snoc c s)
  then have "dec_val s < 10 ^ length s" "digit_val c < 10" by (auto simp: digit_val_less)
  then show ?case by simp
qed simp

lemma dec_val_zeros: "dec_val (dropWhile (\<lambda>c. c = CHR ''0'') s) = dec_val s"
proof (induction s)
  case (Cons c s)
  have "digit_val (CHR ''0'') = 0" by (simp add: digit_val_def)
  with Cons dec_val_append [of "[CHR ''0'']" s] show ?case
    by (auto simp: dec_val_def)
qed simp

lemma takeWhile_all: "list_all p xs \<Longrightarrow> takeWhile p xs = xs"
  by (simp add: list_all_iff takeWhile_eq_all_conv)

lemma from_chars_all_digits:
  "list_all is_digit s \<Longrightarrow> s \<noteq> [] \<Longrightarrow> dec_val s < 2 ^ bits \<Longrightarrow>
    from_chars bits old s = (dec_val s, length s)"
  by (simp add: from_chars_def takeWhile_all)

lemma from_chars_used: "snd (from_chars bits old s) \<le> length s"
  by (simp add: from_chars_def Let_def length_takeWhile_le)

lemma dec_digits_less: "\<forall>d \<in> set (dec_digits n). d < 10"
  by (induction n rule: dec_digits.induct) (subst dec_digits.simps, auto)

lemma dec_digits_nonempty [simp]: "dec_digits n \<noteq> []"
  by (subst dec_digits.simps) simp

lemma std_to_string_digits: "list_all is_digit (std_to_string n)"
  using dec_digits_less by (simp add: std_to_string_def list_all_iff)

lemma std_to_string_nonempty [simp]: "std_to_string n \<noteq> []"
  by (simp add: std_to_string_def)

lemma std_to_string_step: "std_to_string n =
    (if n < 10 then [digit_char n] else std_to_string (n div 10) @ [digit_char (n mod 10)])"
  by (simp add: std_to_string_def dec_digits.simps [of n])

lemma dec_val_std_to_string [simp]: "dec_val (std_to_string n) = n"
proof (induction n rule: dec_digits.induct)
  case (1 n)
  show ?case
  proof (cases "n < 10")
    case True
    then show ?thesis by (subst std_to_string_step) (simp add: dec_val_def)
  next
    case False
    with "1.IH" have "dec_val (std_to_string (n div 10)) = n div 10" by simp
    with False show ?thesis by (subst std_to_string_step) simp
  qed
qed

text \<open>The double quote, for texts that hold some.\<close>

definition quote :: string where "quote = [CHR 0x22]"

end
