(* ===== verification/Big_Uint.thy ===== *)
theory Big_Uint
  imports Cpp_Std
begin

text \<open>
  The unsigned big integer of \<open>common/big_uint.h\<close>, which holds permission bit sets: a
  vector of 32-bit limbs, least significant first, without zero limbs at the end. The one
  field \<open>m_data\<close> is an \<open>sbo_vector\<close>; a number is its contents (theory \<open>Sbo_Vector\<close>
  shows that the vector's operations act on the contents as the list operations used here).
  Arithmetic is at the widths of the code: limbs and carries are 32-bit words, products and
  sums of limbs 64-bit words.
\<close>

unbundle bit_operations_syntax

type_synonym big_uint = "u32 list"

section \<open>Limbs and normal form\<close>

text \<open>The accessors \<open>thing_a\<close> and \<open>thing_b\<close>: 0 past the end, or all ones.\<close>

definition limb :: "big_uint \<Rightarrow> nat \<Rightarrow> u32" where
  "limb a i = (if i \<ge> length a then 0 else a ! i)"

definition limb_or_ones :: "big_uint \<Rightarrow> nat \<Rightarrow> u32" where
  "limb_or_ones a i = (if i \<ge> length a then 0xFFFFFFFF else a ! i)"

definition trim_trailing_zeros :: "big_uint \<Rightarrow> big_uint" where
  "trim_trailing_zeros a = drop_while_end (\<lambda>d. d = 0) a"

definition normal :: "big_uint \<Rightarrow> bool" where
  "normal a = (a = [] \<or> last a \<noteq> 0)"

text \<open>The number the limbs stand for; \<open>radix\<close> is kept folded in the proofs.\<close>

definition radix :: nat where
  "radix = 2 ^ 32"

primrec bval :: "big_uint \<Rightarrow> nat" where
  "bval [] = 0"
| "bval (d # ds) = unat d + radix * bval ds"

section \<open>Constructors\<close>

definition big_of_u64 :: "u64 \<Rightarrow> big_uint" where
  "big_of_u64 a =
     (if a \<noteq> 0 then
        (let w2 = ucast (drop_bit 32 a) :: u32 in
         if w2 \<noteq> 0 then [ucast (a AND 0xFFFFFFFF), w2] else [ucast a])
      else [])"

definition big_of_u32 :: "u32 \<Rightarrow> big_uint" where
  "big_of_u32 a = (if a \<noteq> 0 then [a] else [])"

definition big_of_u16 :: "u16 \<Rightarrow> big_uint" where
  "big_of_u16 a = (if a \<noteq> 0 then [ucast a] else [])"

definition big_of_u8 :: "u8 \<Rightarrow> big_uint" where
  "big_of_u8 a = (if a \<noteq> 0 then [ucast a] else [])"

text \<open>The signed constructors read the two's complement bits as unsigned.\<close>

definition big_of_i64 :: "u64 \<Rightarrow> big_uint" where
  "big_of_i64 a =
     (if a \<noteq> 0 then
        (let w2 = ucast (signed_drop_bit 32 a) :: u32 in
         if w2 \<noteq> 0 then [ucast (a AND 0xFFFFFFFF), w2] else [ucast a])
      else [])"

definition big_of_i32 :: "u32 \<Rightarrow> big_uint" where
  "big_of_i32 a = (if a \<noteq> 0 then [a] else [])"

definition big_of_i16 :: "u16 \<Rightarrow> big_uint" where
  "big_of_i16 a = (if a \<noteq> 0 then [ucast a] else [])"

definition big_of_i8 :: "u8 \<Rightarrow> big_uint" where
  "big_of_i8 a = (if a \<noteq> 0 then [ucast a] else [])"

definition big_of_limbs :: "u32 list \<Rightarrow> big_uint" where
  "big_of_limbs ds = trim_trailing_zeros ds"

section \<open>Comparison with machine integers\<close>

definition big_eq_u32 :: "big_uint \<Rightarrow> u32 \<Rightarrow> bool" where
  "big_eq_u32 a k =
     (if k = 0 \<and> a = [] then True else length a = 1 \<and> hd a = k)"

definition big_eq_i32 :: "big_uint \<Rightarrow> u32 \<Rightarrow> bool" where
  "big_eq_i32 a k =
     (if k = 0 \<and> a = [] then True else 0 \<le> sint k \<and> length a = 1 \<and> hd a = k)"

definition big_eq_i16 :: "big_uint \<Rightarrow> u16 \<Rightarrow> bool" where
  "big_eq_i16 a k =
     (if k = 0 \<and> a = [] then True else 0 \<le> sint k \<and> length a = 1 \<and> hd a = scast k)"

definition big_eq_i8 :: "big_uint \<Rightarrow> u8 \<Rightarrow> bool" where
  "big_eq_i8 a k =
     (if k = 0 \<and> a = [] then True else 0 \<le> sint k \<and> length a = 1 \<and> hd a = scast k)"

definition big_eq_u16 :: "big_uint \<Rightarrow> u16 \<Rightarrow> bool" where
  "big_eq_u16 a k =
     (if k = 0 \<and> a = [] then True else length a = 1 \<and> hd a = ucast k)"

definition big_eq_u8 :: "big_uint \<Rightarrow> u8 \<Rightarrow> bool" where
  "big_eq_u8 a k =
     (if k = 0 \<and> a = [] then True else length a = 1 \<and> hd a = ucast k)"

definition big_eq_u64 :: "big_uint \<Rightarrow> u64 \<Rightarrow> bool" where
  "big_eq_u64 a k =
     (if k = 0 \<and> a = [] then True
      else (let w2 = drop_bit 32 k in
        if w2 \<noteq> 0 then length a = 2 \<and> ucast (a ! 1) = w2 \<and> a ! 0 = ucast (k AND 0xFFFFFFFF)
        else length a = 1 \<and> hd a = ucast k))"

definition big_eq_i64 :: "big_uint \<Rightarrow> u64 \<Rightarrow> bool" where
  "big_eq_i64 a k =
     (if k = 0 \<and> a = [] then True else if sint k < 0 then False else big_eq_u64 a k)"

section \<open>Addition\<close>

text \<open>
  The loop of \<open>operator+\<close> from index \<open>i\<close>, with \<open>k\<close> iterations left: the limbs written and
  the last carry.
\<close>

primrec add_loop :: "big_uint \<Rightarrow> big_uint \<Rightarrow> nat \<Rightarrow> nat \<Rightarrow> u32 \<Rightarrow> u32 list \<times> u32" where
  "add_loop a b 0 i carry = ([], carry)"
| "add_loop a b (Suc k) i carry =
     (let t = ucast (limb a i) + ucast (limb b i) + ucast carry :: u64;
          (ds, c) = add_loop a b k (Suc i) (ucast (drop_bit 32 t))
      in (ucast (t AND 0xFFFFFFFF) # ds, c))"

definition big_add :: "big_uint \<Rightarrow> big_uint \<Rightarrow> big_uint" where
  "big_add a b =
     (let size = max (length a) (length b);
          (ds, carry) = add_loop a b size 0 0
      in trim_trailing_zeros (big_of_limbs (if carry \<noteq> 0 then ds @ [carry] else ds)))"

text \<open>
  \<open>operator+=\<close> is the same loop in place: iteration \<open>i\<close> reads limb \<open>i\<close> of both operands
  and overwrites limb \<open>i\<close> of the first.
\<close>

primrec add_in_place :: "big_uint \<Rightarrow> big_uint \<Rightarrow> nat \<Rightarrow> nat \<Rightarrow> u32 \<Rightarrow> big_uint \<times> u32" where
  "add_in_place a b 0 i carry = (a, carry)"
| "add_in_place a b (Suc k) i carry =
     (let t = ucast (limb a i) + ucast (limb b i) + ucast carry :: u64
      in add_in_place (a[i := ucast (t AND 0xFFFFFFFF)]) b k (Suc i) (ucast (drop_bit 32 t)))"

definition big_add_assign :: "big_uint \<Rightarrow> big_uint \<Rightarrow> big_uint" where
  "big_add_assign a b =
     (let size = max (length a) (length b);
          (ds, carry) = add_in_place (pad_to size 0 a) b size 0 0
      in trim_trailing_zeros (if carry \<noteq> 0 then ds @ [carry] else ds))"

section \<open>Subtraction\<close>

text \<open>\<open>amount_carried\<close> is the borrow, 0 or 1; the last one is dropped.\<close>

primrec sub_loop :: "big_uint \<Rightarrow> big_uint \<Rightarrow> nat \<Rightarrow> nat \<Rightarrow> u32 \<Rightarrow> u32 list \<times> u32" where
  "sub_loop a b 0 i borrow = ([], borrow)"
| "sub_loop a b (Suc k) i borrow =
     (if int (unat (limb b i)) > int (unat (limb a i)) - int (unat borrow)
      then (let (ds, c) = sub_loop a b k (Suc i) 1
            in ((0xFFFFFFFF - limb b i - borrow + limb a i + 1) # ds, c))
      else (let (ds, c) = sub_loop a b k (Suc i) 0
            in ((limb a i - limb b i - borrow) # ds, c)))"

definition big_sub :: "big_uint \<Rightarrow> big_uint \<Rightarrow> big_uint" where
  "big_sub a b =
     (let size = max (length a) (length b)
      in trim_trailing_zeros (fst (sub_loop (pad_to size 0 a) b size 0 0)))"

section \<open>Bitwise operations\<close>

definition big_and :: "big_uint \<Rightarrow> big_uint \<Rightarrow> big_uint" where
  "big_and a b =
     (let size = max (length a) (length b)
      in trim_trailing_zeros (map (\<lambda>i. pad_to size 0 a ! i AND limb b i) [0..<size]))"

definition big_or :: "big_uint \<Rightarrow> big_uint \<Rightarrow> big_uint" where
  "big_or a b =
     (let size = max (length a) (length b)
      in trim_trailing_zeros (map (\<lambda>i. pad_to size 0 a ! i OR limb b i) [0..<size]))"

text \<open>\<open>bitwise_and_but_missing_bits_are_1\<close>, and its form that overwrites its first argument.\<close>

definition big_and_ones :: "big_uint \<Rightarrow> big_uint \<Rightarrow> big_uint" where
  "big_and_ones a b =
     (let size = max (length a) (length b)
      in trim_trailing_zeros (big_of_limbs
           (map (\<lambda>i. limb_or_ones a i AND limb_or_ones b i) [0..<size])))"

definition big_and_ones_in_place :: "big_uint \<Rightarrow> big_uint \<Rightarrow> big_uint" where
  "big_and_ones_in_place a b =
     (let size = max (length a) (length b)
      in trim_trailing_zeros
           (map (\<lambda>i. pad_to size 0xFFFFFFFF a ! i AND limb_or_ones b i) [0..<size]))"

definition big_not :: "big_uint \<Rightarrow> big_uint" where
  "big_not a = big_of_limbs (map (\<lambda>d. NOT d) a)"

definition big_not_in_place :: "big_uint \<Rightarrow> big_uint" where
  "big_not_in_place a = trim_trailing_zeros (map (\<lambda>d. NOT d) a)"

section \<open>Multiplication\<close>

text \<open>The loop over the digits of \<open>a\<close> with a 64-bit carry.\<close>

primrec mul_limb_loop :: "u32 list \<Rightarrow> u64 \<Rightarrow> u64 \<Rightarrow> u32 list \<times> u64" where
  "mul_limb_loop [] b carry = ([], carry)"
| "mul_limb_loop (d # ds) b carry =
     (let t = ucast d * b + carry;
          (rs, c) = mul_limb_loop ds b (drop_bit 32 t)
      in (ucast (t AND 0xFFFFFFFF) # rs, c))"

definition big_mul_u32 :: "big_uint \<Rightarrow> u32 \<Rightarrow> big_uint" where
  "big_mul_u32 a b =
     (if big_eq_i32 a 0 \<or> b = 0 then []
      else (let (rs, carry) = mul_limb_loop a (ucast b) 0
            in if carry \<noteq> 0 then rs @ [ucast carry] else rs))"

text \<open>The \<open>int32_t\<close> overload: the factor is sign-extended to 64 bits.\<close>

definition big_mul_i32 :: "big_uint \<Rightarrow> u32 \<Rightarrow> big_uint" where
  "big_mul_i32 a b =
     (if big_eq_i32 a 0 \<or> b = 0 then []
      else (let (rs, carry) = mul_limb_loop a (scast b) 0
            in if carry \<noteq> 0 then rs @ [ucast carry] else rs))"

text \<open>One row of the schoolbook product, with a 32-bit carry.\<close>

primrec mul_row_loop :: "u32 list \<Rightarrow> u32 \<Rightarrow> u32 \<Rightarrow> u32 list \<times> u32" where
  "mul_row_loop [] b carry = ([], carry)"
| "mul_row_loop (d # ds) b carry =
     (let t = ucast d * ucast b + ucast carry :: u64;
          (rs, c) = mul_row_loop ds b (ucast (drop_bit 32 t))
      in (ucast (t AND 0xFFFFFFFF) # rs, c))"

definition mul_row :: "big_uint \<Rightarrow> nat \<Rightarrow> u32 \<Rightarrow> u32 list" where
  "mul_row a j digit_b =
     (let (rs, carry) = mul_row_loop a digit_b 0
      in replicate j 0 @ (if carry \<noteq> 0 then rs @ [carry] else rs))"

primrec mul_rows :: "big_uint \<Rightarrow> u32 list \<Rightarrow> nat \<Rightarrow> big_uint \<Rightarrow> big_uint" where
  "mul_rows a [] j acc = acc"
| "mul_rows a (b # bs) j acc =
     mul_rows a bs (Suc j)
       (trim_trailing_zeros
          (big_add_assign acc (trim_trailing_zeros (big_of_limbs (mul_row a j b)))))"

definition big_mul :: "big_uint \<Rightarrow> big_uint \<Rightarrow> big_uint" where
  "big_mul a b =
     (if big_eq_i32 a 0 \<or> big_eq_i32 b 0 then []
      else trim_trailing_zeros (mul_rows a b 0 []))"

definition big_mul_u64 :: "big_uint \<Rightarrow> u64 \<Rightarrow> big_uint" where
  "big_mul_u64 a b = big_mul a (big_of_u64 b)"

section \<open>Words and limbs\<close>

lemma radix_pos [simp]: "0 < radix" "radix \<noteq> 0" by (simp_all add: radix_def)

lemma u32_less: "unat (x :: u32) < radix"
  using unsigned_less [of x, where ?'a = nat] by (simp add: radix_def)

lemma u64_less: "unat (x :: u64) < radix * radix"
  using unsigned_less [of x, where ?'a = nat] by (simp add: radix_def)

lemma unat_ucast64 [simp]: "unat (ucast (z :: u32) :: u64) = unat z"
  using u32_less [of z] by (simp add: unsigned_ucast_eq take_bit_eq_mod radix_def)

lemma unat_ucast32: "unat (ucast (k :: u64) :: u32) = unat k mod radix"
  unfolding unsigned_ucast_eq by (simp add: take_bit_eq_mod radix_def)

lemma ucast_ucast_small: "unat (k :: u64) < radix \<Longrightarrow> ucast (ucast k :: u32) = k"
  by (intro unsigned_word_eqI [where ?'a = nat]) (simp add: unat_ucast32 unat_ucast64)

lemma unat_low [limb_simps]: "unat (ucast (t AND 0xFFFFFFFF :: u64) :: u32) = unat t mod radix"
proof -
  have "(0xFFFFFFFF :: u64) = mask 32" by (simp add: mask_eq_exp_minus_1)
  then have t: "t AND 0xFFFFFFFF = take_bit 32 t" by (simp add: take_bit_eq_mask)
  show ?thesis
    unfolding t unsigned_ucast_eq unsigned_take_bit_eq by (simp add: take_bit_eq_mod radix_def)
qed

lemma unat_high64 [limb_simps]: "unat (drop_bit 32 (t :: u64)) = unat t div radix"
  unfolding unat_drop_bit_eq radix_def by (rule drop_bit_eq_div)

lemma unat_high [limb_simps]: "unat (ucast (drop_bit 32 (t :: u64)) :: u32) = unat t div radix"
proof -
  have "unat t div radix < radix" using u64_less [of t] by (rule less_mult_imp_div_less)
  then show ?thesis
    unfolding unsigned_ucast_eq unat_high64 by (simp add: take_bit_eq_mod radix_def)
qed

lemma unat_small: "unat (x::u64) + unat (y::u64) < radix * radix \<Longrightarrow> unat (x + y) = unat x + unat y"
  by (simp add: unat_word_ariths radix_def)

lemma unat_add3 [limb_simps]:
  "unat (ucast x + ucast y + ucast c :: u64) = unat (x::u32) + unat (y::u32) + unat (c::u32)"
  using u32_less [of x] u32_less [of y] u32_less [of c] 
  by (simp add: unat_word_ariths radix_def)

lemma limb_prod_le: "unat (x::u32) * unat (y::u32) \<le> (radix - 1) * (radix - 1)"
  using u32_less [of x] u32_less [of y] by (intro mult_mono) auto

lemma limb_prod_add: "k < radix \<Longrightarrow> unat (x::u32) * unat (y::u32) + k < radix * radix"
proof -
  assume "k < radix"
  then have "unat x * unat y + k \<le> (radix - 1) * (radix - 1) + (radix - 1)"
    using limb_prod_le [of x y] by linarith
  also have "\<dots> < radix * radix" by (simp add: radix_def)
  finally show ?thesis .
qed

lemma unat_mul_add:
  assumes "unat k < radix"
  shows "unat (ucast x * ucast y + k :: u64) = unat (x::u32) * unat (y::u32) + unat k"
proof -
  have "unat x * unat y < radix * radix" "unat x * unat y + unat k < radix * radix"
    using limb_prod_add [OF assms, of x y] by simp_all
  then show ?thesis by (simp add: unat_word_ariths radix_def)
qed

section \<open>The value of a list of limbs\<close>

lemma bval_append [limb_simps]: "bval (xs @ ys) = bval xs + radix ^ length xs * bval ys"
  by (induction xs) (simp_all add: algebra_simps)

lemma bval_replicate0 [limb_simps]: "bval (replicate n 0) = 0"
  by (induction n) auto

lemma bval_zeros: "\<forall>y \<in> set ys. y = 0 \<Longrightarrow> bval ys = 0"
  by (induction ys) auto

lemma bval_trim [limb_simps]: "bval (trim_trailing_zeros a) = bval a"
proof -
  obtain ys where ys: "a = trim_trailing_zeros a @ ys" "\<forall>y \<in> set ys. y = 0"
    unfolding trim_trailing_zeros_def using drop_while_end_split [of a "\<lambda>d. d = 0"] by blast
  have "bval a = bval (trim_trailing_zeros a @ ys)" by (rule arg_cong [OF ys(1)])
  then show ?thesis by (simp add: bval_append bval_zeros [OF ys(2)])
qed

lemma normal_trim [simp, intro]: "normal (trim_trailing_zeros a)"
  unfolding normal_def trim_trailing_zeros_def using drop_while_end_last by blast

lemma trim_normal [simp]: "normal a \<Longrightarrow> trim_trailing_zeros a = a"
  by (auto simp: normal_def trim_trailing_zeros_def intro: drop_while_end_id)

lemma bval_less: "bval a < radix ^ length a"
proof (induction a)
  case (Cons d ds)
  have "unat d + radix * bval ds < radix * (bval ds + 1)" using u32_less [of d] by simp
  also have "\<dots> \<le> radix * radix ^ length ds" using Cons by (intro mult_left_mono) auto
  finally show ?case by simp
qed simp

lemma normal_Cons: "normal (d # ds) \<Longrightarrow> normal ds \<and> (ds = [] \<longrightarrow> d \<noteq> 0)"
  by (auto simp: normal_def split: if_splits)

lemma bval_zero_iff: "normal a \<Longrightarrow> bval a = 0 \<longleftrightarrow> a = []"
proof (induction a)
  case (Cons d ds)
  then show ?case using normal_Cons [OF Cons.prems] by (auto simp: unsigned_eq_0_iff)
qed simp

text \<open>Numbers in normal form are equal when their values are.\<close>

lemma bval_inj: "normal a \<Longrightarrow> normal b \<Longrightarrow> bval a = bval b \<Longrightarrow> a = b"
proof (induction a arbitrary: b)
  case Nil
  then show ?case using bval_zero_iff [of b] by simp
next
  case (Cons d ds)
  from Cons.prems bval_zero_iff [of "d # ds"] have "b \<noteq> []" by auto
  then obtain e es where b: "b = e # es" by (cases b) auto
  have eq: "unat d + radix * bval ds = unat e + radix * bval es" using Cons.prems(3) b by simp
  from arg_cong [OF eq, of "\<lambda>n. n mod radix"] have "unat d = unat e"
    using u32_less [of d] u32_less [of e] by simp
  moreover from this eq have "bval ds = bval es" by simp
  ultimately show ?case
    using Cons.IH [of es] normal_Cons [OF Cons.prems(1)] normal_Cons [of e es] Cons.prems(2) b
    by (simp add: unsigned_word_eqI)
qed

definition seg :: "big_uint \<Rightarrow> nat \<Rightarrow> nat \<Rightarrow> u32 list" where
  "seg a i k = map (limb a) [i..<i + k]"

lemma seg_Suc: "seg a i (Suc k) = limb a i # seg a (Suc i) k"
  by (simp add: seg_def upt_conv_Cons del: upt_Suc)

lemma seg_0 [simp]: "seg a i 0 = []" by (simp add: seg_def)

lemma seg_pad: "length a \<le> k \<Longrightarrow> seg a 0 k = pad_to k 0 a"
  by (intro nth_equalityI) (auto simp: seg_def limb_def nth_pad_to)

lemma bval_pad [limb_simps]: "bval (pad_to k 0 a) = bval a"
  by (simp add: pad_to_def limb_simps)

lemma bval_seg: "length a \<le> k \<Longrightarrow> bval (seg a 0 k) = bval a"
  by (simp add: seg_pad limb_simps)

section \<open>Addition\<close>

lemma length_add_loop [simp]: "length (fst (add_loop a b k i c)) = k"
proof (induction k arbitrary: i c)
  case (Suc k)
  show ?case by (simp add: Let_def case_prod_beta Suc)
qed simp

lemma radix_split: "x mod radix + radix * (y + x div radix) = radix * y + x"
  by (simp add: distrib_left)

lemma add_loop_val:
  "bval (fst (add_loop a b k i c)) + radix ^ k * unat (snd (add_loop a b k i c))
     = bval (seg a i k) + bval (seg b i k) + unat c"
proof (induction k arbitrary: i c)
  case (Suc k)
  define t where "t = (ucast (limb a i) + ucast (limb b i) + ucast c :: u64)"
  have t: "unat t = unat (limb a i) + unat (limb b i) + unat c"
    unfolding t_def by (rule unat_add3)
  obtain ds c' where r: "add_loop a b k (Suc i) (ucast (drop_bit 32 t)) = (ds, c')"
    by fastforce
  have IH: "bval ds + radix ^ k * unat c'
      = (bval (seg a (Suc i) k) + bval (seg b (Suc i) k)) + unat t div radix"
    using Suc [of "Suc i" "ucast (drop_bit 32 t)"] r by (simp only: unat_high fst_conv snd_conv)
  have "add_loop a b (Suc k) i c = (ucast (t AND 0xFFFFFFFF) # ds, c')"
    using r by (simp add: t_def Let_def)
  then have "bval (fst (add_loop a b (Suc k) i c)) + radix ^ Suc k * unat (snd (add_loop a b (Suc k) i c))
     = unat t mod radix + radix * (bval ds + radix ^ k * unat c')"
    by (simp only: fst_conv snd_conv bval.simps unat_low power_Suc) (simp add: algebra_simps)
  also have "\<dots> = radix * (bval (seg a (Suc i) k) + bval (seg b (Suc i) k)) + unat t"
    unfolding IH by (rule radix_split)
  finally show ?case by (simp add: t seg_Suc algebra_simps)
qed simp

text \<open>The loop that overwrites its first operand writes the same limbs.\<close>

lemma add_in_place_loop:
  "length a \<ge> i + k \<Longrightarrow> add_in_place a b k i c =
    (take i a @ fst (add_loop a b k i c) @ drop (i + k) a, snd (add_loop a b k i c))"
proof (induction k arbitrary: a i c)
  case (Suc k)
  define t where "t = (ucast (limb a i) + ucast (limb b i) + ucast c :: u64)"
  define a' where "a' = a[i := ucast (t AND 0xFFFFFFFF)]"
  have loop: "add_loop a' b k (Suc i) d = add_loop a b k (Suc i) d" for d
  proof -
    have "j > i \<Longrightarrow> add_loop a' b k j d = add_loop a b k j d" for j
      by (induction k arbitrary: j d) (simp_all add: Let_def limb_def a'_def)
    then show ?thesis by simp
  qed
  have "take (Suc i) a' = take i a @ [ucast (t AND 0xFFFFFFFF)]"
    using Suc.prems by (simp add: a'_def take_Suc_conv_app_nth)
  moreover have "drop (Suc i + k) a' = drop (i + Suc k) a"
    using Suc.prems by (simp add: a'_def)
  ultimately show ?case
    using Suc.IH [of "Suc i" a' "ucast (drop_bit 32 t)"] Suc.prems loop
    by (simp add: a'_def t_def Let_def case_prod_beta)
qed simp

lemma add_loop_pad: "add_loop (pad_to n 0 a) b k i c = add_loop a b k i c"
proof -
  have "limb (pad_to n 0 a) j = limb a j" for j
    by (auto simp: limb_def nth_pad_to not_le)
  then show ?thesis by (induction k arbitrary: i c) (simp_all add: Let_def)
qed

lemma big_add_assign_eq: "big_add_assign a b = big_add a b"
  by (simp add: big_add_assign_def big_add_def Let_def case_prod_beta add_in_place_loop
      add_loop_pad big_of_limbs_def)

lemma bval_big_add [limb_simps]: "bval (big_add a b) = bval a + bval b"
proof -
  define n where "n = max (length a) (length b)"
  obtain ds c where r: "add_loop a b n 0 0 = (ds, c)" by fastforce
  have "length ds = n" using length_add_loop [of a b n 0 0] r by simp
  moreover have "bval ds + radix ^ n * unat c = bval a + bval b"
    using add_loop_val [of a b n 0 0] r bval_seg [of a n] bval_seg [of b n] by (simp add: n_def)
  ultimately show ?thesis
    using r by (auto simp: big_add_def n_def [symmetric] big_of_limbs_def limb_simps)
qed

lemma normal_big_add [simp]: "normal (big_add a b)"
  by (simp add: big_add_def Let_def case_prod_beta)

section \<open>Subtraction\<close>

lemma sub_loop_val:
  "unat c \<le> 1 \<Longrightarrow>
    bval (fst (sub_loop a b k i c)) + bval (seg b i k) + unat c
      = bval (seg a i k) + radix ^ k * unat (snd (sub_loop a b k i c))
    \<and> unat (snd (sub_loop a b k i c)) \<le> 1"
proof (induction k arbitrary: i c)
  case (Suc k)
  let ?a = "limb a i" and ?b = "limb b i"
  have cond: "(int (unat ?b) > int (unat ?a) - int (unat c)) = (unat ?b + unat c > unat ?a)"
    by linarith
  show ?case
  proof (cases "unat ?b + unat c > unat ?a")
    case True
    define w where "w = ?a - ?b - c"
    obtain ds c' where r: "sub_loop a b k (Suc i) 1 = (ds, c')" by fastforce
    have "0xFFFFFFFF - ?b - c + ?a + 1 = w" by (simp add: w_def)
    then have eq: "sub_loop a b (Suc k) i c = (w # ds, c')"
      unfolding sub_loop.simps cond using True r by simp
    have w: "unat w + unat ?b + unat c = unat ?a + radix"
      using True Suc.prems u32_less [of ?a] u32_less [of ?b]
      by (auto simp: w_def unat_sub_if_size word_size radix_def)
    have IH: "bval ds + bval (seg b (Suc i) k) + 1 = bval (seg a (Suc i) k) + radix ^ k * unat c'"
      "unat c' \<le> 1"
      using Suc.IH [of 1 "Suc i"] r by simp_all
    from arg_cong [OF IH(1), of "\<lambda>n. radix * n"] w IH(2) show ?thesis
      unfolding eq by (simp add: seg_Suc algebra_simps)
  next
    case False
    define w where "w = ?a - ?b - c"
    obtain ds c' where r: "sub_loop a b k (Suc i) 0 = (ds, c')" by fastforce
    have eq: "sub_loop a b (Suc k) i c = (w # ds, c')"
      unfolding sub_loop.simps cond using False r by (simp add: w_def)
    have w: "unat w + unat ?b + unat c = unat ?a"
      using False by (simp add: w_def unat_sub_if_size) arith
    have IH: "bval ds + bval (seg b (Suc i) k) = bval (seg a (Suc i) k) + radix ^ k * unat c'"
      "unat c' \<le> 1"
      using Suc.IH [of 0 "Suc i"] r by simp_all
    from arg_cong [OF IH(1), of "\<lambda>n. radix * n"] w IH(2) show ?thesis
      unfolding eq by (simp add: seg_Suc algebra_simps)
  qed
qed simp

text \<open>A difference is exact when it is not negative; otherwise it wraps at the longer operand.\<close>

lemma bval_big_sub_gen:
  assumes n: "n = max (length a) (length b)"
  shows "(bval (big_sub a b) + bval b = bval a \<and> bval b \<le> bval a)
    \<or> (bval (big_sub a b) + bval b = bval a + radix ^ n \<and> bval a < bval b)"
proof -
  obtain ds c where r: "sub_loop (pad_to n 0 a) b n 0 0 = (ds, c)" by fastforce
  have *: "bval ds + bval b = bval a + radix ^ n * unat c \<and> unat c \<le> 1"
    using sub_loop_val [of 0 "pad_to n 0 a" b n 0] r bval_seg [of "pad_to n 0 a" n]
      bval_seg [of b n] n by (simp add: limb_simps)
  have len: "bval ds < radix ^ n"
  proof -
    have "length (fst (sub_loop x y k i d)) = k" for x y k i d
      by (induction k arbitrary: i d) (simp_all add: Let_def case_prod_beta)
    from this [of "pad_to n 0 a" b n 0 0] r bval_less [of ds] show ?thesis by simp
  qed
  have val: "bval (big_sub a b) = bval ds"
    using r by (simp add: big_sub_def n [symmetric] limb_simps)
  from * have "unat c = 0 \<or> unat c = 1" by linarith
  then show ?thesis using * len unfolding val by auto
qed

lemma bval_big_sub [limb_simps]: "bval b \<le> bval a \<Longrightarrow> bval (big_sub a b) = bval a - bval b"
  using bval_big_sub_gen [of _ a b] by fastforce

lemma normal_big_sub [simp]: "normal (big_sub a b)"
  by (simp add: big_sub_def Let_def)

section \<open>Multiplication\<close>

lemma big_eq_i32_0 [simp]: "big_eq_i32 a 0 \<longleftrightarrow> a = [] \<or> a = [0]"
  by (cases a) (auto simp: big_eq_i32_def)

lemma mul_limb_loop_val:
  fixes b :: u32
  shows "unat c < radix \<Longrightarrow>
    bval (fst (mul_limb_loop a (ucast b) c))
      + radix ^ length a * unat (snd (mul_limb_loop a (ucast b) c)) = bval a * unat b + unat c
    \<and> unat (snd (mul_limb_loop a (ucast b) c)) < radix
    \<and> length (fst (mul_limb_loop a (ucast b) c)) = length a"
proof (induction a arbitrary: c)
  case (Cons d a)
  define t where "t = (ucast d * ucast b + c :: u64)"
  have t: "unat t = unat d * unat b + unat c" unfolding t_def by (rule unat_mul_add [OF Cons.prems])
  obtain ds c' where r: "mul_limb_loop a (ucast b) (drop_bit 32 t) = (ds, c')" by fastforce
  have small: "unat (drop_bit 32 t) < radix"
    unfolding unat_high64 t using limb_prod_add [OF Cons.prems, of d b]
    by (rule less_mult_imp_div_less)
  have IH: "bval ds + radix ^ length a * unat c' = bval a * unat b + unat t div radix"
    "unat c' < radix" "length ds = length a"
    using Cons.IH [OF small] r by (simp_all add: unat_high64)
  have eq: "mul_limb_loop (d # a) (ucast b) c = (ucast (t AND 0xFFFFFFFF) # ds, c')"
    using r by (simp add: t_def Let_def)
  then have "bval (fst (mul_limb_loop (d # a) (ucast b) c))
      + radix ^ length (d # a) * unat (snd (mul_limb_loop (d # a) (ucast b) c))
    = unat t mod radix + radix * (bval ds + radix ^ length a * unat c')"
    by (simp add: unat_low algebra_simps)
  also have "\<dots> = radix * (bval a * unat b) + unat t" unfolding IH(1) by (rule radix_split)
  finally show ?case using eq IH t by (simp add: algebra_simps)
qed simp

lemma mul_row_loop_eq:
  fixes b :: u32
  shows "unat c < radix \<Longrightarrow> mul_row_loop a b (ucast c) =
    (fst (mul_limb_loop a (ucast b) c), ucast (snd (mul_limb_loop a (ucast b) c)))"
proof (induction a arbitrary: c)
  case (Cons d a)
  have small: "unat (drop_bit 32 (ucast d * ucast b + c :: u64)) < radix"
    unfolding unat_high64 unat_mul_add [OF Cons.prems]
    using limb_prod_add [OF Cons.prems, of d b] by (rule less_mult_imp_div_less)
  show ?case
    using Cons.IH [OF small] by (simp add: Let_def case_prod_beta ucast_ucast_small [OF Cons.prems])
qed simp

lemma bval_big_mul_u32 [limb_simps]: "bval (big_mul_u32 a b) = bval a * unat b"
proof -
  obtain ds c where r: "mul_limb_loop a (ucast b) 0 = (ds, c)" by fastforce
  have *: "bval ds + radix ^ length a * unat c = bval a * unat b" "unat c < radix" "length ds = length a"
    using mul_limb_loop_val [of 0 a b] r by simp_all
  have uc: "unat (ucast c :: u32) = unat c"
    using *(2) by (simp add: unat_ucast32)
  from * r show ?thesis
    by (auto simp: big_mul_u32_def limb_simps uc Let_def)
qed

lemma bval_mul_row [limb_simps]: "bval (mul_row a j b) = radix ^ j * (bval a * unat b)"
proof -
  obtain ds c where r: "mul_limb_loop a (ucast b) 0 = (ds, c)" by fastforce
  have *: "bval ds + radix ^ length a * unat c = bval a * unat b" "unat c < radix" "length ds = length a"
    using mul_limb_loop_val [of 0 a b] r by simp_all
  have uc: "unat (ucast c :: u32) = unat c"
    using *(2) by (simp add: unat_ucast32)
  have "mul_row_loop a b 0 = (ds, ucast c)" using mul_row_loop_eq [of 0 a b] r by simp
  with * uc show ?thesis
    by (auto simp: mul_row_def limb_simps unsigned_eq_0_iff [symmetric] simp flip: *(1))
qed

lemma bval_mul_rows [limb_simps]:
  "bval (mul_rows a bs j acc) = bval acc + radix ^ j * (bval a * bval bs)"
  by (induction bs arbitrary: j acc)
     (simp_all add: limb_simps big_add_assign_eq big_of_limbs_def algebra_simps)

lemma bval_big_mul [limb_simps]: "bval (big_mul a b) = bval a * bval b"
  by (auto simp: big_mul_def limb_simps)

lemma normal_big_mul [simp]: "normal (big_mul a b)"
  by (simp add: big_mul_def normal_def [of "[]"])

section \<open>Bits\<close>

lemma limb_trim [simp]: "limb (trim_trailing_zeros a) i = limb a i"
proof -
  obtain ys where ys: "a = trim_trailing_zeros a @ ys" "\<forall>y \<in> set ys. y = 0"
    unfolding trim_trailing_zeros_def using drop_while_end_split [of a "\<lambda>d. d = 0"] by blast
  have "limb (trim_trailing_zeros a @ ys) i = limb (trim_trailing_zeros a) i"
    using ys(2) by (auto simp: limb_def nth_append)
  then show ?thesis using ys(1) by simp
qed

lemma limb_pad [simp]: "limb (pad_to n 0 a) i = limb a i"
  by (auto simp: limb_def nth_pad_to not_le)

lemma limb_map_upt: "limb (map f [0..<n]) i = (if i < n then f i else 0)"
  by (simp add: limb_def)

lemma nth_pad_limb: "i < max n (length a) \<Longrightarrow> pad_to n 0 a ! i = limb a i"
  by (auto simp: nth_pad_to limb_def)

lemma limb_beyond: "length a \<le> i \<Longrightarrow> limb a i = 0"
  by (simp add: limb_def)

lemma limb_big_and [simp]: "limb (big_and a b) i = limb a i AND limb b i"
  by (simp add: big_and_def Let_def limb_map_upt nth_pad_limb limb_beyond)

lemma limb_big_or [simp]: "limb (big_or a b) i = limb a i OR limb b i"
  by (simp add: big_or_def Let_def limb_map_upt nth_pad_limb limb_beyond)

lemma limb_big_not: "limb (big_not a) i = (if i < length a then NOT (a ! i) else 0)"
  by (simp add: big_not_def big_of_limbs_def limb_def [of "map _ _"])

lemma limb_big_and_ones: "limb (big_and_ones a b) i =
    (if i < max (length a) (length b) then limb_or_ones a i AND limb_or_ones b i else 0)"
  by (simp add: big_and_ones_def big_of_limbs_def Let_def limb_map_upt)

lemma big_and_ones_in_place_eq: "big_and_ones_in_place a b = big_and_ones a b"
proof -
  have eq: "map (\<lambda>i. pad_to n 0xFFFFFFFF a ! i AND limb_or_ones b i) [0..<n]
      = map (\<lambda>i. limb_or_ones a i AND limb_or_ones b i) [0..<n]" for n
    by (auto simp: limb_or_ones_def nth_pad_to)
  show ?thesis
    unfolding big_and_ones_in_place_def big_and_ones_def big_of_limbs_def Let_def
    by (simp only: eq trim_normal [OF normal_trim])
qed

lemma normal_bitwise [simp]:
  "normal (big_and a b)" "normal (big_or a b)" "normal (big_not a)" "normal (big_and_ones a b)"
  by (simp_all add: big_and_def big_or_def big_not_def big_and_ones_def big_of_limbs_def Let_def)

text \<open>Bit \<open>n\<close> of a number is bit \<open>n mod 32\<close> of limb \<open>n div 32\<close>.\<close>

definition big_bit :: "big_uint \<Rightarrow> nat \<Rightarrow> bool" where
  "big_bit a n = bit (limb a (n div 32)) (n mod 32)"

lemma bit_radix_split: "x < radix \<Longrightarrow> bit (x + radix * y) n = (if n < 32 then bit x n else bit y (n - 32))"
proof -
  assume x: "x < radix"
  have t: "take_bit 32 (x + radix * y) = x" and d: "drop_bit 32 (x + radix * y) = y"
    using x by (simp_all add: take_bit_eq_mod drop_bit_eq_div radix_def)
  show ?thesis
  proof (cases "n < 32")
    case True
    then show ?thesis using t by (metis bit_take_bit_iff)
  next
    case False
    have "bit (drop_bit 32 (x + radix * y)) (n - 32) = bit (x + radix * y) n"
      using False by (simp add: bit_drop_bit_eq)
    with d False show ?thesis by simp
  qed
qed

lemma bit_bval: "bit (bval a) n = big_bit a n"
proof (induction a arbitrary: n)
  case Nil
  then show ?case by (simp add: big_bit_def limb_def)
next
  case (Cons d ds)
  show ?case
  proof (cases "n < 32")
    case True
    then show ?thesis
      using bit_radix_split [OF u32_less [of d]] by (simp add: big_bit_def limb_def bit_unsigned_iff)
  next
    case False
    then obtain m where m: "n = m + 32" by (metis le_add_diff_inverse2 not_le)
    have "(m + 32) div 32 = Suc (m div 32)" by simp
    moreover have "limb (d # ds) (Suc k) = limb ds k" for k by (simp add: limb_def)
    ultimately show ?thesis
      using bit_radix_split [OF u32_less [of d]] Cons [of m] unfolding m big_bit_def
      by (simp del: div_add_self2)
  qed
qed

lemma big_bit_and [simp]: "big_bit (big_and a b) n = (big_bit a n \<and> big_bit b n)"
  by (simp add: big_bit_def bit_and_iff)

lemma big_bit_or [simp]: "big_bit (big_or a b) n = (big_bit a n \<or> big_bit b n)"
  by (simp add: big_bit_def bit_or_iff)

lemma bval_big_and [limb_simps]: "bval (big_and a b) = bval a AND bval b"
  by (rule bit_eqI) (simp add: bit_bval bit_and_iff)

lemma bval_big_or [limb_simps]: "bval (big_or a b) = bval a OR bval b"
  by (rule bit_eqI) (simp add: bit_bval bit_or_iff)

lemma big_eq_bits: "normal a \<Longrightarrow> normal b \<Longrightarrow> (\<And>n. big_bit a n = big_bit b n) \<Longrightarrow> a = b"
  by (intro bval_inj bit_eqI) (auto simp: bit_bval)

section \<open>Constructors\<close>

lemma bval_big_of_u64 [limb_simps]: "bval (big_of_u64 a) = unat a" "normal (big_of_u64 a)"
proof -
  have split: "unat a mod radix + radix * (unat a div radix) = unat a" by simp
  have hi: "unat (ucast (drop_bit 32 a) :: u32) = unat a div radix" by (rule unat_high)
  show "bval (big_of_u64 a) = unat a"
  proof (cases "(ucast (drop_bit 32 a) :: u32) = 0")
    case True
    with hi have "unat a div radix = 0" by simp
    then have "unat a < radix" by (simp add: div_eq_0_iff)
    then show ?thesis using True by (simp add: big_of_u64_def unat_ucast32)
  next
    case False
    with split hi show ?thesis
      by (auto simp add: big_of_u64_def Let_def unat_low)
  qed
  show "normal (big_of_u64 a)"
  proof (cases "(ucast (drop_bit 32 a) :: u32) = 0")
    case True
    with hi have "unat a div radix = 0" by simp
    then have small: "unat a < radix" by (simp add: div_eq_0_iff)
    have "a \<noteq> 0 \<Longrightarrow> (ucast a :: u32) \<noteq> 0"
      using ucast_ucast_small [OF small] by auto
    then show ?thesis using True by (auto simp: big_of_u64_def normal_def)
  qed (simp add: big_of_u64_def normal_def Let_def)
qed

lemma bval_big_of_u32 [limb_simps]: "bval (big_of_u32 a) = unat a" "normal (big_of_u32 a)"
  by (simp_all add: big_of_u32_def normal_def)


section \<open>Comparisons\<close>

text \<open>On numbers in normal form the overloads of \<open>operator==\<close> compare values.\<close>

lemma big_eq_u32_iff: "normal a \<Longrightarrow> big_eq_u32 a k \<longleftrightarrow> bval a = unat k"
proof -
  assume n: "normal a"
  have "big_eq_u32 a k \<longleftrightarrow> a = big_of_u32 k"
    using n by (auto simp: big_eq_u32_def big_of_u32_def normal_def length_Suc_conv)
  also have "\<dots> \<longleftrightarrow> bval a = unat k"
    using n bval_inj [of a "big_of_u32 k"] by (auto simp: limb_simps)
  finally show ?thesis .
qed

lemma big_eq_u64_iff: "normal a \<Longrightarrow> big_eq_u64 a k \<longleftrightarrow> bval a = unat k"
proof -
  assume n: "normal a"
  let ?w2 = "drop_bit 32 k"
  have w2: "unat ?w2 < radix"
    unfolding unat_high64 using u64_less [of k] by (rule less_mult_imp_div_less)
  have lo: "?w2 = 0 \<Longrightarrow> k \<noteq> 0 \<Longrightarrow> (ucast k :: u32) \<noteq> 0"
  proof -
    assume "?w2 = 0" "k \<noteq> 0"
    then have "unat k div radix = 0" using unat_high64 [of k] by simp
    then have "unat k < radix" by (simp add: div_eq_0_iff)
    from ucast_ucast_small [OF this] \<open>k \<noteq> 0\<close> show ?thesis by auto
  qed
  have z: "(ucast ?w2 :: u32) = 0 \<longleftrightarrow> ?w2 = 0"
    using ucast_ucast_small [OF w2] by auto
  have e: "ucast x = ?w2 \<longleftrightarrow> x = (ucast ?w2 :: u32)" for x :: u32
  proof
    assume "ucast x = ?w2"
    then have "unat x = unat (ucast ?w2 :: u32)" using w2 unat_ucast64 [of x] by (simp add: unat_ucast32)
    then show "x = ucast ?w2" by (simp add: unsigned_word_eqI)
  qed (simp add: ucast_ucast_small [OF w2])
  have "big_eq_u64 a k \<longleftrightarrow> a = big_of_u64 k"
  proof (cases "length a = 2")
    case True
    then obtain x y where "a = [x, y]" by (auto simp: length_Suc_conv numeral_2_eq_2)
    then show ?thesis
      using n by (auto simp: big_eq_u64_def big_of_u64_def Let_def e z normal_def)
  next
    case False
    then show ?thesis
      using n lo by (auto simp: big_eq_u64_def big_of_u64_def Let_def z normal_def length_Suc_conv)
  qed
  also have "\<dots> \<longleftrightarrow> bval a = unat k"
    using n bval_inj [of a "big_of_u64 k"] by (auto simp: limb_simps)
  finally show ?thesis .
qed

end
