(* ===== verification/Big_Uint_Text.thy ===== *)
theory Big_Uint_Text
  imports Big_Uint
begin

text \<open>
  Reading and printing of the big integers, \<open>common/big_uint.h\<close>: the constructors from a
  string, the decimal accumulator \<open>big_uint_to_string_accumulator\<close> and \<open>to_string\<close>. The
  accumulator's \<open>m_data\<close> holds decimal digits, least significant first; the digits stay
  below 10 (\<open>acc_ok\<close>), so its \<open>char\<close> arithmetic, which goes up to 19, does not overflow
  and is written on natural numbers.
\<close>

unbundle bit_operations_syntax

section \<open>Reading\<close>

text \<open>
  \<open>big_uint(std::string_view)\<close>: after the leading zeros, chunks of up to nine digits are
  read with \<open>std::from_chars\<close>; a chunk that does not start with a digit ends the reading.
\<close>

function parse_loop :: "string \<Rightarrow> big_uint \<Rightarrow> big_uint" where
  "parse_loop s acc =
     (if s = [] then acc
      else (let k = min 9 (length s); (r, used) = from_chars 32 0 (take k s)
            in if used = 0 then acc
               else parse_loop (drop k s)
                 (big_add_assign (big_mul_u32 acc (word_of_nat (10 ^ k)))
                    (big_of_u32 (word_of_nat r)))))"
  by pat_completeness auto
termination
  by (relation "measure (\<lambda>(s, acc). length s)") auto

declare parse_loop.simps [simp del]

definition big_of_string :: "string \<Rightarrow> big_uint" where
  "big_of_string s =
     (let s' = dropWhile (\<lambda>c. c = CHR ''0'') s in if s' = [] then [] else parse_loop s' [])"

text \<open>
  The constructor with a base reads chunks of up to four digits. Its \<open>r\<close> is not
  initialised; \<open>junk\<close> is the value it happens to hold.
\<close>

function parse_loop_base :: "nat \<Rightarrow> nat \<Rightarrow> string \<Rightarrow> big_uint \<Rightarrow> big_uint" where
  "parse_loop_base b junk s acc =
     (if s = [] then acc
      else (let k = min 4 (length s); (r, used) = from_chars_base 32 b junk (take k s)
            in if used = 0 then acc
               else parse_loop_base b junk (drop k s)
                 (big_add_assign (big_mul_u32 acc (word_of_nat (b ^ k)))
                    (big_of_u32 (word_of_nat r)))))"
  by pat_completeness auto
termination
  by (relation "measure (\<lambda>(b, junk, s, acc). length s)") auto

declare parse_loop_base.simps [simp del]

definition big_of_string_base :: "nat \<Rightarrow> string \<Rightarrow> nat \<Rightarrow> big_uint" where
  "big_of_string_base junk s b =
     (let s' = dropWhile (\<lambda>c. c = CHR ''0'') s in if s' = [] then [] else parse_loop_base b junk s' [])"

section \<open>Printing\<close>

primrec acc_add_loop :: "nat list \<Rightarrow> nat \<Rightarrow> nat list \<times> nat" where
  "acc_add_loop [] carry = ([], carry)"
| "acc_add_loop (c # cs) carry =
     (let r = c + carry; (ds, carry') = acc_add_loop cs (r div 10) in (r mod 10 # ds, carry'))"

definition acc_add_u32 :: "nat list \<Rightarrow> nat \<Rightarrow> nat list" where
  "acc_add_u32 m n =
     (let (ds, carry) = acc_add_loop m n
      in if carry \<noteq> 0 then ds @ rev (dec_digits carry) else ds)"

primrec acc_sum_loop :: "nat list \<Rightarrow> nat list \<Rightarrow> nat \<Rightarrow> nat list \<times> nat" where
  "acc_sum_loop [] other carry = ([], carry)"
| "acc_sum_loop (c # cs) other carry =
     (let x = c + (case other of [] \<Rightarrow> 0 | o' # _ \<Rightarrow> o') + carry;
          (ds, carry') = acc_sum_loop cs (tl other) (x div 10)
      in (x mod 10 # ds, carry'))"

definition acc_add :: "nat list \<Rightarrow> nat list \<Rightarrow> nat list" where
  "acc_add m n =
     (let m' = (if length n > length m then pad_to (length n) 0 m else m);
          (ds, carry) = acc_sum_loop m' n 0
      in if carry \<noteq> 0 then ds @ rev (dec_digits carry) else ds)"

definition multiply_by_10_to_pow :: "nat \<Rightarrow> nat list \<Rightarrow> nat list" where
  "multiply_by_10_to_pow e m = replicate e 0 @ m"

primrec acc_mul_loop :: "nat list \<Rightarrow> nat \<Rightarrow> nat \<Rightarrow> nat list \<Rightarrow> nat list" where
  "acc_mul_loop [] n i ret = ret"
| "acc_mul_loop (c # cs) n i ret =
     acc_mul_loop cs n (Suc i)
       (acc_add ret (multiply_by_10_to_pow i (rev (dec_digits (c * n)))))"

definition acc_mul :: "nat list \<Rightarrow> nat \<Rightarrow> nat list" where
  "acc_mul m n = acc_mul_loop m n 0 []"

definition get_final_result :: "nat list \<Rightarrow> string" where
  "get_final_result m = rev (map digit_char m)"

definition big_to_acc :: "big_uint \<Rightarrow> nat list" where
  "big_to_acc a = foldl (\<lambda>acc n. acc_add_u32 (acc_mul acc (2 ^ 32)) (unat n)) [] (rev a)"

definition big_to_string :: "big_uint \<Rightarrow> string" where
  "big_to_string a = (if big_eq_i32 a 0 then ''0'' else get_final_result (big_to_acc a))"

section \<open>The value of what is read\<close>

lemma unat_word10: "k \<le> 9 \<Longrightarrow> unat ((10 :: u32) ^ k) = 10 ^ k"
proof -
  assume "k \<le> 9"
  then have "(10::nat) ^ k \<le> 10 ^ 9" by (intro power_increasing) auto
  then have "(10::nat) ^ k < 2 ^ 32" by simp
  then have "unat (word_of_nat (10 ^ k) :: u32) = 10 ^ k"
    unfolding unsigned_of_nat take_bit_eq_mod by simp
  then show ?thesis by simp
qed

lemma parse_loop_val:
  "list_all is_digit s \<Longrightarrow> bval (parse_loop s acc) = bval acc * 10 ^ length s + dec_val s"
proof (induction s acc rule: parse_loop.induct)
  case (1 s acc)
  show ?case
  proof (cases "s = []")
    case True
    then show ?thesis by (simp add: parse_loop.simps)
  next
    case False
    define k where "k = min 9 (length s)"
    define h where "h = take k s"
    have k: "0 < k" "k \<le> 9" "k \<le> length s" and lh: "length h = k"
      using False by (auto simp: k_def h_def)
    have digits: "list_all is_digit h" "list_all is_digit (drop k s)"
      using "1.prems" by (auto simp: h_def list_all_iff dest: in_set_takeD in_set_dropD)
    have "dec_val h < 10 ^ k" using dec_val_less [OF digits(1)] lh by simp
    also have "(10::nat) ^ k \<le> 10 ^ 9" using k by (intro power_increasing) auto
    finally have small: "dec_val h < 2 ^ 32" by simp
    have r: "from_chars 32 0 h = (dec_val h, k)"
      using from_chars_all_digits [OF digits(1) _ small, of 0] lh k by auto
    define acc' where "acc' = big_add_assign (big_mul_u32 acc (word_of_nat (10 ^ k)))
      (big_of_u32 (word_of_nat (dec_val h)))"
    have "bval (parse_loop (drop k s) acc') = bval acc' * 10 ^ length (drop k s) + dec_val (drop k s)"
      using "1.IH" [OF False k_def r [unfolded h_def, symmetric]] k digits r
      by (simp add: acc'_def h_def)
    moreover have "bval acc' = bval acc * 10 ^ k + dec_val h"
      using small k by (simp add: acc'_def big_add_assign_eq limb_simps unat_word10 unsigned_of_nat
          take_bit_eq_mod)
    moreover have "parse_loop s acc = parse_loop (drop k s) acc'"
      using False k r by (subst parse_loop.simps) (simp add: k_def [symmetric] h_def acc'_def)
    moreover have "dec_val s = 10 ^ length (drop k s) * dec_val h + dec_val (drop k s)"
      using dec_val_append [of h "drop k s"] by (simp add: h_def)
    moreover have "(10::nat) ^ length s = 10 ^ k * 10 ^ length (drop k s)"
      using k by (simp flip: power_add)
    ultimately show ?thesis by (simp add: algebra_simps)
  qed
qed

lemma normal_parse_loop: "normal acc \<Longrightarrow> normal (parse_loop s acc)"
proof (induction s acc rule: parse_loop.induct)
  case (1 s acc)
  then show ?case
    by (simp add: parse_loop.simps [of s acc] Let_def big_add_assign_eq split: prod.splits)
qed

lemma normal_big_of_string [simp]: "normal (big_of_string s)"
  by (simp add: big_of_string_def Let_def normal_parse_loop normal_def [of "[]"])

lemma bval_big_of_string: "list_all is_digit s \<Longrightarrow> bval (big_of_string s) = dec_val s"
proof -
  let ?s = "dropWhile (\<lambda>c. c = CHR ''0'') s"
  assume "list_all is_digit s"
  then have "list_all is_digit ?s" by (auto simp: list_all_iff dest: set_dropWhileD)
  then have v: "bval (parse_loop ?s []) = dec_val ?s" using parse_loop_val by simp
  show ?thesis
  proof (cases "?s = []")
    case True
    then have "dec_val s = 0" by (metis dec_val_Nil dec_val_zeros)
    with True show ?thesis unfolding big_of_string_def Let_def by (metis bval.simps(1))
  next
    case False
    then show ?thesis unfolding big_of_string_def Let_def using v dec_val_zeros [of s] by metis
  qed
qed

section \<open>The value of what is printed\<close>

primrec lval :: "nat list \<Rightarrow> nat" where
  "lval [] = 0"
| "lval (d # ds) = d + 10 * lval ds"

definition acc_ok :: "nat list \<Rightarrow> bool" where
  "acc_ok m = (\<forall>d \<in> set m. d < 10)"

lemma acc_ok_simps [simp]:
  "acc_ok []" "acc_ok (d # ds) = (d < 10 \<and> acc_ok ds)" "acc_ok (xs @ ys) = (acc_ok xs \<and> acc_ok ys)"
  "acc_ok (rev xs) = acc_ok xs" "acc_ok (replicate n 0)"
  by (auto simp: acc_ok_def)

lemma lval_append: "lval (xs @ ys) = lval xs + 10 ^ length xs * lval ys"
  by (induction xs) (simp_all add: algebra_simps)

lemma lval_replicate0 [simp]: "lval (replicate n 0) = 0"
  by (induction n) auto

lemma lval_rev_dec_digits [simp]: "lval (rev (dec_digits n)) = n"
proof (induction n rule: dec_digits.induct)
  case (1 n)
  then show ?case by (subst dec_digits.simps) auto
qed

lemma acc_ok_dec_digits [simp]: "acc_ok (dec_digits n)"
  using dec_digits_less by (simp add: acc_ok_def)

lemma split10: "x mod 10 + 10 * (y + x div 10) = 10 * y + (x :: nat)"
  by (simp add: distrib_left)

lemma acc_add_loop_val:
  "lval (fst (acc_add_loop m c)) + 10 ^ length m * snd (acc_add_loop m c) = lval m + c
   \<and> length (fst (acc_add_loop m c)) = length m \<and> acc_ok (fst (acc_add_loop m c))"
proof (induction m arbitrary: c)
  case (Cons d m)
  obtain ds c' where r: "acc_add_loop m ((d + c) div 10) = (ds, c')" by fastforce
  have IH: "lval ds + 10 ^ length m * c' = lval m + (d + c) div 10" "length ds = length m" "acc_ok ds"
    using Cons [of "(d + c) div 10"] r by simp_all
  have eq: "acc_add_loop (d # m) c = ((d + c) mod 10 # ds, c')" using r by simp
  have "lval ((d + c) mod 10 # ds) + 10 ^ length (d # m) * c'
      = (d + c) mod 10 + 10 * (lval ds + 10 ^ length m * c')" by simp
  also have "\<dots> = 10 * lval m + (d + c)" unfolding IH(1) by (rule split10)
  finally show ?case unfolding eq using IH(2,3) by simp
qed simp

lemma acc_add_u32_val [simp]: "lval (acc_add_u32 m n) = lval m + n"
  and acc_add_u32_ok [simp]: "acc_ok (acc_add_u32 m n)"
proof -
  obtain ds c where r: "acc_add_loop m n = (ds, c)" by fastforce
  have v: "lval ds + 10 ^ length m * c = lval m + n" "length ds = length m" "acc_ok ds"
    using acc_add_loop_val [of m n] r by simp_all
  from v r show "lval (acc_add_u32 m n) = lval m + n" "acc_ok (acc_add_u32 m n)"
    by (auto simp: acc_add_u32_def lval_append)
qed

lemma acc_sum_loop_val:
  "length n \<le> length m \<Longrightarrow>
   lval (fst (acc_sum_loop m n c)) + 10 ^ length m * snd (acc_sum_loop m n c) = lval m + lval n + c
   \<and> length (fst (acc_sum_loop m n c)) = length m \<and> acc_ok (fst (acc_sum_loop m n c))"
proof (induction m arbitrary: n c)
  case (Cons d m)
  define x where "x = d + (case n of [] \<Rightarrow> 0 | o' # _ \<Rightarrow> o') + c"
  obtain ds c' where r: "acc_sum_loop m (tl n) (x div 10) = (ds, c')" by fastforce
  have IH: "lval ds + 10 ^ length m * c' = lval m + lval (tl n) + x div 10"
    "length ds = length m" "acc_ok ds"
    using Cons.IH [of "tl n" "x div 10"] Cons.prems r by (simp_all add: Suc_le_eq)
  have "lval (d # m) + lval n + c = x + 10 * (lval m + lval (tl n))"
    by (cases n) (simp_all add: x_def)
  moreover have "lval (x mod 10 # ds) + 10 ^ length (d # m) * c'
      = x mod 10 + 10 * (lval ds + 10 ^ length m * c')" by simp
  moreover have "\<dots> = 10 * (lval m + lval (tl n)) + x" unfolding IH(1) by (rule split10)
  moreover have "acc_sum_loop (d # m) n c = (x mod 10 # ds, c')"
    using r by (simp add: x_def Let_def)
  ultimately show ?case using IH(2,3) by simp
qed simp

lemma acc_add_val [simp]: "lval (acc_add m n) = lval m + lval n"
  and acc_add_ok [simp]: "acc_ok (acc_add m n)"
proof -
  define m' where "m' = pad_to (length n) 0 m"
  have m': "(if length n > length m then pad_to (length n) 0 m else m) = m'" "length n \<le> length m'"
    "lval m' = lval m"
    by (simp_all add: m'_def pad_to_def lval_append)
  obtain ds c where r: "acc_sum_loop m' n 0 = (ds, c)" by fastforce
  have "lval ds + 10 ^ length m' * c = lval m + lval n" "length ds = length m'" "acc_ok ds"
    using acc_sum_loop_val [OF m'(2), of 0] r m'(3) by simp_all
  then show "lval (acc_add m n) = lval m + lval n" "acc_ok (acc_add m n)"
    using r unfolding acc_add_def Let_def m'(1) by (auto simp: lval_append)
qed

lemma acc_mul_loop_val:
  "acc_ok ret \<Longrightarrow> lval (acc_mul_loop m n i ret) = lval ret + 10 ^ i * (lval m * n)
    \<and> acc_ok (acc_mul_loop m n i ret)"
  by (induction m arbitrary: i ret)
     (simp_all add: multiply_by_10_to_pow_def lval_append algebra_simps)

lemma acc_mul_val [simp]: "lval (acc_mul m n) = lval m * n" "acc_ok (acc_mul m n)"
  using acc_mul_loop_val [of "[]" m n 0] by (simp_all add: acc_mul_def)

lemma big_to_acc_val: "lval (big_to_acc a) = bval a \<and> acc_ok (big_to_acc a)"
proof -
  have "lval (foldl (\<lambda>acc n. acc_add_u32 (acc_mul acc (2 ^ 32)) (unat n)) m ds)
      = radix ^ length ds * lval m + bval (rev ds)
    \<and> (acc_ok m \<longrightarrow> acc_ok (foldl (\<lambda>acc n. acc_add_u32 (acc_mul acc (2 ^ 32)) (unat n)) m ds))"
    for m ds
    by (induction ds arbitrary: m) (simp_all add: limb_simps radix_def algebra_simps)
  from this [of "[]" "rev a"] show ?thesis by (simp add: big_to_acc_def)
qed

lemma dec_val_get_final_result: "acc_ok m \<Longrightarrow> dec_val (get_final_result m) = lval m"
  by (induction m) (simp_all add: get_final_result_def)

lemma digits_get_final_result: "acc_ok m \<Longrightarrow> list_all is_digit (get_final_result m)"
  by (auto simp: get_final_result_def acc_ok_def list_all_iff)

lemma big_to_string_val:
  "list_all is_digit (big_to_string a)" "dec_val (big_to_string a) = bval a"
proof -
  have "is_digit (CHR ''0'')" "dec_val ''0'' = 0" by (simp_all add: is_digit_def dec_val_def digit_val_def)
  then show "list_all is_digit (big_to_string a)" "dec_val (big_to_string a) = bval a"
    using big_to_acc_val [of a]
    by (auto simp: big_to_string_def digits_get_final_result dec_val_get_final_result)
qed

section \<open>Properties of the big integers\<close>

text \<open>C17: Addition (both forms), multiplication by a limb and by a number are the operations on
  natural numbers, without overflow at any length; subtraction is exact when the result is
  not negative, and otherwise wraps at the limbs of the longer operand.\<close>
theorem big_arith_correct:
  "bval (big_add a b) = bval a + bval b
   \<and> big_add_assign a b = big_add a b
   \<and> bval (big_mul_u32 a k) = bval a * unat k
   \<and> bval (big_mul a b) = bval a * bval b
   \<and> bval (big_mul_u64 a l) = bval a * unat l
   \<and> bval (big_sub a b) = (if bval b \<le> bval a then bval a - bval b
        else bval a + 2 ^ (32 * max (length a) (length b)) - bval b)
   \<and> normal (big_add a b) \<and> normal (big_mul a b) \<and> normal (big_sub a b)"
proof -
  have "radix ^ n = 2 ^ (32 * n)" for n by (simp only: radix_def power_mult)
  with bval_big_sub_gen [OF refl, of a b] show ?thesis
    by (auto simp: limb_simps big_add_assign_eq big_mul_u64_def)
qed

theorem big_arith_correct_witness:
  "bval (big_add [0xFFFFFFFF, 0xFFFFFFFF] [1]) = 2 ^ 64"
  using big_arith_correct [of "[0xFFFFFFFF, 0xFFFFFFFF]" "[1]"] by (simp add: radix_def)

text \<open>Conjunction and disjunction of big integers are those of the numbers, bit by bit, and
  results are in normal form; the comparisons with 64-bit and 32-bit integers compare values.\<close>
theorem big_bitwise_correct:
  assumes "normal a"
  shows "bval (big_and a b) = bval a AND bval b \<and> bval (big_or a b) = bval a OR bval b
    \<and> normal (big_and a b) \<and> normal (big_or a b)
    \<and> (big_eq_u64 a k \<longleftrightarrow> bval a = unat k) \<and> (big_eq_u32 a l \<longleftrightarrow> bval a = unat l)
    \<and> (\<forall>n. bit (bval a) n = bit (limb a (n div 32)) (n mod 32))"
  using assms by (simp add: limb_simps big_eq_u64_iff big_eq_u32_iff bit_bval big_bit_def)

theorem big_bitwise_correct_witness:
  "normal [5, 1] \<and> bval (big_and [5, 1] [4]) = bval [5, 1] AND 4"
proof -
  have "normal [5, 1]" by (simp add: normal_def)
  from this big_bitwise_correct [OF this, of "[4]"] show ?thesis by simp
qed

text \<open>The decimal constructor reads every string of digits to its value, leading zeros or
  not, in chunks of nine digits.\<close>
theorem big_of_string_correct:
  assumes "list_all is_digit s"
  shows "bval (big_of_string s) = dec_val s \<and> normal (big_of_string s)"
  using bval_big_of_string [OF assms] by simp

theorem big_of_string_correct_witness: "bval (big_of_string ''0012345678901'') = 12345678901"
proof -
  have "list_all is_digit ''0012345678901''" by (simp add: is_digit_def)
  moreover have "dec_val ''0012345678901'' = 12345678901" by (simp add: dec_val_def digit_val_def)
  ultimately show ?thesis using big_of_string_correct by metis
qed

text \<open>C18: Printing yields the decimal digits of the number, and reading the text back gives the
  same number.\<close>
theorem big_string_roundtrip:
  assumes "normal a"
  shows "list_all is_digit (big_to_string a) \<and> dec_val (big_to_string a) = bval a
    \<and> big_of_string (big_to_string a) = a"
proof -
  have "bval (big_of_string (big_to_string a)) = bval a"
    using bval_big_of_string [OF big_to_string_val(1)] by (simp add: big_to_string_val)
  with assms have "big_of_string (big_to_string a) = a" by (intro bval_inj) simp_all
  then show ?thesis by (simp add: big_to_string_val)
qed

theorem big_string_roundtrip_witness:
  "big_of_string (big_to_string [7, 0, 9]) = [7, 0, 9]"
proof -
  have "normal [7, 0, 9]" by (simp add: normal_def)
  from big_string_roundtrip [OF this] show ?thesis by blast
qed

end
