(* ===== verification/Snowflake.thy ===== *)
theory Snowflake
  imports Cpp_Std
begin

text \<open>
  Discord's 64-bit ids, \<open>include/snowflake.h\<close>: the id, its value operations and its text
  form in JSON. A JSON string is its characters; \<open>None\<close> stands for a JSON null.
\<close>

datatype snowflake = Snowflake (sf_val: u64)

definition no_id :: snowflake where
  "no_id = Snowflake 0"

definition sf_as_int :: "snowflake \<Rightarrow> u64" where
  "sf_as_int s = sf_val s"

text \<open>Move construction empties the source; move assignment swaps.\<close>

definition sf_move :: "snowflake \<Rightarrow> snowflake \<times> snowflake" where
  "sf_move other = (Snowflake (sf_val other), Snowflake 0)"

definition sf_move_assign :: "snowflake \<Rightarrow> snowflake \<Rightarrow> snowflake \<times> snowflake" where
  "sf_move_assign s other = (Snowflake (sf_val other), Snowflake (sf_val s))"

text \<open>\<open>to_json\<close> prints into a buffer of 20 characters; \<open>None\<close> would be a text that does not fit.\<close>

definition sf_to_json :: "snowflake \<Rightarrow> string option" where
  "sf_to_json s =
     (let t = std_to_string (unat (sf_val s)) in if length t \<le> 20 then Some t else None)"

definition sf_from_json :: "string option \<Rightarrow> snowflake \<Rightarrow> snowflake" where
  "sf_from_json j out =
     (case j of None \<Rightarrow> out
      | Some str \<Rightarrow> Snowflake (word_of_nat (fst (from_chars 64 (unat (sf_val out)) str))))"

definition id_equal_to :: "snowflake \<Rightarrow> ('a \<Rightarrow> snowflake) \<Rightarrow> 'a \<Rightarrow> bool" where
  "id_equal_to i get_id thing = (get_id thing = i)"

text \<open>Ids are ordered by value, the order the sorted containers and \<open>id_comp\<close> use.\<close>

instantiation snowflake :: linorder
begin

definition less_eq_snowflake :: "snowflake \<Rightarrow> snowflake \<Rightarrow> bool" where
  "less_eq_snowflake a b = (sf_val a \<le> sf_val b)"

definition less_snowflake :: "snowflake \<Rightarrow> snowflake \<Rightarrow> bool" where
  "less_snowflake a b = (sf_val a < sf_val b)"

instance
  by standard (auto simp: less_eq_snowflake_def less_snowflake_def snowflake.expand)

end

lemma sf_val_no_id [simp]: "sf_val no_id = 0"
  by (simp add: no_id_def)

lemma sf_val_eq_0 [simp]: "sf_val s = 0 \<longleftrightarrow> s = no_id"
  by (cases s) (simp add: no_id_def)

lemma length_dec_digits: "n < 10 ^ Suc k \<Longrightarrow> length (dec_digits n) \<le> Suc k"
proof (induction k arbitrary: n)
  case 0
  then show ?case by (subst dec_digits.simps) simp
next
  case (Suc k)
  show ?case
  proof (cases "n < 10")
    case True
    then show ?thesis by (subst dec_digits.simps) simp
  next
    case False
    from Suc.prems have "n div 10 < 10 ^ Suc k" by (simp add: less_mult_imp_div_less)
    then have "length (dec_digits (n div 10)) \<le> Suc k" by (rule Suc.IH)
    with False show ?thesis by (subst dec_digits.simps) simp
  qed
qed

lemma sf_back: "\<exists>t. sf_to_json s = Some t \<and> sf_from_json (Some t) out = s"
proof -
  let ?n = "unat (sf_val s)"
  have n: "?n < 2 ^ 64" using unsigned_less [of "sf_val s", where ?'a = nat] by simp
  then have "?n < 10 ^ Suc 19" by simp
  then have "length (std_to_string ?n) \<le> 20"
    using length_dec_digits [of ?n 19] by (simp add: std_to_string_def)
  moreover have "fst (from_chars 64 k (std_to_string ?n)) = ?n" for k
    using from_chars_all_digits [OF std_to_string_digits _ , of ?n 64 k] n by simp
  ultimately show ?thesis by (simp add: sf_to_json_def sf_from_json_def Let_def)
qed

text \<open>Printing an id always fits the 20-character buffer, and reading the text back
  gives the same id, whatever the target held before.\<close>
theorem snowflake_json_roundtrip:
  "\<exists>t. sf_to_json s = Some t \<and> sf_from_json (Some t) out = s"
  by (rule sf_back)

end
