(* ===== verification/Permissions.thy ===== *)
theory Permissions
  imports Big_Uint_Text Snowflake "HOL-Library.Multiset"
begin

text \<open>
  Permission bit sets (\<open>include/permission.h\<close>), gateway intents (\<open>include/intents.h\<close>),
  roles and overwrites (\<open>include/guild_role.h\<close>, \<open>include/permision_overwrite.h\<close>) and the
  computation of a member's permissions (\<open>include/stuffs.h\<close>).
\<close>

unbundle bit_operations_syntax

section \<open>Permissions\<close>

record permission =
  m_permission_bit_set :: big_uint

definition permission_default :: permission where
  "permission_default = \<lparr>m_permission_bit_set = []\<rparr>"

definition permission_of_u64 :: "u64 \<Rightarrow> permission" where
  "permission_of_u64 t = \<lparr>m_permission_bit_set = big_of_u64 t\<rparr>"

definition add_permissions_u64 :: "u64 \<Rightarrow> permission \<Rightarrow> permission" where
  "add_permissions_u64 p s = s\<lparr>m_permission_bit_set := big_or (m_permission_bit_set s) (big_of_u64 p)\<rparr>"

definition add_permissions_big :: "big_uint \<Rightarrow> permission \<Rightarrow> permission" where
  "add_permissions_big p s = s\<lparr>m_permission_bit_set := big_or (m_permission_bit_set s) p\<rparr>"

definition add_permissions :: "permission \<Rightarrow> permission \<Rightarrow> permission" where
  "add_permissions p s = add_permissions_big (m_permission_bit_set p) s"

text \<open>
  \<open>remove_permissions\<close>: the call moves the bit set into the overload of
  \<open>bitwise_and_but_missing_bits_are_1\<close> that works in place, so the member is what that
  overload leaves in its first argument.
\<close>

definition remove_permissions_big :: "big_uint \<Rightarrow> permission \<Rightarrow> permission" where
  "remove_permissions_big p s =
     s\<lparr>m_permission_bit_set := big_and_ones_in_place (m_permission_bit_set s) (big_not p)\<rparr>"

definition remove_permissions :: "permission \<Rightarrow> permission \<Rightarrow> permission" where
  "remove_permissions p s =
     s\<lparr>m_permission_bit_set :=
        big_and_ones_in_place (m_permission_bit_set s) (big_not (m_permission_bit_set p))\<rparr>"

definition combine_permissions :: "permission \<Rightarrow> permission \<Rightarrow> permission" where
  "combine_permissions other s =
     s\<lparr>m_permission_bit_set := big_or (m_permission_bit_set s) (m_permission_bit_set other)\<rparr>"

definition perm_and :: "permission \<Rightarrow> permission \<Rightarrow> permission" where
  "perm_and s other =
     \<lparr>m_permission_bit_set = big_and (m_permission_bit_set s) (m_permission_bit_set other)\<rparr>"

definition perm_intersection :: "permission \<Rightarrow> permission \<Rightarrow> permission" where
  "perm_intersection s other = perm_and s other"

definition has_permission_u64 :: "permission \<Rightarrow> u64 \<Rightarrow> bool" where
  "has_permission_u64 s p = big_eq_u64 (big_and (m_permission_bit_set s) (big_of_u64 p)) p"

definition has_permission :: "permission \<Rightarrow> permission \<Rightarrow> bool" where
  "has_permission s p =
     (big_and (m_permission_bit_set s) (m_permission_bit_set p) = m_permission_bit_set p)"

definition perm_or :: "permission \<Rightarrow> permission \<Rightarrow> permission" where
  "perm_or s other = combine_permissions s other"

definition perm_plus :: "permission \<Rightarrow> permission \<Rightarrow> permission" where
  "perm_plus s o' = add_permissions s o'"

definition perm_minus :: "permission \<Rightarrow> permission \<Rightarrow> permission" where
  "perm_minus s o' = remove_permissions o' s"

definition permission_to_json :: "permission \<Rightarrow> string" where
  "permission_to_json p = big_to_string (m_permission_bit_set p)"

definition permission_from_json :: "string option \<Rightarrow> permission \<Rightarrow> permission" where
  "permission_from_json j p =
     (case j of None \<Rightarrow> p | Some s \<Rightarrow> p\<lparr>m_permission_bit_set := big_of_string s\<rparr>)"

text \<open>The named permissions.\<close>

definition CREATE_INSTANT_INVITE :: permission where "CREATE_INSTANT_INVITE = permission_of_u64 1"
definition KICK_MEMBERS :: permission where "KICK_MEMBERS = permission_of_u64 2"
definition BAN_MEMBERS :: permission where "BAN_MEMBERS = permission_of_u64 4"
definition ADMINISTRATOR :: permission where "ADMINISTRATOR = permission_of_u64 8"
definition MANAGE_CHANNELS :: permission where "MANAGE_CHANNELS = permission_of_u64 16"
definition VIEW_CHANNEL :: permission where "VIEW_CHANNEL = permission_of_u64 1024"
definition SEND_MESSAGES :: permission where "SEND_MESSAGES = permission_of_u64 2048"

section \<open>Intents\<close>

record intents =
  m_value :: u32

definition intents_default :: intents where
  "intents_default = \<lparr>m_value = 0\<rparr>"

definition has_intents :: "intents \<Rightarrow> intents \<Rightarrow> bool" where
  "has_intents s other = (m_value s AND m_value other = m_value other)"

definition intents_or :: "intents \<Rightarrow> intents \<Rightarrow> intents" where
  "intents_or me other = \<lparr>m_value = m_value me OR m_value other\<rparr>"

definition intents_plus :: "intents \<Rightarrow> intents \<Rightarrow> intents" where
  "intents_plus me other = \<lparr>m_value = m_value me OR m_value other\<rparr>"

definition intents_removed :: "intents \<Rightarrow> intents \<Rightarrow> intents" where
  "intents_removed s other = \<lparr>m_value = NOT (NOT (m_value s) OR m_value other)\<rparr>"

definition intents_minus :: "intents \<Rightarrow> intents \<Rightarrow> intents" where
  "intents_minus me other = intents_removed me other"

definition int_value :: "intents \<Rightarrow> u32" where
  "int_value s = m_value s"

text \<open>\<open>combine_intents\<close> is a right fold over a non-empty argument pack.\<close>

fun combine_intents :: "intents list \<Rightarrow> intents option" where
  "combine_intents [] = None"
| "combine_intents [i] = Some i"
| "combine_intents (i # is) = map_option (intents_or i) (combine_intents is)"

definition intent_bit :: "nat \<Rightarrow> intents" where
  "intent_bit n = \<lparr>m_value = push_bit n 1\<rparr>"

definition GUILDS :: intents where "GUILDS = intent_bit 0"
definition GUILD_MEMBERS :: intents where "GUILD_MEMBERS = intent_bit 1"
definition GUILD_BANS :: intents where "GUILD_BANS = intent_bit 2"
definition GUILD_EMOJIS :: intents where "GUILD_EMOJIS = intent_bit 3"
definition GUILD_INTEGRATIONS :: intents where "GUILD_INTEGRATIONS = intent_bit 4"
definition GUILD_WEBHOOKS :: intents where "GUILD_WEBHOOKS = intent_bit 5"
definition GUILD_INVITES :: intents where "GUILD_INVITES = intent_bit 6"
definition GUILD_VOICE_STATES :: intents where "GUILD_VOICE_STATES = intent_bit 7"
definition GUILD_PRESENCES :: intents where "GUILD_PRESENCES = intent_bit 8"
definition GUILD_MESSAGES :: intents where "GUILD_MESSAGES = intent_bit 9"
definition GUILD_MESSAGE_REACTIONS :: intents where "GUILD_MESSAGE_REACTIONS = intent_bit 10"
definition GUILD_MESSAGE_TYPING :: intents where "GUILD_MESSAGE_TYPING = intent_bit 11"
definition DIRECT_MESSAGES :: intents where "DIRECT_MESSAGES = intent_bit 12"
definition DIRECT_MESSAGE_REACTIONS :: intents where "DIRECT_MESSAGE_REACTIONS = intent_bit 13"
definition DIRECT_MESSAGE_TYPING :: intents where "DIRECT_MESSAGE_TYPING = intent_bit 14"

definition ALL_INTENTS :: intents where
  "ALL_INTENTS = foldl intents_or GUILDS
     [GUILD_MEMBERS, GUILD_BANS, GUILD_EMOJIS, GUILD_INTEGRATIONS, GUILD_WEBHOOKS, GUILD_INVITES,
      GUILD_VOICE_STATES, GUILD_PRESENCES, GUILD_MESSAGES, GUILD_MESSAGE_REACTIONS,
      GUILD_MESSAGE_TYPING, DIRECT_MESSAGES, DIRECT_MESSAGE_REACTIONS, DIRECT_MESSAGE_TYPING]"

definition ALL_NON_PRIVILEGED :: intents where
  "ALL_NON_PRIVILEGED = intents_minus (intents_minus ALL_INTENTS GUILD_MEMBERS) GUILD_PRESENCES"

definition ALL_BUT_TYPING :: intents where
  "ALL_BUT_TYPING =
     intents_minus (intents_minus ALL_INTENTS GUILD_MESSAGE_TYPING) DIRECT_MESSAGE_TYPING"

section \<open>Roles, overwrites and a member's permissions\<close>

datatype overwrite_type = Ow_member | Ow_role

record permission_overwrite =
  ow_id :: snowflake
  ow_type :: overwrite_type
  ow_allow :: permission
  ow_deny :: permission

record guild_role =
  role_id :: snowflake
  role_name :: string
  role_permissions :: permission
  role_position :: int
  role_managed :: bool
  role_mentionable :: bool
  role_hoist :: bool

definition role_to_mentionable_string :: "guild_role \<Rightarrow> string" where
  "role_to_mentionable_string r = ''<@&'' @ std_to_string (unat (sf_val (role_id r))) @ ''>''"

datatype perm_error = Out_of_range | Bad_variant_access

datatype role_or_overwrite = Pv_role guild_role | Pv_overwrite permission_overwrite

definition is_member_overwrite :: "role_or_overwrite \<Rightarrow> bool" where
  "is_member_overwrite a =
     (case a of Pv_role _ \<Rightarrow> False | Pv_overwrite o' \<Rightarrow> ow_type o' = Ow_member)"

definition apply_overwrite :: "permission \<Rightarrow> permission_overwrite \<Rightarrow> permission" where
  "apply_overwrite p o' = remove_permissions (ow_deny o') (add_permissions (ow_allow o') p)"

text \<open>\<open>combined_permissions\<close> of a start value and a range of overwrites.\<close>

definition combined_permissions_ow :: "permission \<Rightarrow> permission_overwrite list \<Rightarrow> permission" where
  "combined_permissions_ow p os = foldl apply_overwrite p os"

text \<open>
  The comparison handed to \<open>std::sort\<close>. The position of \<open>b\<close>, when \<open>b\<close> is an overwrite, is
  read through \<open>std::get<const permission_overwrite*>(a)\<close>, which throws when \<open>a\<close> is a role.
\<close>

definition position_a :: "(snowflake \<rightharpoonup> guild_role) \<Rightarrow> role_or_overwrite \<Rightarrow> perm_error + int" where
  "position_a roles a =
     (case a of Pv_role r \<Rightarrow> Inr (role_position r)
      | Pv_overwrite o' \<Rightarrow> (case roles (ow_id o') of None \<Rightarrow> Inl Out_of_range
                            | Some r \<Rightarrow> Inr (role_position r)))"

definition position_b ::
  "(snowflake \<rightharpoonup> guild_role) \<Rightarrow> role_or_overwrite \<Rightarrow> role_or_overwrite \<Rightarrow> perm_error + int" where
  "position_b roles a b =
     (case b of Pv_role r \<Rightarrow> Inr (role_position r)
      | Pv_overwrite _ \<Rightarrow>
          (case a of Pv_role _ \<Rightarrow> Inl Bad_variant_access
           | Pv_overwrite o' \<Rightarrow> (case roles (ow_id o') of None \<Rightarrow> Inl Out_of_range
                                 | Some r \<Rightarrow> Inr (role_position r))))"

definition perm_less ::
  "(snowflake \<rightharpoonup> guild_role) \<Rightarrow> role_or_overwrite \<Rightarrow> role_or_overwrite \<Rightarrow> perm_error + bool" where
  "perm_less roles a b =
     (if is_member_overwrite b then Inr True
      else if is_member_overwrite a then Inr False
      else (case position_a roles a of Inl e \<Rightarrow> Inl e
            | Inr idx_a \<Rightarrow> (case position_b roles a b of Inl e \<Rightarrow> Inl e
                            | Inr idx_b \<Rightarrow> Inr (idx_a < idx_b))))"

definition apply_perm :: "permission \<Rightarrow> role_or_overwrite \<Rightarrow> permission" where
  "apply_perm p x =
     (case x of Pv_role r \<Rightarrow> add_permissions (role_permissions r) p
      | Pv_overwrite o' \<Rightarrow> apply_overwrite p o')"

text \<open>
  The order of the elements within the two parts made by \<open>ranges::partition\<close> and the order
  \<open>std::sort\<close> leaves are the library's: \<open>part\<close> is the partition step and \<open>srt\<close> the sort of
  the second part, which may fail with the comparison's exception.
\<close>

definition perms_list_all :: "guild_role list \<Rightarrow> permission_overwrite list \<Rightarrow> role_or_overwrite list" where
  "perms_list_all roles overwrites = map Pv_role roles @ map Pv_overwrite overwrites"

definition combined_permissions_all ::
  "(role_or_overwrite list \<Rightarrow> role_or_overwrite list \<times> role_or_overwrite list) \<Rightarrow>
   ((role_or_overwrite \<Rightarrow> role_or_overwrite \<Rightarrow> perm_error + bool) \<Rightarrow>
      role_or_overwrite list \<Rightarrow> perm_error + role_or_overwrite list) \<Rightarrow>
   (snowflake \<rightharpoonup> guild_role) \<Rightarrow> guild_role list \<Rightarrow> permission_overwrite list \<Rightarrow> perm_error + permission" where
  "combined_permissions_all part srt guild_roles roles overwrites =
     (let (members, rest) = part (perms_list_all roles overwrites)
      in case srt (perm_less guild_roles) rest of Inl e \<Rightarrow> Inl e
         | Inr sorted_rest \<Rightarrow> Inr (foldl apply_perm permission_default (members @ sorted_rest)))"

text \<open>A member: its id, its guild's id, its role ids.\<close>

record member_roles =
  mr_id :: snowflake
  mr_guild_id :: snowflake
  mr_role_ids :: "snowflake list"

definition has_role :: "member_roles \<Rightarrow> snowflake \<Rightarrow> bool" where
  "has_role m r = (r \<in> set (mr_role_ids m))"

text \<open>\<open>guild_member::roles\<close>: the member's roles and last the role of the guild itself.\<close>

fun lookup_roles :: "(snowflake \<rightharpoonup> guild_role) \<Rightarrow> snowflake list \<Rightarrow> perm_error + guild_role list" where
  "lookup_roles roles [] = Inr []"
| "lookup_roles roles (i # is) =
     (case roles i of None \<Rightarrow> Inl Out_of_range
      | Some r \<Rightarrow> (case lookup_roles roles is of Inl e \<Rightarrow> Inl e | Inr rs \<Rightarrow> Inr (r # rs)))"

definition member_roles_list :: "(snowflake \<rightharpoonup> guild_role) \<Rightarrow> member_roles \<Rightarrow> perm_error + guild_role list" where
  "member_roles_list roles m = lookup_roles roles (mr_role_ids m @ [mr_guild_id m])"

definition combined_permissions_member ::
  "(snowflake \<rightharpoonup> guild_role) \<Rightarrow> member_roles \<Rightarrow> perm_error + permission" where
  "combined_permissions_member roles m =
     (case member_roles_list roles m of Inl e \<Rightarrow> Inl e
      | Inr rs \<Rightarrow> Inr (foldl perm_plus permission_default (map role_permissions rs)))"

definition overwrite_applies :: "member_roles \<Rightarrow> permission_overwrite \<Rightarrow> bool" where
  "overwrite_applies m p =
     (if ow_type p = Ow_member then mr_id m = ow_id p else has_role m (ow_id p))"

text \<open>The permissions of a member under the overwrites of a channel.\<close>

definition combined_permissions_channel ::
  "(role_or_overwrite list \<Rightarrow> role_or_overwrite list \<times> role_or_overwrite list) \<Rightarrow>
   ((role_or_overwrite \<Rightarrow> role_or_overwrite \<Rightarrow> perm_error + bool) \<Rightarrow>
      role_or_overwrite list \<Rightarrow> perm_error + role_or_overwrite list) \<Rightarrow>
   (snowflake \<rightharpoonup> guild_role) \<Rightarrow> member_roles \<Rightarrow> permission_overwrite list \<Rightarrow> perm_error + permission" where
  "combined_permissions_channel part srt roles m overwrites =
     (case member_roles_list roles m of Inl e \<Rightarrow> Inl e
      | Inr rs \<Rightarrow> combined_permissions_all part srt roles rs (filter (overwrite_applies m) overwrites))"

section \<open>The contract of a set of flags\<close>

text \<open>
  Permissions and intents are both sets of numbered flags with union, intersection and a
  containment test; the laws give the facts a client uses.
\<close>

locale flag_set =
  fixes flag :: "'s \<Rightarrow> nat \<Rightarrow> bool"
    and invar :: "'s \<Rightarrow> bool"
    and empty :: 's
    and union :: "'s \<Rightarrow> 's \<Rightarrow> 's"
    and has :: "'s \<Rightarrow> 's \<Rightarrow> bool"
  assumes flag_empty: "\<not> flag empty n"
    and invar_empty: "invar empty"
    and flag_union: "flag (union a b) n \<longleftrightarrow> flag a n \<or> flag b n"
    and invar_union: "invar a \<Longrightarrow> invar b \<Longrightarrow> invar (union a b)"
    and flag_eq: "invar a \<Longrightarrow> invar b \<Longrightarrow> (\<And>n. flag a n = flag b n) \<Longrightarrow> a = b"
    and has_iff: "invar a \<Longrightarrow> invar b \<Longrightarrow> has a b \<longleftrightarrow> (\<forall>n. flag b n \<longrightarrow> flag a n)"
begin

lemma has_refl: "invar a \<Longrightarrow> has a a"
  by (simp add: has_iff)

lemma has_trans: "invar a \<Longrightarrow> invar b \<Longrightarrow> invar c \<Longrightarrow> has a b \<Longrightarrow> has b c \<Longrightarrow> has a c"
  by (auto simp: has_iff)

lemma has_antisym: "invar a \<Longrightarrow> invar b \<Longrightarrow> has a b \<Longrightarrow> has b a \<Longrightarrow> a = b"
  by (rule flag_eq) (auto simp: has_iff)

lemma has_union: "invar a \<Longrightarrow> invar b \<Longrightarrow> invar c \<Longrightarrow> has c (union a b) \<longleftrightarrow> has c a \<and> has c b"
  by (auto simp: has_iff invar_union flag_union)

lemma union_has: "invar a \<Longrightarrow> invar b \<Longrightarrow> has (union a b) a \<and> has (union a b) b"
  by (auto simp: has_iff invar_union flag_union)

lemma union_comm: "invar a \<Longrightarrow> invar b \<Longrightarrow> union a b = union b a"
  by (rule flag_eq) (auto simp: invar_union flag_union)

lemma union_assoc: "invar a \<Longrightarrow> invar b \<Longrightarrow> invar c \<Longrightarrow> union (union a b) c = union a (union b c)"
  by (rule flag_eq) (auto simp: invar_union flag_union)

lemma union_all:
  "invar a \<Longrightarrow> list_all invar xs \<Longrightarrow>
    invar (foldl union a xs) \<and> (\<forall>n. flag (foldl union a xs) n \<longleftrightarrow> flag a n \<or> (\<exists>x \<in> set xs. flag x n))"
  by (induction xs arbitrary: a) (auto simp: invar_union flag_union)

lemma has_union_all:
  "list_all invar xs \<Longrightarrow> invar b \<Longrightarrow> has (foldl union empty xs) b \<longleftrightarrow>
    (\<forall>n. flag b n \<longrightarrow> (\<exists>x \<in> set xs. flag x n))"
  using union_all [of empty xs] by (simp add: has_iff invar_empty flag_empty)

end

locale flag_set_diff = flag_set +
  fixes diff :: "'s \<Rightarrow> 's \<Rightarrow> 's"
  assumes flag_diff: "flag (diff a b) n \<longleftrightarrow> flag a n \<and> \<not> flag b n"
    and invar_diff: "invar a \<Longrightarrow> invar b \<Longrightarrow> invar (diff a b)"
begin

lemma diff_union: "invar a \<Longrightarrow> invar b \<Longrightarrow> diff (union a b) b = diff a b"
  by (rule flag_eq) (auto simp: invar_union invar_diff flag_union flag_diff)

lemma diff_has: "invar a \<Longrightarrow> invar b \<Longrightarrow> has a (diff a b)"
  by (auto simp: has_iff invar_diff flag_diff)

lemma diff_none: "invar a \<Longrightarrow> invar b \<Longrightarrow> invar c \<Longrightarrow> has b c \<Longrightarrow> has (diff a b) c \<Longrightarrow> c = empty"
  by (rule flag_eq) (auto simp: has_iff invar_diff flag_diff invar_empty flag_empty)

lemma diff_empty: "invar a \<Longrightarrow> diff empty a = empty"
  by (rule flag_eq) (auto simp: invar_diff flag_diff invar_empty flag_empty)

end

section \<open>Permissions are a set of flags\<close>

definition perm_bit :: "permission \<Rightarrow> nat \<Rightarrow> bool" where
  "perm_bit p n = big_bit (m_permission_bit_set p) n"

definition perm_normal :: "permission \<Rightarrow> bool" where
  "perm_normal p = normal (m_permission_bit_set p)"

lemma perm_bit_simps [simp]:
  "\<not> perm_bit permission_default n"
  "perm_bit (add_permissions a b) n = (perm_bit a n \<or> perm_bit b n)"
  "perm_bit (combine_permissions a b) n = (perm_bit a n \<or> perm_bit b n)"
  "perm_bit (perm_or a b) n = (perm_bit a n \<or> perm_bit b n)"
  "perm_bit (perm_plus a b) n = (perm_bit a n \<or> perm_bit b n)"
  "perm_bit (perm_and a b) n = (perm_bit a n \<and> perm_bit b n)"
  by (auto simp: perm_bit_def permission_default_def add_permissions_def add_permissions_big_def
      combine_permissions_def perm_or_def perm_plus_def perm_and_def)
     (simp add: big_bit_def limb_def)

lemma perm_normal_simps [simp]:
  "perm_normal permission_default" "perm_normal (permission_of_u64 k)"
  "perm_normal (add_permissions a b)" "perm_normal (add_permissions_u64 k b)"
  "perm_normal (combine_permissions a b)" "perm_normal (perm_or a b)" "perm_normal (perm_plus a b)"
  "perm_normal (perm_and a b)" "perm_normal (remove_permissions a b)"
  by (simp_all add: perm_normal_def permission_default_def permission_of_u64_def add_permissions_def
      add_permissions_big_def add_permissions_u64_def combine_permissions_def perm_or_def
      perm_plus_def perm_and_def remove_permissions_def big_and_ones_in_place_eq limb_simps
      normal_def [of "[]"])

lemma perm_eqI: "perm_normal a \<Longrightarrow> perm_normal b \<Longrightarrow> (\<And>n. perm_bit a n = perm_bit b n) \<Longrightarrow> a = b"
  using big_eq_bits [of "m_permission_bit_set a" "m_permission_bit_set b"]
  by (simp add: perm_normal_def perm_bit_def)

lemma has_permission_iff:
  "perm_normal p \<Longrightarrow> has_permission s p \<longleftrightarrow> (\<forall>n. perm_bit p n \<longrightarrow> perm_bit s n)"
proof -
  assume p: "perm_normal p"
  have "has_permission s p \<longleftrightarrow> perm_and s p = p"
    by (cases p) (simp add: has_permission_def perm_and_def)
  also have "\<dots> \<longleftrightarrow> (\<forall>n. perm_bit p n \<longrightarrow> perm_bit s n)"
    using p perm_bit_simps(6) [of s p] by (metis perm_eqI perm_normal_simps(8))
  finally show ?thesis .
qed

interpretation perms: flag_set perm_bit perm_normal permission_default perm_plus has_permission
  by unfold_locales (auto simp: has_permission_iff intro: perm_eqI)

interpretation perms_or: flag_set perm_bit perm_normal permission_default perm_or has_permission
  by unfold_locales (auto simp: has_permission_iff intro: perm_eqI)

section \<open>Intents are a set of flags with difference\<close>

definition intent_flag :: "intents \<Rightarrow> nat \<Rightarrow> bool" where
  "intent_flag i n = bit (m_value i) n"

lemma intents_eqI: "(\<And>n. intent_flag a n = intent_flag b n) \<Longrightarrow> a = b"
  by (cases a; cases b) (auto simp: intent_flag_def intro: bit_eqI)

interpretation ints: flag_set_diff intent_flag "\<lambda>_. True" intents_default intents_or has_intents
    intents_minus
proof unfold_locales
  fix a b :: intents and n
  show "has_intents a b = (\<forall>n. intent_flag b n \<longrightarrow> intent_flag a n)"
    using bit_imp_le_length [of "m_value b"]
    by (auto simp: has_intents_def intent_flag_def bit_eq_iff bit_and_iff)
  show "intent_flag (intents_minus a b) n = (intent_flag a n \<and> \<not> intent_flag b n)"
    using bit_imp_le_length [of "m_value a" n]
    by (auto simp: intents_minus_def intents_removed_def intent_flag_def bit_not_iff bit_and_iff)
qed (auto simp: intents_default_def intents_or_def intent_flag_def bit_or_iff intro: intents_eqI)

section \<open>Removing permissions\<close>

lemma limb_or_ones_beyond: "length a \<le> i \<Longrightarrow> limb_or_ones a i = 0xFFFFFFFF"
  by (simp add: limb_or_ones_def)

lemma limb_or_ones_within: "i < length a \<Longrightarrow> limb_or_ones a i = limb a i"
  by (simp add: limb_or_ones_def limb_def)

lemma ones_and [simp]: "(0xFFFFFFFF :: u32) AND x = x" "x AND (0xFFFFFFFF :: u32) = x"
proof -
  have "(0xFFFFFFFF :: u32) = -1" by simp
  then show "(0xFFFFFFFF :: u32) AND x = x" "x AND (0xFFFFFFFF :: u32) = x" by (simp_all only: and_minus_numerals and.left_neutral and.right_neutral bit.conj_one_right)
qed

text \<open>Without trimming, the complement has as many limbs as the set it complements.\<close>

definition no_full_top :: "big_uint \<Rightarrow> bool" where
  "no_full_top p = (p = [] \<or> last p \<noteq> 0xFFFFFFFF)"

lemma length_big_not: "no_full_top p \<Longrightarrow> length (big_not p) = length p"
proof (cases p rule: rev_cases)
  case (snoc ds d)
  assume "no_full_top p"
  moreover have "(0xFFFFFFFF :: u32) = NOT 0" by simp
  ultimately have "NOT d \<noteq> 0" using snoc by (metis no_full_top_def bit.double_compl last_snoc snoc_eq_iff_butlast)
  then show ?thesis using snoc
    by (simp add: big_not_def big_of_limbs_def trim_trailing_zeros_def drop_while_end_snoc)
qed (simp add: big_not_def big_of_limbs_def trim_trailing_zeros_def)

lemma length_big_not_le: "length (big_not p) \<le> length p"
proof -
  obtain ys where "map (\<lambda>d. NOT d) p = big_not p @ ys"
    unfolding big_not_def big_of_limbs_def trim_trailing_zeros_def
    using drop_while_end_split [of "map (\<lambda>d. NOT d) p" "\<lambda>d. d = 0"] by blast
  from arg_cong [OF this, of length] show ?thesis by simp
qed

lemma limb_remove: "limb (big_and_ones a (big_not p)) i =
    (if i < length (big_not p) then limb_or_ones a i AND NOT (limb p i) else limb a i)"
proof (cases "i < length (big_not p)")
  case True
  then have "limb_or_ones (big_not p) i = NOT (limb p i)"
    using limb_big_not [of p i] length_big_not_le [of p]
    by (simp add: limb_or_ones_within) (simp add: limb_def)
  then show ?thesis unfolding limb_big_and_ones using True by (simp add: less_max_iff_disj)
next
  case False
  then show ?thesis
    unfolding limb_big_and_ones by (simp add: limb_or_ones_beyond limb_beyond limb_or_ones_within)
qed

lemma limb_or_ones_bit:
  "k < 32 \<Longrightarrow> bit (limb_or_ones a i) k = (i < length a \<longrightarrow> bit (limb a i) k)"
proof -
  assume k: "k < 32"
  have ones: "(0xFFFFFFFF :: u32) = -1" by simp
  have "bit (0xFFFFFFFF :: u32) k" unfolding ones using k by simp
  then show ?thesis by (simp add: limb_or_ones_def limb_def)
qed

section \<open>Properties\<close>

text \<open>Permissions are a set of flags: a set contains another when it has every flag of it,
  adding gives the union, what was contained stays contained, and the sum of two sets is
  contained exactly where both are.\<close>
theorem permission_set_laws:
  assumes "perm_normal a" "perm_normal b" "perm_normal c"
  shows "(has_permission a b \<longleftrightarrow> (\<forall>n. perm_bit b n \<longrightarrow> perm_bit a n))
    \<and> has_permission (perm_plus a b) a \<and> has_permission (perm_plus a b) b
    \<and> (has_permission c (perm_plus a b) \<longleftrightarrow> has_permission c a \<and> has_permission c b)
    \<and> perm_plus a b = perm_or a b \<and> perm_plus a b = perm_plus b a
    \<and> (has_permission a b \<and> has_permission b a \<longleftrightarrow> a = b)"
proof -
  have "perm_plus a b = perm_or a b" by (rule perm_eqI) auto
  with assms perms.has_iff [of a b] perms.union_has [of a b] perms.has_union [of a b c]
    perms.union_comm [of a b] perms.has_antisym [of a b] perms.has_refl [of a]
  show ?thesis by simp blast
qed

theorem permission_set_laws_witness:
  "has_permission (perm_plus KICK_MEMBERS BAN_MEMBERS) BAN_MEMBERS
    \<and> perm_plus KICK_MEMBERS BAN_MEMBERS = permission_of_u64 6"
proof -
  have "perm_normal KICK_MEMBERS" "perm_normal BAN_MEMBERS"
    by (simp_all add: KICK_MEMBERS_def BAN_MEMBERS_def)
  then have "has_permission (perm_plus KICK_MEMBERS BAN_MEMBERS) BAN_MEMBERS"
    using permission_set_laws [of KICK_MEMBERS BAN_MEMBERS KICK_MEMBERS] by blast
  moreover have "perm_plus KICK_MEMBERS BAN_MEMBERS = permission_of_u64 6"
    by (simp add: perm_plus_def KICK_MEMBERS_def BAN_MEMBERS_def add_permissions_def
      add_permissions_big_def permission_of_u64_def big_of_u64_def big_or_def limb_def
      trim_trailing_zeros_def drop_while_end_def)
  ultimately show ?thesis by blast
qed

lemma perm_bit_remove:
  "perm_bit (remove_permissions p s) n =
    (if n div 32 < length (big_not (m_permission_bit_set p))
     then (n div 32 < length (m_permission_bit_set s) \<longrightarrow> perm_bit s n) \<and> \<not> perm_bit p n
     else perm_bit s n)"
proof -
  have "n mod 32 < 32" by simp
  then show ?thesis
    by (simp add: perm_bit_def remove_permissions_def big_and_ones_in_place_eq big_bit_def limb_remove
        bit_and_iff limb_or_ones_bit bit_not_iff)
qed



text \<open>Removal is set difference when the removed set is not longer than the set it is
  removed from and its last limb is not all ones.\<close>
theorem remove_permissions_difference:
  assumes "length (m_permission_bit_set p) \<le> length (m_permission_bit_set s)"
    and "no_full_top (m_permission_bit_set p)"
  shows "perm_bit (perm_minus s p) n \<longleftrightarrow> perm_bit s n \<and> \<not> perm_bit p n"
proof -
  have "\<not> n div 32 < length (m_permission_bit_set p) \<Longrightarrow> \<not> perm_bit p n"
    by (simp add: perm_bit_def big_bit_def limb_beyond)
  then show ?thesis
    using assms perm_bit_remove [of p s n] length_big_not [OF assms(2)]
    by (auto simp: perm_minus_def)
qed

theorem remove_permissions_difference_witness:
  "perm_bit (perm_minus (permission_of_u64 10) (permission_of_u64 2)) 3
    \<and> \<not> perm_bit (perm_minus (permission_of_u64 10) (permission_of_u64 2)) 1"
proof -
  let ?s = "permission_of_u64 10" and ?p = "permission_of_u64 2"
  have sp: "m_permission_bit_set ?s = [10]" "m_permission_bit_set ?p = [2]"
    by (simp_all add: permission_of_u64_def big_of_u64_def)
  have "length (m_permission_bit_set ?p) \<le> length (m_permission_bit_set ?s)"
    "no_full_top (m_permission_bit_set ?p)"
    using sp by (simp_all add: no_full_top_def)
  note diff = remove_permissions_difference [OF this]
  have "perm_bit ?s 3" "\<not> perm_bit ?p 3" "perm_bit ?p 1"
    by (simp_all add: perm_bit_def sp big_bit_def limb_def)
  with diff [of 3] diff [of 1] show ?thesis by blast
qed

text \<open>
  Outside these conditions removal is not a difference: removing one permission from the empty
  set yields every other flag of the limb, \<open>ADMINISTRATOR\<close> included, and removing a full
  limb removes nothing.
\<close>

theorem remove_from_empty_grants:
  "perm_minus permission_default KICK_MEMBERS = permission_of_u64 0xFFFFFFFD
    \<and> has_permission (perm_minus permission_default KICK_MEMBERS) ADMINISTRATOR"
  by (simp add: perm_minus_def permission_default_def KICK_MEMBERS_def ADMINISTRATOR_def
      remove_permissions_def permission_of_u64_def big_of_u64_def big_not_def big_of_limbs_def
      trim_trailing_zeros_def drop_while_end_def big_and_ones_in_place_def pad_to_def
      limb_or_ones_def has_permission_def big_and_def limb_def)

theorem remove_full_limb_removes_nothing:
  "perm_minus (permission_of_u64 8) (permission_of_u64 0xFFFFFFFF) = permission_of_u64 8"
  by (simp add: perm_minus_def remove_permissions_def permission_of_u64_def big_of_u64_def
      big_not_def big_of_limbs_def trim_trailing_zeros_def drop_while_end_def
      big_and_ones_in_place_def pad_to_def limb_or_ones_def)

lemma permission_back:
  assumes "perm_normal p"
  shows "permission_from_json (Some (permission_to_json p)) q = p"
proof -
  let ?b = "m_permission_bit_set p"
  have "bval (big_of_string (big_to_string ?b)) = bval ?b"
    using bval_big_of_string [OF big_to_string_val(1)] by (simp add: big_to_string_val)
  then have "big_of_string (big_to_string ?b) = ?b"
    using assms by (intro bval_inj) (simp_all add: perm_normal_def)
  then show ?thesis by (simp add: permission_from_json_def permission_to_json_def)
qed

text \<open>Every permission set survives being written to JSON and read back.\<close>
theorem permission_json_roundtrip:
  assumes "perm_normal p"
  shows "permission_from_json (Some (permission_to_json p)) q = p"
  using assms by (rule permission_back)

theorem permission_json_roundtrip_witness:
  "permission_from_json (Some (permission_to_json (permission_of_u64 0x1FFFFFFFF))) permission_default
     = permission_of_u64 0x1FFFFFFFF"
  by (rule permission_json_roundtrip) simp

text \<open>Intents are a set of flags with exact difference: containment is by flags, a
  removed intent is gone and the others stay, and the two derived constants are exactly all
  intents but the privileged ones, and all but the typing ones.\<close>
theorem intents_laws:
  "(has_intents a b \<longleftrightarrow> (\<forall>n. intent_flag b n \<longrightarrow> intent_flag a n))
   \<and> (intent_flag (intents_or a b) n \<longleftrightarrow> intent_flag a n \<or> intent_flag b n)
   \<and> (intent_flag (intents_minus a b) n \<longleftrightarrow> intent_flag a n \<and> \<not> intent_flag b n)
   \<and> intents_minus (intents_or a b) b = intents_minus a b
   \<and> (intent_flag ALL_NON_PRIVILEGED n \<longleftrightarrow> n < 15 \<and> n \<noteq> 1 \<and> n \<noteq> 8)
   \<and> (intent_flag ALL_BUT_TYPING n \<longleftrightarrow> n < 15 \<and> n \<noteq> 11 \<and> n \<noteq> 14)"
proof -
  have bit: "intent_flag (intent_bit k) n \<longleftrightarrow> n = k \<and> n < 32" for k n
    by (auto simp: intent_flag_def intent_bit_def bit_exp_iff)
  have all: "intent_flag ALL_INTENTS n \<longleftrightarrow> n < 15" for n
    unfolding ALL_INTENTS_def
    by (simp add: ints.flag_union GUILDS_def GUILD_MEMBERS_def GUILD_BANS_def GUILD_EMOJIS_def
        GUILD_INTEGRATIONS_def GUILD_WEBHOOKS_def GUILD_INVITES_def GUILD_VOICE_STATES_def
        GUILD_PRESENCES_def GUILD_MESSAGES_def GUILD_MESSAGE_REACTIONS_def GUILD_MESSAGE_TYPING_def
        DIRECT_MESSAGES_def DIRECT_MESSAGE_REACTIONS_def DIRECT_MESSAGE_TYPING_def bit) arith
  have "intent_flag ALL_NON_PRIVILEGED n \<longleftrightarrow> n < 15 \<and> n \<noteq> 1 \<and> n \<noteq> 8"
    by (auto simp: ALL_NON_PRIVILEGED_def ints.flag_diff all GUILD_MEMBERS_def GUILD_PRESENCES_def bit)
  moreover have "intent_flag ALL_BUT_TYPING n \<longleftrightarrow> n < 15 \<and> n \<noteq> 11 \<and> n \<noteq> 14"
    by (auto simp: ALL_BUT_TYPING_def ints.flag_diff all GUILD_MESSAGE_TYPING_def
        DIRECT_MESSAGE_TYPING_def bit)
  ultimately show ?thesis
    using ints.has_iff [of a b] by (simp add: ints.flag_union ints.flag_diff ints.diff_union)
qed

theorem intents_laws_witness: "intent_flag ALL_NON_PRIVILEGED 9 \<and> \<not> intent_flag ALL_NON_PRIVILEGED 8"
  using intents_laws [of GUILDS GUILDS 9] intents_laws [of GUILDS GUILDS 8] by simp

section \<open>A member's permissions\<close>

lemma lookup_roles_eq: "lookup_roles roles is =
    (if \<exists>i \<in> set is. roles i = None then Inl Out_of_range else Inr (map (the \<circ> roles) is))"
  by (induction "is") (auto split: option.splits)

text \<open>A member's guild permissions are the union of the permissions of its roles and of the
  guild's own role; a role id the guild does not know is the only failure.\<close>
theorem combined_permissions_member_union:
  assumes "\<And>i r. roles i = Some r \<Longrightarrow> perm_normal (role_permissions r)"
  shows "case combined_permissions_member roles m of
      Inl e \<Rightarrow> e = Out_of_range \<and> (\<exists>i \<in> insert (mr_guild_id m) (set (mr_role_ids m)). roles i = None)
    | Inr p \<Rightarrow> perm_normal p \<and> (\<forall>n. perm_bit p n \<longleftrightarrow>
        (\<exists>i \<in> insert (mr_guild_id m) (set (mr_role_ids m)). \<exists>r. roles i = Some r \<and> perm_bit (role_permissions r) n))"
proof (cases "\<exists>i \<in> set (mr_role_ids m @ [mr_guild_id m]). roles i = None")
  case True
  then have "member_roles_list roles m = Inl Out_of_range"
    unfolding member_roles_list_def lookup_roles_eq by simp
  with True show ?thesis by (auto simp: combined_permissions_member_def)
next
  case False
  define is' where "is' = mr_role_ids m @ [mr_guild_id m]"
  define rs where "rs = map (role_permissions \<circ> the \<circ> roles) is'"
  have some: "i \<in> set is' \<Longrightarrow> \<exists>r. roles i = Some r" for i using False by (auto simp: is'_def)
  then have ok: "list_all perm_normal rs"
    using assms by (fastforce simp: list_all_iff rs_def)
  have ids: "set is' = insert (mr_guild_id m) (set (mr_role_ids m))" by (auto simp: is'_def)
  have bits: "(\<exists>x \<in> set rs. perm_bit x n) \<longleftrightarrow>
      (\<exists>i \<in> set is'. \<exists>r. roles i = Some r \<and> perm_bit (role_permissions r) n)" for n
    using some by (force simp: rs_def)
  have "combined_permissions_member roles m = Inr (foldl perm_plus permission_default rs)"
    using False by (simp add: combined_permissions_member_def member_roles_list_def lookup_roles_eq
        rs_def is'_def o_assoc)
  then show ?thesis
    using perms.union_all [OF _ ok, of permission_default] bits by (simp add: ids)
qed

definition sample_role :: "u64 \<Rightarrow> u64 \<Rightarrow> guild_role" where
  "sample_role i p = \<lparr>role_id = Snowflake i, role_name = ''r'', role_permissions = permission_of_u64 p,
     role_position = 0, role_managed = False, role_mentionable = False, role_hoist = False\<rparr>"

theorem combined_permissions_member_union_witness:
  "\<exists>p. combined_permissions_member
      [Snowflake 1 \<mapsto> sample_role 1 2, Snowflake 5 \<mapsto> sample_role 5 8]
      \<lparr>mr_id = Snowflake 9, mr_guild_id = Snowflake 1, mr_role_ids = [Snowflake 5]\<rparr> = Inr p
    \<and> perm_bit p 3 \<and> \<not> perm_bit p 2"
proof -
  let ?roles = "[Snowflake 1 \<mapsto> sample_role 1 2, Snowflake 5 \<mapsto> sample_role 5 8]"
  let ?m = "\<lparr>mr_id = Snowflake 9, mr_guild_id = Snowflake 1, mr_role_ids = [Snowflake 5]\<rparr>"
  have ok: "\<And>i r. ?roles i = Some r \<Longrightarrow> perm_normal (role_permissions r)"
    by (auto simp: sample_role_def split: if_splits)
  have bits: "perm_bit (permission_of_u64 8) 3" "\<not> perm_bit (permission_of_u64 8) 2"
    "\<not> perm_bit (permission_of_u64 2) 2"
    by (simp_all add: perm_bit_def permission_of_u64_def big_of_u64_def big_bit_def limb_def)
  obtain p where "combined_permissions_member ?roles ?m = Inr p"
    by (simp add: combined_permissions_member_def member_roles_list_def)
  with combined_permissions_member_union [of ?roles ?m, OF ok] bits show ?thesis
    by (auto simp: sample_role_def)
qed

lemma perm_bit_apply_keeps_role:
  "\<forall>x \<in> set xs. \<exists>r. x = Pv_role r \<Longrightarrow>
    perm_bit (foldl apply_perm p xs) n \<longleftrightarrow> perm_bit p n \<or> (\<exists>r. Pv_role r \<in> set xs \<and> perm_bit (role_permissions r) n)"
  by (induction xs arbitrary: p) (auto simp: apply_perm_def)

text \<open>An overwrite for the member itself cannot deny what one of its roles grants: the
  partition puts member overwrites in front of the roles, so the roles are added after the
  deny. This holds for every partition and sort that permute their input.\<close>
theorem member_deny_is_overridden_by_roles:
  assumes part: "\<And>xs. mset (fst (part xs)) = filter_mset is_member_overwrite (mset xs)
      \<and> mset (snd (part xs)) = filter_mset (\<lambda>x. \<not> is_member_overwrite x) (mset xs)"
    and srt: "\<And>c xs ys. srt c xs = Inr ys \<Longrightarrow> mset ys = mset xs"
    and ow: "ow_type ow = Ow_member"
    and res: "combined_permissions_all part srt guild_roles roles [ow] = Inr p"
    and r: "r \<in> set roles" "perm_bit (role_permissions r) n"
  shows "perm_bit p n"
proof -
  let ?all = "perms_list_all roles [ow]"
  obtain ms rest where mr: "part ?all = (ms, rest)" by fastforce
  have "filter_mset (\<lambda>x. \<not> is_member_overwrite x) (mset ?all) = mset (map Pv_role roles)"
    using ow by (simp add: perms_list_all_def is_member_overwrite_def filter_mset_eq_conv)
  then have "mset rest = mset (map Pv_role roles)" using part [of ?all] mr by simp
  moreover obtain ys where ys: "srt (perm_less guild_roles) rest = Inr ys"
    and p: "p = foldl apply_perm permission_default (ms @ ys)"
    using res mr by (auto simp: combined_permissions_all_def split: sum.splits)
  ultimately have "set ys = set (map Pv_role roles)"
    using srt [OF ys] by (metis set_mset_mset)
  then show ?thesis
    using r perm_bit_apply_keeps_role [of ys "foldl apply_perm permission_default ms" n]
    unfolding p foldl_append by auto
qed

theorem member_deny_is_overridden_by_roles_witness:
  "\<exists>p. combined_permissions_all (partition is_member_overwrite) (\<lambda>c xs. Inr xs) Map.empty
      [sample_role 5 8]
      [\<lparr>ow_id = Snowflake 9, ow_type = Ow_member, ow_allow = permission_default,
        ow_deny = ADMINISTRATOR\<rparr>] = Inr p \<and> perm_bit p 3"
proof -
  let ?ow = "\<lparr>ow_id = Snowflake 9, ow_type = Ow_member, ow_allow = permission_default,
        ow_deny = ADMINISTRATOR\<rparr>"
  have part: "mset (fst (partition is_member_overwrite xs)) = filter_mset is_member_overwrite (mset xs)
      \<and> mset (snd (partition is_member_overwrite xs)) = filter_mset (\<lambda>x. \<not> is_member_overwrite x) (mset xs)" for xs
    by (simp add: partition_filter_conv o_def)
  have "\<exists>p. combined_permissions_all (partition is_member_overwrite) (\<lambda>c xs. Inr xs) Map.empty
      [sample_role 5 8] [?ow] = Inr p"
    by (simp add: combined_permissions_all_def Let_def case_prod_beta)
  then obtain p where p: "combined_permissions_all (partition is_member_overwrite) (\<lambda>c xs. Inr xs)
      Map.empty [sample_role 5 8] [?ow] = Inr p" by blast
  have bit: "perm_bit (role_permissions (sample_role 5 8)) 3"
    by (simp add: sample_role_def perm_bit_def permission_of_u64_def big_of_u64_def big_bit_def limb_def)
  have "perm_bit p 3"
    using member_deny_is_overridden_by_roles [OF part _ _ p _ bit] by simp
  with p show ?thesis by blast
qed

text \<open>Comparing a role with a role overwrite throws, because the position of the overwrite
  is read from the other operand; two role overwrites are never ordered by position.\<close>
theorem perm_less_role_overwrite:
  assumes "ow_type b = Ow_role" and "ow_type a = Ow_role" and "roles (ow_id a) = Some x"
  shows "perm_less roles (Pv_role r) (Pv_overwrite b) = Inl Bad_variant_access
    \<and> perm_less roles (Pv_overwrite a) (Pv_overwrite b) = Inr False"
  using assms by (simp add: perm_less_def is_member_overwrite_def position_a_def position_b_def)

theorem perm_less_role_overwrite_witness:
  "let a = \<lparr>ow_id = Snowflake 5, ow_type = Ow_role, ow_allow = permission_default, ow_deny = BAN_MEMBERS\<rparr>
   in perm_less [Snowflake 5 \<mapsto> sample_role 5 8] (Pv_role (sample_role 5 8)) (Pv_overwrite a)
     = Inl Bad_variant_access"
proof -
  let ?a = "\<lparr>ow_id = Snowflake 5, ow_type = Ow_role, ow_allow = permission_default, ow_deny = BAN_MEMBERS\<rparr>"
  have "ow_type ?a = Ow_role" "[Snowflake 5 \<mapsto> sample_role 5 8] (ow_id ?a) = Some (sample_role 5 8)"
    by simp_all
  from perm_less_role_overwrite [of ?a ?a "[Snowflake 5 \<mapsto> sample_role 5 8]", OF this(1) this]
  show ?thesis unfolding Let_def by blast
qed

text \<open>An overwrite for the guild's own role is dropped: a member's ids never hold it.\<close>

theorem everyone_overwrite_ignored:
  "mr_guild_id m \<notin> set (mr_role_ids m) \<Longrightarrow> ow_type o' = Ow_role \<Longrightarrow> ow_id o' = mr_guild_id m \<Longrightarrow>
    \<not> overwrite_applies m o'"
  by (simp add: overwrite_applies_def has_role_def)

end
