(* ===== verification/Parse_Result.thy ===== *)
theory Parse_Result
  imports Prelude "HOL-Library.Sublist"
begin

text \<open>
  \<open>command_parser/parse_result.h\<close>: what a parser returns. A \<open>std::string_view\<close> is the list of
  its characters. \<open>None\<close> around a result stands for a call without a defined result: a read past
  the end of the text, an exception that leaves the function, or a loop that never ends.
\<close>

section \<open>Results\<close>

text \<open>The four alternatives of the variant, the default constructed one included.\<close>

datatype 'a parse_result =
  Parsed 'a string | Fail_reason string | Fail_no_reason | Monostate

type_synonym 'a parser = "string \<Rightarrow> 'a parse_result option"

fun success :: "'a parse_result \<Rightarrow> bool" where
  "success (Parsed _ _) = True"
| "success _ = False"

fun failed :: "'a parse_result \<Rightarrow> bool" where
  "failed (Parsed _ _) = False"
| "failed _ = True"

text \<open>\<open>value\<close> and \<open>rest\<close> throw on a failure: \<open>None\<close>.\<close>

fun pr_value :: "'a parse_result \<Rightarrow> 'a option" where
  "pr_value (Parsed v _) = Some v"
| "pr_value _ = None"

fun pr_rest :: "'a parse_result \<Rightarrow> string option" where
  "pr_rest (Parsed _ r) = Some r"
| "pr_rest _ = None"

fun fail_reason :: "'a parse_result \<Rightarrow> string" where
  "fail_reason (Fail_reason s) = s"
| "fail_reason _ = ''''"

text \<open>
  \<open>parse_fail(r)\<close>: the constructors from a propagated failure keep a reason and turn every other
  alternative into a failure without one.
\<close>

fun propagate_fail :: "'a parse_result \<Rightarrow> 'b parse_result" where
  "propagate_fail (Fail_reason s) = Fail_reason s"
| "propagate_fail _ = Fail_no_reason"

text \<open>\<open>parse_fail(r)\<close> asserts that \<open>r\<close> is a failure; \<open>ndebug\<close> says that assertions are off.\<close>

definition parse_fail_checked :: "bool \<Rightarrow> 'a parse_result \<Rightarrow> 'b parse_result option" where
  "parse_fail_checked ndebug r = (if ndebug \<or> \<not> success r then Some (propagate_fail r) else None)"

section \<open>Conversions\<close>

text \<open>From a result to a result of another type: from a constant or an lvalue, and from an
  rvalue, where the default constructed alternative reads a value that is not there.\<close>

fun convert_lvalue :: "('a \<Rightarrow> 'b) \<Rightarrow> 'a parse_result \<Rightarrow> 'b parse_result option" where
  "convert_lvalue c (Parsed v r) = Some (Parsed (c v) r)"
| "convert_lvalue c (Fail_reason s) = Some (Fail_reason s)"
| "convert_lvalue c Fail_no_reason = Some Fail_no_reason"
| "convert_lvalue c Monostate = Some Monostate"

fun convert_rvalue :: "('a \<Rightarrow> 'b) \<Rightarrow> 'a parse_result \<Rightarrow> 'b parse_result option" where
  "convert_rvalue c (Parsed v r) = Some (Parsed (c v) r)"
| "convert_rvalue c (Fail_reason s) = Some (Fail_reason s)"
| "convert_rvalue c Fail_no_reason = Some Fail_no_reason"
| "convert_rvalue c Monostate = None"

text \<open>To \<open>parse_result<void>\<close>, from a constant or an rvalue.\<close>

fun to_void :: "'a parse_result \<Rightarrow> unit parse_result option" where
  "to_void (Parsed _ r) = Some (Parsed () r)"
| "to_void Fail_no_reason = Some Fail_no_reason"
| "to_void (Fail_reason s) = Some (Fail_reason s)"
| "to_void Monostate = None"

section \<open>Combinators\<close>

fun transform :: "('a \<Rightarrow> 'b) \<Rightarrow> 'a parse_result \<Rightarrow> 'b parse_result" where
  "transform f (Parsed v r) = Parsed (f v) r"
| "transform f p = propagate_fail p"

text \<open>The same on a result that is a tuple, whose components are the function's arguments: here a
  function of the nested pair.\<close>

fun apply_transform :: "('a \<times> 'b \<Rightarrow> 'c) \<Rightarrow> ('a \<times> 'b) parse_result \<Rightarrow> 'c parse_result" where
  "apply_transform f (Parsed t r) = Parsed (f t) r"
| "apply_transform f p = propagate_fail p"

text \<open>When the function has no value, \<open>and_then\<close> propagates its own, successful, result.\<close>

fun and_then :: "bool \<Rightarrow> ('a \<Rightarrow> 'b option) \<Rightarrow> 'a parse_result \<Rightarrow> 'b parse_result option" where
  "and_then ndebug f (Parsed v r) =
     (case f v of None \<Rightarrow> parse_fail_checked ndebug (Parsed v r) | Some w \<Rightarrow> Some (Parsed w r))"
| "and_then ndebug f p = parse_fail_checked ndebug p"

section \<open>Facts\<close>

lemma failed_iff: "failed r \<longleftrightarrow> \<not> success r"
  by (cases r) auto

lemma success_iff: "success r \<longleftrightarrow> (\<exists>v t. r = Parsed v t)"
  by (cases r) auto

lemma success_propagate [simp]: "\<not> success (propagate_fail r)"
  by (cases r) auto

lemma propagate_fail_idem [simp]: "propagate_fail (propagate_fail r) = propagate_fail r"
  by (cases r) auto

lemma transform_comp: "transform g (transform f r) = transform (g \<circ> f) r"
  by (cases r) auto

lemma transform_Parsed_iff: "transform f r = Parsed w t \<longleftrightarrow> (\<exists>v. r = Parsed v t \<and> w = f v)"
  by (cases r) auto

lemma apply_transform_eq [simp]: "apply_transform f r = transform f r"
  by (cases r) auto

lemma and_then_Parsed_iff:
  "and_then nd f r = Some (Parsed w t) \<longleftrightarrow> (\<exists>v. r = Parsed v t \<and> f v = Some w)"
  by (cases r) (auto simp: parse_fail_checked_def split: option.splits)

text \<open>The assertion of \<open>and_then\<close> fails exactly on a successful parse whose value the function
  rejects.\<close>

lemma and_then_None_iff: "and_then nd f r = None \<longleftrightarrow> \<not> nd \<and> (\<exists>v t. r = Parsed v t \<and> f v = None)"
  by (cases r) (auto simp: parse_fail_checked_def split: option.splits)

section \<open>Parsers\<close>

text \<open>
  What a parser promises of the text it leaves: a suffix of what it was given; that it has a
  result on every text; that it takes at least one character when it succeeds.
\<close>

definition leaves_suffix :: "'a parser \<Rightarrow> bool" where
  "leaves_suffix p = (\<forall>s v r. p s = Some (Parsed v r) \<longrightarrow> suffix r s)"

definition total_parser :: "'a parser \<Rightarrow> bool" where
  "total_parser p = (\<forall>s. p s \<noteq> None)"

definition defined_on :: "char set \<Rightarrow> 'a parser \<Rightarrow> bool" where
  "defined_on A p = (\<forall>s. set s \<subseteq> A \<longrightarrow> p s \<noteq> None)"

definition consumes :: "'a parser \<Rightarrow> bool" where
  "consumes p = (\<forall>s v r. p s = Some (Parsed v r) \<longrightarrow> strict_suffix r s)"

lemma leaves_suffixI [intro?]:
  "(\<And>s v r. p s = Some (Parsed v r) \<Longrightarrow> suffix r s) \<Longrightarrow> leaves_suffix p"
  by (simp add: leaves_suffix_def)

lemma leaves_suffixD: "leaves_suffix p \<Longrightarrow> p s = Some (Parsed v r) \<Longrightarrow> suffix r s"
  by (simp add: leaves_suffix_def)

lemma consumesD: "consumes p \<Longrightarrow> p s = Some (Parsed v r) \<Longrightarrow> strict_suffix r s"
  by (simp add: consumes_def)

lemma consumes_leaves_suffix: "consumes p \<Longrightarrow> leaves_suffix p"
  by (auto simp: leaves_suffix_def consumes_def strict_suffix_def)

lemma consumes_shorter: "consumes p \<Longrightarrow> p s = Some (Parsed v r) \<Longrightarrow> length r < length s"
  by (meson consumesD suffix_length_less)

lemma total_defined_on: "total_parser p \<Longrightarrow> defined_on A p"
  by (simp add: total_parser_def defined_on_def)

lemma defined_onD: "defined_on A p \<Longrightarrow> set s \<subseteq> A \<Longrightarrow> \<exists>r. p s = Some r"
  by (simp add: defined_on_def)

lemma total_parserD: "total_parser p \<Longrightarrow> \<exists>r. p s = Some r"
  by (simp add: total_parser_def)

end
