(* ===== verification/Parsers.thy ===== *)
theory Parsers
  imports Parse_Result Cpp_Std
begin

text \<open>
  \<open>command_parser/useful_parsers.h\<close> and \<open>command_parser/parsing_stuff.h\<close>: the primitive
  parsers. A predicate of the code is a function \<open>char \<Rightarrow> bool\<close>. A number read by
  \<open>std::from_chars\<close> that does not fit leaves the parser's variable at 0.
\<close>

section \<open>Characters\<close>

definition code_of :: "char \<Rightarrow> nat" where "code_of c = of_char c"

definition is_whitespace_char :: "char \<Rightarrow> bool" where
  "is_whitespace_char c = (code_of c = 32 \<or> code_of c = 10 \<or> code_of c = 9 \<or> code_of c = 11
     \<or> code_of c = 12 \<or> code_of c = 13)"

definition is_alpha_char :: "char \<Rightarrow> bool" where
  "is_alpha_char c = (65 \<le> code_of c \<and> code_of c \<le> 90 \<or> 97 \<le> code_of c \<and> code_of c \<le> 122)"

definition is_numeric_char :: "char \<Rightarrow> bool" where
  "is_numeric_char c = (48 \<le> code_of c \<and> code_of c \<le> 57)"

definition to_upper :: "char \<Rightarrow> char" where
  "to_upper c = (if 97 \<le> code_of c \<and> code_of c \<le> 122 then char_of (code_of c - 32) else c)"

definition ci_equal :: "string \<Rightarrow> string \<Rightarrow> bool" where
  "ci_equal r1 r2 = (length r1 = length r2 \<and> map to_upper r1 = map to_upper r2)"

definition starts_with :: "string \<Rightarrow> string \<Rightarrow> bool" where
  "starts_with s p = (take (length p) s = p)"

section \<open>Tuples\<close>

text \<open>A tuple whose components have one type is a list; selecting and dropping components.\<close>

definition return_nth :: "nat \<Rightarrow> 'a list \<Rightarrow> 'a option" where
  "return_nth i stuff = (if i < length stuff then Some (stuff ! i) else None)"

definition is_idx_to_ignore :: "nat list \<Rightarrow> nat \<Rightarrow> bool" where
  "is_idx_to_ignore idxs_ignoring i = list_ex (\<lambda>idx. i = idx) idxs_ignoring"

fun remove_idxs :: "nat list \<Rightarrow> nat list \<Rightarrow> nat list" where
  "remove_idxs ig [] = []"
| "remove_idxs ig (idx1 # rest) =
     (if is_idx_to_ignore ig idx1 then remove_idxs ig rest else idx1 # remove_idxs ig rest)"

definition ignore_tuple_idxs :: "nat list \<Rightarrow> 'a list \<Rightarrow> 'a list option" where
  "ignore_tuple_idxs idxs t =
     (let idx_keeping = remove_idxs idxs [0..<length t]
      in if length idx_keeping + length idxs = length t
         then Some (map (\<lambda>i. t ! i) idx_keeping) else None)"

section \<open>Whitespace and numbers\<close>

definition whitespace_parser :: "nat parser" where
  "whitespace_parser s =
     (let num_spaces = length (takeWhile is_whitespace_char s)
      in Some (Parsed num_spaces (drop num_spaces s)))"

definition non_optional_whitespace_parser :: "nat parser" where
  "non_optional_whitespace_parser s =
     (if s = [] \<or> \<not> is_whitespace_char (hd s) then Some Fail_no_reason else whitespace_parser s)"

definition int_parser :: "int parser" where
  "int_parser s =
     (case from_chars_int 32 0 s of (r, used_chars) \<Rightarrow>
        if used_chars = 0 then Some Fail_no_reason else Some (Parsed r (drop used_chars s)))"

text \<open>\<open>integral_parser\<close> for a signed type of \<open>bits\<close> bits.\<close>

definition integral_parser :: "nat \<Rightarrow> int parser" where
  "integral_parser bits s =
     (case from_chars_int bits 0 s of (r, used_chars) \<Rightarrow>
        if used_chars = 0 then Some Fail_no_reason else Some (Parsed r (drop used_chars s)))"

definition uint64_parser :: "u64 parser" where
  "uint64_parser s =
     (case from_chars 64 0 s of (r, used_chars) \<Rightarrow>
        if used_chars = 0 then Some Fail_no_reason
        else Some (Parsed (word_of_nat r) (drop used_chars s)))"

text \<open>
  Floating point numbers are abstract: \<open>read_double\<close> is \<open>std::from_chars\<close> on a variable of type
  \<open>double\<close> that holds 0, with the value it leaves there and the number of characters it took.
\<close>

definition double_parser :: "(string \<Rightarrow> 'd \<times> nat) \<Rightarrow> 'd parser" where
  "double_parser read_double s =
     (case read_double s of (r, used_chars) \<Rightarrow>
        if used_chars = 0 then Some Fail_no_reason else Some (Parsed r (drop used_chars s)))"

definition int_or_double_parser :: "(string \<Rightarrow> 'd \<times> nat) \<Rightarrow> (int + 'd) parser" where
  "int_or_double_parser read_double s =
     (if s = [] then Some Fail_no_reason
      else case int_parser s of
        Some (Parsed value rest) \<Rightarrow>
          if rest \<noteq> [] \<and> (hd rest = CHR ''.'' \<or> hd rest = CHR ''e'' \<or> hd rest = CHR ''E'')
          then map_option (transform Inr) (double_parser read_double s)
          else Some (Parsed (Inl value) rest)
      | _ \<Rightarrow> map_option (transform Inr) (double_parser read_double s))"

section \<open>Single characters\<close>

definition alpha1_parser :: "char parser" where
  "alpha1_parser s =
     (if s = [] \<or> \<not> is_alpha_char (hd s) then Some Fail_no_reason else Some (Parsed (hd s) (tl s)))"

definition alpha_numeric1_parser :: "char parser" where
  "alpha_numeric1_parser s =
     (if s = [] \<or> \<not> is_numeric_char (hd s) \<or> \<not> is_alpha_char (hd s) then Some Fail_no_reason
      else Some (Parsed (hd s) (tl s)))"

definition chars1_parser :: "char list \<Rightarrow> char parser" where
  "chars1_parser chars s =
     (if s \<noteq> [] \<and> List.member chars (hd s) then Some (Parsed (hd s) (tl s)) else Some Fail_no_reason)"

definition chars1_parser_none :: "char parser" where
  "chars1_parser_none s = Some Fail_no_reason"

definition chars1_parser_view :: "string \<Rightarrow> char parser" where
  "chars1_parser_view chars s =
     (if s = [] \<or> \<not> List.member chars (hd s) then Some Fail_no_reason else Some (Parsed (hd s) (tl s)))"

definition char_parser :: "bool \<Rightarrow> char \<Rightarrow> bool parser" where
  "char_parser fail_on_fail c s =
     (if s = [] then Some Fail_no_reason
      else let r = (hd s = c) in
        if fail_on_fail \<and> \<not> r then Some Fail_no_reason
        else Some (Parsed r (drop (if r then 1 else 0) s)))"

definition quote_parser :: "char parser" where
  "quote_parser s =
     (if s \<noteq> [] \<and> (hd s = CHR 0x22 \<or> hd s = CHR 0x27) then Some (Parsed (hd s) (tl s))
      else Some Fail_no_reason)"

section \<open>Runs of characters\<close>

definition parse_until :: "(char \<Rightarrow> bool) \<Rightarrow> string parser" where
  "parse_until f s = (let count = find_index f s in Some (Parsed (take count s) (drop count s)))"

text \<open>Without one of the characters in the text the parser fails.\<close>

definition parse_until_char :: "char list \<Rightarrow> string parser" where
  "parse_until_char chars s =
     (if s = [] then Some Fail_no_reason
      else let len = find_index (\<lambda>c. List.member chars c) s in
        if len = length s then Some Fail_no_reason else Some (Parsed (take len s) (drop len s)))"

definition nothing_parser :: "bool parser" where
  "nothing_parser s = Some (Parsed True s)"

definition upto_n_parser :: "nat \<Rightarrow> string parser" where
  "upto_n_parser n s =
     (if length s \<ge> n then Some (Parsed (take n s) (drop n s)) else Some (Parsed s (drop (length s) s)))"

definition predicate_parser :: "(char \<Rightarrow> bool) \<Rightarrow> string parser" where
  "predicate_parser pred s =
     (let size = length (takeWhile pred s) in Some (Parsed (take size s) (drop size s)))"

definition predicate_at_least_1_parser :: "(char \<Rightarrow> bool) \<Rightarrow> string parser" where
  "predicate_at_least_1_parser f s =
     (let size = length (takeWhile f s)
      in if size = 0 then Some Fail_no_reason else Some (Parsed (take size s) (drop size s)))"

definition alpha_word_parser :: "string parser" where
  "alpha_word_parser s =
     (let size = length (takeWhile is_alpha_char s)
      in if size = 0 then Some Fail_no_reason else Some (Parsed (take size s) (drop size s)))"

definition alpha_numeric_word_parser :: "string parser" where
  "alpha_numeric_word_parser s =
     (let size = length (takeWhile (\<lambda>c. is_alpha_char c \<or> is_numeric_char c) s)
      in if size = 0 then Some Fail_no_reason else Some (Parsed (take size s) (drop size s)))"

section \<open>Strings\<close>

definition str_parser :: "bool \<Rightarrow> string \<Rightarrow> string parser" where
  "str_parser fail_on_fail str data =
     (if \<not> starts_with data str
      then if fail_on_fail then Some Fail_no_reason else Some (Parsed '''' data)
      else Some (Parsed str (drop (length str) data)))"

definition ci_str_parser :: "bool \<Rightarrow> string \<Rightarrow> bool parser" where
  "ci_str_parser fail_on_fail str data =
     (if length data < length str \<or> \<not> ci_equal (take (length str) data) str
      then if fail_on_fail then Some Fail_no_reason else Some (Parsed False data)
      else Some (Parsed True (drop (length str) data)))"

text \<open>The literals \<open>'c'_p\<close> and \<open>"str"_p\<close>.\<close>

definition char_p :: "char \<Rightarrow> bool parser" where "char_p c = char_parser True c"
definition str_p :: "string \<Rightarrow> string parser" where "str_p s = str_parser True s"

text \<open>
  The loop that looks for the closing quote: the distance of the quote from the start of the
  text, nothing when the text has none, and no result (the outer \<open>None\<close>) when a backslash is the
  last character: the iterator then steps past the end and is read there.
\<close>

fun quote_scan :: "char \<Rightarrow> string \<Rightarrow> nat option option" where
  "quote_scan q [] = Some None"
| "quote_scan q (c # cs) =
     (if c = q then Some (Some 0)
      else if c = CHR 0x5C then
        (case cs of [] \<Rightarrow> None | d # ds \<Rightarrow> map_option (map_option (\<lambda>n. n + 2)) (quote_scan q ds))
      else map_option (map_option Suc) (quote_scan q cs))"

definition quote_string_parser :: "string parser" where
  "quote_string_parser s =
     (if s = [] \<or> (hd s \<noteq> CHR 0x22 \<and> hd s \<noteq> CHR 0x27) then Some Fail_no_reason
      else case quote_scan (hd s) (tl s) of
        None \<Rightarrow> None
      | Some None \<Rightarrow> Some Fail_no_reason
      | Some (Some n) \<Rightarrow> Some (Parsed (take n (drop 1 s)) (drop (n + 2) s)))"

definition parse_first_of_multi_strings :: "string list \<Rightarrow> string parser" where
  "parse_first_of_multi_strings strings s =
     (case find (\<lambda>str. starts_with s str) strings of
        None \<Rightarrow> Some Fail_no_reason
      | Some m \<Rightarrow> Some (Parsed (take (length m) s) (drop (length m) s)))"

section \<open>Lookahead\<close>

definition not_start_with :: "char \<Rightarrow> bool parser" where
  "not_start_with c s =
     (if s \<noteq> [] \<and> hd s = c then Some Fail_no_reason else Some (Parsed True s))"

definition not_start_with_pred :: "(char \<Rightarrow> bool) \<Rightarrow> bool parser" where
  "not_start_with_pred p s =
     (if s \<noteq> [] \<and> p (hd s) then Some Fail_no_reason else Some (Parsed True s))"

definition ensures_not_empty :: "bool parser" where
  "ensures_not_empty s = (if s = [] then Some Fail_no_reason else Some (Parsed True s))"

definition ensures_start_with :: "(char \<Rightarrow> bool) \<Rightarrow> bool parser" where
  "ensures_start_with pred s =
     (if s \<noteq> [] \<and> pred (hd s) then Some Fail_no_reason else Some (Parsed True s))"

end
