(* ===== verification/Parse_Combinators.thy ===== *)
theory Parse_Combinators
  imports Parsers
begin

text \<open>
  The parser combinators: \<open>command_parser/useful_parsing_stuff.h\<close>, \<open>parser_adapters.h\<close>,
  \<open>parsing_stuff.h\<close>, \<open>list_parser.h\<close>, \<open>parse_first_of.h\<close> and \<open>parse_combiner.h\<close>.

  A tuple of results of different types is a nested pair, so a sequence of parsers is built with
  \<open>parse_consecutive\<close> from its first parser and the sequence of the others, and ends with
  \<open>parse_consecutive_one\<close>. A pack of parsers with one result type is a list of parsers. The loops
  of the list parsers are partial functions: \<open>None\<close> is a loop that never ends.
\<close>

section \<open>Alternatives and sequences\<close>

fun try_parse_multiple :: "string \<Rightarrow> 'a parser \<Rightarrow> 'a parser list \<Rightarrow> 'a parse_result option" where
  "try_parse_multiple s first [] = first s"
| "try_parse_multiple s first (p # rest) =
     Option.bind (first s) (\<lambda>result.
       if success result then Some result else try_parse_multiple s p rest)"

definition parse_consecutive_one :: "'a parser \<Rightarrow> 'a parser" where
  "parse_consecutive_one f s =
     Option.bind (f s) (\<lambda>t. case t of Parsed v r \<Rightarrow> Some (Parsed v r) | _ \<Rightarrow> Some (propagate_fail t))"

definition parse_consecutive :: "'a parser \<Rightarrow> 'b parser \<Rightarrow> ('a \<times> 'b) parser" where
  "parse_consecutive f rest s =
     Option.bind (f s) (\<lambda>t. case t of
       Parsed v r \<Rightarrow> Option.bind (rest r) (\<lambda>t2. case t2 of
         Parsed w r2 \<Rightarrow> Some (Parsed (v, w) r2)
       | _ \<Rightarrow> Some (propagate_fail t2))
     | _ \<Rightarrow> Some (propagate_fail t))"

text \<open>The same function on a pack of parsers with one result type.\<close>

fun parse_consecutive_list :: "'a parser list \<Rightarrow> 'a list parser" where
  "parse_consecutive_list [] s = Some (Parsed [] s)"
| "parse_consecutive_list (f # rest) s =
     map_option (transform (\<lambda>(v, vs). v # vs)) (parse_consecutive f (parse_consecutive_list rest) s)"

definition parse_consecutive_and_join :: "'a parser \<Rightarrow> 'b parser \<Rightarrow> ('a \<Rightarrow> 'b \<Rightarrow> 'c) \<Rightarrow> 'c parser" where
  "parse_consecutive_and_join p1 p2 fn s =
     Option.bind (p1 s) (\<lambda>t. case t of
       Parsed v r \<Rightarrow> Option.bind (p2 r) (\<lambda>u. case u of
         Parsed w r2 \<Rightarrow> Some (Parsed (fn v w) r2)
       | _ \<Rightarrow> Some Fail_no_reason)
     | _ \<Rightarrow> Some Fail_no_reason)"

text \<open>\<open>parse_multi_consecutive2\<close>: the text is advanced in place, a failure is thrown as an
  exception and caught at the end.\<close>

fun multi_consecutive_things :: "'a parser list \<Rightarrow> string \<Rightarrow> (unit + 'a list \<times> string) option" where
  "multi_consecutive_things [] s = Some (Inr ([], s))"
| "multi_consecutive_things (p # ps) s =
     Option.bind (p s) (\<lambda>pr. case pr of
       Parsed v r \<Rightarrow> map_option (map_sum id (\<lambda>(vs, t). (v # vs, t))) (multi_consecutive_things ps r)
     | _ \<Rightarrow> Some (Inl ()))"

definition parse_multi_consecutive2 :: "'a parser list \<Rightarrow> 'a list parser" where
  "parse_multi_consecutive2 ps s =
     map_option (\<lambda>x. case x of Inl _ \<Rightarrow> Fail_no_reason | Inr (vs, t) \<Rightarrow> Parsed vs t)
       (multi_consecutive_things ps s)"

definition multi_parser :: "'a parser \<Rightarrow> 'b parser \<Rightarrow> ('a \<times> 'b) parser" where
  "multi_parser p ps s = parse_consecutive p ps s"

definition try_multi_parser :: "'a parser \<Rightarrow> 'a parser list \<Rightarrow> 'a parser" where
  "try_multi_parser p ps s = try_parse_multiple s p ps"

definition consecutive_parser :: "'a parser \<Rightarrow> 'b parser \<Rightarrow> ('a \<Rightarrow> 'b \<Rightarrow> 'c) \<Rightarrow> 'c parser" where
  "consecutive_parser m_parser1 m_parser2 m_join_fn s =
     parse_consecutive_and_join m_parser1 m_parser2 m_join_fn s"

section \<open>Adapters\<close>

definition ignore_leading_whitespace :: "'a parser \<Rightarrow> 'a parser" where
  "ignore_leading_whitespace p s =
     Option.bind (whitespace_parser s) (\<lambda>w. Option.bind (pr_rest w) p)"

definition transform_parser :: "'a parser \<Rightarrow> ('a \<Rightarrow> 'b) \<Rightarrow> 'b parser" where
  "transform_parser p f s = map_option (transform f) (p s)"

definition optional_parser :: "'a parser \<Rightarrow> 'a option parser" where
  "optional_parser p s =
     Option.bind (p s) (\<lambda>t. case t of
       Parsed v r \<Rightarrow> Some (Parsed (Some v) r)
     | _ \<Rightarrow> Some (Parsed None s))"

section \<open>The first of several parsers\<close>

text \<open>
  \<open>parse_first_of_result\<close>: which parser produced the value, and the value; the index is -1 in a
  default constructed one, whose storage holds no object. Values of the different parsers are of
  one type here.
\<close>

record 'v first_of_result =
  m_idx :: int
  m_storage :: "'v option"

definition first_of_default :: "'v first_of_result" where
  "first_of_default = \<lparr>m_idx = -1, m_storage = None\<rparr>"

definition first_of_value :: "'v \<Rightarrow> nat \<Rightarrow> 'v first_of_result" where
  "first_of_value val n = \<lparr>m_idx = int n, m_storage = Some val\<rparr>"

definition fo_has_value :: "'v first_of_result \<Rightarrow> bool" where
  "fo_has_value r = (m_idx r \<noteq> -1)"

text \<open>\<open>visit\<close> compares the index with 0, 1, up to the number of types, then throws.\<close>

fun fo_visit_impl :: "nat \<Rightarrow> nat \<Rightarrow> ('v \<Rightarrow> 'b) \<Rightarrow> 'v first_of_result \<Rightarrow> 'b option" where
  "fo_visit_impl idx 0 f r = None"
| "fo_visit_impl idx (Suc n) f r =
     (if int idx = m_idx r then map_option f (m_storage r) else fo_visit_impl (Suc idx) n f r)"

definition fo_visit :: "nat \<Rightarrow> ('v \<Rightarrow> 'b) \<Rightarrow> 'v first_of_result \<Rightarrow> 'b option" where
  "fo_visit ntypes f r = fo_visit_impl 0 ntypes f r"

text \<open>The copy constructor, and assignment to \<open>this\<close>: itself (\<open>same\<close>) or another object.\<close>

definition fo_copy :: "nat \<Rightarrow> 'v first_of_result \<Rightarrow> 'v first_of_result" where
  "fo_copy ntypes other =
     \<lparr>m_idx = m_idx other,
      m_storage = (if fo_has_value other then fo_visit ntypes id other else None)\<rparr>"

definition fo_assign :: "nat \<Rightarrow> bool \<Rightarrow> 'v first_of_result \<Rightarrow> 'v first_of_result \<Rightarrow> 'v first_of_result" where
  "fo_assign ntypes same this other =
     (if same then this
      else this\<lparr>m_idx := m_idx other,
           m_storage := (if fo_has_value other then fo_visit ntypes id other else None)\<rparr>)"

text \<open>\<open>holds_type\<close>: the indices at which the type occurs, filled in an array of as many entries as
  the type has occurrences.\<close>

definition times_type_appears :: "'t \<Rightarrow> 't list \<Rightarrow> nat" where
  "times_type_appears t types = length (filter (\<lambda>u. t = u) types)"

fun holds_type_impl :: "'t \<Rightarrow> 't list \<Rightarrow> nat \<Rightarrow> nat \<Rightarrow> nat list \<Rightarrow> nat list" where
  "holds_type_impl t [] idx idx2 ret_val = ret_val"
| "holds_type_impl t (u # us) idx idx2 ret_val =
     (if t = u then holds_type_impl t us (Suc idx) (Suc idx2) (ret_val[idx := idx2])
      else holds_type_impl t us idx (Suc idx2) ret_val)"

definition fo_holds_type :: "'t \<Rightarrow> 't list \<Rightarrow> 'v first_of_result \<Rightarrow> bool" where
  "fo_holds_type t types r =
     list_ex (\<lambda>a. int a = m_idx r)
       (holds_type_impl t types 0 0 (replicate (times_type_appears t types) 0))"

fun parse_first_of_impl :: "string \<Rightarrow> nat \<Rightarrow> 'v parser \<Rightarrow> 'v parser list \<Rightarrow> 'v first_of_result parse_result option" where
  "parse_first_of_impl s idx first_parser parsers =
     Option.bind (first_parser s) (\<lambda>result. case result of
       Parsed v r \<Rightarrow> Some (Parsed (first_of_value v idx) r)
     | _ \<Rightarrow> (case parsers of
          [] \<Rightarrow> Some Fail_no_reason
        | p # ps \<Rightarrow> parse_first_of_impl s (idx + 1) p ps))"

definition parse_first_of :: "string \<Rightarrow> 'v parser \<Rightarrow> 'v parser list \<Rightarrow> 'v first_of_result parse_result option" where
  "parse_first_of s p ps = parse_first_of_impl s 0 p ps"

definition first_of_parser :: "'v parser \<Rightarrow> 'v parser list \<Rightarrow> 'v first_of_result parser" where
  "first_of_parser p ps s = parse_first_of s p ps"

section \<open>Lists\<close>

partial_function (option) list_loop :: "'a parser \<Rightarrow> 'a list \<Rightarrow> string \<Rightarrow> 'a list parse_result option" where
  "list_loop p ret s =
     Option.bind (p s) (\<lambda>r. case r of
       Parsed v rest \<Rightarrow> list_loop p (ret @ [v]) rest
     | _ \<Rightarrow> Some (Parsed ret s))"

text \<open>\<open>list_parser\<close> repeats a sequence of parsers, \<open>list_parser1\<close> one parser.\<close>

definition list_parser :: "'a parser \<Rightarrow> 'a list parser" where
  "list_parser sequence s = list_loop sequence [] s"

definition list_parser1 :: "'a parser \<Rightarrow> 'a list parser" where
  "list_parser1 inner_parser s = list_loop inner_parser [] s"

partial_function (option) list2_loop ::
    "'a parser \<Rightarrow> 'd parser \<Rightarrow> 't parser \<Rightarrow> 'a list \<Rightarrow> string \<Rightarrow> 'a list parse_result option" where
  "list2_loop inner_parser delimiter_parser terminal_parser ret s =
     Option.bind (terminal_parser s) (\<lambda>t. case t of
       Parsed _ r \<Rightarrow> Some (Parsed ret r)
     | _ \<Rightarrow> Option.bind (parse_consecutive delimiter_parser inner_parser s) (\<lambda>result. case result of
         Parsed v r \<Rightarrow> list2_loop inner_parser delimiter_parser terminal_parser (ret @ [snd v]) r
       | _ \<Rightarrow> Some Fail_no_reason))"

definition list_parser2 :: "'a parser \<Rightarrow> 'd parser \<Rightarrow> 't parser \<Rightarrow> 'a list parser" where
  "list_parser2 inner_parser delimiter_parser terminal_parser s =
     Option.bind (inner_parser s) (\<lambda>result1. case result1 of
       Parsed v r \<Rightarrow> list2_loop inner_parser delimiter_parser terminal_parser [v] r
     | _ \<Rightarrow> Some (Parsed [] s))"

definition list_parser3 :: "'a parser \<Rightarrow> 'd parser \<Rightarrow> 'a list parser" where
  "list_parser3 inner_parser delimiter_parser s =
     Option.bind (inner_parser s) (\<lambda>r1. case r1 of
       Parsed v r \<Rightarrow>
         list_loop (transform_parser (parse_consecutive delimiter_parser inner_parser) snd) [v] r
     | _ \<Rightarrow> Some (Parsed [] s))"

text \<open>The values of the terminal and of the delimiter are in a sum, the terminal's on the left.\<close>

definition terminal_or_delimiter :: "'t parser \<Rightarrow> 'd parser \<Rightarrow> ('t + 'd) first_of_result parser" where
  "terminal_or_delimiter t d s = first_of_parser (transform_parser t Inl) [transform_parser d Inr] s"

partial_function (option) list4_loop ::
    "'a parser \<Rightarrow> 'd parser \<Rightarrow> 't parser \<Rightarrow> 'a list \<Rightarrow> string \<Rightarrow> ('a list \<times> ('t + 'd) option) parse_result option" where
  "list4_loop inner_parser delimiter_parser terminal_parser ret s =
     Option.bind (parse_consecutive inner_parser (terminal_or_delimiter terminal_parser delimiter_parser) s)
       (\<lambda>result. case result of
         Parsed v r \<Rightarrow>
           (if m_idx (snd v) = 0 then Some (Parsed (ret @ [fst v], m_storage (snd v)) r)
            else list4_loop inner_parser delimiter_parser terminal_parser (ret @ [fst v]) r)
       | _ \<Rightarrow> Some Fail_no_reason)"

definition list_parser4 :: "'a parser \<Rightarrow> 'd parser \<Rightarrow> 't parser \<Rightarrow> ('a list \<times> ('t + 'd) option) parser" where
  "list_parser4 inner_parser delimiter_parser terminal_parser s =
     Option.bind (terminal_parser s) (\<lambda>result1. case result1 of
       Parsed t r \<Rightarrow> Some (Parsed ([], Some (Inl t)) r)
     | _ \<Rightarrow> list4_loop inner_parser delimiter_parser terminal_parser [] s)"

section \<open>Combining parsers with \<open>+\<close>\<close>

text \<open>
  A combined parser is its list of parsers. The overloads of \<open>operator+\<close> differ in the value
  categories of their operands; a character stands for the parser of that character, whose truth
  value \<open>emb\<close> embeds in the common result type.
\<close>

datatype 'a combined_parser = Combined_parser (cp_parser: "'a parser list")

definition combined_parse :: "'a combined_parser \<Rightarrow> 'a list parser" where
  "combined_parse c s = parse_consecutive_list (cp_parser c) s"

definition combined_ignore_whitespace_parse :: "'a combined_parser \<Rightarrow> 'a list parser" where
  "combined_ignore_whitespace_parse c s =
     parse_consecutive_list
       (map (\<lambda>a. transform_parser (multi_parser whitespace_parser (parse_consecutive_one a)) snd)
         (cp_parser c)) s"

definition char_of_parser :: "(bool \<Rightarrow> 'a) \<Rightarrow> char \<Rightarrow> 'a parser" where
  "char_of_parser emb c = transform_parser (char_parser True c) emb"

definition plus_parsers :: "'a parser \<Rightarrow> 'a parser \<Rightarrow> 'a combined_parser" where
  "plus_parsers p1 p2 = Combined_parser [p1, p2]"

definition combined_plus_parser :: "'a combined_parser \<Rightarrow> 'a parser \<Rightarrow> 'a combined_parser" where
  "combined_plus_parser p1 p2 = Combined_parser (cp_parser p1 @ [p2])"

definition parser_plus_combined :: "'a parser \<Rightarrow> 'a combined_parser \<Rightarrow> 'a combined_parser" where
  "parser_plus_combined p1 p2 = Combined_parser (p1 # cp_parser p2)"

definition char_plus_combined :: "(bool \<Rightarrow> 'a) \<Rightarrow> char \<Rightarrow> 'a combined_parser \<Rightarrow> 'a combined_parser" where
  "char_plus_combined emb c p2 = Combined_parser (char_of_parser emb c # cp_parser p2)"

text \<open>A combined parser and a character: a constant rvalue, and the other value categories.\<close>

definition const_rvalue_plus_char :: "(bool \<Rightarrow> 'a) \<Rightarrow> 'a combined_parser \<Rightarrow> char \<Rightarrow> 'a combined_parser" where
  "const_rvalue_plus_char emb p2 c = Combined_parser (char_of_parser emb c # cp_parser p2)"

definition combined_plus_char :: "(bool \<Rightarrow> 'a) \<Rightarrow> 'a combined_parser \<Rightarrow> char \<Rightarrow> 'a combined_parser" where
  "combined_plus_char emb p2 c = Combined_parser (cp_parser p2 @ [char_of_parser emb c])"

definition parser_plus_char :: "(bool \<Rightarrow> 'a) \<Rightarrow> 'a parser \<Rightarrow> char \<Rightarrow> 'a combined_parser" where
  "parser_plus_char emb p1 c = Combined_parser [p1, char_of_parser emb c]"

definition char_plus_parser :: "(bool \<Rightarrow> 'a) \<Rightarrow> char \<Rightarrow> 'a parser \<Rightarrow> 'a combined_parser" where
  "char_plus_parser emb c p1 = Combined_parser [char_of_parser emb c, p1]"

end
