(* ===== verification/Command.thy ===== *)
theory Command
  imports Parse_Combinators Permissions
begin

text \<open>
  \<open>command_parser/command_context.h\<close> with \<open>include/emoji.h\<close>: the argument parsers of bot
  commands, commands, groups of commands and the dispatch of a message. The argument types a
  command can name are the datatype \<open>arg_format\<close> and the values its handler receives are
  \<open>arg_value\<close>. \<open>nd\<close> says that assertions are compiled out. A handler is a function on a state
  of the bot's own.
\<close>

section \<open>Emojis\<close>

record partial_emoji =
  pe_id :: snowflake
  pe_name :: string
  pe_animated :: bool

definition partial_emoji_of_name :: "string \<Rightarrow> partial_emoji" where
  "partial_emoji_of_name name = \<lparr>pe_id = no_id, pe_name = name, pe_animated = False\<rparr>"

definition emoji_to_string :: "partial_emoji \<Rightarrow> string" where
  "emoji_to_string e =
     (if pe_id e = no_id then '':'' @ pe_name e @ '':''
      else if pe_animated e
      then ''<a:'' @ pe_name e @ '':'' @ std_to_string (unat (sf_val (pe_id e))) @ ''>''
      else ''<:'' @ pe_name e @ '':'' @ std_to_string (unat (sf_val (pe_id e))) @ ''>'')"

text \<open>\<open>dump\<close> prints a string as JSON text.\<close>

definition emoji_to_reaction_string :: "(string \<Rightarrow> string) \<Rightarrow> partial_emoji \<Rightarrow> string" where
  "emoji_to_reaction_string dump e =
     (if pe_id e = no_id then '':'' @ take (length (pe_name e)) (drop 1 (dump (pe_name e))) @ '':''
      else if pe_animated e
      then ''a:'' @ pe_name e @ '':'' @ std_to_string (unat (sf_val (pe_id e)))
      else '':'' @ pe_name e @ '':'' @ std_to_string (unat (sf_val (pe_id e))))"

definition emoji_is_custom :: "partial_emoji \<Rightarrow> bool" where
  "emoji_is_custom e = (pe_id e \<noteq> no_id)"

section \<open>Messages\<close>

text \<open>What the parsers read of a message and its guild.\<close>

record guild_text_message =
  msg_content :: string
  msg_mentions :: "member_roles list"
  msg_mention_role_ids :: "snowflake list"
  msg_guild_roles :: "snowflake \<rightharpoonup> guild_role"
  msg_guild_emojis :: "partial_emoji list"

definition user_to_mentionable_string :: "snowflake \<Rightarrow> string" where
  "user_to_mentionable_string i = ''<@'' @ std_to_string (unat (sf_val i)) @ ''>''"

section \<open>Argument parsers\<close>

definition mention_of :: "string \<Rightarrow> u64 parser" where
  "mention_of opening s =
     transform_parser
       (multi_parser (str_p opening) (parse_consecutive uint64_parser (parse_consecutive_one (char_p CHR ''>''))))
       (\<lambda>(_, i, _). i) s"

definition parser_member :: "bool \<Rightarrow> guild_text_message \<Rightarrow> member_roles parser" where
  "parser_member nd msg s =
     Option.bind (try_parse_multiple s (mention_of ''<@'') [mention_of ''<@!''])
       (and_then nd (\<lambda>id_as_int. find (\<lambda>m. mr_id m = Snowflake id_as_int) (msg_mentions msg)))"

definition emoji_of :: "string \<Rightarrow> (string \<times> string \<times> bool \<times> u64 \<times> bool) parser" where
  "emoji_of opening s =
     multi_parser (str_p opening) (parse_consecutive (parse_until_char [CHR '':''])
       (parse_consecutive (char_p CHR '':'') (parse_consecutive uint64_parser
         (parse_consecutive_one (char_p CHR ''>''))))) s"

definition parser_emoji :: "bool \<Rightarrow> guild_text_message \<Rightarrow> partial_emoji parser" where
  "parser_emoji nd msg s =
     Option.bind
       (map_option
         (apply_transform (\<lambda>(_, name, _, i, _).
            find (\<lambda>e. pe_id e = Snowflake i \<and> pe_name e = name) (msg_guild_emojis msg)))
         (try_parse_multiple s (emoji_of ''<:'') [emoji_of ''<a:'']))
       (and_then nd id)"

definition parser_partial_emoji :: "bool \<Rightarrow> guild_text_message \<Rightarrow> partial_emoji parser" where
  "parser_partial_emoji nd msg s =
     Option.bind (parser_emoji nd msg s) (\<lambda>r.
       if success r then Some (transform (\<lambda>e. e) r)
       else map_option (transform partial_emoji_of_name \<circ> transform (\<lambda>(_, name, _). name))
         (parse_consecutive (char_p CHR '':'')
           (parse_consecutive (parse_until_char [CHR '':'', CHR '' '', CHR 0x0A, CHR 0x09, CHR ''-''])
             (parse_consecutive_one (char_p CHR '':''))) s))"

definition parser_word :: "string parser" where
  "parser_word s = try_parse_multiple s quote_string_parser [parse_until_char [CHR '' '']]"

definition parser_string :: "string parser" where
  "parser_string s = Some (Parsed s '''')"

text \<open>The roles of a message are looked up in the guild one by one until the wanted one is found;
  an id the guild does not know throws.\<close>

fun find_mentioned_role :: "(snowflake \<rightharpoonup> guild_role) \<Rightarrow> snowflake list \<Rightarrow> snowflake \<Rightarrow> guild_role option option" where
  "find_mentioned_role roles [] i = Some None"
| "find_mentioned_role roles (k # ks) i =
     (case roles k of
        None \<Rightarrow> None
      | Some r \<Rightarrow> if role_id r = i then Some (Some r) else find_mentioned_role roles ks i)"

definition parser_role :: "bool \<Rightarrow> guild_text_message \<Rightarrow> guild_role parser" where
  "parser_role nd msg s =
     Option.bind (parse_consecutive (str_p ''<@&'')
         (parse_consecutive uint64_parser (parse_consecutive_one (char_p CHR ''>''))) s)
       (\<lambda>r. case transform (\<lambda>(_, i, _). i) r of
          Parsed i t \<Rightarrow>
            Option.bind (find_mentioned_role (msg_guild_roles msg) (msg_mention_role_ids msg) (Snowflake i))
              (\<lambda>found. and_then nd (\<lambda>_. found) (Parsed i t))
        | f \<Rightarrow> and_then nd (\<lambda>_. None) f)"

text \<open>\<open>parser<uint32_t>\<close> converts the 64-bit result.\<close>

definition parser_uint32 :: "u32 parser" where
  "parser_uint32 s = Option.bind (uint64_parser s) (convert_rvalue (\<lambda>v. ucast v))"

fun array_loop :: "'a parser \<Rightarrow> nat \<Rightarrow> 'a list parser" where
  "array_loop lower 0 s = Some (Parsed [] s)"
| "array_loop lower (Suc k) s =
     Option.bind (parse_consecutive non_optional_whitespace_parser (parse_consecutive_one lower) s)
       (\<lambda>result. case transform snd result of
          Parsed v r \<Rightarrow> map_option (transform (\<lambda>vs. v # vs)) (array_loop lower k r)
        | _ \<Rightarrow> Some Fail_no_reason)"

definition parser_array :: "'a parser \<Rightarrow> nat \<Rightarrow> 'a list parser" where
  "parser_array lower n s =
     Option.bind (lower s) (\<lambda>r1. case r1 of
       Parsed v r \<Rightarrow> map_option (transform (\<lambda>vs. v # vs)) (array_loop lower (n - 1) r)
     | _ \<Rightarrow> Some Fail_no_reason)"

definition parser_vector :: "'a parser \<Rightarrow> 'a list parser" where
  "parser_vector lower s = list_parser3 lower non_optional_whitespace_parser s"

datatype arg_format =
  F_member | F_role | F_emoji | F_partial_emoji | F_word | F_string | F_int | F_uint32 | F_uint64
| F_int64 | F_array arg_format nat | F_vector arg_format | F_optional arg_format

datatype arg_value =
  A_member member_roles | A_role guild_role | A_emoji partial_emoji | A_text string | A_int int
| A_uint32 u32 | A_uint64 u64 | A_list "arg_value list" | A_optional "arg_value option"

text \<open>\<open>parser<T>(msg)\<close> for every argument type.\<close>

fun parser_of :: "bool \<Rightarrow> guild_text_message \<Rightarrow> arg_format \<Rightarrow> arg_value parser" where
  "parser_of nd msg F_member s = map_option (transform A_member) (parser_member nd msg s)"
| "parser_of nd msg F_role s = map_option (transform A_role) (parser_role nd msg s)"
| "parser_of nd msg F_emoji s = map_option (transform A_emoji) (parser_emoji nd msg s)"
| "parser_of nd msg F_partial_emoji s = map_option (transform A_emoji) (parser_partial_emoji nd msg s)"
| "parser_of nd msg F_word s = map_option (transform A_text) (parser_word s)"
| "parser_of nd msg F_string s = map_option (transform A_text) (parser_string s)"
| "parser_of nd msg F_int s = map_option (transform A_int) (int_parser s)"
| "parser_of nd msg F_uint32 s = map_option (transform A_uint32) (parser_uint32 s)"
| "parser_of nd msg F_uint64 s = map_option (transform A_uint64) (uint64_parser s)"
| "parser_of nd msg F_int64 s = map_option (transform A_int) (integral_parser 64 s)"
| "parser_of nd msg (F_array f n) s = map_option (transform A_list) (parser_array (parser_of nd msg f) n s)"
| "parser_of nd msg (F_vector f) s = map_option (transform A_list) (parser_vector (parser_of nd msg f) s)"
| "parser_of nd msg (F_optional f) s = map_option (transform A_optional) (optional_parser (parser_of nd msg f) s)"

section \<open>Commands\<close>

text \<open>\<open>make_command\<close>: the argument types and the handler. \<open>try_invoke_with\<close> says whether the
  handler was invoked, and gives the new state.\<close>

record 's command =
  cmd_formats :: "arg_format list"
  cmd_handler :: "arg_value list \<Rightarrow> guild_text_message \<Rightarrow> 's \<Rightarrow> 's"

definition spaced_arg :: "bool \<Rightarrow> guild_text_message \<Rightarrow> arg_format \<Rightarrow> arg_value parser" where
  "spaced_arg nd msg f s =
     transform_parser (multi_parser non_optional_whitespace_parser
       (parse_consecutive_one (parser_of nd msg f))) snd s"

definition command_args :: "bool \<Rightarrow> guild_text_message \<Rightarrow> arg_format list \<Rightarrow> arg_value list parser" where
  "command_args nd msg fs content = parse_consecutive_list (map (spaced_arg nd msg) fs) content"

definition try_invoke_with :: "bool \<Rightarrow> 's command \<Rightarrow> string \<Rightarrow> guild_text_message \<Rightarrow> 's \<Rightarrow> (bool \<times> 's) option" where
  "try_invoke_with nd c content msg s =
     (if cmd_formats c = [] then Some (True, cmd_handler c [] msg s)
      else Option.bind (command_args nd msg (cmd_formats c) content) (\<lambda>stuff. case stuff of
        Parsed args _ \<Rightarrow> Some (True, cmd_handler c args msg s)
      | _ \<Rightarrow> Some (False, s)))"

type_synonym 's command_group = "'s command list"

definition group_add :: "'s command_group \<Rightarrow> 's command \<Rightarrow> 's command_group" where
  "group_add commands c = commands @ [c]"

fun group_call :: "bool \<Rightarrow> 's command_group \<Rightarrow> string \<Rightarrow> guild_text_message \<Rightarrow> 's \<Rightarrow> 's option" where
  "group_call nd [] content msg s = Some s"
| "group_call nd (fn # fns) content msg s =
     Option.bind (try_invoke_with nd fn content msg s) (\<lambda>(invoked, s').
       if invoked then Some s' else group_call nd fns content msg s')"

record 's command_context =
  ctx_prefix :: string
  ctx_groups :: "string \<rightharpoonup> 's command_group"

text \<open>\<open>operator[]\<close> creates a missing group; its assertion is about white space in the name.\<close>

definition ctx_index :: "bool \<Rightarrow> 's command_context \<Rightarrow> string \<Rightarrow> ('s command_context \<times> 's command_group) option" where
  "ctx_index nd ctx name =
     (if \<not> nd \<and> list_ex is_whitespace_char name then None
      else case ctx_groups ctx name of
        Some g \<Rightarrow> Some (ctx, g)
      | None \<Rightarrow> Some (ctx\<lparr>ctx_groups := (ctx_groups ctx)(name \<mapsto> [])\<rparr>, []))"

definition do_command :: "bool \<Rightarrow> 's command_context \<Rightarrow> guild_text_message \<Rightarrow> 's \<Rightarrow> 's option" where
  "do_command nd ctx msg s =
     (if starts_with (msg_content msg) (ctx_prefix ctx) then
        let content = drop (length (ctx_prefix ctx)) (msg_content msg);
            idx_of_whitespace_or_end = find_index is_whitespace_char content;
            command_name = take idx_of_whitespace_or_end content
        in case ctx_groups ctx command_name of
             None \<Rightarrow> Some s
           | Some g \<Rightarrow> group_call nd g (drop idx_of_whitespace_or_end content) msg s
      else Some s)"

end
