(* ===== verification/Parser_Laws.thy ===== *)
theory Parser_Laws
  imports Parse_Combinators
begin

text \<open>
  What the parsers promise: the text left is a suffix of the text given, which ones take at least
  a character, which ones have a result on every text; when the loops of the list parsers end
  and what they return.
\<close>

section \<open>Primitive parsers\<close>

lemma strict_suffix_drop: "0 < n \<Longrightarrow> s \<noteq> [] \<Longrightarrow> strict_suffix (drop n s) s"
  by (metis suffix_drop strict_suffix_def length_drop diff_less length_greater_0_conv less_irrefl_nat)

lemma strict_suffix_tl: "s \<noteq> [] \<Longrightarrow> strict_suffix (tl s) s"
  using strict_suffix_drop [of 1 s] by (simp add: drop_Suc)

lemma suffix_tl: "suffix (tl s) s"
  by (metis drop_Suc_Cons drop0 list.exhaust list.sel(2,3) suffix_drop suffix_order.refl)

lemma used_pos: "n \<noteq> 0 \<Longrightarrow> n \<le> length s \<Longrightarrow> strict_suffix (drop n s) s"
  by (intro strict_suffix_drop) auto

lemma from_chars_int_used: "snd (from_chars_int bits old s) \<le> length s"
  using length_takeWhile_le [of is_digit s] length_takeWhile_le [of is_digit "tl s"]
  by (cases s) (auto simp: from_chars_int_def Let_def)

lemma consumesI:
  assumes "\<And>s. \<exists>r. p s = Some r \<and> (\<forall>v t. r = Parsed v t \<longrightarrow> strict_suffix t s)"
  shows "consumes p \<and> total_parser p"
  using assms unfolding consumes_def total_parser_def by (metis option.distinct(1) option.inject)

lemma consume_ws: "consumes non_optional_whitespace_parser \<and> total_parser non_optional_whitespace_parser"
  by (rule consumesI) (auto simp: non_optional_whitespace_parser_def whitespace_parser_def Let_def
      neq_Nil_conv intro!: strict_suffix_drop)

lemma consume_int: "consumes int_parser \<and> total_parser int_parser"
  by (rule consumesI)
    (use from_chars_int_used in \<open>auto simp: int_parser_def split: prod.splits intro!: used_pos, metis snd_conv\<close>)

lemma consume_integral: "consumes (integral_parser n) \<and> total_parser (integral_parser n)"
  by (rule consumesI)
    (use from_chars_int_used in \<open>auto simp: integral_parser_def split: prod.splits intro!: used_pos, metis snd_conv\<close>)

lemma consume_uint64: "consumes uint64_parser \<and> total_parser uint64_parser"
  by (rule consumesI)
    (use from_chars_used in \<open>auto simp: uint64_parser_def split: prod.splits intro!: used_pos, metis snd_conv\<close>)

lemma consume_char: "consumes (char_parser True c) \<and> total_parser (char_parser True c)"
  by (rule consumesI) (auto simp: char_parser_def Let_def intro!: strict_suffix_drop)

lemma consume_str: "p \<noteq> [] \<Longrightarrow> consumes (str_parser True p) \<and> total_parser (str_parser True p)"
  by (rule consumesI) (auto simp: str_parser_def starts_with_def intro!: strict_suffix_drop)

lemma whitespace_parser_eq:
  "whitespace_parser s = Some (Parsed (length (takeWhile is_whitespace_char s)) (dropWhile is_whitespace_char s))"
  by (simp add: whitespace_parser_def Let_def dropWhile_eq_drop)

lemma leaves_until_char: "leaves_suffix (parse_until_char cs) \<and> total_parser (parse_until_char cs)"
  by (auto simp: leaves_suffix_def total_parser_def parse_until_char_def Let_def suffix_drop split: if_splits)

lemma leaves_quote: "leaves_suffix quote_string_parser"
  by (auto simp: leaves_suffix_def quote_string_parser_def suffix_drop split: if_splits option.splits)

lemma quote_scan_defined: "CHR 0x5C \<notin> set s \<Longrightarrow> quote_scan q s \<noteq> None"
  by (induction s) auto

lemma quote_defined: "CHR 0x5C \<notin> set s \<Longrightarrow> quote_string_parser s \<noteq> None"
  using quote_scan_defined [of "tl s" "hd s"]
  by (cases s) (auto simp: quote_string_parser_def split: option.splits)

section \<open>Combinators\<close>

lemma propagate_not_Parsed [simp]: "propagate_fail r \<noteq> Parsed v t" "Parsed v t \<noteq> propagate_fail r"
  by (cases r; simp)+

lemma one_Parsed_iff: "parse_consecutive_one p s = Some (Parsed v r) \<longleftrightarrow> p s = Some (Parsed v r)"
  by (cases "p s") (auto simp: parse_consecutive_one_def split: parse_result.splits)

lemma leaves_one: "leaves_suffix p \<Longrightarrow> leaves_suffix (parse_consecutive_one p)"
  by (simp add: leaves_suffix_def one_Parsed_iff)

lemma one_None_iff: "parse_consecutive_one p s = None \<longleftrightarrow> p s = None"
  by (cases "p s") (auto simp: parse_consecutive_one_def split: parse_result.splits)

lemma seq_Parsed_iff: "parse_consecutive p q s = Some (Parsed v r) \<longleftrightarrow>
    (\<exists>t. p s = Some (Parsed (fst v) t) \<and> q t = Some (Parsed (snd v) r))"
proof (cases "p s")
  case (Some t)
  show ?thesis
  proof (cases t)
    case (Parsed w u)
    with Some show ?thesis
      by (cases v; cases "q u") (auto simp: parse_consecutive_def split: parse_result.splits)
  qed (use Some in \<open>auto simp: parse_consecutive_def\<close>)
qed (simp add: parse_consecutive_def)

lemma seq_None_iff: "parse_consecutive p q s = None \<longleftrightarrow>
    p s = None \<or> (\<exists>v t. p s = Some (Parsed v t) \<and> q t = None)"
proof (cases "p s")
  case (Some t)
  show ?thesis
  proof (cases t)
    case (Parsed w u)
    with Some show ?thesis
      by (cases "q u") (auto simp: parse_consecutive_def split: parse_result.splits)
  qed (use Some in \<open>auto simp: parse_consecutive_def\<close>)
qed (simp add: parse_consecutive_def)

lemma transform_parser_Parsed_iff:
  "transform_parser p f s = Some (Parsed w r) \<longleftrightarrow> (\<exists>v. p s = Some (Parsed v r) \<and> w = f v)"
  by (auto simp: transform_parser_def transform_Parsed_iff)

lemma transform_parser_None_iff [simp]: "transform_parser p f s = None \<longleftrightarrow> p s = None"
  by (simp add: transform_parser_def)

lemmas parsed_iffs = one_Parsed_iff seq_Parsed_iff transform_parser_Parsed_iff transform_Parsed_iff
lemmas none_iffs = one_None_iff seq_None_iff transform_parser_None_iff

lemma leaves_seq: "leaves_suffix p \<Longrightarrow> leaves_suffix q \<Longrightarrow> leaves_suffix (parse_consecutive p q)"
  unfolding leaves_suffix_def seq_Parsed_iff by (blast intro: suffix_order.trans)

lemma consumes_seq: "consumes p \<Longrightarrow> leaves_suffix q \<Longrightarrow> consumes (parse_consecutive p q)"
  unfolding leaves_suffix_def consumes_def seq_Parsed_iff
  by (meson suffix_order.le_less_trans)

lemma total_seq: "total_parser p \<Longrightarrow> total_parser q \<Longrightarrow> total_parser (parse_consecutive p q)"
  unfolding total_parser_def none_iffs by blast

lemma leaves_transform: "leaves_suffix p \<Longrightarrow> leaves_suffix (transform_parser p f)"
  unfolding leaves_suffix_def by (auto simp: transform_parser_Parsed_iff)

lemma consumes_transform: "consumes p \<Longrightarrow> consumes (transform_parser p f)"
  unfolding consumes_def by (auto simp: transform_parser_Parsed_iff)

lemma total_transform: "total_parser p \<Longrightarrow> total_parser (transform_parser p f)"
  unfolding total_parser_def by simp

lemma try_Parsed: "try_parse_multiple s p ps = Some (Parsed v r) \<Longrightarrow>
    \<exists>q \<in> insert p (set ps). q s = Some (Parsed v r)"
  by (induction s p ps rule: try_parse_multiple.induct)
    (auto simp: bind_eq_Some_conv split: if_splits)

lemma try_None: "try_parse_multiple s p ps = None \<Longrightarrow> \<exists>q \<in> insert p (set ps). q s = None"
  by (induction s p ps rule: try_parse_multiple.induct)
    (auto simp: bind_eq_None_conv split: if_splits)

text \<open>The result is the first success, or the last failure.\<close>

lemma try_first: "p s = Some (Parsed v r) \<Longrightarrow> try_parse_multiple s p ps = Some (Parsed v r)"
  by (cases ps) auto

lemma try_next: "p s = Some f \<Longrightarrow> \<not> success f \<Longrightarrow>
    try_parse_multiple s p (q # ps) = try_parse_multiple s q ps"
  by simp

section \<open>Loops\<close>

text \<open>\<open>parses_items p s vs r\<close>: from \<open>s\<close> the parser succeeds once for every value of \<open>vs\<close>, and
  then has reached \<open>r\<close>.\<close>

inductive parses_items :: "'a parser \<Rightarrow> string \<Rightarrow> 'a list \<Rightarrow> string \<Rightarrow> bool" for p where
  items_Nil: "parses_items p s [] s"
| items_Cons: "p s = Some (Parsed v t) \<Longrightarrow> parses_items p t vs r \<Longrightarrow> parses_items p s (v # vs) r"

inductive_cases parses_items_ConsE: "parses_items p s (v # vs) r"
inductive_cases parses_items_NilE: "parses_items p s [] r"

lemma list_loop_items:
  "parses_items p s vs r \<Longrightarrow> p r = Some f \<Longrightarrow> \<not> success f \<Longrightarrow>
    list_loop p ret s = Some (Parsed (ret @ vs) r)"
proof (induction arbitrary: ret rule: parses_items.induct)
  case (items_Nil s)
  then show ?case by (subst list_loop.simps) (auto split: parse_result.splits)
next
  case (items_Cons s v t vs r)
  then have "list_loop p (ret @ [v]) t = Some (Parsed ((ret @ [v]) @ vs) r)" by blast
  with items_Cons.hyps(1) show ?case by (subst list_loop.simps) simp
qed

lemma list_loop_result:
  "list_loop p ret s = Some x \<Longrightarrow>
    \<exists>vs r f. x = Parsed (ret @ vs) r \<and> parses_items p s vs r \<and> p r = Some f \<and> \<not> success f"
proof (induction rule: list_loop.raw_induct [rotated, consumes 1, case_names loop])
  case (loop rec p ret s x)
  show ?case
  proof (cases "p s")
    case (Some y)
    show ?thesis
    proof (cases y)
      case (Parsed v t)
      with loop.hyps Some have "rec p (ret @ [v]) t = Some x" by simp
      from loop.IH [OF this] obtain vs r f where
        "x = Parsed ((ret @ [v]) @ vs) r" "parses_items p t vs r" "p r = Some f" "\<not> success f" by blast
      with Some Parsed show ?thesis
        by (intro exI [of _ "v # vs"] exI [of _ r] exI [of _ f]) (auto intro: items_Cons)
    qed (use loop.hyps Some in \<open>auto intro: items_Nil\<close>)
  qed (use loop.hyps in simp)
qed


lemma parses_items_suffix: "leaves_suffix p \<Longrightarrow> parses_items p s vs r \<Longrightarrow> suffix r s"
  by (rotate_tac, induction rule: parses_items.induct)
    (auto dest: leaves_suffixD intro: suffix_order.trans)

text \<open>A loop ends when every item takes characters and the parser is defined on the texts over an
  alphabet. The contract of a repeated parser:\<close>

locale list_items =
  fixes p :: "'a parser" and A :: "char set"
  assumes item_consumes: "consumes p"
    and item_total: "defined_on A p"
begin

lemma loop_returns: "set s \<subseteq> A \<Longrightarrow> \<exists>vs r. list_loop p ret s = Some (Parsed (ret @ vs) r)"
proof (induction "length s" arbitrary: s ret rule: less_induct)
  case less
  obtain x where x: "p s = Some x" using defined_onD [OF item_total less.prems] by blast
  show ?case
  proof (cases x)
    case (Parsed v t)
    with x have t: "length t < length s" "set t \<subseteq> A"
      using consumes_shorter [OF item_consumes] leaves_suffixD [OF consumes_leaves_suffix [OF item_consumes]]
        set_mono_suffix less.prems by blast+
    from less.hyps [OF t, of "ret @ [v]"] x Parsed show ?thesis
      by (subst list_loop.simps) auto
  qed (use x in \<open>subst list_loop.simps, simp\<close>)+
qed

lemma loop_unique: "parses_items p s vs r \<Longrightarrow> p r = Some f \<Longrightarrow> \<not> success f \<Longrightarrow>
    list_parser1 p s = Some (Parsed vs r)"
  unfolding list_parser1_def using list_loop_items [of p s vs r f "[]"] by simp

end

text \<open>White space and an item, the item parser defined on the alphabet: the loop of \<open>list_parser3\<close>
  with white space between the items.\<close>

lemma defined_on_seq: "defined_on A p \<Longrightarrow> leaves_suffix p \<Longrightarrow> defined_on A q \<Longrightarrow> defined_on A (parse_consecutive p q)"
  unfolding defined_on_def none_iffs by (meson leaves_suffixD set_mono_suffix subset_trans)

lemma defined_on_transform: "defined_on A p \<Longrightarrow> defined_on A (transform_parser p f)"
  unfolding defined_on_def by simp

lemma spaced_items:
  assumes "leaves_suffix p" "defined_on A p"
  shows "list_items (transform_parser (parse_consecutive non_optional_whitespace_parser p) snd) A"
  using assms consume_ws
  by unfold_locales
    (auto intro!: consumes_transform consumes_seq defined_on_transform defined_on_seq
      intro: total_defined_on consumes_leaves_suffix)

interpretation ints: list_items int_parser UNIV
  using consume_int by unfold_locales (auto intro: total_defined_on)

interpretation spaced_uint64:
  list_items "transform_parser (parse_consecutive non_optional_whitespace_parser uint64_parser) snd" UNIV
  using consume_uint64 by (intro spaced_items) (auto intro: consumes_leaves_suffix total_defined_on)

lemma list3_result:
  assumes "list_parser3 p d s = Some x"
  shows "x = Parsed [] s \<or> (\<exists>v t vs r. p s = Some (Parsed v t) \<and> x = Parsed (v # vs) r
    \<and> parses_items (transform_parser (parse_consecutive d p) snd) t vs r)"
proof (cases "p s")
  case (Some y)
  with assms show ?thesis
    by (cases y) (auto simp: list_parser3_def dest!: list_loop_result)
qed (use assms in \<open>simp add: list_parser3_def\<close>)

lemma list3_Parsed:
  assumes "list_parser3 p d s = Some (Parsed vs r)" "leaves_suffix p" "leaves_suffix d"
  shows "suffix r s"
  using list3_result [OF assms(1)] assms(2,3)
    parses_items_suffix [OF leaves_transform [OF leaves_seq [OF assms(3,2)], of snd]]
  by (metis leaves_suffixD parse_result.inject(1) suffix_order.refl suffix_order.trans)

lemma list3_total:
  assumes "leaves_suffix p" "defined_on A p"
  shows "defined_on A (list_parser3 p non_optional_whitespace_parser)"
  unfolding defined_on_def
proof (intro allI impI)
  fix s assume s: "set s \<subseteq> A"
  obtain x where x: "p s = Some x" using defined_onD [OF assms(2) s] by blast
  show "list_parser3 p non_optional_whitespace_parser s \<noteq> None"
  proof (cases x)
    case (Parsed v t)
    with x assms(1) s have "set t \<subseteq> A" by (meson leaves_suffixD set_mono_suffix subset_trans)
    from list_items.loop_returns [OF spaced_items [OF assms] this, of "[v]"] x Parsed
    show ?thesis by (auto simp: list_parser3_def)
  qed (use x in \<open>simp_all add: list_parser3_def\<close>)
qed

section \<open>Properties of the parser library\<close>

text \<open>\<open>list_parser1\<close> returns the longest run of items: every item starts where the one
  before ended, and the parser fails on the text that is left. When it has no result, no such run
  exists.\<close>
theorem list_parser1_maximal_run:
  "list_parser1 p s = Some x \<longleftrightarrow>
    (\<exists>vs r f. x = Parsed vs r \<and> parses_items p s vs r \<and> p r = Some f \<and> \<not> success f)"
  unfolding list_parser1_def
  using list_loop_result [of p "[]" s x] list_loop_items [of p s _ _ _ "[]"] by auto

text \<open>A list of integers separated by white space is read entirely: every text is parsed by
  \<open>list_parser3\<close> in finitely many steps, never fails, and what is left is a suffix.\<close>
theorem int_list_total:
  "\<exists>vs r. list_parser3 int_parser non_optional_whitespace_parser s = Some (Parsed vs r) \<and> suffix r s"
proof -
  have i: "leaves_suffix int_parser" "defined_on UNIV int_parser"
    using consume_int by (auto intro: consumes_leaves_suffix total_defined_on)
  have w: "leaves_suffix non_optional_whitespace_parser"
    using consume_ws by (auto intro: consumes_leaves_suffix)
  obtain x where x: "list_parser3 int_parser non_optional_whitespace_parser s = Some x"
    using defined_onD [OF list3_total [OF i], of s] by auto
  then obtain vs r where "x = Parsed vs r" using list3_result by blast
  with x i(1) w list3_Parsed show ?thesis by blast
qed

text \<open>A list parser around a parser that takes nothing never returns.\<close>
theorem list_parser1_nothing_diverges: "list_parser1 nothing_parser s = None"
  using list_loop_result [of nothing_parser "[]" s]
  by (cases "list_loop nothing_parser [] s") (auto simp: list_parser1_def nothing_parser_def)

text \<open>\<open>list_parser2\<close> does not look for the terminator before the first item: an empty list leaves
  it in the text, where \<open>list_parser4\<close> takes it.\<close>
theorem list_parser2_empty_list:
  "list_parser2 int_parser (char_p CHR '','') (char_p CHR '']'') '']'' = Some (Parsed [] '']'')
   \<and> list_parser4 int_parser (char_p CHR '','') (char_p CHR '']'') '']'' = Some (Parsed ([], Some (Inl True)) '''')"
  by (simp add: list_parser2_def list_parser4_def int_parser_def from_chars_int_def is_digit_def
      char_p_def char_parser_def)

text \<open>\<open>parse_multi_consecutive2\<close>, which throws to leave the sequence, and \<open>parse_consecutive\<close> agree on
  every text, but for the reason of a failure.\<close>
theorem multi_consecutive2_equiv:
  "parse_multi_consecutive2 ps s =
     map_option (\<lambda>r. if success r then r else Fail_no_reason) (parse_consecutive_list ps s)"
proof (induction ps arbitrary: s)
  case (Cons p ps)
  show ?case
  proof (cases "p s")
    case (Some x)
    show ?thesis
    proof (cases x)
      case (Parsed v t)
      show ?thesis
        using Cons.IH [of t] Some Parsed
        by (cases "multi_consecutive_things ps t"; cases "parse_consecutive_list ps t")
          (auto simp: parse_multi_consecutive2_def parse_consecutive_def split: sum.splits parse_result.splits if_splits)
    qed (use Some in \<open>auto simp: parse_multi_consecutive2_def parse_consecutive_def\<close>)
  qed (simp add: parse_multi_consecutive2_def parse_consecutive_def)
qed (simp add: parse_multi_consecutive2_def)

text \<open>\<open>alpha_numeric1_parser\<close> never succeeds: it demands a character that is both a letter and a
  digit.\<close>
theorem alpha_numeric1_never_parses: "alpha_numeric1_parser s = Some Fail_no_reason"
  by (auto simp: alpha_numeric1_parser_def is_numeric_char_def is_alpha_char_def)

text \<open>\<open>ensures_start_with\<close> is the same function as \<open>not_start_with_pred\<close>.\<close>
theorem ensures_start_with_inverted: "ensures_start_with p = not_start_with_pred p"
  by (rule ext) (simp add: ensures_start_with_def not_start_with_pred_def)

text \<open>A character added at the end of a constant rvalue becomes the first one.\<close>
theorem const_rvalue_plus_char_swaps:
  "combined_parse (const_rvalue_plus_char id (plus_parsers (char_p CHR ''a'') (char_p CHR ''b'')) CHR ''c'') ''cab''
     = Some (Parsed [True, True, True] '''')
   \<and> combined_parse (combined_plus_char id (plus_parsers (char_p CHR ''a'') (char_p CHR ''b'')) CHR ''c'') ''cab''
     = Some Fail_no_reason"
  by (simp add: combined_parse_def const_rvalue_plus_char_def combined_plus_char_def plus_parsers_def
      char_of_parser_def transform_parser_def parse_consecutive_def char_p_def char_parser_def)

end
