(* ===== verification/Command_Laws.thy ===== *)
theory Command_Laws
  imports Command Parser_Laws
begin

text \<open>
  What the argument parsers and the command dispatch do: every argument parser leaves a suffix of
  its text and returns; mentions and emojis printed by the library are read back; a message runs
  the first command of its group whose arguments parse, and nothing else.
\<close>

declare try_parse_multiple.simps [simp del]

section \<open>Every argument parser leaves a suffix\<close>

lemma leaves_mention: "leaves_suffix (mention_of a)"
proof
  fix s v r assume "mention_of a s = Some (Parsed v r)"
  then obtain t u where "str_parser True a s = Some (Parsed a t) \<or> (\<exists>w. str_parser True a s = Some (Parsed w t))"
    "uint64_parser t = Some (Parsed v u)" "\<exists>b. char_parser True CHR ''>'' u = Some (Parsed b r)"
    by (auto simp: mention_of_def multi_parser_def str_p_def char_p_def parsed_iffs)
  moreover have "leaves_suffix (str_parser True a)"
    by (auto simp: leaves_suffix_def str_parser_def suffix_drop split: if_splits)
  ultimately show "suffix r s"
    using consume_uint64 consume_char consumes_leaves_suffix
    by (metis leaves_suffixD suffix_order.trans)
qed

lemma leaves_str: "leaves_suffix (str_parser b a)"
  by (auto simp: leaves_suffix_def str_parser_def suffix_drop split: if_splits)

lemma leaves_char: "leaves_suffix (char_p c)"
  unfolding char_p_def [abs_def] by (rule consume_char [THEN conjunct1, THEN consumes_leaves_suffix])

lemma leaves_str_p: "leaves_suffix (str_p a)"
  using leaves_str by (auto simp: str_p_def [abs_def])

lemma leaves_uint64: "leaves_suffix uint64_parser"
  using consume_uint64 consumes_leaves_suffix by blast

lemmas leaves_rules = leaves_seq leaves_one leaves_transform leaves_char leaves_str_p leaves_uint64
  leaves_until_char [THEN conjunct1] leaves_quote

lemma defined_seq: "total_parser p \<Longrightarrow> total_parser (parse_consecutive_one p)"
  by (simp add: total_parser_def one_None_iff)

lemma total_str: "total_parser (str_p a)"
  by (simp add: total_parser_def str_p_def str_parser_def)

lemma total_char: "total_parser (char_p c)"
  by (simp add: total_parser_def char_p_def char_parser_def Let_def)

lemmas total_rules = total_seq defined_seq total_transform total_str total_char
  consume_uint64 [THEN conjunct2] leaves_until_char [THEN conjunct2]

lemma mention_eq: "mention_of a = transform_parser (parse_consecutive (str_p a)
    (parse_consecutive uint64_parser (parse_consecutive_one (char_p CHR ''>'')))) (\<lambda>(_, i, _). i)"
  by (rule ext) (simp add: mention_of_def transform_parser_def multi_parser_def)

lemma emoji_eq: "emoji_of a = parse_consecutive (str_p a) (parse_consecutive (parse_until_char [CHR '':''])
    (parse_consecutive (char_p CHR '':'') (parse_consecutive uint64_parser
      (parse_consecutive_one (char_p CHR ''>'')))))"
  by (rule ext) (simp add: emoji_of_def multi_parser_def)

lemma total_mention: "total_parser (mention_of a)"
  unfolding mention_eq by (intro total_rules)

lemma leaves_emoji: "leaves_suffix (emoji_of a)"
  unfolding emoji_eq by (intro leaves_rules)

lemma total_emoji: "total_parser (emoji_of a)"
  unfolding emoji_eq by (intro total_rules)

lemma leaves_member: "leaves_suffix (parser_member nd msg)"
  using leaves_mention
  by (auto simp: leaves_suffix_def parser_member_def bind_eq_Some_conv and_then_Parsed_iff dest!: try_Parsed)

lemma leaves_parser_emoji: "leaves_suffix (parser_emoji nd msg)"
  using leaves_emoji
  by (auto simp: leaves_suffix_def parser_emoji_def bind_eq_Some_conv and_then_Parsed_iff
      transform_Parsed_iff dest!: try_Parsed)

lemma leaves_partial_emoji: "leaves_suffix (parser_partial_emoji nd msg)"
proof
  fix s v r assume a: "parser_partial_emoji nd msg s = Some (Parsed v r)"
  let ?q = "parse_consecutive (char_p CHR '':'') (parse_consecutive
    (parse_until_char [CHR '':'', CHR '' '', CHR 0x0A, CHR 0x09, CHR ''-'']) (parse_consecutive_one (char_p CHR '':'')))"
  have "leaves_suffix ?q" by (intro leaves_rules)
  with a leaves_parser_emoji [of nd msg] show "suffix r s"
    by (auto simp: leaves_suffix_def parser_partial_emoji_def bind_eq_Some_conv transform_Parsed_iff
        split: if_splits)
qed

lemma leaves_word: "leaves_suffix parser_word"
  using leaves_quote leaves_until_char
  by (auto simp: leaves_suffix_def parser_word_def dest!: try_Parsed)

lemma leaves_role: "leaves_suffix (parser_role nd msg)"
proof
  fix s v r assume a: "parser_role nd msg s = Some (Parsed v r)"
  let ?q = "parse_consecutive (str_p ''<@&'') (parse_consecutive uint64_parser (parse_consecutive_one (char_p CHR ''>'')))"
  have q: "leaves_suffix ?q" by (intro leaves_rules)
  obtain x where x: "?q s = Some x" using a by (auto simp: parser_role_def bind_eq_Some_conv)
  show "suffix r s"
  proof (cases x)
    case (Parsed w t)
    with a x have "t = r"
      by (cases w) (auto simp: parser_role_def bind_eq_Some_conv parse_fail_checked_def split: option.splits if_splits)
    with q x Parsed show ?thesis by (meson leaves_suffixD)
  qed (use a x in \<open>auto simp: parser_role_def parse_fail_checked_def\<close>)
qed

lemma leaves_array_loop: "leaves_suffix p \<Longrightarrow> leaves_suffix (array_loop p n)"
proof (induction n)
  case (Suc n)
  have "leaves_suffix (parse_consecutive non_optional_whitespace_parser (parse_consecutive_one p))"
    using consume_ws Suc.prems by (intro leaves_rules) (auto intro: consumes_leaves_suffix)
  with Suc.IH [OF Suc.prems] show ?case
    by (fastforce simp: leaves_suffix_def bind_eq_Some_conv transform_Parsed_iff
        split: parse_result.split_asm intro: suffix_order.trans)
qed (simp add: leaves_suffix_def)

lemma leaves_array: "leaves_suffix p \<Longrightarrow> leaves_suffix (parser_array p n)"
  using leaves_array_loop [of p "n - 1"]
  by (fastforce simp: leaves_suffix_def parser_array_def bind_eq_Some_conv transform_Parsed_iff
      split: parse_result.split_asm intro: suffix_order.trans)

lemma leaves_vector: "leaves_suffix p \<Longrightarrow> leaves_suffix (parser_vector p)"
  using list3_Parsed [OF _ _ consumes_leaves_suffix [OF consume_ws [THEN conjunct1]]]
  by (auto intro!: leaves_suffixI simp: parser_vector_def)

lemma leaves_optional: "leaves_suffix p \<Longrightarrow> leaves_suffix (optional_parser p)"
  by (auto simp: leaves_suffix_def optional_parser_def bind_eq_Some_conv split: parse_result.split_asm)

lemma leaves_map: "leaves_suffix p \<Longrightarrow> leaves_suffix (\<lambda>s. map_option (transform f) (p s))"
  by (auto simp: leaves_suffix_def transform_Parsed_iff)

lemma leaves_uint32: "leaves_suffix parser_uint32"
  using leaves_uint64
  by (auto simp: leaves_suffix_def parser_uint32_def bind_eq_Some_conv elim!: convert_rvalue.elims)

lemma leaves_parser_of: "leaves_suffix (parser_of nd msg f)"
proof (induction f)
  case F_string
  show ?case by (simp add: leaves_suffix_def parser_string_def)
qed (auto intro!: leaves_map leaves_member leaves_role leaves_parser_emoji leaves_partial_emoji leaves_word
    leaves_uint32 leaves_uint64 leaves_array leaves_vector leaves_optional
    consume_int [THEN conjunct1, THEN consumes_leaves_suffix]
    consume_integral [THEN conjunct1, THEN consumes_leaves_suffix]
    simp: parser_of.simps [abs_def])

section \<open>Every argument parser returns\<close>

text \<open>
  With assertions off, on a text without a backslash, when the guild knows every role the message
  mentions, every argument parser has a result.
\<close>

definition plain_text :: "string \<Rightarrow> bool" where
  "plain_text s = (CHR 0x5C \<notin> set s)"

definition roles_known :: "guild_text_message \<Rightarrow> bool" where
  "roles_known msg = list_all (\<lambda>i. msg_guild_roles msg i \<noteq> None) (msg_mention_role_ids msg)"

lemma plain_text_iff: "plain_text s \<longleftrightarrow> set s \<subseteq> - {CHR 0x5C}"
  by (auto simp: plain_text_def)

lemma total_ndebug_and_then: "and_then True f r \<noteq> None"
  by (auto simp: and_then_None_iff)

lemma total_try: "total_parser p \<Longrightarrow> total_parser q \<Longrightarrow> try_parse_multiple s p [q] \<noteq> None"
  using try_None [of s p "[q]"] unfolding total_parser_def by (metis empty_iff insert_iff list.set(1,2))

lemma defined_member: "total_parser (parser_member True msg)"
  using total_try [OF total_mention total_mention]
  by (auto simp: total_parser_def parser_member_def bind_eq_None_conv total_ndebug_and_then simp del: not_None_eq)

lemma defined_emoji: "total_parser (parser_emoji True msg)"
  using total_try [OF total_emoji total_emoji]
  by (auto simp: total_parser_def parser_emoji_def bind_eq_None_conv total_ndebug_and_then simp del: not_None_eq)

lemma defined_partial_emoji: "total_parser (parser_partial_emoji True msg)"
proof -
  have "total_parser (parse_consecutive (char_p CHR '':'') (parse_consecutive
    (parse_until_char [CHR '':'', CHR '' '', CHR 0x0A, CHR 0x09, CHR ''-'']) (parse_consecutive_one (char_p CHR '':''))))"
    by (intro total_rules)
  with defined_emoji [of msg] show ?thesis
    by (auto simp: total_parser_def parser_partial_emoji_def bind_eq_None_conv)
qed

lemma find_mentioned_role_known:
  "list_all (\<lambda>i. roles i \<noteq> None) ks \<Longrightarrow> find_mentioned_role roles ks i \<noteq> None"
  by (induction ks) (auto split: option.splits)

lemma defined_role: "roles_known msg \<Longrightarrow> total_parser (parser_role True msg)"
  unfolding total_parser_def
proof
  fix s assume r: "roles_known msg"
  have "total_parser (parse_consecutive (str_p ''<@&'')
      (parse_consecutive uint64_parser (parse_consecutive_one (char_p CHR ''>''))))"
    by (intro total_rules)
  then obtain x where "parse_consecutive (str_p ''<@&'')
      (parse_consecutive uint64_parser (parse_consecutive_one (char_p CHR ''>''))) s = Some x"
    using total_parserD by blast
  moreover have "\<exists>y. find_mentioned_role (msg_guild_roles msg) (msg_mention_role_ids msg) i = Some y" for i
    using find_mentioned_role_known r by (simp add: roles_known_def)
  ultimately show "parser_role True msg s \<noteq> None"
    by (cases "transform (\<lambda>(_, i, _). i) x")
      (auto simp: parser_role_def bind_eq_None_conv parse_fail_checked_def split: option.splits)
qed

lemma defined_array_loop:
  assumes "leaves_suffix p" "defined_on A p"
  shows "defined_on A (array_loop p n)"
proof (induction n)
  case (Suc n)
  let ?q = "parse_consecutive non_optional_whitespace_parser (parse_consecutive_one p)"
  have d1: "defined_on A (parse_consecutive_one p)"
    using assms(2) by (simp add: defined_on_def one_None_iff)
  note ws = consume_ws [THEN conjunct1, THEN consumes_leaves_suffix]
  have lq: "leaves_suffix ?q" by (intro leaves_seq leaves_one ws assms(1))
  have dq: "defined_on A ?q"
    by (intro defined_on_seq ws d1 total_defined_on consume_ws [THEN conjunct2])
  show ?case unfolding defined_on_def
  proof (intro allI impI)
    fix s assume s: "set s \<subseteq> A"
    obtain x where x: "?q s = Some x" using defined_onD [OF dq s] by blast
    show "array_loop p (Suc n) s \<noteq> None"
    proof (cases x)
      case (Parsed v t)
      with lq s x have "set t \<subseteq> A" by (meson leaves_suffixD set_mono_suffix subset_trans)
      with Suc x Parsed show ?thesis by (auto simp: defined_on_def)
    qed (use x in auto)
  qed
qed (simp add: defined_on_def)

lemma defined_array:
  assumes "leaves_suffix p" "defined_on A p"
  shows "defined_on A (parser_array p n)"
  unfolding defined_on_def
proof (intro allI impI)
  fix s assume s: "set s \<subseteq> A"
  obtain x where x: "p s = Some x" using defined_onD [OF assms(2) s] by blast
  show "parser_array p n s \<noteq> None"
  proof (cases x)
    case (Parsed v t)
    with assms(1) s x have "set t \<subseteq> A" by (meson leaves_suffixD set_mono_suffix subset_trans)
    with defined_array_loop [OF assms, of "n - 1"] x Parsed show ?thesis
      by (auto simp: defined_on_def parser_array_def)
  qed (use x in \<open>auto simp: parser_array_def\<close>)
qed

lemma defined_map: "defined_on A p \<Longrightarrow> defined_on A (\<lambda>s. map_option (transform f) (p s))"
  by (simp add: defined_on_def)

lemma defined_optional: "defined_on A p \<Longrightarrow> defined_on A (optional_parser p)"
  by (auto simp: defined_on_def optional_parser_def bind_eq_None_conv split: parse_result.splits)

lemma defined_vector: "leaves_suffix p \<Longrightarrow> defined_on A p \<Longrightarrow> defined_on A (parser_vector p)"
  unfolding parser_vector_def [abs_def] by (rule list3_total)

lemma defined_word: "defined_on (- {CHR 0x5C}) parser_word"
  unfolding defined_on_def
proof (intro allI impI notI)
  fix s assume s: "set s \<subseteq> - {CHR 0x5C}" "parser_word s = None"
  then have "quote_string_parser s = None \<or> parse_until_char [CHR '' ''] s = None"
    by (auto simp: parser_word_def dest: try_None)
  moreover have "quote_string_parser s \<noteq> None" by (rule quote_defined) (use s(1) in blast)
  moreover have "parse_until_char [CHR '' ''] s \<noteq> None"
    using leaves_until_char [of "[CHR '' '']"] by (simp add: total_parser_def)
  ultimately show False by blast
qed

lemma defined_uint32: "total_parser parser_uint32"
  by (auto simp: total_parser_def parser_uint32_def uint64_parser_def split: prod.splits)

lemma defined_parser_of:
  assumes "roles_known msg"
  shows "defined_on (- {CHR 0x5C}) (parser_of True msg f)"
proof (induction f)
  case F_string
  show ?case by (simp add: defined_on_def parser_string_def)
qed (auto intro!: defined_map defined_array defined_vector defined_optional defined_word leaves_parser_of
    defined_member [THEN total_defined_on] defined_role [OF assms, THEN total_defined_on]
    defined_emoji [THEN total_defined_on] defined_partial_emoji [THEN total_defined_on]
    defined_uint32 [THEN total_defined_on] consume_int [THEN conjunct2, THEN total_defined_on]
    consume_integral [THEN conjunct2, THEN total_defined_on]
    consume_uint64 [THEN conjunct2, THEN total_defined_on]
    simp: parser_of.simps [abs_def])

section \<open>Dispatch\<close>

lemma spaced_arg_eq: "spaced_arg nd msg f = transform_parser
    (parse_consecutive non_optional_whitespace_parser (parse_consecutive_one (parser_of nd msg f))) snd"
  by (rule ext) (simp add: spaced_arg_def transform_parser_def multi_parser_def)

lemma leaves_spaced: "leaves_suffix (spaced_arg nd msg f)"
  unfolding spaced_arg_eq
  by (intro leaves_transform leaves_seq leaves_one leaves_parser_of consume_ws [THEN conjunct1, THEN consumes_leaves_suffix])

lemma defined_spaced: "roles_known msg \<Longrightarrow> defined_on (- {CHR 0x5C}) (spaced_arg True msg f)"
  unfolding spaced_arg_eq
  by (intro defined_on_transform defined_on_seq consume_ws [THEN conjunct1, THEN consumes_leaves_suffix]
      consume_ws [THEN conjunct2, THEN total_defined_on])
    (use defined_parser_of in \<open>simp add: defined_on_def one_None_iff\<close>)

lemma defined_args: "roles_known msg \<Longrightarrow> defined_on (- {CHR 0x5C}) (command_args True msg fs)"
  unfolding command_args_def [abs_def]
proof (induction fs)
  case (Cons f fs)
  then have "defined_on (- {CHR 0x5C}) (parse_consecutive (spaced_arg True msg f)
      (parse_consecutive_list (map (spaced_arg True msg) fs)))"
    by (intro defined_on_seq leaves_spaced defined_spaced)
  then show ?case by (simp add: defined_on_def)
qed (simp add: defined_on_def)

lemma group_call_returns:
  assumes "roles_known msg" "plain_text content"
  shows "\<exists>s'. group_call True g content msg s = Some s'"
proof (induction g arbitrary: s)
  case (Cons c g)
  from defined_onD [OF defined_args [OF assms(1)]] assms(2)
  obtain x where "command_args True msg (cmd_formats c) content = Some x"
    unfolding plain_text_iff by blast
  with Cons show ?case by (cases x) (auto simp: try_invoke_with_def)
qed simp

lemma group_call_skip:
  "(\<And>b. b \<in> set before \<Longrightarrow> cmd_formats b \<noteq> [] \<and>
      (\<exists>f. command_args nd msg (cmd_formats b) content = Some f \<and> \<not> success f)) \<Longrightarrow>
    group_call nd (before @ g) content msg s = group_call nd g content msg s"
proof (induction before)
  case (Cons b before)
  from Cons.prems [of b] obtain f where
    "cmd_formats b \<noteq> []" "command_args nd msg (cmd_formats b) content = Some f" "\<not> success f" by auto
  then have "try_invoke_with nd b content msg s = Some (False, s)"
    by (cases f) (auto simp: try_invoke_with_def)
  with Cons show ?case by simp
qed simp

lemma command_name_split:
  assumes "list_all (\<lambda>c. \<not> is_whitespace_char c) name"
    and "content = [] \<or> is_whitespace_char (hd content)"
  shows "find_index is_whitespace_char (name @ content) = length name"
proof -
  have t: "takeWhile (\<lambda>x. \<not> is_whitespace_char x) name = name" using assms(1) by (rule takeWhile_all)
  show ?thesis
  proof (cases content)
    case Nil
    with t show ?thesis unfolding find_index_def by (metis append_Nil2)
  next
    case (Cons c cs)
    with assms show ?thesis by (simp add: find_index_def list_all_iff takeWhile_append)
  qed
qed

lemma do_command_group:
  assumes "msg_content msg = ctx_prefix ctx @ name @ content"
    and "list_all (\<lambda>c. \<not> is_whitespace_char c) name"
    and "content = [] \<or> is_whitespace_char (hd content)"
    and "ctx_groups ctx name = Some g"
  shows "do_command nd ctx msg s = group_call nd g content msg s"
  using assms command_name_split [OF assms(2,3)]
  by (simp add: do_command_def starts_with_def Let_def)

text \<open>C21: A message that starts with the prefix and the name of a group runs the handler of the
  first command of the group whose arguments all parse, on the values parsed, and no other.\<close>
theorem do_command_first_match:
  assumes "msg_content msg = ctx_prefix ctx @ name @ content"
    and "list_all (\<lambda>c. \<not> is_whitespace_char c) name"
    and "content = [] \<or> is_whitespace_char (hd content)"
    and "ctx_groups ctx name = Some (before @ c # after)"
    and "\<And>b. b \<in> set before \<Longrightarrow> cmd_formats b \<noteq> [] \<and>
      (\<exists>f. command_args nd msg (cmd_formats b) content = Some f \<and> \<not> success f)"
    and "command_args nd msg (cmd_formats c) content = Some (Parsed args r)"
  shows "do_command nd ctx msg s = Some (cmd_handler c args msg s)"
proof -
  have "do_command nd ctx msg s = group_call nd (c # after) content msg s"
    using do_command_group [OF assms(1-4)] group_call_skip [OF assms(5)] by simp
  moreover have "try_invoke_with nd c content msg s = Some (True, cmd_handler c args msg s)"
    using assms(6) by (cases "cmd_formats c = []") (simp_all add: try_invoke_with_def command_args_def)
  ultimately show ?thesis by simp
qed


text \<open>A message without the prefix, with an unknown command name, or whose arguments no
  command of the group parses, changes nothing.\<close>
theorem do_command_ignores:
  assumes "\<not> starts_with (msg_content msg) (ctx_prefix ctx)
    \<or> (\<exists>name content. msg_content msg = ctx_prefix ctx @ name @ content
        \<and> list_all (\<lambda>c. \<not> is_whitespace_char c) name \<and> (content = [] \<or> is_whitespace_char (hd content))
        \<and> (case ctx_groups ctx name of None \<Rightarrow> True | Some g \<Rightarrow> \<forall>b \<in> set g. cmd_formats b \<noteq> [] \<and>
              (\<exists>f. command_args nd msg (cmd_formats b) content = Some f \<and> \<not> success f)))"
  shows "do_command nd ctx msg s = Some s"
proof (cases "starts_with (msg_content msg) (ctx_prefix ctx)")
  case True
  with assms obtain name content where
  a: "msg_content msg = ctx_prefix ctx @ name @ content"
    "list_all (\<lambda>c. \<not> is_whitespace_char c) name" "content = [] \<or> is_whitespace_char (hd content)"
    "case ctx_groups ctx name of None \<Rightarrow> True | Some g \<Rightarrow> \<forall>b \<in> set g. cmd_formats b \<noteq> [] \<and>
              (\<exists>f. command_args nd msg (cmd_formats b) content = Some f \<and> \<not> success f)"
    by blast
  show ?thesis
  proof (cases "ctx_groups ctx name")
    case None
    with a command_name_split [OF a(2,3)] show ?thesis
      by (simp add: do_command_def starts_with_def Let_def)
  next
    case (Some g)
    with a do_command_group [OF a(1-3) Some] group_call_skip [of g nd msg content "[]" s] show ?thesis
      by simp
  qed
qed (simp add: do_command_def)

section \<open>Texts the library prints are read back\<close>

lemma is_digit_gt: "\<not> is_digit CHR ''>''" by (simp add: is_digit_def)

lemma uint64_print: "uint64_parser (std_to_string (unat (k :: u64)) @ CHR ''>'' # rest)
    = Some (Parsed k (CHR ''>'' # rest))"
proof -
  let ?t = "std_to_string (unat k)"
  have d: "takeWhile is_digit (?t @ CHR ''>'' # rest) = ?t"
    using std_to_string_digits [of "unat k"] is_digit_gt
    by (simp add: takeWhile_append list_all_iff)
  have "unat k < 2 ^ 64" using unsigned_less [of k, where ?'a = nat] by simp
  with d have "from_chars 64 0 (?t @ CHR ''>'' # rest) = (unat k, length ?t)"
    by (simp add: from_chars_def Let_def)
  then show ?thesis by (simp add: uint64_parser_def)
qed

lemma str_p_here: "str_p a (a @ t) = Some (Parsed a t)"
  by (simp add: str_p_def str_parser_def starts_with_def)

lemma char_p_here: "char_p c (c # t) = Some (Parsed True t)"
  by (simp add: char_p_def char_parser_def)

lemma mention_here:
  "mention_of a (a @ std_to_string (unat k) @ CHR ''>'' # rest) = Some (Parsed k rest)"
  unfolding mention_eq transform_parser_def
  using str_p_here uint64_print char_p_here
  by (simp add: parse_consecutive_def parse_consecutive_one_def)

lemma find_distinct_key:
  "distinct (map f xs) \<Longrightarrow> x \<in> set xs \<Longrightarrow> \<forall>y. P y \<longrightarrow> f y = f x \<Longrightarrow> P x \<Longrightarrow> find P xs = Some x"
proof (induction xs)
  case (Cons a xs)
  show ?case
  proof (cases "P a")
    case True
    with Cons.prems(3) have "f a = f x" by blast
    with Cons.prems(1) have "x \<notin> set xs" by (metis distinct.simps(2) imageI list.set_map list.simps(9))
    with Cons.prems(2) True show ?thesis by simp
  next
    case False
    with Cons.prems(2,4) have x: "x \<in> set xs" by auto
    from Cons.IH [OF _ x Cons.prems(3,4)] Cons.prems(1) False show ?thesis by simp
  qed
qed simp

text \<open>The mention of a member who is among the message's mentions is parsed to that member,
  wherever it stands in the text.\<close>
theorem member_mention_roundtrip:
  assumes "m \<in> set (msg_mentions msg)" and "distinct (map mr_id (msg_mentions msg))"
  shows "parser_member nd msg (user_to_mentionable_string (mr_id m) @ rest) = Some (Parsed m rest)"
proof -
  have "find (\<lambda>x. mr_id x = Snowflake (sf_val (mr_id m))) (msg_mentions msg) = Some m"
    using assms by (intro find_distinct_key [where f = mr_id]) auto
  moreover have "mention_of ''<@'' (user_to_mentionable_string (mr_id m) @ rest)
      = Some (Parsed (sf_val (mr_id m)) rest)"
    using mention_here [of "''<@''" "sf_val (mr_id m)" rest] by (simp add: user_to_mentionable_string_def)
  ultimately show ?thesis by (simp add: parser_member_def try_first)
qed

lemma find_mentioned_role_found:
  "i \<in> set ks \<Longrightarrow> list_all (\<lambda>k. roles k \<noteq> None) ks \<Longrightarrow> (\<And>k r. roles k = Some r \<Longrightarrow> role_id r = k) \<Longrightarrow>
    find_mentioned_role roles ks i = Some (roles i)"
proof (induction ks)
  case (Cons k ks)
  from Cons.prems(2) obtain r where r: "roles k = Some r" by auto
  with Cons.prems(3) have k: "role_id r = k" by blast
  show ?case
  proof (cases "k = i")
    case True
    with r k show ?thesis by simp
  next
    case False
    with Cons.prems(1,2) have "i \<in> set ks" "list_all (\<lambda>k. roles k \<noteq> None) ks" by auto
    from Cons.IH [OF this Cons.prems(3)] False r k show ?thesis by simp
  qed
qed simp

text \<open>The mention of a role of the guild that the message mentions is parsed to that role.\<close>
theorem role_mention_roundtrip:
  assumes "role_id r \<in> set (msg_mention_role_ids msg)" and "roles_known msg"
    and "\<And>k r. msg_guild_roles msg k = Some r \<Longrightarrow> role_id r = k"
    and "msg_guild_roles msg (role_id r) = Some r"
  shows "parser_role nd msg (role_to_mentionable_string r @ rest) = Some (Parsed r rest)"
proof -
  have "find_mentioned_role (msg_guild_roles msg) (msg_mention_role_ids msg) (role_id r) = Some (Some r)"
    using find_mentioned_role_found [OF assms(1) assms(2) [unfolded roles_known_def] assms(3)] assms(4)
    by simp
  then show ?thesis
    using str_p_here [of "''<@&''"] uint64_print char_p_here
    by (simp add: parser_role_def role_to_mentionable_string_def parse_consecutive_def parse_consecutive_one_def)
qed

lemma emoji_here:
  assumes "CHR '':'' \<notin> set name"
  shows "emoji_of a (a @ name @ '':'' @ std_to_string (unat k) @ ''>'' @ rest)
    = Some (Parsed (a, name, True, k, True) rest)"
proof -
  let ?u = "CHR '':'' # std_to_string (unat k) @ CHR ''>'' # rest"
  have "takeWhile (\<lambda>c. \<not> List.member [CHR '':''] c) (name @ ?u) = name"
    using assms by (subst takeWhile_append2) auto
  then have "parse_until_char [CHR '':''] (name @ ?u) = Some (Parsed name ?u)"
    by (simp add: parse_until_char_def find_index_def)
  then show ?thesis
    unfolding emoji_eq using str_p_here [of a] uint64_print char_p_here
    by (simp add: parse_consecutive_def parse_consecutive_one_def)
qed

text \<open>A custom emoji of the guild, printed by \<open>to_string\<close>, is parsed to that emoji, animated or
  not, when ids are unique and its name has no colon.\<close>
theorem emoji_roundtrip:
  assumes "e \<in> set (msg_guild_emojis msg)" and "distinct (map pe_id (msg_guild_emojis msg))"
    and "pe_id e \<noteq> no_id" and "CHR '':'' \<notin> set (pe_name e)"
  shows "parser_emoji nd msg (emoji_to_string e @ rest) = Some (Parsed e rest)"
proof -
  let ?P = "\<lambda>x. pe_id x = Snowflake (sf_val (pe_id e)) \<and> pe_name x = pe_name e"
  have f: "find ?P (msg_guild_emojis msg) = Some e"
    using assms by (intro find_distinct_key [where f = pe_id]) auto
  have "\<exists>a. try_parse_multiple (emoji_to_string e @ rest) (emoji_of ''<:'') [emoji_of ''<a:'']
      = Some (Parsed (a, pe_name e, True, sf_val (pe_id e), True) rest)"
  proof (cases "pe_animated e")
    case True
    have "emoji_of ''<:'' (''<a:'' @ t) = Some Fail_no_reason" for t
      by (simp add: emoji_eq parse_consecutive_def str_p_def str_parser_def starts_with_def)
    with True assms(3) emoji_here [OF assms(4), of "''<a:''" "sf_val (pe_id e)" rest]
    show ?thesis by (simp add: emoji_to_string_def try_parse_multiple.simps)
  next
    case False
    with assms(3) emoji_here [OF assms(4), of "''<:''" "sf_val (pe_id e)" rest]
    show ?thesis by (intro exI [of _ "''<:''"] try_first) (simp add: emoji_to_string_def)
  qed
  with f show ?thesis by (auto simp: parser_emoji_def)
qed

section \<open>Words and unknown mentions\<close>

lemma no_char_index: "c \<notin> set s \<Longrightarrow> find_index (\<lambda>d. List.member [c] d) s = length s"
  by (induction s) (auto simp: find_index_def)

text \<open>A word that is not quoted is parsed only when a space follows it: the last word of a
  message never is.\<close>
theorem last_word_not_parsed:
  assumes "hd s \<noteq> CHR 0x22" and "hd s \<noteq> CHR 0x27" and "CHR '' '' \<notin> set s"
  shows "parser_word s = Some Fail_no_reason"
  using assms no_char_index [of "CHR '' ''" s]
  by (simp add: parser_word_def try_parse_multiple.simps quote_string_parser_def parse_until_char_def)

text \<open>The mention of a member who is not among the message's mentions fails the assertion of
  \<open>and_then\<close>; with assertions off the parser fails.\<close>
theorem unknown_member_asserts:
  assumes "i \<notin> mr_id ` set (msg_mentions msg)"
  shows "parser_member nd msg (user_to_mentionable_string i @ rest) = (if nd then Some Fail_no_reason else None)"
proof -
  have "find (\<lambda>x. mr_id x = Snowflake (sf_val i)) (msg_mentions msg) = None"
    using assms by (auto simp: find_None_iff)
  moreover have "mention_of ''<@'' (user_to_mentionable_string i @ rest) = Some (Parsed (sf_val i) rest)"
    using mention_here [of "''<@''" "sf_val i" rest] by (simp add: user_to_mentionable_string_def)
  ultimately show ?thesis by (simp add: parser_member_def try_first parse_fail_checked_def)
qed

section \<open>The properties at concrete messages\<close>

definition sample_emoji :: partial_emoji where
  "sample_emoji = \<lparr>pe_id = Snowflake 5, pe_name = ''cat'', pe_animated = True\<rparr>"

definition sample_mentioned :: member_roles where
  "sample_mentioned = \<lparr>mr_id = Snowflake 7, mr_guild_id = Snowflake 1, mr_role_ids = []\<rparr>"

definition mentioned_role :: guild_role where
  "mentioned_role = \<lparr>role_id = Snowflake 9, role_name = ''mods'', role_permissions = permission_of_u64 8,
     role_position = 1, role_managed = False, role_mentionable = True, role_hoist = False\<rparr>"

definition sample_message :: "string \<Rightarrow> guild_text_message" where
  "sample_message c = \<lparr>msg_content = c, msg_mentions = [sample_mentioned],
     msg_mention_role_ids = [Snowflake 9], msg_guild_roles = [Snowflake 9 \<mapsto> mentioned_role],
     msg_guild_emojis = [sample_emoji]\<rparr>"

definition add_args :: "arg_value list \<Rightarrow> guild_text_message \<Rightarrow> int \<Rightarrow> int" where
  "add_args args msg s = (case args of [A_int a, A_int b] \<Rightarrow> s + a + b | _ \<Rightarrow> s)"

definition sample_context :: "int command_context" where
  "sample_context = \<lparr>ctx_prefix = ''~'', ctx_groups = [''add'' \<mapsto>
     [\<lparr>cmd_formats = [F_member], cmd_handler = \<lambda>_ _ s. s - 1\<rparr>,
      \<lparr>cmd_formats = [F_int, F_int], cmd_handler = add_args\<rparr>]]\<rparr>"

lemmas parser_eval = command_args_def spaced_arg_def transform_parser_def multi_parser_def
  parse_consecutive_def parse_consecutive_one_def non_optional_whitespace_parser_def
  whitespace_parser_def is_whitespace_char_def code_of_def int_parser_def from_chars_int_def is_digit_def
  parser_member_def try_parse_multiple.simps mention_of_def str_p_def str_parser_def starts_with_def
  parse_fail_checked_def

lemma sample_args:
  "command_args nd (sample_message ''~add 1 2'') [F_member] '' 1 2'' = Some Fail_no_reason"
  "command_args nd (sample_message ''~add 1 2'') [F_int, F_int] '' 1 2''
    = Some (Parsed [A_int 1, A_int 2] '''')"
  by (simp_all add: parser_eval dec_val_def digit_val_def)

theorem do_command_first_match_witness:
  "do_command True sample_context (sample_message ''~add 1 2'') 10 = Some 13"
proof -
  have "do_command True sample_context (sample_message ''~add 1 2'') 10
    = Some (cmd_handler \<lparr>cmd_formats = [F_int, F_int], cmd_handler = add_args\<rparr>
        [A_int 1, A_int 2] (sample_message ''~add 1 2'') 10)"
    by (rule do_command_first_match [where name = "''add''" and content = "'' 1 2''"
          and before = "[\<lparr>cmd_formats = [F_member], cmd_handler = \<lambda>_ _ s. s - 1\<rparr>]" and after = "[]"
          and r = "''''"])
      (use sample_args [of True] in \<open>auto simp: sample_context_def sample_message_def is_whitespace_char_def code_of_def\<close>)
  then show ?thesis by (simp add: add_args_def)
qed


theorem do_command_ignores_witness:
  "do_command True sample_context (sample_message ''hello'') 10 = Some 10"
  by (rule do_command_ignores) (simp add: starts_with_def sample_context_def sample_message_def)

theorem member_mention_roundtrip_witness:
  "parser_member True (sample_message '''') ''<@7> hi'' = Some (Parsed sample_mentioned '' hi'')"
  using member_mention_roundtrip [of sample_mentioned "sample_message ''''" True "'' hi''"]
  by (simp add: sample_message_def sample_mentioned_def user_to_mentionable_string_def std_to_string_def
      dec_digits.simps digit_char_def char_of_def bit_0)

theorem role_mention_roundtrip_witness:
  "parser_role True (sample_message '''') (role_to_mentionable_string mentioned_role @ ''!'')
     = Some (Parsed mentioned_role ''!'')"
  by (rule role_mention_roundtrip)
    (auto simp: sample_message_def mentioned_role_def roles_known_def split: if_splits)

theorem emoji_roundtrip_witness:
  "parser_emoji True (sample_message '''') (emoji_to_string sample_emoji @ '' x'')
     = Some (Parsed sample_emoji '' x'')"
  by (rule emoji_roundtrip) (simp_all add: sample_message_def sample_emoji_def no_id_def)

theorem last_word_not_parsed_witness: "parser_word ''last'' = Some Fail_no_reason"
  by (rule last_word_not_parsed) simp_all

theorem unknown_member_asserts_witness:
  "parser_member False (sample_message '''') (user_to_mentionable_string (Snowflake 8)) = None"
  using unknown_member_asserts [of "Snowflake 8" "sample_message ''''" False "''''"]
  by (simp add: sample_message_def sample_mentioned_def)

end
