(* ===== verification/Rate_Limiter.thy ===== *)
theory Rate_Limiter
  imports Cpp_Std "HOL-Library.Multiset"
begin

text \<open>
  \<open>common/rate_limiter.h\<close>: the requests held back per bucket. An entry is a bucket, the time it is
  limited until and the objects it holds; the entries are sorted by bucket. Each \<open>rate_limit\<close> arms a
  timer, kept here as its bucket and its time. The operations run under the mutex.
\<close>

section \<open>Model\<close>

record ('b, 'o) rate_limit_entry =
  rl_bucket :: 'b
  rl_until :: nat
  rl_objs :: "'o list"

record ('b, 'o) rate_limiter =
  m_entries :: "('b, 'o) rate_limit_entry list"
  rl_timers :: "('b \<times> nat) list"

definition rl_empty :: "('b, 'o) rate_limiter" where
  "rl_empty = \<lparr>m_entries = [], rl_timers = []\<rparr>"

definition rl_buckets :: "('b, 'o) rate_limiter \<Rightarrow> 'b list" where
  "rl_buckets l = map rl_bucket (m_entries l)"

definition maybe_rate_limit :: "'b \<Rightarrow> 'o \<Rightarrow> ('b, 'o) rate_limiter \<Rightarrow> bool \<times> ('b, 'o) rate_limiter" where
  "maybe_rate_limit bucket thing l =
     (let it = find_index (\<lambda>e. rl_bucket e = bucket) (m_entries l)
      in if it = length (m_entries l) then (False, l)
         else (True, l\<lparr>m_entries := (m_entries l)
            [it := (m_entries l ! it)\<lparr>rl_objs := rl_objs (m_entries l ! it) @ [thing]\<rparr>]\<rparr>))"

definition make_timer_for_bucket :: "'b \<Rightarrow> nat \<Rightarrow> ('b, 'o) rate_limiter \<Rightarrow> ('b, 'o) rate_limiter" where
  "make_timer_for_bucket bucket until l = l\<lparr>rl_timers := rl_timers l @ [(bucket, until)]\<rparr>"

definition rate_limit :: "'b::linorder \<Rightarrow> nat \<Rightarrow> ('b, 'o) rate_limiter \<Rightarrow> ('b, 'o) rate_limiter" where
  "rate_limit bucket until l =
     (let pos = upper_bound (rl_buckets l) bucket
      in make_timer_for_bucket bucket until
           (l\<lparr>m_entries := insert_at pos \<lparr>rl_bucket = bucket, rl_until = until, rl_objs = []\<rparr> (m_entries l)\<rparr>))"

definition rate_limit_obj :: "'b::linorder \<Rightarrow> nat \<Rightarrow> 'o \<Rightarrow> ('b, 'o) rate_limiter \<Rightarrow> ('b, 'o) rate_limiter" where
  "rate_limit_obj bucket until obj l =
     (let pos = upper_bound (rl_buckets l) bucket
      in make_timer_for_bucket bucket until
           (l\<lparr>m_entries := insert_at pos \<lparr>rl_bucket = bucket, rl_until = until, rl_objs = [obj]\<rparr> (m_entries l)\<rparr>))"

text \<open>The handler of a timer: the objects to give to \<open>on_rate_limit_finish\<close>. When the search finds
  no entry the code dereferences the end iterator: \<open>None\<close>.\<close>

definition timer_fires :: "'b::linorder \<times> nat \<Rightarrow> ('b, 'o) rate_limiter \<Rightarrow> ('o list \<times> ('b, 'o) rate_limiter) option" where
  "timer_fires t l =
     (let it = lower_bound (rl_buckets l) (fst t)
      in if it < length (m_entries l)
         then Some (rl_objs (m_entries l ! it),
           l\<lparr>m_entries := remove_range it (it + 1) (m_entries l), rl_timers := remove1 t (rl_timers l)\<rparr>)
         else None)"

section \<open>Invariant\<close>

text \<open>One entry per bucket, sorted, and exactly one armed timer for each, for the entry's time.\<close>

definition rl_inv :: "('b::linorder, 'o) rate_limiter \<Rightarrow> bool" where
  "rl_inv l = (sorted (rl_buckets l) \<and> distinct (rl_buckets l) \<and>
     mset (rl_timers l) = mset (map (\<lambda>e. (rl_bucket e, rl_until e)) (m_entries l)))"

definition rl_held :: "('b, 'o) rate_limiter \<Rightarrow> 'o list" where
  "rl_held l = concat (map rl_objs (m_entries l))"

lemma rl_inv_empty: "rl_inv rl_empty" "rl_held rl_empty = []" "rl_buckets rl_empty = []"
  by (simp_all add: rl_inv_def rl_empty_def rl_buckets_def rl_held_def)

lemma maybe_rate_limit_free:
  "b \<notin> set (rl_buckets l) \<Longrightarrow> maybe_rate_limit b x l = (False, l)"
  using find_index_none [of "\<lambda>e. rl_bucket e = b" "m_entries l"]
  by (auto simp: maybe_rate_limit_def rl_buckets_def Let_def)

lemma map_update_same: "i < length xs \<Longrightarrow> f y = f (xs ! i) \<Longrightarrow> map f (xs[i := y]) = map f xs"
  by (metis list_update_id map_update)

lemma mset_concat_update:
  "i < length xs \<Longrightarrow> mset (concat (map f (xs[i := y]))) + mset (f (xs ! i)) = mset (concat (map f xs)) + mset (f y)"
proof (induction xs arbitrary: i)
  case (Cons x xs)
  then show ?case by (cases i) (auto simp: ac_simps)
qed simp

lemma maybe_rate_limit_held:
  assumes "rl_inv l" "b \<in> set (rl_buckets l)"
  shows "\<exists>l'. maybe_rate_limit b x l = (True, l') \<and> rl_inv l' \<and> rl_buckets l' = rl_buckets l
    \<and> mset (rl_held l') = add_mset x (mset (rl_held l))"
proof -
  let ?it = "find_index (\<lambda>e. rl_bucket e = b) (m_entries l)"
  let ?e = "m_entries l ! ?it"
  let ?l = "l\<lparr>m_entries := (m_entries l)[?it := ?e\<lparr>rl_objs := rl_objs ?e @ [x]\<rparr>]\<rparr>"
  have "?it \<noteq> length (m_entries l)"
    using assms(2) find_index_none [of "\<lambda>e. rl_bucket e = b" "m_entries l"] by (auto simp: rl_buckets_def)
  then have it: "?it < length (m_entries l)" by (blast dest: find_index_less)
  have m: "maybe_rate_limit b x l = (True, ?l)"
    using it by (simp add: maybe_rate_limit_def Let_def)
  have b: "rl_buckets ?l = rl_buckets l"
    using it by (simp add: rl_buckets_def map_update_same)
  have t: "map (\<lambda>e. (rl_bucket e, rl_until e)) (m_entries ?l) = map (\<lambda>e. (rl_bucket e, rl_until e)) (m_entries l)"
    using it by (simp add: map_update_same)
  have "mset (rl_held ?l) + mset (rl_objs ?e) = mset (rl_held l) + mset (rl_objs ?e @ [x])"
    using mset_concat_update [OF it, of rl_objs "?e\<lparr>rl_objs := rl_objs ?e @ [x]\<rparr>"]
    by (simp add: rl_held_def)
  then have h: "mset (rl_held ?l) = add_mset x (mset (rl_held l))" by simp
  have "rl_inv ?l" using assms(1) unfolding rl_inv_def b t by simp
  with m b h show ?thesis by blast
qed

lemma mset_insert_at: "mset (insert_at i x xs) = add_mset x (mset xs)"
proof -
  have "mset xs = mset (take i xs) + mset (drop i xs)" by (metis append_take_drop_id mset_append)
  then show ?thesis by (simp add: insert_at_def)
qed

lemma insert_upper_sorted:
  assumes "sorted ks"
  shows "sorted (insert_at (upper_bound ks b) b ks)"
proof -
  let ?n = "upper_bound ks b"
  have tk: "take ?n ks = takeWhile (\<lambda>x. x \<le> b) ks" "drop ?n ks = dropWhile (\<lambda>x. x \<le> b) ks"
    unfolding upper_bound_def by (rule takeWhile_eq_take [symmetric] dropWhile_eq_drop [symmetric])+
  have lo: "\<forall>x \<in> set (take ?n ks). x \<le> b" unfolding tk by (auto dest: set_takeWhileD)
  have hi: "\<forall>x \<in> set (drop ?n ks). b \<le> x"
  proof (cases "drop ?n ks")
    case (Cons y ys)
    then have "\<not> y \<le> b" using tk(2) hd_dropWhile [of "\<lambda>x. x \<le> b" ks] by auto
    moreover have "sorted (y # ys)" using assms(1) Cons sorted_wrt_drop [of "(\<le>)" ks ?n] by simp
    ultimately show ?thesis using Cons by auto
  qed simp
  have s: "sorted (take ?n ks)" "sorted (drop ?n ks)"
    using assms(1) by (simp_all add: sorted_wrt_take sorted_wrt_drop)
  have "x \<le> y" if "x \<in> set (take ?n ks)" "y \<in> set (drop ?n ks)" for x y
    using that lo hi by (meson order_trans)
  then show ?thesis unfolding insert_at_def sorted_append using s lo hi by auto
qed

lemma insert_upper:
  assumes "sorted ks" "distinct ks" "b \<notin> set ks"
  shows "sorted (insert_at (upper_bound ks b) b ks) \<and> distinct (insert_at (upper_bound ks b) b ks)"
  using insert_upper_sorted [OF assms(1)] assms(2,3)
    mset_eq_imp_distinct_iff [of "insert_at (upper_bound ks b) b ks" "b # ks"]
  by (simp add: mset_insert_at)

lemma map_insert_at: "map f (insert_at i x xs) = insert_at i (f x) (map f xs)"
  by (simp add: insert_at_def take_map drop_map)

lemma mset_concat_insert_at: "mset (concat (insert_at i x xss)) = mset x + mset (concat xss)"
proof -
  have "mset (concat xss) = mset (concat (take i xss)) + mset (concat (drop i xss))"
    by (metis append_take_drop_id concat_append mset_append)
  then show ?thesis by (simp add: insert_at_def ac_simps)
qed

text \<open>Limiting a bucket that is not limited yet: the precondition the code states.\<close>

lemma rate_limit_obj_ok:
  assumes "rl_inv l" "b \<notin> set (rl_buckets l)"
  shows "rl_inv (rate_limit_obj b u x l) \<and> mset (rl_held (rate_limit_obj b u x l)) = add_mset x (mset (rl_held l))
    \<and> set (rl_buckets (rate_limit_obj b u x l)) = insert b (set (rl_buckets l))"
  using assms insert_upper [of "rl_buckets l" b]
  by (auto simp: rl_inv_def rate_limit_obj_def make_timer_for_bucket_def rl_buckets_def rl_held_def Let_def
      map_insert_at mset_insert_at mset_concat_insert_at)

lemma rate_limit_ok:
  assumes "rl_inv l" "b \<notin> set (rl_buckets l)"
  shows "rl_inv (rate_limit b u l) \<and> mset (rl_held (rate_limit b u l)) = mset (rl_held l)
    \<and> set (rl_buckets (rate_limit b u l)) = insert b (set (rl_buckets l))"
  using assms insert_upper [of "rl_buckets l" b]
  by (auto simp: rl_inv_def rate_limit_def make_timer_for_bucket_def rl_buckets_def rl_held_def Let_def
      map_insert_at mset_insert_at mset_concat_insert_at)

lemma lower_bound_member:
  assumes "sorted ks" "b \<in> set ks"
  shows "lower_bound ks b < length ks \<and> ks ! lower_bound ks b = b"
proof -
  let ?n = "lower_bound ks b"
  have n: "?n \<le> length ks" by (simp add: lower_bound_def length_takeWhile_le)
  obtain j where j: "j < length ks" "ks ! j = b" using assms(2) by (auto simp: in_set_conv_nth)
  have "\<not> j < ?n"
    using nth_mem [of j "takeWhile (\<lambda>x. x < b) ks"] takeWhile_nth [of j "\<lambda>x. x < b" ks] j
    by (auto simp: lower_bound_def dest!: set_takeWhileD)
  with j(1) have l: "?n < length ks" by simp
  have "\<not> ks ! ?n < b"
    using nth_length_takeWhile [of "\<lambda>x. x < b" ks] l by (simp add: lower_bound_def)
  moreover have "ks ! ?n \<le> b"
    using sorted_nth_mono [OF assms(1), of ?n j] j \<open>\<not> j < ?n\<close> by simp
  ultimately show ?thesis using l by simp
qed

lemma remove_nth_split: "i < length xs \<Longrightarrow> xs = take i xs @ xs ! i # drop (i + 1) xs"
  by (simp add: id_take_nth_drop)

lemma timer_fires_ok:
  assumes "rl_inv l" "t \<in> set (rl_timers l)"
  shows "\<exists>objs l'. timer_fires t l = Some (objs, l') \<and> rl_inv l'
    \<and> mset objs + mset (rl_held l') = mset (rl_held l)
    \<and> set (rl_buckets l') = set (rl_buckets l) - {fst t}
    \<and> (\<exists>e \<in> set (m_entries l). rl_bucket e = fst t \<and> rl_until e = snd t \<and> rl_objs e = objs)"
proof -
  from assms have "t \<in># mset (map (\<lambda>e. (rl_bucket e, rl_until e)) (m_entries l))"
    unfolding rl_inv_def by (metis set_mset_mset)
  then obtain e where e: "e \<in> set (m_entries l)" "t = (rl_bucket e, rl_until e)" by auto
  let ?i = "lower_bound (rl_buckets l) (fst t)"
  have s: "sorted (rl_buckets l)" "distinct (rl_buckets l)" using assms(1) by (simp_all add: rl_inv_def)
  have "fst t \<in> set (rl_buckets l)" using e by (auto simp: rl_buckets_def)
  from lower_bound_member [OF s(1) this]
  have i: "?i < length (m_entries l)" "rl_bucket (m_entries l ! ?i) = fst t"
    by (auto simp: rl_buckets_def simp flip: nth_map)
  have ei: "m_entries l ! ?i = e"
    using s(2) i e by (metis distinct_map fst_conv inj_onD nth_mem rl_buckets_def)
  define pre post where "pre = take ?i (m_entries l)" and "post = drop (?i + 1) (m_entries l)"
  have split: "m_entries l = pre @ e # post"
    using remove_nth_split [OF i(1)] ei by (simp add: pre_def post_def)
  let ?l = "l\<lparr>m_entries := pre @ post, rl_timers := remove1 t (rl_timers l)\<rparr>"
  have f: "timer_fires t l = Some (rl_objs e, ?l)"
    using i(1) ei by (simp add: timer_fires_def Let_def remove_range_def pre_def post_def)
  have "rl_inv ?l"
    using assms(1) e(2) unfolding rl_inv_def rl_buckets_def
    by (simp add: split sorted_append)
  moreover have "set (rl_buckets ?l) = set (rl_buckets l) - {fst t}"
    using s(2) e(2) unfolding rl_buckets_def by (auto simp: split)
  moreover have "mset (rl_objs e) + mset (rl_held ?l) = mset (rl_held l)"
    by (simp add: rl_held_def split ac_simps)
  ultimately show ?thesis using f e by fastforce
qed

section \<open>Interface\<close>

text \<open>What an HTTP connection relies on: offering an object to a limited bucket holds it, limiting
  a free bucket and the end of a limit move objects and lose none.\<close>

locale limit_store =
  fixes inv :: "'l \<Rightarrow> bool" and buckets :: "'l \<Rightarrow> 'b set" and held :: "'l \<Rightarrow> 'o multiset"
    and timers :: "'l \<Rightarrow> ('b \<times> 't) set"
    and offer :: "'b \<Rightarrow> 'o \<Rightarrow> 'l \<Rightarrow> bool \<times> 'l"
    and limit :: "'b \<Rightarrow> 't \<Rightarrow> 'l \<Rightarrow> 'l" and limit_obj :: "'b \<Rightarrow> 't \<Rightarrow> 'o \<Rightarrow> 'l \<Rightarrow> 'l"
    and fire :: "'b \<times> 't \<Rightarrow> 'l \<Rightarrow> ('o list \<times> 'l) option"
  assumes offer_free: "inv l \<Longrightarrow> b \<notin> buckets l \<Longrightarrow> offer b x l = (False, l)"
    and offer_held: "inv l \<Longrightarrow> b \<in> buckets l \<Longrightarrow> \<exists>l'. offer b x l = (True, l') \<and> inv l'
        \<and> buckets l' = buckets l \<and> held l' = add_mset x (held l)"
    and limit_ok: "inv l \<Longrightarrow> b \<notin> buckets l \<Longrightarrow> inv (limit b u l)
        \<and> held (limit b u l) = held l \<and> buckets (limit b u l) = insert b (buckets l)"
    and limit_obj_ok: "inv l \<Longrightarrow> b \<notin> buckets l \<Longrightarrow> inv (limit_obj b u x l)
        \<and> held (limit_obj b u x l) = add_mset x (held l) \<and> buckets (limit_obj b u x l) = insert b (buckets l)"
    and fire_some: "inv l \<Longrightarrow> t \<in> timers l \<Longrightarrow> \<exists>objs l'. fire t l = Some (objs, l') \<and> inv l'
        \<and> mset objs + held l' = held l \<and> buckets l' \<subseteq> buckets l"
begin

lemma offer_cases:
  assumes "inv l" "offer b x l = (r, l')"
  shows "inv l' \<and> buckets l' = buckets l \<and> r = (b \<in> buckets l)
    \<and> held l' = held l + (if r then {#x#} else {#})"
proof (cases "b \<in> buckets l")
  case True
  with offer_held [OF assms(1), of b x] assms(2) show ?thesis by auto
next
  case False
  with offer_free [OF assms(1), of b x] assms show ?thesis by auto
qed

end

text \<open>A limiter whose timers end the limits of their own buckets.\<close>

locale bucket_store = limit_store +
  assumes fire_own: "inv l \<Longrightarrow> t \<in> timers l \<Longrightarrow> fire t l = Some (objs, l') \<Longrightarrow> buckets l' = buckets l - {fst t}"
begin

lemma fire_cases:
  assumes "inv l" "t \<in> timers l" "fire t l = Some (objs, l')"
  shows "inv l'" "mset objs + held l' = held l" "buckets l' = buckets l - {fst t}"
  using fire_some [OF assms(1,2)] fire_own [OF assms] assms(3) by auto

end

interpretation rl: bucket_store rl_inv "\<lambda>l. set (rl_buckets l)" "\<lambda>l. mset (rl_held l)"
  "\<lambda>l. set (rl_timers l)" maybe_rate_limit rate_limit rate_limit_obj timer_fires
proof (unfold_locales, goal_cases)
  case (2 l b x)
  then show ?case using maybe_rate_limit_held [of l b x] by auto
next
  case (5 l t)
  then show ?case using timer_fires_ok [of l t] by blast
next
  case (6 l t objs l')
  then show ?case using timer_fires_ok [of l t] by auto
qed (simp_all add: maybe_rate_limit_free rate_limit_ok rate_limit_obj_ok)

text \<open>When the timer of a limited bucket runs out, the handler finds the entry of that bucket,
  not another one: the entry had been limited until exactly the timer's time, its objects are handed
  over in the order they were held, and the other buckets keep theirs.\<close>
theorem timer_releases_its_bucket:
  assumes "rl_inv l" "t \<in> set (rl_timers l)"
  shows "\<exists>objs l'. timer_fires t l = Some (objs, l') \<and> rl_inv l'
    \<and> mset objs + mset (rl_held l') = mset (rl_held l)
    \<and> set (rl_buckets l') = set (rl_buckets l) - {fst t}
    \<and> (\<exists>e \<in> set (m_entries l). rl_bucket e = fst t \<and> rl_until e = snd t \<and> rl_objs e = objs)"
  by (rule timer_fires_ok [OF assms])

theorem timer_releases_its_bucket_witness:
  "\<exists>objs l'. timer_fires (5, 100) (rate_limit_obj (7::nat) 90 ''b'' (rate_limit_obj 5 100 ''a'' rl_empty)) = Some (objs, l')
    \<and> set (rl_buckets l') = {7}"
proof -
  let ?l = "rate_limit_obj (7::nat) 90 ''b'' (rate_limit_obj 5 100 ''a'' rl_empty)"
  have "rl_inv (rate_limit_obj (5::nat) 100 ''a'' rl_empty)"
    "set (rl_buckets (rate_limit_obj (5::nat) 100 ''a'' rl_empty)) = {5}"
    using rate_limit_obj_ok [of "rl_empty :: (nat, string) rate_limiter" 5 100 "''a''"] by (simp_all add: rl_inv_empty)
  with rate_limit_obj_ok [of "rate_limit_obj (5::nat) 100 ''a'' rl_empty" 7 90 "''b''"]
  have "rl_inv ?l" "set (rl_buckets ?l) = {5, 7}" by auto
  moreover have "(5, 100) \<in> set (rl_timers ?l)"
    by (simp add: rate_limit_obj_def make_timer_for_bucket_def)
  ultimately show ?thesis using timer_releases_its_bucket [of ?l "(5, 100)"] by fastforce
qed

end
