(* ===== verification/Async_Queue.thy ===== *)
theory Async_Queue
  imports Prelude "HOL-Library.Multiset"
begin

text \<open>
  \<open>common/concurrent_async_queue.h\<close>: the queues that coroutines wait on. Every operation runs under
  the queue's mutex and is one step here. A waiting coroutine (an unresolved promise, an awaiter) is
  a number. An operation returns the values it hands over, as pairs of waiter and value in the
  order of the resumptions, and the new queue.
\<close>

type_synonym 'a deliveries = "(nat \<times> 'a) list"

section \<open>\<open>concurrent_async_queue\<close>\<close>

record 'a concurrent_async_queue =
  caq_data :: "'a list"
  caq_waiters :: "nat list"

definition caq_empty :: "'a concurrent_async_queue" where
  "caq_empty = \<lparr>caq_data = [], caq_waiters = []\<rparr>"

definition caq_pop :: "nat \<Rightarrow> 'a concurrent_async_queue \<Rightarrow> 'a deliveries \<times> 'a concurrent_async_queue" where
  "caq_pop w q =
     (if caq_data q \<noteq> [] then ([(w, hd (caq_data q))], q\<lparr>caq_data := tl (caq_data q)\<rparr>)
      else ([], q\<lparr>caq_waiters := caq_waiters q @ [w]\<rparr>))"

definition caq_push :: "'a \<Rightarrow> 'a concurrent_async_queue \<Rightarrow> 'a deliveries \<times> 'a concurrent_async_queue" where
  "caq_push val q =
     (if caq_waiters q \<noteq> [] then ([(hd (caq_waiters q), val)], q\<lparr>caq_waiters := tl (caq_waiters q)\<rparr>)
      else ([], q\<lparr>caq_data := caq_data q @ [val]\<rparr>))"

text \<open>The waiters it takes out are never given a value.\<close>

definition caq_push_all :: "'a list \<Rightarrow> 'a concurrent_async_queue \<Rightarrow> 'a deliveries \<times> 'a concurrent_async_queue" where
  "caq_push_all vals q =
     (if caq_waiters q \<noteq> [] then
        let n = min (length vals) (length (caq_waiters q))
        in ([], q\<lparr>caq_waiters := drop n (caq_waiters q), caq_data := caq_data q @ drop n vals\<rparr>)
      else ([], q\<lparr>caq_data := caq_data q @ vals\<rparr>))"

text \<open>\<open>cancel_all\<close> returns the waiters that get an exception.\<close>

definition caq_cancel_all :: "'a concurrent_async_queue \<Rightarrow> nat list \<times> 'a concurrent_async_queue" where
  "caq_cancel_all q = (caq_waiters q, q\<lparr>caq_waiters := []\<rparr>)"

definition caq_pop_all :: "'a concurrent_async_queue \<Rightarrow> 'a list \<times> 'a concurrent_async_queue" where
  "caq_pop_all q = (caq_data q, q\<lparr>caq_data := []\<rparr>)"

section \<open>\<open>mpsc_concurrent_async_queue\<close>\<close>

record 'a mpsc_queue =
  mpsc_data :: "'a list"
  mpsc_waiter :: "nat option"

definition mpsc_empty :: "'a mpsc_queue" where
  "mpsc_empty = \<lparr>mpsc_data = [], mpsc_waiter = None\<rparr>"

definition mpsc_pop :: "nat \<Rightarrow> 'a mpsc_queue \<Rightarrow> 'a deliveries \<times> 'a mpsc_queue" where
  "mpsc_pop w q =
     (if mpsc_data q \<noteq> [] then ([(w, hd (mpsc_data q))], q\<lparr>mpsc_data := tl (mpsc_data q)\<rparr>)
      else ([], q\<lparr>mpsc_waiter := Some w\<rparr>))"

definition mpsc_try_pop :: "'a mpsc_queue \<Rightarrow> 'a option \<times> 'a mpsc_queue" where
  "mpsc_try_pop q =
     (if mpsc_data q = [] then (None, q)
      else (Some (hd (mpsc_data q)), q\<lparr>mpsc_data := tl (mpsc_data q)\<rparr>))"

definition mpsc_push :: "'a \<Rightarrow> 'a mpsc_queue \<Rightarrow> 'a deliveries \<times> 'a mpsc_queue" where
  "mpsc_push val q =
     (case mpsc_waiter q of
        Some w \<Rightarrow> ([(w, val)], q\<lparr>mpsc_waiter := None\<rparr>)
      | None \<Rightarrow> ([], q\<lparr>mpsc_data := mpsc_data q @ [val]\<rparr>))"

text \<open>\<open>z\<close> is a default constructed value: the data is resized to the number of values and the values
  after the first are moved to its front.\<close>

definition mpsc_push_all :: "'a \<Rightarrow> 'a list \<Rightarrow> 'a mpsc_queue \<Rightarrow> 'a deliveries \<times> 'a mpsc_queue" where
  "mpsc_push_all z vals q =
     (if vals = [] then ([], q)
      else case mpsc_waiter q of
        Some w \<Rightarrow>
          ([(w, hd vals)], q\<lparr>mpsc_waiter := None,
             mpsc_data := tl vals @ drop (length vals - 1) (pad_to (length vals) z (take (length vals) (mpsc_data q)))\<rparr>)
      | None \<Rightarrow> ([], q\<lparr>mpsc_data := mpsc_data q @ vals\<rparr>))"

text \<open>\<open>cancel_all\<close> gives the consumer an exception and keeps it registered.\<close>

definition mpsc_cancel_all :: "'a mpsc_queue \<Rightarrow> nat list \<times> 'a mpsc_queue" where
  "mpsc_cancel_all q = ((case mpsc_waiter q of None \<Rightarrow> [] | Some w \<Rightarrow> [w]), q)"

definition mpsc_get_data_copy :: "'a mpsc_queue \<Rightarrow> 'a list" where
  "mpsc_get_data_copy q = mpsc_data q"

definition mpsc_pop_all :: "'a mpsc_queue \<Rightarrow> 'a list \<times> 'a mpsc_queue" where
  "mpsc_pop_all q = (mpsc_data q, q\<lparr>mpsc_data := []\<rparr>)"

definition mpsc_pop_idx :: "nat \<Rightarrow> 'a mpsc_queue \<Rightarrow> 'a option \<times> 'a mpsc_queue" where
  "mpsc_pop_idx idx q =
     (if idx \<ge> length (mpsc_data q) then (None, q)
      else (Some (mpsc_data q ! idx), q\<lparr>mpsc_data := remove_range idx (idx + 1) (mpsc_data q)\<rparr>))"

section \<open>\<open>ring_buffer_no_thread_stuffs\<close>\<close>

text \<open>The array of \<open>ring_size\<close> slots; \<open>None\<close> is a slot that holds a default constructed value.\<close>

record 'a ring_buffer =
  rb_data :: "'a option list"
  rb_head :: nat
  rb_tail :: nat

definition rb_empty :: "nat \<Rightarrow> 'a ring_buffer" where
  "rb_empty ring_size = \<lparr>rb_data = replicate ring_size None, rb_head = 0, rb_tail = 0\<rparr>"

definition rb_is_full :: "nat \<Rightarrow> 'a ring_buffer \<Rightarrow> bool" where
  "rb_is_full ring_size b = ((rb_head b + 1) mod ring_size = rb_tail b)"

definition rb_is_empty :: "'a ring_buffer \<Rightarrow> bool" where
  "rb_is_empty b = (rb_head b = rb_tail b)"

definition rb_try_push :: "nat \<Rightarrow> 'a \<Rightarrow> 'a ring_buffer \<Rightarrow> bool \<times> 'a ring_buffer" where
  "rb_try_push ring_size thing b =
     (if rb_is_full ring_size b then (False, b)
      else (True, b\<lparr>rb_data := (rb_data b)[rb_tail b := Some thing],
                    rb_tail := (rb_tail b + 1) mod ring_size\<rparr>))"

definition rb_try_pop :: "nat \<Rightarrow> 'a ring_buffer \<Rightarrow> 'a option \<times> 'a ring_buffer" where
  "rb_try_pop ring_size b =
     (if rb_is_empty b then (None, b)
      else (rb_data b ! rb_head b, b\<lparr>rb_head := (rb_head b + 1) mod ring_size\<rparr>))"

section \<open>\<open>async_queue_maybe_better\<close>\<close>

text \<open>The stack of waiters has its top first.\<close>

record 'a async_queue =
  aq_ring :: "'a ring_buffer"
  aq_overflow :: "'a list"
  aq_waiters :: "nat list"

definition aq_ring_size :: nat where "aq_ring_size = 32"

definition aq_empty :: "'a async_queue" where
  "aq_empty = \<lparr>aq_ring = rb_empty aq_ring_size, aq_overflow = [], aq_waiters = []\<rparr>"

definition aq_push :: "'a \<Rightarrow> 'a async_queue \<Rightarrow> 'a deliveries \<times> 'a async_queue" where
  "aq_push thing q =
     (case aq_waiters q of
        waiter # next \<Rightarrow> ([(waiter, thing)], q\<lparr>aq_waiters := next\<rparr>)
      | [] \<Rightarrow>
         (case rb_try_push aq_ring_size thing (aq_ring q) of
            (True, b) \<Rightarrow> ([], q\<lparr>aq_ring := b\<rparr>)
          | (False, b) \<Rightarrow> ([], q\<lparr>aq_ring := b, aq_overflow := aq_overflow q @ [thing]\<rparr>)))"

definition aq_is_empty :: "'a async_queue \<Rightarrow> bool" where
  "aq_is_empty q = rb_is_empty (aq_ring q)"

definition aq_pop_1 :: "'a async_queue \<Rightarrow> 'a option \<times> 'a async_queue" where
  "aq_pop_1 q =
     (case rb_try_pop aq_ring_size (aq_ring q) of (a, b) \<Rightarrow>
        (a, case aq_overflow q of
              [] \<Rightarrow> q\<lparr>aq_ring := b\<rparr>
            | next_thing # overflow \<Rightarrow>
                q\<lparr>aq_ring := snd (rb_try_push aq_ring_size next_thing b), aq_overflow := overflow\<rparr>))"

text \<open>\<open>pop\<close> and its awaiter's \<open>await_suspend\<close>: a value at once, or the coroutine on the stack.\<close>

definition aq_pop :: "nat \<Rightarrow> 'a async_queue \<Rightarrow> 'a deliveries \<times> 'a async_queue" where
  "aq_pop w q =
     (if \<not> aq_is_empty q then
        (case aq_pop_1 q of
           (Some thing, q') \<Rightarrow> ([(w, thing)], q')
         | (None, q') \<Rightarrow> ([], q'))
      else ([], q\<lparr>aq_waiters := w # aq_waiters q\<rparr>))"

definition aq_cancel_all :: "'a async_queue \<Rightarrow> nat list \<times> 'a async_queue" where
  "aq_cancel_all q = (aq_waiters q, q\<lparr>aq_waiters := []\<rparr>)"

section \<open>\<open>async_queue_thread_unsafe\<close>\<close>

record 'a unsafe_queue =
  uq_data :: "'a list"
  uq_waiter_stack :: "nat list"

definition uq_empty :: "'a unsafe_queue" where
  "uq_empty = \<lparr>uq_data = [], uq_waiter_stack = []\<rparr>"

definition uq_pop :: "nat \<Rightarrow> 'a unsafe_queue \<Rightarrow> 'a deliveries \<times> 'a unsafe_queue" where
  "uq_pop w q =
     (if uq_data q \<noteq> [] then ([(w, hd (uq_data q))], q\<lparr>uq_data := tl (uq_data q)\<rparr>)
      else ([], q\<lparr>uq_waiter_stack := w # uq_waiter_stack q\<rparr>))"

definition uq_push :: "'a \<Rightarrow> 'a unsafe_queue \<Rightarrow> 'a deliveries \<times> 'a unsafe_queue" where
  "uq_push thing q =
     (case uq_waiter_stack q of
        me # next \<Rightarrow> ([(me, thing)], q\<lparr>uq_waiter_stack := next\<rparr>)
      | [] \<Rightarrow> ([], q\<lparr>uq_data := uq_data q @ [thing]\<rparr>))"

definition uq_cancel_all :: "'a unsafe_queue \<Rightarrow> nat list \<times> 'a unsafe_queue" where
  "uq_cancel_all q = (uq_waiter_stack q, q\<lparr>uq_waiter_stack := []\<rparr>)"

section \<open>Runs of a queue\<close>

datatype 'a chan_op = Push 'a | Pop nat

fun run_chan :: "('a \<Rightarrow> 'q \<Rightarrow> 'a deliveries \<times> 'q) \<Rightarrow> (nat \<Rightarrow> 'q \<Rightarrow> 'a deliveries \<times> 'q) \<Rightarrow>
    'a chan_op list \<Rightarrow> 'q \<Rightarrow> 'a deliveries \<times> 'q" where
  "run_chan push pop [] q = ([], q)"
| "run_chan push pop (op # ops) q =
     (let (d, q') = (case op of Push v \<Rightarrow> push v q | Pop w \<Rightarrow> pop w q);
          (ds, q'') = run_chan push pop ops q'
      in (d @ ds, q''))"

definition pushed :: "'a chan_op list \<Rightarrow> 'a list" where
  "pushed ops = concat (map (\<lambda>op. case op of Push v \<Rightarrow> [v] | Pop _ \<Rightarrow> []) ops)"

definition popped :: "'a chan_op list \<Rightarrow> nat list" where
  "popped ops = concat (map (\<lambda>op. case op of Push _ \<Rightarrow> [] | Pop w \<Rightarrow> [w]) ops)"

text \<open>
  What a queue promises its users: values leave in the order they came in, none is lost or
  duplicated, a waiter gets one value and stays until then, and no waiter waits while a value is
  there. \<open>can_pop\<close> is the states where a coroutine may ask for a value.
\<close>

locale channel =
  fixes inv :: "'q \<Rightarrow> bool" and can_pop :: "'q \<Rightarrow> bool"
    and contents :: "'q \<Rightarrow> 'a list" and waiting :: "'q \<Rightarrow> nat list"
    and push :: "'a \<Rightarrow> 'q \<Rightarrow> 'a deliveries \<times> 'q" and pop :: "nat \<Rightarrow> 'q \<Rightarrow> 'a deliveries \<times> 'q"
  assumes push_inv: "inv q \<Longrightarrow> inv (snd (push v q))"
    and pop_inv: "inv q \<Longrightarrow> can_pop q \<Longrightarrow> inv (snd (pop w q))"
    and push_flow: "inv q \<Longrightarrow> map snd (fst (push v q)) @ contents (snd (push v q)) = contents q @ [v]"
    and pop_flow: "inv q \<Longrightarrow> can_pop q \<Longrightarrow> map snd (fst (pop w q)) @ contents (snd (pop w q)) = contents q"
    and push_waiters: "inv q \<Longrightarrow> mset (map fst (fst (push v q))) + mset (waiting (snd (push v q))) = mset (waiting q)"
    and pop_waiters: "inv q \<Longrightarrow> can_pop q \<Longrightarrow>
        mset (map fst (fst (pop w q))) + mset (waiting (snd (pop w q))) = add_mset w (mset (waiting q))"
    and no_starving: "inv q \<Longrightarrow> contents q = [] \<or> waiting q = []"
begin

text \<open>A run in which every \<open>pop\<close> is allowed.\<close>

fun allowed :: "'a chan_op list \<Rightarrow> 'q \<Rightarrow> bool" where
  "allowed [] q = True"
| "allowed (Push v # ops) q = allowed ops (snd (push v q))"
| "allowed (Pop w # ops) q = (can_pop q \<and> allowed ops (snd (pop w q)))"

lemma run_flow:
  "inv q \<Longrightarrow> allowed ops q \<Longrightarrow> run_chan push pop ops q = (ds, q') \<Longrightarrow>
    inv q' \<and> map snd ds @ contents q' = contents q @ pushed ops
      \<and> mset (map fst ds) + mset (waiting q') = mset (waiting q) + mset (popped ops)"
proof (induction ops arbitrary: q ds)
  case (Cons op ops)
  show ?case
  proof (cases op)
    case (Push v)
    let ?q = "snd (push v q)"
    obtain ds1 where r: "run_chan push pop ops ?q = (ds1, q')" and d: "ds = fst (push v q) @ ds1"
      using Cons.prems(3) Push by (auto simp: Let_def split: prod.splits)
    have ih: "inv q'" "map snd ds1 @ contents q' = contents ?q @ pushed ops"
      "mset (map fst ds1) + mset (waiting q') = mset (waiting ?q) + mset (popped ops)"
      using Cons.IH [OF push_inv [OF Cons.prems(1)] _ r] Cons.prems(2) Push by simp_all
    have "map snd ds @ contents q' = (map snd (fst (push v q)) @ contents ?q) @ pushed ops"
      using ih(2) by (simp add: d)
    moreover have "mset (map fst ds) + mset (waiting q')
        = (mset (map fst (fst (push v q))) + mset (waiting ?q)) + mset (popped ops)"
      using ih(3) by (simp only: d map_append mset_append add.assoc)
    ultimately show ?thesis
      using ih(1) push_flow [OF Cons.prems(1), of v] push_waiters [OF Cons.prems(1), of v] Push
      by (simp add: pushed_def popped_def)
  next
    case (Pop w)
    let ?q = "snd (pop w q)"
    have c: "can_pop q" using Cons.prems(2) Pop by simp
    obtain ds1 where r: "run_chan push pop ops ?q = (ds1, q')" and d: "ds = fst (pop w q) @ ds1"
      using Cons.prems(3) Pop by (auto simp: Let_def split: prod.splits)
    have ih: "inv q'" "map snd ds1 @ contents q' = contents ?q @ pushed ops"
      "mset (map fst ds1) + mset (waiting q') = mset (waiting ?q) + mset (popped ops)"
      using Cons.IH [OF pop_inv [OF Cons.prems(1) c] _ r] Cons.prems(2) Pop by simp_all
    have "map snd ds @ contents q' = (map snd (fst (pop w q)) @ contents ?q) @ pushed ops"
      using ih(2) by (simp add: d)
    moreover have "mset (map fst ds) + mset (waiting q')
        = (mset (map fst (fst (pop w q))) + mset (waiting ?q)) + mset (popped ops)"
      using ih(3) by (simp only: d map_append mset_append add.assoc)
    ultimately show ?thesis
      using ih(1) pop_flow [OF Cons.prems(1) c, of w] pop_waiters [OF Cons.prems(1) c, of w] Pop
      by (simp add: pushed_def popped_def)
  qed
qed (simp add: pushed_def popped_def)

text \<open>From an empty queue: the deliveries are the first values, in order, and their number is the
  smaller of the numbers of values and of requests.\<close>

lemma run_from_empty:
  assumes "inv q" "contents q = []" "waiting q = []" "allowed ops q" "run_chan push pop ops q = (ds, q')"
  shows "map snd ds = take (length (popped ops)) (pushed ops)
    \<and> length ds = min (length (pushed ops)) (length (popped ops))
    \<and> contents q' = drop (length (popped ops)) (pushed ops)"
proof -
  have i: "inv q'" and f: "map snd ds @ contents q' = pushed ops"
    and w: "mset (map fst ds) + mset (waiting q') = mset (popped ops)"
    using run_flow [OF assms(1,4,5)] assms(2,3) by auto
  have l: "length ds + length (waiting q') = length (popped ops)"
    using arg_cong [OF w, of size] by simp
  have f': "pushed ops = map snd ds @ contents q'" using f by simp
  from no_starving [OF i] l show ?thesis
    unfolding f' by (auto simp: take_append)
qed

end

section \<open>The queues keep the promise\<close>

lemma mset_hd_tl [simp]: "xs \<noteq> [] \<Longrightarrow> add_mset (hd xs) (mset (tl xs)) = mset xs"
  by (cases xs) auto

definition caq_inv :: "'a concurrent_async_queue \<Rightarrow> bool" where
  "caq_inv q = (caq_data q = [] \<or> caq_waiters q = [])"

interpretation caq: channel caq_inv "\<lambda>_. True" caq_data caq_waiters caq_push caq_pop
  by unfold_locales (auto simp: caq_inv_def caq_push_def caq_pop_def)

definition mpsc_inv :: "'a mpsc_queue \<Rightarrow> bool" where
  "mpsc_inv q = (mpsc_data q = [] \<or> mpsc_waiter q = None)"

definition mpsc_waiting :: "'a mpsc_queue \<Rightarrow> nat list" where
  "mpsc_waiting q = (case mpsc_waiter q of None \<Rightarrow> [] | Some w \<Rightarrow> [w])"

definition mpsc_can_pop :: "'a mpsc_queue \<Rightarrow> bool" where
  "mpsc_can_pop q = (mpsc_waiter q = None)"

interpretation mpsc: channel mpsc_inv mpsc_can_pop mpsc_data mpsc_waiting mpsc_push mpsc_pop
  by unfold_locales
    (auto simp: mpsc_inv_def mpsc_can_pop_def mpsc_waiting_def mpsc_push_def mpsc_pop_def
      split: option.splits)

definition uq_inv :: "'a unsafe_queue \<Rightarrow> bool" where
  "uq_inv q = (uq_data q = [] \<or> uq_waiter_stack q = [])"

interpretation uq: channel uq_inv "\<lambda>_. True" uq_data uq_waiter_stack uq_push uq_pop
  by unfold_locales (auto simp: uq_inv_def uq_push_def uq_pop_def split: list.splits)

text \<open>The ring buffer holds at most one value, and the overflow is empty when it holds none.\<close>

definition ring_ok :: "'a ring_buffer \<Rightarrow> bool" where
  "ring_ok b = (length (rb_data b) = aq_ring_size \<and> rb_head b < aq_ring_size \<and>
     (rb_tail b = rb_head b \<or>
      rb_tail b = (rb_head b + 1) mod aq_ring_size \<and> rb_data b ! rb_head b \<noteq> None))"

definition ring_contents :: "'a ring_buffer \<Rightarrow> 'a list" where
  "ring_contents b = (if rb_is_empty b then [] else [the (rb_data b ! rb_head b)])"

definition aq_inv :: "'a async_queue \<Rightarrow> bool" where
  "aq_inv q = (ring_ok (aq_ring q) \<and> (rb_is_empty (aq_ring q) \<longrightarrow> aq_overflow q = [])
     \<and> (aq_waiters q = [] \<or> rb_is_empty (aq_ring q)))"

definition aq_contents :: "'a async_queue \<Rightarrow> 'a list" where
  "aq_contents q = ring_contents (aq_ring q) @ aq_overflow q"

lemma next_slot: "h < aq_ring_size \<Longrightarrow> (h + 1) mod aq_ring_size \<noteq> h"
  by (cases "h + 1 = aq_ring_size") (auto simp: aq_ring_size_def)

lemma ring_push:
  assumes "ring_ok b"
  shows "rb_is_empty b \<Longrightarrow> \<exists>b'. rb_try_push aq_ring_size v b = (True, b') \<and> ring_ok b' \<and>
      \<not> rb_is_empty b' \<and> ring_contents b' = [v]"
    and "\<not> rb_is_empty b \<Longrightarrow> rb_try_push aq_ring_size v b = (False, b)"
  using assms next_slot [of "rb_head b"]
  by (auto simp: rb_try_push_def rb_is_full_def rb_is_empty_def ring_ok_def ring_contents_def)

lemma ring_pop:
  assumes "ring_ok b" "\<not> rb_is_empty b"
  shows "\<exists>v b'. rb_try_pop aq_ring_size b = (Some v, b') \<and> ring_ok b' \<and> rb_is_empty b' \<and> ring_contents b = [v]"
  using assms by (auto simp: rb_try_pop_def rb_is_empty_def ring_ok_def ring_contents_def aq_ring_size_def)

lemma aq_push_ok:
  assumes "aq_inv q"
  shows "aq_inv (snd (aq_push v q)) \<and>
    map snd (fst (aq_push v q)) @ aq_contents (snd (aq_push v q)) = aq_contents q @ [v] \<and>
    mset (map fst (fst (aq_push v q))) + mset (aq_waiters (snd (aq_push v q))) = mset (aq_waiters q)"
proof (cases "aq_waiters q")
  case Nil
  show ?thesis
  proof (cases "rb_is_empty (aq_ring q)")
    case True
    with assms ring_push(1) [of "aq_ring q" v] obtain b' where
      "rb_try_push aq_ring_size v (aq_ring q) = (True, b')" "ring_ok b'" "\<not> rb_is_empty b'" "ring_contents b' = [v]"
      by (auto simp: aq_inv_def)
    with Nil True assms show ?thesis
      by (simp add: aq_push_def aq_inv_def aq_contents_def ring_contents_def)
  next
    case False
    with assms ring_push(2) [of "aq_ring q" v] Nil show ?thesis
      by (simp add: aq_push_def aq_inv_def aq_contents_def)
  qed
next
  case (Cons w ws)
  with assms show ?thesis
    by (auto simp: aq_push_def aq_inv_def aq_contents_def ring_contents_def)
qed

lemma aq_pop_ok:
  assumes "aq_inv q"
  shows "aq_inv (snd (aq_pop w q)) \<and>
    map snd (fst (aq_pop w q)) @ aq_contents (snd (aq_pop w q)) = aq_contents q \<and>
    mset (map fst (fst (aq_pop w q))) + mset (aq_waiters (snd (aq_pop w q))) = add_mset w (mset (aq_waiters q))"
proof (cases "rb_is_empty (aq_ring q)")
  case True
  with assms show ?thesis by (simp add: aq_pop_def aq_is_empty_def aq_inv_def aq_contents_def)
next
  case False
  with assms ring_pop [of "aq_ring q"] obtain v b where
    b: "rb_try_pop aq_ring_size (aq_ring q) = (Some v, b)" "ring_ok b" "rb_is_empty b"
      "ring_contents (aq_ring q) = [v]"
    by (auto simp: aq_inv_def)
  show ?thesis
  proof (cases "aq_overflow q")
    case Nil
    with False b assms show ?thesis
      by (simp add: aq_pop_def aq_is_empty_def aq_pop_1_def aq_inv_def aq_contents_def ring_contents_def)
  next
    case (Cons x xs)
    from ring_push(1) [OF b(2,3), of x] obtain b' where
      "rb_try_push aq_ring_size x b = (True, b')" "ring_ok b'" "\<not> rb_is_empty b'" "ring_contents b' = [x]"
      by blast
    with Cons False b assms show ?thesis
      by (simp add: aq_pop_def aq_is_empty_def aq_pop_1_def aq_inv_def aq_contents_def)
  qed
qed

lemmas aq_laws = aq_push_ok [THEN conjunct1] aq_pop_ok [THEN conjunct1]
  aq_push_ok [THEN conjunct2, THEN conjunct1] aq_pop_ok [THEN conjunct2, THEN conjunct1]
  aq_push_ok [THEN conjunct2, THEN conjunct2] aq_pop_ok [THEN conjunct2, THEN conjunct2]

lemma aq_no_starving: "aq_inv q \<Longrightarrow> aq_contents q = [] \<or> aq_waiters q = []"
  by (auto simp: aq_inv_def aq_contents_def ring_contents_def)

interpretation aq: channel aq_inv "\<lambda>_. True" aq_contents aq_waiters aq_push aq_pop
  by unfold_locales (rule aq_laws aq_no_starving; assumption)+

lemma aq_inv_empty: "aq_inv aq_empty" "aq_contents aq_empty = []" "aq_waiters aq_empty = []"
  by (simp_all add: aq_inv_def aq_empty_def rb_empty_def ring_ok_def aq_contents_def ring_contents_def
      rb_is_empty_def aq_ring_size_def)

lemma aq_allowed: "aq.allowed ops q"
proof (induction ops arbitrary: q)
  case (Cons op ops)
  then show ?case by (cases op) simp_all
qed simp

text \<open>C35: The request queue is first in, first out: in every run of pushes and pops from the empty
  queue the values handed over are the first ones pushed, in order, as many as there are both values
  and requests, and the rest is still in the queue. No value is lost or handed over twice.\<close>
theorem async_queue_fifo:
  assumes "run_chan aq_push aq_pop ops aq_empty = (ds, q)"
  shows "map snd ds = take (length (popped ops)) (pushed ops)
    \<and> length ds = min (length (pushed ops)) (length (popped ops))
    \<and> aq_contents q = drop (length (popped ops)) (pushed ops)"
  by (rule aq.run_from_empty [OF aq_inv_empty aq_allowed assms])

theorem async_queue_fifo_witness:
  "map snd (fst (run_chan aq_push aq_pop [Push (1::int), Pop 7, Pop 8, Push 2, Push 3] aq_empty)) = [1, 2]"
proof -
  let ?ops = "[Push (1::int), Pop 7, Pop 8, Push 2, Push 3]"
  have "map snd (fst (run_chan aq_push aq_pop ?ops aq_empty)) = take (length (popped ?ops)) (pushed ?ops)"
    by (rule async_queue_fifo [OF prod.collapse [symmetric], THEN conjunct1])
  also have "\<dots> = [1, 2]" by (simp add: pushed_def popped_def)
  finally show ?thesis .
qed

text \<open>The ring buffer of the queue never holds more than one of its 32 slots' values: it
  reports itself full as soon as it holds one.\<close>
theorem ring_buffer_one_value:
  assumes "ring_ok b"
  shows "rb_is_full aq_ring_size b \<longleftrightarrow> \<not> rb_is_empty b"
  using assms next_slot [of "rb_head b"]
  unfolding rb_is_full_def rb_is_empty_def ring_ok_def by metis

theorem ring_buffer_one_value_witness:
  "rb_is_full aq_ring_size (snd (rb_try_push aq_ring_size (1::int) (rb_empty aq_ring_size)))"
  using ring_buffer_one_value [of "snd (rb_try_push aq_ring_size (1::int) (rb_empty aq_ring_size))"]
  by (simp add: rb_try_push_def rb_empty_def ring_ok_def rb_is_full_def rb_is_empty_def aq_ring_size_def)

text \<open>\<open>push_all\<close> with a coroutine waiting drops the coroutine and the value meant for it.\<close>
theorem caq_push_all_loses:
  "caq_push_all [x, y] \<lparr>caq_data = [], caq_waiters = [w]\<rparr> = ([], \<lparr>caq_data = [y], caq_waiters = []\<rparr>)"
  by (simp add: caq_push_all_def)

text \<open>After \<open>cancel_all\<close> the consumer, whose promise is resolved, is still given the next value.\<close>
theorem mpsc_push_after_cancel:
  "mpsc_push x (snd (mpsc_cancel_all \<lparr>mpsc_data = [], mpsc_waiter = Some w\<rparr>))
     = ([(w, x)], \<lparr>mpsc_data = [], mpsc_waiter = None\<rparr>)"
  by (simp add: mpsc_push_def mpsc_cancel_all_def)

text \<open>\<open>push_all\<close> with a consumer waiting leaves a default constructed value behind the others.\<close>
theorem mpsc_push_all_extra:
  "mpsc_push_all z [x, y] \<lparr>mpsc_data = [], mpsc_waiter = Some w\<rparr>
     = ([(w, x)], \<lparr>mpsc_data = [y, z], mpsc_waiter = None\<rparr>)"
  by (simp add: mpsc_push_all_def pad_to_def)

end
