(* ===== verification/Http_Connection.thy ===== *)
theory Http_Connection
  imports Rate_Limiter Async_Queue
begin

text \<open>
  \<open>src/http_connection.cpp\<close> and \<open>include/http_connection.h\<close>: the connection that sends the requests
  one by one. Users push requests on the queue; one coroutine, \<open>start_sending\<close>, takes them out, holds
  them back while the connection or their bucket is rate limited, sends them and gives the response
  to the request's handler. Every suspension of the coroutine is a state of \<open>consumer\<close>; what
  happens between two suspensions is one step. Times are milliseconds. The socket is not modelled:
  a response is an input of its step, and \<open>send_rq\<close>, which writes, reads and reconnects until it has
  one, is the state \<open>Sending\<close>.
\<close>

section \<open>Requests and responses\<close>

record 'x discord_request =
  rq_target :: string
  rq_payload :: 'x

text \<open>
  Of a response: the status; the JSON body's \<open>retry_after\<close> and \<open>global\<close>, \<open>None\<close> when the body is not
  such an object and reading it throws; the header \<open>X-RateLimit-Remaining\<close>; and the number read
  from \<open>X-RateLimit-Reset-After\<close>, \<open>None\<close> without that header.
\<close>

record http_response =
  rs_status :: int
  rs_body :: "(nat \<times> bool) option"
  rs_remaining :: "string option"
  rs_reset_after :: "nat option"

text \<open>
  The major parameter of a target. \<open>None\<close> is a call without defined result: a target shorter than
  the prefix that is removed, or a number that does not fit, where the variable read was never
  written.
\<close>

definition get_major_param_id :: "string \<Rightarrow> u64 option" where
  "get_major_param_id s =
     (if length s < 7 then None
      else let t = drop 7 s; start = find_index is_digit t
        in if start = length t then Some 0
           else let u = drop start t; len = find_index (\<lambda>c. c = CHR ''/'') u;
                    ds = takeWhile is_digit (take len u)
                in if dec_val ds < 2 ^ 64
                   then Some (word_of_nat (fst (from_chars 64 0 (take len u)))) else None)"

section \<open>The connection\<close>

text \<open>Where the sending coroutine is: before \<open>pop\<close>; waiting in \<open>pop\<close>; with a request just taken out;
  sleeping out the global limit before sending; waiting for the response; sleeping out the global
  limit a response reported; ended by an exception or without defined behaviour.\<close>

datatype 'r consumer =
  Ready | Waiting | Got 'r | Global_sleep 'r nat | Sending 'r | Retry_sleep 'r nat | Crashed 'r

record 'x http_connection =
  c_queue :: "'x discord_request async_queue"
  c_limiter :: "(u64, 'x discord_request) rate_limiter"
  c_rate_limited_until :: nat
  c_global_rate_limited :: bool
  c_consumer :: "'x discord_request consumer"
  c_finished :: "('x discord_request \<times> http_response) list"

definition connection_start :: "'x http_connection" where
  "connection_start = \<lparr>c_queue = aq_empty, c_limiter = rl_empty, c_rate_limited_until = 0,
     c_global_rate_limited = False, c_consumer = Ready, c_finished = []\<rparr>"

definition sleep_till :: "nat \<Rightarrow> 'x http_connection \<Rightarrow> 'x http_connection" where
  "sleep_till time_point c = c\<lparr>c_rate_limited_until := time_point, c_global_rate_limited := True\<rparr>"

text \<open>The coroutine is the only one that waits: a value handed over resumes it.\<close>

definition resume_with :: "'x discord_request deliveries \<Rightarrow> 'x http_connection \<Rightarrow> 'x http_connection" where
  "resume_with ds c = (case ds of [] \<Rightarrow> c | (_, r) # _ \<Rightarrow> c\<lparr>c_consumer := Got r\<rparr>)"

definition http_send :: "'x discord_request \<Rightarrow> 'x http_connection \<Rightarrow> 'x http_connection" where
  "http_send d c = (case aq_push d (c_queue c) of (ds, q) \<Rightarrow> resume_with ds (c\<lparr>c_queue := q\<rparr>))"

definition pop_request :: "'x http_connection \<Rightarrow> 'x http_connection" where
  "pop_request c =
     (case aq_pop 0 (c_queue c) of (ds, q) \<Rightarrow> resume_with ds (c\<lparr>c_queue := q, c_consumer := Waiting\<rparr>))"

text \<open>\<open>send_to_discord\<close> behind the global limit: the bucket's limit, then the request is sent.\<close>

definition admit :: "'x discord_request \<Rightarrow> 'x http_connection \<Rightarrow> 'x http_connection" where
  "admit r c =
     (case get_major_param_id (rq_target r) of
        None \<Rightarrow> c\<lparr>c_consumer := Crashed r\<rparr>
      | Some b \<Rightarrow> (case maybe_rate_limit b r (c_limiter c) of
          (True, l) \<Rightarrow> c\<lparr>c_limiter := l, c_consumer := Ready\<rparr>
        | (False, l) \<Rightarrow> c\<lparr>c_limiter := l, c_consumer := Sending r\<rparr>))"

definition send_to_discord :: "nat \<Rightarrow> 'x discord_request \<Rightarrow> 'x http_connection \<Rightarrow> 'x http_connection" where
  "send_to_discord now r c =
     (if get_major_param_id (rq_target r) = None then c\<lparr>c_consumer := Crashed r\<rparr>
      else if c_global_rate_limited c then
        if c_rate_limited_until c > now then c\<lparr>c_consumer := Global_sleep r (c_rate_limited_until c)\<rparr>
        else admit r (c\<lparr>c_global_rate_limited := False\<rparr>)
      else admit r c)"

text \<open>The end of the sleep before sending.\<close>

definition wake_global :: "'x discord_request \<Rightarrow> 'x http_connection \<Rightarrow> 'x http_connection" where
  "wake_global r c = admit r (c\<lparr>c_global_rate_limited := False\<rparr>)"

text \<open>
  \<open>send_to_discord_\<close> on the response to \<open>r\<close>. A global limit is reported to the client, whose
  callback is the argument \<open>on_global\<close>; a bucket limit moves the request to the limiter.
\<close>

definition handle_response :: "(nat \<Rightarrow> 'x http_connection \<Rightarrow> 'x http_connection) \<Rightarrow> nat \<Rightarrow>
    'x discord_request \<Rightarrow> http_response \<Rightarrow> 'x http_connection \<Rightarrow> 'x http_connection" where
  "handle_response on_global now r res c =
     (if rs_status res = 429 then
        (case rs_body res of
           None \<Rightarrow> c\<lparr>c_consumer := Crashed r\<rparr>
         | Some (retry_after, global) \<Rightarrow>
             let tp = now + retry_after in
             if global then (on_global tp c)\<lparr>c_consumer := Retry_sleep r tp\<rparr>
             else (case get_major_param_id (rq_target r) of
                 None \<Rightarrow> c\<lparr>c_consumer := Crashed r\<rparr>
               | Some b \<Rightarrow> c\<lparr>c_limiter := rate_limit_obj b tp r (c_limiter c), c_consumer := Ready\<rparr>))
      else if rs_remaining res = Some ''0'' then
        (case rs_reset_after res of
           None \<Rightarrow> c\<lparr>c_consumer := Crashed r\<rparr>
         | Some ms \<Rightarrow> (case get_major_param_id (rq_target r) of
               None \<Rightarrow> c\<lparr>c_consumer := Crashed r\<rparr>
             | Some b \<Rightarrow> c\<lparr>c_limiter := rate_limit b (ms + now) (c_limiter c), c_consumer := Ready,
                 c_finished := c_finished c @ [(r, res)]\<rparr>))
      else c\<lparr>c_consumer := Ready, c_finished := c_finished c @ [(r, res)]\<rparr>)"

text \<open>The end of a bucket's limit: \<open>on_rate_limit_finish\<close> pushes the held requests on the queue.\<close>

definition finish_limit :: "(u64 \<times> nat) \<Rightarrow> 'x http_connection \<Rightarrow> 'x http_connection option" where
  "finish_limit t c =
     (case timer_fires t (c_limiter c) of
        None \<Rightarrow> None
      | Some (requests, l) \<Rightarrow> Some (foldl (\<lambda>c r. http_send r c) (c\<lparr>c_limiter := l\<rparr>) requests))"

text \<open>
  \<open>client::rate_limit_global\<close>: whether the shards are limited, and the new time of the last global
  limit. \<open>locked\<close> says that another shard holds the mutex.
\<close>

definition rate_limit_global :: "bool \<Rightarrow> int \<Rightarrow> int \<Rightarrow> bool \<times> int" where
  "rate_limit_global locked now last_global_rate_limit =
     (if locked then (False, last_global_rate_limit)
      else if last_global_rate_limit - now < 3000 then (True, now) else (False, last_global_rate_limit))"

section \<open>Steps\<close>

text \<open>
  The interleavings of users, client, timers, network and coroutine. The clock is part of the
  configuration, with the requests users have sent so far.
\<close>

record 'x config =
  cf_now :: nat
  cf_sent :: "'x discord_request list"
  cf_conn :: "'x http_connection"

inductive http_step :: "'x config \<Rightarrow> 'x config \<Rightarrow> bool" where
  step_user: "http_step s (s\<lparr>cf_sent := cf_sent s @ [r], cf_conn := http_send r (cf_conn s)\<rparr>)"
| step_tick: "now \<ge> cf_now s \<Longrightarrow> http_step s (s\<lparr>cf_now := now\<rparr>)"
| step_limited: "http_step s (s\<lparr>cf_conn := sleep_till t (cf_conn s)\<rparr>)"
| step_pop: "c_consumer (cf_conn s) = Ready \<Longrightarrow> http_step s (s\<lparr>cf_conn := pop_request (cf_conn s)\<rparr>)"
| step_got: "c_consumer (cf_conn s) = Got r \<Longrightarrow>
    http_step s (s\<lparr>cf_conn := send_to_discord (cf_now s) r (cf_conn s)\<rparr>)"
| step_wake: "c_consumer (cf_conn s) = Global_sleep r t \<Longrightarrow> t \<le> cf_now s \<Longrightarrow>
    http_step s (s\<lparr>cf_conn := wake_global r (cf_conn s)\<rparr>)"
| step_response: "c_consumer (cf_conn s) = Sending r \<Longrightarrow> on_global = sleep_till \<or> on_global = (\<lambda>_ c. c) \<Longrightarrow>
    http_step s (s\<lparr>cf_conn := handle_response on_global (cf_now s) r res (cf_conn s)\<rparr>)"
| step_retry: "c_consumer (cf_conn s) = Retry_sleep r t \<Longrightarrow> t \<le> cf_now s \<Longrightarrow>
    http_step s (s\<lparr>cf_conn := (cf_conn s)\<lparr>c_consumer := Sending r\<rparr>\<rparr>)"
| step_timer: "t \<in> set (rl_timers (c_limiter (cf_conn s))) \<Longrightarrow> snd t \<le> cf_now s \<Longrightarrow>
    finish_limit t (cf_conn s) = Some c \<Longrightarrow> http_step s (s\<lparr>cf_conn := c\<rparr>)"

definition config_start :: "'x config" where
  "config_start = \<lparr>cf_now = 0, cf_sent = [], cf_conn = connection_start\<rparr>"

inductive http_reachable :: "'x config \<Rightarrow> bool" where
  reach_start: "http_reachable config_start"
| reach_step: "http_reachable s \<Longrightarrow> http_step s t \<Longrightarrow> http_reachable t"

section \<open>Invariants\<close>

definition held_by :: "'r consumer \<Rightarrow> 'r multiset" where
  "held_by k = (case k of Ready \<Rightarrow> {#} | Waiting \<Rightarrow> {#} | Got r \<Rightarrow> {#r#} | Global_sleep r _ \<Rightarrow> {#r#}
     | Sending r \<Rightarrow> {#r#} | Retry_sleep r _ \<Rightarrow> {#r#} | Crashed r \<Rightarrow> {#r#})"

text \<open>Every request the connection knows.\<close>

definition all_requests :: "'x http_connection \<Rightarrow> 'x discord_request multiset" where
  "all_requests c = mset (aq_contents (c_queue c)) + held_by (c_consumer c)
     + mset (rl_held (c_limiter c)) + mset (map fst (c_finished c))"

definition in_flight :: "'r consumer \<Rightarrow> 'r option" where
  "in_flight k = (case k of Sending r \<Rightarrow> Some r | Retry_sleep r _ \<Rightarrow> Some r | _ \<Rightarrow> None)"

definition limited :: "'x http_connection \<Rightarrow> u64 set" where
  "limited c = set (rl_buckets (c_limiter c))"

definition conn_inv :: "'x http_connection \<Rightarrow> bool" where
  "conn_inv c = (aq_inv (c_queue c) \<and> rl_inv (c_limiter c)
     \<and> aq_waiters (c_queue c) = (if c_consumer c = Waiting then [0] else [])
     \<and> (\<forall>r. in_flight (c_consumer c) = Some r \<longrightarrow>
          (\<exists>b. get_major_param_id (rq_target r) = Some b \<and> b \<notin> limited c)))"

lemmas conn_defs = conn_inv_def all_requests_def held_by_def in_flight_def limited_def

lemma conn_inv_start: "conn_inv connection_start" "all_requests connection_start = {#}"
  by (simp_all add: conn_defs connection_start_def aq_inv_empty rl_inv_empty)

lemma push_no_waiter: "aq_inv q \<Longrightarrow> aq_waiters q = [] \<Longrightarrow> fst (aq_push r q) = [] \<and> aq_waiters (snd (aq_push r q)) = []"
  using aq.push_waiters [of q r] by simp

lemma http_send_ok:
  assumes "conn_inv c"
  shows "conn_inv (http_send r c)" "all_requests (http_send r c) = add_mset r (all_requests c)"
    "c_limiter (http_send r c) = c_limiter c"
proof -
  obtain ds q where p: "aq_push r (c_queue c) = (ds, q)" by (cases "aq_push r (c_queue c)")
  have i: "aq_inv (c_queue c)" using assms by (simp add: conn_inv_def)
  have q: "aq_inv q" "map snd ds @ aq_contents q = aq_contents (c_queue c) @ [r]"
    using aq.push_inv [OF i, of r] aq.push_flow [OF i, of r] p by simp_all
  have "conn_inv (http_send r c) \<and> all_requests (http_send r c) = add_mset r (all_requests c)
    \<and> c_limiter (http_send r c) = c_limiter c"
  proof (cases "c_consumer c = Waiting")
    case True
    with assms have w: "aq_waiters (c_queue c) = [0]" by (simp add: conn_inv_def)
    then have d: "ds = [(0, r)]" "aq_waiters q = []" using p by (auto simp: aq_push_def)
    have "aq_contents (c_queue c) = []" using aq.no_starving [OF i] w by simp
    with q(2) d have "aq_contents q = []" by simp
    with True d q(1) assms p \<open>aq_contents (c_queue c) = []\<close> show ?thesis
      by (simp add: http_send_def resume_with_def conn_defs)
  next
    case False
    with assms have "aq_waiters (c_queue c) = []" by (simp add: conn_inv_def)
    with push_no_waiter [OF i, of r] p have d: "ds = []" "aq_waiters q = []" by simp_all
    with q(2) have "aq_contents q = aq_contents (c_queue c) @ [r]" by simp
    with False d q(1) assms p show ?thesis
      by (simp add: http_send_def resume_with_def conn_defs)
  qed
  then show "conn_inv (http_send r c)" "all_requests (http_send r c) = add_mset r (all_requests c)"
    "c_limiter (http_send r c) = c_limiter c" by blast+
qed

lemma pop_request_ok:
  assumes "conn_inv c" "c_consumer c = Ready"
  shows "conn_inv (pop_request c) \<and> all_requests (pop_request c) = all_requests c"
proof -
  obtain ds q where p: "aq_pop 0 (c_queue c) = (ds, q)" by (cases "aq_pop 0 (c_queue c)")
  have i: "aq_inv (c_queue c)" "aq_waiters (c_queue c) = []" using assms by (simp_all add: conn_inv_def)
  have q: "aq_inv q" "map snd ds @ aq_contents q = aq_contents (c_queue c)"
    "mset (map fst ds) + mset (aq_waiters q) = {#0#}"
    using aq.pop_inv [OF i(1) TrueI, of 0] aq.pop_flow [OF i(1) TrueI, of 0] aq.pop_waiters [OF i(1) TrueI, of 0] i(2) p
    by simp_all
  show ?thesis
  proof (cases ds)
    case Nil
    with q(3) have "aq_waiters q = [0]" by simp
    with Nil q assms p show ?thesis by (simp add: pop_request_def resume_with_def conn_defs)
  next
    case (Cons d ds')
    with q(3) have "ds' = []" "aq_waiters q = []" by (auto simp: union_is_single)
    with Cons q(1,2) assms p show ?thesis
      by (cases d) (auto simp: pop_request_def resume_with_def conn_defs simp flip: q(2))
  qed
qed

lemma pop_limiter: "c_limiter (pop_request c) = c_limiter c"
  by (simp add: pop_request_def resume_with_def split: list.splits prod.splits)

lemma admit_ok:
  assumes "aq_inv (c_queue c)" "rl_inv (c_limiter c)" "aq_waiters (c_queue c) = []"
    "held_by (c_consumer c) = {#r#}"
  shows "conn_inv (admit r c) \<and> all_requests (admit r c) = all_requests c
    \<and> limited (admit r c) = limited c"
proof (cases "get_major_param_id (rq_target r)")
  case None
  with assms show ?thesis by (simp add: admit_def conn_inv_def all_requests_def held_by_def in_flight_def limited_def)
next
  case (Some b)
  obtain f l where m: "maybe_rate_limit b r (c_limiter c) = (f, l)" by (cases "maybe_rate_limit b r (c_limiter c)")
  from rl.offer_cases [OF assms(2) m] Some m assms show ?thesis
    by (cases f) (auto simp: admit_def conn_inv_def all_requests_def held_by_def in_flight_def limited_def)
qed

lemma conn_inv_idle: "conn_inv c \<Longrightarrow> c_consumer c \<noteq> Waiting \<Longrightarrow>
    aq_inv (c_queue c) \<and> rl_inv (c_limiter c) \<and> aq_waiters (c_queue c) = []"
  by (simp add: conn_inv_def)

lemma global_off_same:
  "all_requests (c\<lparr>c_global_rate_limited := x\<rparr>) = all_requests c"
  "limited (c\<lparr>c_global_rate_limited := x\<rparr>) = limited c"
  by (simp_all add: all_requests_def limited_def)

lemma send_to_discord_ok:
  assumes "conn_inv c" "c_consumer c = Got r"
  shows "conn_inv (send_to_discord now r c) \<and> all_requests (send_to_discord now r c) = all_requests c
    \<and> limited (send_to_discord now r c) = limited c"
proof -
  note i = conn_inv_idle [OF assms(1)]
  have h: "held_by (c_consumer c) = {#r#}" using assms(2) by (simp add: held_by_def)
  have a: "conn_inv (admit r c) \<and> all_requests (admit r c) = all_requests c \<and> limited (admit r c) = limited c"
    by (rule admit_ok) (use i assms(2) h in auto)
  have b: "conn_inv (admit r (c\<lparr>c_global_rate_limited := False\<rparr>))
      \<and> all_requests (admit r (c\<lparr>c_global_rate_limited := False\<rparr>)) = all_requests c
      \<and> limited (admit r (c\<lparr>c_global_rate_limited := False\<rparr>)) = limited c"
    using admit_ok [of "c\<lparr>c_global_rate_limited := False\<rparr>" r] i assms(2) h by (simp add: global_off_same)
  from a b i assms(2) h show ?thesis
    by (auto simp: send_to_discord_def conn_inv_def all_requests_def held_by_def in_flight_def limited_def)
qed

lemma wake_global_ok:
  assumes "conn_inv c" "c_consumer c = Global_sleep r t"
  shows "conn_inv (wake_global r c) \<and> all_requests (wake_global r c) = all_requests c
    \<and> limited (wake_global r c) = limited c"
  using admit_ok [of "c\<lparr>c_global_rate_limited := False\<rparr>" r] conn_inv_idle [OF assms(1)] assms(2)
  by (simp add: wake_global_def global_off_same held_by_def)

lemma sleep_till_ok:
  "conn_inv (sleep_till t c) = conn_inv c" "all_requests (sleep_till t c) = all_requests c"
  "limited (sleep_till t c) = limited c"
  by (simp_all add: sleep_till_def conn_defs)

lemma handle_response_ok:
  assumes "conn_inv c" "c_consumer c = Sending r" "f = sleep_till \<or> f = (\<lambda>_ c. c)"
  shows "conn_inv (handle_response f now r res c) \<and> all_requests (handle_response f now r res c) = all_requests c
    \<and> limited c \<subseteq> limited (handle_response f now r res c)"
proof -
  from assms(1,2) obtain b where b: "get_major_param_id (rq_target r) = Some b" "b \<notin> limited c"
    by (auto simp: conn_inv_def in_flight_def)
  note i = conn_inv_idle [OF assms(1)]
  have l: "rl_inv (rate_limit b u (c_limiter c))" "mset (rl_held (rate_limit b u (c_limiter c))) = mset (rl_held (c_limiter c))"
    "set (rl_buckets (rate_limit b u (c_limiter c))) = insert b (limited c)" for u
    using rl.limit_ok [of "c_limiter c" b u] b(2) i assms(2) by (simp_all add: limited_def)
  have o: "rl_inv (rate_limit_obj b u r (c_limiter c))"
    "mset (rl_held (rate_limit_obj b u r (c_limiter c))) = add_mset r (mset (rl_held (c_limiter c)))"
    "set (rl_buckets (rate_limit_obj b u r (c_limiter c))) = insert b (limited c)" for u
    using rl.limit_obj_ok [of "c_limiter c" b u r] b(2) i assms(2) by (simp_all add: limited_def)
  show ?thesis
    using assms(2,3) i b l o
    by (auto simp: handle_response_def Let_def sleep_till_def conn_inv_def all_requests_def held_by_def
        in_flight_def limited_def split: option.splits)
qed

lemma send_all_ok:
  "conn_inv c \<Longrightarrow> conn_inv (foldl (\<lambda>c r. http_send r c) c rs)
    \<and> all_requests (foldl (\<lambda>c r. http_send r c) c rs) = mset rs + all_requests c
    \<and> c_limiter (foldl (\<lambda>c r. http_send r c) c rs) = c_limiter c"
  by (induction rs arbitrary: c) (simp_all add: http_send_ok)

lemma finish_limit_ok:
  assumes "conn_inv c" "t \<in> set (rl_timers (c_limiter c))"
  shows "\<exists>c'. finish_limit t c = Some c' \<and> conn_inv c' \<and> all_requests c' = all_requests c
    \<and> limited c' = limited c - {fst t}"
proof -
  have i: "rl_inv (c_limiter c)" using assms(1) by (simp add: conn_inv_def)
  obtain objs l where f: "timer_fires t (c_limiter c) = Some (objs, l)"
    using rl.fire_some [OF i assms(2)] by blast
  note l = rl.fire_cases [OF i assms(2) f]
  have c: "conn_inv (c\<lparr>c_limiter := l\<rparr>)" "limited (c\<lparr>c_limiter := l\<rparr>) = limited c - {fst t}"
    using assms(1) l by (auto simp: conn_inv_def limited_def)
  have "mset objs + all_requests (c\<lparr>c_limiter := l\<rparr>) = all_requests c"
    using l(2) by (simp add: all_requests_def ac_simps flip: l(2))
  with send_all_ok [OF c(1), of objs] c(2) f show ?thesis
    by (simp add: finish_limit_def limited_def)
qed

lemma step_ok:
  assumes "http_step s t" "conn_inv (cf_conn s)" "all_requests (cf_conn s) = mset (cf_sent s)"
  shows "conn_inv (cf_conn t) \<and> all_requests (cf_conn t) = mset (cf_sent t)"
  using assms
proof cases
  case (step_timer tm c)
  from finish_limit_ok [OF assms(2) step_timer(2)] step_timer assms(3) show ?thesis by auto
next
  case (step_retry r tm)
  with assms(2,3) show ?thesis by (auto simp: conn_defs)
qed (use assms in \<open>auto simp: http_send_ok pop_request_ok send_to_discord_ok wake_global_ok
    handle_response_ok sleep_till_ok\<close>)

lemma reachable_inv: "http_reachable s \<Longrightarrow> conn_inv (cf_conn s) \<and> all_requests (cf_conn s) = mset (cf_sent s)"
  by (induction rule: http_reachable.induct) (auto simp: config_start_def conn_inv_start step_ok)

section \<open>Properties\<close>


text \<open>C25: A request that is being sent, or will be sent again after a global limit, is of a bucket
  that is not limited, and every limit added for its response is the first of its bucket.\<close>
theorem limited_bucket_not_sent:
  assumes "http_reachable s" and "in_flight (c_consumer (cf_conn s)) = Some r"
  shows "\<exists>b. get_major_param_id (rq_target r) = Some b
    \<and> (\<forall>e \<in> set (m_entries (c_limiter (cf_conn s))). rl_bucket e \<noteq> b)"
  using reachable_inv [OF assms(1)] assms(2) by (auto simp: conn_inv_def limited_def rl_buckets_def)

text \<open>A bucket stays limited until its time: a step that ends a limit happens when the time of an
  entry of that bucket has come, and the search of the timer's handler never runs off the end.\<close>
theorem limit_lasts_until_its_time:
  assumes "http_reachable s" and "http_step s t"
    and "b \<in> set (rl_buckets (c_limiter (cf_conn s)))" and "b \<notin> set (rl_buckets (c_limiter (cf_conn t)))"
  shows "\<exists>e \<in> set (m_entries (c_limiter (cf_conn s))). rl_bucket e = b \<and> rl_until e \<le> cf_now s"
  using assms(2)
proof cases
  case (step_timer tm c)
  have i: "conn_inv (cf_conn s)" using reachable_inv [OF assms(1)] by blast
  from finish_limit_ok [OF i step_timer(2)] step_timer assms(3,4) have "b = fst tm"
    by (auto simp: limited_def)
  moreover have "rl_inv (c_limiter (cf_conn s))" using i by (simp add: conn_inv_def)
  from timer_fires_ok [OF this step_timer(2)] obtain e where
    "e \<in> set (m_entries (c_limiter (cf_conn s)))" "rl_bucket e = fst tm" "rl_until e = snd tm" by blast
  ultimately show ?thesis using step_timer(3) by auto
qed (use assms(3,4) reachable_inv [OF assms(1)] in
    \<open>auto simp: limited_def [symmetric] sleep_till_ok
      dest: send_to_discord_ok wake_global_ok handle_response_ok\<close>,
    auto simp: limited_def http_send_ok(3) pop_limiter)

lemma major_param_found:
  assumes "list_all (\<lambda>c. \<not> is_digit c) pre" and "rest = [] \<or> hd rest = CHR ''/''"
  shows "get_major_param_id (''/api/v8'' @ pre @ std_to_string (unat (k :: u64)) @ rest) = Some k
    \<and> get_major_param_id (''/api/v8'' @ pre) = Some 0"
proof -
  let ?n = "std_to_string (unat k)"
  have pre: "takeWhile (\<lambda>c. \<not> is_digit c) pre = pre" using assms(1) by (rule takeWhile_all)
  have "get_major_param_id (''/api/v8'' @ pre) = Some 0"
    unfolding get_major_param_id_def find_index_def by (simp add: pre)
  moreover have d: "list_all is_digit ?n" by (rule std_to_string_digits)
  obtain x xs where x: "?n = x # xs" "is_digit x"
    using d std_to_string_nonempty [of "unat k"] by (cases ?n) auto
  have slash: "\<not> is_digit CHR ''/''" by (simp add: is_digit_def)
  have start: "find_index is_digit (pre @ ?n @ rest) = length pre"
    using assms(1) x unfolding find_index_def by (simp add: list_all_iff takeWhile_append)
  have len: "find_index (\<lambda>c. c = CHR ''/'') (?n @ rest) = length ?n"
  proof -
    have "c \<noteq> CHR ''/''" if "c \<in> set ?n" for c using d slash that unfolding list_all_iff by blast
    then have "takeWhile (\<lambda>c. c \<noteq> CHR ''/'') (?n @ rest) = ?n @ takeWhile (\<lambda>c. c \<noteq> CHR ''/'') rest"
      by (rule takeWhile_append2)
    moreover have "takeWhile (\<lambda>c. c \<noteq> CHR ''/'') rest = []" using assms(2) by (cases rest) auto
    ultimately show ?thesis unfolding find_index_def by simp
  qed
  have v: "unat k < 2 ^ 64" using unsigned_less [of k, where ?'a = nat] by simp
  have dv: "dec_val ?n < 2 ^ 64" using v by simp
  have "from_chars 64 0 ?n = (unat k, length ?n)"
    using from_chars_all_digits [OF d, of 64 0] v by simp
  then have "get_major_param_id (''/api/v8'' @ pre @ ?n @ rest) = Some k"
    using start len dv d x by (simp add: get_major_param_id_def Let_def takeWhile_all)
  ultimately show ?thesis by simp
qed

text \<open>The bucket of a request is the first number of its target behind the version: the id of the
  channel, guild or webhook it names; 0 when it names none.\<close>
theorem major_param_of_target:
  assumes "list_all (\<lambda>c. \<not> is_digit c) pre" and "rest = [] \<or> hd rest = CHR ''/''"
  shows "get_major_param_id (''/api/v8'' @ pre @ std_to_string (unat (k :: u64)) @ rest) = Some k
    \<and> get_major_param_id (''/api/v8'' @ pre) = Some 0"
  using major_param_found [OF assms] .

text \<open>Every global limit reaches the shards, however soon after the last one: the test that should
  ignore repeated reports subtracts in the wrong order and always holds.\<close>
theorem rate_limit_global_never_ignored:
  assumes "last_limit \<le> now"
  shows "rate_limit_global False now last_limit = (True, now)"
  using assms by (simp add: rate_limit_global_def)

theorem rate_limit_global_never_ignored_witness: "rate_limit_global False 1001 1000 = (True, 1001)"
  using rate_limit_global_never_ignored [of 1000 1001] by simp

theorem major_param_of_target_witness:
  "get_major_param_id (''/api/v8'' @ ''/channels/'' @ std_to_string (unat (42::u64)) @ ''/messages'') = Some 42"
  using major_param_of_target [of "''/channels/''" "''/messages''" 42] by (simp add: is_digit_def)

section \<open>The properties in concrete runs\<close>

definition sample_request :: "unit discord_request" where
  "sample_request = \<lparr>rq_target = ''/api/v8/channels/5'', rq_payload = ()\<rparr>"

definition limited_response :: http_response where
  "limited_response = \<lparr>rs_status = 200, rs_body = None, rs_remaining = Some ''0'', rs_reset_after = Some 1000\<rparr>"

text \<open>A request that is being sent, and the connection after a response that uses up its bucket.\<close>

definition sending_config :: "unit config" where
  "sending_config = (let c = send_to_discord 0 sample_request (pop_request (http_send sample_request connection_start))
     in \<lparr>cf_now = 0, cf_sent = [sample_request], cf_conn = c\<rparr>)"

definition limited_config :: "unit config" where
  "limited_config = sending_config\<lparr>cf_now := 1000,
     cf_conn := handle_response sleep_till 0 sample_request limited_response (cf_conn sending_config)\<rparr>"

lemma sample_bucket: "get_major_param_id (rq_target sample_request) = Some 5"
  by (simp add: sample_request_def get_major_param_id_def find_index_def is_digit_def Let_def dec_val_def
      digit_val_def from_chars_def)

lemmas connection_eval = connection_start_def http_send_def aq_push_def aq_pop_def aq_empty_def
  aq_is_empty_def aq_pop_1_def rb_try_push_def rb_try_pop_def rb_is_full_def rb_is_empty_def rb_empty_def
  aq_ring_size_def resume_with_def pop_request_def

lemma got_sample: "c_consumer (pop_request (http_send sample_request connection_start)) = Got sample_request"
  by (simp add: connection_eval)

lemma sending_sample: "c_consumer (cf_conn sending_config) = Sending sample_request
    \<and> c_limiter (cf_conn sending_config) = rl_empty"
proof -
  have "c_limiter (pop_request (http_send sample_request connection_start)) = rl_empty"
    "c_global_rate_limited (pop_request (http_send sample_request connection_start)) = False"
    by (simp_all add: connection_eval)
  then show ?thesis
    by (simp add: sending_config_def send_to_discord_def admit_def sample_bucket maybe_rate_limit_free
        rl_inv_empty Let_def)
qed

lemma reachable_sending: "http_reachable sending_config"
proof -
  define c1 where "c1 = http_send sample_request (connection_start :: unit http_connection)"
  define s1 where "s1 = \<lparr>cf_now = 0, cf_sent = [sample_request], cf_conn = c1\<rparr>"
  have "http_step config_start s1"
    using step_user [of "config_start :: unit config" sample_request]
    by (simp add: s1_def c1_def config_start_def)
  then have 1: "http_reachable s1" by (rule reach_step [OF reach_start])
  have "c_consumer (cf_conn s1) = Ready" by (simp add: s1_def c1_def connection_eval)
  from reach_step [OF 1 step_pop [OF this]]
  have 2: "http_reachable (s1\<lparr>cf_conn := pop_request c1\<rparr>)" by (simp add: s1_def)
  have "c_consumer (cf_conn (s1\<lparr>cf_conn := pop_request c1\<rparr>)) = Got sample_request"
    using got_sample by (simp add: c1_def)
  from reach_step [OF 2 step_got [OF this]] show ?thesis
    by (simp add: sending_config_def s1_def c1_def Let_def)
qed

lemma reachable_limited: "http_reachable limited_config"
proof -
  have "http_reachable (sending_config\<lparr>cf_conn :=
      handle_response sleep_till (cf_now sending_config) sample_request limited_response (cf_conn sending_config)\<rparr>)"
    using reach_step [OF reachable_sending step_response [of sending_config sample_request sleep_till limited_response]]
      sending_sample by simp
  from reach_step [OF this step_tick [of _ 1000]] show ?thesis
    by (simp add: limited_config_def sending_config_def Let_def)
qed

lemma limited_sample: "c_limiter (cf_conn limited_config) = rate_limit 5 1000 rl_empty"
  using sending_sample
  by (simp add: limited_config_def handle_response_def limited_response_def sample_bucket)


theorem limited_bucket_not_sent_witness:
  "\<exists>b. get_major_param_id (rq_target sample_request) = Some b
    \<and> (\<forall>e \<in> set (m_entries (c_limiter (cf_conn sending_config))). rl_bucket e \<noteq> b)"
  by (rule limited_bucket_not_sent [OF reachable_sending]) (simp add: sending_sample in_flight_def)

theorem limit_lasts_until_its_time_witness:
  "\<exists>e \<in> set (m_entries (c_limiter (cf_conn limited_config))). rl_bucket e = 5 \<and> rl_until e \<le> 1000"
proof -
  let ?c = "cf_conn limited_config"
  have t: "(5, 1000) \<in> set (rl_timers (c_limiter ?c))" "set (rl_buckets (c_limiter ?c)) = {5}"
    using limited_sample rate_limit_ok [OF rl_inv_empty(1), of 5 1000]
    by (auto simp: rate_limit_def make_timer_for_bucket_def rl_empty_def rl_buckets_def)
  have "conn_inv ?c" using reachable_inv [OF reachable_limited] by blast
  from finish_limit_ok [OF this t(1)] obtain c where
    c: "finish_limit (5, 1000) ?c = Some c" "limited c = {}" using t(2) by (auto simp: limited_def)
  have "http_step limited_config (limited_config\<lparr>cf_conn := c\<rparr>)"
    by (rule step_timer [OF t(1) _ c(1)]) (simp add: limited_config_def)
  from limit_lasts_until_its_time [OF reachable_limited this, of 5] t(2) c(2) show ?thesis
    by (simp add: limited_def limited_config_def)
qed

end
