(* ===== verification/Discord_Enums.thy ===== *)
theory Discord_Enums
  imports Parsers
begin

text \<open>
  \<open>include/discord_enums.h\<close>: the events of the gateway and the statuses of users, with their
  names. The value a function returns by \<open>return {}\<close> is the enumeration's first one.
\<close>

datatype status = St_dnd | St_online | St_idle | St_invisible | St_offline | St_unknown

datatype event_name =
  HELLO | READY | RESUMED | INVALID_SESSION | CHANNEL_CREATE | CHANNEL_UPDATE | CHANNEL_DELETE
| CHANNEL_PINS_UPDATE | GUILD_CREATE | GUILD_UPDATE | GUILD_DELETE | GUILD_BAN_ADD | GUILD_BAN_REMOVE
| GUILD_EMOJI_UPDATE | GUILD_INTEGRATIONS_UPDATE | GUILD_MEMBER_ADD | GUILD_MEMBER_REMOVE
| GUILD_MEMBER_UPDATE | GUILD_MEMBERS_CHUNK | GUILD_ROLE_CREATE | GUILD_ROLE_UPDATE | GUILD_ROLE_DELETE
| MESSAGE_CREATE | MESSAGE_UPDATE | MESSAGE_DELETE | MESSAGE_DELETE_BULK | MESSAGE_REACTION_ADD
| MESSAGE_REACTION_REMOVE | MESSAGE_REACTION_REMOVE_ALL | PRESENCE_UPDATE | TYPING_START | USER_UPDATE
| VOICE_STATE_UPDATE | VOICE_SERVER_UPDATE | WEBHOOKS_UPDATE

definition channel_event :: "string \<Rightarrow> event_name" where
  "channel_event name =
     (if name = ''CREATE'' then CHANNEL_CREATE
      else if name = ''UPDATE'' then CHANNEL_UPDATE
      else if name = ''DELETE'' then CHANNEL_DELETE
      else if name = ''PINS_UPDATE'' then CHANNEL_PINS_UPDATE
      else HELLO)"

definition guild_event :: "string \<Rightarrow> event_name" where
  "guild_event name =
     (if name = ''CREATE'' then GUILD_CREATE
      else if name = ''UPDATE'' then GUILD_UPDATE
      else if name = ''DELETE'' then GUILD_DELETE
      else if starts_with name ''BAN_'' then
        (let n = drop 4 name in
         if n = ''ADD'' then GUILD_BAN_ADD
         else if n = ''REMOVE'' then GUILD_BAN_REMOVE
         else HELLO)
      else if name = ''EMOJI_UPDATE'' then GUILD_EMOJI_UPDATE
      else if name = ''INTEGRATIONS_UPDATE'' then GUILD_INTEGRATIONS_UPDATE
      else if starts_with name ''MEMBER'' then
        (let n = drop 6 name in
         if n = ''_ADD'' then GUILD_MEMBER_ADD
         else if n = ''_REMOVE'' then GUILD_MEMBER_REMOVE
         else if n = ''_UPDATE'' then GUILD_MEMBER_UPDATE
         else if n = ''S_CHUNK'' then GUILD_MEMBERS_CHUNK
         else HELLO)
      else if starts_with name ''ROLE_'' then
        (let n = drop 5 name in
         if n = ''CREATE'' then GUILD_ROLE_CREATE
         else if n = ''UPDATE'' then GUILD_ROLE_UPDATE
         else if n = ''DELETE'' then GUILD_ROLE_DELETE
         else HELLO)
      else HELLO)"

definition message_event :: "string \<Rightarrow> event_name" where
  "message_event name =
     (if name = ''CREATE'' then MESSAGE_CREATE
      else if name = ''UPDATE'' then MESSAGE_UPDATE
      else if name = ''DELETE'' then MESSAGE_DELETE
      else if name = ''DELETE_BULK'' then MESSAGE_DELETE_BULK
      else if starts_with name ''REACTION_'' then
        (let n = drop 9 name in
         if n = ''ADD'' then MESSAGE_REACTION_ADD
         else if n = ''REMOVE'' then MESSAGE_REACTION_REMOVE
         else if n = ''REMOVE_ALL'' then MESSAGE_REACTION_REMOVE_ALL
         else HELLO)
      else HELLO)"

text \<open>The branch of \<open>VOICE_\<close> does not return: an unknown name goes on, without its prefix.\<close>

definition to_event_name :: "string \<Rightarrow> event_name" where
  "to_event_name name =
     (if name = ''HELLO'' then HELLO
      else if name = ''READY'' then READY
      else if name = ''RESUMED'' then RESUMED
      else if name = ''INVALID_SESSION'' then INVALID_SESSION
      else if starts_with name ''CHANNEL_'' then channel_event (drop 8 name)
      else if starts_with name ''GUILD_'' then guild_event (drop 6 name)
      else if starts_with name ''MESSAGE_'' then message_event (drop 8 name)
      else if name = ''PRESENCE_UPDATE'' then PRESENCE_UPDATE
      else if name = ''TYPING_START'' then TYPING_START
      else if name = ''USER_UPDATE'' then USER_UPDATE
      else if starts_with name ''VOICE_'' then
        (let n = drop 6 name in
         if n = ''STATE_UPDATE'' then VOICE_STATE_UPDATE
         else if n = ''SERVER_UPDATE'' then VOICE_SERVER_UPDATE
         else if n = ''WEBHOOKS_UPDATE'' then WEBHOOKS_UPDATE
         else HELLO)
      else if name = ''WEBHOOKS_UPDATE'' then WEBHOOKS_UPDATE
      else HELLO)"

definition string_to_status :: "string \<Rightarrow> status" where
  "string_to_status s =
     (if s = ''dnd'' then St_dnd else if s = ''online'' then St_online else if s = ''idle'' then St_idle
      else if s = ''invisible'' then St_invisible else if s = ''offline'' then St_offline
      else St_unknown)"

fun enum_to_string :: "status \<Rightarrow> string" where
  "enum_to_string St_dnd = ''dnd''"
| "enum_to_string St_online = ''online''"
| "enum_to_string St_idle = ''idle''"
| "enum_to_string St_invisible = ''invisible''"
| "enum_to_string St_offline = ''offline''"
| "enum_to_string St_unknown = ''''"

text \<open>The names Discord documents for the events the shard handles, but for the emoji event.\<close>

definition event_text :: "event_name \<Rightarrow> string" where
  "event_text e = (case e of
     HELLO \<Rightarrow> ''HELLO'' | READY \<Rightarrow> ''READY'' | RESUMED \<Rightarrow> ''RESUMED'' | INVALID_SESSION \<Rightarrow> ''INVALID_SESSION''
   | CHANNEL_CREATE \<Rightarrow> ''CHANNEL_CREATE'' | CHANNEL_UPDATE \<Rightarrow> ''CHANNEL_UPDATE'' | CHANNEL_DELETE \<Rightarrow> ''CHANNEL_DELETE''
   | CHANNEL_PINS_UPDATE \<Rightarrow> ''CHANNEL_PINS_UPDATE'' | GUILD_CREATE \<Rightarrow> ''GUILD_CREATE''
   | GUILD_UPDATE \<Rightarrow> ''GUILD_UPDATE'' | GUILD_DELETE \<Rightarrow> ''GUILD_DELETE'' | GUILD_BAN_ADD \<Rightarrow> ''GUILD_BAN_ADD''
   | GUILD_BAN_REMOVE \<Rightarrow> ''GUILD_BAN_REMOVE'' | GUILD_EMOJI_UPDATE \<Rightarrow> ''GUILD_EMOJI_UPDATE''
   | GUILD_INTEGRATIONS_UPDATE \<Rightarrow> ''GUILD_INTEGRATIONS_UPDATE'' | GUILD_MEMBER_ADD \<Rightarrow> ''GUILD_MEMBER_ADD''
   | GUILD_MEMBER_REMOVE \<Rightarrow> ''GUILD_MEMBER_REMOVE'' | GUILD_MEMBER_UPDATE \<Rightarrow> ''GUILD_MEMBER_UPDATE''
   | GUILD_MEMBERS_CHUNK \<Rightarrow> ''GUILD_MEMBERS_CHUNK'' | GUILD_ROLE_CREATE \<Rightarrow> ''GUILD_ROLE_CREATE''
   | GUILD_ROLE_UPDATE \<Rightarrow> ''GUILD_ROLE_UPDATE'' | GUILD_ROLE_DELETE \<Rightarrow> ''GUILD_ROLE_DELETE''
   | MESSAGE_CREATE \<Rightarrow> ''MESSAGE_CREATE'' | MESSAGE_UPDATE \<Rightarrow> ''MESSAGE_UPDATE'' | MESSAGE_DELETE \<Rightarrow> ''MESSAGE_DELETE''
   | MESSAGE_DELETE_BULK \<Rightarrow> ''MESSAGE_DELETE_BULK'' | MESSAGE_REACTION_ADD \<Rightarrow> ''MESSAGE_REACTION_ADD''
   | MESSAGE_REACTION_REMOVE \<Rightarrow> ''MESSAGE_REACTION_REMOVE''
   | MESSAGE_REACTION_REMOVE_ALL \<Rightarrow> ''MESSAGE_REACTION_REMOVE_ALL'' | PRESENCE_UPDATE \<Rightarrow> ''PRESENCE_UPDATE''
   | TYPING_START \<Rightarrow> ''TYPING_START'' | USER_UPDATE \<Rightarrow> ''USER_UPDATE'' | VOICE_STATE_UPDATE \<Rightarrow> ''VOICE_STATE_UPDATE''
   | VOICE_SERVER_UPDATE \<Rightarrow> ''VOICE_SERVER_UPDATE'' | WEBHOOKS_UPDATE \<Rightarrow> ''WEBHOOKS_UPDATE'')"

lemmas event_defs = to_event_name_def channel_event_def guild_event_def message_event_def starts_with_def
  event_text_def

text \<open>Every event is dispatched by its own name: the parser of names and the names of the
  enumeration are inverse to each other.\<close>
theorem event_name_roundtrip: "to_event_name (event_text e) = e"
  by (cases e) (simp_all add: event_defs)

text \<open>The documented name of the emoji event is taken for \<open>HELLO\<close>.\<close>
theorem emojis_event_unknown: "to_event_name ''GUILD_EMOJIS_UPDATE'' = HELLO"
  by (simp add: event_defs)

lemma status_roundtrip: "string_to_status (enum_to_string s) = s"
  by (cases s) (simp_all add: string_to_status_def)

end
