(* ===== verification/Json.thy ===== *)
theory Json
  imports Discord_Enums Permissions
begin

text \<open>
  JSON values as the code reads them. The library \<open>nlohmann\<close> is not part of the repository: a value
  is of a type parameter, and the library's accessors are the fields of a record that every reader
  takes. What the repository adds is here: the readers of the elementary types
  (\<open>common/json_conversions.h\<close>, \<open>common/common/optional_from_json.h\<close>), loops over a value, and objects
  that are filled field by field, so that a reader that throws leaves the fields it has set.

  A reader's fault is an exception of the library (\<open>Throws\<close>) or no defined result (\<open>Undef\<close>), which
  is what subscripting a constant object at a missing key has.
\<close>

section \<open>Results\<close>

datatype fault = Throws | Undef

type_synonym 'a res = "fault + 'a"

definition rbind :: "'a res \<Rightarrow> ('a \<Rightarrow> 'b res) \<Rightarrow> 'b res" where
  "rbind r f = (case r of Inl x \<Rightarrow> Inl x | Inr a \<Rightarrow> f a)"

lemma rbind_simps [simp]: "rbind (Inl x) f = Inl x" "rbind (Inr a) f = f a"
  by (simp_all add: rbind_def)

lemma rbind_Inr_iff: "rbind r f = Inr b \<longleftrightarrow> (\<exists>a. r = Inr a \<and> f a = Inr b)"
  by (cases r) simp_all

definition rmap :: "('a \<Rightarrow> 'b) \<Rightarrow> 'a res \<Rightarrow> 'b res" where
  "rmap f r = rbind r (\<lambda>a. Inr (f a))"

lemma rmap_simps [simp]: "rmap f (Inl x) = Inl x" "rmap f (Inr a) = Inr (f a)"
  by (simp_all add: rmap_def)

section \<open>The library\<close>

text \<open>
  \<open>j_members\<close> is \<open>None\<close> for what is not an object; null is none. The conversions throw where they are \<open>None\<close>.
  \<open>j_items\<close> are the values a loop over the value visits: none for null, the elements of an array, the
  members of an object, the value itself for the others.
\<close>

record 'j json_api =
  j_null :: 'j
  j_members :: "'j \<Rightarrow> (string \<rightharpoonup> 'j) option"
  j_int :: "'j \<Rightarrow> int option"
  j_bool :: "'j \<Rightarrow> bool option"
  j_str :: "'j \<Rightarrow> string option"
  j_arr :: "'j \<Rightarrow> 'j list option"
  j_items :: "'j \<Rightarrow> 'j list"
  j_of_int :: "int \<Rightarrow> 'j"

definition j_is_null :: "'j json_api \<Rightarrow> 'j \<Rightarrow> bool" where
  "j_is_null J v \<longleftrightarrow> v = j_null J"

lemma j_is_null_null [simp]: "j_is_null J (j_null J)"
  by (simp add: j_is_null_def)

definition j_object :: "'j json_api \<Rightarrow> 'j \<Rightarrow> (string \<rightharpoonup> 'j) option" where
  "j_object J v = (if j_is_null J v then None else j_members J v)"

lemma j_object_null [simp]: "j_object J (j_null J) = None"
  by (simp add: j_object_def)

definition or_throw :: "'a option \<Rightarrow> 'a res" where
  "or_throw r = (case r of None \<Rightarrow> Inl Throws | Some a \<Rightarrow> Inr a)"

lemma or_throw_simps [simp]: "or_throw None = Inl Throws" "or_throw (Some a) = Inr a"
  by (simp_all add: or_throw_def)

text \<open>
  Subscripts of a constant value and of a variable one, \<open>at\<close>, and \<open>contains\<close>. A subscript of a variable
  value reads a null where there is no key; the null it also stores under the key is left out.
\<close>

definition at_const :: "'j json_api \<Rightarrow> 'j \<Rightarrow> string \<Rightarrow> 'j res" where
  "at_const J e k =
     rbind (or_throw (j_object J e)) (\<lambda>m. case m k of None \<Rightarrow> Inl Undef | Some v \<Rightarrow> Inr v)"

definition at_mut :: "'j json_api \<Rightarrow> 'j \<Rightarrow> string \<Rightarrow> 'j res" where
  "at_mut J e k =
     (case j_object J e of
        Some m \<Rightarrow> (case m k of None \<Rightarrow> Inr (j_null J) | Some v \<Rightarrow> Inr v)
      | None \<Rightarrow> if j_is_null J e then Inr (j_null J) else Inl Throws)"

definition at_checked :: "'j json_api \<Rightarrow> 'j \<Rightarrow> string \<Rightarrow> 'j res" where
  "at_checked J e k = rbind (or_throw (j_object J e)) (\<lambda>m. or_throw (m k))"

definition find_key :: "'j json_api \<Rightarrow> 'j \<Rightarrow> string \<Rightarrow> 'j option" where
  "find_key J e k = (case j_object J e of None \<Rightarrow> None | Some m \<Rightarrow> m k)"

text \<open>\<open>e.value(k, dflt)\<close>.\<close>

definition value_or :: "('j \<Rightarrow> 'a res) \<Rightarrow> 'a \<Rightarrow> 'j json_api \<Rightarrow> 'j \<Rightarrow> string \<Rightarrow> 'a res" where
  "value_or rd dflt J e k =
     rbind (or_throw (j_object J e)) (\<lambda>m. case m k of None \<Rightarrow> Inr dflt | Some v \<Rightarrow> rd v)"

section \<open>Elementary readers\<close>

definition as_int :: "'j json_api \<Rightarrow> 'j \<Rightarrow> int res" where "as_int J v = or_throw (j_int J v)"
definition as_bool :: "'j json_api \<Rightarrow> 'j \<Rightarrow> bool res" where "as_bool J v = or_throw (j_bool J v)"
definition as_str :: "'j json_api \<Rightarrow> 'j \<Rightarrow> string res" where "as_str J v = or_throw (j_str J v)"
definition as_arr :: "'j json_api \<Rightarrow> 'j \<Rightarrow> 'j list res" where "as_arr J v = or_throw (j_arr J v)"

definition as_sf :: "'j json_api \<Rightarrow> 'j \<Rightarrow> snowflake res" where
  "as_sf J v =
     (if j_is_null J v then Inr (sf_from_json None no_id)
      else rbind (as_str J v) (\<lambda>t. Inr (sf_from_json (Some t) no_id)))"

definition as_permission :: "'j json_api \<Rightarrow> 'j \<Rightarrow> permission res" where
  "as_permission J v =
     (if j_is_null J v then Inr (permission_from_json None permission_default)
      else rbind (as_str J v) (\<lambda>t. Inr (permission_from_json (Some t) permission_default)))"

definition as_optional :: "('j \<Rightarrow> 'a res) \<Rightarrow> 'j json_api \<Rightarrow> 'j \<Rightarrow> 'a option res" where
  "as_optional rd J v = (if j_is_null J v then Inr None else rmap Some (rd v))"

text \<open>A string, or an empty one for null.\<close>

definition str_or_null :: "'j json_api \<Rightarrow> 'j \<Rightarrow> string res" where
  "str_or_null J v = (if j_is_null J v then Inr '''' else as_str J v)"

text \<open>Reading all the values of a list, up to the first that fails.\<close>

fun read_all :: "('j \<Rightarrow> 'a res) \<Rightarrow> 'j list \<Rightarrow> 'a list res" where
  "read_all rd [] = Inr []"
| "read_all rd (v # vs) = rbind (rd v) (\<lambda>a. rbind (read_all rd vs) (\<lambda>as. Inr (a # as)))"

lemma read_all_map: "read_all rd vs = Inr as \<Longrightarrow> map Inr as = map rd vs"
  by (induction vs arbitrary: as) (auto simp: rbind_Inr_iff)

lemma read_all_length: "read_all rd vs = Inr as \<Longrightarrow> length as = length vs"
  by (drule read_all_map) (metis length_map)

text \<open>A vector is read from an array only; a \<open>usually_empty_vector\<close> and a range from what a loop visits.\<close>

definition as_vector :: "('j \<Rightarrow> 'a res) \<Rightarrow> 'j json_api \<Rightarrow> 'j \<Rightarrow> 'a list res" where
  "as_vector rd J v = rbind (as_arr J v) (read_all rd)"

definition as_range :: "('j \<Rightarrow> 'a res) \<Rightarrow> 'j json_api \<Rightarrow> 'j \<Rightarrow> 'a list res" where
  "as_range rd J v = read_all rd (j_items J v)"

text \<open>A list of objects as a map by their ids: the first object of an id stays.\<close>

definition map_of_ids :: "('a \<Rightarrow> snowflake) \<Rightarrow> 'a list \<Rightarrow> snowflake \<rightharpoonup> 'a" where
  "map_of_ids get_id xs = map_of (map (\<lambda>x. (get_id x, x)) xs)"

lemma map_of_ids_None: "map_of_ids get_id xs i = None \<longleftrightarrow> i \<notin> get_id ` set xs"
  by (force simp: map_of_ids_def map_of_eq_None_iff image_iff)

lemma map_of_ids_key: "map_of_ids get_id xs i = Some x \<Longrightarrow> get_id x = i \<and> x \<in> set xs"
  by (auto simp: map_of_ids_def dest: map_of_SomeD)

section \<open>Objects filled field by field\<close>

text \<open>
  A \<open>from_json\<close> function assigns the fields of an object in turn. \<open>fill\<close> runs the assignments: it
  returns the fault that stopped it, if any, and the object as it is then.
\<close>

type_synonym 'a assignment = "'a \<Rightarrow> 'a res"

fun fill :: "'a assignment list \<Rightarrow> 'a \<Rightarrow> fault option \<times> 'a" where
  "fill [] a = (None, a)"
| "fill (f # fs) a = (case f a of Inl x \<Rightarrow> (Some x, a) | Inr b \<Rightarrow> fill fs b)"

definition assign :: "'v res \<Rightarrow> ('v \<Rightarrow> 'a \<Rightarrow> 'a) \<Rightarrow> 'a assignment" where
  "assign r upd a = rmap (\<lambda>v. upd v a) r"

lemma assign_simps [simp]: "assign (Inl x) upd a = Inl x" "assign (Inr v) upd a = Inr (upd v a)"
  by (simp_all add: assign_def)

text \<open>\<open>e.get<T>()\<close>: a new object.\<close>

definition fresh :: "'a assignment list \<Rightarrow> 'a \<Rightarrow> 'a res" where
  "fresh fs a = (case fill fs a of (Some x, _) \<Rightarrow> Inl x | (None, b) \<Rightarrow> Inr b)"

lemma fill_append:
  "fill (fs @ gs) a = (case fill fs a of (Some x, b) \<Rightarrow> (Some x, b) | (None, b) \<Rightarrow> fill gs b)"
  by (induction fs arbitrary: a) (auto split: sum.splits)

text \<open>A field no assignment of the list sets keeps its value, whatever the outcome.\<close>

lemma fill_keeps:
  "(\<And>g a b. g \<in> set fs \<Longrightarrow> g a = Inr b \<Longrightarrow> f b = f a) \<Longrightarrow> f (snd (fill fs a)) = f a"
proof (induction fs arbitrary: a)
  case (Cons g fs)
  show ?case
  proof (cases "g a")
    case (Inr b)
    then have "f b = f a" using Cons.prems [of g a b] by simp
    moreover have "f (snd (fill fs b)) = f b" by (rule Cons.IH) (use Cons.prems in auto)
    ultimately show ?thesis using Inr by simp
  qed simp
qed simp

text \<open>What the first assignment sets and no later one changes is there at the end.\<close>

lemma fill_first:
  assumes "fill (g # fs) a = (None, b)"
    and "\<And>h a b. h \<in> set fs \<Longrightarrow> h a = Inr b \<Longrightarrow> f b = f a"
  shows "\<exists>c. g a = Inr c \<and> f b = f c"
proof -
  from assms(1) obtain c where c: "g a = Inr c" "fill fs c = (None, b)" by (auto split: sum.splits)
  have "f (snd (fill fs c)) = f c" by (rule fill_keeps) (use assms(2) in blast)
  with c show ?thesis by simp
qed

end
