(* ===== verification/Handlers.thy ===== *)
theory Handlers
  imports Json
begin

text \<open>
  The building blocks of code that changes a state and may throw: a handler takes a state to the
  fault that ended it, if any, and the state it leaves, as \<open>fill\<close> does. \<open>None\<close> is a normal return.
  A predicate that the elementary steps keep is kept by what is composed of them: the rules
  \<open>keeps_intros\<close>.
\<close>

type_synonym 's handler = "'s \<Rightarrow> fault option \<times> 's"

definition hdone :: "'s handler" where "hdone s = (None, s)"
definition hfail :: "fault \<Rightarrow> 's handler" where "hfail x s = (Some x, s)"
definition hmod :: "('s \<Rightarrow> 's) \<Rightarrow> 's handler" where "hmod f s = (None, f s)"

definition hthen :: "'s handler \<Rightarrow> 's handler \<Rightarrow> 's handler" where
  "hthen h k s = (case h s of (None, t) \<Rightarrow> k t | (Some x, t) \<Rightarrow> (Some x, t))"

definition hread :: "'a res \<Rightarrow> ('a \<Rightarrow> 's handler) \<Rightarrow> 's handler" where
  "hread r k s = (case r of Inl x \<Rightarrow> (Some x, s) | Inr a \<Rightarrow> k a s)"

definition hget :: "('s \<Rightarrow> 's handler) \<Rightarrow> 's handler" where "hget k s = k s s"

fun hseq :: "'s handler list \<Rightarrow> 's handler" where
  "hseq [] = hdone"
| "hseq (h # hs) = hthen h (hseq hs)"

fun heach :: "('a \<Rightarrow> 's handler) \<Rightarrow> 'a list \<Rightarrow> 's handler" where
  "heach f [] = hdone"
| "heach f (x # xs) = hthen (f x) (heach f xs)"

text \<open>A handler of a part of the state.\<close>

definition hpart :: "('s \<Rightarrow> 'p) \<Rightarrow> ('p \<Rightarrow> 's \<Rightarrow> 's) \<Rightarrow> 'p handler \<Rightarrow> 's handler" where
  "hpart get put h s = (case h (get s) of (r, p) \<Rightarrow> (r, put p s))"

lemma handler_simps [shard_simps]:
  "hdone s = (None, s)" "hfail x s = (Some x, s)" "hmod f s = (None, f s)"
  "hread (Inl x) k s = (Some x, s)" "hread (Inr a) k s = k a s" "hget g s = g s s"
  "hpart get put h s = (fst (h (get s)), put (snd (h (get s))) s)"
  by (simp_all add: hdone_def hfail_def hmod_def hread_def hget_def hpart_def split: prod.splits)

lemma hthen_None [shard_simps]: "h s = (None, t) \<Longrightarrow> hthen h k s = k t"
  by (simp add: hthen_def)

lemma hthen_Some [shard_simps]: "h s = (Some x, t) \<Longrightarrow> hthen h k s = (Some x, t)"
  by (simp add: hthen_def)

lemma hread_Inr [shard_simps]: "hread (Inr a) k = k a"
  by (rule ext) (simp add: hread_def)

lemma hthen_NoneE:
  assumes "hthen h k s = (None, t)"
  obtains u where "h s = (None, u)" "k u = (None, t)"
  using assms by (cases "h s") (auto simp: hthen_def split: option.splits)

lemma hthen_assoc: "hthen (hthen h k) l = hthen h (hthen k l)"
  by (rule ext) (simp add: hthen_def split: prod.splits option.splits)

lemma hthen_hdone [simp]: "hthen h hdone = h"
  by (rule ext) (simp add: hthen_def hdone_def split: prod.splits option.splits)

lemma hseq_cons2: "hseq (a # b # hs) = hthen (hthen a b) (hseq hs)"
  by (simp add: hthen_assoc)

section \<open>Invariants of handlers\<close>

text \<open>A run without a defined result keeps nothing.\<close>

definition keeps :: "('s \<Rightarrow> bool) \<Rightarrow> 's handler \<Rightarrow> bool" where
  "keeps P h \<longleftrightarrow> (\<forall>s. P s \<longrightarrow> fst (h s) \<noteq> Some Undef \<longrightarrow> P (snd (h s)))"

lemma keepsI: "(\<And>s. P s \<Longrightarrow> fst (h s) \<noteq> Some Undef \<Longrightarrow> P (snd (h s))) \<Longrightarrow> keeps P h"
  by (simp add: keeps_def)

lemma keepsD: "keeps P h \<Longrightarrow> P s \<Longrightarrow> h s = (r, t) \<Longrightarrow> r \<noteq> Some Undef \<Longrightarrow> P t"
  by (auto simp: keeps_def)

named_theorems keeps_intros

lemma keeps_hdone [keeps_intros]: "keeps P hdone"
  by (simp add: keeps_def hdone_def)

lemma keeps_hfail [keeps_intros]: "keeps P (hfail x)"
  by (simp add: keeps_def hfail_def)

lemma keeps_hmod: "(\<And>s. P s \<Longrightarrow> P (f s)) \<Longrightarrow> keeps P (hmod f)"
  by (simp add: keeps_def hmod_def)

lemma keeps_hthen [keeps_intros]:
  assumes "keeps P h" "keeps P k"
  shows "keeps P (hthen h k)"
proof (rule keepsI)
  fix s assume s: "P s" "fst (hthen h k s) \<noteq> Some Undef"
  show "P (snd (hthen h k s))"
  proof (cases "h s")
    case (Pair r t)
    show ?thesis
    proof (cases r)
      case None
      then have "P t" by (intro keepsD [OF assms(1) s(1) Pair]) simp
      with None Pair s assms(2) show ?thesis by (simp add: hthen_def keeps_def)
    next
      case (Some x)
      with Pair s(2) have "r \<noteq> Some Undef" by (simp add: hthen_def)
      then have "P t" by (rule keepsD [OF assms(1) s(1) Pair])
      with Some Pair show ?thesis by (simp add: hthen_def)
    qed
  qed
qed

lemma keeps_hread [keeps_intros]: "(\<And>a. r = Inr a \<Longrightarrow> keeps P (k a)) \<Longrightarrow> keeps P (hread r k)"
  by (simp add: keeps_def hread_def split: sum.splits)

lemma keeps_hget [keeps_intros]: "(\<And>s. P s \<Longrightarrow> keeps P (k s)) \<Longrightarrow> keeps P (hget k)"
  by (simp add: keeps_def hget_def)

lemma keeps_state_dep: "(\<And>a. keeps P (k a)) \<Longrightarrow> keeps P (\<lambda>s. k (f s) s)"
  by (simp add: keeps_def)

lemma keeps_if [keeps_intros]: "(b \<Longrightarrow> keeps P h) \<Longrightarrow> (\<not> b \<Longrightarrow> keeps P k) \<Longrightarrow> keeps P (if b then h else k)"
  by simp

lemma keeps_option [keeps_intros]:
  "(x = None \<Longrightarrow> keeps P h) \<Longrightarrow> (\<And>a. x = Some a \<Longrightarrow> keeps P (k a)) \<Longrightarrow> keeps P (case x of None \<Rightarrow> h | Some a \<Rightarrow> k a)"
  by (cases x) simp_all

lemma keeps_let [keeps_intros]: "(\<And>x. x = a \<Longrightarrow> keeps P (h x)) \<Longrightarrow> keeps P (let x = a in h x)"
  by simp

lemma keeps_hseq_Nil [keeps_intros]: "keeps P (hseq [])"
  by (simp add: keeps_hdone)

lemma keeps_hseq_Cons [keeps_intros]: "keeps P h \<Longrightarrow> keeps P (hseq hs) \<Longrightarrow> keeps P (hseq (h # hs))"
  by (simp add: keeps_hthen)

lemma keeps_heach [keeps_intros]: "(\<And>x. x \<in> set xs \<Longrightarrow> keeps P (f x)) \<Longrightarrow> keeps P (heach f xs)"
  by (induction xs) (simp_all add: keeps_hdone keeps_hthen)

end
