(* ===== verification/Entities.thy ===== *)
theory Entities
  imports Json Command
begin

text \<open>
  The objects of the gateway and how they are read from JSON: users, members, roles, overwrites,
  channels, emojis, voice states and guilds (\<open>include/User.h\<close>, \<open>partial_guild_member.h\<close>, \<open>guild_role.h\<close>,
  \<open>permision_overwrite.h\<close>, \<open>partial_channel.h\<close>, \<open>partial_guild_channel.h\<close>, \<open>text_channel.h\<close>,
  \<open>voice_channel.h\<close>, \<open>dm_channel.h\<close>, \<open>emoji.h\<close>, \<open>voice_state.h\<close>, \<open>presence_update.h\<close>, \<open>partial_guild.h\<close>,
  \<open>guild.h\<close> and their sources). A class that extends another is a record that extends it, and the
  assignments of the base are those of any extension.

  The pointers of members and channels to their guild are not fields: they point to the guild whose
  map holds them. The classes' empty readers of time stamps set nothing.
\<close>

section \<open>Users and members\<close>

record user =
  u_id :: snowflake
  u_username :: string
  u_avatar :: string
  u_flags :: int
  u_public_flags :: int
  u_discriminator :: "16 word"
  u_premium_type :: "8 word"
  u_bot :: bool
  u_system :: bool

definition default_user :: user where
  "default_user = \<lparr>u_id = no_id, u_username = '''', u_avatar = '''', u_flags = 0, u_public_flags = 0,
     u_discriminator = 0, u_premium_type = 0, u_bot = False, u_system = False\<rparr>"

text \<open>\<open>std::stoi\<close>: leading white space and a sign are allowed; it throws without a number and on
  overflow.\<close>

definition std_stoi :: "string \<Rightarrow> int res" where
  "std_stoi s =
     (let t = dropWhile is_whitespace_char s;
          u = (if t \<noteq> [] \<and> hd t = CHR ''+'' \<and> tl t \<noteq> [] \<and> is_digit (hd (tl t)) then tl t else t)
      in case from_chars_int 33 (2 ^ 32) u of (v, n) \<Rightarrow>
           if n = 0 \<or> v < - (2 ^ 31) \<or> v \<ge> 2 ^ 31 then Inl Throws else Inr v)"

definition user_fields :: "'j json_api \<Rightarrow> 'j \<Rightarrow> 'a user_scheme assignment list" where
  "user_fields J e =
     [assign (rbind (at_const J e ''id'') (as_sf J)) (\<lambda>v u. u\<lparr>u_id := v\<rparr>),
      assign (rbind (at_const J e ''username'') (as_str J)) (\<lambda>v u. u\<lparr>u_username := v\<rparr>),
      assign (value_or (as_bool J) False J e ''bot'') (\<lambda>v u. u\<lparr>u_bot := v\<rparr>),
      assign (rbind (value_or (as_str J) ''10000'' J e ''discriminator'') std_stoi)
        (\<lambda>v u. u\<lparr>u_discriminator := word_of_int v\<rparr>),
      assign (rbind (at_const J e ''avatar'') (str_or_null J)) (\<lambda>v u. u\<lparr>u_avatar := v\<rparr>),
      assign (value_or (as_int J) 0 J e ''flags'') (\<lambda>v u. u\<lparr>u_flags := v\<rparr>),
      assign (value_or (as_int J) 0 J e ''flags'') (\<lambda>v u. u\<lparr>u_public_flags := v\<rparr>),
      assign (value_or (as_int J) 0 J e ''flags'') (\<lambda>v u. u\<lparr>u_premium_type := word_of_int v\<rparr>),
      assign (value_or (as_bool J) False J e ''system'') (\<lambda>v u. u\<lparr>u_system := v\<rparr>)]"

definition read_user :: "'j json_api \<Rightarrow> 'j \<Rightarrow> user res" where
  "read_user J e = fresh (user_fields J e) default_user"

definition discriminator :: "'a user_scheme \<Rightarrow> int option" where
  "discriminator u = (if sint (u_discriminator u) = 10000 then None else Some (sint (u_discriminator u)))"

definition avatar :: "'a user_scheme \<Rightarrow> string option" where
  "avatar u = (if u_avatar u = [] then None else Some (u_avatar u))"

record guild_member = user +
  gm_roles :: "snowflake list"
  gm_nick :: string
  gm_deaf :: bool
  gm_mute :: bool

definition default_member :: guild_member where
  "default_member = user.extend default_user \<lparr>gm_roles = [], gm_nick = '''', gm_deaf = False, gm_mute = False\<rparr>"

text \<open>The fields of the user are read from the member's \<open>user\<close>.\<close>

definition sub_fields :: "'j res \<Rightarrow> ('j \<Rightarrow> 'a assignment list) \<Rightarrow> 'a assignment list" where
  "sub_fields v fs = (case v of Inl x \<Rightarrow> [\<lambda>_. Inl x] | Inr e \<Rightarrow> fs e)"

definition member_fields :: "'j json_api \<Rightarrow> 'j \<Rightarrow> guild_member assignment list" where
  "member_fields J e =
     sub_fields (at_const J e ''user'') (user_fields J) @
     [(\<lambda>m. case find_key J e ''nick'' of
         None \<Rightarrow> Inr m
       | Some v \<Rightarrow> if j_is_null J v then Inr m else assign (as_str J v) (\<lambda>v m. m\<lparr>gm_nick := v\<rparr>) m),
      assign (rbind (at_const J e ''roles'') (as_range (as_sf J) J)) (\<lambda>v m. m\<lparr>gm_roles := gm_roles m @ v\<rparr>),
      assign (rbind (at_const J e ''deaf'') (as_bool J)) (\<lambda>v m. m\<lparr>gm_deaf := v\<rparr>),
      assign (rbind (at_const J e ''mute'') (as_bool J)) (\<lambda>v m. m\<lparr>gm_mute := v\<rparr>)]"

definition read_member :: "'j json_api \<Rightarrow> 'j \<Rightarrow> guild_member res" where
  "read_member J e = fresh (member_fields J e) default_member"

text \<open>The author or a mention of a message: the user and the rest of the member come apart.\<close>

definition make_member_from_msg :: "'j json_api \<Rightarrow> 'j \<Rightarrow> 'j \<Rightarrow> guild_member res" where
  "make_member_from_msg J user_json member_json =
     fresh (user_fields J user_json @
       [(\<lambda>m. case find_key J member_json ''nick'' of
           None \<Rightarrow> Inr m | Some v \<Rightarrow> assign (str_or_null J v) (\<lambda>v m. m\<lparr>gm_nick := v\<rparr>) m),
        assign (rbind (at_const J member_json ''roles'') (as_range (as_sf J) J))
          (\<lambda>v m. m\<lparr>gm_roles := gm_roles m @ v\<rparr>),
        assign (rbind (at_const J member_json ''deaf'') (as_bool J)) (\<lambda>v m. m\<lparr>gm_deaf := v\<rparr>),
        assign (rbind (at_const J member_json ''mute'') (as_bool J)) (\<lambda>v m. m\<lparr>gm_mute := v\<rparr>)])
       default_member"

section \<open>Roles and overwrites\<close>

definition default_role :: guild_role where
  "default_role = \<lparr>role_id = no_id, role_name = '''', role_permissions = permission_default,
     role_position = 0, role_managed = False, role_mentionable = False, role_hoist = False\<rparr>"

definition role_fields :: "'j json_api \<Rightarrow> 'j \<Rightarrow> guild_role assignment list" where
  "role_fields J e =
     (if j_is_null J e then []
      else
       [assign (rbind (at_const J e ''id'') (as_sf J)) (\<lambda>v r. r\<lparr>role_id := v\<rparr>),
        assign (rbind (at_const J e ''position'') (as_int J)) (\<lambda>v r. r\<lparr>role_position := v\<rparr>),
        assign (rbind (at_const J e ''permissions'') (as_permission J)) (\<lambda>v r. r\<lparr>role_permissions := v\<rparr>),
        assign (rbind (at_const J e ''hoist'') (as_bool J)) (\<lambda>v r. r\<lparr>role_hoist := v\<rparr>),
        assign (rbind (at_const J e ''managed'') (as_bool J)) (\<lambda>v r. r\<lparr>role_managed := v\<rparr>),
        assign (rbind (at_const J e ''name'') (as_str J)) (\<lambda>v r. r\<lparr>role_name := v\<rparr>),
        assign (rbind (at_const J e ''mentionable'') (as_bool J)) (\<lambda>v r. r\<lparr>role_mentionable := v\<rparr>)])"

definition read_role :: "'j json_api \<Rightarrow> 'j \<Rightarrow> guild_role res" where
  "read_role J e = fresh (role_fields J e) default_role"

text \<open>
  An overwrite's type is read as a number of the enumeration, whose first constant is \<open>member\<close>.
  The code only tests whether it is \<open>member\<close>: other numbers count as \<open>role\<close>.
\<close>

definition overwrite_type_of_int :: "int \<Rightarrow> overwrite_type" where
  "overwrite_type_of_int t = (if t = 0 then Ow_member else Ow_role)"

definition read_overwrite :: "'j json_api \<Rightarrow> 'j \<Rightarrow> permission_overwrite res" where
  "read_overwrite J e =
     fresh
       [assign (rbind (at_const J e ''id'') (as_sf J)) (\<lambda>v r. r\<lparr>ow_id := v\<rparr>),
        assign (rbind (at_const J e ''type'') (as_int J)) (\<lambda>v r. r\<lparr>ow_type := overwrite_type_of_int v\<rparr>),
        assign (rbind (at_const J e ''allow'') (as_permission J)) (\<lambda>v r. r\<lparr>ow_allow := v\<rparr>),
        assign (rbind (at_const J e ''deny'') (as_permission J)) (\<lambda>v r. r\<lparr>ow_deny := v\<rparr>)]
       \<lparr>ow_id = no_id, ow_type = Ow_member, ow_allow = permission_default, ow_deny = permission_default\<rparr>"

section \<open>Channels\<close>

text \<open>\<open>pc_type\<close> is the number of the enumeration \<open>channel_type\<close>; 7 is \<open>unknown\<close>.\<close>

record partial_channel =
  pc_id :: snowflake
  pc_name :: string
  pc_type :: int

definition partial_channel_fields :: "'j json_api \<Rightarrow> 'j \<Rightarrow> 'a partial_channel_scheme assignment list" where
  "partial_channel_fields J e =
     [assign (rbind (at_const J e ''id'') (as_sf J)) (\<lambda>v c. c\<lparr>pc_id := v\<rparr>),
      assign (value_or (as_str J) '''' J e ''name'') (\<lambda>v c. c\<lparr>pc_name := v\<rparr>),
      assign (value_or (as_int J) 7 J e ''type'') (\<lambda>v c. c\<lparr>pc_type := v\<rparr>)]"

text \<open>A category is a \<open>guild_channel\<close>. The pointer to the parent category is the category's id;
  \<open>None\<close> is the null pointer.\<close>

record guild_channel = partial_channel +
  gc_overwrites :: "permission_overwrite list"
  gc_guild_id :: snowflake
  gc_parent_id :: snowflake
  gc_position :: "8 word"
  gc_nsfw :: bool
  gc_parent :: "snowflake option"

definition guild_channel_fields :: "'j json_api \<Rightarrow> 'j \<Rightarrow> 'a guild_channel_scheme assignment list" where
  "guild_channel_fields J e =
     partial_channel_fields J e @
     [assign (value_or (as_sf J) no_id J e ''guild_id'') (\<lambda>v c. c\<lparr>gc_guild_id := v\<rparr>),
      assign (value_or (as_bool J) False J e ''nsfw'') (\<lambda>v c. c\<lparr>gc_nsfw := v\<rparr>),
      assign (rbind (at_const J e ''position'') (as_int J)) (\<lambda>v c. c\<lparr>gc_position := word_of_int v\<rparr>),
      assign (rbind (at_const J e ''permission_overwrites'') (as_vector (read_overwrite J) J))
        (\<lambda>v c. c\<lparr>gc_overwrites := v\<rparr>),
      assign (value_or (as_sf J) no_id J e ''parent_id'') (\<lambda>v c. c\<lparr>gc_parent_id := v\<rparr>)]"

definition default_guild_channel :: guild_channel where
  "default_guild_channel = \<lparr>pc_id = no_id, pc_name = '''', pc_type = 7, gc_overwrites = [], gc_guild_id = no_id,
     gc_parent_id = no_id, gc_position = 0, gc_nsfw = False, gc_parent = None\<rparr>"

datatype text_channel_type = Tc_normal | Tc_store | Tc_news

record text_channel = guild_channel +
  tc_topic :: string
  tc_type :: text_channel_type

definition default_text_channel :: text_channel where
  "default_text_channel = guild_channel.extend default_guild_channel \<lparr>tc_topic = '''', tc_type = Tc_normal\<rparr>"

definition text_channel_fields :: "'j json_api \<Rightarrow> 'j \<Rightarrow> text_channel assignment list" where
  "text_channel_fields J e =
     guild_channel_fields J e @
     [assign (rbind (at_const J e ''topic'') (str_or_null J)) (\<lambda>v c. c\<lparr>tc_topic := v\<rparr>)]"

record voice_channel = guild_channel +
  vc_user_limit :: int
  vc_bitrate :: int

definition default_voice_channel :: voice_channel where
  "default_voice_channel = guild_channel.extend default_guild_channel \<lparr>vc_user_limit = 0, vc_bitrate = 0\<rparr>"

definition voice_channel_fields :: "'j json_api \<Rightarrow> 'j \<Rightarrow> voice_channel assignment list" where
  "voice_channel_fields J e =
     guild_channel_fields J e @
     [assign (rbind (at_const J e ''user_limit'') (as_int J)) (\<lambda>v c. c\<lparr>vc_user_limit := v\<rparr>),
      assign (rbind (at_const J e ''bitrate'') (as_int J)) (\<lambda>v c. c\<lparr>vc_bitrate := v\<rparr>)]"

record dm_channel = partial_channel +
  dm_recipients :: "snowflake \<rightharpoonup> user"
  dm_last_message_id :: snowflake

definition default_dm_channel :: dm_channel where
  "default_dm_channel = \<lparr>pc_id = no_id, pc_name = '''', pc_type = 7, dm_recipients = Map.empty,
     dm_last_message_id = no_id\<rparr>"

definition read_dm_channel :: "'j json_api \<Rightarrow> 'j \<Rightarrow> dm_channel res" where
  "read_dm_channel J e =
     fresh (partial_channel_fields J e @
       [assign (rbind (at_const J e ''recipients'') (as_range (read_user J) J))
          (\<lambda>v c. c\<lparr>dm_recipients := map_of_ids u_id v\<rparr>),
        assign (rbind (at_const J e ''last_message_id'') (as_sf J)) (\<lambda>v c. c\<lparr>dm_last_message_id := v\<rparr>)])
       default_dm_channel"

section \<open>Emojis, activities, voice states\<close>

definition read_emoji :: "'j json_api \<Rightarrow> 'j \<Rightarrow> partial_emoji res" where
  "read_emoji J e =
     fresh
       [assign (value_or (as_sf J) no_id J e ''id'') (\<lambda>v m. m\<lparr>pe_id := v\<rparr>),
        assign (value_or (as_str J) '''' J e ''name'') (\<lambda>v m. m\<lparr>pe_name := v\<rparr>),
        assign (value_or (as_bool J) False J e ''animated'') (\<lambda>v m. m\<lparr>pe_animated := v\<rparr>)]
       (partial_emoji_of_name '''')"

text \<open>\<open>act_type\<close> is the number of the enumeration \<open>activity_type\<close>. The \<open>url\<close> is never read.\<close>

record activity =
  act_name :: string
  act_type :: int

definition read_activity :: "'j json_api \<Rightarrow> 'j \<Rightarrow> activity res" where
  "read_activity J e =
     fresh
       [assign (rbind (at_const J e ''name'') (as_str J)) (\<lambda>v a. a\<lparr>act_name := v\<rparr>),
        assign (rbind (at_const J e ''type'') (as_int J)) (\<lambda>v a. a\<lparr>act_type := v\<rparr>)]
       \<lparr>act_name = '''', act_type = 0\<rparr>"

record voice_state =
  vs_channel_id :: snowflake
  vs_user_id :: snowflake
  vs_session_id :: string
  vs_deaf :: bool
  vs_mute :: bool
  vs_self_deaf :: bool
  vs_self_mute :: bool
  vs_suppress :: bool
  vs_member :: "guild_member option"

definition read_voice_state :: "'j json_api \<Rightarrow> 'j \<Rightarrow> voice_state res" where
  "read_voice_state J e =
     fresh
       [assign (rbind (at_const J e ''channel_id'') (as_sf J)) (\<lambda>v s. s\<lparr>vs_channel_id := v\<rparr>),
        assign (rbind (at_const J e ''user_id'') (as_sf J)) (\<lambda>v s. s\<lparr>vs_user_id := v\<rparr>),
        assign (rbind (at_const J e ''session_id'') (as_str J)) (\<lambda>v s. s\<lparr>vs_session_id := v\<rparr>),
        assign (rbind (at_const J e ''deaf'') (as_bool J)) (\<lambda>v s. s\<lparr>vs_deaf := v\<rparr>),
        assign (rbind (at_const J e ''mute'') (as_bool J)) (\<lambda>v s. s\<lparr>vs_mute := v\<rparr>),
        assign (rbind (at_const J e ''self_deaf'') (as_bool J)) (\<lambda>v s. s\<lparr>vs_self_deaf := v\<rparr>),
        assign (rbind (at_const J e ''self_mute'') (as_bool J)) (\<lambda>v s. s\<lparr>vs_self_mute := v\<rparr>),
        assign (rbind (at_const J e ''suppress'') (as_bool J)) (\<lambda>v s. s\<lparr>vs_suppress := v\<rparr>),
        assign (value_or (as_optional (read_member J) J) None J e ''member'') (\<lambda>v s. s\<lparr>vs_member := v\<rparr>)]
       \<lparr>vs_channel_id = no_id, vs_user_id = no_id, vs_session_id = '''', vs_deaf = False, vs_mute = False,
        vs_self_deaf = False, vs_self_mute = False, vs_suppress = False, vs_member = None\<rparr>"

section \<open>Guilds\<close>

record partial_guild =
  pg_icon :: string
  pg_splash :: string
  pg_id :: snowflake
  pg_name :: string
  pg_owner_id :: snowflake
  pg_client_permissions :: permission
  pg_region :: string
  pg_afk_channel_id :: snowflake
  pg_afk_timeout :: int
  pg_verification_level :: int
  pg_default_message_notifications :: int
  pg_explicit_content_filter :: bool
  pg_roles :: "snowflake \<rightharpoonup> guild_role"
  pg_emojis :: "partial_emoji list"
  pg_features :: "string list"
  pg_mfa_level :: int
  pg_application_id :: "snowflake option"
  pg_widget_enabled :: bool
  pg_widget_channel_id :: "snowflake option"
  pg_system_channel_id :: snowflake

definition default_partial_guild :: partial_guild where
  "default_partial_guild = \<lparr>pg_icon = '''', pg_splash = '''', pg_id = no_id, pg_name = '''', pg_owner_id = no_id,
     pg_client_permissions = permission_default, pg_region = '''', pg_afk_channel_id = no_id, pg_afk_timeout = 0,
     pg_verification_level = 0, pg_default_message_notifications = 0, pg_explicit_content_filter = False,
     pg_roles = Map.empty, pg_emojis = [], pg_features = [], pg_mfa_level = 0, pg_application_id = None,
     pg_widget_enabled = False, pg_widget_channel_id = None, pg_system_channel_id = no_id\<rparr>"

text \<open>The widget's channel is set to the id read for the application, \<open>t\<close>.\<close>

definition widget_channel_field :: "'j json_api \<Rightarrow> 'j \<Rightarrow> 'a partial_guild_scheme assignment" where
  "widget_channel_field J e g =
     (if pg_widget_enabled g then
        rbind (value_or (as_sf J) no_id J e ''application_id'') (\<lambda>t.
          assign (value_or (as_sf J) no_id J e ''widget_channel_id'')
            (\<lambda>t2 g. if t2 \<noteq> no_id then g\<lparr>pg_widget_channel_id := Some t\<rparr> else g) g)
      else Inr g)"

definition partial_guild_fields :: "'j json_api \<Rightarrow> 'j \<Rightarrow> 'a partial_guild_scheme assignment list" where
  "partial_guild_fields J e =
     [assign (rbind (at_const J e ''id'') (as_sf J)) (\<lambda>v g. g\<lparr>pg_id := v\<rparr>),
      assign (rbind (at_const J e ''name'') (as_str J)) (\<lambda>v g. g\<lparr>pg_name := v\<rparr>),
      assign (rbind (at_const J e ''icon'') (str_or_null J)) (\<lambda>v g. g\<lparr>pg_icon := v\<rparr>),
      assign (rbind (at_const J e ''splash'') (str_or_null J)) (\<lambda>v g. g\<lparr>pg_splash := v\<rparr>),
      assign (rbind (at_const J e ''owner_id'') (as_sf J)) (\<lambda>v g. g\<lparr>pg_owner_id := v\<rparr>),
      assign (value_or (as_permission J) permission_default J e ''permissions'') (\<lambda>v g. g\<lparr>pg_client_permissions := v\<rparr>),
      assign (rbind (at_const J e ''region'') (as_str J)) (\<lambda>v g. g\<lparr>pg_region := v\<rparr>),
      assign (rbind (at_const J e ''afk_channel_id'') (as_sf J)) (\<lambda>v g. g\<lparr>pg_afk_channel_id := v\<rparr>),
      assign (rbind (at_const J e ''afk_timeout'') (as_int J)) (\<lambda>v g. g\<lparr>pg_afk_timeout := v\<rparr>),
      assign (rbind (at_const J e ''verification_level'') (as_int J)) (\<lambda>v g. g\<lparr>pg_verification_level := v\<rparr>),
      assign (rbind (at_const J e ''default_message_notifications'') (as_int J))
        (\<lambda>v g. g\<lparr>pg_default_message_notifications := v\<rparr>),
      assign (rbind (at_const J e ''explicit_content_filter'') (as_int J))
        (\<lambda>v g. g\<lparr>pg_explicit_content_filter := (v \<noteq> 0)\<rparr>),
      assign (rbind (at_const J e ''roles'') (as_range (read_role J) J)) (\<lambda>v g. g\<lparr>pg_roles := map_of_ids role_id v\<rparr>),
      assign (rbind (at_const J e ''emojis'') (as_vector (read_emoji J) J)) (\<lambda>v g. g\<lparr>pg_emojis := v\<rparr>),
      assign (rbind (at_const J e ''features'') (as_vector (as_str J) J)) (\<lambda>v g. g\<lparr>pg_features := v\<rparr>),
      assign (rbind (at_const J e ''mfa_level'') (as_int J)) (\<lambda>v g. g\<lparr>pg_mfa_level := v\<rparr>),
      assign (value_or (as_sf J) no_id J e ''application_id'')
        (\<lambda>t g. if t \<noteq> no_id then g\<lparr>pg_application_id := Some t\<rparr> else g),
      assign (value_or (as_bool J) False J e ''widget_enabled'') (\<lambda>v g. g\<lparr>pg_widget_enabled := v\<rparr>),
      widget_channel_field J e,
      assign (rbind (at_const J e ''system_channel_id'') (as_sf J)) (\<lambda>v g. g\<lparr>pg_system_channel_id := v\<rparr>)]"

text \<open>
  The class \<open>Guild\<close>. \<open>g_stuff\<close> tells whether the pointer to the guild's containers is set,
  \<open>g_presences\<close> is the JSON kept until the members have come.
\<close>

record 'j guild = partial_guild +
  g_large :: bool
  g_unavailable :: bool
  g_member_count :: int
  g_activities :: "snowflake \<rightharpoonup> activity list"
  g_status :: "snowflake \<rightharpoonup> status"
  g_stuff :: bool
  g_text_ids :: "snowflake list"
  g_voice_ids :: "snowflake list"
  g_category_ids :: "snowflake list"
  g_voice_states :: "voice_state list"
  g_is_ready :: bool
  g_presences :: 'j
  g_is_dead :: bool
  g_bot_id :: snowflake

definition default_guild :: "'j json_api \<Rightarrow> 'j guild" where
  "default_guild J = partial_guild.extend default_partial_guild
     \<lparr>g_large = False, g_unavailable = False, g_member_count = 0, g_activities = Map.empty, g_status = Map.empty,
      g_stuff = False, g_text_ids = [], g_voice_ids = [], g_category_ids = [], g_voice_states = [], g_is_ready = True,
      g_presences = j_null J, g_is_dead = False, g_bot_id = no_id\<rparr>"

definition guild_fields :: "'j json_api \<Rightarrow> 'j \<Rightarrow> 'j guild assignment list" where
  "guild_fields J e =
     partial_guild_fields J e @
     [assign (rbind (at_const J e ''large'') (as_bool J)) (\<lambda>v g. g\<lparr>g_large := v\<rparr>),
      assign (rbind (at_const J e ''unavailable'') (as_bool J)) (\<lambda>v g. g\<lparr>g_unavailable := v\<rparr>),
      assign (rbind (at_const J e ''member_count'') (as_int J)) (\<lambda>v g. g\<lparr>g_member_count := v\<rparr>),
      assign (rbind (at_const J e ''voice_states'') (as_vector (read_voice_state J) J))
        (\<lambda>v g. g\<lparr>g_voice_states := v\<rparr>)]"

end
