(* ===== verification/Messages.thy ===== *)
theory Messages
  imports Entities
begin

text \<open>
  Messages, their embeds, attachments and reactions, and the updates of messages, as the shard builds
  them from JSON (\<open>include/embed.h\<close>, \<open>attachment.h\<close>, \<open>reaction.h\<close>, \<open>partial_message.h\<close>,
  \<open>guild_text_message.h\<close>, \<open>dm_message.h\<close>; \<open>create_msg\<close> of \<open>shard.h\<close> and \<open>createMsgUpdate\<close> of
  \<open>internal_shard.h\<close>). A message's pointer to its channel is the id of the channel.
\<close>

section \<open>Embeds\<close>

record embed_footer =
  ef_text :: string
  ef_icon_url :: "string option"
  ef_proxy_icon_url :: "string option"

record embed_image =
  ei_url :: "string option"
  ei_proxy_url :: "string option"
  ei_height :: "int option"
  ei_width :: "int option"

record embed_thumbnail =
  et_url :: "string option"
  et_proxy_url :: "string option"
  et_height :: "int option"
  et_width :: "int option"

record embed_video =
  ev_url :: "string option"
  ev_height :: "int option"
  ev_width :: "int option"

record embed_provider =
  ep_name :: "string option"
  ep_url :: "string option"

record embed_author =
  ea_name :: "string option"
  ea_url :: "string option"
  ea_icon_url :: "string option"
  ea_proxy_icon_url :: "string option"

record embed_field =
  fd_name :: string
  fd_value :: string
  fd_inline :: "bool option"

record embed =
  em_title :: "string option"
  em_description :: "string option"
  em_url :: "string option"
  em_color :: "int option"
  em_footer :: "embed_footer option"
  em_image :: "embed_image option"
  em_thumbnail :: "embed_thumbnail option"
  em_video :: "embed_video option"
  em_provider :: "embed_provider option"
  em_author :: "embed_author option"
  em_fields :: "embed_field list option"

definition opt :: "('j \<Rightarrow> 'a res) \<Rightarrow> 'j json_api \<Rightarrow> 'j \<Rightarrow> string \<Rightarrow> 'a option res" where
  "opt rd J e k = value_or (as_optional rd J) None J e k"

definition read_embed_footer :: "'j json_api \<Rightarrow> 'j \<Rightarrow> embed_footer res" where
  "read_embed_footer J e =
     fresh
       [assign (rbind (at_const J e ''text'') (as_str J)) (\<lambda>v f. f\<lparr>ef_text := v\<rparr>),
        assign (opt (as_str J) J e ''icon_url'') (\<lambda>v f. f\<lparr>ef_icon_url := v\<rparr>),
        assign (opt (as_str J) J e ''proxy_icon_url'') (\<lambda>v f. f\<lparr>ef_proxy_icon_url := v\<rparr>)]
       \<lparr>ef_text = '''', ef_icon_url = None, ef_proxy_icon_url = None\<rparr>"

definition read_embed_image :: "'j json_api \<Rightarrow> 'j \<Rightarrow> embed_image res" where
  "read_embed_image J e =
     fresh
       [assign (opt (as_str J) J e ''url'') (\<lambda>v f. f\<lparr>ei_url := v\<rparr>),
        assign (opt (as_str J) J e ''proxy_url'') (\<lambda>v f. f\<lparr>ei_proxy_url := v\<rparr>),
        assign (opt (as_int J) J e ''height'') (\<lambda>v f. f\<lparr>ei_height := v\<rparr>),
        assign (opt (as_int J) J e ''width'') (\<lambda>v f. f\<lparr>ei_width := v\<rparr>)]
       \<lparr>ei_url = None, ei_proxy_url = None, ei_height = None, ei_width = None\<rparr>"

definition read_embed_thumbnail :: "'j json_api \<Rightarrow> 'j \<Rightarrow> embed_thumbnail res" where
  "read_embed_thumbnail J e =
     fresh
       [assign (opt (as_str J) J e ''url'') (\<lambda>v f. f\<lparr>et_url := v\<rparr>),
        assign (opt (as_str J) J e ''proxy_url'') (\<lambda>v f. f\<lparr>et_proxy_url := v\<rparr>),
        assign (opt (as_int J) J e ''height'') (\<lambda>v f. f\<lparr>et_height := v\<rparr>),
        assign (opt (as_int J) J e ''width'') (\<lambda>v f. f\<lparr>et_width := v\<rparr>)]
       \<lparr>et_url = None, et_proxy_url = None, et_height = None, et_width = None\<rparr>"

definition read_embed_video :: "'j json_api \<Rightarrow> 'j \<Rightarrow> embed_video res" where
  "read_embed_video J e =
     fresh
       [assign (opt (as_str J) J e ''url'') (\<lambda>v f. f\<lparr>ev_url := v\<rparr>),
        assign (opt (as_int J) J e ''height'') (\<lambda>v f. f\<lparr>ev_height := v\<rparr>),
        assign (opt (as_int J) J e ''width'') (\<lambda>v f. f\<lparr>ev_width := v\<rparr>)]
       \<lparr>ev_url = None, ev_height = None, ev_width = None\<rparr>"

definition read_embed_provider :: "'j json_api \<Rightarrow> 'j \<Rightarrow> embed_provider res" where
  "read_embed_provider J e =
     fresh
       [assign (opt (as_str J) J e ''name'') (\<lambda>v f. f\<lparr>ep_name := v\<rparr>),
        assign (opt (as_str J) J e ''url'') (\<lambda>v f. f\<lparr>ep_url := v\<rparr>)]
       \<lparr>ep_name = None, ep_url = None\<rparr>"

definition read_embed_author :: "'j json_api \<Rightarrow> 'j \<Rightarrow> embed_author res" where
  "read_embed_author J e =
     fresh
       [assign (opt (as_str J) J e ''name'') (\<lambda>v f. f\<lparr>ea_name := v\<rparr>),
        assign (opt (as_str J) J e ''url'') (\<lambda>v f. f\<lparr>ea_url := v\<rparr>),
        assign (opt (as_str J) J e ''icon_url'') (\<lambda>v f. f\<lparr>ea_icon_url := v\<rparr>),
        assign (opt (as_str J) J e ''proxy_icon_url'') (\<lambda>v f. f\<lparr>ea_proxy_icon_url := v\<rparr>)]
       \<lparr>ea_name = None, ea_url = None, ea_icon_url = None, ea_proxy_icon_url = None\<rparr>"

definition read_embed_field :: "'j json_api \<Rightarrow> 'j \<Rightarrow> embed_field res" where
  "read_embed_field J e =
     fresh
       [assign (rbind (at_const J e ''name'') (as_str J)) (\<lambda>v f. f\<lparr>fd_name := v\<rparr>),
        assign (rbind (at_const J e ''value'') (as_str J)) (\<lambda>v f. f\<lparr>fd_value := v\<rparr>),
        assign (opt (as_bool J) J e ''inline'') (\<lambda>v f. f\<lparr>fd_inline := v\<rparr>)]
       \<lparr>fd_name = '''', fd_value = '''', fd_inline = None\<rparr>"

definition read_embed :: "'j json_api \<Rightarrow> 'j \<Rightarrow> embed res" where
  "read_embed J e =
     fresh
       [assign (opt (as_str J) J e ''title'') (\<lambda>v m. m\<lparr>em_title := v\<rparr>),
        assign (opt (as_str J) J e ''description'') (\<lambda>v m. m\<lparr>em_description := v\<rparr>),
        assign (opt (as_str J) J e ''url'') (\<lambda>v m. m\<lparr>em_url := v\<rparr>),
        assign (opt (as_int J) J e ''color'') (\<lambda>v m. m\<lparr>em_color := v\<rparr>),
        assign (opt (read_embed_footer J) J e ''footer'') (\<lambda>v m. m\<lparr>em_footer := v\<rparr>),
        assign (opt (read_embed_image J) J e ''image'') (\<lambda>v m. m\<lparr>em_image := v\<rparr>),
        assign (opt (read_embed_author J) J e ''author'') (\<lambda>v m. m\<lparr>em_author := v\<rparr>),
        assign (opt (read_embed_thumbnail J) J e ''thumbnail'') (\<lambda>v m. m\<lparr>em_thumbnail := v\<rparr>),
        assign (opt (read_embed_video J) J e ''video'') (\<lambda>v m. m\<lparr>em_video := v\<rparr>),
        assign (opt (read_embed_provider J) J e ''provider'') (\<lambda>v m. m\<lparr>em_provider := v\<rparr>),
        (\<lambda>m. case find_key J e ''fields'' of
           None \<Rightarrow> Inr m
         | Some fs \<Rightarrow> assign (as_vector (read_embed_field J) J fs) (\<lambda>v m. m\<lparr>em_fields := Some v\<rparr>) m)]
       \<lparr>em_title = None, em_description = None, em_url = None, em_color = None, em_footer = None,
        em_image = None, em_thumbnail = None, em_video = None, em_provider = None, em_author = None,
        em_fields = None\<rparr>"

section \<open>Attachments and reactions\<close>

record attachment =
  at_id :: snowflake
  at_filename :: string
  at_size :: int
  at_url :: string
  at_proxy_url :: string

definition read_attachment :: "'j json_api \<Rightarrow> 'j \<Rightarrow> attachment res" where
  "read_attachment J e =
     fresh
       [assign (rbind (at_const J e ''id'') (as_sf J)) (\<lambda>v a. a\<lparr>at_id := v\<rparr>),
        assign (rbind (at_const J e ''filename'') (as_str J)) (\<lambda>v a. a\<lparr>at_filename := v\<rparr>),
        assign (rbind (at_const J e ''size'') (as_int J)) (\<lambda>v a. a\<lparr>at_size := v\<rparr>),
        assign (rbind (at_const J e ''url'') (as_str J)) (\<lambda>v a. a\<lparr>at_url := v\<rparr>),
        assign (rbind (at_const J e ''proxy_url'') (as_str J)) (\<lambda>v a. a\<lparr>at_proxy_url := v\<rparr>)]
       \<lparr>at_id = no_id, at_filename = '''', at_size = 0, at_url = '''', at_proxy_url = ''''\<rparr>"

record reaction =
  re_count :: int
  re_me :: bool
  re_emoji :: partial_emoji

definition read_reaction :: "'j json_api \<Rightarrow> 'j \<Rightarrow> reaction res" where
  "read_reaction J e =
     fresh
       [assign (rbind (at_const J e ''count'') (as_int J)) (\<lambda>v r. r\<lparr>re_count := v\<rparr>),
        assign (rbind (at_const J e ''me'') (as_bool J)) (\<lambda>v r. r\<lparr>re_me := v\<rparr>),
        assign (rbind (at_const J e ''emoji'') (read_emoji J)) (\<lambda>v r. r\<lparr>re_emoji := v\<rparr>)]
       \<lparr>re_count = 0, re_me = False, re_emoji = partial_emoji_of_name ''''\<rparr>"

section \<open>Messages\<close>

record message_reference =
  mr_guild :: snowflake
  mr_channel :: snowflake
  mr_message :: snowflake

definition no_reference :: message_reference where
  "no_reference = \<lparr>mr_guild = no_id, mr_channel = no_id, mr_message = no_id\<rparr>"

definition read_message_reference :: "'j json_api \<Rightarrow> 'j \<Rightarrow> message_reference res" where
  "read_message_reference J e =
     fresh
       [assign (value_or (as_sf J) no_id J e ''guild_id'') (\<lambda>v r. r\<lparr>mr_guild := v\<rparr>),
        assign (value_or (as_sf J) no_id J e ''channel_id'') (\<lambda>v r. r\<lparr>mr_channel := v\<rparr>),
        assign (value_or (as_sf J) no_id J e ''message_id'') (\<lambda>v r. r\<lparr>mr_message := v\<rparr>)]
       no_reference"

record partial_message =
  pm_author_id :: snowflake
  pm_id :: snowflake
  pm_channel_id :: snowflake
  pm_reference :: message_reference
  pm_embeds :: "embed list"
  pm_attachments :: "attachment list"
  pm_reactions :: "reaction list"
  pm_content :: string
  pm_tts :: bool
  pm_mention_everyone :: bool
  pm_type :: "8 word"

definition default_message :: partial_message where
  "default_message = \<lparr>pm_author_id = no_id, pm_id = no_id, pm_channel_id = no_id, pm_reference = no_reference,
     pm_embeds = [], pm_attachments = [], pm_reactions = [], pm_content = '''', pm_tts = False,
     pm_mention_everyone = False, pm_type = 0\<rparr>"

definition author_id :: "'j json_api \<Rightarrow> 'j \<Rightarrow> snowflake res" where
  "author_id J author = rbind (at_const J author ''id'') (as_sf J)"

definition partial_message_fields :: "'j json_api \<Rightarrow> 'j \<Rightarrow> 'a partial_message_scheme assignment list" where
  "partial_message_fields J e =
     [assign (rbind (at_const J e ''author'') (author_id J)) (\<lambda>v m. m\<lparr>pm_author_id := v\<rparr>),
      assign (rbind (at_const J e ''id'') (as_sf J)) (\<lambda>v m. m\<lparr>pm_id := v\<rparr>),
      assign (rbind (at_const J e ''channel_id'') (as_sf J)) (\<lambda>v m. m\<lparr>pm_channel_id := v\<rparr>),
      assign (rbind (at_const J e ''content'') (as_str J)) (\<lambda>v m. m\<lparr>pm_content := v\<rparr>),
      assign (rbind (at_const J e ''mention_everyone'') (as_bool J)) (\<lambda>v m. m\<lparr>pm_mention_everyone := v\<rparr>),
      assign (at_const J e ''timestamp'') (\<lambda>_ m. m),
      assign (rbind (at_const J e ''tts'') (as_bool J)) (\<lambda>v m. m\<lparr>pm_tts := v\<rparr>),
      assign (rbind (at_const J e ''mention_everyone'') (as_bool J)) (\<lambda>v m. m\<lparr>pm_mention_everyone := v\<rparr>),
      assign (rbind (at_const J e ''attachments'') (as_range (read_attachment J) J)) (\<lambda>v m. m\<lparr>pm_attachments := v\<rparr>),
      assign (value_or (as_range (read_reaction J) J) [] J e ''reactions'') (\<lambda>v m. m\<lparr>pm_reactions := v\<rparr>),
      assign (rbind (at_const J e ''embeds'') (as_range (read_embed J) J)) (\<lambda>v m. m\<lparr>pm_embeds := v\<rparr>),
      assign (rbind (at_const J e ''type'') (as_int J)) (\<lambda>v m. m\<lparr>pm_type := word_of_int v\<rparr>),
      assign (value_or (read_message_reference J) no_reference J e ''message_reference'')
        (\<lambda>v m. m\<lparr>pm_reference := v\<rparr>)]"

text \<open>A message's reference is shown unless its three optional ids are equal.\<close>

definition id_option :: "snowflake \<Rightarrow> snowflake option" where
  "id_option i = (if i = no_id then None else Some i)"

definition shown_reference :: "'a partial_message_scheme \<Rightarrow> message_reference option" where
  "shown_reference m =
     (let r = pm_reference m in
      if id_option (mr_channel r) = id_option (mr_guild r) \<and> id_option (mr_channel r) = id_option (mr_message r)
      then None else Some r)"

record referenced_guild_message = partial_message +
  rg_channel :: snowflake
  rg_author :: user
  rg_mentions :: "user list"
  rg_mention_role_ids :: "snowflake list"

definition read_referenced_guild :: "'j json_api \<Rightarrow> snowflake \<Rightarrow> 'j \<Rightarrow> referenced_guild_message res" where
  "read_referenced_guild J ch e =
     fresh (partial_message_fields J e @
       [assign (rbind (at_const J e ''author'') (read_user J)) (\<lambda>v m. m\<lparr>rg_author := v\<rparr>),
        assign (rbind (at_const J e ''mentions'') (as_range (read_user J) J)) (\<lambda>v m. m\<lparr>rg_mentions := v\<rparr>),
        assign (rbind (at_const J e ''mention_roles'') (as_range (as_sf J) J)) (\<lambda>v m. m\<lparr>rg_mention_role_ids := v\<rparr>)])
       (partial_message.extend default_message
          \<lparr>rg_channel = ch, rg_author = default_user, rg_mentions = [], rg_mention_role_ids = []\<rparr>)"

record guild_message = partial_message +
  gmsg_channel :: snowflake
  gmsg_author :: guild_member
  gmsg_mentions :: "guild_member list"
  gmsg_mention_role_ids :: "snowflake list"
  gmsg_referenced :: "referenced_guild_message option"

text \<open>The author of a webhook's message is a user without the fields of a member.\<close>

definition message_author :: "'j json_api \<Rightarrow> 'j \<Rightarrow> guild_member res" where
  "message_author J e =
     (if find_key J e ''webhook_id'' \<noteq> None
      then rbind (at_const J e ''author'') (\<lambda>a. fresh (user_fields J a) default_member)
      else rbind (at_const J e ''author'') (\<lambda>a.
             rbind (at_const J e ''member'') (\<lambda>m. make_member_from_msg J a m)))"

definition read_mention :: "'j json_api \<Rightarrow> 'j \<Rightarrow> guild_member res" where
  "read_mention J mention =
     rbind (at_const J mention ''member'') (\<lambda>m. make_member_from_msg J mention m)"

definition referenced_field ::
  "'j json_api \<Rightarrow> 'j \<Rightarrow> ('j \<Rightarrow> 'r res) \<Rightarrow> ('r option \<Rightarrow> 'a \<Rightarrow> 'a) \<Rightarrow> 'a assignment" where
  "referenced_field J e rd upd m =
     (case find_key J e ''referenced_message'' of
        None \<Rightarrow> Inr m
      | Some r \<Rightarrow> if j_is_null J r then Inr m else assign (rd r) (\<lambda>v. upd (Some v)) m)"

definition create_guild_msg :: "'j json_api \<Rightarrow> snowflake \<Rightarrow> 'j \<Rightarrow> guild_message res" where
  "create_guild_msg J ch e =
     fresh (partial_message_fields J e @
       [assign (message_author J e) (\<lambda>v m. m\<lparr>gmsg_author := v\<rparr>),
        assign (rbind (at_const J e ''mentions'') (as_range (read_mention J) J)) (\<lambda>v m. m\<lparr>gmsg_mentions := v\<rparr>),
        assign (rbind (at_const J e ''mention_roles'') (as_range (as_sf J) J)) (\<lambda>v m. m\<lparr>gmsg_mention_role_ids := v\<rparr>),
        referenced_field J e (read_referenced_guild J ch) (\<lambda>v m. m\<lparr>gmsg_referenced := v\<rparr>)])
       (partial_message.extend default_message
          \<lparr>gmsg_channel = ch, gmsg_author = default_member, gmsg_mentions = [], gmsg_mention_role_ids = [],
           gmsg_referenced = None\<rparr>)"

record referenced_dm_message = partial_message +
  rd_channel :: snowflake
  rd_author :: user
  rd_mentions :: "user list"

definition read_referenced_dm :: "'j json_api \<Rightarrow> snowflake \<Rightarrow> 'j \<Rightarrow> referenced_dm_message res" where
  "read_referenced_dm J ch e =
     fresh (partial_message_fields J e @
       [assign (rbind (at_const J e ''author'') (read_user J)) (\<lambda>v m. m\<lparr>rd_author := v\<rparr>),
        assign (rbind (at_const J e ''mentions'') (as_range (read_user J) J)) (\<lambda>v m. m\<lparr>rd_mentions := v\<rparr>)])
       (partial_message.extend default_message
          \<lparr>rd_channel = ch, rd_author = default_user, rd_mentions = []\<rparr>)"

record dm_message = partial_message +
  dmsg_channel :: snowflake
  dmsg_author :: user
  dmsg_mentions :: "user list"
  dmsg_referenced :: "referenced_dm_message option"

definition create_dm_msg :: "'j json_api \<Rightarrow> snowflake \<Rightarrow> 'j \<Rightarrow> dm_message res" where
  "create_dm_msg J ch e =
     fresh (partial_message_fields J e @
       [assign (rbind (at_const J e ''author'') (read_user J)) (\<lambda>v m. m\<lparr>dmsg_author := v\<rparr>),
        assign (rbind (at_const J e ''mentions'') (as_range (read_user J) J)) (\<lambda>v m. m\<lparr>dmsg_mentions := v\<rparr>),
        referenced_field J e (read_referenced_dm J ch) (\<lambda>v m. m\<lparr>dmsg_referenced := v\<rparr>)])
       (partial_message.extend default_message
          \<lparr>dmsg_channel = ch, dmsg_author = default_user, dmsg_mentions = [], dmsg_referenced = None\<rparr>)"

section \<open>Updates of messages\<close>

record msg_update =
  mu_author_id :: snowflake
  mu_id :: snowflake
  mu_channel_id :: snowflake
  mu_content :: string
  mu_tts :: bool
  mu_mention_everyone :: "bool option"
  mu_attachments :: "attachment list"
  mu_reactions :: "reaction list"

definition default_msg_update :: msg_update where
  "default_msg_update = \<lparr>mu_author_id = no_id, mu_id = no_id, mu_channel_id = no_id, mu_content = '''', mu_tts = False,
     mu_mention_everyone = Some False, mu_attachments = [], mu_reactions = []\<rparr>"

definition msg_update_fields :: "'j json_api \<Rightarrow> 'j \<Rightarrow> 'a msg_update_scheme assignment list" where
  "msg_update_fields J e =
     [(\<lambda>m. case find_key J e ''author'' of
         None \<Rightarrow> Inr m | Some a \<Rightarrow> assign (author_id J a) (\<lambda>v m. m\<lparr>mu_author_id := v\<rparr>) m),
      assign (rbind (at_const J e ''id'') (as_sf J)) (\<lambda>v m. m\<lparr>mu_id := v\<rparr>),
      assign (rbind (at_const J e ''channel_id'') (as_sf J)) (\<lambda>v m. m\<lparr>mu_channel_id := v\<rparr>),
      assign (value_or (as_str J) '''' J e ''content'') (\<lambda>v m. m\<lparr>mu_content := v\<rparr>),
      assign (value_or (as_bool J) False J e ''mention_everyone'') (\<lambda>v m. m\<lparr>mu_mention_everyone := Some v\<rparr>),
      assign (value_or (as_bool J) False J e ''tts'') (\<lambda>v m. m\<lparr>mu_tts := v\<rparr>),
      assign (opt (as_bool J) J e ''mention_everyone'') (\<lambda>v m. m\<lparr>mu_mention_everyone := v\<rparr>),
      assign (value_or (as_vector (read_attachment J) J) [] J e ''attachments'') (\<lambda>v m. m\<lparr>mu_attachments := v\<rparr>),
      assign (value_or (as_vector (read_reaction J) J) [] J e ''reactions'') (\<lambda>v m. m\<lparr>mu_reactions := v\<rparr>)]"

record guild_msg_update = msg_update +
  gu_channel :: snowflake
  gu_author :: "guild_member option"
  gu_mentions :: "guild_member list option"
  gu_mention_role_ids :: "snowflake list option"
  gu_mention_roles :: "guild_role list option"

text \<open>The mentioned roles are looked for under \<open>mentions_roles\<close>. A role the guild does not have throws.\<close>

definition create_guild_msg_update ::
  "'j json_api \<Rightarrow> snowflake \<Rightarrow> (snowflake \<rightharpoonup> guild_role) \<Rightarrow> 'j \<Rightarrow> guild_msg_update res" where
  "create_guild_msg_update J ch roles e =
     fresh (msg_update_fields J e @
       [(\<lambda>m. case (find_key J e ''author'', find_key J e ''member'') of
           (Some a, Some b) \<Rightarrow> assign (make_member_from_msg J a b) (\<lambda>v m. m\<lparr>gu_author := Some v\<rparr>) m
         | _ \<Rightarrow> Inr m),
        (\<lambda>m. case find_key J e ''mentions'' of
           None \<Rightarrow> Inr m
         | Some v \<Rightarrow> assign (as_range (read_mention J) J v) (\<lambda>v m. m\<lparr>gu_mentions := Some v\<rparr>) m),
        (\<lambda>m. case find_key J e ''mentions_roles'' of
           None \<Rightarrow> Inr m
         | Some v \<Rightarrow>
             assign (as_vector (as_sf J) J v) (\<lambda>v m. m\<lparr>gu_mention_role_ids := Some v\<rparr>) m),
        (\<lambda>m. case gu_mention_role_ids m of
           None \<Rightarrow> Inr m
         | Some ids \<Rightarrow> assign (read_all (\<lambda>i. or_throw (roles i)) ids) (\<lambda>v m. m\<lparr>gu_mention_roles := Some v\<rparr>) m)])
       (msg_update.extend default_msg_update
          \<lparr>gu_channel = ch, gu_author = None, gu_mentions = None, gu_mention_role_ids = None,
           gu_mention_roles = None\<rparr>)"

record dm_msg_update = msg_update +
  du_channel :: snowflake
  du_author :: "user option"
  du_mentions :: "user list option"

definition create_dm_msg_update :: "'j json_api \<Rightarrow> snowflake \<Rightarrow> 'j \<Rightarrow> dm_msg_update res" where
  "create_dm_msg_update J ch e =
     fresh (msg_update_fields J e @
       [assign (opt (read_user J) J e ''author'') (\<lambda>v m. m\<lparr>du_author := v\<rparr>),
        (\<lambda>m. case find_key J e ''mentions'' of
           None \<Rightarrow> Inr m
         | Some v \<Rightarrow> assign (as_vector (read_user J) J v) (\<lambda>v m. m\<lparr>du_mentions := Some v\<rparr>) m)])
       (msg_update.extend default_msg_update \<lparr>du_channel = ch, du_author = None, du_mentions = None\<rparr>)"

end
