(* ===== verification/Shard_State.thy ===== *)
theory Shard_State
  imports Handlers Messages
begin

text \<open>
  The state of a shard (\<open>include/shard.h\<close>, \<open>internal_shard.h\<close>, \<open>heartbeat_context.h\<close>, \<open>guild.h\<close>): the
  guilds with their channels and members, the private channels, the events kept back for guilds
  whose members have not all come, and the connection.

  The client's callbacks are code of the library's user. The configuration says which are set and
  for which arguments one throws; a call is recorded with its arguments and changes nothing else.
  A \<open>const Guild&\<close> argument is recorded as the guild's id, and the \<open>shard&\<close> every callback gets is left
  out. What is written to the web socket is recorded likewise, in order.
\<close>

section \<open>Calls and messages\<close>

datatype callback =
  On_ready | On_guild_ready | On_guild_text_msg | On_dm_msg | On_guild_msg_update | On_dm_msg_update
| On_guild_msg_delete | On_dm_msg_delete | On_message_bulk | On_dm_message_bulk
| On_guild_text_channel_create | On_guild_voice_channel_create | On_guild_channel_catagory_create
| On_dm_channel_create | On_guild_text_channel_update | On_guild_voice_channel_update
| On_guild_channel_catagory_update | On_text_channel_delete | On_voice_channel_delete
| On_channel_catagory_delete | On_dm_channel_delete | On_guild_member_add | On_guild_member_remove
| On_guild_member_update | On_guild_update | On_ban_add | On_ban_remove | On_emoji_update
| On_role_create | On_role_update | On_role_delete | On_guild_typing_start | On_dm_typing_start
| On_guild_reaction_add | On_dm_reaction_add | On_guild_reaction_remove | On_dm_reaction_remove
| On_guild_reaction_remove_all | On_dm_reaction_remove_all | On_presence_update

datatype arg =
  A_guild snowflake | A_id snowflake | A_ids "snowflake list" | A_user user | A_member guild_member
| A_role guild_role | A_text text_channel | A_voice voice_channel | A_category guild_channel
| A_dm dm_channel | A_msg guild_message | A_dm_msg dm_message | A_update guild_msg_update
| A_dm_update dm_msg_update | A_emoji partial_emoji | A_emojis "partial_emoji list"

type_synonym call = "callback \<times> arg list"

text \<open>
  The messages to the gateway. Those whose text the library's \<open>dump\<close> makes are their contents;
  \<open>ws_text\<close> is the text of the others.
\<close>

datatype ws_message =
  Ws_start_heartbeat | Ws_opcode1_heartbeat | Ws_heartbeat u64 | Ws_request_members snowflake
| Ws_voice_state snowflake snowflake | Ws_resume string u64 | Ws_presence status string
| Ws_identify int int status string intents

definition newline :: string where "newline = [CHR 0x0A]"
definition tabs :: "nat \<Rightarrow> string" where "tabs n = replicate n (CHR 0x09)"

fun ws_text :: "string \<Rightarrow> ws_message \<Rightarrow> string option" where
  "ws_text token Ws_start_heartbeat = Some (''{ '' @ quote @ ''op'' @ quote @ '': 1, '' @ quote @ ''d'' @ quote @ '' : null }'')"
| "ws_text token (Ws_heartbeat n) =
     Some (''{ '' @ quote @ ''op'' @ quote @ '': 1, '' @ quote @ ''d'' @ quote @ '' : '' @ std_to_string (unat n) @ '' }'')"
| "ws_text token Ws_opcode1_heartbeat =
     Some (''{'' @ newline @ tabs 1 @ quote @ ''op'' @ quote @ '': 1,'' @ newline @ tabs 1 @ quote @ ''d'' @ quote
       @ '' : null'' @ newline @ ''}'')"
| "ws_text token (Ws_resume sid n) =
     Some (''{'' @ newline @ tabs 2 @ quote @ ''op'' @ quote @ '':6,'' @ newline
       @ tabs 2 @ quote @ ''d'' @ quote @ '':{'' @ newline
       @ tabs 3 @ quote @ ''token'' @ quote @ '':'' @ token @ newline
       @ tabs 3 @ quote @ ''session_id:'' @ sid @ newline
       @ tabs 3 @ quote @ ''seq:'' @ quote @ std_to_string (unat n) @ newline
       @ tabs 2 @ ''}'' @ newline @ tabs 1 @ ''}'' @ newline @ tabs 1)"
| "ws_text token _ = None"

section \<open>The state\<close>

text \<open>The entry of a category can be a null pointer: a lookup by \<open>operator[]\<close> inserts one.\<close>

record 'j guild_and_stuff =
  gs_guild :: "'j guild"
  gs_text :: "snowflake \<rightharpoonup> text_channel"
  gs_voice :: "snowflake \<rightharpoonup> voice_channel"
  gs_categories :: "snowflake \<rightharpoonup> guild_channel option"
  gs_members :: "snowflake \<rightharpoonup> guild_member"

definition new_guild_and_stuff :: "'j json_api \<Rightarrow> 'j guild_and_stuff" where
  "new_guild_and_stuff J = \<lparr>gs_guild = default_guild J, gs_text = Map.empty, gs_voice = Map.empty,
     gs_categories = Map.empty, gs_members = Map.empty\<rparr>"

text \<open>
  \<open>s_timers\<close> counts the heartbeat timers that are waiting, \<open>s_hello_set\<close> how often the promise of the
  first hello was set, \<open>s_invalid\<close> the answers to invalid sessions that wait for their 5 seconds,
  \<open>s_to_identify\<close> the requests to the client to identify; \<open>s_reading\<close> holds until the loop that reads
  the socket ends. A promise that a voice connection waits for
  is the list of the values set on it.
\<close>

record 'j shard =
  s_seq :: u64
  s_guilds :: "snowflake \<rightharpoonup> 'j guild_and_stuff"
  s_dms :: "snowflake \<rightharpoonup> dm_channel"
  s_deleted_dms :: "dm_channel list"
  s_backed_up :: "snowflake \<rightharpoonup> ('j \<times> event_name) list"
  s_chunks_left :: "snowflake \<rightharpoonup> int"
  s_self :: user
  s_session_id :: string
  s_trace :: "string list"
  s_trace2 :: 'j
  s_status :: status
  s_game :: string
  s_disconnected :: bool
  s_closed :: "int list"
  s_hb_interval :: int
  s_ack :: bool
  s_timers :: nat
  s_hello_set :: nat
  s_invalid :: "'j list"
  s_to_identify :: nat
  s_reading :: bool
  s_sent :: "ws_message list"
  s_calls :: "call list"
  s_vc_guilds :: "snowflake \<Rightarrow> bool"
  s_voice_connections :: "snowflake \<Rightarrow> bool"
  s_endpoint_promises :: "snowflake \<rightharpoonup> 'j list"
  s_session_promises :: "snowflake \<rightharpoonup> string list"

definition initial_shard :: "'j json_api \<Rightarrow> 'j shard" where
  "initial_shard J = \<lparr>s_seq = 0, s_guilds = Map.empty, s_dms = Map.empty, s_deleted_dms = [], s_backed_up = Map.empty,
     s_chunks_left = Map.empty, s_self = default_user, s_session_id = '''', s_trace = [], s_trace2 = j_null J,
     s_status = St_online, s_game = '''', s_disconnected = False, s_closed = [], s_hb_interval = 0, s_ack = False,
     s_timers = 0, s_hello_set = 0, s_invalid = [], s_to_identify = 0, s_reading = True, s_sent = [], s_calls = [],
     s_vc_guilds = (\<lambda>_. False), s_voice_connections = (\<lambda>_. False), s_endpoint_promises = Map.empty,
     s_session_promises = Map.empty\<rparr>"

record 'j config =
  c_json :: "'j json_api"
  c_intents :: intents
  c_has :: "callback \<Rightarrow> bool"
  c_throws :: "call \<Rightarrow> bool"
  c_token :: string
  c_shard_number :: int
  c_num_shards :: int

definition large_threshold :: int where "large_threshold = 51"

section \<open>Common steps\<close>

text \<open>A field of the event, which is a variable object.\<close>

definition ev :: "'j config \<Rightarrow> 'j \<Rightarrow> string \<Rightarrow> ('j json_api \<Rightarrow> 'j \<Rightarrow> 'a res) \<Rightarrow> 'a res" where
  "ev c e k rd = rbind (at_mut (c_json c) e k) (rd (c_json c))"

definition ev_guild_id :: "'j config \<Rightarrow> 'j \<Rightarrow> snowflake res" where
  "ev_guild_id c e = value_or (as_sf (c_json c)) no_id (c_json c) e ''guild_id''"

definition invoke :: "'j config \<Rightarrow> callback \<Rightarrow> arg list \<Rightarrow> 'j shard handler" where
  "invoke c cb args s =
     (if c_throws c (cb, args) then Some Throws else None, s\<lparr>s_calls := s_calls s @ [(cb, args)]\<rparr>)"

definition call_if :: "'j config \<Rightarrow> callback \<Rightarrow> arg list \<Rightarrow> 'j shard handler" where
  "call_if c cb args = (if c_has c cb then invoke c cb args else hdone)"

definition send :: "ws_message \<Rightarrow> 'j shard handler" where
  "send m = hmod (\<lambda>s. s\<lparr>s_sent := s_sent s @ [m]\<rparr>)"

definition put_guild :: "snowflake \<Rightarrow> 'j guild_and_stuff \<Rightarrow> 'j shard \<Rightarrow> 'j shard" where
  "put_guild i gs s = s\<lparr>s_guilds := (s_guilds s)(i \<mapsto> gs)\<rparr>"

text \<open>A step on the guild stored under an id, whose pointer is dereferenced.\<close>

definition in_guild :: "snowflake \<Rightarrow> 'j guild_and_stuff handler \<Rightarrow> 'j shard handler" where
  "in_guild i h s =
     (case s_guilds s i of None \<Rightarrow> (Some Undef, s)
      | Some gs \<Rightarrow> (case h gs of (r, gs') \<Rightarrow> (r, put_guild i gs' s)))"

text \<open>\<open>find\<close>, with an early return when the guild is not there.\<close>

definition with_guild :: "snowflake \<Rightarrow> ('j guild_and_stuff \<Rightarrow> 'j shard handler) \<Rightarrow> 'j shard handler" where
  "with_guild i k s = (case s_guilds s i of None \<Rightarrow> (None, s) | Some gs \<Rightarrow> k gs s)"

definition back_up :: "snowflake \<Rightarrow> 'j \<Rightarrow> event_name \<Rightarrow> 'j shard handler" where
  "back_up key e ename =
     hmod (\<lambda>s. s\<lparr>s_backed_up := (s_backed_up s)(key \<mapsto>
       (case s_backed_up s key of None \<Rightarrow> [] | Some es \<Rightarrow> es) @ [(e, ename)])\<rparr>)"

definition if_ready ::
  "'j guild_and_stuff \<Rightarrow> snowflake \<Rightarrow> 'j \<Rightarrow> event_name \<Rightarrow> 'j shard handler \<Rightarrow> 'j shard handler" where
  "if_ready gs key e ename h = (if g_is_ready (gs_guild gs) then h else back_up key e ename)"

definition gs_id :: "'j guild_and_stuff \<Rightarrow> snowflake" where
  "gs_id gs = pg_id (gs_guild gs)"

text \<open>\<open>erase_first_quick\<close>: the last element takes the place of the first match.\<close>

definition erase_first_quick :: "'a list \<Rightarrow> 'a \<Rightarrow> bool \<times> 'a list" where
  "erase_first_quick xs v =
     (let i = find_index (\<lambda>x. x = v) xs in
      if i = length xs then (False, xs) else (True, butlast (xs[i := last xs])))"

text \<open>A part of the guild: the class \<open>Guild\<close> itself.\<close>

definition guild_part :: "'j guild handler \<Rightarrow> 'j guild_and_stuff handler" where
  "guild_part = hpart gs_guild (\<lambda>g gs. gs\<lparr>gs_guild := g\<rparr>)"

end
