(* ===== verification/Shard_Events.thy ===== *)
theory Shard_Events
  imports Shard_State
begin

text \<open>
  The handlers of the gateway's events: the specialisations of \<open>internal_shard::procces_event\<close> in
  \<open>src/internal_shard.cpp\<close>, one definition per event. A handler's argument \<open>e\<close> is the event's data.
  Events for a guild whose members have not all come are kept back where the code keeps them back.
\<close>

section \<open>Presences\<close>

definition apply_presence :: "'j json_api \<Rightarrow> 'j \<Rightarrow> 'j guild handler" where
  "apply_presence J presence =
     hread (rbind (rbind (at_const J presence ''user'') (\<lambda>u. at_const J u ''id'')) (as_sf J)) (\<lambda>i.
     hread (rbind (at_const J presence ''activities'') (as_vector (read_activity J) J)) (\<lambda>acts.
     hthen (hmod (\<lambda>g. if g_activities g i = None then g\<lparr>g_activities := (g_activities g)(i \<mapsto> acts)\<rparr> else g))
     (hread (rbind (at_const J presence ''status'') (as_str J)) (\<lambda>st.
        hmod (\<lambda>g. g\<lparr>g_status := (g_status g)(i \<mapsto> string_to_status st)\<rparr>)))))"

definition apply_presences :: "'j json_api \<Rightarrow> 'j \<Rightarrow> 'j guild handler" where
  "apply_presences J presences = heach (apply_presence J) (j_items J presences)"

section \<open>Session events\<close>

definition on_event_ready :: "'j config \<Rightarrow> 'j \<Rightarrow> 'j shard handler" where
  "on_event_ready c e =
     hread (at_mut (c_json c) e ''_trace'') (\<lambda>t.
     hthen (hmod (\<lambda>s. s\<lparr>s_trace2 := t\<rparr>))
     (hread (ev c e ''user'' read_user) (\<lambda>u.
     hthen (hmod (\<lambda>s. s\<lparr>s_self := u\<rparr>))
     (hread (ev c e ''session_id'' as_str) (\<lambda>sid.
     hthen (hmod (\<lambda>s. s\<lparr>s_session_id := sid\<rparr>))
     (call_if c On_ready []))))))"

definition on_event_resumed :: "'j config \<Rightarrow> 'j \<Rightarrow> 'j shard handler" where
  "on_event_resumed c e =
     hread (ev c e ''_trace'' (\<lambda>J. as_vector (as_str J) J)) (\<lambda>t. hmod (\<lambda>s. s\<lparr>s_trace := t\<rparr>))"

definition on_event_hello :: "'j config \<Rightarrow> 'j \<Rightarrow> 'j shard handler" where
  "on_event_hello c e =
     hread (rbind (at_checked (c_json c) e ''_trace'') (as_vector (as_str (c_json c)) (c_json c))) (\<lambda>t.
     hthen (hmod (\<lambda>s. s\<lparr>s_trace := t\<rparr>))
     (hread (ev c e ''heartbeat_interval'' as_int) (\<lambda>n. hmod (\<lambda>s. s\<lparr>s_hb_interval := n\<rparr>))))"

definition on_user_update :: "'j config \<Rightarrow> 'j \<Rightarrow> 'j shard handler" where
  "on_user_update c e = hread (read_user (c_json c) e) (\<lambda>u. hmod (\<lambda>s. s\<lparr>s_self := u\<rparr>))"

section \<open>Guilds appear and change\<close>

text \<open>The members a small guild comes with: the first member of an id stays.\<close>

definition insert_member :: "guild_member \<Rightarrow> 'j guild_and_stuff \<Rightarrow> 'j guild_and_stuff" where
  "insert_member m gs =
     (if gs_members gs (u_id m) = None then gs\<lparr>gs_members := (gs_members gs)(u_id m \<mapsto> m)\<rparr> else gs)"

definition create_members :: "'j json_api \<Rightarrow> 'j list \<Rightarrow> 'j guild_and_stuff handler" where
  "create_members J = heach (\<lambda>mj. hread (read_member J mj) (\<lambda>m. hmod (insert_member m)))"

text \<open>
  Inserting a new channel and filling what is stored under the id: for a text, a voice channel and a
  category. A null category would be dereferenced.
\<close>

definition fill_text :: "'j json_api \<Rightarrow> snowflake \<Rightarrow> 'j \<Rightarrow> 'j guild_and_stuff handler" where
  "fill_text J i e gs =
     (let ch = (case gs_text gs i of None \<Rightarrow> default_text_channel | Some ch \<Rightarrow> ch)
      in case fill (text_channel_fields J e) ch of (r, ch') \<Rightarrow> (r, gs\<lparr>gs_text := (gs_text gs)(i \<mapsto> ch')\<rparr>))"

definition fill_voice :: "'j json_api \<Rightarrow> snowflake \<Rightarrow> 'j \<Rightarrow> 'j guild_and_stuff handler" where
  "fill_voice J i e gs =
     (let ch = (case gs_voice gs i of None \<Rightarrow> default_voice_channel | Some ch \<Rightarrow> ch)
      in case fill (voice_channel_fields J e) ch of (r, ch') \<Rightarrow> (r, gs\<lparr>gs_voice := (gs_voice gs)(i \<mapsto> ch')\<rparr>))"

definition fill_category :: "'j json_api \<Rightarrow> snowflake \<Rightarrow> 'j \<Rightarrow> 'j guild_and_stuff handler" where
  "fill_category J i e gs =
     (case (case gs_categories gs i of None \<Rightarrow> Some default_guild_channel | Some p \<Rightarrow> p) of
        None \<Rightarrow> (Some Undef, gs)
      | Some ch \<Rightarrow>
          (case fill (guild_channel_fields J e) ch of (r, ch') \<Rightarrow>
             (r, gs\<lparr>gs_categories := (gs_categories gs)(i \<mapsto> Some ch')\<rparr>)))"

definition upd_text :: "snowflake \<Rightarrow> (text_channel \<Rightarrow> text_channel) \<Rightarrow> 'j guild_and_stuff \<Rightarrow> 'j guild_and_stuff" where
  "upd_text i f gs = gs\<lparr>gs_text := (gs_text gs)(i := map_option f (gs_text gs i))\<rparr>"

definition upd_voice :: "snowflake \<Rightarrow> (voice_channel \<Rightarrow> voice_channel) \<Rightarrow> 'j guild_and_stuff \<Rightarrow> 'j guild_and_stuff" where
  "upd_voice i f gs = gs\<lparr>gs_voice := (gs_voice gs)(i := map_option f (gs_voice gs i))\<rparr>"

definition upd_category :: "snowflake \<Rightarrow> (guild_channel \<Rightarrow> guild_channel) \<Rightarrow> 'j guild_and_stuff \<Rightarrow> 'j guild_and_stuff" where
  "upd_category i f gs = gs\<lparr>gs_categories := (gs_categories gs)(i := map_option (map_option f) (gs_categories gs i))\<rparr>"

definition upd_guild :: "('j guild \<Rightarrow> 'j guild) \<Rightarrow> 'j guild_and_stuff \<Rightarrow> 'j guild_and_stuff" where
  "upd_guild f gs = gs\<lparr>gs_guild := f (gs_guild gs)\<rparr>"

definition set_text_type :: "int \<Rightarrow> text_channel \<Rightarrow> text_channel" where
  "set_text_type type ch =
     (if type = 5 then ch\<lparr>tc_type := Tc_news\<rparr> else if type = 6 then ch\<lparr>tc_type := Tc_store\<rparr> else ch)"

definition text_id :: "'j guild_and_stuff \<Rightarrow> snowflake \<Rightarrow> snowflake" where
  "text_id gs i = (case gs_text gs i of None \<Rightarrow> i | Some ch \<Rightarrow> pc_id ch)"

definition voice_id :: "'j guild_and_stuff \<Rightarrow> snowflake \<Rightarrow> snowflake" where
  "voice_id gs i = (case gs_voice gs i of None \<Rightarrow> i | Some ch \<Rightarrow> pc_id ch)"

definition category_id :: "'j guild_and_stuff \<Rightarrow> snowflake \<Rightarrow> snowflake" where
  "category_id gs i = (case gs_categories gs i of Some (Some ch) \<Rightarrow> pc_id ch | _ \<Rightarrow> i)"

text \<open>One channel of a new guild, by its type.\<close>

definition create_channel :: "'j json_api \<Rightarrow> 'j \<Rightarrow> 'j guild_and_stuff handler" where
  "create_channel J e =
     hread (rbind (at_const J e ''type'') (as_int J)) (\<lambda>type.
       if type = 0 \<or> type = 5 \<or> type = 6 then
         hread (rbind (at_const J e ''id'') (as_sf J)) (\<lambda>i. hseq
           [fill_text J i e,
            hmod (\<lambda>gs. upd_text i (\<lambda>ch. ch\<lparr>gc_guild_id := gs_id gs\<rparr>) gs),
            hmod (\<lambda>gs. upd_guild (\<lambda>g. g\<lparr>g_text_ids := g_text_ids g @ [text_id gs i]\<rparr>) gs),
            hmod (upd_text i (set_text_type type))])
       else if type = 2 then
         hread (rbind (at_const J e ''id'') (as_sf J)) (\<lambda>i. hseq
           [fill_voice J i e,
            hmod (\<lambda>gs. upd_voice i (\<lambda>ch. ch\<lparr>gc_guild_id := gs_id gs\<rparr>) gs),
            hmod (\<lambda>gs. upd_guild (\<lambda>g. g\<lparr>g_voice_ids := g_voice_ids g @ [voice_id gs i]\<rparr>) gs)])
       else if type = 4 then
         hread (rbind (at_const J e ''id'') (as_sf J)) (\<lambda>i. hseq
           [fill_category J i e,
            hmod (\<lambda>gs. upd_category i (\<lambda>ch. ch\<lparr>gc_guild_id := gs_id gs\<rparr>) gs),
            hmod (\<lambda>gs. upd_guild (\<lambda>g. g\<lparr>g_category_ids := g_category_ids g @ [category_id gs i]\<rparr>) gs)])
       else hdone)"

text \<open>
  The parent of a channel: \<open>operator[]\<close> on the categories, which inserts a null pointer for a category
  that is not there. \<open>set_parents\<close> is the loop over the channels of a map; the keys it visits are the
  ids the channels were listed under.
\<close>

definition parent_pointer :: "(snowflake \<rightharpoonup> guild_channel option) \<Rightarrow> snowflake \<Rightarrow> snowflake option" where
  "parent_pointer cats p = (case cats p of Some (Some _) \<Rightarrow> Some p | _ \<Rightarrow> None)"

definition touch_category :: "snowflake \<Rightarrow> 'j guild_and_stuff \<Rightarrow> 'j guild_and_stuff" where
  "touch_category p gs =
     (if gs_categories gs p = None then gs\<lparr>gs_categories := (gs_categories gs)(p \<mapsto> None)\<rparr> else gs)"

definition set_text_parent :: "snowflake \<Rightarrow> 'j guild_and_stuff \<Rightarrow> 'j guild_and_stuff" where
  "set_text_parent i gs =
     (case gs_text gs i of None \<Rightarrow> gs
      | Some ch \<Rightarrow>
          if gc_parent_id ch = no_id then gs
          else upd_text i (\<lambda>ch. ch\<lparr>gc_parent := parent_pointer (gs_categories gs) (gc_parent_id ch)\<rparr>)
                 (touch_category (gc_parent_id ch) gs))"

definition set_voice_parent :: "snowflake \<Rightarrow> 'j guild_and_stuff \<Rightarrow> 'j guild_and_stuff" where
  "set_voice_parent i gs =
     (case gs_voice gs i of None \<Rightarrow> gs
      | Some ch \<Rightarrow>
          if gc_parent_id ch = no_id then gs
          else upd_voice i (\<lambda>ch. ch\<lparr>gc_parent := parent_pointer (gs_categories gs) (gc_parent_id ch)\<rparr>)
                 (touch_category (gc_parent_id ch) gs))"

definition set_parents :: "'j guild_and_stuff \<Rightarrow> 'j guild_and_stuff" where
  "set_parents gs =
     (let gs1 = fold set_text_parent (g_text_ids (gs_guild gs)) gs
      in fold set_voice_parent (g_voice_ids (gs_guild gs1)) gs1)"

text \<open>A guild is large when it has at least 51 members.\<close>

definition waits_for_members :: "'j config \<Rightarrow> 'j guild \<Rightarrow> bool" where
  "waits_for_members c g \<longleftrightarrow> has_intents (c_intents c) GUILD_MEMBERS \<and> g_member_count g \<ge> large_threshold"

definition create_presences :: "'j config \<Rightarrow> 'j \<Rightarrow> 'j guild_and_stuff handler" where
  "create_presences c e =
     (if has_intents (c_intents c) GUILD_PRESENCES then
        hread (at_mut (c_json c) e ''presences'') (\<lambda>p. guild_part (\<lambda>g.
          if g_is_ready g then apply_presences (c_json c) p g else (None, g\<lparr>g_presences := p\<rparr>)))
      else hdone)"

definition if_guild_ready :: "snowflake \<Rightarrow> 'j shard handler \<Rightarrow> 'j shard handler" where
  "if_guild_ready i h =
     hget (\<lambda>s. case s_guilds s i of None \<Rightarrow> hdone
               | Some gs \<Rightarrow> if g_is_ready (gs_guild gs) then h else hdone)"

definition on_guild_create :: "'j config \<Rightarrow> 'j \<Rightarrow> 'j shard handler" where
  "on_guild_create c e =
     hread (ev c e ''id'' as_sf) (\<lambda>i. hseq
       [hmod (put_guild i (new_guild_and_stuff (c_json c))),
        in_guild i (guild_part (fill (guild_fields (c_json c) e))),
        hget (\<lambda>s. in_guild i (hmod (upd_guild (\<lambda>g. g\<lparr>g_bot_id := u_id (s_self s)\<rparr>)))),
        hget (\<lambda>s. case s_guilds s i of None \<Rightarrow> hdone | Some gs \<Rightarrow>
          if waits_for_members c (gs_guild gs) then
            hthen (in_guild i (hmod (upd_guild (\<lambda>g. g\<lparr>g_is_ready := False\<rparr>))))
                  (send (Ws_request_members (gs_id gs)))
          else if has_intents (c_intents c) GUILD_MEMBERS then
            hread (at_mut (c_json c) e ''members'') (\<lambda>ms. in_guild i (create_members (c_json c) (j_items (c_json c) ms)))
          else hdone),
        hread (ev c e ''channels'' as_arr) (\<lambda>chs. in_guild i (heach (create_channel (c_json c)) chs)),
        in_guild i (hmod set_parents),
        in_guild i (create_presences c e),
        if_guild_ready i (call_if c On_guild_ready [A_guild i])])"

definition on_guild_update :: "'j config \<Rightarrow> 'j \<Rightarrow> 'j shard handler" where
  "on_guild_update c e =
     hread (ev c e ''id'' as_sf) (\<lambda>i. with_guild i (\<lambda>gs. if_ready gs i e GUILD_UPDATE
       (hthen (in_guild i (guild_part (fill (partial_guild_fields (c_json c) e))))
              (call_if c On_guild_update [A_guild i]))))"

text \<open>The field \<open>unavailable\<close> must be there. The callback is not called.\<close>

definition on_guild_delete :: "'j config \<Rightarrow> 'j \<Rightarrow> 'j shard handler" where
  "on_guild_delete c e =
     hread (ev c e ''unavailable'' as_bool) (\<lambda>_.
     hread (ev c e ''id'' as_sf) (\<lambda>i.
       hmod (\<lambda>s. s\<lparr>s_guilds := (s_guilds s)(i := None)\<rparr>)))"

definition on_guild_ban_add :: "'j config \<Rightarrow> 'j \<Rightarrow> 'j shard handler" where
  "on_guild_ban_add c e =
     (if c_has c On_ban_add then
        hread (ev c e ''guild_id'' as_sf) (\<lambda>i. with_guild i (\<lambda>gs.
          hread (ev c e ''user'' read_user) (\<lambda>u. invoke c On_ban_add [A_guild (gs_id gs), A_user u])))
      else hdone)"

definition on_guild_ban_remove :: "'j config \<Rightarrow> 'j \<Rightarrow> 'j shard handler" where
  "on_guild_ban_remove c e =
     (if c_has c On_ban_remove then
        hread (ev c e ''guild_id'' as_sf) (\<lambda>i. with_guild i (\<lambda>gs.
          hread (ev c e ''user'' read_user) (\<lambda>u. invoke c On_ban_remove [A_guild (gs_id gs), A_user u])))
      else hdone)"

text \<open>The old emojis are moved away before the new ones are read.\<close>

definition on_guild_emoji_update :: "'j config \<Rightarrow> 'j \<Rightarrow> 'j shard handler" where
  "on_guild_emoji_update c e =
     hread (ev c e ''guild_id'' as_sf) (\<lambda>i. with_guild i (\<lambda>gs.
       hthen (in_guild i (hmod (upd_guild (\<lambda>g. g\<lparr>pg_emojis := []\<rparr>))))
       (hread (ev c e ''emojis'' (\<lambda>J. as_vector (read_emoji J) J)) (\<lambda>es.
        hthen (in_guild i (hmod (upd_guild (\<lambda>g. g\<lparr>pg_emojis := es\<rparr>))))
              (call_if c On_emoji_update [A_emojis (pg_emojis (gs_guild gs)), A_emojis es, A_guild (gs_id gs)])))))"

section \<open>Members\<close>

definition store_member :: "guild_member \<Rightarrow> 'j guild_and_stuff \<Rightarrow> 'j guild_and_stuff" where
  "store_member m gs = gs\<lparr>gs_members := (gs_members gs)(u_id m \<mapsto> m)\<rparr>"

text \<open>The count of the chunks that are left, one less; an absent or zero count starts from the event.\<close>

definition chunks_start :: "'j config \<Rightarrow> 'j \<Rightarrow> snowflake \<Rightarrow> 'j shard handler" where
  "chunks_start c e g =
     hthen (hmod (\<lambda>s. if s_chunks_left s g = None then s\<lparr>s_chunks_left := (s_chunks_left s)(g \<mapsto> 0)\<rparr> else s))
     (hget (\<lambda>s.
        if s_chunks_left s g = Some 0 then
          hread (ev c e ''chunk_count'' as_int) (\<lambda>n. hmod (\<lambda>s. s\<lparr>s_chunks_left := (s_chunks_left s)(g \<mapsto> n)\<rparr>))
        else hdone))"

definition chunks_dec :: "snowflake \<Rightarrow> 'j shard handler" where
  "chunks_dec g = hmod (\<lambda>s. s\<lparr>s_chunks_left := (s_chunks_left s)(g := map_option (\<lambda>n. n - 1) (s_chunks_left s g))\<rparr>)"

text \<open>The events kept back for a guild are taken and run by \<open>run\<close>, in order.\<close>

definition replay_events_for :: "('j \<Rightarrow> event_name \<Rightarrow> 'j shard handler) \<Rightarrow> snowflake \<Rightarrow> 'j shard handler" where
  "replay_events_for run g =
     hget (\<lambda>s. case s_backed_up s g of None \<Rightarrow> hdone
       | Some es \<Rightarrow>
           hthen (hmod (\<lambda>s. s\<lparr>s_backed_up := (s_backed_up s)(g := None)\<rparr>))
                 (heach (\<lambda>(e, ename). run e ename) es))"

text \<open>The guild's members have all come.\<close>

definition finish_loading ::
  "('j \<Rightarrow> event_name \<Rightarrow> 'j shard handler) \<Rightarrow> 'j config \<Rightarrow> snowflake \<Rightarrow> snowflake \<Rightarrow> 'j shard handler" where
  "finish_loading run c i g = hseq
     [hmod (\<lambda>s. s\<lparr>s_chunks_left := (s_chunks_left s)(g := None)\<rparr>),
      in_guild i (hmod (upd_guild (\<lambda>g. g\<lparr>g_is_ready := True\<rparr>))),
      in_guild i (guild_part (\<lambda>g. apply_presences (c_json c) (g_presences g) g)),
      call_if c On_guild_ready [A_guild g],
      replay_events_for run g,
      in_guild i (hmod (upd_guild (\<lambda>g. g\<lparr>g_presences := j_of_int (c_json c) 0\<rparr>)))]"

definition on_guild_members_chunk ::
  "('j \<Rightarrow> event_name \<Rightarrow> 'j shard handler) \<Rightarrow> 'j config \<Rightarrow> 'j \<Rightarrow> 'j shard handler" where
  "on_guild_members_chunk run c e =
     hread (ev c e ''guild_id'' as_sf) (\<lambda>i.
     hget (\<lambda>s. case s_guilds s i of None \<Rightarrow> hfail Undef
       | Some gs0 \<Rightarrow>
         let g = gs_id gs0 in hseq
         [hread (at_mut (c_json c) e ''members'') (\<lambda>ms. in_guild i
            (heach (\<lambda>mj. hread (read_member (c_json c) mj) (\<lambda>m. hmod (store_member m))) (j_items (c_json c) ms))),
          chunks_start c e g,
          chunks_dec g,
          hget (\<lambda>s. if s_chunks_left s g = Some 0 then finish_loading run c i g else hdone)]))"

definition on_guild_member_add :: "'j config \<Rightarrow> 'j \<Rightarrow> 'j shard handler" where
  "on_guild_member_add c e =
     hread (ev c e ''guild_id'' as_sf) (\<lambda>i. with_guild i (\<lambda>gs. if_ready gs i e GUILD_MEMBER_ADD
       (hread (read_member (c_json c) e) (\<lambda>m.
        hthen (in_guild i (hmod (insert_member m)))
        (hget (\<lambda>s. case Option.bind (s_guilds s i) (\<lambda>gs. gs_members gs (u_id m)) of
           None \<Rightarrow> hdone | Some m' \<Rightarrow> call_if c On_guild_member_add [A_member m']))))))"

definition on_guild_member_remove :: "'j config \<Rightarrow> 'j \<Rightarrow> 'j shard handler" where
  "on_guild_member_remove c e =
     hread (ev c e ''guild_id'' as_sf) (\<lambda>i. with_guild i (\<lambda>gs. if_ready gs (gs_id gs) e GUILD_MEMBER_REMOVE
       (hread (rbind (at_mut (c_json c) e ''user'') (\<lambda>u. ev c u ''id'' as_sf)) (\<lambda>u.
          case gs_members gs u of None \<Rightarrow> hdone
          | Some m \<Rightarrow>
              hthen (in_guild i (hmod (\<lambda>gs. upd_guild (\<lambda>g. g\<lparr>g_member_count := g_member_count g - 1\<rparr>)
                                     (gs\<lparr>gs_members := (gs_members gs)(u := None)\<rparr>))))
                    (call_if c On_guild_member_remove [A_member m])))))"

definition upd_member :: "snowflake \<Rightarrow> (guild_member \<Rightarrow> guild_member) \<Rightarrow> 'j guild_and_stuff \<Rightarrow> 'j guild_and_stuff" where
  "upd_member i f gs = gs\<lparr>gs_members := (gs_members gs)(i := map_option f (gs_members gs i))\<rparr>"

definition fill_member :: "snowflake \<Rightarrow> guild_member assignment list \<Rightarrow> 'j guild_and_stuff handler" where
  "fill_member i fs gs =
     (case gs_members gs i of None \<Rightarrow> (None, gs)
      | Some m \<Rightarrow> (case fill fs m of (r, m') \<Rightarrow> (r, gs\<lparr>gs_members := (gs_members gs)(i \<mapsto> m')\<rparr>)))"

definition nick_update :: "'j json_api \<Rightarrow> 'j \<Rightarrow> guild_member assignment" where
  "nick_update J e m =
     (case find_key J e ''nick'' of None \<Rightarrow> Inr m
      | Some v \<Rightarrow> if j_is_null J v then Inr m else assign (as_str J v) (\<lambda>v m. m\<lparr>gm_nick := v\<rparr>) m)"

definition on_guild_member_update :: "'j config \<Rightarrow> 'j \<Rightarrow> 'j shard handler" where
  "on_guild_member_update c e =
     hread (ev c e ''guild_id'' as_sf) (\<lambda>i. with_guild i (\<lambda>gs. if_ready gs (gs_id gs) e GUILD_MEMBER_UPDATE
       (hread (at_mut (c_json c) e ''user'') (\<lambda>user_json.
        hread (rbind (at_const (c_json c) user_json ''id'') (as_sf (c_json c))) (\<lambda>u.
          if gs_members gs u = None then hdone
          else
            hthen (in_guild i (fill_member u
              (user_fields (c_json c) user_json @
               [assign (ev c e ''roles'' (\<lambda>J. as_range (as_sf J) J)) (\<lambda>v m. m\<lparr>gm_roles := v\<rparr>),
                nick_update (c_json c) e])))
            (hget (\<lambda>s. case Option.bind (s_guilds s i) (\<lambda>gs. gs_members gs u) of
               None \<Rightarrow> hdone | Some m \<Rightarrow> call_if c On_guild_member_update [A_member m])))))))"

definition on_presence_update :: "'j config \<Rightarrow> 'j \<Rightarrow> 'j shard handler" where
  "on_presence_update c e =
     (if find_key (c_json c) e ''guild_id'' = None then hdone
      else
        hread (ev c e ''guild_id'' as_sf) (\<lambda>i. with_guild i (\<lambda>gs. if_ready gs (gs_id gs) e PRESENCE_UPDATE
          (hread (rbind (at_mut (c_json c) e ''user'') (\<lambda>u. ev c u ''id'' as_sf)) (\<lambda>u.
             case gs_members gs u of None \<Rightarrow> hdone
             | Some m \<Rightarrow>
                 hthen (case find_key (c_json c) e ''status'' of None \<Rightarrow> hdone
                        | Some v \<Rightarrow> hread (as_str (c_json c) v) (\<lambda>st.
                            in_guild i (hmod (upd_guild (\<lambda>g. g\<lparr>g_status := (g_status g)(u_id m \<mapsto> string_to_status st)\<rparr>)))))
                       (call_if c On_presence_update [A_member m]))))))"

section \<open>Roles\<close>

definition on_guild_role_create :: "'j config \<Rightarrow> 'j \<Rightarrow> 'j shard handler" where
  "on_guild_role_create c e =
     hread (ev c e ''guild_id'' as_sf) (\<lambda>i. with_guild i (\<lambda>gs. if_ready gs (gs_id gs) e GUILD_ROLE_CREATE
       (hread (rbind (at_mut (c_json c) e ''role'') (\<lambda>r. ev c r ''id'' as_sf)) (\<lambda>rid.
        hread (ev c e ''role'' read_role) (\<lambda>r.
          let r' = (case pg_roles (gs_guild gs) rid of None \<Rightarrow> r | Some old \<Rightarrow> old) in
          hthen (in_guild i (hmod (upd_guild (\<lambda>g. g\<lparr>pg_roles := (pg_roles g)(rid \<mapsto> r')\<rparr>))))
                (call_if c On_role_create [A_guild (gs_id gs), A_role r']))))))"

definition on_guild_role_update :: "'j config \<Rightarrow> 'j \<Rightarrow> 'j shard handler" where
  "on_guild_role_update c e =
     hread (ev c e ''guild_id'' as_sf) (\<lambda>i. with_guild i (\<lambda>gs. if_ready gs (gs_id gs) e GUILD_ROLE_UPDATE
       (hread (ev c e ''role'' read_role) (\<lambda>r.
          let old = (case pg_roles (gs_guild gs) (role_id r) of None \<Rightarrow> default_role | Some old \<Rightarrow> old) in
          hthen (in_guild i (hmod (upd_guild (\<lambda>g. g\<lparr>pg_roles := (pg_roles g)(role_id r \<mapsto> r)\<rparr>))))
                (call_if c On_role_update [A_guild (gs_id gs), A_role old, A_role r])))))"

text \<open>The members are reached through the guild's pointer to its containers.\<close>

definition on_guild_role_delete :: "'j config \<Rightarrow> 'j \<Rightarrow> 'j shard handler" where
  "on_guild_role_delete c e =
     hread (ev c e ''guild_id'' as_sf) (\<lambda>i. with_guild i (\<lambda>gs. if_ready gs (gs_id gs) e GUILD_ROLE_DELETE
       (hread (ev c e ''role_id'' as_sf) (\<lambda>rid.
        hread (or_throw (pg_roles (gs_guild gs) rid)) (\<lambda>old. hseq
          [in_guild i (hmod (upd_guild (\<lambda>g. g\<lparr>pg_roles := (pg_roles g)(rid := None)\<rparr>))),
           (if has_intents (c_intents c) GUILD_MEMBERS then
              if g_stuff (gs_guild gs) then
                in_guild i (hmod (\<lambda>gs. gs\<lparr>gs_members := (\<lambda>u. map_option
                  (\<lambda>m. m\<lparr>gm_roles := snd (erase_first_quick (gm_roles m) (role_id old))\<rparr>) (gs_members gs u))\<rparr>))
              else hfail Undef
            else hdone),
           call_if c On_role_delete [A_guild (gs_id gs), A_role old]])))))"

end
