(* ===== verification/Shard_Channels.thy ===== *)
theory Shard_Channels
  imports Shard_Events
begin

text \<open>
  The handlers of the events of channels (\<open>CHANNEL_CREATE\<close>, \<open>CHANNEL_UPDATE\<close>, \<open>CHANNEL_DELETE\<close>) of
  \<open>src/internal_shard.cpp\<close>, for channels of guilds and private ones.
\<close>

section \<open>Parents\<close>

text \<open>
  \<open>channel.m_parent = *ptr_or_null(categories, channel.m_parent_id)\<close>: the pointer that \<open>ptr_or_null\<close>
  returns is dereferenced, and it is null when the channel has no parent.
\<close>

definition link_text_parent :: "snowflake \<Rightarrow> 'j guild_and_stuff handler" where
  "link_text_parent i gs =
     (case gs_text gs i of None \<Rightarrow> (Some Undef, gs)
      | Some ch \<Rightarrow> if gc_parent_id ch = no_id then (Some Undef, gs) else (None, set_text_parent i gs))"

definition link_voice_parent :: "snowflake \<Rightarrow> 'j guild_and_stuff handler" where
  "link_voice_parent i gs =
     (case gs_voice gs i of None \<Rightarrow> (Some Undef, gs)
      | Some ch \<Rightarrow> if gc_parent_id ch = no_id then (Some Undef, gs) else (None, set_voice_parent i gs))"

text \<open>Calling back with what a guild has under an id.\<close>

definition call_text :: "'j config \<Rightarrow> callback \<Rightarrow> snowflake \<Rightarrow> snowflake \<Rightarrow> 'j shard handler" where
  "call_text c cb i ch = hget (\<lambda>s. case Option.bind (s_guilds s i) (\<lambda>gs. gs_text gs ch) of
     None \<Rightarrow> hdone | Some t \<Rightarrow> call_if c cb [A_text t])"

definition call_voice :: "'j config \<Rightarrow> callback \<Rightarrow> snowflake \<Rightarrow> snowflake \<Rightarrow> 'j shard handler" where
  "call_voice c cb i ch = hget (\<lambda>s. case Option.bind (s_guilds s i) (\<lambda>gs. gs_voice gs ch) of
     None \<Rightarrow> hdone | Some t \<Rightarrow> call_if c cb [A_voice t])"

definition call_category :: "'j config \<Rightarrow> callback \<Rightarrow> snowflake \<Rightarrow> snowflake \<Rightarrow> 'j shard handler" where
  "call_category c cb i ch = hget (\<lambda>s. case Option.bind (s_guilds s i) (\<lambda>gs. gs_categories gs ch) of
     Some (Some t) \<Rightarrow> call_if c cb [A_category t] | _ \<Rightarrow> hdone)"

section \<open>\<open>CHANNEL_CREATE\<close>\<close>

definition is_text_type :: "int \<Rightarrow> bool" where
  "is_text_type t \<longleftrightarrow> t = 0 \<or> t = 5 \<or> t = 6 \<or> t = 11 \<or> t = 12 \<or> t = 10"

definition add_text_channel :: "'j config \<Rightarrow> 'j \<Rightarrow> snowflake \<Rightarrow> snowflake \<Rightarrow> int \<Rightarrow> 'j shard handler" where
  "add_text_channel c e g i type = hseq
     [in_guild g (fill_text (c_json c) i e),
      in_guild g (hmod (upd_guild (\<lambda>g. g\<lparr>g_text_ids := g_text_ids g @ [i]\<rparr>))),
      in_guild g (link_text_parent i),
      in_guild g (hmod (upd_text i (set_text_type type))),
      call_text c On_guild_text_channel_create g i]"

definition add_voice_channel :: "'j config \<Rightarrow> 'j \<Rightarrow> snowflake \<Rightarrow> snowflake \<Rightarrow> 'j shard handler" where
  "add_voice_channel c e g i = hseq
     [in_guild g (fill_voice (c_json c) i e),
      in_guild g (hmod (upd_guild (\<lambda>g. g\<lparr>g_voice_ids := g_voice_ids g @ [i]\<rparr>))),
      in_guild g (link_voice_parent i),
      call_voice c On_guild_voice_channel_create g i]"

definition add_category :: "'j config \<Rightarrow> 'j \<Rightarrow> snowflake \<Rightarrow> snowflake \<Rightarrow> 'j shard handler" where
  "add_category c e g i = hseq
     [in_guild g (fill_category (c_json c) i e),
      in_guild g (hmod (upd_guild (\<lambda>g. g\<lparr>g_category_ids := g_category_ids g @ [i]\<rparr>))),
      call_category c On_guild_channel_catagory_create g i]"

definition on_channel_create :: "'j config \<Rightarrow> 'j \<Rightarrow> 'j shard handler" where
  "on_channel_create c e =
     hread (ev_guild_id c e) (\<lambda>g.
     hread (ev c e ''type'' as_int) (\<lambda>type.
       if g \<noteq> no_id then
         with_guild g (\<lambda>gs. if_ready gs g e CHANNEL_CREATE
           (hread (ev c e ''id'' as_sf) (\<lambda>i.
              if is_text_type type then add_text_channel c e g i type
              else if type = 2 then add_voice_channel c e g i
              else if type = 4 then add_category c e g i
              else hdone)))
       else if type = 1 \<or> type = 3 then
         hread (ev c e ''id'' as_sf) (\<lambda>i.
         hread (read_dm_channel (c_json c) e) (\<lambda>ch.
         hthen (hmod (\<lambda>s. if s_dms s i = None then s\<lparr>s_dms := (s_dms s)(i \<mapsto> ch)\<rparr> else s))
         (hget (\<lambda>s. case s_dms s i of None \<Rightarrow> hdone | Some ch' \<Rightarrow> call_if c On_dm_channel_create [A_dm ch']))))
       else hdone))"

section \<open>\<open>CHANNEL_UPDATE\<close>\<close>

text \<open>The channel must be there: a null pointer is dereferenced otherwise.\<close>

definition update_text_channel :: "'j config \<Rightarrow> 'j \<Rightarrow> snowflake \<Rightarrow> snowflake \<Rightarrow> int \<Rightarrow> 'j shard handler" where
  "update_text_channel c e g i type = hseq
     [in_guild g (\<lambda>gs. if gs_text gs i = None then (Some Undef, gs) else fill_text (c_json c) i e gs),
      in_guild g (link_text_parent i),
      in_guild g (hmod (upd_text i (set_text_type type))),
      call_text c On_guild_text_channel_update g i]"

definition update_voice_channel :: "'j config \<Rightarrow> 'j \<Rightarrow> snowflake \<Rightarrow> snowflake \<Rightarrow> 'j shard handler" where
  "update_voice_channel c e g i = hseq
     [in_guild g (\<lambda>gs. if gs_voice gs i = None then (Some Undef, gs) else fill_voice (c_json c) i e gs),
      in_guild g (link_voice_parent i),
      call_voice c On_guild_voice_channel_update g i]"

definition update_category :: "'j config \<Rightarrow> 'j \<Rightarrow> snowflake \<Rightarrow> snowflake \<Rightarrow> 'j shard handler" where
  "update_category c e g i = hseq
     [in_guild g (\<lambda>gs. if gs_categories gs i = None then (Some Undef, gs) else fill_category (c_json c) i e gs),
      call_category c On_guild_channel_catagory_update g i]"

definition on_channel_update :: "'j config \<Rightarrow> 'j \<Rightarrow> 'j shard handler" where
  "on_channel_update c e =
     hread (ev c e ''id'' as_sf) (\<lambda>i.
     hread (ev c e ''type'' as_int) (\<lambda>type.
     hthen (if type = 1 \<or> type = 3 then
              hread (read_dm_channel (c_json c) e) (\<lambda>ch. hmod (\<lambda>s. s\<lparr>s_dms := (s_dms s)(i \<mapsto> ch)\<rparr>))
            else hdone)
     (hread (ev_guild_id c e) (\<lambda>g.
        if g = no_id then hdone
        else with_guild g (\<lambda>_.
          if type = 0 \<or> type = 5 \<or> type = 6 then update_text_channel c e g i type
          else if type = 2 then update_voice_channel c e g i
          else if type = 4 then update_category c e g i
          else hdone)))))"

section \<open>\<open>CHANNEL_DELETE\<close>\<close>

text \<open>The channels of a deleted category lose it; a listed channel that is not stored would be a
  null pointer.\<close>

definition orphan_text :: "snowflake \<Rightarrow> snowflake \<Rightarrow> 'j guild_and_stuff handler" where
  "orphan_text cat i gs =
     (case gs_text gs i of None \<Rightarrow> (Some Undef, gs)
      | Some ch \<Rightarrow> (None, if gc_parent_id ch = cat
                       then upd_text i (\<lambda>ch. ch\<lparr>gc_parent := None, gc_parent_id := no_id\<rparr>) gs else gs))"

definition orphan_voice :: "snowflake \<Rightarrow> snowflake \<Rightarrow> 'j guild_and_stuff handler" where
  "orphan_voice cat i gs =
     (case gs_voice gs i of None \<Rightarrow> (Some Undef, gs)
      | Some ch \<Rightarrow> (None, if gc_parent_id ch = cat
                       then upd_voice i (\<lambda>ch. ch\<lparr>gc_parent := None, gc_parent_id := no_id\<rparr>) gs else gs))"

definition orphan_channels :: "snowflake \<Rightarrow> 'j guild_and_stuff handler" where
  "orphan_channels cat =
     hthen (hget (\<lambda>gs. heach (orphan_text cat) (g_text_ids (gs_guild gs))))
           (hget (\<lambda>gs. heach (orphan_voice cat) (g_voice_ids (gs_guild gs))))"

definition delete_text :: "'j config \<Rightarrow> snowflake \<Rightarrow> snowflake \<Rightarrow> 'j guild_and_stuff \<Rightarrow> 'j shard handler" where
  "delete_text c g i gs =
     (case gs_text gs i of None \<Rightarrow> hdone
      | Some ch \<Rightarrow>
          hthen (in_guild g (hmod (\<lambda>gs. gs\<lparr>gs_text := (gs_text gs)(i := None)\<rparr>)))
                (call_if c On_text_channel_delete [A_text ch]))"

definition delete_voice :: "'j config \<Rightarrow> snowflake \<Rightarrow> snowflake \<Rightarrow> 'j guild_and_stuff \<Rightarrow> 'j shard handler" where
  "delete_voice c g i gs =
     (case gs_voice gs i of None \<Rightarrow> hdone
      | Some ch \<Rightarrow>
          hthen (in_guild g (hmod (\<lambda>gs. gs\<lparr>gs_voice := (gs_voice gs)(i := None)\<rparr>)))
                (call_if c On_voice_channel_delete [A_voice ch]))"

definition delete_category :: "'j config \<Rightarrow> snowflake \<Rightarrow> snowflake \<Rightarrow> 'j guild_and_stuff \<Rightarrow> 'j shard handler" where
  "delete_category c g i gs =
     (case gs_categories gs i of None \<Rightarrow> hdone
      | Some ch \<Rightarrow> hseq
          [in_guild g (hmod (\<lambda>gs. gs\<lparr>gs_categories := (gs_categories gs)(i := None)\<rparr>)),
           in_guild g (orphan_channels i),
           if c_has c On_channel_catagory_delete then
             (case ch of None \<Rightarrow> hfail Undef | Some ch \<Rightarrow> invoke c On_channel_catagory_delete [A_category ch])
           else hdone])"

definition on_channel_delete :: "'j config \<Rightarrow> 'j \<Rightarrow> 'j shard handler" where
  "on_channel_delete c e =
     hread (ev c e ''id'' as_sf) (\<lambda>i.
     hread (ev_guild_id c e) (\<lambda>g.
       if g \<noteq> no_id then
         with_guild g (\<lambda>gs. if_ready gs g e CHANNEL_DELETE
           (case erase_first_quick (g_text_ids (gs_guild gs)) i of
              (True, ids) \<Rightarrow>
                hthen (in_guild g (hmod (upd_guild (\<lambda>g. g\<lparr>g_text_ids := ids\<rparr>)))) (delete_text c g i gs)
            | (False, _) \<Rightarrow>
           (case erase_first_quick (g_voice_ids (gs_guild gs)) i of
              (True, ids) \<Rightarrow>
                hthen (in_guild g (hmod (upd_guild (\<lambda>g. g\<lparr>g_voice_ids := ids\<rparr>)))) (delete_voice c g i gs)
            | (False, _) \<Rightarrow>
           (case erase_first_quick (g_category_ids (gs_guild gs)) i of
              (True, ids) \<Rightarrow>
                hthen (in_guild g (hmod (upd_guild (\<lambda>g. g\<lparr>g_category_ids := ids\<rparr>)))) (delete_category c g i gs)
            | (False, _) \<Rightarrow> hdone))))
       else
         hget (\<lambda>s. case s_dms s i of None \<Rightarrow> hdone
           | Some ch \<Rightarrow>
               hthen (hmod (\<lambda>s. s\<lparr>s_dms := (s_dms s)(i := None), s_deleted_dms := s_deleted_dms s @ [ch]\<rparr>))
                     (call_if c On_dm_channel_delete [A_dm ch]))))"

end
