(* ===== verification/Shard_Messages.thy ===== *)
theory Shard_Messages
  imports Shard_Events
begin

text \<open>
  The handlers of messages, reactions, typing and voice of \<open>src/internal_shard.cpp\<close>. Those whose
  callback is not set return at once, without keeping the event back.
\<close>

definition with_text :: "'j guild_and_stuff \<Rightarrow> snowflake \<Rightarrow> 'j shard handler \<Rightarrow> 'j shard handler" where
  "with_text gs ch h = (if gs_text gs ch = None then hdone else h)"

definition with_text' :: "'j guild_and_stuff \<Rightarrow> snowflake \<Rightarrow> (text_channel \<Rightarrow> 'j shard handler) \<Rightarrow> 'j shard handler" where
  "with_text' gs ch k = (case gs_text gs ch of None \<Rightarrow> hdone | Some t \<Rightarrow> k t)"

definition with_dm :: "snowflake \<Rightarrow> (dm_channel \<Rightarrow> 'j shard handler) \<Rightarrow> 'j shard handler" where
  "with_dm i k = hget (\<lambda>s. case s_dms s i of None \<Rightarrow> hdone | Some ch \<Rightarrow> k ch)"

text \<open>\<open>m_dm_channels[i]\<close> and \<open>channel.m_recipients[u]\<close>, which insert what is not there.\<close>

definition touch_dm :: "snowflake \<Rightarrow> 'j shard handler" where
  "touch_dm i = hmod (\<lambda>s. if s_dms s i = None then s\<lparr>s_dms := (s_dms s)(i \<mapsto> default_dm_channel)\<rparr> else s)"

definition touch_recipient :: "snowflake \<Rightarrow> snowflake \<Rightarrow> 'j shard handler" where
  "touch_recipient i u = hmod (\<lambda>s. s\<lparr>s_dms := (s_dms s)(i := map_option (\<lambda>ch.
     if dm_recipients ch u = None then ch\<lparr>dm_recipients := (dm_recipients ch)(u \<mapsto> default_user)\<rparr> else ch)
       (s_dms s i))\<rparr>)"

definition with_recipient ::
  "snowflake \<Rightarrow> snowflake \<Rightarrow> (user \<Rightarrow> dm_channel \<Rightarrow> 'j shard handler) \<Rightarrow> 'j shard handler" where
  "with_recipient i u k = hthen (touch_recipient i u)
     (with_dm i (\<lambda>ch. case dm_recipients ch u of None \<Rightarrow> hdone | Some p \<Rightarrow> k p ch))"

section \<open>Messages\<close>

definition on_message_create :: "'j config \<Rightarrow> 'j \<Rightarrow> 'j shard handler" where
  "on_message_create c e =
     hread (ev_guild_id c e) (\<lambda>g.
       if g \<noteq> no_id then
         if c_has c On_guild_text_msg then
           hread (ev c e ''channel_id'' as_sf) (\<lambda>ch.
           hget (\<lambda>s. hread (or_throw (s_guilds s g)) (\<lambda>gs. if_ready gs (gs_id gs) e MESSAGE_CREATE
             (with_text gs ch (hread (create_guild_msg (c_json c) ch e) (\<lambda>m. invoke c On_guild_text_msg [A_msg m]))))))
         else hdone
       else if c_has c On_dm_msg then
         hread (ev c e ''channel_id'' as_sf) (\<lambda>ch. with_dm ch (\<lambda>_.
         hread (create_dm_msg (c_json c) ch e) (\<lambda>m. invoke c On_dm_msg [A_dm_msg m])))
       else hdone)"

definition on_message_update :: "'j config \<Rightarrow> 'j \<Rightarrow> 'j shard handler" where
  "on_message_update c e =
     hread (ev_guild_id c e) (\<lambda>g.
       if g \<noteq> no_id then
         if c_has c On_guild_msg_update then
           with_guild g (\<lambda>gs. if_ready gs g e MESSAGE_UPDATE
             (hread (ev c e ''channel_id'' as_sf) (\<lambda>ch. with_text gs ch
             (hread (create_guild_msg_update (c_json c) ch (pg_roles (gs_guild gs)) e) (\<lambda>m.
                invoke c On_guild_msg_update [A_update m])))))
         else hdone
       else if c_has c On_dm_msg_update then
         hread (ev c e ''channel_id'' as_sf) (\<lambda>ch. with_dm ch (\<lambda>_.
         hread (create_dm_msg_update (c_json c) ch e) (\<lambda>m. invoke c On_dm_msg_update [A_dm_update m])))
       else hdone)"

definition on_message_delete :: "'j config \<Rightarrow> 'j \<Rightarrow> 'j shard handler" where
  "on_message_delete c e =
     hread (ev_guild_id c e) (\<lambda>g.
       if g \<noteq> no_id then
         if c_has c On_guild_msg_delete then
           with_guild g (\<lambda>gs. if_ready gs (gs_id gs) e MESSAGE_DELETE
             (hread (ev c e ''channel_id'' as_sf) (\<lambda>ch.
              hread (ev c e ''id'' as_sf) (\<lambda>m. with_text' gs ch (\<lambda>t.
                invoke c On_guild_msg_delete [A_id m, A_text t])))))
         else hdone
       else
         hread (ev c e ''channel_id'' as_sf) (\<lambda>ch. hthen (touch_dm ch)
           (if c_has c On_dm_msg_delete then
              hread (ev c e ''id'' as_sf) (\<lambda>m. with_dm ch (\<lambda>d. invoke c On_dm_msg_delete [A_id m, A_dm d]))
            else hdone)))"

definition on_message_delete_bulk :: "'j config \<Rightarrow> 'j \<Rightarrow> 'j shard handler" where
  "on_message_delete_bulk c e =
     hread (ev_guild_id c e) (\<lambda>g.
       if g \<noteq> no_id then
         if c_has c On_message_bulk then
           with_guild g (\<lambda>gs. if_ready gs g e MESSAGE_DELETE_BULK
             (hread (ev c e ''channel_id'' as_sf) (\<lambda>ch. with_text' gs ch (\<lambda>t.
              hread (ev c e ''ids'' (\<lambda>J. as_vector (as_sf J) J)) (\<lambda>ids.
                invoke c On_message_bulk [A_ids ids, A_text t])))))
         else hdone
       else if c_has c On_dm_message_bulk then
         hread (ev c e ''channel_id'' as_sf) (\<lambda>ch. with_dm ch (\<lambda>d.
         hread (ev c e ''ids'' (\<lambda>J. as_vector (as_sf J) J)) (\<lambda>ids.
           invoke c On_dm_message_bulk [A_ids ids, A_dm d])))
       else hdone)"

section \<open>Reactions\<close>

definition on_reaction_add :: "'j config \<Rightarrow> 'j \<Rightarrow> 'j shard handler" where
  "on_reaction_add c e =
     hread (ev c e ''channel_id'' as_sf) (\<lambda>ch.
     hread (ev_guild_id c e) (\<lambda>g.
       if g \<noteq> no_id then
         if c_has c On_guild_reaction_add then
           with_guild g (\<lambda>gs. if_ready gs g e MESSAGE_REACTION_ADD
             (with_text' gs ch (\<lambda>t.
              hread (ev c e ''member'' read_member) (\<lambda>m.
              hread (ev c e ''emoji'' read_emoji) (\<lambda>em.
              hread (ev c e ''message_id'' as_sf) (\<lambda>mid.
                invoke c On_guild_reaction_add [A_member m, A_text t, A_id mid, A_emoji em]))))))
         else hdone
       else if c_has c On_dm_reaction_add then
         with_dm ch (\<lambda>_.
         hread (ev c e ''user_id'' as_sf) (\<lambda>u. with_recipient ch u (\<lambda>p d.
         hread (ev c e ''emoji'' read_emoji) (\<lambda>em.
         hread (ev c e ''message_id'' as_sf) (\<lambda>mid.
           invoke c On_dm_reaction_add [A_user p, A_dm d, A_id mid, A_emoji em])))))
       else hdone))"

definition on_reaction_remove :: "'j config \<Rightarrow> 'j \<Rightarrow> 'j shard handler" where
  "on_reaction_remove c e =
     hread (ev_guild_id c e) (\<lambda>g.
       if g \<noteq> no_id then
         with_guild g (\<lambda>gs. if_ready gs g e MESSAGE_REACTION_REMOVE
           (hread (ev c e ''channel_id'' as_sf) (\<lambda>ch. with_text' gs ch (\<lambda>t.
            hread (ev c e ''emoji'' read_emoji) (\<lambda>em.
              if c_has c On_guild_reaction_remove then
                hread (ev c e ''user_id'' as_sf) (\<lambda>u.
                hread (ev c e ''message_id'' as_sf) (\<lambda>mid.
                  invoke c On_guild_reaction_remove [A_id u, A_text t, A_id mid, A_emoji em]))
              else hdone)))))
       else if c_has c On_dm_reaction_remove then
         hread (ev c e ''channel_id'' as_sf) (\<lambda>ch. hthen (touch_dm ch)
         (hread (ev c e ''user_id'' as_sf) (\<lambda>u. with_recipient ch u (\<lambda>p d.
          hread (ev c e ''emoji'' read_emoji) (\<lambda>em.
          hread (ev c e ''message_id'' as_sf) (\<lambda>mid.
            invoke c On_dm_reaction_remove [A_user p, A_dm d, A_id mid, A_emoji em]))))))
       else hdone)"

text \<open>The channel is looked up before the guild's readiness is tested.\<close>

definition on_reaction_remove_all :: "'j config \<Rightarrow> 'j \<Rightarrow> 'j shard handler" where
  "on_reaction_remove_all c e =
     hread (ev_guild_id c e) (\<lambda>g.
       if g \<noteq> no_id then
         if c_has c On_guild_reaction_remove_all then
           with_guild g (\<lambda>gs.
             hread (ev c e ''channel_id'' as_sf) (\<lambda>ch. with_text' gs ch (\<lambda>t.
             if_ready gs (gs_id gs) e MESSAGE_REACTION_REMOVE_ALL
               (hread (ev c e ''message_id'' as_sf) (\<lambda>mid.
                  invoke c On_guild_reaction_remove_all [A_text t, A_id mid])))))
         else hdone
       else if c_has c On_dm_reaction_remove_all then
         hread (ev c e ''channel_id'' as_sf) (\<lambda>ch. with_dm ch (\<lambda>d.
         hread (ev c e ''message_id'' as_sf) (\<lambda>mid.
           invoke c On_dm_reaction_remove_all [A_dm d, A_id mid])))
       else hdone)"

section \<open>Typing\<close>

text \<open>The first test asks for the callback of messages, where the one of typing is meant.\<close>

definition on_typing_start :: "'j config \<Rightarrow> 'j \<Rightarrow> 'j shard handler" where
  "on_typing_start c e =
     (if \<not> c_has c On_guild_text_msg \<and> \<not> c_has c On_dm_typing_start then hdone
      else
        hread (ev_guild_id c e) (\<lambda>g.
          if g \<noteq> no_id then
            if c_has c On_guild_typing_start then
              with_guild g (\<lambda>gs.
                hread (ev c e ''channel_id'' as_sf) (\<lambda>ch. with_text' gs ch (\<lambda>t.
                if_ready gs (gs_id gs) e TYPING_START
                  (hread (ev c e ''member'' read_member) (\<lambda>m.
                     invoke c On_guild_typing_start [A_member m, A_text t])))))
            else hdone
          else if c_has c On_dm_typing_start then
            hread (ev c e ''channel_id'' as_sf) (\<lambda>ch.
            hread (ev c e ''user_id'' as_sf) (\<lambda>u. with_dm ch (\<lambda>_. with_recipient ch u (\<lambda>p d.
              invoke c On_dm_typing_start [A_user p, A_dm d]))))
          else hdone))"

section \<open>Voice\<close>

definition set_session_promise :: "snowflake \<Rightarrow> string \<Rightarrow> 'j shard handler" where
  "set_session_promise i v = hmod (\<lambda>s. s\<lparr>s_session_promises :=
     (s_session_promises s)(i := map_option (\<lambda>vs. vs @ [v]) (s_session_promises s i))\<rparr>)"

text \<open>\<open>*it = e.get<voice_state>()\<close>, \<open>erase(it)\<close> and \<open>emplace_back\<close> on the guild's voice states.\<close>

definition change_voice_state :: "'j config \<Rightarrow> 'j \<Rightarrow> snowflake \<Rightarrow> snowflake \<Rightarrow> 'j shard handler" where
  "change_voice_state c e i u =
     hget (\<lambda>s. case s_guilds s i of None \<Rightarrow> hdone
       | Some gs \<Rightarrow>
         let vs = g_voice_states (gs_guild gs); n = find_index (\<lambda>v. vs_user_id v = u) vs in
         if n < length vs then
           hread (at_mut (c_json c) e ''channel_id'') (\<lambda>chj.
             if \<not> j_is_null (c_json c) chj then
               hread (read_voice_state (c_json c) e) (\<lambda>v.
                 in_guild i (hmod (upd_guild (\<lambda>g. g\<lparr>g_voice_states := vs[n := v]\<rparr>))))
             else
               hthen (in_guild i (hmod (upd_guild (\<lambda>g. g\<lparr>g_voice_states := take n vs @ drop (Suc n) vs\<rparr>))))
                 (if u = u_id (s_self s) then
                    hmod (\<lambda>s. s\<lparr>s_vc_guilds := (s_vc_guilds s)(i := False),
                               s_voice_connections := (s_voice_connections s)(i := False)\<rparr>)
                  else hdone))
         else
           hread (read_voice_state (c_json c) e) (\<lambda>v.
             in_guild i (hmod (upd_guild (\<lambda>g. g\<lparr>g_voice_states := vs @ [v]\<rparr>)))))"

definition on_voice_state_update :: "'j config \<Rightarrow> 'j \<Rightarrow> 'j shard handler" where
  "on_voice_state_update c e =
     hread (ev_guild_id c e) (\<lambda>i.
     hget (\<lambda>s. case s_guilds s i of None \<Rightarrow> hfail Undef
       | Some gs \<Rightarrow>
         hread (value_or (as_sf (c_json c)) (u_id (s_self s)) (c_json c) e ''user_id'') (\<lambda>u.
         hthen (if u = u_id (s_self s) \<and> s_session_promises s (gs_id gs) \<noteq> None then
                  hread (ev c e ''session_id'' as_str) (set_session_promise (gs_id gs))
                else hdone)
               (change_voice_state c e i u))))"

definition on_voice_server_update :: "'j config \<Rightarrow> 'j \<Rightarrow> 'j shard handler" where
  "on_voice_server_update c e =
     hread (ev c e ''guild_id'' as_sf) (\<lambda>i. hmod (\<lambda>s. s\<lparr>s_endpoint_promises :=
       (s_endpoint_promises s)(i \<mapsto>
         (case s_endpoint_promises s i of None \<Rightarrow> [] | Some vs \<Rightarrow> vs) @ [e])\<rparr>))"

end
