(* ===== verification/Gateway.thy ===== *)
theory Gateway
  imports Shard_Channels Shard_Messages
begin

text \<open>
  The connection of a shard to the gateway: the dispatch of events and opcodes and the session
  (\<open>m_opcode0\<close> to \<open>m_opcode11\<close>, \<open>doStuff\<close>, \<open>reconnect\<close>, \<open>send_resume\<close>, \<open>update_presence\<close> of
  \<open>src/internal_shard.cpp\<close>), the heartbeat (\<open>src/heartbeat_context.cpp\<close>) and the loop that reads the
  socket (\<open>src/init_shard.cpp\<close>). \<open>gw_step\<close> is what can happen next to a shard.
\<close>

section \<open>Dispatch of events\<close>

text \<open>\<open>run\<close> handles an event that was kept back.\<close>

definition process_event ::
  "('j \<Rightarrow> event_name \<Rightarrow> 'j shard handler) \<Rightarrow> 'j config \<Rightarrow> event_name \<Rightarrow> 'j \<Rightarrow> 'j shard handler" where
  "process_event run c ename e =
     (case ename of
        HELLO \<Rightarrow> on_event_hello c e
      | READY \<Rightarrow> on_event_ready c e
      | RESUMED \<Rightarrow> on_event_resumed c e
      | INVALID_SESSION \<Rightarrow> hdone
      | CHANNEL_CREATE \<Rightarrow> on_channel_create c e
      | CHANNEL_UPDATE \<Rightarrow> on_channel_update c e
      | CHANNEL_DELETE \<Rightarrow> on_channel_delete c e
      | CHANNEL_PINS_UPDATE \<Rightarrow> hdone
      | GUILD_CREATE \<Rightarrow> on_guild_create c e
      | GUILD_UPDATE \<Rightarrow> on_guild_update c e
      | GUILD_DELETE \<Rightarrow> on_guild_delete c e
      | GUILD_BAN_ADD \<Rightarrow> on_guild_ban_add c e
      | GUILD_BAN_REMOVE \<Rightarrow> on_guild_ban_remove c e
      | GUILD_EMOJI_UPDATE \<Rightarrow> on_guild_emoji_update c e
      | GUILD_INTEGRATIONS_UPDATE \<Rightarrow> hdone
      | GUILD_MEMBER_ADD \<Rightarrow> on_guild_member_add c e
      | GUILD_MEMBER_REMOVE \<Rightarrow> on_guild_member_remove c e
      | GUILD_MEMBER_UPDATE \<Rightarrow> on_guild_member_update c e
      | GUILD_MEMBERS_CHUNK \<Rightarrow> on_guild_members_chunk run c e
      | GUILD_ROLE_CREATE \<Rightarrow> on_guild_role_create c e
      | GUILD_ROLE_UPDATE \<Rightarrow> on_guild_role_update c e
      | GUILD_ROLE_DELETE \<Rightarrow> on_guild_role_delete c e
      | MESSAGE_CREATE \<Rightarrow> on_message_create c e
      | MESSAGE_UPDATE \<Rightarrow> on_message_update c e
      | MESSAGE_DELETE \<Rightarrow> on_message_delete c e
      | MESSAGE_DELETE_BULK \<Rightarrow> on_message_delete_bulk c e
      | MESSAGE_REACTION_ADD \<Rightarrow> on_reaction_add c e
      | MESSAGE_REACTION_REMOVE \<Rightarrow> on_reaction_remove c e
      | MESSAGE_REACTION_REMOVE_ALL \<Rightarrow> on_reaction_remove_all c e
      | PRESENCE_UPDATE \<Rightarrow> on_presence_update c e
      | TYPING_START \<Rightarrow> on_typing_start c e
      | USER_UPDATE \<Rightarrow> on_user_update c e
      | VOICE_STATE_UPDATE \<Rightarrow> on_voice_state_update c e
      | VOICE_SERVER_UPDATE \<Rightarrow> on_voice_server_update c e
      | WEBHOOKS_UPDATE \<Rightarrow> hdone)"

text \<open>\<open>catch (...)\<close>: an exception ends there.\<close>

definition swallow :: "'s handler \<Rightarrow> 's handler" where
  "swallow h s = (case h s of (Some Throws, t) \<Rightarrow> (None, t) | r \<Rightarrow> r)"

text \<open>
  Dispatch. The last chunk of a guild's members runs the events kept back through the dispatch again:
  the first argument bounds how deep, and running out of it is no result.
\<close>

fun m_opcode0 :: "nat \<Rightarrow> 'j config \<Rightarrow> 'j \<Rightarrow> event_name \<Rightarrow> u64 \<Rightarrow> 'j shard handler" where
  "m_opcode0 0 c e ename n = hfail Undef"
| "m_opcode0 (Suc k) c e ename n =
     hthen (hmod (\<lambda>s. s\<lparr>s_seq := max n (s_seq s)\<rparr>))
           (swallow (process_event (\<lambda>e' ename'. m_opcode0 k c e' ename' 0) c ename e))"

definition replay_depth :: nat where "replay_depth = 2"

section \<open>The session\<close>

definition close_connection :: "int \<Rightarrow> 'j shard handler" where
  "close_connection code = hmod (\<lambda>s. s\<lparr>s_disconnected := True, s_closed := s_closed s @ [code]\<rparr>)"

definition reconnect :: "'j shard handler" where
  "reconnect = hget (\<lambda>s. if s_disconnected s then hdone else close_connection 1001)"

definition send_resume :: "'j shard handler" where
  "send_resume = hget (\<lambda>s. send (Ws_resume (s_session_id s) (s_seq s)))"

definition on_reconnect :: "'j shard handler" where "on_reconnect = send_resume"

definition m_opcode1_send_heartbeat :: "'j shard handler" where
  "m_opcode1_send_heartbeat = hget (\<lambda>s. if s_disconnected s then hdone else send Ws_opcode1_heartbeat)"

definition m_opcode2_send_identity :: "'j shard handler" where
  "m_opcode2_send_identity = hmod (\<lambda>s. s\<lparr>s_to_identify := Suc (s_to_identify s)\<rparr>)"

definition send_identity :: "'j config \<Rightarrow> 'j shard handler" where
  "send_identity c = hget (\<lambda>s. send (Ws_identify (c_shard_number c) (c_num_shards c) (s_status s) (s_game s) (c_intents c)))"

definition m_opcode3_send_presence :: "'j shard handler" where
  "m_opcode3_send_presence = hget (\<lambda>s. send (Ws_presence (s_status s) (s_game s)))"

definition update_presence :: "status \<Rightarrow> string \<Rightarrow> 'j shard handler" where
  "update_presence st g = hthen (hmod (\<lambda>s. s\<lparr>s_status := st, s_game := g\<rparr>)) m_opcode3_send_presence"

definition m_opcode4 :: "snowflake \<Rightarrow> snowflake \<Rightarrow> 'j shard handler" where
  "m_opcode4 g ch =
     hthen (hmod (\<lambda>s. s\<lparr>
        s_endpoint_promises := (if s_endpoint_promises s g = None then (s_endpoint_promises s)(g \<mapsto> []) else s_endpoint_promises s),
        s_session_promises := (if s_session_promises s g = None then (s_session_promises s)(g \<mapsto> []) else s_session_promises s)\<rparr>))
     (send (Ws_voice_state g ch))"

definition m_opcode7_reconnect :: "'j shard handler" where "m_opcode7_reconnect = reconnect"

text \<open>An invalid session is answered 5 seconds later.\<close>

definition m_opcode9_on_invalid_session :: "'j \<Rightarrow> 'j shard handler" where
  "m_opcode9_on_invalid_session d = hmod (\<lambda>s. s\<lparr>s_invalid := s_invalid s @ [d]\<rparr>)"

definition after_invalid_session :: "'j config \<Rightarrow> 'j \<Rightarrow> 'j shard handler" where
  "after_invalid_session c d =
     hread (as_bool (c_json c) d) (\<lambda>b. if b then send_resume else m_opcode2_send_identity)"

section \<open>The heartbeat\<close>

definition hb_start :: "'j shard handler" where
  "hb_start = hthen (send Ws_start_heartbeat) (hmod (\<lambda>s. s\<lparr>s_ack := False, s_timers := Suc (s_timers s)\<rparr>))"

text \<open>A timer of the heartbeat runs out.\<close>

definition send_heartbeat :: "'j shard handler" where
  "send_heartbeat =
     hget (\<lambda>s. if \<not> s_ack s then reconnect
       else if s_disconnected s then hdone
       else hthen (send (Ws_heartbeat (s_seq s)))
                  (hmod (\<lambda>s. s\<lparr>s_ack := False, s_timers := Suc (s_timers s)\<rparr>)))"

definition m_opcode10_on_hello :: "'j config \<Rightarrow> 'j \<Rightarrow> 'j shard handler" where
  "m_opcode10_on_hello c d =
     hread (ev c d ''heartbeat_interval'' as_int) (\<lambda>n.
     hthen (hmod (\<lambda>s. s\<lparr>s_hb_interval := n\<rparr>))
     (hthen hb_start (hmod (\<lambda>s. s\<lparr>s_hello_set := Suc (s_hello_set s)\<rparr>))))"

definition m_opcode11 :: "'j shard handler" where
  "m_opcode11 = hmod (\<lambda>s. s\<lparr>s_ack := True\<rparr>)"

section \<open>The loop\<close>

definition do_stuff :: "'j config \<Rightarrow> 'j \<Rightarrow> int \<Rightarrow> 'j shard handler" where
  "do_stuff c stuffs op =
     (if op = 0 then
        hread (at_mut (c_json c) stuffs ''d'') (\<lambda>d.
        hread (ev c stuffs ''t'' as_str) (\<lambda>t.
        hread (ev c stuffs ''s'' as_int) (\<lambda>n.
          m_opcode0 replay_depth c d (to_event_name t) (word_of_int n))))
      else if op = 1 then m_opcode1_send_heartbeat
      else if op = 7 then m_opcode7_reconnect
      else if op = 9 then hread (at_mut (c_json c) stuffs ''d'') m_opcode9_on_invalid_session
      else if op = 10 then hread (at_mut (c_json c) stuffs ''d'') (m_opcode10_on_hello c)
      else if op = 11 then hread (at_mut (c_json c) stuffs ''d'') (\<lambda>_. m_opcode11)
      else hdone)"

text \<open>A frame that was read: its opcode is dispatched. An exception from here ends the loop.\<close>

definition on_frame :: "'j config \<Rightarrow> 'j \<Rightarrow> 'j shard handler" where
  "on_frame c frame = hread (ev c frame ''op'' as_int) (do_stuff c frame)"

text \<open>
  A read that failed with an error of the given value: the loop goes on with a new connection, or
  ends.
\<close>

definition end_loop :: "'j shard handler" where
  "end_loop = hmod (\<lambda>s. s\<lparr>s_reading := False\<rparr>)"

definition on_read_error :: "int \<Rightarrow> 'j shard handler" where
  "on_read_error code =
     (if code = 4000 then on_reconnect
      else if code = 4003 then on_reconnect
      else if code = 4004 then end_loop
      else if code = 4005 then end_loop
      else if code = 4007 then on_reconnect
      else if code = 4008 then end_loop
      else if code = 4009 then on_reconnect
      else if code = 4011 then end_loop
      else hthen (hmod (\<lambda>s. s\<lparr>s_closed := s_closed s @ [1000]\<rparr>)) end_loop)"

text \<open>
  The steps of a shard: a frame, a failed read, an exception of the network or the parser of JSON, a
  timer of the heartbeat or of an invalid session, and what the client asks for. The loop ends with
  an exception; a step without a defined result is not a step.
\<close>

definition loop_body :: "'j shard handler \<Rightarrow> 'j shard handler" where
  "loop_body h s = (case h s of (Some Throws, t) \<Rightarrow> end_loop t | r \<Rightarrow> r)"

inductive gw_step :: "'j config \<Rightarrow> 'j shard \<Rightarrow> 'j shard \<Rightarrow> bool" for c where
  Frame: "s_reading s \<Longrightarrow> loop_body (on_frame c frame) s = (None, t) \<Longrightarrow> gw_step c s t"
| Read_error: "s_reading s \<Longrightarrow> on_read_error code s = (None, t) \<Longrightarrow> gw_step c s t"
| Failure: "s_reading s \<Longrightarrow> end_loop s = (None, t) \<Longrightarrow> gw_step c s t"
| Heartbeat: "s_timers s > 0 \<Longrightarrow> send_heartbeat (s\<lparr>s_timers := s_timers s - 1\<rparr>) = (None, t) \<Longrightarrow> gw_step c s t"
| Invalid: "s_invalid s = ds1 @ d # ds2 \<Longrightarrow>
    after_invalid_session c d (s\<lparr>s_invalid := ds1 @ ds2\<rparr>) = (r, t) \<Longrightarrow> r \<noteq> Some Undef \<Longrightarrow> gw_step c s t"
| Identify: "send_identity c s = (None, t) \<Longrightarrow> gw_step c s t"
| Presence: "update_presence st g s = (None, t) \<Longrightarrow> gw_step c s t"
| Voice: "m_opcode4 g ch s = (None, t) \<Longrightarrow> gw_step c s t"

inductive gw_reachable :: "'j config \<Rightarrow> 'j shard \<Rightarrow> bool" for c where
  Initial: "gw_reachable c (initial_shard (c_json c))"
| Step: "gw_reachable c s \<Longrightarrow> gw_step c s t \<Longrightarrow> gw_reachable c t"

end
