(* ===== verification/Shard_Invariant.thy ===== *)
theory Shard_Invariant
  imports Gateway
begin

text \<open>
  The invariant of a shard's state: every guild, channel, role and member is stored under its own id,
  the pointer of a guild to its containers is never set, and the events kept back are of the kinds
  that are kept back; and the steps on a guild, which keep the guild's part of it.
\<close>

section \<open>The invariant\<close>

definition keyed :: "('a \<Rightarrow> snowflake) \<Rightarrow> (snowflake \<rightharpoonup> 'a) \<Rightarrow> bool" where
  "keyed f m \<longleftrightarrow> (\<forall>k x. m k = Some x \<longrightarrow> f x = k)"

lemma keyed_empty [simp]: "keyed f Map.empty"
  by (simp add: keyed_def)

lemma keyedD: "keyed f m \<Longrightarrow> m k = Some x \<Longrightarrow> f x = k"
  by (simp add: keyed_def)

lemma keyed_upd [intro]: "keyed f m \<Longrightarrow> f x = k \<Longrightarrow> keyed f (m(k \<mapsto> x))"
  by (simp add: keyed_def)

lemma keyed_del [intro]: "keyed f m \<Longrightarrow> keyed f (m(k := None))"
  by (simp add: keyed_def)

lemma keyed_map_upd [intro]:
  "keyed f m \<Longrightarrow> (\<And>x. f (g x) = f x) \<Longrightarrow> keyed f (m(k := map_option g (m k)))"
  by (auto simp: keyed_def)

lemma keyed_map_of_ids [simp]: "keyed f (map_of_ids f xs)"
  by (auto simp: keyed_def dest: map_of_ids_key)

definition deferrable :: "event_name \<Rightarrow> bool" where
  "deferrable ename \<longleftrightarrow> ename \<noteq> GUILD_MEMBERS_CHUNK \<and> ename \<noteq> GUILD_CREATE"

definition guild_ok :: "snowflake \<Rightarrow> 'j guild \<Rightarrow> bool" where
  "guild_ok i g \<longleftrightarrow> pg_id g = i \<and> \<not> g_stuff g \<and> keyed role_id (pg_roles g)"

definition gs_ok :: "snowflake \<Rightarrow> 'j guild_and_stuff \<Rightarrow> bool" where
  "gs_ok i gs \<longleftrightarrow>
     guild_ok i (gs_guild gs) \<and> keyed u_id (gs_members gs) \<and> keyed pc_id (gs_text gs)
     \<and> keyed pc_id (gs_voice gs) \<and> (\<forall>k ch. gs_categories gs k = Some (Some ch) \<longrightarrow> pc_id ch = k)"

lemma gs_ok_id: "gs_ok i gs \<Longrightarrow> gs_id gs = i"
  by (simp add: gs_ok_def guild_ok_def gs_id_def)

definition shard_ok :: "'j shard \<Rightarrow> bool" where
  "shard_ok s \<longleftrightarrow>
     (\<forall>i gs. s_guilds s i = Some gs \<longrightarrow> gs_ok i gs)
     \<and> (\<forall>g es. s_backed_up s g = Some es \<longrightarrow> list_all (\<lambda>p. deferrable (snd p)) es)"

lemma shard_ok_guild: "shard_ok s \<Longrightarrow> s_guilds s i = Some gs \<Longrightarrow> gs_ok i gs"
  by (simp add: shard_ok_def)

section \<open>Steps of a guild\<close>

lemma keeps_gs_field [keeps_intros]:
  "(\<And>gs. gs_ok i gs \<Longrightarrow> gs_ok i (f gs)) \<Longrightarrow> keeps (gs_ok i) (hmod f)"
  by (rule keeps_hmod)

lemma keeps_guild_field [keeps_intros]:
  "(\<And>g. guild_ok i g \<Longrightarrow> guild_ok i (f g)) \<Longrightarrow> keeps (guild_ok i) (hmod f)"
  by (rule keeps_hmod)

lemma gs_ok_upd_guild [intro]:
  "gs_ok i gs \<Longrightarrow> (\<And>g. guild_ok i g \<Longrightarrow> guild_ok i (f g)) \<Longrightarrow> gs_ok i (upd_guild f gs)"
  by (simp add: gs_ok_def upd_guild_def)

lemma keeps_upd_guild [keeps_intros]:
  "(\<And>g. guild_ok i g \<Longrightarrow> guild_ok i (f g)) \<Longrightarrow> keeps (gs_ok i) (hmod (upd_guild f))"
  by (rule keeps_hmod) (simp add: gs_ok_def upd_guild_def)

lemma keeps_guild_part [keeps_intros]:
  assumes "keeps (guild_ok i) h"
  shows "keeps (gs_ok i) (guild_part h)"
proof (rule keepsI)
  fix gs :: "'a guild_and_stuff"
  assume gs: "gs_ok i gs" "fst (guild_part h gs) \<noteq> Some Undef"
  then have "guild_ok i (gs_guild gs)" by (simp add: gs_ok_def)
  then have "guild_ok i (snd (h (gs_guild gs)))"
    using assms gs(2) by (auto simp: keeps_def guild_part_def handler_simps)
  with gs(1) show "gs_ok i (snd (guild_part h gs))"
    by (simp add: guild_part_def handler_simps gs_ok_def)
qed

section \<open>Filling objects\<close>

lemma keeps_fill:
  "(\<And>f a b. f \<in> set fs \<Longrightarrow> f a = Inr b \<Longrightarrow> P a \<Longrightarrow> P b) \<Longrightarrow> keeps P (fill fs)"
proof (induction fs)
  case (Cons f fs)
  have IH: "keeps P (fill fs)" by (rule Cons.IH) (use Cons.prems in auto)
  show ?case
  proof (rule keepsI)
    fix a assume a: "P a" "fst (fill (f # fs) a) \<noteq> Some Undef"
    show "P (snd (fill (f # fs) a))"
    proof (cases "f a")
      case (Inr b)
      with Cons.prems [of f a b] a(1) have "P b" by simp
      with IH a Inr show ?thesis by (simp add: keeps_def)
    qed (use a in simp)
  qed
qed (simp add: keeps_def)

lemma assign_Inr: "assign r upd a = Inr b \<longleftrightarrow> (\<exists>v. r = Inr v \<and> b = upd v a)"
  by (cases r) auto

text \<open>Reading the id of a constant object, as the readers do, and of the event, as the handlers do.\<close>

definition const_id :: "'j json_api \<Rightarrow> 'j \<Rightarrow> snowflake res" where
  "const_id J e = rbind (at_const J e ''id'') (as_sf J)"

lemma const_id_ev: "const_id (c_json c) e = Inr v \<Longrightarrow> ev c e ''id'' as_sf = Inr i \<Longrightarrow> v = i"
  by (auto simp: const_id_def ev_def at_const_def at_mut_def rbind_Inr_iff or_throw_def split: option.splits)

definition id_read :: "'j json_api \<Rightarrow> 'j \<Rightarrow> snowflake \<Rightarrow> bool" where
  "id_read J e i \<longleftrightarrow>
     const_id J e = Inr i \<or> const_id J e = Inl Undef \<or> (const_id J e = Inl Throws \<and> i = no_id)"

lemma ev_id_read: "ev c e ''id'' as_sf = Inr i \<Longrightarrow> id_read (c_json c) e i"
  by (auto simp: id_read_def const_id_def ev_def at_const_def at_mut_def rbind_Inr_iff or_throw_def as_sf_def
      sf_from_json_def no_id_def split: option.splits if_splits)

lemma const_id_read: "const_id J e = Inr i \<Longrightarrow> id_read J e i"
  by (simp add: id_read_def)

lemma id_read_Inr: "id_read J e i \<Longrightarrow> const_id J e = Inr v \<Longrightarrow> v = i"
  by (auto simp: id_read_def)

text \<open>An object whose id is the first field read has that id, whatever fails later.\<close>

lemma fill_id:
  assumes "id_read J e i" "f = assign (const_id J e) upd" "\<And>a. P (upd i a)"
    and "i = no_id \<longrightarrow> P a" "\<And>g a b. g \<in> set fs \<Longrightarrow> g a = Inr b \<Longrightarrow> P a \<Longrightarrow> P b"
    and "fst (fill (f # fs) a) \<noteq> Some Undef"
  shows "P (snd (fill (f # fs) a))"
proof -
  have rest: "keeps P (fill fs)" by (rule keeps_fill) (use assms(5) in blast)
  from assms(1) consider "const_id J e = Inr i" | "const_id J e = Inl Undef" | "const_id J e = Inl Throws" "i = no_id"
    by (auto simp: id_read_def)
  then show ?thesis
  proof cases
    case 1
    with assms(2,6) have "fst (fill fs (upd i a)) \<noteq> Some Undef" by simp
    with rest assms(3) have "P (snd (fill fs (upd i a)))" by (simp add: keeps_def)
    with 1 assms(2) show ?thesis by simp
  qed (use assms(2,4,6) in auto)
qed

lemmas field_defs = partial_channel_fields_def guild_channel_fields_def text_channel_fields_def
  voice_channel_fields_def user_fields_def partial_guild_fields_def guild_fields_def

lemma fill_text_fields_id_split:
  "text_channel_fields J e = assign (const_id J e) (\<lambda>v c. c\<lparr>pc_id := v\<rparr>) # tl (text_channel_fields J e)"
  by (simp add: field_defs const_id_def)

lemma fill_text_fields_id_tl: "g \<in> set (tl (text_channel_fields J e)) \<Longrightarrow> g a = Inr b \<Longrightarrow> pc_id b = pc_id a"
  by (auto simp: field_defs assign_Inr)

lemma fill_text_fields_id:
  assumes "id_read J e i" "i = no_id \<longrightarrow> pc_id ch = i" "fst (fill (text_channel_fields J e) ch) \<noteq> Some Undef"
  shows "pc_id (snd (fill (text_channel_fields J e) ch)) = i"
  by (subst fill_text_fields_id_split, rule fill_id [where P = "\<lambda>c. pc_id c = i", OF assms(1) refl])
    (use assms(2,3) fill_text_fields_id_tl in \<open>auto simp flip: fill_text_fields_id_split\<close>)

lemma fill_voice_fields_id_split:
  "voice_channel_fields J e = assign (const_id J e) (\<lambda>v c. c\<lparr>pc_id := v\<rparr>) # tl (voice_channel_fields J e)"
  by (simp add: field_defs const_id_def)

lemma fill_voice_fields_id_tl: "g \<in> set (tl (voice_channel_fields J e)) \<Longrightarrow> g a = Inr b \<Longrightarrow> pc_id b = pc_id a"
  by (auto simp: field_defs assign_Inr)

lemma fill_voice_fields_id:
  assumes "id_read J e i" "i = no_id \<longrightarrow> pc_id ch = i" "fst (fill (voice_channel_fields J e) ch) \<noteq> Some Undef"
  shows "pc_id (snd (fill (voice_channel_fields J e) ch)) = i"
  by (subst fill_voice_fields_id_split, rule fill_id [where P = "\<lambda>c. pc_id c = i", OF assms(1) refl])
    (use assms(2,3) fill_voice_fields_id_tl in \<open>auto simp flip: fill_voice_fields_id_split\<close>)

lemma fill_category_fields_id_split:
  "guild_channel_fields J e = assign (const_id J e) (\<lambda>v c. c\<lparr>pc_id := v\<rparr>) # tl (guild_channel_fields J e)"
  by (simp add: field_defs const_id_def)

lemma fill_category_fields_id_tl: "g \<in> set (tl (guild_channel_fields J e)) \<Longrightarrow> g a = Inr b \<Longrightarrow> pc_id b = pc_id a"
  by (auto simp: field_defs assign_Inr)

lemma fill_category_fields_id:
  fixes ch :: guild_channel
  assumes "id_read J e i" "i = no_id \<longrightarrow> pc_id ch = i" "fst (fill (guild_channel_fields J e) ch) \<noteq> Some Undef"
  shows "pc_id (snd (fill (guild_channel_fields J e) ch)) = i"
  by (subst fill_category_fields_id_split, rule fill_id [where P = "\<lambda>c. pc_id c = i", OF assms(1) refl])
    (use assms(2,3) fill_category_fields_id_tl in \<open>auto simp flip: fill_category_fields_id_split\<close>)

lemma guild_fields_split:
  "guild_fields J e = assign (const_id J e) (\<lambda>v g. g\<lparr>pg_id := v\<rparr>) # tl (guild_fields J e)"
  by (simp add: field_defs const_id_def)

lemma guild_fields_tl: "h \<in> set (tl (guild_fields J e)) \<Longrightarrow> h a = Inr b \<Longrightarrow> pg_id b = pg_id a"
  by (auto simp: field_defs assign_Inr widget_channel_field_def rbind_Inr_iff split: if_splits)

lemma guild_fields_rest: "h \<in> set (guild_fields J e) \<Longrightarrow> h a = Inr b \<Longrightarrow>
    \<not> g_stuff a \<and> keyed role_id (pg_roles a) \<Longrightarrow> \<not> g_stuff b \<and> keyed role_id (pg_roles b)"
  by (auto simp: field_defs assign_Inr widget_channel_field_def rbind_Inr_iff split: if_splits)

lemma fill_guild_fields_ok:
  assumes "id_read J e i" "i = no_id \<longrightarrow> pg_id g = i" "\<not> g_stuff g" "keyed role_id (pg_roles g)"
    "fst (fill (guild_fields J e) g) \<noteq> Some Undef"
  shows "guild_ok i (snd (fill (guild_fields J e) g))"
proof -
  have "keeps (\<lambda>a. \<not> g_stuff a \<and> keyed role_id (pg_roles a)) (fill (guild_fields J e))"
    by (rule keeps_fill) (rule guild_fields_rest)
  with assms have "\<not> g_stuff (snd (fill (guild_fields J e) g)) \<and> keyed role_id (pg_roles (snd (fill (guild_fields J e) g)))"
    by (auto simp: keeps_def)
  moreover have "pg_id (snd (fill (guild_fields J e) g)) = i"
    by (subst guild_fields_split, rule fill_id [where P = "\<lambda>c. pg_id c = i", OF assms(1) refl])
      (use assms(2,5) guild_fields_tl in \<open>auto simp flip: guild_fields_split\<close>)
  ultimately show ?thesis by (simp add: guild_ok_def)
qed

lemma keeps_fill_partial_guild [keeps_intros]:
  assumes "id_read J e i"
  shows "keeps (guild_ok i) (fill (partial_guild_fields J e))"
proof (rule keeps_fill)
  fix f and a b :: "'b guild"
  assume f: "f \<in> set (partial_guild_fields J e)" "f a = Inr b" "guild_ok i a"
  have "pg_id b = i \<or> pg_id b = pg_id a"
    using f(1,2) id_read_Inr [OF assms]
    by (auto simp: field_defs const_id_def assign_Inr widget_channel_field_def rbind_Inr_iff split: if_splits)
  moreover have "g_stuff b = g_stuff a \<and> (keyed role_id (pg_roles a) \<longrightarrow> keyed role_id (pg_roles b))"
    using f(1,2) by (auto simp: field_defs assign_Inr widget_channel_field_def rbind_Inr_iff split: if_splits)
  ultimately show "guild_ok i b" using f(3) by (auto simp: guild_ok_def)
qed

end
