(* ===== verification/Shard_Keeps.thy ===== *)
theory Shard_Keeps
  imports Shard_Invariant
begin

text \<open>
  The handlers and the predicates they keep. The locale \<open>shard_property\<close> is the interface: a predicate
  with its laws is kept by every handler, one lemma per handler, and by every step of the gateway.
\<close>

lemmas ok_defs = gs_ok_def guild_ok_def upd_guild_def insert_member_def store_member_def upd_text_def
  upd_voice_def upd_category_def touch_category_def

section \<open>Parts of the handlers\<close>

lemma keeps_apply_presences [keeps_intros]: "keeps (guild_ok i) (apply_presences J p)"
  unfolding apply_presences_def apply_presence_def
  by (intro keeps_intros) (auto simp: guild_ok_def)

lemma keeps_insert_member [keeps_intros]: "keeps (gs_ok i) (hmod (insert_member m))"
  by (rule keeps_hmod) (auto simp: ok_defs)

lemma keeps_store_member [keeps_intros]: "keeps (gs_ok i) (hmod (store_member m))"
  by (rule keeps_hmod) (auto simp: ok_defs)

lemma keeps_create_members [keeps_intros]: "keeps (gs_ok i) (create_members J ms)"
  unfolding create_members_def by (intro keeps_intros)

lemma keeps_fill_text [keeps_intros]:
  assumes "id_read J e k"
  shows "keeps (gs_ok i) (fill_text J k e)"
proof (rule keepsI)
  fix gs :: "'a guild_and_stuff"
  let ?ch = "case gs_text gs k of None \<Rightarrow> default_text_channel | Some ch \<Rightarrow> ch"
  assume gs: "gs_ok i gs" "fst (fill_text J k e gs) \<noteq> Some Undef"
  then have "k = no_id \<longrightarrow> pc_id ?ch = k"
    by (auto simp: ok_defs default_text_channel_def default_guild_channel_def guild_channel.defs
        dest: keyedD split: option.splits)
  moreover have "fst (fill (text_channel_fields J e) ?ch) \<noteq> Some Undef"
    using gs(2) by (simp add: fill_text_def split: prod.splits)
  ultimately have "pc_id (snd (fill (text_channel_fields J e) ?ch)) = k"
    by (intro fill_text_fields_id [OF assms])
  with gs(1) show "gs_ok i (snd (fill_text J k e gs))"
    by (auto simp: fill_text_def Let_def ok_defs split: prod.splits)
qed

lemma keeps_fill_voice [keeps_intros]:
  assumes "id_read J e k"
  shows "keeps (gs_ok i) (fill_voice J k e)"
proof (rule keepsI)
  fix gs :: "'a guild_and_stuff"
  let ?ch = "case gs_voice gs k of None \<Rightarrow> default_voice_channel | Some ch \<Rightarrow> ch"
  assume gs: "gs_ok i gs" "fst (fill_voice J k e gs) \<noteq> Some Undef"
  then have "k = no_id \<longrightarrow> pc_id ?ch = k"
    by (auto simp: ok_defs default_voice_channel_def default_guild_channel_def guild_channel.defs
        dest: keyedD split: option.splits)
  moreover have "fst (fill (voice_channel_fields J e) ?ch) \<noteq> Some Undef"
    using gs(2) by (simp add: fill_voice_def split: prod.splits)
  ultimately have "pc_id (snd (fill (voice_channel_fields J e) ?ch)) = k"
    by (intro fill_voice_fields_id [OF assms])
  with gs(1) show "gs_ok i (snd (fill_voice J k e gs))"
    by (auto simp: fill_voice_def Let_def ok_defs split: prod.splits)
qed

lemma keeps_fill_category [keeps_intros]:
  assumes "id_read J e k"
  shows "keeps (gs_ok i) (fill_category J k e)"
proof (rule keepsI)
  fix gs :: "'a guild_and_stuff"
  assume gs: "gs_ok i gs" "fst (fill_category J k e gs) \<noteq> Some Undef"
  then obtain ch where ch: "(case gs_categories gs k of None \<Rightarrow> Some default_guild_channel | Some p \<Rightarrow> p) = Some ch"
    by (cases "case gs_categories gs k of None \<Rightarrow> Some default_guild_channel | Some p \<Rightarrow> p")
      (simp_all add: fill_category_def)
  with gs(1) have "k = no_id \<longrightarrow> pc_id ch = k"
    by (auto simp: ok_defs default_guild_channel_def split: option.splits)
  moreover have "fst (fill (guild_channel_fields J e) ch) \<noteq> Some Undef"
    using gs(2) ch by (simp add: fill_category_def split: prod.splits)
  ultimately have "pc_id (snd (fill (guild_channel_fields J e) ch)) = k"
    by (intro fill_category_fields_id [OF assms])
  with gs(1) ch show "gs_ok i (snd (fill_category J k e gs))"
    by (auto simp: fill_category_def ok_defs split: prod.splits)
qed

lemma gs_ok_upd_text [simp]: "(\<And>ch. pc_id (f ch) = pc_id ch) \<Longrightarrow> gs_ok i gs \<Longrightarrow> gs_ok i (upd_text k f gs)"
  by (auto simp: ok_defs)

lemma gs_ok_upd_voice [simp]: "(\<And>ch. pc_id (f ch) = pc_id ch) \<Longrightarrow> gs_ok i gs \<Longrightarrow> gs_ok i (upd_voice k f gs)"
  by (auto simp: ok_defs)

lemma gs_ok_upd_category [simp]:
  "(\<And>ch. pc_id (f ch) = pc_id ch) \<Longrightarrow> gs_ok i gs \<Longrightarrow> gs_ok i (upd_category k f gs)"
  by (auto simp: ok_defs)

lemma gs_ok_touch_category [simp]: "gs_ok i gs \<Longrightarrow> gs_ok i (touch_category p gs)"
  by (auto simp: ok_defs)

lemma set_text_type_id [simp]: "pc_id (set_text_type t ch) = pc_id ch"
  by (simp add: set_text_type_def)

lemma gs_ok_set_text_parent [simp]: "gs_ok i gs \<Longrightarrow> gs_ok i (set_text_parent k gs)"
  by (simp add: set_text_parent_def split: option.splits)

lemma gs_ok_set_voice_parent [simp]: "gs_ok i gs \<Longrightarrow> gs_ok i (set_voice_parent k gs)"
  by (simp add: set_voice_parent_def split: option.splits)

lemma gs_ok_fold: "(\<And>k gs. gs_ok i gs \<Longrightarrow> gs_ok i (f k gs)) \<Longrightarrow> gs_ok i gs \<Longrightarrow> gs_ok i (fold f ks gs)"
  by (induction ks arbitrary: gs) auto

lemma gs_ok_set_parents [simp]: "gs_ok i gs \<Longrightarrow> gs_ok i (set_parents gs)"
  by (simp add: set_parents_def Let_def gs_ok_fold)

lemma gs_ok_ids [simp]:
  "gs_ok i gs \<Longrightarrow> gs_ok i (upd_guild (\<lambda>g. g\<lparr>g_text_ids := ids g\<rparr>) gs)"
  "gs_ok i gs \<Longrightarrow> gs_ok i (upd_guild (\<lambda>g. g\<lparr>g_voice_ids := ids g\<rparr>) gs)"
  "gs_ok i gs \<Longrightarrow> gs_ok i (upd_guild (\<lambda>g. g\<lparr>g_category_ids := ids g\<rparr>) gs)"
  by (simp_all add: ok_defs)

lemma keeps_create_channel [keeps_intros]: "keeps (gs_ok i) (create_channel J e)"
  unfolding create_channel_def
  by (intro keeps_intros) (auto simp: const_id_read const_id_def)

lemma keeps_link_text_parent [keeps_intros]: "keeps (gs_ok i) (link_text_parent k)"
  by (auto simp: keeps_def link_text_parent_def split: option.splits)

lemma keeps_link_voice_parent [keeps_intros]: "keeps (gs_ok i) (link_voice_parent k)"
  by (auto simp: keeps_def link_voice_parent_def split: option.splits)

lemma keeps_orphan_text [keeps_intros]: "keeps (gs_ok i) (orphan_text cat k)"
  by (auto simp: keeps_def orphan_text_def split: option.splits)

lemma keeps_orphan_voice [keeps_intros]: "keeps (gs_ok i) (orphan_voice cat k)"
  by (auto simp: keeps_def orphan_voice_def split: option.splits)

lemma keeps_orphan_channels [keeps_intros]: "keeps (gs_ok i) (orphan_channels cat)"
  unfolding orphan_channels_def by (intro keeps_intros)

lemma keeps_create_presences [keeps_intros]: "keeps (gs_ok i) (create_presences c e)"
  unfolding create_presences_def
proof (intro keeps_intros)
  fix p
  show "keeps (guild_ok i) (\<lambda>g. if g_is_ready g then apply_presences (c_json c) p g else (None, g\<lparr>g_presences := p\<rparr>))"
    using keeps_apply_presences [of i "c_json c" p] by (auto simp: keeps_def guild_ok_def)
qed

lemma keeps_fill_member [keeps_intros]:
  assumes "keeps (\<lambda>m. u_id m = u) (fill fs)"
  shows "keeps (gs_ok i) (fill_member u fs)"
proof (rule keepsI)
  fix gs :: "'a guild_and_stuff"
  assume gs: "gs_ok i gs" "fst (fill_member u fs gs) \<noteq> Some Undef"
  show "gs_ok i (snd (fill_member u fs gs))"
  proof (cases "gs_members gs u")
    case (Some m)
    with gs(1) have "u_id m = u" by (auto simp: gs_ok_def dest: keyedD)
    moreover have "fst (fill fs m) \<noteq> Some Undef" using gs(2) Some by (simp add: fill_member_def split: prod.splits)
    ultimately have "u_id (snd (fill fs m)) = u" using assms by (simp add: keeps_def)
    with gs(1) Some show ?thesis by (auto simp: fill_member_def gs_ok_def split: prod.splits)
  qed (use gs in \<open>simp add: fill_member_def\<close>)
qed

lemma read_role_id:
  assumes "rbind (at_mut (c_json c) e ''role'') (\<lambda>r. ev c r ''id'' as_sf) = Inr rid"
    and "ev c e ''role'' read_role = Inr r"
  shows "role_id r = rid"
proof -
  let ?J = "c_json c"
  from assms(1) obtain rj where a: "at_mut ?J e ''role'' = Inr rj" by (auto simp: rbind_Inr_iff)
  with assms have rj: "ev c rj ''id'' as_sf = Inr rid" "read_role ?J rj = Inr r" by (simp_all add: ev_def)
  show ?thesis
  proof (cases "j_is_null ?J rj")
    case True
    with rj show ?thesis
      by (auto simp: read_role_def role_fields_def fresh_def default_role_def ev_def at_mut_def as_sf_def
          sf_from_json_def j_is_null_def rbind_Inr_iff split: option.splits if_splits)
  next
    case False
    define fs where "fs = role_fields ?J rj"
    with False rj(2) have f: "fill (hd fs # tl fs) default_role = (None, r)" "fs = hd fs # tl fs"
      by (auto simp: read_role_def fresh_def role_fields_def split: prod.splits option.splits)
    have "\<exists>b. hd fs default_role = Inr b \<and> role_id r = role_id b"
      by (rule fill_first [OF f(1)]) (auto simp: fs_def role_fields_def False assign_Inr)
    with False rj(1) show ?thesis
      by (auto simp: fs_def role_fields_def assign_Inr dest: const_id_ev [unfolded const_id_def])
  qed
qed

lemma new_role_ok:
  assumes "rbind (at_mut (c_json c) e ''role'') (\<lambda>r. ev c r ''id'' as_sf) = Inr rid"
    "ev c e ''role'' read_role = Inr r" "gs_ok i gs" "guild_ok i g"
  shows "guild_ok i (g\<lparr>pg_roles := (pg_roles g)(rid \<mapsto>
    (case pg_roles (gs_guild gs) rid of None \<Rightarrow> r | Some old \<Rightarrow> old))\<rparr>)"
  using assms(3,4) read_role_id [OF assms(1,2)]
  by (auto simp: gs_ok_def guild_ok_def dest: keyedD split: option.splits)

lemma keeps_guarded_fill [keeps_intros]:
  "keeps (gs_ok i) h \<Longrightarrow> keeps (gs_ok i) (\<lambda>gs. if b gs then (Some Undef, gs) else h gs)"
  by (simp add: keeps_def)

lemma keeps_bool_pair [keeps_intros]:
  "(\<And>x. keeps P (h x)) \<Longrightarrow> (\<And>x. keeps P (k x)) \<Longrightarrow> keeps P (case r of (True, x) \<Rightarrow> h x | (False, x) \<Rightarrow> k x)"
  by (simp split: prod.splits bool.splits)

lemma keeps_swallow [keeps_intros]: "keeps P h \<Longrightarrow> keeps P (swallow h)"
  by (auto simp: keeps_def swallow_def split: prod.splits option.splits fault.splits)

section \<open>Predicates on the shard\<close>

text \<open>
  What the handlers do to a shard's state, as the laws a predicate on it has to satisfy so that every
  step keeps it. \<open>M\<close> are the messages it allows to be sent at any time.
\<close>

locale shard_property =
  fixes c :: "'j config"
    and P :: "'j shard \<Rightarrow> bool"
    and M :: "ws_message \<Rightarrow> bool"
  assumes guild_of: "P s \<Longrightarrow> s_guilds s i = Some gs \<Longrightarrow> gs_ok i gs"
    and put: "P s \<Longrightarrow> gs_ok i gs \<Longrightarrow> P (put_guild i gs s)"
    and delete: "P s \<Longrightarrow> P (s\<lparr>s_guilds := (s_guilds s)(i := None)\<rparr>)"
    and kept_back: "P s \<Longrightarrow> s_backed_up s g = Some es \<Longrightarrow> list_all (\<lambda>p. deferrable (snd p)) es"
    and keep_back: "P s \<Longrightarrow> list_all (\<lambda>p. deferrable (snd p)) es \<Longrightarrow> P (s\<lparr>s_backed_up := (s_backed_up s)(g \<mapsto> es)\<rparr>)"
    and take_back: "P s \<Longrightarrow> P (s\<lparr>s_backed_up := (s_backed_up s)(g := None)\<rparr>)"
    and seq: "P s \<Longrightarrow> P (s\<lparr>s_seq := max n (s_seq s)\<rparr>)"
    and close: "P s \<Longrightarrow> P (s\<lparr>s_disconnected := True, s_closed := cs\<rparr>)"
    and say: "P s \<Longrightarrow> M m \<Longrightarrow> P (s\<lparr>s_sent := s_sent s @ [m]\<rparr>)"
    and beat: "P s \<Longrightarrow> s_ack s \<Longrightarrow> \<not> s_disconnected s \<Longrightarrow>
      P (s\<lparr>s_sent := s_sent s @ [Ws_heartbeat (s_seq s)], s_ack := False, s_timers := k\<rparr>)"
    and allowed: "(\<And>q. m \<noteq> Ws_heartbeat q) \<Longrightarrow> M m"
    and dms: "P s \<Longrightarrow> P (s\<lparr>s_dms := m1\<rparr>)"
    and deleted: "P s \<Longrightarrow> P (s\<lparr>s_deleted_dms := m2\<rparr>)"
    and chunks: "P s \<Longrightarrow> P (s\<lparr>s_chunks_left := m3\<rparr>)"
    and self: "P s \<Longrightarrow> P (s\<lparr>s_self := m4\<rparr>)"
    and session: "P s \<Longrightarrow> P (s\<lparr>s_session_id := m5\<rparr>)"
    and trace: "P s \<Longrightarrow> P (s\<lparr>s_trace := m6\<rparr>)"
    and trace2: "P s \<Longrightarrow> P (s\<lparr>s_trace2 := m7\<rparr>)"
    and status: "P s \<Longrightarrow> P (s\<lparr>s_status := m8, s_game := m9\<rparr>)"
    and closed: "P s \<Longrightarrow> P (s\<lparr>s_closed := m10\<rparr>)"
    and interval: "P s \<Longrightarrow> P (s\<lparr>s_hb_interval := m11\<rparr>)"
    and ack: "P s \<Longrightarrow> P (s\<lparr>s_ack := m12\<rparr>)"
    and timers: "P s \<Longrightarrow> P (s\<lparr>s_timers := m13\<rparr>)"
    and hello: "P s \<Longrightarrow> P (s\<lparr>s_hello_set := m14\<rparr>)"
    and invalid: "P s \<Longrightarrow> P (s\<lparr>s_invalid := m15\<rparr>)"
    and to_identify: "P s \<Longrightarrow> P (s\<lparr>s_to_identify := m16\<rparr>)"
    and reading: "P s \<Longrightarrow> P (s\<lparr>s_reading := False\<rparr>)"
    and calls: "P s \<Longrightarrow> c_has c cb \<Longrightarrow> P (s\<lparr>s_calls := s_calls s @ [(cb, args)]\<rparr>)"
    and vc_guilds: "P s \<Longrightarrow> P (s\<lparr>s_vc_guilds := m18\<rparr>)"
    and connections: "P s \<Longrightarrow> P (s\<lparr>s_voice_connections := m19\<rparr>)"
    and endpoints: "P s \<Longrightarrow> P (s\<lparr>s_endpoint_promises := m20\<rparr>)"
    and sessions: "P s \<Longrightarrow> P (s\<lparr>s_session_promises := m21\<rparr>)"
begin

lemmas field_laws = dms deleted chunks self session trace trace2 status closed interval ack timers hello invalid
  to_identify reading vc_guilds connections endpoints sessions seq close take_back delete

lemma keeps_state_field [keeps_intros]: "(\<And>s. P s \<Longrightarrow> P (f s)) \<Longrightarrow> keeps P (hmod f)"
  by (rule keeps_hmod)

lemma keeps_invoke [keeps_intros]: "c_has c cb \<Longrightarrow> keeps P (invoke c cb args)"
  by (simp add: keeps_def invoke_def calls)

lemma keeps_call_if [keeps_intros]: "keeps P (call_if c cb args)"
  by (simp add: call_if_def keeps_intros)

lemma keeps_send [keeps_intros]: "(\<And>q. m \<noteq> Ws_heartbeat q) \<Longrightarrow> keeps P (send m)"
  unfolding send_def by (intro keeps_hmod say allowed)

lemma keeps_in_guild [keeps_intros]:
  assumes "keeps (gs_ok i) h"
  shows "keeps P (in_guild i h)"
proof (rule keepsI)
  fix s assume s: "P s" "fst (in_guild i h s) \<noteq> Some Undef"
  then obtain gs where gs: "s_guilds s i = Some gs" by (auto simp: in_guild_def split: option.splits)
  obtain r gs' where h: "h gs = (r, gs')" by force
  with s gs have "r \<noteq> Some Undef" by (simp add: in_guild_def)
  then have "gs_ok i gs'" by (rule keepsD [OF assms guild_of [OF s(1) gs] h])
  with s(1) show "P (snd (in_guild i h s))" by (simp add: in_guild_def gs h put)
qed

lemma keeps_with_guild [keeps_intros]:
  "(\<And>gs. gs_ok i gs \<Longrightarrow> keeps P (k gs)) \<Longrightarrow> keeps P (with_guild i k)"
  by (auto simp: keeps_def with_guild_def guild_of split: option.splits)

lemma keeps_back_up [keeps_intros]: "deferrable ename \<Longrightarrow> keeps P (back_up key e ename)"
  unfolding back_up_def by (intro keeps_hmod keep_back) (auto dest: kept_back split: option.splits)

lemma keeps_if_ready [keeps_intros]:
  "deferrable ename \<Longrightarrow> keeps P h \<Longrightarrow> keeps P (if_ready gs key e ename h)"
  by (simp add: if_ready_def keeps_back_up)

section \<open>Session events and guilds\<close>

lemma keeps_on_event_ready [keeps_intros]: "keeps P (on_event_ready c e)"
  unfolding on_event_ready_def by (intro keeps_intros) (simp_all add: field_laws)

lemma keeps_on_event_resumed [keeps_intros]: "keeps P (on_event_resumed c e)"
  unfolding on_event_resumed_def by (intro keeps_intros) (simp_all add: field_laws)

lemma keeps_on_event_hello [keeps_intros]: "keeps P (on_event_hello c e)"
  unfolding on_event_hello_def by (intro keeps_intros) (simp_all add: field_laws)

lemma keeps_on_user_update [keeps_intros]: "keeps P (on_user_update c e)"
  unfolding on_user_update_def by (intro keeps_intros) (simp_all add: field_laws)

text \<open>A new guild is stored before it has an id: the first two steps of \<open>GUILD_CREATE\<close> go together.\<close>

lemma keeps_new_guild [keeps_intros]:
  assumes "id_read (c_json c) e i"
  shows "keeps P (hthen (hmod (put_guild i (new_guild_and_stuff (c_json c))))
    (in_guild i (guild_part (fill (guild_fields (c_json c) e)))))"
    (is "keeps P ?h")
proof (rule keepsI)
  fix s
  let ?f = "fill (guild_fields (c_json c) e) (default_guild (c_json c))"
  assume s: "P s" "fst (?h s) \<noteq> Some Undef"
  have h: "?h s = (fst ?f, put_guild i ((new_guild_and_stuff (c_json c))\<lparr>gs_guild := snd ?f\<rparr>) s)"
    by (simp add: hthen_def hmod_def in_guild_def put_guild_def guild_part_def hpart_def new_guild_and_stuff_def
        split: prod.splits)
  with s(2) have "guild_ok i (snd ?f)"
    by (intro fill_guild_fields_ok [OF assms])
      (simp_all add: default_guild_def default_partial_guild_def partial_guild.defs)
  then have "gs_ok i ((new_guild_and_stuff (c_json c))\<lparr>gs_guild := snd ?f\<rparr>)"
    by (simp add: gs_ok_def new_guild_and_stuff_def)
  then show "P (snd (?h s))" using put [OF s(1)] by (simp add: h)
qed

lemma keeps_if_guild_ready [keeps_intros]: "keeps P h \<Longrightarrow> keeps P (if_guild_ready i h)"
  unfolding if_guild_ready_def by (intro keeps_intros)

lemma keeps_on_guild_create [keeps_intros]: "keeps P (on_guild_create c e)"
  unfolding on_guild_create_def hseq_cons2
  by (intro keeps_intros ev_id_read) (auto simp: guild_ok_def)

lemma keeps_on_guild_update [keeps_intros]: "keeps P (on_guild_update c e)"
  unfolding on_guild_update_def by (intro keeps_intros ev_id_read) (auto simp: deferrable_def field_laws)

lemma keeps_on_guild_delete [keeps_intros]: "keeps P (on_guild_delete c e)"
  unfolding on_guild_delete_def by (intro keeps_intros) (rule delete)

lemma keeps_on_guild_ban_add [keeps_intros]: "keeps P (on_guild_ban_add c e)"
  unfolding on_guild_ban_add_def by (intro keeps_intros; assumption?)

lemma keeps_on_guild_ban_remove [keeps_intros]: "keeps P (on_guild_ban_remove c e)"
  unfolding on_guild_ban_remove_def by (intro keeps_intros; assumption?)

lemma keeps_on_guild_emoji_update [keeps_intros]: "keeps P (on_guild_emoji_update c e)"
  unfolding on_guild_emoji_update_def by (intro keeps_intros) (auto simp: ok_defs field_laws)

section \<open>Members and roles\<close>

lemma keeps_chunks_start [keeps_intros]: "keeps P (chunks_start c e g)"
  unfolding chunks_start_def by (intro keeps_intros) (simp_all add: field_laws)

lemma keeps_chunks_dec [keeps_intros]: "keeps P (chunks_dec g)"
  unfolding chunks_dec_def by (intro keeps_intros) (simp_all add: field_laws)

lemma keeps_replay [keeps_intros]:
  assumes "\<And>e ename. deferrable ename \<Longrightarrow> keeps P (run e ename)"
  shows "keeps P (replay_events_for run g)"
  unfolding replay_events_for_def
proof (intro keeps_intros)
  fix s and es p
  assume "P s" "s_backed_up s g = Some es" "p \<in> set es"
  then have "deferrable (snd p)" using kept_back [of s g es] by (auto simp: list_all_iff)
  then show "keeps P (case p of (e, ename) \<Rightarrow> run e ename)" by (cases p) (simp add: assms)
qed (auto simp: field_laws)

lemma keeps_finish_loading [keeps_intros]:
  assumes "\<And>e ename. deferrable ename \<Longrightarrow> keeps P (run e ename)"
  shows "keeps P (finish_loading run c i g)"
  unfolding finish_loading_def
proof (intro keeps_intros assms)
  show "keeps (guild_ok i) (\<lambda>g. apply_presences (c_json c) (g_presences g) g)" for i
    by (rule keeps_state_dep) (rule keeps_apply_presences)
qed (auto simp: ok_defs field_laws)

lemma keeps_on_guild_members_chunk [keeps_intros]:
  assumes "\<And>e ename. deferrable ename \<Longrightarrow> keeps P (run e ename)"
  shows "keeps P (on_guild_members_chunk run c e)"
  unfolding on_guild_members_chunk_def by (intro keeps_intros assms)

lemma keeps_on_guild_member_add [keeps_intros]: "keeps P (on_guild_member_add c e)"
  unfolding on_guild_member_add_def by (intro keeps_intros) (auto simp: deferrable_def field_laws)

lemma keeps_on_guild_member_remove [keeps_intros]: "keeps P (on_guild_member_remove c e)"
  unfolding on_guild_member_remove_def by (intro keeps_intros) (auto simp: deferrable_def ok_defs field_laws)

lemma keeps_on_guild_member_update [keeps_intros]: "keeps P (on_guild_member_update c e)"
  unfolding on_guild_member_update_def
proof (intro keeps_intros)
  fix uj u
  assume u: "rbind (at_const (c_json c) uj ''id'') (as_sf (c_json c)) = Inr u"
  show "keeps (\<lambda>m. u_id m = u) (fill (user_fields (c_json c) uj @
     [assign (ev c e ''roles'' (\<lambda>J. as_range (as_sf J) J)) (\<lambda>v m. m\<lparr>gm_roles := v\<rparr>), nick_update (c_json c) e]))"
    by (rule keeps_fill) (auto simp: field_defs assign_Inr u nick_update_def split: option.splits if_splits)
qed (auto simp: deferrable_def field_laws)

lemma keeps_on_presence_update [keeps_intros]: "keeps P (on_presence_update c e)"
  unfolding on_presence_update_def by (intro keeps_intros) (auto simp: deferrable_def ok_defs field_laws)

lemma keeps_on_guild_role_create [keeps_intros]: "keeps P (on_guild_role_create c e)"
  unfolding on_guild_role_create_def
  by (intro keeps_intros) (auto simp: deferrable_def new_role_ok)

lemma keeps_on_guild_role_update [keeps_intros]: "keeps P (on_guild_role_update c e)"
  unfolding on_guild_role_update_def by (intro keeps_intros) (auto simp: deferrable_def guild_ok_def field_laws)

lemma keeps_on_guild_role_delete [keeps_intros]: "keeps P (on_guild_role_delete c e)"
  unfolding on_guild_role_delete_def
  by (intro keeps_intros) (auto simp: deferrable_def guild_ok_def gs_ok_def keyed_def)

section \<open>Channels\<close>

lemma keeps_call_text [keeps_intros]: "keeps P (call_text c cb i ch)"
  unfolding call_text_def by (intro keeps_intros)

lemma keeps_call_voice [keeps_intros]: "keeps P (call_voice c cb i ch)"
  unfolding call_voice_def by (intro keeps_intros)

lemma keeps_call_category [keeps_intros]: "keeps P (call_category c cb i ch)"
  unfolding call_category_def by (intro keeps_intros)

lemma keeps_add_channel [keeps_intros]:
  assumes "id_read (c_json c) e i"
  shows "keeps P (add_text_channel c e g i type)" "keeps P (add_voice_channel c e g i)"
    "keeps P (add_category c e g i)"
  unfolding add_text_channel_def add_voice_channel_def add_category_def
  by (intro keeps_intros assms; simp add: guild_ok_def)+

lemma keeps_on_channel_create [keeps_intros]: "keeps P (on_channel_create c e)"
  unfolding on_channel_create_def by (intro keeps_intros ev_id_read) (auto simp: deferrable_def field_laws)

lemma keeps_update_channel [keeps_intros]:
  assumes "id_read (c_json c) e i"
  shows "keeps P (update_text_channel c e g i type)" "keeps P (update_voice_channel c e g i)"
    "keeps P (update_category c e g i)"
  unfolding update_text_channel_def update_voice_channel_def update_category_def
  by (intro keeps_intros assms; simp add: guild_ok_def)+

lemma keeps_on_channel_update [keeps_intros]: "keeps P (on_channel_update c e)"
  unfolding on_channel_update_def by (intro keeps_intros ev_id_read) (auto simp: field_laws)

lemma keeps_delete_channel [keeps_intros]:
  "keeps P (delete_text c g i gs)" "keeps P (delete_voice c g i gs)"
  "keeps P (delete_category c g i gs)"
  unfolding delete_text_def delete_voice_def delete_category_def
  by (intro keeps_intros; auto simp: gs_ok_def)+

lemma keeps_on_channel_delete [keeps_intros]: "keeps P (on_channel_delete c e)"
  unfolding on_channel_delete_def by (intro keeps_intros) (auto simp: deferrable_def guild_ok_def field_laws)

section \<open>Messages and voice\<close>

lemma keeps_with_text [keeps_intros]: "keeps P h \<Longrightarrow> keeps P (with_text gs ch h)"
  unfolding with_text_def by (intro keeps_intros)

lemma keeps_with_text' [keeps_intros]: "(\<And>t. keeps P (k t)) \<Longrightarrow> keeps P (with_text' gs ch k)"
  unfolding with_text'_def by (intro keeps_intros)

lemma keeps_with_dm [keeps_intros]: "(\<And>d. keeps P (k d)) \<Longrightarrow> keeps P (with_dm i k)"
  unfolding with_dm_def by (intro keeps_intros)

lemma keeps_touch_dm [keeps_intros]: "keeps P (touch_dm i)"
  unfolding touch_dm_def by (intro keeps_intros) (simp_all add: field_laws)

lemma keeps_with_recipient [keeps_intros]:
  "(\<And>u d. keeps P (k u d)) \<Longrightarrow> keeps P (with_recipient i u k)"
  unfolding with_recipient_def touch_recipient_def by (intro keeps_intros) (simp_all add: field_laws)

lemma keeps_messages [keeps_intros]:
  "keeps P (on_message_create c e)" "keeps P (on_message_update c e)"
  "keeps P (on_message_delete c e)" "keeps P (on_message_delete_bulk c e)"
  unfolding on_message_create_def on_message_update_def on_message_delete_def on_message_delete_bulk_def
  by (intro keeps_intros; simp add: deferrable_def)+

lemma keeps_reactions [keeps_intros]:
  "keeps P (on_reaction_add c e)" "keeps P (on_reaction_remove c e)"
  "keeps P (on_reaction_remove_all c e)" "keeps P (on_typing_start c e)"
  unfolding on_reaction_add_def on_reaction_remove_def on_reaction_remove_all_def on_typing_start_def
  by (intro keeps_intros; simp add: deferrable_def)+

lemma keeps_change_voice_state [keeps_intros]: "keeps P (change_voice_state c e i u)"
  unfolding change_voice_state_def by (intro keeps_intros) (auto simp: guild_ok_def field_laws)

lemma keeps_on_voice_state_update [keeps_intros]: "keeps P (on_voice_state_update c e)"
  unfolding on_voice_state_update_def set_session_promise_def by (intro keeps_intros) (auto simp: field_laws)

lemma keeps_on_voice_server_update [keeps_intros]: "keeps P (on_voice_server_update c e)"
  unfolding on_voice_server_update_def by (intro keeps_intros) (auto simp: field_laws)

section \<open>The gateway\<close>

lemma keeps_process_event:
  assumes "\<And>e ename. deferrable ename \<Longrightarrow> keeps P (run e ename)"
  shows "keeps P (process_event run c ename e)"
  unfolding process_event_def
  by (cases ename; simp only: event_name.case; intro keeps_intros assms; assumption?)

lemma keeps_m_opcode0 [keeps_intros]: "keeps P (m_opcode0 k c e ename n)"
proof (induction k arbitrary: e ename n)
  case (Suc k)
  then show ?case by (auto intro!: keeps_intros keeps_process_event simp: field_laws)
qed (simp add: keeps_hfail)

lemma keeps_reconnect [keeps_intros]: "keeps P reconnect"
  unfolding reconnect_def close_connection_def by (intro keeps_intros) (simp_all add: field_laws)

lemma keeps_session [keeps_intros]:
  "keeps P send_resume" "keeps P on_reconnect" "keeps P m_opcode1_send_heartbeat"
  "keeps P m_opcode2_send_identity" "keeps P (send_identity c)"
  "keeps P (update_presence st gname)" "keeps P (m_opcode4 g ch)"
  "keeps P m_opcode7_reconnect" "keeps P (m_opcode9_on_invalid_session d)"
  "keeps P (m_opcode10_on_hello c d)" "keeps P m_opcode11" "keeps P end_loop"
  unfolding on_reconnect_def send_resume_def m_opcode1_send_heartbeat_def m_opcode2_send_identity_def
    send_identity_def update_presence_def m_opcode3_send_presence_def m_opcode4_def m_opcode7_reconnect_def
    m_opcode9_on_invalid_session_def m_opcode10_on_hello_def hb_start_def m_opcode11_def end_loop_def
  by (intro keeps_intros; simp add: field_laws)+

lemma keeps_after_invalid_session [keeps_intros]: "keeps P (after_invalid_session c d)"
  unfolding after_invalid_session_def by (intro keeps_intros)

lemma keeps_send_heartbeat [keeps_intros]: "keeps P send_heartbeat"
proof (rule keepsI)
  fix s assume s: "P s"
  have "P (snd (reconnect s))"
    using s by (simp add: reconnect_def close_connection_def hget_def hdone_def hmod_def field_laws)
  with s beat [of s] show "P (snd (send_heartbeat s))"
    by (simp add: send_heartbeat_def hget_def hdone_def hthen_def send_def hmod_def)
qed

lemma keeps_on_read_error [keeps_intros]: "keeps P (on_read_error code)"
  unfolding on_read_error_def by (intro keeps_intros) (simp_all add: field_laws)

lemma keeps_on_frame [keeps_intros]: "keeps P (on_frame c frame)"
  unfolding on_frame_def do_stuff_def by (intro keeps_intros)

lemma keeps_loop_body [keeps_intros]:
  assumes "keeps P h"
  shows "keeps P (loop_body h)"
proof (rule keepsI)
  fix s assume s: "P s" "fst (loop_body h s) \<noteq> Some Undef"
  then have "fst (h s) \<noteq> Some Undef" by (cases "h s") (auto simp: loop_body_def)
  with s(1) assms have "P (snd (h s))" by (simp add: keeps_def)
  then show "P (snd (loop_body h s))"
    by (cases "h s") (auto simp: loop_body_def end_loop_def hmod_def reading split: option.splits fault.splits)
qed

lemma gw_step_ok: "gw_step c s t \<Longrightarrow> P s \<Longrightarrow> P t"
proof (induction rule: gw_step.induct)
  case (Frame s frame t)
  show ?case by (rule keepsD [OF keeps_loop_body [OF keeps_on_frame] Frame(3,2)]) simp
next
  case (Read_error s code t)
  show ?case by (rule keepsD [OF keeps_on_read_error Read_error(3,2)]) simp
next
  case (Failure s t)
  show ?case by (rule keepsD [OF keeps_session(12) Failure(3,2)]) simp
next
  case (Heartbeat s t)
  then have "P (s\<lparr>s_timers := s_timers s - 1\<rparr>)" by (simp add: field_laws)
  then show ?case by (rule keepsD [OF keeps_send_heartbeat _ Heartbeat(2)]) simp
next
  case (Invalid s ds1 d ds2 r t)
  then have "P (s\<lparr>s_invalid := ds1 @ ds2\<rparr>)" by (simp add: field_laws)
  then show ?case by (rule keepsD [OF keeps_after_invalid_session _ Invalid(2,3)])
next
  case (Identify s t)
  show ?case by (rule keepsD [OF keeps_session(5) Identify(2,1)]) simp
next
  case (Presence st g s t)
  show ?case by (rule keepsD [OF keeps_session(6) Presence(2,1)]) simp
next
  case (Voice g ch s t)
  show ?case by (rule keepsD [OF keeps_session(7) Voice(2,1)]) simp
qed

end

section \<open>The invariant of reachable states\<close>

interpretation ok: shard_property c shard_ok "\<lambda>_. True" for c :: "'j config"
  by unfold_locales (auto simp: shard_ok_def put_guild_def)

lemma gw_reachable_ok: "gw_reachable c s \<Longrightarrow> shard_ok s"
proof (induction rule: gw_reachable.induct)
  case Initial
  then show ?case by (simp add: shard_ok_def initial_shard_def)
qed (rule ok.gw_step_ok)

text \<open>C1: The invariant of a shard: in every state a shard reaches, each guild, role, text and voice
  channel, category and member is stored under its own id, and the events kept back are of kinds
  that a replay handles without starting another.\<close>
theorem gateway_invariant:
  assumes "gw_reachable c s"
  shows "shard_ok s"
  using assms by (rule gw_reachable_ok)

section \<open>Callbacks\<close>

interpretation guarded: shard_property c "\<lambda>s. shard_ok s \<and> list_all (\<lambda>(cb, _). c_has c cb) (s_calls s)" "\<lambda>_. True"
  for c :: "'j config"
  by unfold_locales (auto simp: shard_ok_def put_guild_def)

text \<open>C10: No step of a shard calls a callback that the client has not set: every call is guarded by the test of
  its own callback, so the dereference of an empty one, which throws, never happens.\<close>
theorem only_set_callbacks_called:
  assumes "gw_reachable c s" "(cb, args) \<in> set (s_calls s)"
  shows "c_has c cb"
proof -
  from assms(1) have "shard_ok s \<and> list_all (\<lambda>(cb, _). c_has c cb) (s_calls s)"
  proof (induction rule: gw_reachable.induct)
    case Initial
    then show ?case by (simp add: shard_ok_def initial_shard_def)
  qed (rule guarded.gw_step_ok)
  with assms(2) show ?thesis by (auto simp: list_all_iff)
qed

section \<open>The sequence number\<close>

interpretation seq_at_least: shard_property c "\<lambda>s. shard_ok s \<and> x \<le> s_seq s" "\<lambda>_. True" for c :: "'j config" and x
  by unfold_locales (auto simp: shard_ok_def put_guild_def max_def)

text \<open>The sequence number a shard resumes with never goes back, whatever order the numbers of the
  events come in.\<close>
theorem sequence_never_back:
  assumes "shard_ok s" "gw_step c s t"
  shows "s_seq s \<le> s_seq t"
  using seq_at_least.gw_step_ok [OF assms(2)] assms(1) by blast

section \<open>After a disconnection\<close>

definition is_heartbeat :: "ws_message \<Rightarrow> bool" where
  "is_heartbeat m = (case m of Ws_heartbeat _ \<Rightarrow> True | _ \<Rightarrow> False)"

interpretation silent: shard_property c
  "\<lambda>s. shard_ok s \<and> s_disconnected s \<and> filter is_heartbeat (s_sent s) = ms" "\<lambda>m. \<not> is_heartbeat m" for c :: "'j config" and ms
  by unfold_locales (auto simp: shard_ok_def put_guild_def is_heartbeat_def split: ws_message.splits)


end
