(* ===== verification/Shard_Frame.thy ===== *)
theory Shard_Frame
  imports Shard_Keeps
begin

text \<open>
  Guilds do not disturb each other: an event changes at most the guild it names. The chunks of a guild's
  members are left out, since the last one runs the events kept back.
\<close>

definition event_guild :: "'j config \<Rightarrow> event_name \<Rightarrow> 'j \<Rightarrow> snowflake res" where
  "event_guild c ename e =
     ev c e (if ename = GUILD_CREATE \<or> ename = GUILD_UPDATE \<or> ename = GUILD_DELETE then ''id'' else ''guild_id'') as_sf"

text \<open>The shard's entry for the guild \<open>j\<close> is \<open>X\<close>.\<close>

definition holds :: "snowflake \<Rightarrow> 'j guild_and_stuff option \<Rightarrow> 'j shard \<Rightarrow> bool" where
  "holds j X s \<longleftrightarrow> s_guilds s j = X"

lemma ev_guild_id_ev: "ev_guild_id c e = Inr i \<Longrightarrow> ev c e ''guild_id'' as_sf = Inr i"
  by (auto simp: ev_guild_id_def ev_def value_or_def at_mut_def as_sf_def sf_from_json_def or_throw_def rbind_Inr_iff
      split: option.splits if_splits)

named_theorems frame_intros

lemma frame_hmod [frame_intros]: "(\<And>s. s_guilds (f s) j = s_guilds s j) \<Longrightarrow> keeps (holds j X) (hmod f)"
  by (rule keeps_hmod) (simp add: holds_def)

lemma frame_in_guild [frame_intros]: "i \<noteq> j \<Longrightarrow> keeps (holds j X) (in_guild i h)"
  by (auto simp: keeps_def holds_def in_guild_def put_guild_def split: option.splits prod.splits)

lemma frame_with_guild [frame_intros]: "(\<And>gs. keeps (holds j X) (k gs)) \<Longrightarrow> keeps (holds j X) (with_guild i k)"
  by (auto simp: keeps_def with_guild_def split: option.splits)

lemma frame_invoke [frame_intros]: "keeps (holds j X) (invoke c cb args)"
  by (simp add: keeps_def invoke_def holds_def)

lemma frame_call_if [frame_intros]: "keeps (holds j X) (call_if c cb args)"
  by (simp add: call_if_def frame_invoke keeps_hdone)

lemma frame_send [frame_intros]: "keeps (holds j X) (send m)"
  by (simp add: send_def frame_hmod)

lemma frame_if_ready [frame_intros]: "keeps (holds j X) h \<Longrightarrow> keeps (holds j X) (if_ready gs key e ename h)"
  by (simp add: if_ready_def back_up_def frame_hmod)

lemma frame_if_guild_ready [frame_intros]: "keeps (holds j X) h \<Longrightarrow> keeps (holds j X) (if_guild_ready i h)"
  unfolding if_guild_ready_def by (intro keeps_intros)

lemma frame_calls [frame_intros]:
  "keeps (holds j X) (call_text c cb i ch)" "keeps (holds j X) (call_voice c cb i ch)"
  "keeps (holds j X) (call_category c cb i ch)"
  unfolding call_text_def call_voice_def call_category_def by (intro keeps_intros frame_intros)+

lemma frame_with_text [frame_intros]: "keeps (holds j X) h \<Longrightarrow> keeps (holds j X) (with_text gs ch h)"
  unfolding with_text_def by (intro keeps_intros)

lemma frame_with_text' [frame_intros]: "(\<And>t. keeps (holds j X) (k t)) \<Longrightarrow> keeps (holds j X) (with_text' gs ch k)"
  unfolding with_text'_def by (intro keeps_intros)

lemma frame_with_dm [frame_intros]: "(\<And>d. keeps (holds j X) (k d)) \<Longrightarrow> keeps (holds j X) (with_dm i k)"
  unfolding with_dm_def by (intro keeps_intros)

lemma frame_touch [frame_intros]: "keeps (holds j X) (touch_dm i)" "keeps (holds j X) (touch_recipient i u)"
  unfolding touch_dm_def touch_recipient_def by (intro frame_intros; simp)+

lemma frame_with_recipient [frame_intros]:
  "(\<And>u d. keeps (holds j X) (k u d)) \<Longrightarrow> keeps (holds j X) (with_recipient i u k)"
  unfolding with_recipient_def by (intro keeps_intros frame_intros)

lemma frame_channels [frame_intros]:
  assumes "g \<noteq> j"
  shows "keeps (holds j X) (add_text_channel c e g i type)" "keeps (holds j X) (add_voice_channel c e g i)"
    "keeps (holds j X) (add_category c e g i)" "keeps (holds j X) (update_text_channel c e g i type)"
    "keeps (holds j X) (update_voice_channel c e g i)" "keeps (holds j X) (update_category c e g i)"
    "keeps (holds j X) (delete_text c g i gs)" "keeps (holds j X) (delete_voice c g i gs)"
    "keeps (holds j X) (delete_category c g i gs)"
  unfolding add_text_channel_def add_voice_channel_def add_category_def update_text_channel_def
    update_voice_channel_def update_category_def delete_text_def delete_voice_def delete_category_def
  by (intro keeps_intros frame_intros assms)+

lemmas guild_handlers = on_guild_create_def on_guild_update_def on_guild_delete_def on_guild_ban_add_def
  on_guild_ban_remove_def on_guild_emoji_update_def on_guild_member_add_def on_guild_member_remove_def
  on_guild_member_update_def on_presence_update_def on_guild_role_create_def on_guild_role_update_def
  on_guild_role_delete_def on_voice_server_update_def

lemmas session_handlers = on_event_ready_def on_event_resumed_def on_event_hello_def on_user_update_def

lemmas channel_handlers = on_channel_create_def on_channel_update_def on_channel_delete_def on_message_create_def
  on_message_update_def on_message_delete_def on_message_delete_bulk_def on_reaction_add_def on_reaction_remove_def
  on_reaction_remove_all_def on_typing_start_def

lemma frame_voice_state:
  assumes "ev_guild_id c e \<noteq> Inr j"
  shows "keeps (holds j X) (on_voice_state_update c e)"
  unfolding on_voice_state_update_def change_voice_state_def set_session_promise_def Let_def
  by (intro keeps_intros frame_intros) (use assms in auto)

lemma frame_session:
  "keeps (holds j X) (on_event_ready c e)" "keeps (holds j X) (on_event_resumed c e)"
  "keeps (holds j X) (on_event_hello c e)" "keeps (holds j X) (on_user_update c e)"
  unfolding session_handlers by (intro keeps_intros frame_intros; simp)+

lemma frame_channel_handlers:
  assumes "ev_guild_id c e \<noteq> Inr j"
  shows "keeps (holds j X) (on_channel_create c e)" "keeps (holds j X) (on_channel_update c e)"
    "keeps (holds j X) (on_channel_delete c e)" "keeps (holds j X) (on_message_create c e)"
    "keeps (holds j X) (on_message_update c e)" "keeps (holds j X) (on_message_delete c e)"
    "keeps (holds j X) (on_message_delete_bulk c e)" "keeps (holds j X) (on_reaction_add c e)"
    "keeps (holds j X) (on_reaction_remove c e)" "keeps (holds j X) (on_reaction_remove_all c e)"
    "keeps (holds j X) (on_typing_start c e)"
  unfolding channel_handlers by (intro keeps_intros frame_intros; use assms in auto)+

lemma frame_guild_handlers:
  assumes "ev c e ''guild_id'' as_sf \<noteq> Inr j"
  shows "keeps (holds j X) (on_guild_ban_add c e)" "keeps (holds j X) (on_guild_ban_remove c e)"
    "keeps (holds j X) (on_guild_emoji_update c e)" "keeps (holds j X) (on_guild_member_add c e)"
    "keeps (holds j X) (on_guild_member_remove c e)" "keeps (holds j X) (on_guild_member_update c e)"
    "keeps (holds j X) (on_presence_update c e)" "keeps (holds j X) (on_guild_role_create c e)"
    "keeps (holds j X) (on_guild_role_update c e)" "keeps (holds j X) (on_guild_role_delete c e)"
    "keeps (holds j X) (on_voice_server_update c e)"
  unfolding guild_handlers Let_def by (intro keeps_intros frame_intros; use assms in auto)+

lemma frame_guilds:
  assumes "ev c e ''id'' as_sf \<noteq> Inr j"
  shows "keeps (holds j X) (on_guild_create c e)" "keeps (holds j X) (on_guild_update c e)"
    "keeps (holds j X) (on_guild_delete c e)"
  unfolding guild_handlers by (intro keeps_intros frame_intros; use assms in \<open>auto simp: put_guild_def\<close>)+

lemmas frame_handlers = frame_voice_state frame_session frame_channel_handlers frame_guild_handlers frame_guilds
  keeps_hdone


end
