(* ===== verification/Guild_Laws.thy ===== *)
theory Guild_Laws
  imports Shard_Frame
begin

text \<open>
  What the handlers do to the channels, roles and voice states of a guild: the channels of a new guild by
  their types, the channels of a deleted category, one voice state per user, and the events whose
  handlers have no defined result.
\<close>

section \<open>The channels of a new guild\<close>

definition channel_type_of :: "'j json_api \<Rightarrow> 'j \<Rightarrow> int res" where
  "channel_type_of J e = rbind (at_const J e ''type'') (as_int J)"

text \<open>The ids of the channels whose type is in a set, in the order of the event.\<close>

definition ids_of_types :: "'j json_api \<Rightarrow> int set \<Rightarrow> 'j list \<Rightarrow> snowflake list" where
  "ids_of_types J T chs = concat (map (\<lambda>e. case (channel_type_of J e, const_id J e) of
     (Inr t, Inr i) \<Rightarrow> if t \<in> T then [i] else [] | _ \<Rightarrow> []) chs)"

lemma ids_of_types_simps:
  "ids_of_types J T [] = []"
  "ids_of_types J T (e # chs) = (case (channel_type_of J e, const_id J e) of
     (Inr t, Inr i) \<Rightarrow> if t \<in> T then [i] else [] | _ \<Rightarrow> []) @ ids_of_types J T chs"
  by (simp_all add: ids_of_types_def)

text \<open>The channels listed under their kinds, and those stored.\<close>

definition listed_ids :: "'j guild_and_stuff \<Rightarrow> snowflake list \<times> snowflake list \<times> snowflake list" where
  "listed_ids gs = (g_text_ids (gs_guild gs), g_voice_ids (gs_guild gs), g_category_ids (gs_guild gs))"

definition stored_ids :: "'j guild_and_stuff \<Rightarrow> snowflake set \<times> snowflake set \<times> snowflake set" where
  "stored_ids gs = (dom (gs_text gs), dom (gs_voice gs), dom (gs_categories gs))"

lemma fill_id_None:
  assumes "fill (assign (const_id J e) upd # fs) a = (None, b)" "const_id J e = Inr i" "\<And>a. f (upd i a) = i"
    and "\<And>h a b. h \<in> set fs \<Longrightarrow> h a = Inr b \<Longrightarrow> f b = f a"
  shows "f b = i"
proof -
  have "\<exists>c. assign (const_id J e) upd a = Inr c \<and> f b = f c" by (rule fill_first [OF assms(1)]) (rule assms(4))
  with assms(2,3) show ?thesis by auto
qed

lemma fill_split: "fs = gs \<Longrightarrow> fill fs a = r \<Longrightarrow> fill gs a = r"
  by simp

lemma fill_text_None:
  assumes "fill_text J i e gs = (None, gs1)" "const_id J e = Inr i"
  shows "\<exists>ch. gs1 = gs\<lparr>gs_text := (gs_text gs)(i \<mapsto> ch)\<rparr> \<and> pc_id ch = i"
proof -
  obtain ch0 ch where f: "fill (text_channel_fields J e) ch0 = (None, ch)"
    and gs1: "gs1 = gs\<lparr>gs_text := (gs_text gs)(i \<mapsto> ch)\<rparr>"
    using assms(1) by (auto simp: fill_text_def Let_def split: prod.splits)
  have "pc_id ch = i"
    by (rule fill_id_None [where f = pc_id, OF f [THEN fill_split [OF fill_text_fields_id_split]] assms(2)])
      (auto simp: fill_text_fields_id_tl)
  with gs1 show ?thesis by blast
qed

lemma fill_voice_None:
  assumes "fill_voice J i e gs = (None, gs1)" "const_id J e = Inr i"
  shows "\<exists>ch. gs1 = gs\<lparr>gs_voice := (gs_voice gs)(i \<mapsto> ch)\<rparr> \<and> pc_id ch = i"
proof -
  obtain ch0 ch where f: "fill (voice_channel_fields J e) ch0 = (None, ch)"
    and gs1: "gs1 = gs\<lparr>gs_voice := (gs_voice gs)(i \<mapsto> ch)\<rparr>"
    using assms(1) by (auto simp: fill_voice_def Let_def split: prod.splits)
  have "pc_id ch = i"
    by (rule fill_id_None [where f = pc_id, OF f [THEN fill_split [OF fill_voice_fields_id_split]] assms(2)])
      (auto simp: fill_voice_fields_id_tl)
  with gs1 show ?thesis by blast
qed

lemma fill_category_None:
  assumes "fill_category J i e gs = (None, gs1)" "const_id J e = Inr i"
  shows "\<exists>ch. gs1 = gs\<lparr>gs_categories := (gs_categories gs)(i \<mapsto> Some ch)\<rparr> \<and> pc_id ch = i"
proof -
  obtain ch0 :: guild_channel and ch where f: "fill (guild_channel_fields J e) ch0 = (None, ch)"
    and gs1: "gs1 = gs\<lparr>gs_categories := (gs_categories gs)(i \<mapsto> Some ch)\<rparr>"
    using assms(1) by (auto simp: fill_category_def split: prod.splits option.splits)
  have "pc_id ch = i"
    by (rule fill_id_None [where f = pc_id, OF f [THEN fill_split [OF fill_category_fields_id_split]] assms(2)])
      (auto simp: fill_category_fields_id_tl)
  with gs1 show ?thesis by blast
qed

text \<open>One channel.\<close>

lemma create_channel_lists:
  assumes "create_channel J e gs = (None, gs')"
  shows "listed_ids gs' = (g_text_ids (gs_guild gs) @ ids_of_types J {0, 5, 6} [e],
      g_voice_ids (gs_guild gs) @ ids_of_types J {2} [e], g_category_ids (gs_guild gs) @ ids_of_types J {4} [e])
    \<and> stored_ids gs' = (dom (gs_text gs) \<union> set (ids_of_types J {0, 5, 6} [e]),
      dom (gs_voice gs) \<union> set (ids_of_types J {2} [e]), dom (gs_categories gs) \<union> set (ids_of_types J {4} [e]))"
proof -
  obtain t where t: "channel_type_of J e = Inr t"
    using assms by (auto simp: create_channel_def channel_type_of_def hread_def split: sum.splits)
  have unf: "create_channel J e gs = (if t = 0 \<or> t = 5 \<or> t = 6 then
      hread (const_id J e) (\<lambda>i. hseq
           [fill_text J i e,
            hmod (\<lambda>gs. upd_text i (\<lambda>ch. ch\<lparr>gc_guild_id := gs_id gs\<rparr>) gs),
            hmod (\<lambda>gs. upd_guild (\<lambda>g. g\<lparr>g_text_ids := g_text_ids g @ [text_id gs i]\<rparr>) gs),
            hmod (upd_text i (set_text_type t))])
       else if t = 2 then
         hread (const_id J e) (\<lambda>i. hseq
           [fill_voice J i e,
            hmod (\<lambda>gs. upd_voice i (\<lambda>ch. ch\<lparr>gc_guild_id := gs_id gs\<rparr>) gs),
            hmod (\<lambda>gs. upd_guild (\<lambda>g. g\<lparr>g_voice_ids := g_voice_ids g @ [voice_id gs i]\<rparr>) gs)])
       else if t = 4 then
         hread (const_id J e) (\<lambda>i. hseq
           [fill_category J i e,
            hmod (\<lambda>gs. upd_category i (\<lambda>ch. ch\<lparr>gc_guild_id := gs_id gs\<rparr>) gs),
            hmod (\<lambda>gs. upd_guild (\<lambda>g. g\<lparr>g_category_ids := g_category_ids g @ [category_id gs i]\<rparr>) gs)])
       else hdone) gs"
    using t by (simp add: create_channel_def channel_type_of_def const_id_def hread_def)
  show ?thesis
  proof (cases "t = 0 \<or> t = 5 \<or> t = 6 \<or> t = 2 \<or> t = 4")
    case False
    then show ?thesis using assms t
      by (auto simp: unf hdone_def listed_ids_def stored_ids_def ids_of_types_simps split: sum.splits)
  next
    case True
    then obtain i where i: "const_id J e = Inr i"
      using assms by (auto simp: unf hread_def split: sum.splits if_splits)
    consider "t = 0 \<or> t = 5 \<or> t = 6" | "t = 2" | "t = 4" using True by blast
    then show ?thesis
    proof cases
      case 1
      then obtain gs1 where "fill_text J i e gs = (None, gs1)"
        using assms i by (auto simp: unf hread_def elim: hthen_NoneE)
      moreover from fill_text_None [OF this i] obtain ch where
        "gs1 = gs\<lparr>gs_text := (gs_text gs)(i \<mapsto> ch)\<rparr>" "pc_id ch = i" by blast
      ultimately show ?thesis using 1 assms i t
        by (auto simp: unf hread_def hthen_def hmod_def hdone_def upd_text_def upd_guild_def text_id_def
            listed_ids_def stored_ids_def ids_of_types_simps)
    next
      case 2
      then obtain gs1 where "fill_voice J i e gs = (None, gs1)"
        using assms i by (auto simp: unf hread_def elim: hthen_NoneE)
      moreover from fill_voice_None [OF this i] obtain ch where
        "gs1 = gs\<lparr>gs_voice := (gs_voice gs)(i \<mapsto> ch)\<rparr>" "pc_id ch = i" by blast
      ultimately show ?thesis using 2 assms i t
        by (auto simp: unf hread_def hthen_def hmod_def hdone_def upd_voice_def upd_guild_def voice_id_def
            listed_ids_def stored_ids_def ids_of_types_simps)
    next
      case 3
      then obtain gs1 where "fill_category J i e gs = (None, gs1)"
        using assms i by (auto simp: unf hread_def elim: hthen_NoneE)
      moreover from fill_category_None [OF this i] obtain ch where
        "gs1 = gs\<lparr>gs_categories := (gs_categories gs)(i \<mapsto> Some ch)\<rparr>" "pc_id ch = i" by blast
      ultimately show ?thesis using 3 assms i t
        by (auto simp: unf hread_def hthen_def hmod_def hdone_def upd_category_def upd_guild_def category_id_def
            listed_ids_def stored_ids_def ids_of_types_simps)
    qed
  qed
qed

lemma create_channels_lists:
  assumes "heach (create_channel J) chs gs = (None, gs')"
  shows "listed_ids gs' = (g_text_ids (gs_guild gs) @ ids_of_types J {0, 5, 6} chs,
      g_voice_ids (gs_guild gs) @ ids_of_types J {2} chs, g_category_ids (gs_guild gs) @ ids_of_types J {4} chs)
    \<and> stored_ids gs' = (dom (gs_text gs) \<union> set (ids_of_types J {0, 5, 6} chs),
      dom (gs_voice gs) \<union> set (ids_of_types J {2} chs), dom (gs_categories gs) \<union> set (ids_of_types J {4} chs))"
  using assms
proof (induction chs arbitrary: gs)
  case (Cons e chs)
  then obtain gs1 where 1: "create_channel J e gs = (None, gs1)" and 2: "heach (create_channel J) chs gs1 = (None, gs')"
    by (auto elim: hthen_NoneE)
  show ?case using create_channel_lists [OF 1] Cons.IH [OF 2]
    by (simp add: listed_ids_def stored_ids_def ids_of_types_simps Un_assoc)
qed (simp add: hdone_def listed_ids_def stored_ids_def ids_of_types_simps)

text \<open>A predicate on the guild stored under an id, through the steps of \<open>GUILD_CREATE\<close>.\<close>

definition guild_has :: "snowflake \<Rightarrow> ('j guild_and_stuff \<Rightarrow> bool) \<Rightarrow> 'j shard \<Rightarrow> bool" where
  "guild_has i Q s \<longleftrightarrow> (\<exists>gs. s_guilds s i = Some gs \<and> Q gs)"

named_theorems has_intros

lemma has_in_guild [has_intros]: "keeps Q h \<Longrightarrow> keeps (guild_has i Q) (in_guild i h)"
  by (auto simp: keeps_def guild_has_def in_guild_def put_guild_def split: prod.splits)

lemma has_hmod [has_intros]: "(\<And>s. s_guilds (f s) i = s_guilds s i) \<Longrightarrow> keeps (guild_has i Q) (hmod f)"
  by (rule keeps_hmod) (simp add: guild_has_def)

lemma has_send [has_intros]: "keeps (guild_has i Q) (send m)"
  by (simp add: send_def has_hmod)

lemma has_call_if [has_intros]: "keeps (guild_has i Q) (call_if c cb args)"
  by (simp add: call_if_def invoke_def keeps_def guild_has_def hdone_def)

lemma has_if_guild_ready [has_intros]: "keeps (guild_has i Q) h \<Longrightarrow> keeps (guild_has i Q) (if_guild_ready j h)"
  unfolding if_guild_ready_def by (intro keeps_intros)

definition same_channels :: "'j guild_and_stuff \<Rightarrow> 'j guild_and_stuff \<Rightarrow> bool" where
  "same_channels gs0 gs \<longleftrightarrow> listed_ids gs = listed_ids gs0
     \<and> dom (gs_text gs) = dom (gs_text gs0) \<and> dom (gs_voice gs) = dom (gs_voice gs0)"

lemmas channel_defs = same_channels_def listed_ids_def

lemma keeps_lists_members [has_intros]: "keeps (same_channels gs0) (create_members J ms)"
  unfolding create_members_def
  by (intro keeps_intros keeps_hmod) (auto simp: channel_defs insert_member_def)

lemma keeps_lists_guild [has_intros]:
  assumes "keeps (\<lambda>g. g_text_ids g = l1 \<and> g_voice_ids g = l2 \<and> g_category_ids g = l3) h"
    and "listed_ids gs0 = (l1, l2, l3)"
  shows "keeps (same_channels gs0) (guild_part h)"
proof (rule keepsI)
  fix gs assume gs: "same_channels gs0 gs" "fst (guild_part h gs) \<noteq> Some Undef"
  then have "fst (h (gs_guild gs)) \<noteq> Some Undef" by (simp add: guild_part_def handler_simps)
  with gs assms show "same_channels gs0 (snd (guild_part h gs))"
    by (auto simp: keeps_def guild_part_def handler_simps channel_defs)
qed

lemma keeps_ids_fields:
  "keeps (\<lambda>g. g_text_ids g = l1 \<and> g_voice_ids g = l2 \<and> g_category_ids g = l3) (fill (guild_fields J e))"
  by (rule keeps_fill)
    (auto simp: field_defs assign_Inr widget_channel_field_def rbind_Inr_iff split: if_splits)

lemma keeps_ids_presence:
  "keeps (\<lambda>g. g_text_ids g = l1 \<and> g_voice_ids g = l2 \<and> g_category_ids g = l3) (apply_presences J p)"
  unfolding apply_presences_def apply_presence_def
  by (intro keeps_intros keeps_hmod) auto

lemma keeps_lists_presences [has_intros]: "keeps (same_channels gs0) (create_presences c e)"
  unfolding create_presences_def
proof (intro keeps_intros)
  fix p
  show "keeps (same_channels gs0) (guild_part (\<lambda>g. if g_is_ready g then apply_presences (c_json c) p g
      else (None, g\<lparr>g_presences := p\<rparr>)))"
    by (rule keeps_lists_guild [where ?l1.0 = "g_text_ids (gs_guild gs0)" and ?l2.0 = "g_voice_ids (gs_guild gs0)"
          and ?l3.0 = "g_category_ids (gs_guild gs0)"])
      (use keeps_ids_presence [of _ _ _ "c_json c" p] in \<open>auto simp: keeps_def listed_ids_def\<close>)
qed

lemma same_channels_trans: "same_channels gs0 gs1 \<Longrightarrow> same_channels gs1 gs2 \<Longrightarrow> same_channels gs0 gs2"
  by (simp add: same_channels_def)

lemma same_channels_refl: "same_channels gs gs"
  by (simp add: same_channels_def)

lemma same_channels_fold: "(\<And>k gs. same_channels gs (f k gs)) \<Longrightarrow> same_channels gs (fold f ks gs)"
  by (induction ks arbitrary: gs) (auto simp: same_channels_refl intro: same_channels_trans)

lemma set_parent_channels: "same_channels gs (set_text_parent k gs)" "same_channels gs (set_voice_parent k gs)"
  by (auto simp: channel_defs set_text_parent_def set_voice_parent_def upd_text_def upd_voice_def touch_category_def
      split: option.splits)

lemma keeps_lists_parents [has_intros]: "keeps (same_channels gs0) (hmod set_parents)"
proof (rule keeps_hmod)
  fix gs :: "'a guild_and_stuff"
  assume "same_channels gs0 gs"
  moreover have "same_channels gs (set_parents gs)"
    unfolding set_parents_def Let_def
    by (rule same_channels_trans) (rule same_channels_fold, rule set_parent_channels)+
  ultimately show "same_channels gs0 (set_parents gs)" by (rule same_channels_trans)
qed

lemma keeps_lists_upd [has_intros]:
  "(\<And>g. g_text_ids (f g) = g_text_ids g \<and> g_voice_ids (f g) = g_voice_ids g \<and> g_category_ids (f g) = g_category_ids g)
   \<Longrightarrow> keeps (same_channels gs0) (hmod (upd_guild f))"
  by (rule keeps_hmod) (simp add: channel_defs upd_guild_def)


end
