(* ===== verification/Channel_Laws.thy ===== *)
theory Channel_Laws
  imports Guild_Laws "HOL-Library.Multiset"
begin

text \<open>
  What the handlers do to the lists of a guild: the channels of a deleted category, one voice state per
  user, and the events whose handlers have no defined result.
\<close>

section \<open>Erasing from a list\<close>

lemma mset_swap_last:
  assumes "i < length xs"
  shows "mset (butlast (xs[i := last xs])) = mset xs - {#xs ! i#}"
proof (cases xs rule: rev_cases)
  case (snoc ys x)
  show ?thesis
  proof (cases "i = length ys")
    case False
    with assms snoc have "i < length ys" by simp
    then show ?thesis using snoc by (simp add: list_update_append nth_append mset_update)
  qed (simp add: snoc)
qed (use assms in simp)

text \<open>\<open>erase_first_quick\<close> removes one occurrence, in no order.\<close>

lemma erase_first_quick_mset:
  assumes "erase_first_quick xs v = (b, ys)"
  shows "mset ys = mset xs - {#v#}"
proof (cases "find_index (\<lambda>x. x = v) xs = length xs")
  case True
  then have "v \<notin> set xs" by (auto simp: find_index_none)
  with True assms show ?thesis by (auto simp: erase_first_quick_def Let_def)
next
  case False
  with find_index_less [OF False] mset_swap_last [of "find_index (\<lambda>x. x = v) xs" xs] assms show ?thesis
    by (auto simp: erase_first_quick_def Let_def)
qed

lemma erase_first_quick_found: "fst (erase_first_quick xs v) \<longleftrightarrow> v \<in> set xs"
  by (auto simp: erase_first_quick_def find_index_none Let_def)

section \<open>The channels of a deleted category\<close>

definition orphan :: "snowflake \<Rightarrow> 'a guild_channel_scheme \<Rightarrow> 'a guild_channel_scheme" where
  "orphan cat ch = (if gc_parent_id ch = cat then ch\<lparr>gc_parent := None, gc_parent_id := no_id\<rparr> else ch)"

lemma orphan_idem [simp]: "orphan cat (orphan cat ch) = orphan cat ch"
  by (simp add: orphan_def)

lemma orphan_texts:
  "heach (orphan_text cat) ks gs = (None, gs') \<Longrightarrow>
   gs' = gs\<lparr>gs_text := \<lambda>k. if k \<in> set ks then map_option (orphan cat) (gs_text gs k) else gs_text gs k\<rparr>"
proof (induction ks arbitrary: gs)
  case (Cons k ks)
  then obtain gs1 where 1: "orphan_text cat k gs = (None, gs1)" and 2: "heach (orphan_text cat) ks gs1 = (None, gs')"
    by (auto elim: hthen_NoneE)
  have "gs1 = gs\<lparr>gs_text := (gs_text gs)(k := map_option (orphan cat) (gs_text gs k))\<rparr>"
    using 1 by (auto simp: orphan_text_def upd_text_def orphan_def fun_upd_idem split: option.splits if_splits)
  with Cons.IH [OF 2] show ?case
    by (auto simp: fun_eq_iff option.map_comp comp_def intro!: guild_and_stuff.equality)
qed (simp add: hdone_def)

lemma orphan_voices:
  "heach (orphan_voice cat) ks gs = (None, gs') \<Longrightarrow>
   gs' = gs\<lparr>gs_voice := \<lambda>k. if k \<in> set ks then map_option (orphan cat) (gs_voice gs k) else gs_voice gs k\<rparr>"
proof (induction ks arbitrary: gs)
  case (Cons k ks)
  then obtain gs1 where 1: "orphan_voice cat k gs = (None, gs1)" and 2: "heach (orphan_voice cat) ks gs1 = (None, gs')"
    by (auto elim: hthen_NoneE)
  have "gs1 = gs\<lparr>gs_voice := (gs_voice gs)(k := map_option (orphan cat) (gs_voice gs k))\<rparr>"
    using 1 by (auto simp: orphan_voice_def upd_voice_def orphan_def fun_upd_idem split: option.splits if_splits)
  with Cons.IH [OF 2] show ?case
    by (auto simp: fun_eq_iff option.map_comp comp_def intro!: guild_and_stuff.equality)
qed (simp add: hdone_def)

lemma erase_not_found: "v \<notin> set xs \<Longrightarrow> erase_first_quick xs v = (False, xs)"
  by (auto simp: erase_first_quick_def find_index_none Let_def)

lemma erase_found: "v \<in> set xs \<Longrightarrow> \<exists>ys. erase_first_quick xs v = (True, ys) \<and> mset ys = mset xs - {#v#}"
  using erase_first_quick_found [of xs v] erase_first_quick_mset [of xs v]
  by (cases "erase_first_quick xs v") auto

lemma in_guild_None:
  "in_guild i h s = (None, t) \<longleftrightarrow> (\<exists>gs gs'. s_guilds s i = Some gs \<and> h gs = (None, gs') \<and> t = put_guild i gs' s)"
  by (auto simp: in_guild_def split: option.splits prod.splits)

lemma orphan_channels_None:
  assumes "orphan_channels cat gs = (None, gs')"
  shows "gs_text gs' = (\<lambda>k. if k \<in> set (g_text_ids (gs_guild gs)) then map_option (orphan cat) (gs_text gs k) else gs_text gs k)
    \<and> gs_voice gs' = (\<lambda>k. if k \<in> set (g_voice_ids (gs_guild gs)) then map_option (orphan cat) (gs_voice gs k) else gs_voice gs k)
    \<and> gs_categories gs' = gs_categories gs \<and> gs_guild gs' = gs_guild gs \<and> gs_members gs' = gs_members gs"
proof -
  obtain gs1 where 1: "heach (orphan_text cat) (g_text_ids (gs_guild gs)) gs = (None, gs1)"
    and 2: "heach (orphan_voice cat) (g_voice_ids (gs_guild gs1)) gs1 = (None, gs')"
    using assms by (auto simp: orphan_channels_def handler_simps elim: hthen_NoneE)
  from orphan_texts [OF 1] orphan_voices [OF 2] show ?thesis by (simp cong: if_cong)
qed

text \<open>Deleting a category removes it and one entry of it in the list of categories; each listed text and voice
  channel that was in it is in none afterwards, and every other channel stays as it was.\<close>
theorem category_delete_orphans:
  assumes "on_channel_delete c e s = (None, t)" "ev c e ''id'' as_sf = Inr i" "ev_guild_id c e = Inr g" "g \<noteq> no_id"
    and "s_guilds s g = Some gs" "g_is_ready (gs_guild gs)" "gs_categories gs i \<noteq> None"
    and "i \<notin> set (g_text_ids (gs_guild gs))" "i \<notin> set (g_voice_ids (gs_guild gs))"
    and "i \<in> set (g_category_ids (gs_guild gs))"
  shows "\<exists>gs'. s_guilds t g = Some gs' \<and> gs_categories gs' = (gs_categories gs)(i := None)
    \<and> mset (g_category_ids (gs_guild gs')) = mset (g_category_ids (gs_guild gs)) - {#i#}
    \<and> gs_text gs' = (\<lambda>k. if k \<in> set (g_text_ids (gs_guild gs)) then map_option (orphan i) (gs_text gs k) else gs_text gs k)
    \<and> gs_voice gs' = (\<lambda>k. if k \<in> set (g_voice_ids (gs_guild gs)) then map_option (orphan i) (gs_voice gs k) else gs_voice gs k)"
proof -
  obtain ids where ids: "erase_first_quick (g_category_ids (gs_guild gs)) i = (True, ids)"
    "mset ids = mset (g_category_ids (gs_guild gs)) - {#i#}"
    using erase_found [OF assms(10)] by blast
  obtain ch where ch: "gs_categories gs i = Some ch" using assms(7) by blast
  let ?gs1 = "upd_guild (\<lambda>g. g\<lparr>g_category_ids := ids\<rparr>) gs"
  have "hthen (in_guild g (hmod (upd_guild (\<lambda>g. g\<lparr>g_category_ids := ids\<rparr>)))) (delete_category c g i gs) s = (None, t)"
    using assms(1-6) erase_not_found [OF assms(8)] erase_not_found [OF assms(9)] ids(1)
    by (simp add: on_channel_delete_def hread_Inr with_guild_def if_ready_def)
  then have "delete_category c g i gs (put_guild g ?gs1 s) = (None, t)"
    using assms(5) by (auto simp: in_guild_None handler_simps elim!: hthen_NoneE)
  then obtain u v where u: "in_guild g (hmod (\<lambda>gs. gs\<lparr>gs_categories := (gs_categories gs)(i := None)\<rparr>)) (put_guild g ?gs1 s) = (None, u)"
    and v: "in_guild g (orphan_channels i) u = (None, v)"
    and t: "(if c_has c On_channel_catagory_delete then
             (case ch of None \<Rightarrow> hfail Undef | Some ch \<Rightarrow> invoke c On_channel_catagory_delete [A_category ch])
           else hdone) v = (None, t)"
    by (auto simp: delete_category_def ch elim!: hthen_NoneE)
  let ?gs2 = "?gs1\<lparr>gs_categories := (gs_categories ?gs1)(i := None)\<rparr>"
  obtain gs' where gs': "orphan_channels i ?gs2 = (None, gs')" "s_guilds v g = Some gs'"
    using u v by (auto simp: in_guild_None handler_simps put_guild_def)
  have "s_guilds t g = Some gs'"
    using t gs'(2) by (auto simp: hdone_def hfail_def invoke_def split: if_splits option.splits)
  with orphan_channels_None [OF gs'(1)] ids(2) show ?thesis by (simp add: upd_guild_def cong: if_cong)
qed

section \<open>Voice states\<close>

definition voice_users :: "'j shard \<Rightarrow> snowflake \<Rightarrow> snowflake list" where
  "voice_users s i = (case s_guilds s i of None \<Rightarrow> [] | Some gs \<Rightarrow> map vs_user_id (g_voice_states (gs_guild gs)))"

lemma read_voice_state_user:
  assumes "read_voice_state J e = Inr v"
  shows "rbind (at_const J e ''user_id'') (as_sf J) = Inr (vs_user_id v)"
  using assms
  by (auto simp: read_voice_state_def fresh_def assign_def rmap_def rbind_Inr_iff split: prod.splits option.splits sum.splits)

text \<open>The user an update is about, when it is read.\<close>

definition voice_user :: "'j config \<Rightarrow> 'j shard \<Rightarrow> 'j \<Rightarrow> snowflake res" where
  "voice_user c s e = value_or (as_sf (c_json c)) (u_id (s_self s)) (c_json c) e ''user_id''"

lemma voice_user_read:
  assumes "voice_user c s e = Inr u" "read_voice_state (c_json c) e = Inr v"
  shows "vs_user_id v = u"
  using assms(1) read_voice_state_user [OF assms(2)]
  by (auto simp: voice_user_def value_or_def at_const_def rbind_Inr_iff or_throw_def split: option.splits)

lemma remove_found:
  "find_index (\<lambda>x. f x = u) xs \<noteq> length xs \<Longrightarrow>
   map f (take (find_index (\<lambda>x. f x = u) xs) xs @ drop (Suc (find_index (\<lambda>x. f x = u) xs)) xs) = remove1 u (map f xs)"
  by (induction xs) (auto simp: find_index_def)

lemma update_found:
  "find_index (\<lambda>x. f x = u) xs \<noteq> length xs \<Longrightarrow> f y = u \<Longrightarrow> map f (xs[find_index (\<lambda>x. f x = u) xs := y]) = map f xs"
  using find_index_less [of "\<lambda>x. f x = u" xs] by (simp add: map_update list_update_same_conv)

lemma voice_users_put:
  "s_guilds s i = Some gs \<Longrightarrow> in_guild i (hmod (upd_guild (\<lambda>g. g\<lparr>g_voice_states := vs\<rparr>))) s = (r, t)
   \<Longrightarrow> r = None \<and> voice_users t i = map vs_user_id vs"
  by (auto simp: in_guild_def handler_simps put_guild_def voice_users_def upd_guild_def)

lemma change_voice_users:
  assumes "change_voice_state c e i u s = (r, t)" "s_guilds s i = Some gs"
    and "\<And>v. read_voice_state (c_json c) e = Inr v \<Longrightarrow> vs_user_id v = u"
  shows "voice_users t i = voice_users s i \<or> voice_users t i = remove1 u (voice_users s i)
    \<or> (u \<notin> set (voice_users s i) \<and> voice_users t i = voice_users s i @ [u])"
proof -
  let ?vs = "g_voice_states (gs_guild gs)" and ?f = "\<lambda>v. vs_user_id v = u"
  let ?n = "find_index ?f ?vs"
  let ?put = "\<lambda>vs. in_guild i (hmod (upd_guild (\<lambda>g. g\<lparr>g_voice_states := vs\<rparr>)))"
  have users: "voice_users s i = map vs_user_id ?vs" using assms(2) by (simp add: voice_users_def)
  show ?thesis
  proof (cases "?n = length ?vs")
    case True
    then have "u \<notin> set (voice_users s i)" by (auto simp: users find_index_none)
    moreover have "hread (read_voice_state (c_json c) e) (\<lambda>v. ?put (?vs @ [v])) s = (r, t)"
      using assms(1,2) True by (simp add: change_voice_state_def handler_simps Let_def)
    then have "voice_users t i = voice_users s i \<or> voice_users t i = voice_users s i @ [u]"
      using voice_users_put [OF assms(2)] assms(3) users
      by (cases "read_voice_state (c_json c) e") (auto simp: handler_simps)
    ultimately show ?thesis by blast
  next
    case False
    then have n: "?n < length ?vs" using find_index_less by blast
    have eq: "hread (at_mut (c_json c) e ''channel_id'') (\<lambda>chj.
             if \<not> j_is_null (c_json c) chj then
               hread (read_voice_state (c_json c) e) (\<lambda>v. ?put (?vs[?n := v]))
             else
               hthen (?put (take ?n ?vs @ drop (Suc ?n) ?vs))
                 (if u = u_id (s_self s) then
                    hmod (\<lambda>s. s\<lparr>s_vc_guilds := (s_vc_guilds s)(i := False),
                               s_voice_connections := (s_voice_connections s)(i := False)\<rparr>)
                  else hdone)) s = (r, t)"
      using assms(1,2) n by (simp add: change_voice_state_def handler_simps Let_def)
    show ?thesis
    proof (cases "at_mut (c_json c) e ''channel_id''")
      case (Inl x)
      with eq show ?thesis by (simp add: handler_simps)
    next
      case (Inr chj)
      show ?thesis
      proof (cases "j_is_null (c_json c) chj")
        case True
        obtain r1 t1 where p: "?put (take ?n ?vs @ drop (Suc ?n) ?vs) s = (r1, t1)" by force
        from voice_users_put [OF assms(2) this] have "r1 = None" "voice_users t1 i = remove1 u (voice_users s i)"
          using remove_found [OF False] users by simp_all
        moreover from this have "voice_users t i = voice_users t1 i"
          using eq Inr True p by (auto simp: hread_Inr hthen_def hdone_def hmod_def voice_users_def split: if_splits)
        ultimately show ?thesis by simp
      next
        case False
        note channel = this
        show ?thesis
        proof (cases "read_voice_state (c_json c) e")
          case (Inl x)
          with eq Inr channel show ?thesis by (simp add: handler_simps)
        next
          case (Inr v)
          from eq \<open>at_mut _ _ _ = Inr chj\<close> channel Inr have "?put (?vs[?n := v]) s = (r, t)" by (simp add: hread_Inr)
          from voice_users_put [OF assms(2) this] show ?thesis
            using update_found [OF \<open>?n \<noteq> length ?vs\<close> assms(3) [OF Inr]] users by simp
        qed
      qed
    qed
  qed
qed

text \<open>A voice state update keeps the guild's voice states to one per user: the user's state is replaced, removed,
  or added when there was none.\<close>
theorem one_voice_state_per_user:
  assumes "on_voice_state_update c e s = (r, t)" "ev_guild_id c e = Inr i" "distinct (voice_users s i)"
  shows "distinct (voice_users t i)"
proof (cases "s_guilds s i")
  case None
  with assms(1,2,3) show ?thesis by (simp add: on_voice_state_update_def handler_simps)
next
  case (Some gs)
  show ?thesis
  proof (cases "voice_user c s e")
    case (Inl x)
    with assms Some show ?thesis by (simp add: on_voice_state_update_def voice_user_def handler_simps)
  next
    case (Inr u)
    let ?pre = "if u = u_id (s_self s) \<and> s_session_promises s (gs_id gs) \<noteq> None then
                  hread (ev c e ''session_id'' as_str) (set_session_promise (gs_id gs)) else hdone"
    obtain r1 s1 where pre: "?pre s = (r1, s1)" by force
    have same: "s_guilds s1 = s_guilds s"
      using pre by (cases "ev c e ''session_id'' as_str")
        (auto simp: handler_simps set_session_promise_def split: if_splits)
    have eq: "hthen ?pre (change_voice_state c e i u) s = (r, t)"
      using assms(1,2) Some Inr by (simp add: on_voice_state_update_def voice_user_def handler_simps)
    show ?thesis
    proof (cases r1)
      case None
      with eq pre have "change_voice_state c e i u s1 = (r, t)" by (simp add: hthen_def)
      from change_voice_users [OF this] have "voice_users t i = voice_users s1 i
        \<or> voice_users t i = remove1 u (voice_users s1 i)
        \<or> (u \<notin> set (voice_users s1 i) \<and> voice_users t i = voice_users s1 i @ [u])"
        using same Some voice_user_read [OF Inr] by simp
      moreover have "voice_users s1 i = voice_users s i" using same by (simp add: voice_users_def)
      ultimately show ?thesis using assms(3) by auto
    next
      case (Some x)
      with eq pre same assms(3) show ?thesis by (auto simp: hthen_def voice_users_def)
    qed
  qed
qed

section \<open>Events without a defined result\<close>

text \<open>
  The guild's pointer to its containers is never set, so a role that is deleted while members are kept
  dereferences a null pointer.
\<close>

text \<open>With the members' intent, the deletion of any role of a ready guild has no defined result in every state a
  shard reaches.\<close>
theorem role_delete_undefined:
  assumes "shard_ok s" "has_intents (c_intents c) GUILD_MEMBERS"
    and "ev c e ''guild_id'' as_sf = Inr g" "s_guilds s g = Some gs" "g_is_ready (gs_guild gs)"
    and "ev c e ''role_id'' as_sf = Inr i" "pg_roles (gs_guild gs) i = Some old"
  shows "fst (on_guild_role_delete c e s) = Some Undef"
proof -
  have "\<not> g_stuff (gs_guild gs)" using shard_ok_guild [OF assms(1,4)] by (simp add: ok_defs)
  with assms show ?thesis
    by (simp add: on_guild_role_delete_def hread_Inr with_guild_def if_ready_def hthen_def in_guild_def handler_simps)
qed

text \<open>A new text channel outside every category: the null pointer for its parent is dereferenced.\<close>

lemma channel_create_without_parent_undefined:
  assumes "ev_guild_id c e = Inr g" "g \<noteq> no_id" "ev c e ''type'' as_int = Inr type" "is_text_type type"
    and "ev c e ''id'' as_sf = Inr i" "s_guilds s g = Some gs" "g_is_ready (gs_guild gs)"
    and "fill_text (c_json c) i e gs = (None, gs')" "gs_text gs' i = Some ch" "gc_parent_id ch = no_id"
  shows "fst (on_channel_create c e s) = Some Undef"
  using assms
  by (simp add: on_channel_create_def hread_Inr with_guild_def if_ready_def add_text_channel_def hthen_def
      in_guild_def handler_simps put_guild_def link_text_parent_def upd_guild_def)

text \<open>An update of a text channel that is not stored, as when its creation is still kept back.\<close>

lemma channel_update_unknown_undefined:
  assumes "ev c e ''id'' as_sf = Inr i" "ev c e ''type'' as_int = Inr 0" "ev_guild_id c e = Inr g" "g \<noteq> no_id"
    and "s_guilds s g = Some gs" "gs_text gs i = None"
  shows "fst (on_channel_update c e s) = Some Undef"
  using assms
  by (simp add: on_channel_update_def hread_Inr with_guild_def update_text_channel_def hthen_def in_guild_def
      handler_simps)

text \<open>A deleted guild whose event does not say \<open>unavailable\<close>, as when the bot was removed from it, stays.\<close>

lemma guild_delete_without_unavailable_stays:
  assumes "find_key (c_json c) e ''unavailable'' = None" "j_object (c_json c) e \<noteq> None"
    "as_bool (c_json c) (j_null (c_json c)) = Inl Throws"
  shows "on_guild_delete c e s = (Some Throws, s)"
  using assms
  by (auto simp: on_guild_delete_def ev_def at_mut_def find_key_def hread_def rbind_def split: option.splits)

end
