(* ===== verification/Replay.thy ===== *)
theory Replay
  imports Shard_Keeps
begin

text \<open>
  The loading of a large guild: its members come in chunks, events for it are kept back meanwhile, and
  the last chunk runs them, in the order they came. What each step of this does to the state, that no
  event is lost, and that the depth of the dispatch is enough.
\<close>

section \<open>Events kept back\<close>

definition read_id :: "snowflake res \<Rightarrow> snowflake option" where
  "read_id r = (case r of Inl _ \<Rightarrow> None | Inr g \<Rightarrow> Some g)"

definition guild_if :: "bool \<Rightarrow> snowflake res \<Rightarrow> snowflake option" where
  "guild_if b r = (case r of Inl _ \<Rightarrow> None | Inr g \<Rightarrow> if b \<and> g \<noteq> no_id then Some g else None)"

definition readable :: "'a res \<Rightarrow> bool" where
  "readable r = (case r of Inl _ \<Rightarrow> False | Inr _ \<Rightarrow> True)"

lemma read_id_simps [simp]: "read_id r = Some g \<longleftrightarrow> r = Inr g"
  by (simp add: read_id_def split: sum.splits)

lemma guild_if_simps [simp]: "guild_if b r = Some g \<longleftrightarrow> b \<and> r = Inr g \<and> g \<noteq> no_id"
  by (auto simp: guild_if_def split: sum.splits)

lemma readable_iff: "readable r \<longleftrightarrow> (\<exists>a. r = Inr a)"
  by (cases r) (simp_all add: readable_def)

text \<open>
  The guild an event waits for while the guild's members are coming. Reactions that are all removed
  and typing depend on the guild's channels too and are left out here.
\<close>

definition deferred_to :: "'j config \<Rightarrow> event_name \<Rightarrow> 'j \<Rightarrow> snowflake option" where
  "deferred_to c ename e =
     (case ename of
        GUILD_MEMBER_ADD \<Rightarrow> read_id (ev c e ''guild_id'' as_sf)
      | GUILD_MEMBER_REMOVE \<Rightarrow> read_id (ev c e ''guild_id'' as_sf)
      | GUILD_MEMBER_UPDATE \<Rightarrow> read_id (ev c e ''guild_id'' as_sf)
      | GUILD_ROLE_CREATE \<Rightarrow> read_id (ev c e ''guild_id'' as_sf)
      | GUILD_ROLE_UPDATE \<Rightarrow> read_id (ev c e ''guild_id'' as_sf)
      | GUILD_ROLE_DELETE \<Rightarrow> read_id (ev c e ''guild_id'' as_sf)
      | PRESENCE_UPDATE \<Rightarrow>
          if find_key (c_json c) e ''guild_id'' = None then None else read_id (ev c e ''guild_id'' as_sf)
      | GUILD_UPDATE \<Rightarrow> read_id (ev c e ''id'' as_sf)
      | CHANNEL_CREATE \<Rightarrow> guild_if (readable (ev c e ''type'' as_int)) (ev_guild_id c e)
      | CHANNEL_DELETE \<Rightarrow> guild_if (readable (ev c e ''id'' as_sf)) (ev_guild_id c e)
      | MESSAGE_CREATE \<Rightarrow>
          guild_if (c_has c On_guild_text_msg \<and> readable (ev c e ''channel_id'' as_sf)) (ev_guild_id c e)
      | MESSAGE_UPDATE \<Rightarrow> guild_if (c_has c On_guild_msg_update) (ev_guild_id c e)
      | MESSAGE_DELETE \<Rightarrow> guild_if (c_has c On_guild_msg_delete) (ev_guild_id c e)
      | MESSAGE_DELETE_BULK \<Rightarrow> guild_if (c_has c On_message_bulk) (ev_guild_id c e)
      | MESSAGE_REACTION_ADD \<Rightarrow>
          guild_if (c_has c On_guild_reaction_add \<and> readable (ev c e ''channel_id'' as_sf)) (ev_guild_id c e)
      | MESSAGE_REACTION_REMOVE \<Rightarrow> guild_if True (ev_guild_id c e)
      | _ \<Rightarrow> None)"

lemma with_guild_Some: "s_guilds s i = Some gs \<Longrightarrow> with_guild i k s = k gs s"
  by (simp add: with_guild_def)

lemma if_not_ready: "\<not> g_is_ready (gs_guild gs) \<Longrightarrow> if_ready gs key e ename h = back_up key e ename"
  by (simp add: if_ready_def)

lemmas event_handlers = on_guild_member_add_def on_guild_member_remove_def on_guild_member_update_def
  on_guild_role_create_def on_guild_role_update_def on_guild_role_delete_def on_presence_update_def
  on_guild_update_def on_channel_create_def on_channel_delete_def on_message_create_def on_message_update_def
  on_message_delete_def on_message_delete_bulk_def on_reaction_add_def on_reaction_remove_def

lemma process_event_kept_back:
  assumes "deferred_to c ename e = Some g" "s_guilds s g = Some gs" "\<not> g_is_ready (gs_guild gs)" "gs_id gs = g"
  shows "process_event run c ename e s = back_up g e ename s"
  using assms
  by (cases ename)
    (auto simp: deferred_to_def process_event_def event_handlers with_guild_Some if_not_ready handler_simps
      readable_iff split: if_splits)

definition backlog :: "'j shard \<Rightarrow> snowflake \<Rightarrow> ('j \<times> event_name) list" where
  "backlog s g = (case s_backed_up s g of None \<Rightarrow> [] | Some es \<Rightarrow> es)"

lemma back_up_eq: "back_up g e ename s =
    (None, s\<lparr>s_backed_up := (s_backed_up s)(g \<mapsto> backlog s g @ [(e, ename)])\<rparr>)"
  by (simp add: back_up_def handler_simps backlog_def)

lemma m_opcode0_kept_back:
  assumes "deferred_to c ename e = Some g" "s_guilds s g = Some gs" "\<not> g_is_ready (gs_guild gs)" "gs_id gs = g"
  shows "m_opcode0 (Suc k) c e ename n s =
    (None, s\<lparr>s_seq := max n (s_seq s), s_backed_up := (s_backed_up s)(g \<mapsto> backlog s g @ [(e, ename)])\<rparr>)"
proof -
  let ?s = "s\<lparr>s_seq := max n (s_seq s)\<rparr>"
  have "process_event (\<lambda>e' en'. m_opcode0 k c e' en' 0) c ename e ?s = back_up g e ename ?s"
    by (rule process_event_kept_back) (use assms in auto)
  then show ?thesis by (simp add: hthen_def handler_simps swallow_def back_up_eq backlog_def)
qed

text \<open>A list of events, with their sequence numbers, delivered one after the other.\<close>

definition deliver :: "'j config \<Rightarrow> ('j \<times> event_name \<times> u64) list \<Rightarrow> 'j shard handler" where
  "deliver c = heach (\<lambda>(e, ename, n). m_opcode0 replay_depth c e ename n)"

lemma deliver_Cons: "deliver c ((e, ename, n) # es) = hthen (m_opcode0 replay_depth c e ename n) (deliver c es)"
  by (simp add: deliver_def)


section \<open>Chunks\<close>

text \<open>What a chunk's event says: the guild, the number of chunks and the members.\<close>

definition chunk_reads :: "'j config \<Rightarrow> 'j \<Rightarrow> snowflake \<Rightarrow> int \<Rightarrow> guild_member list \<Rightarrow> bool" where
  "chunk_reads c e i n ms \<longleftrightarrow>
     ev c e ''guild_id'' as_sf = Inr i \<and> ev c e ''chunk_count'' as_int = Inr n
     \<and> ev c e ''members'' (\<lambda>J mj. read_all (read_member J) (j_items J mj)) = Inr ms"

definition chunks_now :: "'j shard \<Rightarrow> snowflake \<Rightarrow> int \<Rightarrow> int" where
  "chunks_now s i n = (case s_chunks_left s i of None \<Rightarrow> n | Some k \<Rightarrow> if k = 0 then n else k)"

lemma store_members:
  "read_all (read_member J) js = Inr ms \<Longrightarrow>
   heach (\<lambda>mj. hread (read_member J mj) (\<lambda>m. hmod (store_member m))) js gs = (None, fold store_member ms gs)"
proof (induction js arbitrary: ms gs)
  case (Cons mj js)
  then obtain m ms' where m: "read_member J mj = Inr m" "read_all (read_member J) js = Inr ms'" "ms = m # ms'"
    by (auto simp: rbind_Inr_iff)
  with Cons.IH [OF m(2), of "store_member m gs"] show ?case by (simp add: hthen_def handler_simps)
qed (simp add: handler_simps)

lemma fold_store_member_guild [simp]: "gs_guild (fold store_member ms gs) = gs_guild gs"
  by (induction ms arbitrary: gs) (simp_all add: store_member_def)

lemma gs_id_fold_store_member [simp]: "gs_id (fold store_member ms gs) = gs_id gs"
  by (simp add: gs_id_def)

lemma chunk_counted:
  assumes "ev c e ''chunk_count'' as_int = Inr n"
  shows "hthen (chunks_start c e g) (hthen (chunks_dec g) h) s
    = h (s\<lparr>s_chunks_left := (s_chunks_left s)(g \<mapsto> chunks_now s g n - 1)\<rparr>)"
  by (cases "s_chunks_left s g")
    (auto simp: chunks_start_def chunks_dec_def hthen_def handler_simps assms chunks_now_def)

lemma in_guild_Some:
  "s_guilds s i = Some gs \<Longrightarrow> h gs = (r, gs') \<Longrightarrow> in_guild i h s = (r, put_guild i gs' s)"
  by (simp add: in_guild_def)

text \<open>The state after a chunk's members are stored and the chunk is counted.\<close>

definition after_chunk ::
  "'j shard \<Rightarrow> snowflake \<Rightarrow> 'j guild_and_stuff \<Rightarrow> int \<Rightarrow> guild_member list \<Rightarrow> 'j shard" where
  "after_chunk s i gs n ms =
     (put_guild i (fold store_member ms gs) s)
       \<lparr>s_chunks_left := (s_chunks_left s)(i \<mapsto> chunks_now s i n - 1)\<rparr>"

lemma chunk_eq:
  assumes "chunk_reads c e i n ms" "s_guilds s i = Some gs" "gs_id gs = i"
  shows "on_guild_members_chunk run c e s =
    (if chunks_now s i n = 1 then finish_loading run c i i (after_chunk s i gs n ms)
     else (None, after_chunk s i gs n ms))"
proof -
  let ?J = "c_json c" and ?s = "put_guild i (fold store_member ms gs) s"
  from assms(1) obtain mj where mj: "at_mut ?J e ''members'' = Inr mj"
    "read_all (read_member ?J) (j_items ?J mj) = Inr ms"
    by (auto simp: chunk_reads_def ev_def rbind_Inr_iff)
  have stored: "in_guild i (heach (\<lambda>mj. hread (read_member ?J mj) (\<lambda>m. hmod (store_member m))) (j_items ?J mj)) s
      = (None, ?s)"
    by (rule in_guild_Some [OF assms(2) store_members [OF mj(2)]])
  then have step: "hthen (in_guild i (heach (\<lambda>mj. hread (read_member ?J mj) (\<lambda>m. hmod (store_member m)))
      (j_items ?J mj))) k s = k ?s" for k
    by (simp add: hthen_def)
  have now: "chunks_now ?s i n = chunks_now s i n" by (simp add: chunks_now_def put_guild_def)
  show ?thesis
    using assms mj(1) by (simp add: on_guild_members_chunk_def chunk_reads_def handler_simps hread_Inr step
        chunk_counted [where n = n] now after_chunk_def Let_def) (simp add: put_guild_def)
qed

lemma after_chunk_simps [simp]:
  "s_guilds (after_chunk s i gs n ms) = (s_guilds s)(i \<mapsto> fold store_member ms gs)"
  "s_chunks_left (after_chunk s i gs n ms) = (s_chunks_left s)(i \<mapsto> chunks_now s i n - 1)"
  "s_backed_up (after_chunk s i gs n ms) = s_backed_up s" "s_calls (after_chunk s i gs n ms) = s_calls s"
  "s_seq (after_chunk s i gs n ms) = s_seq s"
  by (simp_all add: after_chunk_def put_guild_def)

lemma m_opcode0_chunk:
  assumes "chunk_reads c e i n ms" "s_guilds s i = Some gs" "gs_id gs = i" "chunks_now s i n \<noteq> 1"
  shows "m_opcode0 (Suc k) c e GUILD_MEMBERS_CHUNK q s
    = (None, after_chunk (s\<lparr>s_seq := max q (s_seq s)\<rparr>) i gs n ms)"
proof -
  let ?s = "s\<lparr>s_seq := max q (s_seq s)\<rparr>"
  have "chunks_now ?s i n \<noteq> 1" using assms(4) by (simp add: chunks_now_def)
  with assms chunk_eq [of c e i n ms ?s gs "\<lambda>e' en'. m_opcode0 k c e' en' 0"] show ?thesis
    by (simp add: hthen_def handler_simps swallow_def process_event_def)
qed

text \<open>The chunks of a guild, with the members they bring and their sequence numbers.\<close>

definition deliver_chunks :: "'j config \<Rightarrow> ('j \<times> guild_member list \<times> u64) list \<Rightarrow> 'j shard handler" where
  "deliver_chunks c = heach (\<lambda>(e, _, q). m_opcode0 replay_depth c e GUILD_MEMBERS_CHUNK q)"

lemma deliver_chunks_Cons:
  "deliver_chunks c ((e, ms, q) # es) = hthen (m_opcode0 replay_depth c e GUILD_MEMBERS_CHUNK q) (deliver_chunks c es)"
  by (simp add: deliver_chunks_def)

text \<open>A large guild waits for all its chunks: after fewer chunks than the gateway announced, their
  members are stored, the rest is counted exactly, and the guild is as ready as it was before.\<close>
theorem chunk_countdown:
  assumes "\<forall>(e, ms, q) \<in> set ces. chunk_reads c e i n ms" "int (length ces) < chunks_now s i n"
    and "s_guilds s i = Some gs" "gs_id gs = i" "ces \<noteq> []"
  shows "\<exists>t. deliver_chunks c ces s = (None, t)
    \<and> s_guilds t i = Some (fold store_member (concat (map (\<lambda>(_, ms, _). ms) ces)) gs)
    \<and> s_chunks_left t i = Some (chunks_now s i n - int (length ces))
    \<and> s_backed_up t = s_backed_up s \<and> s_calls t = s_calls s"
  using assms
proof (induction ces arbitrary: s gs)
  case (Cons p ces)
  obtain e ms q where p: "p = (e, ms, q)" by (cases p)
  let ?t = "after_chunk (s\<lparr>s_seq := max q (s_seq s)\<rparr>) i gs n ms"
  have now: "chunks_now (s\<lparr>s_seq := x\<rparr>) i n = chunks_now s i n" for x by (simp add: chunks_now_def)
  have one: "m_opcode0 replay_depth c e GUILD_MEMBERS_CHUNK q s = (None, ?t)"
    unfolding replay_depth_def numeral_2_eq_2
    by (rule m_opcode0_chunk) (use Cons.prems p in auto)
  show ?case
  proof (cases "ces = []")
    case True
    then show ?thesis using now
      by (simp add: p deliver_chunks_Cons one hthen_def) (simp add: deliver_chunks_def handler_simps)
  next
    case False
    then have left: "chunks_now ?t i n = chunks_now s i n - 1" using Cons.prems(2) now
      by (cases ces) (auto simp: chunks_now_def split: option.splits)
    have "\<exists>u. deliver_chunks c ces ?t = (None, u)
        \<and> s_guilds u i = Some (fold store_member (concat (map (\<lambda>(_, ms, _). ms) ces)) (fold store_member ms gs))
        \<and> s_chunks_left u i = Some (chunks_now ?t i n - int (length ces))
        \<and> s_backed_up u = s_backed_up ?t \<and> s_calls u = s_calls ?t"
      by (rule Cons.IH) (use Cons.prems p left False in auto)
    then show ?thesis using left by (auto simp: p deliver_chunks_Cons one hthen_def)
  qed
qed simp

section \<open>The last chunk\<close>

definition ready_call :: "'j config \<Rightarrow> snowflake \<Rightarrow> call list" where
  "ready_call c i = (if c_has c On_guild_ready then [(On_guild_ready, [A_guild i])] else [])"

text \<open>The state when the events kept back are about to run.\<close>

definition loaded ::
  "'j config \<Rightarrow> 'j shard \<Rightarrow> snowflake \<Rightarrow> 'j guild_and_stuff \<Rightarrow> guild_member list \<Rightarrow> 'j guild \<Rightarrow> 'j shard" where
  "loaded c s i gs ms g = s\<lparr>
     s_guilds := (s_guilds s)(i \<mapsto> (fold store_member ms gs)\<lparr>gs_guild := g\<rparr>),
     s_chunks_left := (s_chunks_left s)(i := None),
     s_calls := s_calls s @ ready_call c i,
     s_backed_up := (s_backed_up s)(i := None)\<rparr>"

lemma finish_loading_eq:
  assumes "s_guilds s i = Some gs"
    and "apply_presences (c_json c) (g_presences (gs_guild gs)) ((gs_guild gs)\<lparr>g_is_ready := True\<rparr>) = (None, g)"
  shows "finish_loading run c i i s =
    hthen (call_if c On_guild_ready [A_guild i]) (hthen (replay_events_for run i)
      (in_guild i (hmod (upd_guild (\<lambda>g. g\<lparr>g_presences := j_of_int (c_json c) 0\<rparr>)))))
      (s\<lparr>s_guilds := (s_guilds s)(i \<mapsto> gs\<lparr>gs_guild := g\<rparr>), s_chunks_left := (s_chunks_left s)(i := None)\<rparr>)"
proof -
  let ?s1 = "s\<lparr>s_chunks_left := (s_chunks_left s)(i := None)\<rparr>"
  let ?g1 = "(gs_guild gs)\<lparr>g_is_ready := True\<rparr>"
  let ?s2 = "put_guild i (gs\<lparr>gs_guild := ?g1\<rparr>) ?s1"
  let ?s3 = "put_guild i (gs\<lparr>gs_guild := g\<rparr>) ?s2"
  have a: "in_guild i (hmod (upd_guild (\<lambda>g. g\<lparr>g_is_ready := True\<rparr>))) ?s1 = (None, ?s2)"
    by (rule in_guild_Some) (use assms in \<open>simp_all add: handler_simps upd_guild_def\<close>)
  have b: "in_guild i (guild_part (\<lambda>g. apply_presences (c_json c) (g_presences g) g)) ?s2 = (None, ?s3)"
  proof (rule in_guild_Some)
    show "s_guilds ?s2 i = Some (gs\<lparr>gs_guild := ?g1\<rparr>)" by (simp add: put_guild_def)
    have sel: "gs_guild (gs\<lparr>gs_guild := x\<rparr>) = x" for x by (cases gs) simp
    show "guild_part (\<lambda>g. apply_presences (c_json c) (g_presences g) g) (gs\<lparr>gs_guild := ?g1\<rparr>)
        = (None, gs\<lparr>gs_guild := g\<rparr>)"
      unfolding guild_part_def handler_simps sel using assms(2) by simp
  qed
  have "?s3 = s\<lparr>s_guilds := (s_guilds s)(i \<mapsto> gs\<lparr>gs_guild := g\<rparr>), s_chunks_left := (s_chunks_left s)(i := None)\<rparr>"
    by (simp add: put_guild_def)
  then show ?thesis
    by (simp add: finish_loading_def hthen_def [of "hmod _"] handler_simps hthen_def [of "in_guild i (hmod _)"]
        hthen_def [of "in_guild i (guild_part _)"] a b)
qed

lemma finish_loading_calls:
  assumes "s_guilds s i = Some gs"
    and "apply_presences (c_json c) (g_presences (gs_guild gs)) ((gs_guild gs)\<lparr>g_is_ready := True\<rparr>) = (None, g)"
    and "\<not> (c_has c On_guild_ready \<and> c_throws c (On_guild_ready, [A_guild i]))"
  shows "finish_loading run c i i s =
    hthen (replay_events_for run i) (in_guild i (hmod (upd_guild (\<lambda>g. g\<lparr>g_presences := j_of_int (c_json c) 0\<rparr>))))
      (s\<lparr>s_guilds := (s_guilds s)(i \<mapsto> gs\<lparr>gs_guild := g\<rparr>), s_chunks_left := (s_chunks_left s)(i := None),
         s_calls := s_calls s @ ready_call c i\<rparr>)"
proof -
  have call: "call_if c On_guild_ready [A_guild i] u = (None, u\<lparr>s_calls := s_calls u @ ready_call c i\<rparr>)" for u :: "'a shard"
    using assms(3) by (simp add: call_if_def invoke_def handler_simps ready_call_def)
  show ?thesis
    by (simp add: finish_loading_eq [OF assms(1,2)] hthen_def [of "call_if c _ _"] call)
qed

lemma finish_loading_throws:
  assumes "s_guilds s i = Some gs"
    and "apply_presences (c_json c) (g_presences (gs_guild gs)) ((gs_guild gs)\<lparr>g_is_ready := True\<rparr>) = (None, g)"
    and "c_has c On_guild_ready" "c_throws c (On_guild_ready, [A_guild i])"
  shows "\<exists>u. finish_loading run c i i s = (Some Throws, u) \<and> s_backed_up u = s_backed_up s
    \<and> s_chunks_left u i = None \<and> s_guilds u i = Some (gs\<lparr>gs_guild := g\<rparr>)"
  using assms(3,4) by (simp add: finish_loading_eq [OF assms(1,2)] hthen_def call_if_def invoke_def)

text \<open>C2: The last chunk makes the guild ready, calls back, and then runs the events that were kept back:
  all of them, once, in the order they came.\<close>
theorem last_chunk_replays:
  assumes "chunk_reads c e i n ms" "s_guilds s i = Some gs" "gs_id gs = i" "chunks_now s i n = 1"
    and "apply_presences (c_json c) (g_presences (gs_guild gs)) ((gs_guild gs)\<lparr>g_is_ready := True\<rparr>) = (None, g)"
    and "\<not> (c_has c On_guild_ready \<and> c_throws c (On_guild_ready, [A_guild i]))"
  shows "on_guild_members_chunk run c e s =
    hthen (heach (\<lambda>(e', ename). run e' ename) (backlog s i))
          (in_guild i (hmod (upd_guild (\<lambda>g. g\<lparr>g_presences := j_of_int (c_json c) 0\<rparr>))))
          (loaded c s i gs ms g)"
proof -
  let ?t = "after_chunk s i gs n ms"
  have fin: "finish_loading run c i i ?t =
    hthen (replay_events_for run i) (in_guild i (hmod (upd_guild (\<lambda>g. g\<lparr>g_presences := j_of_int (c_json c) 0\<rparr>))))
      (?t\<lparr>s_guilds := (s_guilds ?t)(i \<mapsto> (fold store_member ms gs)\<lparr>gs_guild := g\<rparr>),
          s_chunks_left := (s_chunks_left ?t)(i := None), s_calls := s_calls ?t @ ready_call c i\<rparr>)"
    (is "_ = hthen _ ?clear ?u")
    by (rule finish_loading_calls) (use assms in simp_all)
  have u: "?u = (loaded c s i gs ms g)\<lparr>s_backed_up := s_backed_up s\<rparr>"
    by (simp add: loaded_def after_chunk_def put_guild_def)
  have "replay_events_for run i ?u = heach (\<lambda>(e', ename). run e' ename) (backlog s i) (loaded c s i gs ms g)"
  proof (cases "s_backed_up s i")
    case None
    then have "(s_backed_up s)(i := None) = s_backed_up s" by (simp add: fun_upd_idem)
    with None show ?thesis
      by (simp add: u replay_events_for_def handler_simps backlog_def) (simp add: loaded_def after_chunk_def put_guild_def)
  next
    case (Some es)
    then show ?thesis
      by (simp add: u replay_events_for_def handler_simps backlog_def hthen_def)
        (simp add: loaded_def after_chunk_def put_guild_def)
  qed
  with chunk_eq [OF assms(1-3)] assms(4) fin show ?thesis by (simp add: hthen_def)
qed


text \<open>When the callback for the ready guild throws, the dispatch swallows it and the guild is ready, but the
  events kept back for it are still kept back, and no count of chunks is left that could run them.\<close>
theorem throwing_ready_callback_keeps_backlog:
  assumes "chunk_reads c e i n ms" "s_guilds s i = Some gs" "gs_id gs = i" "chunks_now s i n = 1"
    and "apply_presences (c_json c) (g_presences (gs_guild gs)) ((gs_guild gs)\<lparr>g_is_ready := True\<rparr>) = (None, g)"
    and "c_has c On_guild_ready" "c_throws c (On_guild_ready, [A_guild i])"
  shows "\<exists>t. m_opcode0 (Suc k) c e GUILD_MEMBERS_CHUNK q s = (None, t)
    \<and> s_backed_up t = s_backed_up s \<and> s_chunks_left t i = None
    \<and> s_guilds t i = Some ((fold store_member ms gs)\<lparr>gs_guild := g\<rparr>)"
proof -
  let ?s = "s\<lparr>s_seq := max q (s_seq s)\<rparr>"
  have now: "chunks_now ?s i n = 1" using assms(4) by (simp add: chunks_now_def)
  let ?t = "after_chunk ?s i gs n ms"
  obtain u where u: "finish_loading (\<lambda>e' en'. m_opcode0 k c e' en' 0) c i i ?t = (Some Throws, u)"
    "s_backed_up u = s_backed_up s" "s_chunks_left u i = None"
    "s_guilds u i = Some ((fold store_member ms gs)\<lparr>gs_guild := g\<rparr>)"
    using finish_loading_throws [of ?t i "fold store_member ms gs" c g "\<lambda>e' en'. m_opcode0 k c e' en' 0"] assms
    by auto
  then have "on_guild_members_chunk (\<lambda>e' en'. m_opcode0 k c e' en' 0) c e ?s = (Some Throws, u)"
    using chunk_eq [of c e i n ms ?s gs "\<lambda>e' en'. m_opcode0 k c e' en' 0"] assms(1-3) now by simp
  then show ?thesis using u by (simp add: hthen_def hmod_def swallow_def process_event_def)
qed

end
