(* ===== verification/Dispatch_Depth.thy ===== *)
theory Dispatch_Depth
  imports Shard_Keeps
begin

text \<open>
  How deep the dispatch calls itself: the last chunk of a guild runs the events kept back, and none of
  those is a chunk. So the depth 2 of \<open>replay_depth\<close> is enough in every state a shard reaches, and the
  dispatch, which swallows exceptions, throws none.
\<close>

section \<open>Handlers that agree on the states of an invariant\<close>

definition agree :: "('s \<Rightarrow> bool) \<Rightarrow> 's handler \<Rightarrow> 's handler \<Rightarrow> bool" where
  "agree P h h' \<longleftrightarrow> (\<forall>s. P s \<longrightarrow> h s = h' s)"

named_theorems agree_intros

lemma agree_refl [agree_intros]: "agree P h h"
  by (simp add: agree_def)

lemma agree_hthen [agree_intros]:
  assumes "agree P h h'" "keeps P h" "agree P k k'"
  shows "agree P (hthen h k) (hthen h' k')"
  unfolding agree_def
proof (intro allI impI)
  fix s assume s: "P s"
  then have "h s = h' s" using assms(1) by (simp add: agree_def)
  moreover have "k t = k' t" if "h s = (None, t)" for t
    using keepsD [OF assms(2) s that] assms(3) by (simp add: agree_def)
  ultimately show "hthen h k s = hthen h' k' s"
    by (auto simp: hthen_def split: prod.splits option.splits)
qed

lemma agree_hread [agree_intros]: "(\<And>a. agree P (k a) (k' a)) \<Longrightarrow> agree P (hread r k) (hread r k')"
  by (simp add: agree_def hread_def split: sum.splits)

lemma agree_hget [agree_intros]: "(\<And>s. P s \<Longrightarrow> agree P (k s) (k' s)) \<Longrightarrow> agree P (hget k) (hget k')"
  by (simp add: agree_def hget_def)

lemma agree_if [agree_intros]: "agree P h h' \<Longrightarrow> agree P k k' \<Longrightarrow> agree P (if b then h else k) (if b then h' else k')"
  by simp

lemma agree_option [agree_intros]:
  "agree P h h' \<Longrightarrow> (\<And>a. x = Some a \<Longrightarrow> agree P (k a) (k' a)) \<Longrightarrow>
   agree P (case x of None \<Rightarrow> h | Some a \<Rightarrow> k a) (case x of None \<Rightarrow> h' | Some a \<Rightarrow> k' a)"
  by (cases x) simp_all

lemma agree_hseq_Cons [agree_intros]:
  "agree P h h' \<Longrightarrow> keeps P h \<Longrightarrow> agree P (hseq hs) (hseq hs') \<Longrightarrow> agree P (hseq (h # hs)) (hseq (h' # hs'))"
  by (simp add: agree_hthen)

section \<open>Replays that agree\<close>

definition same_replay ::
  "('j \<Rightarrow> event_name \<Rightarrow> 'j shard handler) \<Rightarrow> ('j \<Rightarrow> event_name \<Rightarrow> 'j shard handler) \<Rightarrow> bool" where
  "same_replay run run' \<longleftrightarrow> (\<forall>e ename. deferrable ename \<longrightarrow> run e ename = run' e ename)"

lemma agree_replay [agree_intros]:
  assumes "same_replay run run'"
  shows "agree shard_ok (replay_events_for run g) (replay_events_for run' g)"
  unfolding agree_def
proof (intro allI impI)
  fix s :: "'a shard" assume s: "shard_ok s"
  show "replay_events_for run g s = replay_events_for run' g s"
  proof (cases "s_backed_up s g")
    case (Some es)
    then have "list_all (\<lambda>p. deferrable (snd p)) es" using s by (simp add: shard_ok_def)
    then have "heach (\<lambda>(e, ename). run e ename) es = heach (\<lambda>(e, ename). run' e ename) es"
      using assms by (induction es) (auto simp: same_replay_def)
    then show ?thesis by (simp add: replay_events_for_def hget_def Some)
  qed (simp add: replay_events_for_def hget_def)
qed

lemma agree_finish_loading [agree_intros]:
  assumes "same_replay run run'" "\<And>e ename. deferrable ename \<Longrightarrow> keeps shard_ok (run e ename)"
  shows "agree shard_ok (finish_loading run c i g) (finish_loading run' c i g)"
  unfolding finish_loading_def
proof (intro agree_intros keeps_intros assms)
  show "keeps (guild_ok i) (\<lambda>g. apply_presences (c_json c) (g_presences g) g)" for i
    by (rule keeps_state_dep) (rule keeps_apply_presences)
qed (auto simp: ok_defs ok.field_laws)

lemma agree_chunk:
  assumes "same_replay run run'" "\<And>e ename. deferrable ename \<Longrightarrow> keeps shard_ok (run e ename)"
  shows "agree shard_ok (on_guild_members_chunk run c e) (on_guild_members_chunk run' c e)"
  unfolding on_guild_members_chunk_def Let_def
  by (intro agree_intros keeps_intros assms) (auto simp: ok_defs)

lemma process_event_run: "ename \<noteq> GUILD_MEMBERS_CHUNK \<Longrightarrow> process_event run c ename e = process_event run' c ename e"
  by (cases ename) (simp_all add: process_event_def)

section \<open>The depth\<close>

lemma m_opcode0_deferrable: "deferrable ename \<Longrightarrow> m_opcode0 (Suc k) c e ename n = m_opcode0 (Suc j) c e ename n"
  using process_event_run [of ename "\<lambda>e' en'. m_opcode0 k c e' en' 0" c e "\<lambda>e' en'. m_opcode0 j c e' en' 0"]
  by (simp add: deferrable_def)

declare m_opcode0.simps [simp del]

lemma agree_m_opcode0: "agree shard_ok (m_opcode0 (Suc (Suc k)) c e ename n) (m_opcode0 (Suc (Suc j)) c e ename n)"
proof (cases "ename = GUILD_MEMBERS_CHUNK")
  case True
  let ?run = "\<lambda>k e' en'. m_opcode0 (Suc k) c e' en' 0"
  have "agree shard_ok (on_guild_members_chunk (?run k) c e) (on_guild_members_chunk (?run j) c e)"
    by (rule agree_chunk [OF _ ok.keeps_m_opcode0]) (unfold same_replay_def, blast intro: m_opcode0_deferrable)
  then show ?thesis using True
    by (auto simp: m_opcode0.simps agree_def hthen_def hmod_def swallow_def process_event_def shard_ok_def)
next
  case False
  then show ?thesis
    using process_event_run [of ename "\<lambda>e' en'. m_opcode0 (Suc k) c e' en' 0" c e "\<lambda>e' en'. m_opcode0 (Suc j) c e' en' 0"]
    by (simp add: m_opcode0.simps agree_def)
qed

text \<open>C4: The dispatch of an event needs no more than two levels: in every state with the shard's invariant a
  deeper bound gives the same result, so the model's bound never cuts a replay short.\<close>
theorem replay_depth_enough:
  assumes "shard_ok s" "2 \<le> k"
  shows "m_opcode0 k c e ename n s = m_opcode0 replay_depth c e ename n s"
proof -
  obtain j where k: "k = Suc (Suc j)" using assms(2) by (metis Suc_le_D Suc_le_mono numeral_2_eq_2)
  show ?thesis using agree_m_opcode0 [of j c e ename n 0] assms(1)
    by (simp only: k replay_depth_def numeral_2_eq_2 agree_def)
qed

text \<open>An exception of an event's handler, of a callback or of reading a field never leaves the dispatch.\<close>
theorem dispatch_never_throws: "fst (m_opcode0 k c e ename n s) \<noteq> Some Throws"
  by (cases k) (auto simp: m_opcode0.simps hthen_def hmod_def swallow_def hfail_def split: prod.splits option.splits fault.splits)

end
