(* ===== verification/Json_Sample.thy ===== *)
theory Json_Sample
  imports Gateway "HOL-Library.Code_Target_Numeral"
begin

text \<open>
  JSON as the library represents it, as one instance of \<open>json_api\<close>: the values the concrete cases of
  the development run on.
\<close>

datatype js = JNull | JBool bool | JInt int | JStr string | JArr "js list" | JObj "(string \<times> js) list"

definition js_members :: "js \<Rightarrow> (string \<rightharpoonup> js) option" where
  "js_members v = (case v of JObj kvs \<Rightarrow> Some (map_of kvs) | _ \<Rightarrow> None)"

definition js_int :: "js \<Rightarrow> int option" where
  "js_int v = (case v of JInt n \<Rightarrow> Some n | JBool b \<Rightarrow> Some (if b then 1 else 0) | _ \<Rightarrow> None)"

definition js_bool :: "js \<Rightarrow> bool option" where
  "js_bool v = (case v of JBool b \<Rightarrow> Some b | _ \<Rightarrow> None)"

definition js_str :: "js \<Rightarrow> string option" where
  "js_str v = (case v of JStr s \<Rightarrow> Some s | _ \<Rightarrow> None)"

definition js_arr :: "js \<Rightarrow> js list option" where
  "js_arr v = (case v of JArr vs \<Rightarrow> Some vs | _ \<Rightarrow> None)"

definition js_items :: "js \<Rightarrow> js list" where
  "js_items v = (case v of JNull \<Rightarrow> [] | JArr vs \<Rightarrow> vs | JObj kvs \<Rightarrow> map snd kvs | _ \<Rightarrow> [v])"

definition js_api :: "js json_api" where
  "js_api = \<lparr>j_null = JNull, j_members = js_members, j_int = js_int, j_bool = js_bool, j_str = js_str,
     j_arr = js_arr, j_items = js_items, j_of_int = JInt\<rparr>"

text \<open>A client with callbacks for ready guilds and new roles, none of which throws, that asks for guilds, members and presences.\<close>

definition all_intents :: intents where
  "all_intents = fold intents_or [GUILD_MEMBERS, GUILD_PRESENCES] GUILDS"

definition sample_config :: "js config" where
  "sample_config = \<lparr>c_json = js_api, c_intents = all_intents, c_has = (\<lambda>cb. cb = On_guild_ready \<or> cb = On_role_create), c_throws = (\<lambda>_. False),
     c_token = ''token'', c_shard_number = 0, c_num_shards = 1\<rparr>"

definition num :: "int \<Rightarrow> js" where
  "num n = JStr (std_to_string (nat n))"

definition js_user :: "int \<Rightarrow> js" where
  "js_user i = JObj [(''id'', num i), (''username'', JStr ''user''), (''avatar'', JNull), (''discriminator'', JStr ''7'')]"

definition js_member :: "int \<Rightarrow> js" where
  "js_member i = JObj [(''user'', js_user i), (''roles'', JArr [num 9]), (''deaf'', JBool False), (''mute'', JBool False)]"

definition js_role :: "int \<Rightarrow> js" where
  "js_role i = JObj [(''id'', num i), (''position'', JInt 1), (''permissions'', JStr ''8''), (''hoist'', JBool False),
     (''managed'', JBool False), (''name'', JStr ''role''), (''mentionable'', JBool True)]"

definition js_channel :: "int \<Rightarrow> int \<Rightarrow> int \<Rightarrow> js" where
  "js_channel i type parent = JObj [(''id'', num i), (''name'', JStr ''channel''), (''type'', JInt type),
     (''position'', JInt 0), (''permission_overwrites'', JArr []), (''parent_id'', num parent), (''topic'', JNull),
     (''user_limit'', JInt 0), (''bitrate'', JInt 64000)]"

definition js_guild :: "int \<Rightarrow> int \<Rightarrow> js list \<Rightarrow> js list \<Rightarrow> js" where
  "js_guild i n ms chs = JObj [(''id'', num i), (''name'', JStr ''guild''), (''icon'', JNull), (''splash'', JNull),
     (''owner_id'', num 1), (''region'', JStr ''eu''), (''afk_channel_id'', JNull), (''afk_timeout'', JInt 300),
     (''verification_level'', JInt 0), (''default_message_notifications'', JInt 0), (''explicit_content_filter'', JInt 0),
     (''roles'', JArr [js_role i, js_role 9]), (''emojis'', JArr []), (''features'', JArr []), (''mfa_level'', JInt 0),
     (''system_channel_id'', JNull), (''large'', JBool True), (''unavailable'', JBool False), (''member_count'', JInt n),
     (''voice_states'', JArr []), (''members'', JArr ms), (''channels'', JArr chs), (''presences'', JArr [])]"

definition frame :: "string \<Rightarrow> int \<Rightarrow> js \<Rightarrow> js" where
  "frame t n d = JObj [(''op'', JInt 0), (''t'', JStr t), (''s'', JInt n), (''d'', d)]"

definition hello_frame :: js where
  "hello_frame = JObj [(''op'', JInt 10), (''d'', JObj [(''heartbeat_interval'', JInt 41250)])]"

definition op_frame :: "int \<Rightarrow> js" where
  "op_frame op = JObj [(''op'', JInt op), (''d'', JNull)]"

text \<open>The frames of a session, one after the other, as long as the loop reads them.\<close>

fun read_frames :: "'j config \<Rightarrow> 'j list \<Rightarrow> 'j shard \<Rightarrow> 'j shard option" where
  "read_frames c [] s = Some s"
| "read_frames c (f # fs) s =
     (if s_reading s then
        (case loop_body (on_frame c f) s of (None, t) \<Rightarrow> read_frames c fs t | _ \<Rightarrow> None)
      else None)"

lemma read_frames_reachable:
  "gw_reachable c s \<Longrightarrow> read_frames c fs s = Some t \<Longrightarrow> gw_reachable c t"
proof (induction fs arbitrary: s)
  case (Cons f fs)
  then obtain u where "loop_body (on_frame c f) s = (None, u)" "read_frames c fs u = Some t" "s_reading s"
    by (auto split: if_splits option.splits prod.splits)
  with Cons show ?case by (blast intro: gw_reachable.Step gw_step.Frame)
qed simp


text \<open>A session: the gateway says hello, then a guild comes with a channel and a member.\<close>

definition small_guild_frame :: js where
  "small_guild_frame = frame ''GUILD_CREATE'' 2 (js_guild 30 2 [js_member 5] [js_channel 32 0 0])"

definition session_frames :: "js list" where
  "session_frames = [hello_frame, small_guild_frame]"

definition session_state :: "js shard" where
  "session_state = the (read_frames sample_config session_frames (initial_shard js_api))"

lemma session_calls:
  "map_option (\<lambda>s. map fst (s_calls s)) (read_frames sample_config session_frames (initial_shard js_api)) = Some [On_guild_ready]"
  by code_simp

lemma session_is_read: "read_frames sample_config session_frames (initial_shard js_api) = Some session_state"
  using session_calls by (auto simp: session_state_def)

lemma session_state_calls: "map fst (s_calls session_state) = [On_guild_ready]"
  using session_calls session_is_read by simp

lemma session_state_reachable: "gw_reachable sample_config session_state"
  using read_frames_reachable [OF _ session_is_read] gw_reachable.Initial [of sample_config]
  by (simp add: sample_config_def)

text \<open>A shard that waits for the members of a guild.\<close>

definition large_guild :: "js guild_and_stuff" where
  "large_guild = (new_guild_and_stuff js_api)\<lparr>gs_guild := (default_guild js_api)
     \<lparr>pg_id := Snowflake 10, g_member_count := 100, g_is_ready := False\<rparr>\<rparr>"

definition loading_state :: "js shard" where
  "loading_state = put_guild (Snowflake 10) large_guild (initial_shard js_api)"

lemma large_guild_waits:
  "s_guilds loading_state (Snowflake 10) = Some large_guild" "\<not> g_is_ready (gs_guild large_guild)"
  "gs_id large_guild = Snowflake 10" "s_chunks_left loading_state (Snowflake 10) = None"
  "s_backed_up loading_state (Snowflake 10) = None"
  by (simp_all add: loading_state_def large_guild_def put_guild_def gs_id_def initial_shard_def)

text \<open>Events for the large guild: a new role, a new member, and its members in chunks.\<close>

definition role_event :: js where
  "role_event = JObj [(''guild_id'', num 10), (''role'', js_role 77)]"

definition new_member_event :: js where
  "new_member_event = JObj [(''guild_id'', num 10), (''user'', js_user 8), (''roles'', JArr []),
     (''deaf'', JBool False), (''mute'', JBool False)]"

definition chunk_event :: "int \<Rightarrow> js list \<Rightarrow> js" where
  "chunk_event n ms = JObj [(''guild_id'', num 10), (''chunk_count'', JInt n), (''members'', JArr ms)]"

definition sample_guild_member :: "int \<Rightarrow> guild_member" where
  "sample_guild_member i = (case read_member js_api (js_member i) of Inr m \<Rightarrow> m | Inl _ \<Rightarrow> default_member)"

end
