(* ===== verification/Shard_Cases.thy ===== *)
theory Shard_Cases
  imports Replay Dispatch_Depth Json_Sample
begin

text \<open>Concrete sessions in which the laws of the shard apply.\<close>

theorem gateway_invariant_witness: "gw_reachable sample_config session_state \<and> shard_ok session_state"
  using session_state_reachable gateway_invariant [OF session_state_reachable] by blast

lemma loading_state_ok: "shard_ok loading_state"
  by (simp add: shard_ok_def loading_state_def put_guild_def initial_shard_def gs_ok_def guild_ok_def large_guild_def
      new_guild_and_stuff_def default_guild_def default_partial_guild_def partial_guild.defs)

text \<open>The frame of an answered heartbeat.\<close>

lemma ack_frame: "loop_body (on_frame sample_config (op_frame 11)) s = (None, s\<lparr>s_ack := True\<rparr>)"
  by (simp add: loop_body_def on_frame_def op_frame_def ev_def at_mut_def rbind_def sample_config_def js_api_def
      j_object_def j_is_null_def js_members_def as_int_def js_int_def do_stuff_def m_opcode11_def hread_def hmod_def)

theorem sequence_never_back_witness: "s_seq loading_state \<le> s_seq (loading_state\<lparr>s_ack := True\<rparr>)"
proof (rule sequence_never_back [OF loading_state_ok])
  show "gw_step sample_config loading_state (loading_state\<lparr>s_ack := True\<rparr>)"
    by (rule gw_step.Frame [OF _ ack_frame]) (simp add: loading_state_def put_guild_def initial_shard_def)
qed


section \<open>Loading a guild\<close>

definition kept_events :: "(js \<times> event_name \<times> u64) list" where
  "kept_events = [(role_event, GUILD_ROLE_CREATE, 4), (new_member_event, GUILD_MEMBER_ADD, 5)]"

lemma kept_events_deferred: "\<forall>(e, ename, n) \<in> set kept_events. deferred_to sample_config ename e = Some (Snowflake 10)"
  by code_simp


lemma chunk_event_reads: "chunk_reads sample_config (chunk_event 2 [js_member 5]) (Snowflake 10) 2 [sample_guild_member 5]"
  by code_simp

theorem chunk_countdown_witness:
  "\<exists>t. deliver_chunks sample_config [(chunk_event 2 [js_member 5], [sample_guild_member 5], 6)] loading_state = (None, t)
     \<and> s_guilds t (Snowflake 10) = Some (store_member (sample_guild_member 5) large_guild)
     \<and> s_chunks_left t (Snowflake 10) = Some 1"
proof -
  have now: "chunks_now loading_state (Snowflake 10) 2 = 2" by (simp add: chunks_now_def large_guild_waits)
  show ?thesis
    using chunk_countdown [of "[(chunk_event 2 [js_member 5], [sample_guild_member 5], 6)]" sample_config
      "Snowflake 10" 2 loading_state large_guild] chunk_event_reads large_guild_waits now
    by auto
qed

definition all_members :: js where
  "all_members = chunk_event 1 [js_member 5]"

lemma all_members_reads: "chunk_reads sample_config all_members (Snowflake 10) 1 [sample_guild_member 5]"
  by code_simp

lemma one_chunk: "chunks_now loading_state (Snowflake 10) 1 = 1"
  by (simp add: chunks_now_def large_guild_waits)

definition ready_guild :: "js guild" where
  "ready_guild = (gs_guild large_guild)\<lparr>g_is_ready := True\<rparr>"

lemma no_presences: "apply_presences js_api (g_presences (gs_guild large_guild)) g = (None, g)"
  by (simp add: apply_presences_def large_guild_def default_guild_def partial_guild.defs new_guild_and_stuff_def
      js_api_def js_items_def handler_simps)

theorem last_chunk_replays_witness:
  "on_guild_members_chunk (\<lambda>e' en'. m_opcode0 1 sample_config e' en' 0) sample_config all_members loading_state =
     hthen (heach (\<lambda>(e', en'). m_opcode0 1 sample_config e' en' 0) (backlog loading_state (Snowflake 10)))
       (in_guild (Snowflake 10) (hmod (upd_guild (\<lambda>g. g\<lparr>g_presences := j_of_int (c_json sample_config) 0\<rparr>))))
       (loaded sample_config loading_state (Snowflake 10) large_guild [sample_guild_member 5] ready_guild)"
  by (rule last_chunk_replays [OF all_members_reads large_guild_waits(1,3) one_chunk])
    (simp_all add: no_presences ready_guild_def sample_config_def)

definition throwing_config :: "js config" where
  "throwing_config = sample_config\<lparr>c_throws := (\<lambda>_. True)\<rparr>"

theorem throwing_ready_callback_keeps_backlog_witness:
  "\<exists>t. m_opcode0 2 throwing_config all_members GUILD_MEMBERS_CHUNK 7 loading_state = (None, t)
     \<and> s_backed_up t = s_backed_up loading_state \<and> s_chunks_left t (Snowflake 10) = None
     \<and> s_guilds t (Snowflake 10) = Some ((fold store_member [sample_guild_member 5] large_guild)\<lparr>gs_guild := ready_guild\<rparr>)"
  unfolding numeral_2_eq_2
proof (rule throwing_ready_callback_keeps_backlog [OF _ large_guild_waits(1,3) one_chunk])
  show "chunk_reads throwing_config all_members (Snowflake 10) 1 [sample_guild_member 5]"
    using all_members_reads by (simp add: chunk_reads_def throwing_config_def ev_def)
qed (simp_all add: no_presences ready_guild_def throwing_config_def sample_config_def)

theorem replay_depth_enough_witness:
  "m_opcode0 100 sample_config all_members GUILD_MEMBERS_CHUNK 7 loading_state
   = m_opcode0 replay_depth sample_config all_members GUILD_MEMBERS_CHUNK 7 loading_state"
  by (rule replay_depth_enough [OF loading_state_ok]) simp

end
