(* ===== verification/Channel_Cases.thy ===== *)
theory Channel_Cases
  imports Channel_Laws Shard_Cases
begin

text \<open>Concrete guilds in which the laws of the guild's channels, roles and voice states apply.\<close>

section \<open>A guild with a category\<close>

text \<open>Category 40 holds the text channel 41 and the voice channel 42; the text channel 43 is in none.\<close>

definition text_in :: "int \<Rightarrow> snowflake \<Rightarrow> text_channel" where
  "text_in i cat = default_text_channel\<lparr>pc_id := Snowflake (word_of_int i), gc_parent_id := cat, gc_parent := if cat = no_id then None else Some cat\<rparr>"

definition listener :: "int \<Rightarrow> voice_state" where
  "listener i = \<lparr>vs_channel_id = Snowflake 42, vs_user_id = Snowflake (word_of_int i), vs_session_id = '''', vs_deaf = False,
     vs_mute = False, vs_self_deaf = False, vs_self_mute = False, vs_suppress = False, vs_member = None\<rparr>"

definition category_guild :: "js guild_and_stuff" where
  "category_guild =
     \<lparr>gs_guild = (default_guild js_api)\<lparr>pg_id := Snowflake 10, pg_roles := [Snowflake 9 \<mapsto> default_role\<lparr>role_id := Snowflake 9\<rparr>],
        g_text_ids := [Snowflake 41, Snowflake 43], g_voice_ids := [Snowflake 42], g_category_ids := [Snowflake 40],
        g_voice_states := [listener 7, listener 8]\<rparr>,
      gs_text = [Snowflake 41 \<mapsto> text_in 41 (Snowflake 40), Snowflake 43 \<mapsto> text_in 43 no_id],
      gs_voice = [Snowflake 42 \<mapsto> default_voice_channel\<lparr>pc_id := Snowflake 42, gc_parent_id := Snowflake 40, gc_parent := Some (Snowflake 40)\<rparr>],
      gs_categories = [Snowflake 40 \<mapsto> Some (default_guild_channel\<lparr>pc_id := Snowflake 40\<rparr>)],
      gs_members = Map.empty\<rparr>"

definition category_state :: "js shard" where
  "category_state = put_guild (Snowflake 10) category_guild (initial_shard js_api)"

lemma category_state_guild: "s_guilds category_state (Snowflake 10) = Some category_guild"
  by (simp add: category_state_def put_guild_def)

lemma category_guild_shape:
  "g_is_ready (gs_guild category_guild)" "g_text_ids (gs_guild category_guild) = [Snowflake 41, Snowflake 43]"
  "g_voice_ids (gs_guild category_guild) = [Snowflake 42]" "g_category_ids (gs_guild category_guild) = [Snowflake 40]"
  "gs_categories category_guild (Snowflake 40) \<noteq> None"
  "pg_roles (gs_guild category_guild) (Snowflake 9) = Some (default_role\<lparr>role_id := Snowflake 9\<rparr>)"
  "map_option gc_parent_id (gs_text category_guild (Snowflake 41)) = Some (Snowflake 40)"
  by (simp_all add: category_guild_def default_guild_def default_partial_guild_def partial_guild.defs text_in_def
      default_text_channel_def default_guild_channel_def guild_channel.defs)

definition guild_event :: "(string \<times> js) list \<Rightarrow> js" where
  "guild_event kvs = JObj ((''guild_id'', num 10) # kvs)"

section \<open>The category is deleted\<close>

definition delete_category_event :: js where
  "delete_category_event = guild_event [(''id'', num 40), (''type'', JInt 4)]"

definition category_deleted :: "js shard" where
  "category_deleted = snd (on_channel_delete sample_config delete_category_event category_state)"

lemma delete_category_reads:
  "ev sample_config delete_category_event ''id'' as_sf = Inr (Snowflake 40)"
  "ev_guild_id sample_config delete_category_event = Inr (Snowflake 10)"
  by code_simp+

lemma category_deleted_runs: "on_channel_delete sample_config delete_category_event category_state = (None, category_deleted)"
proof -
  have "Option.is_none (fst (on_channel_delete sample_config delete_category_event category_state))" by code_simp
  then show ?thesis by (simp add: category_deleted_def Option.is_none_def prod_eq_iff)
qed

theorem category_delete_orphans_witness:
  "\<exists>gs'. s_guilds category_deleted (Snowflake 10) = Some gs' \<and> g_category_ids (gs_guild gs') = []
     \<and> map_option gc_parent_id (gs_text gs' (Snowflake 41)) = Some no_id"
proof -
  have "Snowflake 10 \<noteq> no_id" by (simp add: no_id_def)
  from category_delete_orphans [OF category_deleted_runs delete_category_reads this category_state_guild category_guild_shape(1,5)]
  show ?thesis using category_guild_shape
    by (auto simp: option.map_comp comp_def orphan_def)
qed

section \<open>A listener moves\<close>

definition move_event :: js where
  "move_event = guild_event [(''user_id'', num 8), (''channel_id'', num 42), (''session_id'', JStr ''s''), (''deaf'', JBool True),
     (''mute'', JBool False), (''self_deaf'', JBool False), (''self_mute'', JBool False), (''suppress'', JBool False)]"

theorem one_voice_state_per_user_witness:
  "distinct (voice_users (snd (on_voice_state_update sample_config move_event category_state)) (Snowflake 10))"
proof (rule one_voice_state_per_user [OF prod.collapse [symmetric]])
  show "ev_guild_id sample_config move_event = Inr (Snowflake 10)" by code_simp
  show "distinct (voice_users category_state (Snowflake 10))"
    by (simp add: voice_users_def category_state_guild category_guild_def listener_def)
qed

section \<open>A role is deleted\<close>

definition delete_role_event :: js where
  "delete_role_event = guild_event [(''role_id'', num 9)]"

lemma category_state_ok: "shard_ok category_state"
  by (simp add: shard_ok_def category_state_def put_guild_def initial_shard_def gs_ok_def guild_ok_def category_guild_def
      default_guild_def default_partial_guild_def partial_guild.defs text_in_def default_text_channel_def
      default_voice_channel_def default_guild_channel_def guild_channel.defs default_role_def keyed_def)

theorem role_delete_undefined_witness:
  "fst (on_guild_role_delete sample_config delete_role_event category_state) = Some Undef"
proof (rule role_delete_undefined [OF category_state_ok _ _ category_state_guild category_guild_shape(1) _ category_guild_shape(6)])
  show "has_intents (c_intents sample_config) GUILD_MEMBERS" by code_simp
  show "ev sample_config delete_role_event ''guild_id'' as_sf = Inr (Snowflake 10)" by code_simp
  show "ev sample_config delete_role_event ''role_id'' as_sf = Inr (Snowflake 9)" by code_simp
qed

section \<open>Events of one guild\<close>


section \<open>A guild is created\<close>

definition create_event :: js where
  "create_event = js_guild 30 1 [] [js_channel 32 0 0, js_channel 33 2 0, js_channel 34 1 0]"

definition created :: "js shard" where
  "created = snd (on_guild_create sample_config create_event (initial_shard js_api))"

lemma created_runs: "on_guild_create sample_config create_event (initial_shard js_api) = (None, created)"
proof -
  have "Option.is_none (fst (on_guild_create sample_config create_event (initial_shard js_api)))" by code_simp
  then show ?thesis by (simp add: created_def Option.is_none_def prod_eq_iff)
qed


section \<open>Callbacks of a session\<close>

theorem only_set_callbacks_called_witness: "c_has sample_config On_guild_ready"
proof -
  obtain args where "(On_guild_ready, args) \<in> set (s_calls session_state)"
    using session_state_calls by (cases "s_calls session_state") auto
  then show ?thesis by (rule only_set_callbacks_called [OF session_state_reachable])
qed

end
