(* ===== verification/Async_Mutex.thy ===== *)
theory Async_Mutex
  imports Prelude "HOL-Library.Multiset"
begin

text \<open>
  The mutexes of \<open>common/async_mutex.h\<close>. \<open>async_mutex\<close>, the one the web socket's writer takes
  (\<open>src/rename_later_5.cpp\<close>), is one atomic word: unlocked, locked, or the newest awaiter of a stack of them
  linked by \<open>m_next\<close>. Its operations are steps, one atomic access each, of any number of tasks in any
  interleaving; an awaiter's own fields are private until its compare-exchange publishes it. A task is
  the address of its awaiter. \<open>async_mutex1\<close> and \<open>async_mutex2\<close> are sequential.
\<close>

section \<open>\<open>async_mutex\<close>\<close>

type_synonym task = nat

text \<open>\<open>Locked None\<close> is \<open>locked_no_waiters\<close>, the null pointer.\<close>

datatype mutex_word = Unlocked | Locked "task option"

text \<open>
  Where a task is: outside, in the loop of \<open>try_lock\<close> with the state it saw last, suspended, owner, owner
  whose first compare-exchange in \<open>unlock\<close> failed, and owner that has taken the stack over.
\<close>

datatype place = Outside | Trying mutex_word | Suspended | Owner | Exchanging | Handing

record mutex =
  mx_state :: mutex_word
  mx_waiters :: "task option"
  mx_next :: "task \<Rightarrow> task option"
  mx_place :: "task \<Rightarrow> place"

definition new_mutex :: mutex where
  "new_mutex = \<lparr>mx_state = Unlocked, mx_waiters = None, mx_next = (\<lambda>_. None), mx_place = (\<lambda>_. Outside)\<rparr>"

fun as_pointer :: "mutex_word \<Rightarrow> task option" where
  "as_pointer Unlocked = None"
| "as_pointer (Locked p) = p"

text \<open>\<open>async_lock\<close> suspends in \<open>try_lock(this)\<close>, which first loads the state.\<close>

definition lock_load :: "task \<Rightarrow> mutex \<Rightarrow> mutex" where
  "lock_load p m = m\<lparr>mx_place := (mx_place m)(p := Trying (mx_state m))\<rparr>"

text \<open>One round of the loop of \<open>try_lock\<close>: the compare-exchange, which loads the state when it fails.\<close>

definition lock_cas :: "task \<Rightarrow> mutex_word \<Rightarrow> mutex \<Rightarrow> mutex" where
  "lock_cas p old m =
     (if old = Unlocked then
        if mx_state m = Unlocked
        then m\<lparr>mx_state := Locked None, mx_place := (mx_place m)(p := Owner)\<rparr>
        else m\<lparr>mx_place := (mx_place m)(p := Trying (mx_state m))\<rparr>
      else
        let m' = m\<lparr>mx_next := (mx_next m)(p := as_pointer old)\<rparr> in
        if mx_state m' = old
        then m'\<lparr>mx_state := Locked (Some p), mx_place := (mx_place m')(p := Suspended)\<rparr>
        else m'\<lparr>mx_place := (mx_place m')(p := Trying (mx_state m'))\<rparr>)"

definition try_lock_now :: "task \<Rightarrow> mutex \<Rightarrow> bool \<times> mutex" where
  "try_lock_now p m =
     (if mx_state m = Unlocked
      then (True, m\<lparr>mx_state := Locked None, mx_place := (mx_place m)(p := Owner)\<rparr>)
      else (False, m))"

definition is_locked :: "mutex \<Rightarrow> bool" where "is_locked m \<longleftrightarrow> mx_state m \<noteq> Unlocked"
definition is_unlocked :: "mutex \<Rightarrow> bool" where "is_unlocked m \<longleftrightarrow> mx_state m = Unlocked"

text \<open>
  \<open>unlock\<close>: without waiters taken over before, a compare-exchange to unlocked; when it fails, the stack is
  exchanged for \<open>locked_no_waiters\<close>; the first waiter taken over is resumed and owns the lock. An
  assertion that fails has no result.
\<close>

definition unlock_cas :: "task \<Rightarrow> mutex \<Rightarrow> mutex option" where
  "unlock_cas p m =
     (if mx_state m = Unlocked then None
      else if mx_waiters m \<noteq> None then Some (m\<lparr>mx_place := (mx_place m)(p := Handing)\<rparr>)
      else if mx_state m = Locked None
      then Some (m\<lparr>mx_state := Unlocked, mx_place := (mx_place m)(p := Outside)\<rparr>)
      else Some (m\<lparr>mx_place := (mx_place m)(p := Exchanging)\<rparr>))"

definition unlock_exchange :: "task \<Rightarrow> mutex \<Rightarrow> mutex" where
  "unlock_exchange p m =
     m\<lparr>mx_waiters := as_pointer (mx_state m), mx_state := Locked None, mx_place := (mx_place m)(p := Handing)\<rparr>"

definition unlock_hand :: "task \<Rightarrow> mutex \<Rightarrow> mutex option" where
  "unlock_hand p m =
     (case mx_waiters m of None \<Rightarrow> None
      | Some w \<Rightarrow> Some (m\<lparr>mx_waiters := mx_next m w, mx_place := (mx_place m)(p := Outside, w := Owner)\<rparr>))"

inductive mx_step :: "mutex \<Rightarrow> mutex \<Rightarrow> bool" where
  Lock: "mx_place m p = Outside \<Longrightarrow> mx_step m (lock_load p m)"
| Cas: "mx_place m p = Trying old \<Longrightarrow> mx_step m (lock_cas p old m)"
| Try: "mx_place m p = Outside \<Longrightarrow> mx_step m (snd (try_lock_now p m))"
| Unlock: "mx_place m p = Owner \<Longrightarrow> unlock_cas p m = Some m' \<Longrightarrow> mx_step m m'"
| Exchange: "mx_place m p = Exchanging \<Longrightarrow> mx_step m (unlock_exchange p m)"
| Hand: "mx_place m p = Handing \<Longrightarrow> unlock_hand p m = Some m' \<Longrightarrow> mx_step m m'"

inductive mx_reachable :: "mutex \<Rightarrow> bool" where
  New: "mx_reachable new_mutex"
| Step: "mx_reachable m \<Longrightarrow> mx_step m m' \<Longrightarrow> mx_reachable m'"

section \<open>The stacks of waiters\<close>

fun chain :: "(task \<Rightarrow> task option) \<Rightarrow> task option \<Rightarrow> task list \<Rightarrow> bool" where
  "chain nx h [] \<longleftrightarrow> h = None"
| "chain nx h (x # xs) \<longleftrightarrow> h = Some x \<and> chain nx (nx x) xs"

lemma chain_cong: "(\<And>x. x \<in> set xs \<Longrightarrow> nx x = nx' x) \<Longrightarrow> chain nx h xs \<longleftrightarrow> chain nx' h xs"
  by (induction xs arbitrary: h) auto

lemma chain_upd [simp]: "p \<notin> set xs \<Longrightarrow> chain (nx(p := v)) h xs \<longleftrightarrow> chain nx h xs"
  by (rule chain_cong) auto

lemma chain_unique: "chain nx h xs \<Longrightarrow> chain nx h ys \<Longrightarrow> xs = ys"
proof (induction xs arbitrary: h ys)
  case Nil
  then show ?case by (cases ys) auto
next
  case (Cons x xs)
  then show ?case by (cases ys) auto
qed

definition owning :: "place \<Rightarrow> bool" where
  "owning q \<longleftrightarrow> q = Owner \<or> q = Exchanging \<or> q = Handing"

lemma owning_simps [simp]:
  "owning Owner" "owning Exchanging" "owning Handing" "\<not> owning Outside" "\<not> owning (Trying s)" "\<not> owning Suspended"
  by (simp_all add: owning_def)

text \<open>
  What the mutex stands for: its owner, \<open>new\<close>, the waiters on the stack, the newest first, and \<open>old\<close>, those
  taken over before.
\<close>

record queue_view =
  owner :: "task option"
  old :: "task list"
  new :: "task list"

definition shows_as :: "mutex \<Rightarrow> queue_view \<Rightarrow> bool" where
  "shows_as m v \<longleftrightarrow>
     chain (mx_next m) (as_pointer (mx_state m)) (new v) \<and> chain (mx_next m) (mx_waiters m) (old v)
     \<and> distinct (old v @ new v) \<and> (\<forall>p. mx_place m p = Suspended \<longleftrightarrow> p \<in> set (old v @ new v))
     \<and> (\<forall>p. owning (mx_place m p) \<longleftrightarrow> owner v = Some p)
     \<and> (mx_state m = Unlocked \<longleftrightarrow> owner v = None) \<and> (owner v = None \<longrightarrow> old v = [])
     \<and> (\<forall>p. mx_place m p = Exchanging \<longrightarrow> old v = [] \<and> new v \<noteq> [])
     \<and> (\<forall>p. mx_place m p = Handing \<longrightarrow> old v \<noteq> [])"

text \<open>The steps of the abstract mutex.\<close>

inductive view_step :: "queue_view \<Rightarrow> queue_view \<Rightarrow> bool" where
  Stay: "view_step v v"
| Acquire: "owner v = None \<Longrightarrow> view_step v (v\<lparr>owner := Some p\<rparr>)"
| Wait: "owner v = Some q \<Longrightarrow> p \<noteq> q \<Longrightarrow> p \<notin> set (old v @ new v) \<Longrightarrow> view_step v (v\<lparr>new := p # new v\<rparr>)"
| Release: "owner v = Some p \<Longrightarrow> old v = [] \<Longrightarrow> new v = [] \<Longrightarrow> view_step v (v\<lparr>owner := None\<rparr>)"
| Take: "owner v = Some p \<Longrightarrow> old v = [] \<Longrightarrow> new v \<noteq> [] \<Longrightarrow> view_step v (v\<lparr>old := new v, new := []\<rparr>)"
| Hand: "owner v = Some p \<Longrightarrow> old v = w # ws \<Longrightarrow> view_step v (v\<lparr>owner := Some w, old := ws\<rparr>)"

definition new_view :: queue_view where "new_view = \<lparr>owner = None, old = [], new = []\<rparr>"

lemma shows_new: "shows_as new_mutex new_view"
  by (simp add: shows_as_def new_mutex_def new_view_def)

lemma not_waiting: "shows_as m v \<Longrightarrow> mx_place m p \<noteq> Suspended \<Longrightarrow> p \<notin> set (old v) \<and> p \<notin> set (new v)"
  by (simp add: shows_as_def)

lemma not_owner: "shows_as m v \<Longrightarrow> \<not> owning (mx_place m p) \<Longrightarrow> owner v \<noteq> Some p"
  by (simp add: shows_as_def)

lemma shows_lock_load:
  assumes "shows_as m v" "mx_place m p = Outside"
  shows "shows_as (lock_load p m) v"
  using assms not_waiting [OF assms(1), of p] not_owner [OF assms(1), of p]
  by (auto simp: shows_as_def lock_load_def)

lemma shows_acquire:
  assumes "shows_as m v" "\<not> owning (mx_place m p)" "mx_place m p \<noteq> Suspended" "mx_state m = Unlocked"
  shows "shows_as (m\<lparr>mx_state := Locked None, mx_place := (mx_place m)(p := Owner)\<rparr>) (v\<lparr>owner := Some p\<rparr>)"
  using assms not_waiting [OF assms(1,3)] by (auto simp: shows_as_def)

lemma shows_push:
  assumes ok: "shows_as m v" and p: "mx_place m p = Trying (Locked h)" and st: "mx_state m = Locked h"
  shows "shows_as (m\<lparr>mx_next := (mx_next m)(p := h), mx_state := Locked (Some p),
           mx_place := (mx_place m)(p := Suspended)\<rparr>) (v\<lparr>new := p # new v\<rparr>)"
  using assms not_waiting [OF ok, of p] not_owner [OF ok, of p] by (auto simp: shows_as_def)

lemma shows_retry:
  assumes "shows_as m v" "mx_place m p = Trying s"
  shows "shows_as (m\<lparr>mx_next := (mx_next m)(p := x), mx_place := (mx_place m)(p := Trying s')\<rparr>) v"
  using assms not_waiting [OF assms(1), of p] not_owner [OF assms(1), of p] by (auto simp: shows_as_def)

lemma shows_retry_load:
  assumes "shows_as m v" "mx_place m p = Trying s"
  shows "shows_as (m\<lparr>mx_place := (mx_place m)(p := Trying s')\<rparr>) v"
  using assms not_waiting [OF assms(1), of p] not_owner [OF assms(1), of p] by (auto simp: shows_as_def)

lemma owner_of: "shows_as m v \<Longrightarrow> owning (mx_place m p) \<Longrightarrow> owner v = Some p"
  by (simp add: shows_as_def)

lemma shows_lock_cas:
  assumes "shows_as m v" "mx_place m p = Trying s"
  shows "\<exists>v'. shows_as (lock_cas p s m) v' \<and> view_step v v'"
proof (cases s)
  case Unlocked
  show ?thesis
  proof (cases "mx_state m = Unlocked")
    case True
    have "owner v = None" using assms(1) True by (simp add: shows_as_def)
    with shows_acquire [OF assms(1) _ _ True, of p] assms(2) Unlocked True show ?thesis
      by (auto simp: lock_cas_def intro: view_step.Acquire)
  next
    case False
    then show ?thesis using shows_retry_load [OF assms] Unlocked
      by (auto simp: lock_cas_def intro: view_step.Stay)
  qed
next
  case (Locked h)
  show ?thesis
  proof (cases "mx_state m = Locked h")
    case True
    note push = shows_push [OF assms(1) _ True, of p]
    obtain q where "owner v = Some q" using assms(1) True by (auto simp: shows_as_def)
    with not_waiting [OF assms(1), of p] not_owner [OF assms(1), of p] assms(2)
    have "view_step v (v\<lparr>new := p # new v\<rparr>)" by (intro view_step.Wait) auto
    with push assms(2) Locked True show ?thesis by (auto simp: lock_cas_def Let_def)
  next
    case False
    then show ?thesis using shows_retry [OF assms, where x = h and s' = "mx_state m"] Locked
      by (auto simp: lock_cas_def Let_def intro: view_step.Stay)
  qed
qed

lemma shows_unlock_cas:
  assumes "shows_as m v" "mx_place m p = Owner" "unlock_cas p m = Some m'"
  shows "\<exists>v'. shows_as m' v' \<and> view_step v v'"
proof -
  have own: "owner v = Some p" using assms(1,2) by (simp add: owner_of)
  consider (hand) "mx_waiters m \<noteq> None" "m' = m\<lparr>mx_place := (mx_place m)(p := Handing)\<rparr>"
    | (free) "mx_waiters m = None" "mx_state m = Locked None" "m' = m\<lparr>mx_state := Unlocked, mx_place := (mx_place m)(p := Outside)\<rparr>"
    | (fail) "mx_waiters m = None" "mx_state m \<noteq> Locked None" "mx_state m \<noteq> Unlocked"
        "m' = m\<lparr>mx_place := (mx_place m)(p := Exchanging)\<rparr>"
    using assms(3) by (auto simp: unlock_cas_def split: if_splits)
  then show ?thesis
  proof cases
    case hand
    then have "old v \<noteq> []" using assms(1) by (cases "old v") (auto simp: shows_as_def)
    with hand assms(1,2) own not_waiting [OF assms(1), of p] have "shows_as m' v" by (auto simp: shows_as_def)
    then show ?thesis using view_step.Stay by blast
  next
    case free
    then have e: "old v = []" "new v = []" using assms(1) by (cases "old v"; cases "new v"; auto simp: shows_as_def)+
    with free assms(1,2) own have "shows_as m' (v\<lparr>owner := None\<rparr>)"
      using not_waiting [OF assms(1), of p] by (auto simp: shows_as_def)
    then show ?thesis using view_step.Release [OF own e] by blast
  next
    case fail
    then have "old v = []" using assms(1) by (cases "old v") (auto simp: shows_as_def)
    moreover have "new v \<noteq> []" using fail assms(1) by (cases "mx_state m"; cases "new v") (auto simp: shows_as_def)
    ultimately have "shows_as m' v" using fail assms(1,2) own not_waiting [OF assms(1), of p] by (auto simp: shows_as_def)
    then show ?thesis using view_step.Stay by blast
  qed
qed

lemma shows_exchange:
  assumes "shows_as m v" "mx_place m p = Exchanging"
  shows "shows_as (unlock_exchange p m) (v\<lparr>old := new v, new := []\<rparr>) \<and> view_step v (v\<lparr>old := new v, new := []\<rparr>)"
proof -
  have own: "owner v = Some p" using assms by (simp add: owner_of)
  have e: "old v = []" "new v \<noteq> []" using assms by (auto simp: shows_as_def)
  have "shows_as (unlock_exchange p m) (v\<lparr>old := new v, new := []\<rparr>)"
    using assms own not_waiting [OF assms(1), of p] by (auto simp: shows_as_def unlock_exchange_def)
  then show ?thesis using view_step.Take [OF own e] by blast
qed

lemma shows_hand:
  assumes "shows_as m v" "mx_place m p = Handing"
  shows "\<exists>w ws m'. old v = w # ws \<and> unlock_hand p m = Some m' \<and> shows_as m' (v\<lparr>owner := Some w, old := ws\<rparr>)
    \<and> view_step v (v\<lparr>owner := Some w, old := ws\<rparr>)"
proof -
  have own: "owner v = Some p" using assms by (simp add: owner_of)
  obtain w ws where old: "old v = w # ws" using assms by (cases "old v") (auto simp: shows_as_def)
  have w: "mx_waiters m = Some w" using assms(1) old by (auto simp: shows_as_def)
  have "mx_place m w = Suspended" using assms(1) old unfolding shows_as_def by simp
  then have "w \<noteq> p" using assms(2) by auto
  have "shows_as (m\<lparr>mx_waiters := mx_next m w, mx_place := (mx_place m)(p := Outside, w := Owner)\<rparr>)
      (v\<lparr>owner := Some w, old := ws\<rparr>)"
    using assms own old \<open>w \<noteq> p\<close> not_waiting [OF assms(1), of p] by (auto simp: shows_as_def)
  with old w view_step.Hand [OF own old] show ?thesis by (auto simp: unlock_hand_def)
qed

lemma shows_step:
  assumes "shows_as m v" "mx_step m m'"
  shows "\<exists>v'. shows_as m' v' \<and> view_step v v'"
  using assms(2)
proof cases
  case (Lock p)
  then show ?thesis using shows_lock_load [OF assms(1)] view_step.Stay by blast
next
  case (Cas p s)
  then show ?thesis using shows_lock_cas [OF assms(1)] by blast
next
  case (Try p)
  show ?thesis
  proof (cases "mx_state m = Unlocked")
    case True
    then have "owner v = None" using assms(1) by (simp add: shows_as_def)
    with True Try shows_acquire [OF assms(1) _ _ True, of p] show ?thesis
      by (auto simp: try_lock_now_def intro: view_step.Acquire)
  qed (use assms Try in \<open>auto simp: try_lock_now_def intro: view_step.Stay\<close>)
next
  case (Unlock p)
  then show ?thesis using shows_unlock_cas [OF assms(1)] by blast
next
  case (Exchange p)
  then show ?thesis using shows_exchange [OF assms(1)] by blast
next
  case (Hand p)
  then show ?thesis using shows_hand [OF assms(1) Hand(1)] by auto
qed

lemma reachable_view: "mx_reachable m \<Longrightarrow> \<exists>v. rtranclp view_step new_view v \<and> shows_as m v"
proof (induction rule: mx_reachable.induct)
  case New
  then show ?case using shows_new by blast
next
  case (Step m m')
  then show ?case using shows_step by (meson rtranclp.rtrancl_into_rtrancl)
qed

section \<open>What the mutex promises\<close>

text \<open>C13: The atomic word, the links of the awaiters and the list taken over implement a lock with two queues: every
  atomic step of every interleaving of tasks is a step of the abstract mutex, or changes nothing of it.\<close>
theorem mutex_refines_queues:
  assumes "mx_reachable m" "mx_step m m'"
  shows "\<exists>v v'. rtranclp view_step new_view v \<and> shows_as m v \<and> view_step v v' \<and> shows_as m' v'"
  using reachable_view [OF assms(1)] shows_step [OF _ assms(2)] by blast

lemma one_owner:
  assumes "mx_reachable m" "owning (mx_place m p)"
  shows "is_locked m \<and> (\<forall>q. owning (mx_place m q) \<longrightarrow> q = p)"
proof -
  obtain v where "shows_as m v" using reachable_view [OF assms(1)] by blast
  with assms(2) show ?thesis by (auto simp: shows_as_def is_locked_def)
qed

text \<open>C14: At most one task owns the lock at any time, however the compare-exchanges of the tasks interleave, and while
  one does the mutex is locked.\<close>
theorem mutual_exclusion:
  assumes "mx_reachable m" "owning (mx_place m p)"
  shows "is_locked m \<and> (\<forall>q. owning (mx_place m q) \<longrightarrow> q = p)"
  by (rule one_owner [OF assms])

text \<open>The whole of \<open>unlock\<close>, when no other task steps between.\<close>

definition unlock_run :: "task \<Rightarrow> mutex \<Rightarrow> mutex option" where
  "unlock_run p m =
     (case unlock_cas p m of None \<Rightarrow> None
      | Some m1 \<Rightarrow>
          (if mx_place m1 p = Exchanging then unlock_hand p (unlock_exchange p m1)
           else if mx_place m1 p = Handing then unlock_hand p m1
           else Some m1))"

lemma hand_over:
  assumes "shows_as m v" "mx_place m p = Handing"
  shows "\<exists>w m'. unlock_hand p m = Some m' \<and> old v \<noteq> [] \<and> w = hd (old v) \<and> mx_place m w = Suspended
    \<and> mx_place m' = (mx_place m)(p := Outside, w := Owner)"
proof -
  obtain w ws where old: "old v = w # ws" using assms by (cases "old v") (auto simp: shows_as_def)
  then have "mx_waiters m = Some w" "mx_place m w = Suspended" using assms(1) by (auto simp: shows_as_def)
  with old show ?thesis by (auto simp: unlock_hand_def)
qed

text \<open>An owner's \<open>unlock\<close> never fails an assertion. With no task suspended it leaves the mutex unlocked;
  otherwise it makes exactly one of the suspended tasks the owner, so no waiter is forgotten.\<close>
theorem unlock_hands_over:
  assumes "mx_reachable m" "mx_place m p = Owner"
  shows "\<exists>m'. unlock_run p m = Some m' \<and>
    (if \<exists>w. mx_place m w = Suspended
     then \<exists>w. mx_place m w = Suspended \<and> mx_place m' = (mx_place m)(p := Outside, w := Owner)
     else is_unlocked m' \<and> mx_place m' = (mx_place m)(p := Outside))"
proof -
  obtain v where v: "shows_as m v" using reachable_view [OF assms(1)] by blast
  have own: "owner v = Some p" using v assms(2) by (simp add: owner_of)
  have locked: "mx_state m \<noteq> Unlocked" using v own by (simp add: shows_as_def)
  have susp: "mx_place m w = Suspended \<longleftrightarrow> w \<in> set (old v @ new v)" for w using v by (simp add: shows_as_def)
  consider (hand) "mx_waiters m \<noteq> None" | (free) "mx_waiters m = None" "mx_state m = Locked None"
    | (fail) "mx_waiters m = None" "mx_state m \<noteq> Locked None" by blast
  then show ?thesis
  proof cases
    case hand
    let ?m1 = "m\<lparr>mx_place := (mx_place m)(p := Handing)\<rparr>"
    have cas: "unlock_cas p m = Some ?m1" using hand locked by (simp add: unlock_cas_def)
    have "old v \<noteq> []" using hand v by (cases "old v") (auto simp: shows_as_def)
    then have "shows_as ?m1 v"
      using v assms(2) own not_waiting [OF v, of p] by (auto simp: shows_as_def)
    from hand_over [OF this, of p] obtain w m' where w: "unlock_hand p ?m1 = Some m'" "mx_place ?m1 w = Suspended"
      "mx_place m' = (mx_place ?m1)(p := Outside, w := Owner)" by auto
    then have "mx_place m w = Suspended" "w \<noteq> p" by (auto split: if_splits)
    with w cas show ?thesis by (auto simp: unlock_run_def fun_upd_twist)
  next
    case free
    then have "old v = []" "new v = []" using v by (cases "old v"; cases "new v"; auto simp: shows_as_def)+
    with free susp show ?thesis by (auto simp: unlock_run_def unlock_cas_def is_unlocked_def)
  next
    case fail
    let ?m1 = "m\<lparr>mx_place := (mx_place m)(p := Exchanging)\<rparr>"
    have cas: "unlock_cas p m = Some ?m1" using fail locked by (simp add: unlock_cas_def)
    obtain v1 where v1: "shows_as ?m1 v1" using shows_unlock_cas [OF v assms(2) cas] by blast
    let ?m2 = "unlock_exchange p ?m1"
    obtain v2 where v2: "shows_as ?m2 v2" using shows_exchange [OF v1, of p] by auto
    from hand_over [OF this, of p] obtain w m' where w: "unlock_hand p ?m2 = Some m'" "mx_place ?m2 w = Suspended"
      "mx_place m' = (mx_place ?m2)(p := Outside, w := Owner)" by (auto simp: unlock_exchange_def)
    then have "mx_place m w = Suspended" "w \<noteq> p" by (auto simp: unlock_exchange_def split: if_splits)
    with w cas show ?thesis by (auto simp: unlock_run_def unlock_exchange_def fun_upd_twist)
  qed
qed

text \<open>How many owners come before a task of the list taken over: no step makes it more, and each hand-over one less.\<close>

definition ahead :: "task \<Rightarrow> queue_view \<Rightarrow> nat" where
  "ahead p v = length (takeWhile (\<lambda>q. q \<noteq> p) (old v))"

text \<open>A waiter that an owner has taken over is served after as many owners as were before it in the list, whoever
  else comes to wait: no step puts another task before it.\<close>
theorem taken_waiter_served:
  assumes "view_step v v'" "p \<in> set (old v)"
  shows "owner v' = Some p \<or> (p \<in> set (old v') \<and> ahead p v' \<le> ahead p v
    \<and> (owner v' \<noteq> owner v \<and> owner v \<noteq> None \<longrightarrow> ahead p v' < ahead p v))"
  using assms by cases (auto simp: ahead_def)

text \<open>The waiters of one turn are served newest first: 3 overtakes 2 when both wait for 1.\<close>

definition overtaking :: "mutex option" where
  "overtaking =
     (let m1 = lock_cas 1 Unlocked (lock_load 1 new_mutex);
          m2 = lock_cas 2 (Locked None) (lock_load 2 m1);
          m3 = lock_cas 3 (Locked (Some 2)) (lock_load 3 m2)
      in unlock_run 1 m3)"

lemma newest_waiter_first:
  "map_option (\<lambda>m. (mx_place m 2, mx_place m 3)) overtaking = Some (Suspended, Owner)"
  by code_simp

section \<open>A contended mutex\<close>

text \<open>1 owns the mutex and 2 waits.\<close>

definition contended :: mutex where
  "contended = lock_cas 2 (Locked None) (lock_load 2 (lock_cas 1 Unlocked (lock_load 1 new_mutex)))"

lemmas contended_simps = contended_def lock_cas_def lock_load_def new_mutex_def Let_def

lemma contended_reachable: "mx_reachable contended"
proof -
  let ?m1 = "lock_load 1 new_mutex" let ?m2 = "lock_cas 1 Unlocked ?m1" let ?m3 = "lock_load 2 ?m2"
  have "mx_reachable ?m1" by (rule mx_reachable.Step [OF mx_reachable.New mx_step.Lock]) (simp add: new_mutex_def)
  then have "mx_reachable ?m2"
    by (rule mx_reachable.Step [OF _ mx_step.Cas]) (simp add: lock_load_def new_mutex_def)
  then have "mx_reachable ?m3"
    by (rule mx_reachable.Step [OF _ mx_step.Lock]) (simp add: lock_load_def lock_cas_def new_mutex_def)
  then show ?thesis unfolding contended_def
    by (rule mx_reachable.Step [OF _ mx_step.Cas]) (simp add: lock_load_def lock_cas_def new_mutex_def)
qed

lemma contended_place: "mx_place contended 1 = Owner" "mx_place contended w = Suspended \<longleftrightarrow> w = 2"
  by (auto simp: contended_simps)

theorem mutex_refines_queues_witness:
  "mx_reachable contended \<and> (\<exists>v v'. rtranclp view_step new_view v \<and> shows_as contended v \<and> view_step v v'
     \<and> shows_as (lock_load 3 contended) v')"
  using mutex_refines_queues [OF contended_reachable mx_step.Lock, of 3] contended_reachable
  by (simp add: contended_simps)

theorem mutual_exclusion_witness: "is_locked contended \<and> \<not> owning (mx_place contended 2)"
  using mutual_exclusion [OF contended_reachable, of 1] contended_place(1) by auto

theorem unlock_hands_over_witness:
  "\<exists>m'. unlock_run 1 contended = Some m' \<and> mx_place m' = (mx_place contended)(1 := Outside, 2 := Owner)"
  using unlock_hands_over [OF contended_reachable contended_place(1)] by (auto simp: contended_place(2))

theorem taken_waiter_served_witness:
  "ahead 3 \<lparr>owner = Some 2, old = [3], new = [4]\<rparr> < ahead 3 \<lparr>owner = Some 1, old = [2, 3], new = [4]\<rparr>"
proof -
  have "view_step \<lparr>owner = Some 1, old = [2, 3], new = [4]\<rparr> \<lparr>owner = Some 2, old = [3], new = [4]\<rparr>"
    using view_step.Hand [of "\<lparr>owner = Some 1, old = [2, 3], new = [4]\<rparr>" 1 2 "[3]"] by simp
  from taken_waiter_served [OF this, of 3] show ?thesis by auto
qed

section \<open>\<open>async_mutex1\<close> and \<open>async_mutex2\<close>\<close>

text \<open>
  Both give the lock at once, or a promise. An operation returns the task that got the lock, if one did.
  \<open>am1_unlocker\<close> tells whether the coroutine of \<open>unlock_impl\<close> is suspended.
\<close>

record async_mutex1 =
  am1_unlocker :: bool
  am1_waiters :: "task list"
  am1_locked :: bool

definition am1_new :: async_mutex1 where
  "am1_new = \<lparr>am1_unlocker = False, am1_waiters = [], am1_locked = False\<rparr>"

definition am1_lock :: "task \<Rightarrow> async_mutex1 \<Rightarrow> task option \<times> async_mutex1" where
  "am1_lock p m =
     (if \<not> am1_locked m then (Some p, m\<lparr>am1_locked := True\<rparr>)
      else (None, m\<lparr>am1_waiters := am1_waiters m @ [p]\<rparr>))"

text \<open>The coroutine serves one waiter each time it runs and ends when none is left.\<close>

definition am1_unlock_impl :: "async_mutex1 \<Rightarrow> task option \<times> async_mutex1" where
  "am1_unlock_impl m =
     (case am1_waiters m of
        [] \<Rightarrow> (None, m)
      | w # ws \<Rightarrow>
          (Some w, if ws = [] then m\<lparr>am1_waiters := [], am1_unlocker := False, am1_locked := False\<rparr>
                   else m\<lparr>am1_waiters := ws, am1_unlocker := True\<rparr>))"

definition am1_unlock :: "async_mutex1 \<Rightarrow> task option \<times> async_mutex1" where
  "am1_unlock m = (if am1_waiters m \<noteq> [] then am1_unlock_impl m else (None, m))"

text \<open>An uncontended lock is never released.\<close>

lemma am1_never_released: "am1_locked (snd (am1_unlock (snd (am1_lock p am1_new))))"
  by (simp add: am1_unlock_def am1_lock_def am1_new_def)

text \<open>The last waiter gets the lock and the mutex is open: a third task gets it too.\<close>

lemma am1_two_owners:
  assumes "am1_waiters m = [w]"
  shows "fst (am1_unlock m) = Some w \<and> fst (am1_lock p (snd (am1_unlock m))) = Some p"
  using assms by (simp add: am1_unlock_def am1_unlock_impl_def am1_lock_def)

record async_mutex2 =
  am2_count :: nat
  am2_waiters :: "task list"
  am2_locked :: bool

definition am2_new :: async_mutex2 where
  "am2_new = \<lparr>am2_count = 0, am2_waiters = [], am2_locked = False\<rparr>"

definition am2_lock :: "task \<Rightarrow> async_mutex2 \<Rightarrow> task option \<times> async_mutex2" where
  "am2_lock p m =
     (if \<not> am2_locked m then (Some p, m\<lparr>am2_locked := True\<rparr>)
      else (None, m\<lparr>am2_waiters := am2_waiters m @ [p]\<rparr>))"

text \<open>Three times of four the oldest waiter is served, otherwise the newest.\<close>

definition am2_unlock :: "async_mutex2 \<Rightarrow> task option \<times> async_mutex2" where
  "am2_unlock m =
     (if am2_waiters m \<noteq> [] then
        if am2_count m mod 4 \<noteq> 0
        then (Some (hd (am2_waiters m)), m\<lparr>am2_waiters := tl (am2_waiters m), am2_count := am2_count m + 1\<rparr>)
        else (Some (last (am2_waiters m)), m\<lparr>am2_waiters := butlast (am2_waiters m), am2_count := am2_count m + 1\<rparr>)
      else (None, m\<lparr>am2_locked := False, am2_count := am2_count m + 1\<rparr>))"

text \<open>\<open>async_mutex2\<close> hands the lock to exactly one waiter, or opens when there is none.\<close>

lemma am2_unlock_serves_one:
  "fst (am2_unlock m) = None \<longleftrightarrow> am2_waiters m = []"
  "am2_locked m \<Longrightarrow> am2_locked (snd (am2_unlock m)) \<longleftrightarrow> am2_waiters m \<noteq> []"
  "fst (am2_unlock m) = Some w \<Longrightarrow> mset (am2_waiters (snd (am2_unlock m))) + {#w#} = mset (am2_waiters m)"
proof -
  show "mset (am2_waiters (snd (am2_unlock m))) + {#w#} = mset (am2_waiters m)" if "fst (am2_unlock m) = Some w"
  proof (cases "am2_count m mod 4 = 0")
    case True
    with that show ?thesis by (cases "am2_waiters m" rule: rev_cases) (auto simp: am2_unlock_def)
  next
    case False
    with that show ?thesis by (cases "am2_waiters m") (auto simp: am2_unlock_def split: if_splits)
  qed
qed (auto simp: am2_unlock_def)

end
