(* ===== verification/Client.thy ===== *)
theory Client
  imports Shard_State "HOL-Library.Multiset"
begin

text \<open>
  The client of \<open>include/client.h\<close> and \<open>src/client.cpp\<close>: its token, the answer of the gateway endpoint, the first
  identification of its shards in chunks of \<open>max_concurrency\<close>, and the stack of the shards that want
  to identify again. Times are milliseconds. The guilds of a shard are those of \<open>shard::will_have_guild\<close>.
\<close>

section \<open>Tokens and the gateway\<close>

datatype token_type = BOT | BEARER

record client =
  cl_token :: string
  cl_auth_token :: string
  cl_gateway :: string
  cl_num_shards :: u64
  cl_max_concurrency :: int

definition new_client :: client where
  "new_client = \<lparr>cl_token = '''', cl_auth_token = '''', cl_gateway = '''', cl_num_shards = 0, cl_max_concurrency = 0\<rparr>"

definition set_token :: "string \<Rightarrow> token_type \<Rightarrow> client \<Rightarrow> client" where
  "set_token token type c =
     (case type of
        BOT \<Rightarrow> c\<lparr>cl_token := token, cl_auth_token := ''Bot '' @ token\<rparr>
      | BEARER \<Rightarrow> c\<lparr>cl_token := token, cl_auth_token := ''Bearer '' @ token\<rparr>)"

text \<open>An assertion that fails has no result.\<close>

definition set_shards :: "u64 \<Rightarrow> client \<Rightarrow> client option" where
  "set_shards s c = (if 0 < s then Some (c\<lparr>cl_num_shards := s\<rparr>) else None)"

text \<open>
  The gateway's answer: its status and body. The number of shards is read only when the
  user has set none.
\<close>

definition get_gateway :: "'j json_api \<Rightarrow> int \<Rightarrow> 'j \<Rightarrow> client \<Rightarrow> client res" where
  "get_gateway J status yay c =
     (if status = 401 then Inl Throws
      else rbind (rbind (at_mut J yay ''url'') (as_str J)) (\<lambda>url.
        let c = c\<lparr>cl_gateway := url @ ''/?v=8&encoding=json''\<rparr> in
        rbind (if cl_num_shards c = 0
               then rmap (\<lambda>n. c\<lparr>cl_num_shards := word_of_int n\<rparr>) (rbind (at_mut J yay ''shards'') (as_int J))
               else Inr c) (\<lambda>c.
        rmap (\<lambda>n. c\<lparr>cl_max_concurrency := n\<rparr>)
          (rbind (at_mut J yay ''session_start_limit'') (\<lambda>l. rbind (at_mut J l ''max_concurrency'') (as_int J))))))"

text \<open>\<open>do_gateway_stuff\<close> makes one shard for each number.\<close>

definition make_shards :: "client \<Rightarrow> nat list" where
  "make_shards c = [0 ..< unat (cl_num_shards c)]"

section \<open>The guilds of a shard\<close>

text \<open>With no shards the remainder is not defined; there is then no shard to ask.\<close>

definition will_have_guild :: "client \<Rightarrow> nat \<Rightarrow> snowflake \<Rightarrow> bool" where
  "will_have_guild c n g \<longleftrightarrow> drop_bit 22 (sf_val g) mod cl_num_shards c = word_of_nat n"

section \<open>The first identification\<close>

text \<open>
  What the network does: when a shard's gateway says hello, and when the identification a shard
  starts at a time is sent; \<open>None\<close> is never.
\<close>

record gateway_times =
  hello_at :: "nat \<Rightarrow> nat option"
  sent_at :: "nat \<Rightarrow> nat \<Rightarrow> nat option"

text \<open>
  The inner loops of \<open>do_identifies\<close>: each shard of a chunk starts to identify when it has its hello, then
  the tasks are awaited. The result is what was started, with its time, and the time at the end.
\<close>

fun start_chunk :: "gateway_times \<Rightarrow> nat \<Rightarrow> nat list \<Rightarrow> (nat \<times> nat) list \<times> nat option" where
  "start_chunk e now [] = ([], Some now)"
| "start_chunk e now (s # ss) =
     (case hello_at e s of
        None \<Rightarrow> ([], None)
      | Some h \<Rightarrow> (case start_chunk e (max now h) ss of (log, r) \<Rightarrow> ((s, max now h) # log, r)))"

fun await_tasks :: "gateway_times \<Rightarrow> nat \<Rightarrow> (nat \<times> nat) list \<Rightarrow> nat option" where
  "await_tasks e now [] = Some now"
| "await_tasks e now ((s, t) # ts) = (case sent_at e s t of None \<Rightarrow> None | Some u \<Rightarrow> await_tasks e (max now u) ts)"

text \<open>The outer loop; after each chunk, the last one too, it sleeps for 5 seconds. \<open>chunk\<close> needs a positive size.\<close>

function identify_chunks :: "gateway_times \<Rightarrow> nat \<Rightarrow> nat \<Rightarrow> nat list \<Rightarrow> (nat \<times> nat) list \<times> nat option" where
  "identify_chunks e n now shards =
     (if shards = [] \<or> n = 0 then ([], Some now)
      else case start_chunk e now (take n shards) of
          (log, None) \<Rightarrow> (log, None)
        | (log, Some t) \<Rightarrow> (case await_tasks e t log of
            None \<Rightarrow> (log, None)
          | Some u \<Rightarrow> (case identify_chunks e n (u + 5000) (drop n shards) of (log', r) \<Rightarrow> (log @ log', r))))"
  by pat_completeness auto
termination by (relation "measure (\<lambda>(e, n, now, shards). length shards)") auto

declare identify_chunks.simps [simp del]

definition do_identifies :: "gateway_times \<Rightarrow> nat \<Rightarrow> client \<Rightarrow> ((nat \<times> nat) list \<times> nat option) option" where
  "do_identifies e now c =
     (if cl_max_concurrency c \<le> 0 then None
      else Some (identify_chunks e (nat (cl_max_concurrency c)) now (make_shards c)))"

section \<open>Identifying again\<close>

text \<open>
  \<open>iq_timers\<close> are the timers that run, with the shard each will let identify and its expiry. \<open>iq_done\<close> records the
  identifications timers have started, with their times, \<open>iq_identifying\<close> the shard whose
  identification was started and not reported by \<open>notify_identified\<close>.
\<close>

record identify_queue =
  iq_last_identify :: int
  iq_stack :: "nat list"
  iq_no_one :: bool
  iq_timers :: "(nat \<times> int) list"
  iq_identifying :: "nat option"
  iq_done :: "(nat \<times> int) list"

definition new_identify_queue :: "int \<Rightarrow> identify_queue" where
  "new_identify_queue now = \<lparr>iq_last_identify = now - 6000, iq_stack = [], iq_no_one = True, iq_timers = [],
     iq_identifying = None, iq_done = []\<rparr>"

definition queue_to_identify :: "nat \<Rightarrow> identify_queue \<Rightarrow> identify_queue" where
  "queue_to_identify s q =
     (if iq_no_one q
      then q\<lparr>iq_no_one := False, iq_timers := iq_timers q @ [(s, iq_last_identify q + 5000)]\<rparr>
      else q\<lparr>iq_stack := iq_stack q @ [s]\<rparr>)"

definition notify_identified :: "int \<Rightarrow> identify_queue \<Rightarrow> identify_queue" where
  "notify_identified now q =
     (let q = q\<lparr>iq_last_identify := now, iq_identifying := None\<rparr> in
      if iq_stack q \<noteq> []
      then q\<lparr>iq_stack := butlast (iq_stack q), iq_timers := iq_timers q @ [(last (iq_stack q), now + 5000)]\<rparr>
      else q\<lparr>iq_no_one := True\<rparr>)"

definition identify_timer :: "nat \<Rightarrow> int \<Rightarrow> int \<Rightarrow> identify_queue \<Rightarrow> identify_queue" where
  "identify_timer s t now q =
     q\<lparr>iq_timers := remove1 (s, t) (iq_timers q), iq_identifying := Some s, iq_done := iq_done q @ [(s, now)]\<rparr>"

text \<open>
  The events of the queue, with the clock and the shards that asked so far. \<open>notified\<close> tells
  whether anyone calls \<open>notify_identified\<close>: in the repository the call in \<open>send_identity\<close> is commented out.
\<close>

inductive iq_run :: "bool \<Rightarrow> nat list \<Rightarrow> int \<Rightarrow> identify_queue \<Rightarrow> bool" for notified where
  New: "iq_run notified [] now (new_identify_queue now)"
| Tick: "iq_run notified ss now q \<Longrightarrow> now \<le> now' \<Longrightarrow> iq_run notified ss now' q"
| Queue: "iq_run notified ss now q \<Longrightarrow> iq_run notified (ss @ [s]) now (queue_to_identify s q)"
| Timer: "iq_run notified ss now q \<Longrightarrow> (s, t) \<in> set (iq_timers q) \<Longrightarrow> t \<le> now
    \<Longrightarrow> iq_run notified ss now (identify_timer s t now q)"
| Notify: "iq_run notified ss now q \<Longrightarrow> notified \<Longrightarrow> iq_identifying q = Some s
    \<Longrightarrow> iq_run notified ss now (notify_identified now q)"

section \<open>What the client promises\<close>

text \<open>
  One chunk: the shards start in order, from the time it begins on, and none after its end; all of them
  when it ends at all.
\<close>

lemma start_chunk_times:
  assumes "start_chunk e now ss = (log, r)"
  shows "sorted (map snd log)" "(s, t) \<in> set log \<Longrightarrow> now \<le> t"
    "r = Some u \<Longrightarrow> map fst log = ss \<and> now \<le> u \<and> (\<forall>(s, t) \<in> set log. t \<le> u)"
    "\<exists>ss'. ss = map fst log @ ss'"
proof -
  have "sorted (map snd log) \<and> (\<forall>(s, t) \<in> set log. now \<le> t)
      \<and> (\<forall>u. r = Some u \<longrightarrow> map fst log = ss \<and> now \<le> u \<and> (\<forall>(s, t) \<in> set log. t \<le> u)) \<and> (\<exists>ss'. ss = map fst log @ ss')"
    using assms
  proof (induction e now ss arbitrary: log r rule: start_chunk.induct)
    case (2 e now s ss)
    show ?case
    proof (cases "hello_at e s")
      case (Some h)
      obtain log' r' where rest: "start_chunk e (max now h) ss = (log', r')" by force
      from "2.IH" [OF Some rest] "2.prems" Some rest show ?thesis by fastforce
    qed (use "2.prems" in auto)
  qed auto
  then show "sorted (map snd log)" "(s, t) \<in> set log \<Longrightarrow> now \<le> t"
    "r = Some u \<Longrightarrow> map fst log = ss \<and> now \<le> u \<and> (\<forall>(s, t) \<in> set log. t \<le> u)" "\<exists>ss'. ss = map fst log @ ss'"
    by auto
qed

lemma await_tasks_later: "await_tasks e now ts = Some u \<Longrightarrow> now \<le> u"
  by (induction e now ts rule: await_tasks.induct) (fastforce split: option.splits)+

lemma identify_chunks_step:
  assumes "start_chunk e now (take n ss) = (log, r)" "\<not> (ss = [] \<or> n = 0)"
  shows "identify_chunks e n now ss = (case Option.bind r (\<lambda>t. await_tasks e t log) of
      None \<Rightarrow> (log, None)
    | Some u \<Rightarrow> (log @ fst (identify_chunks e n (u + 5000) (drop n ss)), snd (identify_chunks e n (u + 5000) (drop n ss))))"
  using assms by (subst identify_chunks.simps) (auto split: option.splits prod.splits)

lemma identify_chunks_none: "ss = [] \<or> n = 0 \<Longrightarrow> identify_chunks e n now ss = ([], Some now)"
  by (subst identify_chunks.simps) simp

lemma identify_chunks_later:
  "(s, t) \<in> set (fst (identify_chunks e n now ss)) \<Longrightarrow> now \<le> t"
proof (induction e n now ss arbitrary: s t rule: identify_chunks.induct)
  case (1 e n now ss)
  obtain log r where c: "start_chunk e now (take n ss) = (log, r)" by force
  show ?case
  proof (cases "ss = [] \<or> n = 0")
    case True
    with 1(2) show ?thesis by (simp add: identify_chunks_none)
  next
    case False
    note step = identify_chunks_step [OF c False]
    show ?thesis
    proof (cases "Option.bind r (\<lambda>t. await_tasks e t log)")
      case None
      with step 1(2) start_chunk_times(2) [OF c] show ?thesis by simp
    next
      case (Some v)
      then obtain u where u: "r = Some u" "await_tasks e u log = Some v" by (auto simp: bind_eq_Some_conv)
      have "now \<le> v" using start_chunk_times(3) [OF c u(1)] await_tasks_later [OF u(2)] by simp
      moreover have "(s, t) \<in> set log \<or> (s, t) \<in> set (fst (identify_chunks e n (v + 5000) (drop n ss)))"
        using 1(2) step Some by auto
      ultimately show ?thesis
        using 1(1) [OF False c [symmetric] u] start_chunk_times(2) [OF c] by fastforce
    qed
  qed
qed

lemma identify_chunks_prefix: "\<exists>ss'. ss = map fst (fst (identify_chunks e n now ss)) @ ss'"
proof (induction e n now ss rule: identify_chunks.induct)
  case (1 e n now ss)
  obtain log r where c: "start_chunk e now (take n ss) = (log, r)" by force
  obtain xs where xs: "take n ss = map fst log @ xs" using start_chunk_times(4) [OF c] by blast
  show ?case
  proof (cases "ss = [] \<or> n = 0")
    case False
    note step = identify_chunks_step [OF c False]
    show ?thesis
    proof (cases "Option.bind r (\<lambda>t. await_tasks e t log)")
      case None
      then have "ss = map fst (fst (identify_chunks e n now ss)) @ xs @ drop n ss"
        using step xs append_take_drop_id [of n ss] by simp
      then show ?thesis by blast
    next
      case (Some v)
      then obtain u where u: "r = Some u" "await_tasks e u log = Some v" by (auto simp: bind_eq_Some_conv)
      obtain zs where "drop n ss = map fst (fst (identify_chunks e n (v + 5000) (drop n ss))) @ zs"
        using 1 [OF False c [symmetric] u] by blast
      moreover have "map fst log = take n ss" using start_chunk_times(3) [OF c u(1)] by simp
      ultimately have "ss = map fst (fst (identify_chunks e n now ss)) @ zs"
        using step Some append_take_drop_id [of n ss] by simp
      then show ?thesis by blast
    qed
  qed (simp add: identify_chunks_none)
qed

lemma identify_chunks_spaced:
  "fst (identify_chunks e n now ss) = log \<Longrightarrow> i + n < length log \<Longrightarrow> 0 < n \<Longrightarrow> snd (log ! i) + 5000 \<le> snd (log ! (i + n))"
proof (induction e n now ss arbitrary: i log rule: identify_chunks.induct)
  case (1 e n now ss)
  obtain xs r where c: "start_chunk e now (take n ss) = (xs, r)" by force
  have short: "length xs \<le> n"
    using start_chunk_times(4) [OF c] by (metis length_append length_map length_take le_add1 min.cobounded2 order_trans)
  show ?case
  proof (cases "ss = [] \<or> n = 0")
    case False
    note step = identify_chunks_step [OF c False]
    show ?thesis
    proof (cases "Option.bind r (\<lambda>t. await_tasks e t xs)")
      case None
      with step 1(2,3) short show ?thesis by simp
    next
      case (Some v)
      then obtain u where u: "r = Some u" "await_tasks e u xs = Some v" by (auto simp: bind_eq_Some_conv)
      let ?rest = "fst (identify_chunks e n (v + 5000) (drop n ss))"
      have log: "log = xs @ ?rest" using step 1(2) Some by simp
      show ?thesis
      proof (cases "i < length xs")
        case True
        have full: "length xs = n"
        proof (rule ccontr)
          assume "length xs \<noteq> n"
          moreover have "length xs = length (take n ss)"
            using start_chunk_times(3) [OF c u(1)] by (metis length_map)
          ultimately have "drop n ss = []" by simp
          then have "?rest = []" by (simp add: identify_chunks_none)
          with log 1(3) short show False by simp
        qed
        have "log ! i = xs ! i" "log ! (i + n) = ?rest ! i" using log full True by (simp_all add: nth_append)
        moreover have "i < length ?rest" using log full 1(3) by simp
        then have "?rest ! i \<in> set ?rest" by simp
        then have "v + 5000 \<le> snd (?rest ! i)" using identify_chunks_later by (metis prod.collapse)
        moreover have "snd (xs ! i) \<le> u"
          using start_chunk_times(3) [OF c u(1)] nth_mem [OF True] by (auto simp: case_prod_beta)
        ultimately show ?thesis using await_tasks_later [OF u(2)] by simp
      next
        case False
        with 1(1) [OF \<open>\<not> (ss = [] \<or> n = 0)\<close> c [symmetric] u refl, of "i - length xs"] 1(3,4) log
        show ?thesis by (auto simp: nth_append)
      qed
    qed
  qed (use 1 in \<open>simp add: identify_chunks_none\<close>)
qed

lemma start_chunk_total: "(\<And>s. s \<in> set ss \<Longrightarrow> hello_at e s \<noteq> None) \<Longrightarrow> snd (start_chunk e now ss) \<noteq> None"
  by (induction e now ss rule: start_chunk.induct) (fastforce split: option.splits prod.splits)+

lemma await_tasks_total: "(\<And>s t. sent_at e s t \<noteq> None) \<Longrightarrow> await_tasks e now ts \<noteq> None"
  by (induction e now ts rule: await_tasks.induct) (auto split: option.splits)

lemma identify_chunks_total:
  "0 < n \<Longrightarrow> (\<And>s. s \<in> set ss \<Longrightarrow> hello_at e s \<noteq> None) \<Longrightarrow> (\<And>s t. sent_at e s t \<noteq> None)
   \<Longrightarrow> map fst (fst (identify_chunks e n now ss)) = ss \<and> snd (identify_chunks e n now ss) \<noteq> None"
proof (induction e n now ss rule: identify_chunks.induct)
  case (1 e n now ss)
  obtain xs r where c: "start_chunk e now (take n ss) = (xs, r)" by force
  show ?case
  proof (cases "ss = []")
    case False
    then have ne: "\<not> (ss = [] \<or> n = 0)" using 1(2) by simp
    obtain u where u: "r = Some u" using start_chunk_total [of "take n ss" e now] 1(3) c by (auto dest: in_set_takeD)
    obtain v where v: "await_tasks e u xs = Some v" using await_tasks_total [of e u xs] 1(4) by auto
    have "map fst xs = take n ss" using start_chunk_times(3) [OF c u] by simp
    moreover have "map fst (fst (identify_chunks e n (v + 5000) (drop n ss))) = drop n ss
        \<and> snd (identify_chunks e n (v + 5000) (drop n ss)) \<noteq> None"
      by (rule 1(1) [OF ne c [symmetric] u v 1(2)]) (use 1(3,4) in \<open>auto dest: in_set_dropD\<close>)
    ultimately show ?thesis using identify_chunks_step [OF c ne] u v by simp
  qed (simp add: identify_chunks_none)
qed

text \<open>C28: Of the shards that identify first, each does at most once and in the order of their numbers, and between
  one and the one \<open>max_concurrency\<close> after it at least 5 seconds pass. When every shard gets its hello and
  every identification is sent, all shards identify and the coroutine ends.\<close>
theorem identify_rate:
  assumes "do_identifies e now c = Some (log, r)"
  shows "(\<exists>ss. make_shards c = map fst log @ ss)
    \<and> (i + nat (cl_max_concurrency c) < length log \<longrightarrow>
        snd (log ! i) + 5000 \<le> snd (log ! (i + nat (cl_max_concurrency c))))
    \<and> ((\<forall>s. hello_at e s \<noteq> None) \<and> (\<forall>s t. sent_at e s t \<noteq> None) \<longrightarrow> map fst log = make_shards c \<and> r \<noteq> None)"
proof -
  have pos: "0 < nat (cl_max_concurrency c)"
    and eq: "identify_chunks e (nat (cl_max_concurrency c)) now (make_shards c) = (log, r)"
    using assms by (auto simp: do_identifies_def split: if_splits)
  show ?thesis
    using identify_chunks_prefix [of "make_shards c" e "nat (cl_max_concurrency c)" now]
      identify_chunks_spaced [of e "nat (cl_max_concurrency c)" now "make_shards c" log i]
      identify_chunks_total [of "nat (cl_max_concurrency c)" "make_shards c" e now] pos eq
    by (intro conjI impI) auto
qed

section \<open>The stack of shards that identify again\<close>

definition iq_inv :: "int \<Rightarrow> identify_queue \<Rightarrow> bool" where
  "iq_inv now q \<longleftrightarrow>
     (if iq_no_one q then iq_timers q = [] \<and> iq_stack q = [] \<and> iq_identifying q = None
      else (\<exists>s t. iq_timers q = [(s, t)] \<and> iq_identifying q = None) \<or> (iq_timers q = [] \<and> iq_identifying q \<noteq> None))
     \<and> successively (\<lambda>a b. a + 5000 \<le> b) (map snd (iq_done q))
     \<and> (iq_done q \<noteq> [] \<longrightarrow> snd (last (iq_done q)) \<le> now
          \<and> (iq_no_one q \<longrightarrow> snd (last (iq_done q)) \<le> iq_last_identify q)
          \<and> (\<forall>(s, t) \<in> set (iq_timers q). snd (last (iq_done q)) + 5000 \<le> t))"

definition iq_shards :: "identify_queue \<Rightarrow> nat multiset" where
  "iq_shards q = mset (iq_stack q) + mset (map fst (iq_timers q)) + mset (map fst (iq_done q))"

lemma iq_run_inv: "iq_run notified ss now q \<Longrightarrow> iq_inv now q \<and> iq_shards q = mset ss"
proof (induction rule: iq_run.induct)
  case (Timer ss now q s t)
  then have "iq_timers q = [(s, t)]" by (auto simp: iq_inv_def split: if_splits)
  with Timer show ?case
    by (cases "iq_done q = []")
      (auto simp: iq_inv_def iq_shards_def identify_timer_def successively_append_iff last_map split: if_splits)
next
  case (Notify ss now q s)
  then have "iq_timers q = []" "\<not> iq_no_one q" by (auto simp: iq_inv_def split: if_splits)
  with Notify show ?case
    by (cases "iq_stack q" rule: rev_cases) (auto simp: iq_inv_def iq_shards_def notify_identified_def Let_def)
qed (auto simp: iq_inv_def iq_shards_def new_identify_queue_def queue_to_identify_def split: if_splits)

text \<open>No shard that asks to identify again is lost: each waits on the stack, has the one timer, or has identified.
  Two identifications are 5 seconds apart, and when nobody is identifying all that asked have.\<close>
theorem reidentify_in_turn:
  assumes "iq_run notified ss now q"
  shows "mset ss = mset (iq_stack q) + mset (map fst (iq_timers q)) + mset (map fst (iq_done q))
    \<and> successively (\<lambda>a b. a + 5000 \<le> b) (map snd (iq_done q)) \<and> length (iq_timers q) \<le> 1
    \<and> (iq_no_one q \<longrightarrow> mset (map fst (iq_done q)) = mset ss)"
  using iq_run_inv [OF assms] by (auto simp: iq_inv_def iq_shards_def split: if_splits)

lemma iq_run_unreported:
  "iq_run notified ss now q \<Longrightarrow> \<not> notified \<Longrightarrow>
   length (iq_done q) + length (iq_timers q) = (if ss = [] then 0 else 1) \<and> (iq_no_one q \<longleftrightarrow> ss = [])"
proof (induction rule: iq_run.induct)
  case (Timer ss now q s t)
  then show ?case by (cases "iq_timers q") (auto simp: identify_timer_def length_remove1 split: if_splits)
qed (auto simp: new_identify_queue_def queue_to_identify_def)

text \<open>Since nothing in the library reports an identification, at most one shard ever identifies again: all others
  that ask stay on the stack, in every run.\<close>
theorem only_one_reidentifies:
  assumes "iq_run False ss now q"
  shows "length (iq_done q) + length (iq_timers q) \<le> 1 \<and> (ss \<noteq> [] \<longrightarrow> size (mset (iq_stack q)) = length ss - 1)"
proof -
  note one = iq_run_unreported [OF assms, simplified]
  have "size (iq_shards q) = length ss" using iq_run_inv [OF assms] by simp
  with one show ?thesis by (auto simp: iq_shards_def split: if_splits)
qed

section \<open>Every guild has its shard\<close>

text \<open>Of the shards a client makes, exactly one will have a guild.\<close>
theorem one_shard_per_guild:
  assumes "0 < cl_num_shards c"
  shows "\<exists>!n. n \<in> set (make_shards c) \<and> will_have_guild c n g"
proof
  let ?n = "unat (drop_bit 22 (sf_val g) mod cl_num_shards c)"
  have less: "?n < unat (cl_num_shards c)"
    using assms by (simp add: unat_mod word_less_nat_alt unat_gt_0)
  then show "?n \<in> set (make_shards c) \<and> will_have_guild c ?n g"
    by (simp add: make_shards_def will_have_guild_def)
  fix m assume m: "m \<in> set (make_shards c) \<and> will_have_guild c m g"
  then have "m < unat (cl_num_shards c)" by (simp add: make_shards_def)
  then have "unat (word_of_nat m :: u64) = m"
    using unsigned_less [of "cl_num_shards c", where ?'a = nat] by (simp add: unsigned_of_nat take_bit_nat_eq_self)
  with m show "m = ?n" by (simp add: will_have_guild_def)
qed

section \<open>A client with three shards\<close>

definition three_shards :: client where
  "three_shards = new_client\<lparr>cl_num_shards := 3, cl_max_concurrency := 1\<rparr>"

text \<open>Each hello comes after a second, and each identification takes one.\<close>

definition quick_gateway :: gateway_times where
  "quick_gateway = \<lparr>hello_at = (\<lambda>_. Some 1000), sent_at = (\<lambda>_ t. Some (t + 1000))\<rparr>"

definition three_identified :: "(nat \<times> nat) list" where
  "three_identified = [(0, 1000), (1, 7000), (2, 13000)]"

lemma three_make: "make_shards three_shards = [0, 1, 2]"
  by (simp add: make_shards_def three_shards_def upt_conv_Cons)

lemma three_identify: "do_identifies quick_gateway 0 three_shards = Some (three_identified, Some 19000)"
  by (simp add: do_identifies_def three_make identify_chunks.simps)
    (simp add: three_shards_def new_client_def quick_gateway_def three_identified_def identify_chunks.simps)

theorem identify_rate_witness:
  "snd (three_identified ! 1) + 5000 \<le> snd (three_identified ! 2) \<and> map fst three_identified = make_shards three_shards"
  using identify_rate [OF three_identify, of 1]
  by (simp add: three_shards_def new_client_def quick_gateway_def three_identified_def numeral_2_eq_2)

text \<open>Shards 4 and 7 ask to identify again; the timer of 4 has run out.\<close>

definition two_ask :: identify_queue where
  "two_ask = identify_timer 4 5000 6000 (queue_to_identify 7 (queue_to_identify 4 (new_identify_queue 6000)))"

lemma two_ask_run: "iq_run notified [4, 7] 6000 two_ask"
  unfolding two_ask_def
proof (rule iq_run.Timer)
  show "iq_run notified [4, 7] 6000 (queue_to_identify 7 (queue_to_identify 4 (new_identify_queue 6000)))"
    using iq_run.Queue [OF iq_run.Queue [OF iq_run.New, where s = 4], where s = 7] by simp
qed (simp_all add: queue_to_identify_def new_identify_queue_def)

theorem reidentify_in_turn_witness:
  "mset [4, 7] = mset (iq_stack two_ask) + mset (map fst (iq_timers two_ask)) + mset (map fst (iq_done two_ask))"
  using reidentify_in_turn [OF two_ask_run] by blast

theorem only_one_reidentifies_witness: "size (mset (iq_stack two_ask)) = 1"
  using only_one_reidentifies [OF two_ask_run] by simp

theorem one_shard_per_guild_witness:
  "\<exists>!n. n \<in> set (make_shards three_shards) \<and> will_have_guild three_shards n (Snowflake 81384788765712384)"
  by (rule one_shard_per_guild) (simp add: three_shards_def)

end
