(* ===== verification/Requests.thy ===== *)
theory Requests
  imports Http_Connection Snowflake
begin

text \<open>
  The requests of \<open>include/requests.h\<close>: of each class its verb, whether its content is JSON, and its target; what
  \<open>request_base\<close> makes of the class and of the response. A class is a value \<open>Rq verb json target\<close>; the
  objects a target is made from are their ids, an emoji is its text in a reaction.
\<close>

text \<open>\<open>request_defs\<close>: the definitions of the classes, and of the requests made of them.\<close>

named_theorems request_defs

section \<open>Requests\<close>

datatype verb = Verb_delete | Verb_put | Verb_get | Verb_post | Verb_patch

datatype request_class = Rq (rc_verb: verb) (rc_json: bool) (rc_target: string)

text \<open>An id in a format string.\<close>

definition sf_text :: "snowflake \<Rightarrow> string" where "sf_text i = std_to_string (unat (sf_val i))"

section \<open>The classes\<close>

definition rq_get_guild :: "snowflake \<Rightarrow> request_class" where [request_defs]:
  "rq_get_guild i = Rq Verb_get False (''/guilds/'' @ sf_text i)"

definition rq_send_message :: "snowflake \<Rightarrow> request_class" where [request_defs]:
  "rq_send_message ch = Rq Verb_post True (''/channels/'' @ sf_text ch @ ''/messages'')"

definition rq_send_guild_message :: "snowflake \<Rightarrow> request_class" where [request_defs]:
  "rq_send_guild_message ch = Rq Verb_post True (''/channels/'' @ sf_text ch @ ''/messages'')"

definition rq_send_message_with_file :: "snowflake \<Rightarrow> request_class" where [request_defs]:
  "rq_send_message_with_file ch = Rq Verb_post True (''/channels/'' @ sf_text ch @ ''/messages'')"

definition rq_add_role :: "snowflake \<Rightarrow> snowflake \<Rightarrow> snowflake \<Rightarrow> request_class" where [request_defs]:
  "rq_add_role g m r = Rq Verb_put False
     (''/guilds/'' @ sf_text g @ ''/members/'' @ sf_text m @ ''/roles/'' @ sf_text r)"

definition rq_remove_role :: "snowflake \<Rightarrow> snowflake \<Rightarrow> snowflake \<Rightarrow> request_class" where [request_defs]:
  "rq_remove_role g m r = Rq Verb_delete False
     (''/guilds/'' @ sf_text g @ ''/members/'' @ sf_text m @ ''/roles/'' @ sf_text r)"

definition rq_create_role :: "snowflake \<Rightarrow> request_class" where [request_defs]:
  "rq_create_role g = Rq Verb_post True (''/guilds/'' @ sf_text g @ ''/roles'')"

definition rq_delete_role :: "snowflake \<Rightarrow> snowflake \<Rightarrow> request_class" where [request_defs]:
  "rq_delete_role g r = Rq Verb_delete False (''/guilds/'' @ sf_text g @ ''/roles/'' @ sf_text r)"

definition rq_modify_role :: "snowflake \<Rightarrow> snowflake \<Rightarrow> request_class" where [request_defs]:
  "rq_modify_role g r = Rq Verb_patch True (''/guilds/'' @ sf_text g @ ''/roles/'' @ sf_text r)"

definition rq_kick_member :: "snowflake \<Rightarrow> snowflake \<Rightarrow> request_class" where [request_defs]:
  "rq_kick_member g m = Rq Verb_delete False (''/guilds/'' @ sf_text g @ ''/members/'' @ sf_text m)"

definition rq_ban_member :: "snowflake \<Rightarrow> snowflake \<Rightarrow> request_class" where [request_defs]:
  "rq_ban_member g m = Rq Verb_put True (''/guilds/'' @ sf_text g @ ''/bans/'' @ sf_text m)"

definition rq_modify_member :: "snowflake \<Rightarrow> snowflake \<Rightarrow> request_class" where [request_defs]:
  "rq_modify_member g m = Rq Verb_patch True (''/guilds/'' @ sf_text g @ ''/members/'' @ sf_text m)"

definition rq_change_my_nick :: "snowflake \<Rightarrow> request_class" where [request_defs]:
  "rq_change_my_nick g = Rq Verb_patch True (''/guilds/'' @ sf_text g @ ''/members/@me/nick'')"

definition rq_delete_message :: "snowflake \<Rightarrow> snowflake \<Rightarrow> request_class" where [request_defs]:
  "rq_delete_message ch msg = Rq Verb_delete False (''/channels/'' @ sf_text ch @ ''/messages/'' @ sf_text msg)"

definition rq_edit_message :: "snowflake \<Rightarrow> snowflake \<Rightarrow> request_class" where [request_defs]:
  "rq_edit_message ch msg = Rq Verb_patch True (''/channels/'' @ sf_text ch @ ''/messages/'' @ sf_text msg)"

definition rq_get_messages :: "snowflake \<Rightarrow> request_class" where [request_defs]:
  "rq_get_messages ch = Rq Verb_get True (''/channels/'' @ sf_text ch @ ''/messages'')"

definition rq_get_guild_messages :: "snowflake \<Rightarrow> request_class" where [request_defs]:
  "rq_get_guild_messages ch = Rq Verb_get True (''/channels/'' @ sf_text ch @ ''/messages'')"

definition rq_unban_member :: "snowflake \<Rightarrow> snowflake \<Rightarrow> request_class" where [request_defs]:
  "rq_unban_member g user_id = Rq Verb_delete False (''/guilds/'' @ sf_text g @ ''/bans/'' @ sf_text user_id)"

definition rq_create_text_channel :: "snowflake \<Rightarrow> request_class" where [request_defs]:
  "rq_create_text_channel g = Rq Verb_post True (''/guilds/'' @ sf_text g @ ''/channels'')"

definition rq_create_voice_channel :: "snowflake \<Rightarrow> request_class" where [request_defs]:
  "rq_create_voice_channel g = Rq Verb_post True (''/guilds/'' @ sf_text g @ ''/channels'')"

definition rq_create_channel_catagory :: "snowflake \<Rightarrow> request_class" where [request_defs]:
  "rq_create_channel_catagory g = Rq Verb_post True (''/guilds/'' @ sf_text g @ ''/channels'')"

definition rq_delete_emoji :: "snowflake \<Rightarrow> snowflake \<Rightarrow> request_class" where [request_defs]:
  "rq_delete_emoji g e = Rq Verb_delete False (''/guilds/'' @ sf_text g @ ''/emojis/'' @ sf_text e)"

definition rq_modify_emoji :: "snowflake \<Rightarrow> snowflake \<Rightarrow> request_class" where [request_defs]:
  "rq_modify_emoji g e = Rq Verb_patch True (''/guilds/'' @ sf_text g @ ''/emojis/'' @ sf_text e)"

definition rq_delete_message_bulk :: "snowflake \<Rightarrow> request_class" where [request_defs]:
  "rq_delete_message_bulk ch = Rq Verb_post True (''/channels/'' @ sf_text ch @ ''/messages/bulk-delete'')"

definition rq_leave_guild :: "snowflake \<Rightarrow> request_class" where [request_defs]:
  "rq_leave_guild g = Rq Verb_delete False (''/@me/guilds/'' @ sf_text g)"

definition rq_get_voice_regions :: "request_class" where [request_defs]:
  "rq_get_voice_regions = Rq Verb_get False (''/voice/regions'')"

definition rq_current_guilds :: "request_class" where [request_defs]:
  "rq_current_guilds = Rq Verb_get False (''/users/@me/guilds'')"

definition rq_add_reaction :: "snowflake \<Rightarrow> snowflake \<Rightarrow> string \<Rightarrow> request_class" where [request_defs]:
  "rq_add_reaction ch msg emo = Rq Verb_put False
     (''/channels/'' @ sf_text ch @ ''/messages/'' @ sf_text msg @ ''/reactions/'' @ emo @ ''/@me'')"

definition rq_delete_own_reaction :: "snowflake \<Rightarrow> snowflake \<Rightarrow> string \<Rightarrow> request_class" where [request_defs]:
  "rq_delete_own_reaction ch msg emo = Rq Verb_delete False
     (''/channels/'' @ sf_text ch @ ''/messages/'' @ sf_text msg @ ''/reactions/'' @ emo @ ''/@me'')"

definition rq_delete_user_reaction :: "snowflake \<Rightarrow> snowflake \<Rightarrow> string \<Rightarrow> snowflake \<Rightarrow> request_class" where [request_defs]:
  "rq_delete_user_reaction ch msg emo member = Rq Verb_delete False
     (''/channels/'' @ sf_text ch @ ''/messages/'' @ sf_text msg @ ''/reactions/'' @ emo @ ''/'' @ sf_text member)"

definition rq_get_reactions :: "snowflake \<Rightarrow> snowflake \<Rightarrow> string \<Rightarrow> request_class" where [request_defs]:
  "rq_get_reactions ch msg emo = Rq Verb_get False
     (''/channels/'' @ sf_text ch @ ''/messages/'' @ sf_text msg @ ''/reactions/'' @ emo)"

definition rq_delete_all_reactions :: "snowflake \<Rightarrow> snowflake \<Rightarrow> request_class" where [request_defs]:
  "rq_delete_all_reactions ch msg = Rq Verb_delete False
     (''/channels/'' @ sf_text ch @ ''/messages/'' @ sf_text msg @ ''/reactions'')"

definition rq_delete_all_reactions_emoji :: "snowflake \<Rightarrow> snowflake \<Rightarrow> string \<Rightarrow> request_class" where [request_defs]:
  "rq_delete_all_reactions_emoji ch msg emo = Rq Verb_delete False
     (''/channels/'' @ sf_text ch @ ''/messages/'' @ sf_text msg @ ''/reactions/'' @ emo)"

definition rq_typing_start :: "snowflake \<Rightarrow> request_class" where [request_defs]:
  "rq_typing_start ch = Rq Verb_post False (''/channels/'' @ sf_text ch @ ''/typing'')"

definition rq_delete_channel_permission :: "snowflake \<Rightarrow> snowflake \<Rightarrow> request_class" where [request_defs]:
  "rq_delete_channel_permission ch overwrite = Rq Verb_delete False
     (''/channels/'' @ sf_text ch @ ''/permissions/'' @ sf_text overwrite)"

definition rq_modify_guild :: "snowflake \<Rightarrow> request_class" where [request_defs]:
  "rq_modify_guild g = Rq Verb_patch True (''/guild/'' @ sf_text g)"

definition rq_modify_channel_positions :: "snowflake \<Rightarrow> request_class" where [request_defs]:
  "rq_modify_channel_positions g = Rq Verb_patch True (''/guilds/'' @ sf_text g @ ''/channels'')"

definition rq_add_guild_member :: "snowflake \<Rightarrow> snowflake \<Rightarrow> request_class" where [request_defs]:
  "rq_add_guild_member g i = Rq Verb_put True (''/guilds/'' @ sf_text g @ ''/members/'' @ sf_text i)"

definition rq_delete_channel :: "snowflake \<Rightarrow> request_class" where [request_defs]:
  "rq_delete_channel ch = Rq Verb_delete False (''/channels/'' @ sf_text ch)"

definition rq_add_pinned_msg :: "snowflake \<Rightarrow> snowflake \<Rightarrow> request_class" where [request_defs]:
  "rq_add_pinned_msg ch msg = Rq Verb_put False (''/channels/'' @ sf_text ch @ ''/pins/'' @ sf_text msg)"

definition rq_remove_pinned_msg :: "snowflake \<Rightarrow> snowflake \<Rightarrow> request_class" where [request_defs]:
  "rq_remove_pinned_msg ch msg = Rq Verb_delete False (''/channels/'' @ sf_text ch @ ''/pins/'' @ sf_text msg)"

definition rq_list_guild_members :: "snowflake \<Rightarrow> request_class" where [request_defs]:
  "rq_list_guild_members g = Rq Verb_get True (''/guilds/'' @ sf_text g @ ''/members'')"

definition rq_edit_channel_permissions :: "snowflake \<Rightarrow> snowflake \<Rightarrow> request_class" where [request_defs]:
  "rq_edit_channel_permissions ch overwrite = Rq Verb_put True
     (''/channels/'' @ sf_text ch @ ''/permissions/'' @ sf_text overwrite)"

definition rq_create_dm :: "request_class" where [request_defs]:
  "rq_create_dm = Rq Verb_post True (''/users/@me/channels'')"

definition rq_create_group_dm :: "request_class" where [request_defs]:
  "rq_create_group_dm = Rq Verb_post True (''/users/@me/channels'')"

definition rq_create_channel_invite :: "snowflake \<Rightarrow> request_class" where [request_defs]:
  "rq_create_channel_invite ch = Rq Verb_post True (''/channels/'' @ sf_text ch @ ''/invites'')"

definition rq_get_invite :: "string \<Rightarrow> request_class" where [request_defs]:
  "rq_get_invite code = Rq Verb_get True (''/invites/'' @ code)"

definition rq_delete_invite :: "string \<Rightarrow> request_class" where [request_defs]:
  "rq_delete_invite code = Rq Verb_delete False (''/invites/'' @ code)"

definition rq_get_guild_integrations :: "snowflake \<Rightarrow> request_class" where [request_defs]:
  "rq_get_guild_integrations g = Rq Verb_get False (''/guilds/'' @ sf_text g @ ''/integrations'')"

definition rq_create_guild_integration :: "snowflake \<Rightarrow> request_class" where [request_defs]:
  "rq_create_guild_integration g = Rq Verb_post True (''/guilds/'' @ sf_text g @ ''/integrations'')"

definition rq_get_message :: "snowflake \<Rightarrow> snowflake \<Rightarrow> request_class" where [request_defs]:
  "rq_get_message ch msg = Rq Verb_get False (''/channels/'' @ sf_text ch @ ''/messages/'' @ sf_text msg)"

definition rq_get_webhook :: "snowflake \<Rightarrow> request_class" where [request_defs]:
  "rq_get_webhook i = Rq Verb_get False (''/webhooks/'' @ sf_text i)"

definition rq_get_webhook_with_token :: "snowflake \<Rightarrow> string \<Rightarrow> request_class" where [request_defs]:
  "rq_get_webhook_with_token i token = Rq Verb_get False (''/webhooks/'' @ sf_text i @ ''/'' @ token)"

definition rq_get_channel_webhooks :: "snowflake \<Rightarrow> request_class" where [request_defs]:
  "rq_get_channel_webhooks ch = Rq Verb_get False (''/channels/'' @ sf_text ch @ ''/webhooks'')"

definition rq_get_guild_webhooks :: "snowflake \<Rightarrow> request_class" where [request_defs]:
  "rq_get_guild_webhooks g = Rq Verb_get False (''/channels/'' @ sf_text g @ ''/webhooks'')"

definition rq_create_webhook :: "snowflake \<Rightarrow> request_class" where [request_defs]:
  "rq_create_webhook ch = Rq Verb_post True (''/channels/'' @ sf_text ch @ ''/webhooks'')"

definition rq_execute_webhook :: "snowflake \<Rightarrow> string \<Rightarrow> request_class" where [request_defs]:
  "rq_execute_webhook i token = Rq Verb_post True (''/webhooks/'' @ sf_text i @ ''/'' @ token)"

definition rq_modify_webhook :: "snowflake \<Rightarrow> request_class" where [request_defs]:
  "rq_modify_webhook i = Rq Verb_patch True (''/webhooks/'' @ sf_text i)"

definition rq_modify_webhook_with_token :: "snowflake \<Rightarrow> string \<Rightarrow> request_class" where [request_defs]:
  "rq_modify_webhook_with_token i token = Rq Verb_patch True (''/webhooks/'' @ sf_text i @ ''/'' @ token)"

definition rq_get_audit_log :: "snowflake \<Rightarrow> request_class" where [request_defs]:
  "rq_get_audit_log g = Rq Verb_get False (''/guilds/'' @ sf_text g @ ''/audit-logs'')"

definition rq_get_guild_channels :: "snowflake \<Rightarrow> request_class" where [request_defs]:
  "rq_get_guild_channels g = Rq Verb_get False (''/guilds/'' @ sf_text g @ ''/channels'')"

section \<open>What the classes share\<close>

text \<open>\<open>request_base::request\<close>: the verb and the target behind the version.\<close>

definition api_target :: "request_class \<Rightarrow> string" where [request_defs]:
  "api_target c = ''/api/v8'' @ rc_target c"

text \<open>The exceptions of \<open>handle_errors\<close>; a stored exception is rethrown.\<close>

datatype request_error = Bad_request | Unauthorized | Forbidden | Not_found | Method_not_allowed
  | Gateway_unavailable | Server_error | Stored

definition handle_errors :: "bool \<Rightarrow> int \<Rightarrow> request_error option" where
  "handle_errors stored status =
     (if stored then Some Stored
      else if status = 400 then Some Bad_request
      else if status = 401 then Some Unauthorized
      else if status = 403 then Some Forbidden
      else if status = 404 then Some Not_found
      else if status = 405 then Some Method_not_allowed
      else if status = 502 then Some Gateway_unavailable
      else if status \<ge> 500 then Some Server_error
      else None)"

text \<open>
  \<open>value\<close>: an exception, or what the reader makes of the body. \<open>parse\<close> and the reader are
  the JSON library's; \<open>None\<close> is one of its exceptions.
\<close>

definition request_value :: "(string \<Rightarrow> 'j option) \<Rightarrow> ('j \<Rightarrow> 'a option) \<Rightarrow> bool \<Rightarrow> int \<Rightarrow> string
    \<Rightarrow> request_error + 'a option" where
  "request_value parse reader stored status body =
     (case handle_errors stored status of
        Some e \<Rightarrow> Inl e
      | None \<Rightarrow> Inr (Option.bind (parse body) reader))"

text \<open>A request that carries an exception is ready at once and is never sent.\<close>

definition request_await_ready :: "bool \<Rightarrow> bool" where "request_await_ready stored = stored"

definition execute_and_ignore :: "bool \<Rightarrow> 'x discord_request \<Rightarrow> 'x http_connection \<Rightarrow> 'x http_connection" where
  "execute_and_ignore stored r c = (if stored then c else http_send r c)"

end
