(* ===== verification/Json_Out.thy ===== *)
theory Json_Out
  imports Messages
begin

text \<open>
  The \<open>to_json\<close> functions: embeds (\<open>include/embed.h\<close>) and allowed mentions (\<open>include/allowed_mentions.h\<close>), written with
  the JSON library's constructors, which are the fields of a record. The library's laws, that what
  is written is read back, are the locale \<open>json_writer\<close>.
\<close>

section \<open>The library\<close>

text \<open>\<open>mk_set W v k x\<close> is \<open>v[k] = x\<close>, for a null or an object; \<open>mk_arr\<close> makes an array.\<close>

record 'j json_maker =
  mk_set :: "'j \<Rightarrow> string \<Rightarrow> 'j \<Rightarrow> 'j"
  mk_str :: "string \<Rightarrow> 'j"
  mk_int :: "int \<Rightarrow> 'j"
  mk_bool :: "bool \<Rightarrow> 'j"
  mk_arr :: "'j list \<Rightarrow> 'j"

text \<open>The members of a null or an object.\<close>

definition members_of :: "'j json_api \<Rightarrow> 'j \<Rightarrow> string \<rightharpoonup> 'j" where
  "members_of J v = (case j_object J v of None \<Rightarrow> Map.empty | Some m \<Rightarrow> m)"

definition is_record :: "'j json_api \<Rightarrow> 'j \<Rightarrow> bool" where
  "is_record J v \<longleftrightarrow> j_is_null J v \<or> j_object J v \<noteq> None"

locale json_writer =
  fixes J :: "'j json_api" and W :: "'j json_maker"
  assumes object_set: "is_record J v \<Longrightarrow> j_object J (mk_set W v k x) = Some ((members_of J v)(k \<mapsto> x))"
    and str_made: "j_str J (mk_str W s) = Some s" "\<not> j_is_null J (mk_str W s)"
    and int_made: "j_int J (mk_int W n) = Some n" "\<not> j_is_null J (mk_int W n)"
    and bool_made: "j_bool J (mk_bool W b) = Some b" "\<not> j_is_null J (mk_bool W b)"
    and arr_made: "j_arr J (mk_arr W vs) = Some vs" "j_items J (mk_arr W vs) = vs" "\<not> j_is_null J (mk_arr W vs)"

text \<open>A member that is written when there is a value.\<close>

definition put :: "'j json_maker \<Rightarrow> string \<Rightarrow> 'j option \<Rightarrow> 'j \<Rightarrow> 'j" where
  "put W k x v = (case x of None \<Rightarrow> v | Some y \<Rightarrow> mk_set W v k y)"

section \<open>Embeds\<close>

definition embed_footer_to_json :: "'j json_api \<Rightarrow> 'j json_maker \<Rightarrow> embed_footer \<Rightarrow> 'j" where
  "embed_footer_to_json J W footer =
     (let out = mk_set W (j_null J) ''text'' (mk_str W (ef_text footer));
          out = put W ''icon_url'' (map_option (mk_str W) (ef_icon_url footer)) out
      in put W ''proxy_icon_url'' (map_option (mk_str W) (ef_proxy_icon_url footer)) out)"

definition embed_image_to_json :: "'j json_api \<Rightarrow> 'j json_maker \<Rightarrow> embed_image \<Rightarrow> 'j" where
  "embed_image_to_json J W img =
     (let json = put W ''url'' (map_option (mk_str W) (ei_url img)) (j_null J);
          json = put W ''proxy_url'' (map_option (mk_str W) (ei_proxy_url img)) json;
          json = put W ''height'' (map_option (mk_int W) (ei_height img)) json
      in put W ''width'' (map_option (mk_int W) (ei_width img)) json)"

definition embed_thumbnail_to_json :: "'j json_api \<Rightarrow> 'j json_maker \<Rightarrow> embed_thumbnail \<Rightarrow> 'j" where
  "embed_thumbnail_to_json J W thumbnail =
     (let json = put W ''url'' (map_option (mk_str W) (et_url thumbnail)) (j_null J);
          json = put W ''proxy_url'' (map_option (mk_str W) (et_proxy_url thumbnail)) json;
          json = put W ''height'' (map_option (mk_int W) (et_height thumbnail)) json
      in put W ''width'' (map_option (mk_int W) (et_width thumbnail)) json)"

definition embed_video_to_json :: "'j json_api \<Rightarrow> 'j json_maker \<Rightarrow> embed_video \<Rightarrow> 'j" where
  "embed_video_to_json J W video =
     (let json = put W ''url'' (map_option (mk_str W) (ev_url video)) (j_null J);
          json = put W ''height'' (map_option (mk_int W) (ev_height video)) json
      in put W ''width'' (map_option (mk_int W) (ev_width video)) json)"

definition embed_provider_to_json :: "'j json_api \<Rightarrow> 'j json_maker \<Rightarrow> embed_provider \<Rightarrow> 'j" where
  "embed_provider_to_json J W provider =
     (let json = put W ''name'' (map_option (mk_str W) (ep_name provider)) (j_null J)
      in put W ''url'' (map_option (mk_str W) (ep_url provider)) json)"

definition embed_author_to_json :: "'j json_api \<Rightarrow> 'j json_maker \<Rightarrow> embed_author \<Rightarrow> 'j" where
  "embed_author_to_json J W author =
     (let json = put W ''name'' (map_option (mk_str W) (ea_name author)) (j_null J);
          json = put W ''url'' (map_option (mk_str W) (ea_url author)) json;
          json = put W ''icon_url'' (map_option (mk_str W) (ea_icon_url author)) json
      in put W ''proxy_icon_url'' (map_option (mk_str W) (ea_proxy_icon_url author)) json)"

definition embed_field_to_json :: "'j json_api \<Rightarrow> 'j json_maker \<Rightarrow> embed_field \<Rightarrow> 'j" where
  "embed_field_to_json J W field =
     (let json = mk_set W (j_null J) ''name'' (mk_str W (fd_name field));
          json = mk_set W json ''value'' (mk_str W (fd_value field))
      in put W ''inline'' (map_option (mk_bool W) (fd_inline field)) json)"

definition embed_to_json :: "'j json_api \<Rightarrow> 'j json_maker \<Rightarrow> embed \<Rightarrow> 'j" where
  "embed_to_json J W e =
     (let json = put W ''title'' (map_option (mk_str W) (em_title e)) (j_null J);
          json = put W ''description'' (map_option (mk_str W) (em_description e)) json;
          json = put W ''url'' (map_option (mk_str W) (em_url e)) json;
          json = put W ''author'' (map_option (embed_author_to_json J W) (em_author e)) json;
          json = put W ''footer'' (map_option (embed_footer_to_json J W) (em_footer e)) json;
          json = put W ''provider'' (map_option (embed_provider_to_json J W) (em_provider e)) json;
          json = put W ''video'' (map_option (embed_video_to_json J W) (em_video e)) json;
          json = put W ''fields'' (map_option (\<lambda>fs. mk_arr W (map (embed_field_to_json J W) fs)) (em_fields e)) json;
          json = put W ''color'' (map_option (mk_int W) (em_color e)) json;
          json = put W ''image'' (map_option (embed_image_to_json J W) (em_image e)) json
      in put W ''thumbnail'' (map_option (embed_thumbnail_to_json J W) (em_thumbnail e)) json)"

section \<open>Ids, users, roles, overwrites and channels\<close>

text \<open>The text of an id always fits its buffer: there is always a text.\<close>

definition sf_json :: "'j json_api \<Rightarrow> 'j json_maker \<Rightarrow> snowflake \<Rightarrow> 'j" where
  "sf_json J W i = (case sf_to_json i of None \<Rightarrow> j_null J | Some t \<Rightarrow> mk_str W t)"

definition std_to_string_int :: "int \<Rightarrow> string" where
  "std_to_string_int n = (if n < 0 then ''-'' @ std_to_string (nat (- n)) else std_to_string (nat n))"

definition user_to_json :: "'j json_api \<Rightarrow> 'j json_maker \<Rightarrow> user \<Rightarrow> 'j" where
  "user_to_json J W other =
     (let json = mk_set W (j_null J) ''id'' (sf_json J W (u_id other));
          json = mk_set W json ''username'' (mk_str W (u_username other));
          json = mk_set W json ''bot'' (mk_bool W (u_bot other))
      in mk_set W json ''discriminator'' (mk_str W
           (case discriminator other of Some d \<Rightarrow> std_to_string_int d | None \<Rightarrow> ''0'')))"

definition role_to_json :: "'j json_api \<Rightarrow> 'j json_maker \<Rightarrow> guild_role \<Rightarrow> 'j" where
  "role_to_json J W r =
     (let json = mk_set W (j_null J) ''position'' (mk_int W (role_position r));
          json = mk_set W json ''permissions'' (mk_str W (permission_to_json (role_permissions r)));
          json = mk_set W json ''id'' (sf_json J W (role_id r));
          json = mk_set W json ''hoist'' (mk_bool W (role_hoist r));
          json = mk_set W json ''mentionable'' (mk_bool W (role_mentionable r));
          json = mk_set W json ''name'' (mk_str W (role_name r))
      in mk_set W json ''managed'' (mk_bool W (role_managed r)))"

definition int_of_overwrite_type :: "overwrite_type \<Rightarrow> int" where
  "int_of_overwrite_type t = (case t of Ow_member \<Rightarrow> 0 | Ow_role \<Rightarrow> 1)"

definition overwrite_to_json :: "'j json_api \<Rightarrow> 'j json_maker \<Rightarrow> permission_overwrite \<Rightarrow> 'j" where
  "overwrite_to_json J W data =
     (let json = mk_set W (j_null J) ''id'' (sf_json J W (ow_id data));
          json = mk_set W json ''type'' (mk_int W (int_of_overwrite_type (ow_type data)));
          json = mk_set W json ''allow'' (mk_str W (permission_to_json (ow_allow data)))
      in mk_set W json ''deny'' (mk_str W (permission_to_json (ow_deny data))))"

definition partial_channel_to_json :: "'j json_api \<Rightarrow> 'j json_maker \<Rightarrow> 'a partial_channel_scheme \<Rightarrow> 'j" where
  "partial_channel_to_json J W ch =
     mk_set W (mk_set W (j_null J) ''id'' (sf_json J W (pc_id ch))) ''name'' (mk_str W (pc_name ch))"

section \<open>Allowed mentions\<close>

text \<open>\<open>allowed_mentions1\<close>, and \<open>allowed_mentions2\<close>, whose roles and users are all, none, or a list.\<close>

record allowed_mentions1 =
  am_everyone :: bool
  am_allow_users :: bool
  am_allow_roles :: bool
  am_role_ids :: "snowflake list"
  am_user_ids :: "snowflake list"

definition allowed_mentions1_to_json :: "'j json_api \<Rightarrow> 'j json_maker \<Rightarrow> allowed_mentions1 \<Rightarrow> 'j" where
  "allowed_mentions1_to_json J W stuff =
     (let parse = (if am_everyone stuff then [mk_str W ''everyone''] else [])
            @ (if am_allow_users stuff then [mk_str W ''users''] else [])
            @ (if am_allow_roles stuff then [mk_str W ''roles''] else []);
          ids = (\<lambda>xs. mk_arr W (map (sf_json J W) xs));
          json = mk_set W (j_null J) ''parse'' (mk_arr W parse);
          json = put W ''users'' (if \<not> am_allow_users stuff \<and> am_user_ids stuff \<noteq> [] then Some (ids (am_user_ids stuff)) else None) json
      in put W ''roles'' (if \<not> am_allow_roles stuff \<and> am_role_ids stuff \<noteq> [] then Some (ids (am_role_ids stuff)) else None) json)"

datatype some_mentions = All_or_none bool | Ids "snowflake list"

record allowed_mentions2 =
  am2_everyone :: bool
  am2_roles :: some_mentions
  am2_users :: some_mentions

definition allowed_mentions2_to_json :: "'j json_api \<Rightarrow> 'j json_maker \<Rightarrow> allowed_mentions2 \<Rightarrow> 'j" where
  "allowed_mentions2_to_json J W stuff =
     (let parse = (if am2_everyone stuff then [mk_str W ''everyone''] else [])
            @ (if am2_roles stuff = All_or_none True then [mk_str W ''roles''] else [])
            @ (if am2_users stuff = All_or_none True then [mk_str W ''users''] else []);
          ids = (\<lambda>m. case m of All_or_none _ \<Rightarrow> None | Ids xs \<Rightarrow> Some (mk_arr W (map (sf_json J W) xs)));
          json = mk_set W (j_null J) ''parse'' (mk_arr W parse);
          json = put W ''roles'' (ids (am2_roles stuff)) json
      in put W ''users'' (ids (am2_users stuff)) json)"

text \<open>\<open>modify_message_json\<close> of both, and of \<open>disable_mentions\<close>.\<close>

definition modify_message1 :: "'j json_api \<Rightarrow> 'j json_maker \<Rightarrow> allowed_mentions1 \<Rightarrow> 'j \<Rightarrow> 'j" where
  "modify_message1 J W stuff json = mk_set W json ''allowed_mentions'' (allowed_mentions1_to_json J W stuff)"

definition modify_message2 :: "'j json_api \<Rightarrow> 'j json_maker \<Rightarrow> allowed_mentions2 \<Rightarrow> 'j \<Rightarrow> 'j" where
  "modify_message2 J W stuff json = mk_set W json ''allowed_mentions'' (allowed_mentions2_to_json J W stuff)"

definition disable_mentions :: "'j json_api \<Rightarrow> 'j json_maker \<Rightarrow> 'j \<Rightarrow> 'j" where
  "disable_mentions J W json =
     mk_set W json ''allowed_mentions'' (mk_set W (j_null J) ''parse'' (mk_arr W []))"

section \<open>Reading what was written\<close>

text \<open>
  A part of an embed that has a value but no member is written as null, which is read as no value. An embed
  without any value is null itself.
\<close>

definition drop_empty_parts :: "embed \<Rightarrow> embed" where
  "drop_empty_parts e = e\<lparr>
     em_image := if em_image e = Some \<lparr>ei_url = None, ei_proxy_url = None, ei_height = None, ei_width = None\<rparr> then None else em_image e,
     em_thumbnail := if em_thumbnail e = Some \<lparr>et_url = None, et_proxy_url = None, et_height = None, et_width = None\<rparr> then None
       else em_thumbnail e,
     em_video := if em_video e = Some \<lparr>ev_url = None, ev_height = None, ev_width = None\<rparr> then None else em_video e,
     em_provider := if em_provider e = Some \<lparr>ep_name = None, ep_url = None\<rparr> then None else em_provider e,
     em_author := if em_author e = Some \<lparr>ea_name = None, ea_url = None, ea_icon_url = None, ea_proxy_icon_url = None\<rparr> then None
       else em_author e\<rparr>"

text \<open>What the receiver of allowed mentions reads: the kinds that are parsed, and the listed roles and users.\<close>

definition read_mentions :: "'j json_api \<Rightarrow> 'j \<Rightarrow> string list res \<times> snowflake list option res \<times> snowflake list option res" where
  "read_mentions J v = (rbind (at_const J v ''parse'') (as_vector (as_str J) J),
     opt (as_vector (as_sf J) J) J v ''roles'', opt (as_vector (as_sf J) J) J v ''users'')"

definition empty_embed :: embed where
  "empty_embed = \<lparr>em_title = None, em_description = None, em_url = None, em_color = None, em_footer = None,
     em_image = None, em_thumbnail = None, em_video = None, em_provider = None, em_author = None, em_fields = None\<rparr>"

lemma fill_fails: "f \<in> set fs \<Longrightarrow> (\<And>a. \<exists>x. f a = Inl x) \<Longrightarrow> fst (fill fs a) \<noteq> None"
proof (induction fs arbitrary: a)
  case (Cons g fs)
  then show ?case by (cases "g a"; cases "f = g") (auto, metis sum.distinct(1))
qed simp

context json_writer
begin

lemma record_null: "is_record J (j_null J)" "members_of J (j_null J) k = None"
  by (simp_all add: is_record_def members_of_def)

lemma record_set: "is_record J v \<Longrightarrow> is_record J (mk_set W v k x)"
  "is_record J v \<Longrightarrow> members_of J (mk_set W v k x) k' = (if k' = k then Some x else members_of J v k')"
  "is_record J v \<Longrightarrow> \<not> j_is_null J (mk_set W v k x)"
proof -
  assume v: "is_record J v"
  show "\<not> j_is_null J (mk_set W v k x)"
    using object_set [OF v, of k x] by (auto simp: j_object_def)
qed (auto simp: is_record_def members_of_def object_set)

lemma record_put: "is_record J v \<Longrightarrow> is_record J (put W k x v)"
  "is_record J v \<Longrightarrow> members_of J v k = None
   \<Longrightarrow> members_of J (put W k x v) k' = (if k' = k then x else members_of J v k')"
  "is_record J v \<Longrightarrow> j_is_null J (put W k x v) \<longleftrightarrow> x = None \<and> j_is_null J v"
  by (auto simp: put_def record_set split: option.splits)

lemmas records = record_null record_set record_put

text \<open>A member that was written, or left out, is read back.\<close>

lemma opt_back:
  assumes "is_record J v" "\<not> j_is_null J v" "members_of J v k = map_option mk x"
    and "\<And>y. x = Some y \<Longrightarrow> rd (mk y) = Inr y \<and> \<not> j_is_null J (mk y)"
  shows "opt rd J v k = Inr x"
  using assms by (auto simp: opt_def value_or_def is_record_def members_of_def as_optional_def split: option.splits)

lemma at_back: "is_record J v \<Longrightarrow> members_of J v k = Some x \<Longrightarrow> at_const J v k = Inr x"
  by (auto simp: at_const_def is_record_def members_of_def split: option.splits)

lemma made_back: "as_str J (mk_str W s) = Inr s" "as_int J (mk_int W n) = Inr n" "as_bool J (mk_bool W b) = Inr b"
  by (simp_all add: as_str_def as_int_def as_bool_def str_made int_made bool_made)

lemmas made = made_back str_made(2) int_made(2) bool_made(2)

lemmas opt_str = opt_back [where mk = "mk_str W" and rd = "as_str J", OF _ _ _ conjI [OF made(1,4)]]
lemmas opt_int = opt_back [where mk = "mk_int W" and rd = "as_int J", OF _ _ _ conjI [OF made(2,5)]]
lemmas opt_bool = opt_back [where mk = "mk_bool W" and rd = "as_bool J", OF _ _ _ conjI [OF made(3,6)]]

lemma footer_back: "read_embed_footer J (embed_footer_to_json J W f) = Inr f" "\<not> j_is_null J (embed_footer_to_json J W f)"
proof -
  let ?v = "embed_footer_to_json J W f"
  have v: "is_record J ?v" "\<not> j_is_null J ?v" by (simp_all add: embed_footer_to_json_def records)
  have "at_const J ?v ''text'' = Inr (mk_str W (ef_text f))"
    by (rule at_back [OF v(1)]) (simp add: embed_footer_to_json_def records)
  moreover have "opt (as_str J) J ?v ''icon_url'' = Inr (ef_icon_url f)"
    "opt (as_str J) J ?v ''proxy_icon_url'' = Inr (ef_proxy_icon_url f)"
    by (rule opt_str [OF v]; simp add: embed_footer_to_json_def records)+
  ultimately show "read_embed_footer J ?v = Inr f" "\<not> j_is_null J ?v"
    using v by (simp_all add: read_embed_footer_def fresh_def made_back)
qed

text \<open>A part whose JSON is null when it is empty is read back as missing.\<close>

lemma opt_part:
  assumes "is_record J v" "\<not> j_is_null J v" "members_of J v k = map_option mk x"
    and "\<And>y. \<not> j_is_null J (mk y) \<Longrightarrow> rd (mk y) = Inr y" "\<And>y. j_is_null J (mk y) \<longleftrightarrow> y = nothing"
  shows "opt rd J v k = Inr (if x = Some nothing then None else x)"
  using assms by (auto simp: opt_def value_or_def is_record_def members_of_def as_optional_def split: option.splits)

text \<open>The parts without a mandatory member are null when they are empty.\<close>

lemma image_back:
  assumes "\<not> j_is_null J (embed_image_to_json J W a)"
  shows "read_embed_image J (embed_image_to_json J W a) = Inr a"
proof -
  let ?v = "embed_image_to_json J W a"
  have v: "is_record J ?v" by (simp add: embed_image_to_json_def records)
  have "opt (as_str J) J ?v ''url'' = Inr (ei_url a)" "opt (as_str J) J ?v ''proxy_url'' = Inr (ei_proxy_url a)"
    by (rule opt_str [OF v assms]; simp add: embed_image_to_json_def records Let_def)+
  moreover have "opt (as_int J) J ?v ''height'' = Inr (ei_height a)" "opt (as_int J) J ?v ''width'' = Inr (ei_width a)"
    by (rule opt_int [OF v assms]; simp add: embed_image_to_json_def records Let_def)+
  ultimately show ?thesis by (simp add: read_embed_image_def fresh_def)
qed

lemma thumbnail_back:
  assumes "\<not> j_is_null J (embed_thumbnail_to_json J W a)"
  shows "read_embed_thumbnail J (embed_thumbnail_to_json J W a) = Inr a"
proof -
  let ?v = "embed_thumbnail_to_json J W a"
  have v: "is_record J ?v" by (simp add: embed_thumbnail_to_json_def records)
  have "opt (as_str J) J ?v ''url'' = Inr (et_url a)" "opt (as_str J) J ?v ''proxy_url'' = Inr (et_proxy_url a)"
    by (rule opt_str [OF v assms]; simp add: embed_thumbnail_to_json_def records Let_def)+
  moreover have "opt (as_int J) J ?v ''height'' = Inr (et_height a)" "opt (as_int J) J ?v ''width'' = Inr (et_width a)"
    by (rule opt_int [OF v assms]; simp add: embed_thumbnail_to_json_def records Let_def)+
  ultimately show ?thesis by (simp add: read_embed_thumbnail_def fresh_def)
qed

lemma video_back:
  assumes "\<not> j_is_null J (embed_video_to_json J W a)"
  shows "read_embed_video J (embed_video_to_json J W a) = Inr a"
proof -
  let ?v = "embed_video_to_json J W a"
  have v: "is_record J ?v" by (simp add: embed_video_to_json_def records)
  have "opt (as_str J) J ?v ''url'' = Inr (ev_url a)"
    by (rule opt_str [OF v assms]; simp add: embed_video_to_json_def records Let_def)+
  moreover have "opt (as_int J) J ?v ''height'' = Inr (ev_height a)" "opt (as_int J) J ?v ''width'' = Inr (ev_width a)"
    by (rule opt_int [OF v assms]; simp add: embed_video_to_json_def records Let_def)+
  ultimately show ?thesis by (simp add: read_embed_video_def fresh_def)
qed

lemma provider_back:
  assumes "\<not> j_is_null J (embed_provider_to_json J W a)"
  shows "read_embed_provider J (embed_provider_to_json J W a) = Inr a"
proof -
  let ?v = "embed_provider_to_json J W a"
  have v: "is_record J ?v" by (simp add: embed_provider_to_json_def records)
  have "opt (as_str J) J ?v ''name'' = Inr (ep_name a)" "opt (as_str J) J ?v ''url'' = Inr (ep_url a)"
    by (rule opt_str [OF v assms]; simp add: embed_provider_to_json_def records Let_def)+
  then show ?thesis by (simp add: read_embed_provider_def fresh_def)
qed

lemma author_back:
  assumes "\<not> j_is_null J (embed_author_to_json J W a)"
  shows "read_embed_author J (embed_author_to_json J W a) = Inr a"
proof -
  let ?v = "embed_author_to_json J W a"
  have v: "is_record J ?v" by (simp add: embed_author_to_json_def records)
  have "opt (as_str J) J ?v ''name'' = Inr (ea_name a)" "opt (as_str J) J ?v ''url'' = Inr (ea_url a)" "opt (as_str J) J ?v ''icon_url'' = Inr (ea_icon_url a)" "opt (as_str J) J ?v ''proxy_icon_url'' = Inr (ea_proxy_icon_url a)"
    by (rule opt_str [OF v assms]; simp add: embed_author_to_json_def records Let_def)+
  then show ?thesis by (simp add: read_embed_author_def fresh_def)
qed

lemma field_back: "read_embed_field J (embed_field_to_json J W f) = Inr f"
proof -
  let ?v = "embed_field_to_json J W f"
  have v: "is_record J ?v" "\<not> j_is_null J ?v" by (simp_all add: embed_field_to_json_def records Let_def)
  have "at_const J ?v ''name'' = Inr (mk_str W (fd_name f))" "at_const J ?v ''value'' = Inr (mk_str W (fd_value f))"
    by (rule at_back [OF v(1)]; simp add: embed_field_to_json_def records Let_def)+
  moreover have "opt (as_bool J) J ?v ''inline'' = Inr (fd_inline f)"
    by (rule opt_bool [OF v]) (simp add: embed_field_to_json_def records Let_def)
  ultimately show ?thesis by (simp add: read_embed_field_def fresh_def made_back)
qed

lemma fields_back: "as_vector (read_embed_field J) J (mk_arr W (map (embed_field_to_json J W) fs)) = Inr fs"
proof -
  have "read_all (read_embed_field J) (map (embed_field_to_json J W) fs) = Inr fs"
    by (induction fs) (simp_all add: field_back)
  then show ?thesis by (simp add: as_vector_def as_arr_def arr_made)
qed

lemma part_null:
  "j_is_null J (embed_image_to_json J W img) \<longleftrightarrow> img = \<lparr>ei_url = None, ei_proxy_url = None, ei_height = None, ei_width = None\<rparr>"
  "j_is_null J (embed_thumbnail_to_json J W t) \<longleftrightarrow> t = \<lparr>et_url = None, et_proxy_url = None, et_height = None, et_width = None\<rparr>"
  "j_is_null J (embed_video_to_json J W v) \<longleftrightarrow> v = \<lparr>ev_url = None, ev_height = None, ev_width = None\<rparr>"
  "j_is_null J (embed_provider_to_json J W p) \<longleftrightarrow> p = \<lparr>ep_name = None, ep_url = None\<rparr>"
  "j_is_null J (embed_author_to_json J W a) \<longleftrightarrow> a = \<lparr>ea_name = None, ea_url = None, ea_icon_url = None, ea_proxy_icon_url = None\<rparr>"
  by (cases img; cases t; cases v; cases p; cases a;
      auto simp: embed_image_to_json_def embed_thumbnail_to_json_def embed_video_to_json_def embed_provider_to_json_def
        embed_author_to_json_def records Let_def)+

lemma embed_back:
  assumes "\<not> j_is_null J (embed_to_json J W e)"
  shows "read_embed J (embed_to_json J W e) = Inr (drop_empty_parts e)"
proof -
  let ?v = "embed_to_json J W e"
  have v: "is_record J ?v" by (simp add: embed_to_json_def records Let_def)
  note rd = embed_to_json_def records Let_def
  have "opt (as_str J) J ?v ''title'' = Inr (em_title e)" "opt (as_str J) J ?v ''description'' = Inr (em_description e)"
    "opt (as_str J) J ?v ''url'' = Inr (em_url e)"
    by (rule opt_str [OF v assms]; simp add: rd)+
  moreover have "opt (as_int J) J ?v ''color'' = Inr (em_color e)"
    by (rule opt_int [OF v assms]) (simp add: rd)
  moreover have "opt (read_embed_footer J) J ?v ''footer'' = Inr (em_footer e)"
    by (rule opt_back [OF v assms, where mk = "embed_footer_to_json J W"]) (simp_all add: rd footer_back)
  moreover have "opt (read_embed_image J) J ?v ''image'' = Inr (em_image (drop_empty_parts e))"
    using opt_part [OF v assms _ image_back part_null(1)] by (simp add: rd drop_empty_parts_def)
  moreover have "opt (read_embed_author J) J ?v ''author'' = Inr (em_author (drop_empty_parts e))"
    using opt_part [OF v assms _ author_back part_null(5)] by (simp add: rd drop_empty_parts_def)
  moreover have "opt (read_embed_thumbnail J) J ?v ''thumbnail'' = Inr (em_thumbnail (drop_empty_parts e))"
    using opt_part [OF v assms _ thumbnail_back part_null(2)] by (simp add: rd drop_empty_parts_def)
  moreover have "opt (read_embed_video J) J ?v ''video'' = Inr (em_video (drop_empty_parts e))"
    using opt_part [OF v assms _ video_back part_null(3)] by (simp add: rd drop_empty_parts_def)
  moreover have "opt (read_embed_provider J) J ?v ''provider'' = Inr (em_provider (drop_empty_parts e))"
    using opt_part [OF v assms _ provider_back part_null(4)] by (simp add: rd drop_empty_parts_def)
  moreover have "find_key J ?v ''fields'' = map_option (\<lambda>fs. mk_arr W (map (embed_field_to_json J W) fs)) (em_fields e)"
  proof -
    have "find_key J ?v ''fields'' = members_of J ?v ''fields''"
      using v assms by (auto simp: find_key_def members_of_def is_record_def split: option.splits)
    then show ?thesis by (simp add: rd)
  qed
  ultimately show ?thesis
    by (cases "em_fields e") (simp_all add: read_embed_def fresh_def fields_back drop_empty_parts_def)
qed

lemma embed_null: "j_is_null J (embed_to_json J W e) \<longleftrightarrow> e = empty_embed"
  by (cases e) (auto simp: embed_to_json_def empty_embed_def records Let_def)

lemma sf_json_back: "as_sf J (sf_json J W i) = Inr i" "\<not> j_is_null J (sf_json J W i)"
proof -
  obtain t where "sf_to_json i = Some t" "sf_from_json (Some t) no_id = i" using sf_back by blast
  then show "as_sf J (sf_json J W i) = Inr i" "\<not> j_is_null J (sf_json J W i)"
    by (simp_all add: sf_json_def as_sf_def str_made made_back)
qed

lemma sf_list_back: "as_vector (as_sf J) J (mk_arr W (map (sf_json J W) is)) = Inr is"
proof -
  have "read_all (as_sf J) (map (sf_json J W) is) = Inr is" by (induction "is") (simp_all add: sf_json_back)
  then show ?thesis by (simp add: as_vector_def as_arr_def arr_made)
qed

lemma str_list_back: "as_vector (as_str J) J (mk_arr W (map (mk_str W) ss)) = Inr ss"
proof -
  have "read_all (as_str J) (map (mk_str W) ss) = Inr ss" by (induction ss) (simp_all add: made_back)
  then show ?thesis by (simp add: as_vector_def as_arr_def arr_made)
qed

lemma permission_made: "perm_normal p \<Longrightarrow> as_permission J (mk_str W (permission_to_json p)) = Inr p"
  by (simp add: as_permission_def str_made made_back permission_back)

lemma role_back: "perm_normal (role_permissions r) \<Longrightarrow> read_role J (role_to_json J W r) = Inr r"
proof -
  assume p: "perm_normal (role_permissions r)"
  let ?v = "role_to_json J W r"
  have v: "is_record J ?v" "\<not> j_is_null J ?v" by (simp_all add: role_to_json_def records Let_def)
  have "at_const J ?v ''id'' = Inr (sf_json J W (role_id r))" "at_const J ?v ''name'' = Inr (mk_str W (role_name r))"
    "at_const J ?v ''position'' = Inr (mk_int W (role_position r))" "at_const J ?v ''hoist'' = Inr (mk_bool W (role_hoist r))"
    "at_const J ?v ''permissions'' = Inr (mk_str W (permission_to_json (role_permissions r)))"
    "at_const J ?v ''managed'' = Inr (mk_bool W (role_managed r))"
    "at_const J ?v ''mentionable'' = Inr (mk_bool W (role_mentionable r))"
    by (rule at_back [OF v(1)]; simp add: role_to_json_def records Let_def)+
  with v(2) p show "read_role J ?v = Inr r"
    by (simp add: read_role_def role_fields_def fresh_def made_back sf_json_back permission_made default_role_def)
qed

lemma overwrite_back:
  "perm_normal (ow_allow d) \<Longrightarrow> perm_normal (ow_deny d) \<Longrightarrow> read_overwrite J (overwrite_to_json J W d) = Inr d"
proof -
  assume p: "perm_normal (ow_allow d)" "perm_normal (ow_deny d)"
  let ?v = "overwrite_to_json J W d"
  have v: "is_record J ?v" by (simp add: overwrite_to_json_def records Let_def)
  have "at_const J ?v ''id'' = Inr (sf_json J W (ow_id d))"
    "at_const J ?v ''type'' = Inr (mk_int W (int_of_overwrite_type (ow_type d)))"
    "at_const J ?v ''allow'' = Inr (mk_str W (permission_to_json (ow_allow d)))"
    "at_const J ?v ''deny'' = Inr (mk_str W (permission_to_json (ow_deny d)))"
    by (rule at_back [OF v]; simp add: overwrite_to_json_def records Let_def)+
  with p show "read_overwrite J ?v = Inr d"
    by (cases "ow_type d") (simp_all add: read_overwrite_def fresh_def made_back sf_json_back permission_made
        int_of_overwrite_type_def overwrite_type_of_int_def)
qed

text \<open>A user is written without the avatar that reading one subscripts.\<close>

lemma user_not_back: "read_user J (user_to_json J W u) \<noteq> Inr u'"
proof -
  let ?v = "user_to_json J W u" and ?f = "\<lambda>v u :: user. u\<lparr>u_avatar := v\<rparr>"
  have v: "is_record J ?v" "members_of J ?v ''avatar'' = None" "\<not> j_is_null J ?v"
    by (simp_all add: user_to_json_def records Let_def)
  then have "at_const J ?v ''avatar'' = Inl Undef"
    by (auto simp: at_const_def is_record_def members_of_def split: option.splits)
  moreover have "assign (rbind (at_const J ?v ''avatar'') (str_or_null J)) ?f \<in> set (user_fields J ?v)"
    by (simp add: user_fields_def)
  ultimately have "fst (fill (user_fields J ?v) default_user) \<noteq> None" by (intro fill_fails) auto
  then show ?thesis by (auto simp: read_user_def fresh_def split: prod.splits option.splits)
qed

text \<open>The allowed mentions.\<close>

lemma mentions_back:
  assumes v: "v = put W k2 (map_option (\<lambda>xs. mk_arr W (map (sf_json J W) xs)) l2)
      (put W k1 (map_option (\<lambda>xs. mk_arr W (map (sf_json J W) xs)) l1)
        (mk_set W (j_null J) ''parse'' (mk_arr W (map (mk_str W) parse))))"
    and "{k1, k2} = {''roles'', ''users''}"
  shows "read_mentions J v = (Inr parse, if k1 = ''roles'' then Inr l1 else Inr l2, if k1 = ''roles'' then Inr l2 else Inr l1)"
proof -
  have k: "k1 = ''roles'' \<and> k2 = ''users'' \<or> k1 = ''users'' \<and> k2 = ''roles''"
    using assms(2) by (auto simp: doubleton_eq_iff)
  have r: "is_record J v" "\<not> j_is_null J v" using k by (auto simp: v records)
  have "at_const J v ''parse'' = Inr (mk_arr W (map (mk_str W) parse))"
    by (rule at_back [OF r(1)]) (use k in \<open>auto simp: v records\<close>)
  moreover have "opt (as_vector (as_sf J) J) J v k1 = Inr l1" "opt (as_vector (as_sf J) J) J v k2 = Inr l2"
    by (rule opt_back [OF r, where mk = "\<lambda>xs. mk_arr W (map (sf_json J W) xs)"];
        use k in \<open>auto simp: v records sf_list_back arr_made\<close>)+
  ultimately show ?thesis using k by (auto simp: read_mentions_def str_list_back)
qed

end


text \<open>Roles and permission overwrites that were written as JSON are read back as they were, while what is written for
  a user is never read as one: the avatar is left out.\<close>
theorem written_entities:
  assumes "json_writer J W"
  shows "(perm_normal (role_permissions r) \<longrightarrow> read_role J (role_to_json J W r) = Inr r)
    \<and> (perm_normal (ow_allow d) \<and> perm_normal (ow_deny d) \<longrightarrow> read_overwrite J (overwrite_to_json J W d) = Inr d)
    \<and> read_user J (user_to_json J W u) \<noteq> Inr u'"
  using json_writer.role_back [OF assms] json_writer.overwrite_back [OF assms] json_writer.user_not_back [OF assms]
  by blast

lemma mentions1_written:
  assumes "json_writer J W"
  shows "read_mentions J (allowed_mentions1_to_json J W a) =
      (Inr ((if am_everyone a then [''everyone''] else []) @ (if am_allow_users a then [''users''] else [])
         @ (if am_allow_roles a then [''roles''] else [])),
       Inr (if am_allow_roles a \<or> am_role_ids a = [] then None else Some (am_role_ids a)),
       Inr (if am_allow_users a \<or> am_user_ids a = [] then None else Some (am_user_ids a)))"
    using json_writer.mentions_back [OF assms refl, where ?k1.0 = "''users''" and ?k2.0 = "''roles''"
      and ?l1.0 = "if am_allow_users a \<or> am_user_ids a = [] then None else Some (am_user_ids a)"
      and ?l2.0 = "if am_allow_roles a \<or> am_role_ids a = [] then None else Some (am_role_ids a)"
      and parse = "(if am_everyone a then [''everyone''] else []) @ (if am_allow_users a then [''users''] else [])
         @ (if am_allow_roles a then [''roles''] else [])"]
    by (cases "am_everyone a"; cases "am_allow_users a"; cases "am_allow_roles a"; cases "am_user_ids a = []";
        cases "am_role_ids a = []"; simp add: allowed_mentions1_to_json_def Let_def insert_commute)

lemma mentions2_written:
  assumes "json_writer J W"
  shows "read_mentions J (allowed_mentions2_to_json J W b) =
      (Inr ((if am2_everyone b then [''everyone''] else []) @ (if am2_roles b = All_or_none True then [''roles''] else [])
         @ (if am2_users b = All_or_none True then [''users''] else [])),
       Inr (case am2_roles b of All_or_none _ \<Rightarrow> None | Ids is \<Rightarrow> Some is),
       Inr (case am2_users b of All_or_none _ \<Rightarrow> None | Ids is \<Rightarrow> Some is))"
    using json_writer.mentions_back [OF assms refl, where ?k1.0 = "''roles''" and ?k2.0 = "''users''"
      and ?l1.0 = "case am2_roles b of All_or_none _ \<Rightarrow> None | Ids is \<Rightarrow> Some is"
      and ?l2.0 = "case am2_users b of All_or_none _ \<Rightarrow> None | Ids is \<Rightarrow> Some is"
      and parse = "(if am2_everyone b then [''everyone''] else []) @ (if am2_roles b = All_or_none True then [''roles''] else [])
         @ (if am2_users b = All_or_none True then [''users''] else [])"]
    by (cases "am2_everyone b"; cases "am2_roles b"; cases "am2_users b"; auto simp: allowed_mentions2_to_json_def Let_def)

text \<open>Both forms of allowed mentions say the same to the receiver: which kinds are allowed as a whole, and the
  ids of those that are listed; a kind that is allowed as a whole is never listed too. A list is left out when it is empty in the
  first form only, so an empty list in the second is written.\<close>
theorem allowed_mentions_written:
  assumes "json_writer J W"
  shows "read_mentions J (allowed_mentions1_to_json J W a) =
      (Inr ((if am_everyone a then [''everyone''] else []) @ (if am_allow_users a then [''users''] else [])
         @ (if am_allow_roles a then [''roles''] else [])),
       Inr (if am_allow_roles a \<or> am_role_ids a = [] then None else Some (am_role_ids a)),
       Inr (if am_allow_users a \<or> am_user_ids a = [] then None else Some (am_user_ids a)))
    \<and> read_mentions J (allowed_mentions2_to_json J W b) =
      (Inr ((if am2_everyone b then [''everyone''] else []) @ (if am2_roles b = All_or_none True then [''roles''] else [])
         @ (if am2_users b = All_or_none True then [''users''] else [])),
       Inr (case am2_roles b of All_or_none _ \<Rightarrow> None | Ids is \<Rightarrow> Some is),
       Inr (case am2_users b of All_or_none _ \<Rightarrow> None | Ids is \<Rightarrow> Some is))"
  using mentions1_written [OF assms] mentions2_written [OF assms] by (rule conjI)

end
