(* ===== verification/Shard_Requests.thy ===== *)
theory Shard_Requests
  imports Requests Json_Out
begin

text \<open>
  The requests of class \<open>shard\<close> (\<open>src/shard.cpp\<close>, \<open>include/shard.h\<close>): the headers and bodies it gives to the
  classes of \<open>Requests\<close>. An overload that only finds the guild of a member is left out. A body is text, or a JSON
  value that the library dumps.
\<close>

section \<open>Making a request\<close>

datatype 'j body = No_body | Text string | Dumped 'j

record 'j http_request =
  hr_verb :: verb
  hr_target :: string
  hr_headers :: "(string \<times> string) list"
  hr_body :: "'j body"

definition application_json :: "string \<times> string" where
  "application_json = (''Content-Type'', ''application/json'')"

definition set_up_request :: "string \<Rightarrow> (string \<times> string) list" where
  "set_up_request token =
     [(''Application'', ''cerwy''), (''Authorization'', token), (''Host'', ''discord.com''), (''User-Agent'', ''watland''),
      (''Accept'', ''text/html,application/xhtml+xml,application/xml;q=0.9,*/*;q=0.8''),
      (''Accept-Language'', ''en-US,en;q=0.5'')]"

text \<open>\<open>create_request\<close>: for a class without content, and for one with JSON content, which takes a body.\<close>

definition create_request :: "string \<Rightarrow> request_class \<Rightarrow> 'j http_request" where [request_defs]:
  "create_request token c =
     \<lparr>hr_verb = rc_verb c, hr_target = api_target c, hr_headers = set_up_request token, hr_body = No_body\<rparr>"

definition create_json_request :: "string \<Rightarrow> 'j body \<Rightarrow> request_class \<Rightarrow> 'j http_request" where [request_defs]:
  "create_json_request token b c =
     \<lparr>hr_verb = rc_verb c, hr_target = api_target c, hr_headers = application_json # set_up_request token, hr_body = b\<rparr>"

text \<open>\<open>body[k] = v\<close> in turn, on a null.\<close>

definition json_object :: "'j json_api \<Rightarrow> 'j json_maker \<Rightarrow> (string \<times> 'j) list \<Rightarrow> 'j" where
  "json_object J W kvs = foldl (\<lambda>v (k, x). mk_set W v k x) (j_null J) kvs"

section \<open>The text of a message\<close>

text \<open>
  The loop of \<open>escape_stuffs\<close>: from the index on, the next new line, tab or carriage return
  becomes its letter with a backslash before it, and the search goes on behind the letter.
\<close>

definition needs_escaping :: "char \<Rightarrow> bool" where
  "needs_escaping c \<longleftrightarrow> c = CHR 0x0A \<or> c = CHR 0x09 \<or> c = CHR 0x0D"

definition escape_letter :: "char \<Rightarrow> char" where
  "escape_letter c = (if c = CHR 0x0A then CHR ''n'' else if c = CHR 0x09 then CHR ''t'' else CHR ''r'')"

function escape_from :: "nat \<Rightarrow> string \<Rightarrow> string" where
  "escape_from start s =
     (let idx = start + find_index needs_escaping (drop start s) in
      if idx < length s
      then escape_from (idx + 2) (insert_at idx (CHR 0x5C) (s[idx := escape_letter (s ! idx)]))
      else s)"
  by pat_completeness auto
termination by (relation "measure (\<lambda>(start, s). length s - start)") (auto simp: Let_def)

declare escape_from.simps [simp del]

definition escape_stuffs :: "string \<Rightarrow> string" where "escape_stuffs s = escape_from 0 s"

definition message_text :: "string \<Rightarrow> string" where
  "message_text content =
     ''{'' @ quote @ ''content'' @ quote @ '':'' @ quote @ escape_stuffs content @ quote @ ''}''"

section \<open>The requests of a shard\<close>

text \<open>Requests for objects take their ids, a webhook is its id and token, an emoji its text in a reaction.\<close>

definition op_send_message :: "string \<Rightarrow> snowflake \<Rightarrow> string \<Rightarrow> 'j http_request" where [request_defs]:
  "op_send_message token ch content = create_json_request token (Text (message_text content)) (rq_send_message ch)"

definition op_send_message_embed :: "'j json_api \<Rightarrow> 'j json_maker \<Rightarrow> string \<Rightarrow> snowflake \<Rightarrow> string \<Rightarrow> embed \<Rightarrow> 'j http_request" where [request_defs]:
  "op_send_message_embed J W token ch content embed1 = create_json_request token (Dumped (json_object J W
       [(''content'', mk_str W content), (''embed'', embed_to_json J W embed1)])) (rq_send_message ch)"

definition op_send_reply :: "'j json_api \<Rightarrow> 'j json_maker \<Rightarrow> string \<Rightarrow> snowflake \<Rightarrow> string \<Rightarrow> 'j http_request" where [request_defs]:
  "op_send_reply J W token ch content = create_json_request token (Dumped (json_object J W
       [(''content'', mk_str W content)])) (rq_send_message ch)"

definition op_send_reply_embed :: "'j json_api \<Rightarrow> 'j json_maker \<Rightarrow> string \<Rightarrow> snowflake \<Rightarrow> string \<Rightarrow> embed \<Rightarrow> 'j http_request" where [request_defs]:
  "op_send_reply_embed J W token ch content embed1 = create_json_request token (Dumped (json_object J W
       [(''content'', mk_str W content), (''embed'', embed_to_json J W embed1)])) (rq_send_message ch)"

definition op_add_role :: "string \<Rightarrow> snowflake \<Rightarrow> snowflake \<Rightarrow> snowflake \<Rightarrow> 'j http_request" where [request_defs]:
  "op_add_role token g m r = create_request token (rq_add_role g m r)"

definition op_remove_role :: "string \<Rightarrow> snowflake \<Rightarrow> snowflake \<Rightarrow> snowflake \<Rightarrow> 'j http_request" where [request_defs]:
  "op_remove_role token g m r = create_request token (rq_remove_role g m r)"

definition op_remove_all_roles :: "string \<Rightarrow> snowflake \<Rightarrow> snowflake \<Rightarrow> 'j http_request" where [request_defs]:
  "op_remove_all_roles token g m =
     create_json_request token (Text (''{'' @ quote @ ''roles'' @ quote @ '':[]}'')) (rq_modify_member g m)"

definition op_create_role :: "'j json_api \<Rightarrow> 'j json_maker \<Rightarrow> string \<Rightarrow> snowflake \<Rightarrow> string \<Rightarrow> permission \<Rightarrow> int \<Rightarrow> bool \<Rightarrow> bool \<Rightarrow> 'j http_request" where [request_defs]:
  "op_create_role J W token g name p color hoist mentionable = create_json_request token (Dumped (json_object J W
       [(''name'', mk_str W name), (''permissions'', mk_str W (permission_to_json p)), (''color'', mk_int W color),
        (''hoist'', mk_bool W hoist), (''mentionable'', mk_bool W mentionable)])) (rq_create_role g)"

definition op_delete_role :: "string \<Rightarrow> snowflake \<Rightarrow> snowflake \<Rightarrow> 'j http_request" where [request_defs]:
  "op_delete_role token g r = create_request token (rq_delete_role g r)"

definition op_change_nick :: "'j json_api \<Rightarrow> 'j json_maker \<Rightarrow> string \<Rightarrow> snowflake \<Rightarrow> snowflake \<Rightarrow> string \<Rightarrow> 'j http_request" where [request_defs]:
  "op_change_nick J W token g m new_nick = create_json_request token (Dumped (json_object J W
       [(''nick'', mk_str W new_nick)])) (rq_modify_member g m)"

definition op_assign_roles :: "'j json_api \<Rightarrow> 'j json_maker \<Rightarrow> string \<Rightarrow> snowflake \<Rightarrow> snowflake \<Rightarrow> snowflake list \<Rightarrow> 'j http_request" where [request_defs]:
  "op_assign_roles J W token g m roles_ids = create_json_request token (Dumped (json_object J W
       [(''roles'', mk_arr W (map (sf_json J W) roles_ids))])) (rq_modify_member g m)"

definition op_change_my_nick :: "'j json_api \<Rightarrow> 'j json_maker \<Rightarrow> string \<Rightarrow> snowflake \<Rightarrow> string \<Rightarrow> 'j http_request" where [request_defs]:
  "op_change_my_nick J W token g new_nick = create_json_request token (Dumped (json_object J W
       [(''nick'', mk_str W new_nick)])) (rq_change_my_nick g)"

definition op_kick_member :: "string \<Rightarrow> snowflake \<Rightarrow> snowflake \<Rightarrow> 'j http_request" where [request_defs]:
  "op_kick_member token g m = create_request token (rq_kick_member g m)"

definition op_ban_member :: "'j json_api \<Rightarrow> 'j json_maker \<Rightarrow> string \<Rightarrow> snowflake \<Rightarrow> snowflake \<Rightarrow> string \<Rightarrow> int \<Rightarrow> 'j http_request" where [request_defs]:
  "op_ban_member J W token g m reason days = create_json_request token (Dumped (json_object J W
       [(''delete-message-days'', mk_int W days), (''reason'', mk_str W reason)])) (rq_ban_member g m)"

definition op_unban_member :: "string \<Rightarrow> snowflake \<Rightarrow> snowflake \<Rightarrow> 'j http_request" where [request_defs]:
  "op_unban_member token g user_id = create_request token (rq_unban_member g user_id)"

definition op_get_messages :: "'j json_api \<Rightarrow> 'j json_maker \<Rightarrow> string \<Rightarrow> snowflake \<Rightarrow> int \<Rightarrow> 'j http_request" where [request_defs]:
  "op_get_messages J W token ch n = create_json_request token (Dumped (json_object J W
       [(''limit'', mk_int W n)])) (rq_get_messages ch)"

definition op_get_messages_before :: "'j json_api \<Rightarrow> 'j json_maker \<Rightarrow> string \<Rightarrow> snowflake \<Rightarrow> snowflake \<Rightarrow> int \<Rightarrow> 'j http_request" where [request_defs]:
  "op_get_messages_before J W token ch i n = create_json_request token (Dumped (json_object J W
       [(''limit'', mk_int W n), (''before'', sf_json J W i)])) (rq_get_messages ch)"

definition op_get_messages_after :: "'j json_api \<Rightarrow> 'j json_maker \<Rightarrow> string \<Rightarrow> snowflake \<Rightarrow> snowflake \<Rightarrow> int \<Rightarrow> 'j http_request" where [request_defs]:
  "op_get_messages_after J W token ch i n = create_json_request token (Dumped (json_object J W
       [(''limit'', mk_int W n), (''after'', sf_json J W i)])) (rq_get_messages ch)"

definition op_get_messages_around :: "'j json_api \<Rightarrow> 'j json_maker \<Rightarrow> string \<Rightarrow> snowflake \<Rightarrow> snowflake \<Rightarrow> int \<Rightarrow> 'j http_request" where [request_defs]:
  "op_get_messages_around J W token ch i n = create_json_request token (Dumped (json_object J W
       [(''limit'', mk_int W n), (''around'', sf_json J W i)])) (rq_get_messages ch)"

definition op_get_guild_messages :: "'j json_api \<Rightarrow> 'j json_maker \<Rightarrow> string \<Rightarrow> snowflake \<Rightarrow> int \<Rightarrow> 'j http_request" where [request_defs]:
  "op_get_guild_messages J W token ch n = create_json_request token (Dumped (json_object J W
       [(''limit'', mk_int W n)])) (rq_get_guild_messages ch)"

definition op_get_guild_messages_before :: "'j json_api \<Rightarrow> 'j json_maker \<Rightarrow> string \<Rightarrow> snowflake \<Rightarrow> snowflake \<Rightarrow> int \<Rightarrow> 'j http_request" where [request_defs]:
  "op_get_guild_messages_before J W token ch i n = create_json_request token (Dumped (json_object J W
       [(''limit'', mk_int W n), (''after'', sf_json J W i)])) (rq_get_guild_messages ch)"

definition op_get_guild_messages_after :: "'j json_api \<Rightarrow> 'j json_maker \<Rightarrow> string \<Rightarrow> snowflake \<Rightarrow> snowflake \<Rightarrow> int \<Rightarrow> 'j http_request" where [request_defs]:
  "op_get_guild_messages_after J W token ch i n = create_json_request token (Dumped (json_object J W
       [(''limit'', mk_int W n), (''after'', sf_json J W i)])) (rq_get_guild_messages ch)"

definition op_get_guild_messages_around :: "'j json_api \<Rightarrow> 'j json_maker \<Rightarrow> string \<Rightarrow> snowflake \<Rightarrow> snowflake \<Rightarrow> int \<Rightarrow> 'j http_request" where [request_defs]:
  "op_get_guild_messages_around J W token ch i n = create_json_request token (Dumped (json_object J W
       [(''limit'', mk_int W n), (''after'', sf_json J W i)])) (rq_get_guild_messages ch)"

definition op_create_text_channel :: "'j json_api \<Rightarrow> 'j json_maker \<Rightarrow> string \<Rightarrow> snowflake \<Rightarrow> string \<Rightarrow> permission_overwrite list \<Rightarrow> bool \<Rightarrow> 'j http_request" where [request_defs]:
  "op_create_text_channel J W token g name overwrites nsfw = create_json_request token (Dumped (json_object J W
       [(''type'', mk_int W 0), (''name'', mk_str W name),
        (''permission_overwrites'', mk_arr W (map (overwrite_to_json J W) overwrites)), (''nsfw'', mk_bool W nsfw)])) (rq_create_text_channel g)"

definition op_edit_message :: "'j json_api \<Rightarrow> 'j json_maker \<Rightarrow> string \<Rightarrow> snowflake \<Rightarrow> snowflake \<Rightarrow> string \<Rightarrow> 'j http_request" where [request_defs]:
  "op_edit_message J W token ch msg new_content = create_json_request token (Dumped (json_object J W
       [(''content'', mk_str W new_content)])) (rq_edit_message ch msg)"

definition op_create_voice_channel :: "'j json_api \<Rightarrow> 'j json_maker \<Rightarrow> string \<Rightarrow> snowflake \<Rightarrow> string \<Rightarrow> permission_overwrite list \<Rightarrow> bool \<Rightarrow> int \<Rightarrow> 'j http_request" where [request_defs]:
  "op_create_voice_channel J W token g name overwrites nsfw bit_rate =
     create_json_request token (Dumped (json_object J W
       [(''nsfw'', mk_bool W nsfw), (''name'', mk_str W name),
        (''permission_overwrites'', mk_arr W (map (overwrite_to_json J W) overwrites)),
        (''bit_rate'', mk_int W bit_rate)])) (rq_create_voice_channel g)"

definition op_create_channel_catagory :: "'j json_api \<Rightarrow> 'j json_maker \<Rightarrow> string \<Rightarrow> snowflake \<Rightarrow> string \<Rightarrow> permission_overwrite list \<Rightarrow> bool \<Rightarrow> 'j http_request" where [request_defs]:
  "op_create_channel_catagory J W token g name overwrites nsfw =
     create_json_request token (Dumped (json_object J W
       [(''nsfw'', mk_bool W nsfw), (''name'', mk_str W name),
        (''permission_overwrites'', mk_arr W (map (overwrite_to_json J W) overwrites))])) (rq_create_channel_catagory g)"

definition op_delete_message :: "string \<Rightarrow> snowflake \<Rightarrow> snowflake \<Rightarrow> 'j http_request" where [request_defs]:
  "op_delete_message token ch msg = create_request token (rq_delete_message ch msg)"

definition op_delete_message_bulk :: "'j json_api \<Rightarrow> 'j json_maker \<Rightarrow> string \<Rightarrow> snowflake \<Rightarrow> snowflake list \<Rightarrow> 'j http_request" where [request_defs]:
  "op_delete_message_bulk J W token ch msgs = create_json_request token (Dumped (json_object J W
       [(''messages'', mk_arr W (map (sf_json J W) msgs))])) (rq_delete_message_bulk ch)"

definition op_delete_emoji :: "string \<Rightarrow> snowflake \<Rightarrow> snowflake \<Rightarrow> 'j http_request" where [request_defs]:
  "op_delete_emoji token g e = create_request token (rq_delete_emoji g e)"

definition op_modify_emoji :: "'j json_api \<Rightarrow> 'j json_maker \<Rightarrow> string \<Rightarrow> snowflake \<Rightarrow> snowflake \<Rightarrow> string \<Rightarrow> snowflake list \<Rightarrow> 'j http_request" where [request_defs]:
  "op_modify_emoji J W token g e s role_ids = create_json_request token (Dumped (json_object J W
       [(''name'', mk_str W s), (''roles'', mk_arr W (map (sf_json J W) role_ids))])) (rq_modify_emoji g e)"

definition op_leave_guild :: "string \<Rightarrow> snowflake \<Rightarrow> 'j http_request" where [request_defs]:
  "op_leave_guild token g = create_request token (rq_leave_guild g)"

definition op_add_reaction :: "string \<Rightarrow> snowflake \<Rightarrow> snowflake \<Rightarrow> string \<Rightarrow> 'j http_request" where [request_defs]:
  "op_add_reaction token ch msg e = create_request token (rq_add_reaction ch msg e)"

definition op_delete_own_reaction :: "string \<Rightarrow> snowflake \<Rightarrow> snowflake \<Rightarrow> string \<Rightarrow> 'j http_request" where [request_defs]:
  "op_delete_own_reaction token ch msg e = create_request token (rq_delete_own_reaction ch msg e)"

definition op_delete_user_reaction :: "string \<Rightarrow> snowflake \<Rightarrow> snowflake \<Rightarrow> string \<Rightarrow> snowflake \<Rightarrow> 'j http_request" where [request_defs]:
  "op_delete_user_reaction token ch msg e u = create_request token (rq_delete_user_reaction ch msg e u)"

definition op_get_reactions :: "string \<Rightarrow> snowflake \<Rightarrow> snowflake \<Rightarrow> string \<Rightarrow> 'j http_request" where [request_defs]:
  "op_get_reactions token ch msg e = create_request token (rq_get_reactions ch msg e)"

definition op_delete_all_reactions :: "string \<Rightarrow> snowflake \<Rightarrow> snowflake \<Rightarrow> 'j http_request" where [request_defs]:
  "op_delete_all_reactions token ch msg = create_request token (rq_delete_all_reactions ch msg)"

definition op_delete_all_reactions_emoji :: "string \<Rightarrow> snowflake \<Rightarrow> snowflake \<Rightarrow> string \<Rightarrow> 'j http_request" where [request_defs]:
  "op_delete_all_reactions_emoji token ch msg e = create_request token (rq_delete_all_reactions_emoji ch msg e)"

definition op_typing_start :: "string \<Rightarrow> snowflake \<Rightarrow> 'j http_request" where [request_defs]:
  "op_typing_start token ch = create_request token (rq_typing_start ch)"

definition op_delete_channel_permissions :: "string \<Rightarrow> snowflake \<Rightarrow> snowflake \<Rightarrow> 'j http_request" where [request_defs]:
  "op_delete_channel_permissions token ch overwrite =
     create_request token (rq_delete_channel_permission ch overwrite)"

definition op_list_guild_members :: "'j json_api \<Rightarrow> 'j json_maker \<Rightarrow> string \<Rightarrow> snowflake \<Rightarrow> int \<Rightarrow> snowflake \<Rightarrow> 'j http_request" where [request_defs]:
  "op_list_guild_members J W token g n after = create_json_request token (Dumped (json_object J W
       [(''limit'', mk_int W n), (''after'', sf_json J W after)])) (rq_list_guild_members g)"

definition op_edit_channel_permissions :: "'j json_api \<Rightarrow> 'j json_maker \<Rightarrow> string \<Rightarrow> snowflake \<Rightarrow> permission_overwrite \<Rightarrow> 'j http_request" where [request_defs]:
  "op_edit_channel_permissions J W token ch overwrite = create_json_request token (Dumped (json_object J W
       [(''allow'', mk_str W (permission_to_json (ow_allow overwrite))),
        (''deny'', mk_str W (permission_to_json (ow_deny overwrite))),
        (''type'', mk_int W (int_of_overwrite_type (ow_type overwrite)))])) (rq_edit_channel_permissions ch (ow_id overwrite))"

definition op_create_dm :: "'j json_api \<Rightarrow> 'j json_maker \<Rightarrow> string \<Rightarrow> snowflake \<Rightarrow> 'j http_request" where [request_defs]:
  "op_create_dm J W token u = create_json_request token (Dumped (json_object J W
       [(''recipient_id'', sf_json J W u)])) rq_create_dm"

definition op_get_guild_integrations :: "string \<Rightarrow> snowflake \<Rightarrow> 'j http_request" where [request_defs]:
  "op_get_guild_integrations token g = create_request token (rq_get_guild_integrations g)"

definition op_create_guild_integration :: "'j json_api \<Rightarrow> 'j json_maker \<Rightarrow> string \<Rightarrow> snowflake \<Rightarrow> string \<Rightarrow> snowflake \<Rightarrow> 'j http_request" where [request_defs]:
  "op_create_guild_integration J W token g type i = create_json_request token (Dumped (json_object J W
       [(''type'', mk_str W type), (''id'', sf_json J W i)])) (rq_create_guild_integration g)"

definition op_delete_channel :: "string \<Rightarrow> snowflake \<Rightarrow> 'j http_request" where [request_defs]:
  "op_delete_channel token ch = create_request token (rq_delete_channel ch)"

definition op_add_pinned_msg :: "string \<Rightarrow> snowflake \<Rightarrow> snowflake \<Rightarrow> 'j http_request" where [request_defs]:
  "op_add_pinned_msg token ch msg = create_request token (rq_add_pinned_msg ch msg)"

definition op_remove_pinned_msg :: "string \<Rightarrow> snowflake \<Rightarrow> snowflake \<Rightarrow> 'j http_request" where [request_defs]:
  "op_remove_pinned_msg token ch msg = create_request token (rq_remove_pinned_msg ch msg)"

definition op_get_voice_regions :: "string \<Rightarrow> 'j http_request" where [request_defs]:
  "op_get_voice_regions token = create_request token rq_get_voice_regions"

definition op_create_channel_invite :: "'j json_api \<Rightarrow> 'j json_maker \<Rightarrow> string \<Rightarrow> snowflake \<Rightarrow> int \<Rightarrow> int \<Rightarrow> bool \<Rightarrow> bool \<Rightarrow> 'j http_request" where [request_defs]:
  "op_create_channel_invite J W token ch max_age max_uses temporary unique =
     create_json_request token (Dumped (json_object J W
       [(''max_age'', mk_int W max_age), (''max_uses'', mk_int W max_uses), (''temporary'', mk_bool W temporary),
        (''unique'', mk_bool W unique)])) (rq_create_channel_invite ch)"

definition op_create_webhook :: "'j json_api \<Rightarrow> 'j json_maker \<Rightarrow> string \<Rightarrow> snowflake \<Rightarrow> string \<Rightarrow> 'j http_request" where [request_defs]:
  "op_create_webhook J W token ch name = create_json_request token (Dumped (json_object J W
       [(''name'', mk_str W name), (''avatar'', j_null J)])) (rq_create_webhook ch)"

definition op_get_guild_webhooks :: "string \<Rightarrow> snowflake \<Rightarrow> 'j http_request" where [request_defs]:
  "op_get_guild_webhooks token g = create_request token (rq_get_guild_webhooks g)"

definition op_get_channel_webhooks :: "string \<Rightarrow> snowflake \<Rightarrow> 'j http_request" where [request_defs]:
  "op_get_channel_webhooks token ch = create_request token (rq_get_channel_webhooks ch)"

definition op_get_webhook_with_token :: "string \<Rightarrow> snowflake \<Rightarrow> string \<Rightarrow> 'j http_request" where [request_defs]:
  "op_get_webhook_with_token token i webhook_token =
     create_request token (rq_get_webhook_with_token i webhook_token)"

definition op_get_webhook :: "string \<Rightarrow> snowflake \<Rightarrow> 'j http_request" where [request_defs]:
  "op_get_webhook token i = create_request token (rq_get_webhook i)"

definition op_send_with_webhook :: "'j json_api \<Rightarrow> 'j json_maker \<Rightarrow> string \<Rightarrow> snowflake \<Rightarrow> string \<Rightarrow> string \<Rightarrow> 'j http_request" where [request_defs]:
  "op_send_with_webhook J W token i webhook_token s = create_json_request token (Dumped (json_object J W
       [(''content'', mk_str W s)])) (rq_execute_webhook i webhook_token)"

definition op_fetch_message :: "string \<Rightarrow> snowflake \<Rightarrow> snowflake \<Rightarrow> 'j http_request" where [request_defs]:
  "op_fetch_message token ch msg = create_request token (rq_get_message ch msg)"

definition op_get_audit_log :: "string \<Rightarrow> snowflake \<Rightarrow> 'j http_request" where [request_defs]:
  "op_get_audit_log token g = create_request token (rq_get_audit_log g)"

definition op_send_guild_message :: "'j json_api \<Rightarrow> 'j json_maker \<Rightarrow> string \<Rightarrow> snowflake \<Rightarrow> string \<Rightarrow> 'j http_request" where [request_defs]:
  "op_send_guild_message J W token ch content = create_json_request token (Dumped (json_object J W
       [(''content'', mk_str W content)])) (rq_send_guild_message ch)"

definition op_send_guild_message_embed :: "'j json_api \<Rightarrow> 'j json_maker \<Rightarrow> string \<Rightarrow> snowflake \<Rightarrow> string \<Rightarrow> embed \<Rightarrow> 'j http_request" where [request_defs]:
  "op_send_guild_message_embed J W token ch content embed1 = create_json_request token (Dumped (json_object J W
       [(''content'', mk_str W content), (''embed'', embed_to_json J W embed1)])) (rq_send_guild_message ch)"

definition op_reply_to :: "'j json_api \<Rightarrow> 'j json_maker \<Rightarrow> string \<Rightarrow> snowflake \<Rightarrow> snowflake \<Rightarrow> string \<Rightarrow> 'j http_request" where [request_defs]:
  "op_reply_to J W token ch msg content = create_json_request token (Dumped (json_object J W
       [(''content'', mk_str W content),
        (''message_reference'', mk_set W (j_null J) ''message_id'' (sf_json J W msg))])) (rq_send_guild_message ch)"

definition op_reply_to_embed :: "'j json_api \<Rightarrow> 'j json_maker \<Rightarrow> string \<Rightarrow> snowflake \<Rightarrow> snowflake \<Rightarrow> string \<Rightarrow> embed \<Rightarrow> 'j http_request" where [request_defs]:
  "op_reply_to_embed J W token ch msg content embed1 = create_json_request token (Dumped (json_object J W
       [(''content'', mk_str W content), (''embed'', embed_to_json J W embed1),
        (''message_reference'', mk_set W (j_null J) ''message_id'' (sf_json J W msg))])) (rq_send_guild_message ch)"

definition op_modify_channel_positions :: "'j json_api \<Rightarrow> 'j json_maker \<Rightarrow> string \<Rightarrow> snowflake \<Rightarrow> (snowflake \<times> int) list \<Rightarrow> 'j http_request" where [request_defs]:
  "op_modify_channel_positions J W token g positions = create_json_request token
       (Dumped (mk_arr W (map (\<lambda>(i, position). json_object J W [(''id'', sf_json J W i), (''position'', mk_int W position)]) positions))) (rq_modify_channel_positions g)"

definition op_add_guild_member :: "'j json_api \<Rightarrow> 'j json_maker \<Rightarrow> string \<Rightarrow> snowflake \<Rightarrow> snowflake \<Rightarrow> string \<Rightarrow> snowflake list \<Rightarrow> string \<Rightarrow> bool \<Rightarrow> bool \<Rightarrow> 'j http_request" where [request_defs]:
  "op_add_guild_member J W token g i access_token roles nick deaf mute =
     create_json_request token (Dumped (json_object J W
       [(''access_token'', mk_str W access_token), (''nick'', mk_str W nick), (''deaf'', mk_bool W deaf),
        (''mute'', mk_bool W mute), (''roles'', mk_arr W (map (sf_json J W) roles))])) (rq_add_guild_member g i)"

text \<open>An invite is asked for with the number as body, which is empty for 0.\<close>

definition op_get_invite :: "string \<Rightarrow> string \<Rightarrow> int \<Rightarrow> 'j http_request" where [request_defs]:
  "op_get_invite token code n =
     create_json_request token (Text (if n \<noteq> 0 then std_to_string_int n else '''')) (rq_get_invite code)"

definition op_delete_invite :: "string \<Rightarrow> string \<Rightarrow> 'j http_request" where [request_defs]:
  "op_delete_invite token code = create_request token (rq_delete_invite code)"

section \<open>All requests\<close>

text \<open>The requests but those for invites, with the id that names their bucket.\<close>

inductive shard_request :: "'j json_api \<Rightarrow> 'j json_maker \<Rightarrow> string \<Rightarrow> snowflake option \<Rightarrow> 'j http_request \<Rightarrow> bool"
  for J W token where
  "shard_request J W token (Some ch) (op_send_message token ch content)"
| "shard_request J W token (Some ch) (op_send_message_embed J W token ch content embed1)"
| "shard_request J W token (Some ch) (op_send_reply J W token ch content)"
| "shard_request J W token (Some ch) (op_send_reply_embed J W token ch content embed1)"
| "shard_request J W token (Some g) (op_add_role token g m r)"
| "shard_request J W token (Some g) (op_remove_role token g m r)"
| "shard_request J W token (Some g) (op_remove_all_roles token g m)"
| "shard_request J W token (Some g) (op_create_role J W token g name p color hoist mentionable)"
| "shard_request J W token (Some g) (op_delete_role token g r)"
| "shard_request J W token (Some g) (op_change_nick J W token g m new_nick)"
| "shard_request J W token (Some g) (op_assign_roles J W token g m roles_ids)"
| "shard_request J W token (Some g) (op_change_my_nick J W token g new_nick)"
| "shard_request J W token (Some g) (op_kick_member token g m)"
| "shard_request J W token (Some g) (op_ban_member J W token g m reason days)"
| "shard_request J W token (Some g) (op_unban_member token g user_id)"
| "shard_request J W token (Some ch) (op_get_messages J W token ch n)"
| "shard_request J W token (Some ch) (op_get_messages_before J W token ch i n)"
| "shard_request J W token (Some ch) (op_get_messages_after J W token ch i n)"
| "shard_request J W token (Some ch) (op_get_messages_around J W token ch i n)"
| "shard_request J W token (Some ch) (op_get_guild_messages J W token ch n)"
| "shard_request J W token (Some ch) (op_get_guild_messages_before J W token ch i n)"
| "shard_request J W token (Some ch) (op_get_guild_messages_after J W token ch i n)"
| "shard_request J W token (Some ch) (op_get_guild_messages_around J W token ch i n)"
| "shard_request J W token (Some g) (op_create_text_channel J W token g name overwrites nsfw)"
| "shard_request J W token (Some ch) (op_edit_message J W token ch msg new_content)"
| "shard_request J W token (Some g) (op_create_voice_channel J W token g name overwrites nsfw bit_rate)"
| "shard_request J W token (Some g) (op_create_channel_catagory J W token g name overwrites nsfw)"
| "shard_request J W token (Some ch) (op_delete_message token ch msg)"
| "shard_request J W token (Some ch) (op_delete_message_bulk J W token ch msgs)"
| "shard_request J W token (Some g) (op_delete_emoji token g e)"
| "shard_request J W token (Some g) (op_modify_emoji J W token g e s role_ids)"
| "shard_request J W token (Some g) (op_leave_guild token g)"
| "shard_request J W token (Some ch) (op_add_reaction token ch msg e)"
| "shard_request J W token (Some ch) (op_delete_own_reaction token ch msg e)"
| "shard_request J W token (Some ch) (op_delete_user_reaction token ch msg e u)"
| "shard_request J W token (Some ch) (op_get_reactions token ch msg e)"
| "shard_request J W token (Some ch) (op_delete_all_reactions token ch msg)"
| "shard_request J W token (Some ch) (op_delete_all_reactions_emoji token ch msg e)"
| "shard_request J W token (Some ch) (op_typing_start token ch)"
| "shard_request J W token (Some ch) (op_delete_channel_permissions token ch overwrite)"
| "shard_request J W token (Some g) (op_list_guild_members J W token g n after)"
| "shard_request J W token (Some ch) (op_edit_channel_permissions J W token ch overwrite)"
| "shard_request J W token None (op_create_dm J W token u)"
| "shard_request J W token (Some g) (op_get_guild_integrations token g)"
| "shard_request J W token (Some g) (op_create_guild_integration J W token g type i)"
| "shard_request J W token (Some ch) (op_delete_channel token ch)"
| "shard_request J W token (Some ch) (op_add_pinned_msg token ch msg)"
| "shard_request J W token (Some ch) (op_remove_pinned_msg token ch msg)"
| "shard_request J W token None (op_get_voice_regions token)"
| "shard_request J W token (Some ch) (op_create_channel_invite J W token ch max_age max_uses temporary unique)"
| "shard_request J W token (Some ch) (op_create_webhook J W token ch name)"
| "shard_request J W token (Some g) (op_get_guild_webhooks token g)"
| "shard_request J W token (Some ch) (op_get_channel_webhooks token ch)"
| "shard_request J W token (Some i) (op_get_webhook_with_token token i webhook_token)"
| "shard_request J W token (Some i) (op_get_webhook token i)"
| "shard_request J W token (Some i) (op_send_with_webhook J W token i webhook_token s)"
| "shard_request J W token (Some ch) (op_fetch_message token ch msg)"
| "shard_request J W token (Some g) (op_get_audit_log token g)"
| "shard_request J W token (Some ch) (op_send_guild_message J W token ch content)"
| "shard_request J W token (Some ch) (op_send_guild_message_embed J W token ch content embed1)"
| "shard_request J W token (Some ch) (op_reply_to J W token ch msg content)"
| "shard_request J W token (Some ch) (op_reply_to_embed J W token ch msg content embed1)"
| "shard_request J W token (Some g) (op_modify_channel_positions J W token g positions)"
| "shard_request J W token (Some g) (op_add_guild_member J W token g i access_token roles nick deaf mute)"

section \<open>Buckets\<close>

lemma slash_not_digit: "\<not> is_digit CHR ''/''"
  by (simp add: is_digit_def)

text \<open>The bucket of a target whose first id is behind a prefix without digits.\<close>

lemma bucket_id:
  assumes "list_all (\<lambda>c. \<not> is_digit c) pre" "rest = [] \<or> hd rest = CHR ''/''"
  shows "get_major_param_id (''/api/v8'' @ pre @ sf_text i @ rest) = Some (sf_val i)"
  using major_param_found [OF assms] by (simp add: sf_text_def)

lemma bucket_last: "list_all (\<lambda>c. \<not> is_digit c) pre \<Longrightarrow> get_major_param_id (''/api/v8'' @ pre @ sf_text i) = Some (sf_val i)"
  using bucket_id [of pre "[]"] by simp

lemma bucket_none: "list_all (\<lambda>c. \<not> is_digit c) pre \<Longrightarrow> get_major_param_id (''/api/v8'' @ pre) = Some 0"
  using major_param_found [of pre "[]"] by simp

lemma request_bucket:
  assumes "shard_request J W token m r"
  shows "get_major_param_id (hr_target r) = Some (case m of None \<Rightarrow> 0 | Some i \<Rightarrow> sf_val i)"
  using assms
  by cases (simp_all only: request_defs http_request.simps request_class.sel option.case,
    (rule bucket_id bucket_last bucket_none; simp add: is_digit_def)+)

lemma request_shape:
  assumes "shard_request J W token m r"
  shows "set (set_up_request token) \<subseteq> set (hr_headers r) \<and> (application_json \<in> set (hr_headers r) \<longleftrightarrow> hr_body r \<noteq> No_body)"
  using assms by cases (auto simp: request_defs set_up_request_def application_json_def)


text \<open>C27: A request for a guild, channel or webhook that is not rate limited is sent at once, whatever limits others have:
  it waits only for the limit of its own id.\<close>
theorem only_own_limit_holds:
  assumes "shard_request J W token (Some i) r" "rq_target q = hr_target r" "rl_inv (c_limiter c)"
  shows "if sf_val i \<in> limited c then c_consumer (admit q c) = Ready else c_consumer (admit q c) = Sending q"
proof -
  have b: "get_major_param_id (rq_target q) = Some (sf_val i)" using request_bucket [OF assms(1)] assms(2) by simp
  obtain f l where m: "maybe_rate_limit (sf_val i) q (c_limiter c) = (f, l)" by force
  from rl.offer_cases [OF assms(3) m] b m show ?thesis
    by (cases f) (auto simp: admit_def limited_def)
qed

section \<open>What the receiver of a message reads\<close>

text \<open>
  \<open>escape_stuffs\<close> is a function of each character.
\<close>

definition escape1 :: "char \<Rightarrow> string" where
  "escape1 c = (if needs_escaping c then [CHR 0x5C, escape_letter c] else [c])"

definition escaped :: "string \<Rightarrow> string" where "escaped s = concat (map escape1 s)"

lemma escaped_simps [simp]: "escaped [] = []" "escaped (c # s) = escape1 c @ escaped s" "escaped (s @ t) = escaped s @ escaped t"
  by (simp_all add: escaped_def)

lemma escaped_plain: "list_all (\<lambda>c. \<not> needs_escaping c) s \<Longrightarrow> escaped s = s"
  by (induction s) (simp_all add: escape1_def)

lemma escape_from_escaped: "start \<le> length s \<Longrightarrow> escape_from start s = take start s @ escaped (drop start s)"
proof (induction start s rule: escape_from.induct)
  case (1 start s)
  define k where "k = find_index needs_escaping (drop start s)"
  define idx where "idx = start + k"
  have plain: "list_all (\<lambda>c. \<not> needs_escaping c) (take k (drop start s))"
  proof -
    have "take k (drop start s) = takeWhile (\<lambda>c. \<not> needs_escaping c) (drop start s)"
      unfolding k_def find_index_def by (rule takeWhile_eq_take [symmetric])
    then show ?thesis by (auto simp: list_all_iff dest: set_takeWhileD)
  qed
  show ?case
  proof (cases "idx < length s")
    case True
    let ?t = "insert_at idx (CHR 0x5C) (s[idx := escape_letter (s ! idx)])"
    have hit: "needs_escaping (s ! idx)"
      using True nth_length_takeWhile [of "\<lambda>c. \<not> needs_escaping c" "drop start s"] 1(2)
      by (simp add: idx_def k_def find_index_def)
    have t: "?t = take idx s @ [CHR 0x5C, escape_letter (s ! idx)] @ drop (Suc idx) s"
      using True by (simp add: insert_at_def upd_conv_take_nth_drop)
    have len: "length (take idx s) = idx" using True by simp
    have "escape_from start s = escape_from (idx + 2) ?t"
      using True by (subst escape_from.simps) (simp add: idx_def k_def Let_def)
    also have "\<dots> = take (idx + 2) ?t @ escaped (drop (idx + 2) ?t)"
      using 1(1) [OF refl] True by (simp add: idx_def k_def)
    also have "\<dots> = take idx s @ [CHR 0x5C, escape_letter (s ! idx)] @ escaped (drop (Suc idx) s)"
      unfolding t using len by simp
    also have "take idx s = take start s @ take k (drop start s)" by (simp add: idx_def take_add)
    also have "take k (drop start s) = escaped (take k (drop start s))" using escaped_plain [OF plain] by simp
    also have "[CHR 0x5C, escape_letter (s ! idx)] = escape1 (s ! idx)" using hit by (simp add: escape1_def)
    also have "(take start s @ escaped (take k (drop start s))) @ escape1 (s ! idx) @ escaped (drop (Suc idx) s)
        = take start s @ escaped (take k (drop start s) @ s ! idx # drop (Suc idx) s)" by simp
    also have "take k (drop start s) @ s ! idx # drop (Suc idx) s = drop start s"
    proof -
      have "drop start s = take k (drop start s) @ drop k (drop start s)"
        by (rule append_take_drop_id [symmetric])
      also have "drop k (drop start s) = s ! idx # drop (Suc idx) s"
        using True Cons_nth_drop_Suc [OF True] by (simp add: idx_def add.commute)
      finally show ?thesis by simp
    qed
    finally show ?thesis .
  next
    case False
    then have "take k (drop start s) = drop start s" by (simp add: idx_def)
    with plain have "escaped (drop start s) = drop start s" using escaped_plain by simp
    then show ?thesis using False by (subst escape_from.simps) (simp add: idx_def k_def Let_def)
  qed
qed

lemma escape_stuffs_escaped: "escape_stuffs s = escaped s"
  by (simp add: escape_stuffs_def escape_from_escaped)

text \<open>
  The receiver reads a JSON string up to its closing quote; \<open>\u\<close> escapes are left out, which the code never
  writes. A control character in a string is an error.
\<close>

definition unescape :: "char \<Rightarrow> char option" where
  "unescape e = (if e = CHR 0x22 \<or> e = CHR 0x5C \<or> e = CHR ''/'' then Some e
     else if e = CHR ''n'' then Some (CHR 0x0A) else if e = CHR ''t'' then Some (CHR 0x09)
     else if e = CHR ''r'' then Some (CHR 0x0D) else if e = CHR ''b'' then Some (CHR 0x08)
     else if e = CHR ''f'' then Some (CHR 0x0C) else None)"

fun read_string :: "string \<Rightarrow> (string \<times> string) option" where
  "read_string [] = None"
| "read_string (c # s) =
     (if c = CHR 0x22 then Some ([], s)
      else if c = CHR 0x5C then
        (case s of [] \<Rightarrow> None
         | e # s' \<Rightarrow> (case unescape e of None \<Rightarrow> None | Some d \<Rightarrow> map_option (apfst ((#) d)) (read_string s')))
      else if of_char c < (32 :: nat) then None
      else map_option (apfst ((#) c)) (read_string s))"

definition plain_char :: "char \<Rightarrow> bool" where
  "plain_char c \<longleftrightarrow> c \<noteq> CHR 0x22 \<and> c \<noteq> CHR 0x5C \<and> (needs_escaping c \<or> 32 \<le> (of_char c :: nat))"

text \<open>What \<open>send_message\<close> writes behind the opening quote.\<close>

definition content_text :: "string \<Rightarrow> string" where
  "content_text s = escaped s @ [CHR 0x22, CHR ''}'']"

lemma content_text_simps:
  "content_text [] = [CHR 0x22, CHR ''}'']"
  "needs_escaping c \<Longrightarrow> content_text (c # s) = CHR 0x5C # escape_letter c # content_text s"
  "\<not> needs_escaping c \<Longrightarrow> content_text (c # s) = c # content_text s"
  by (simp_all add: content_text_def escape1_def)

lemma read_escaped: "needs_escaping c \<Longrightarrow> read_string (CHR 0x5C # escape_letter c # s) = map_option (apfst ((#) c)) (read_string s)"
  by (auto simp: needs_escaping_def escape_letter_def unescape_def)

lemma read_plain: "list_all plain_char s \<Longrightarrow> read_string (content_text s) = Some (s, ''}'')"
proof (induction s)
  case (Cons c s)
  then show ?case
    by (cases "needs_escaping c")
      (auto simp: content_text_simps read_escaped plain_char_def simp del: read_string.simps(2), auto)
qed (simp add: content_text_simps)

text \<open>A backslash of the content takes the next character with it.\<close>

lemma read_backslash:
  assumes "read_string (content_text (CHR 0x5C # s)) = Some (r, u)"
  shows "\<exists>c s' r'. s = c # s' \<and> read_string (content_text s') = Some (r', u)
    \<and> (if needs_escaping c then r = CHR 0x5C # escape_letter c # r' else \<exists>d. unescape c = Some d \<and> r = d # r')"
proof (cases s)
  case Nil
  with assms show ?thesis by (simp add: content_text_simps needs_escaping_def unescape_def)
next
  case (Cons c s')
  have b: "\<not> needs_escaping (CHR 0x5C)" by (simp add: needs_escaping_def)
  show ?thesis
  proof (cases "needs_escaping c")
    case True
    then have l: "escape_letter c \<in> {CHR ''n'', CHR ''t'', CHR ''r''}" by (auto simp: escape_letter_def)
    from assms True Cons b l show ?thesis by (auto simp: content_text_simps unescape_def)
  next
    case False
    with assms Cons b show ?thesis by (auto simp: content_text_simps split: option.splits)
  qed
qed

lemma read_no_longer: "read_string (content_text s) = Some (r, u) \<Longrightarrow> length r \<le> length s"
proof (induction "length s" arbitrary: s r u rule: less_induct)
  case less
  show ?case
  proof (cases s)
    case Nil
    with less show ?thesis by (simp add: content_text_simps)
  next
    case (Cons c s')
    consider (b) "c = CHR 0x5C" | (n) "needs_escaping c" | (o) "c \<noteq> CHR 0x5C" "\<not> needs_escaping c" by blast
    then show ?thesis
    proof cases
      case b
      with read_backslash less(2) Cons obtain c' s'' r' where
        "s' = c' # s''" "read_string (content_text s'') = Some (r', u)" "length r \<le> Suc (Suc (length r'))"
        "\<not> needs_escaping c' \<longrightarrow> length r = Suc (length r')" by (fastforce split: if_splits)
      with less(1) [of s'' r' u] Cons show ?thesis by simp
    next
      case n
      with less(1) [of s'] less(2) Cons show ?thesis
        by (auto simp: content_text_simps read_escaped simp del: read_string.simps(2))
    next
      case o
      with less(1) [of s'] less(2) Cons show ?thesis by (auto simp: content_text_simps split: if_splits)
    qed
  qed
qed

lemma read_only_plain: "read_string (content_text s) = Some (s, u) \<Longrightarrow> list_all plain_char s"
proof (induction s arbitrary: u)
  case (Cons c s)
  consider (b) "c = CHR 0x5C" | (n) "needs_escaping c" | (o) "c \<noteq> CHR 0x5C" "\<not> needs_escaping c" by blast
  then show ?case
  proof cases
    case b
    with read_backslash Cons.prems obtain c' s' r' where
      s: "s = c' # s'" and r: "read_string (content_text s') = Some (r', u)"
      and e: "if needs_escaping c' then c # s = CHR 0x5C # escape_letter c' # r'
              else \<exists>d. unescape c' = Some d \<and> c # s = d # r'" by blast
    show ?thesis
    proof (cases "needs_escaping c'")
      case True
      with e s show ?thesis by (auto simp: needs_escaping_def escape_letter_def)
    next
      case False
      with e s have "r' = c' # s'" by simp
      with read_no_longer [OF r] show ?thesis by simp
    qed
  next
    case n
    with Cons show ?thesis
      by (auto simp: content_text_simps read_escaped plain_char_def needs_escaping_def simp del: read_string.simps(2))
  next
    case o
    with Cons show ?thesis by (auto simp: content_text_simps plain_char_def split: if_splits)
  qed
qed simp

text \<open>The body built by \<open>send_message\<close> is read as a message with exactly this content if, and only if, the content has no
  quote, no backslash and no control character but new lines, tabs and carriage returns.\<close>
theorem message_text_read:
  "\<exists>pre. message_text content = pre @ content_text content \<and> pre = ''{'' @ quote @ ''content'' @ quote @ '':'' @ quote
    \<and> (read_string (content_text content) = Some (content, ''}'') \<longleftrightarrow> list_all plain_char content)"
  using read_plain [of content] read_only_plain [of content]
  by (auto simp: message_text_def content_text_def escape_stuffs_escaped quote_def)

text \<open>A content can end the string and add members of its own.\<close>

lemma message_text_injection:
  "message_text ('','' @ quote @ '','' @ quote @ ''tts'' @ quote @ '':true,'' @ quote @ ''x'' @ quote @ '':'' @ quote)
   = ''{'' @ quote @ ''content'' @ quote @ '':'' @ quote @ '','' @ quote @ '','' @ quote @ ''tts'' @ quote @ '':true,''
     @ quote @ ''x'' @ quote @ '':'' @ quote @ quote @ ''}''"
  by (simp add: message_text_def escape_stuffs_escaped escape1_def needs_escaping_def quote_def)

section \<open>Responses\<close>

text \<open>The value of a request is read from the body exactly when no exception is stored and the status is below 500 and none
  of 400, 401, 403, 404 and 405: other errors of the client, a rate limit among them, are read as results.\<close>
theorem request_value_read:
  "request_value parse reader stored status body =
     (if \<not> stored \<and> status < 500 \<and> status \<notin> {400, 401, 403, 404, 405}
      then Inr (Option.bind (parse body) reader) else Inl (the (handle_errors stored status)))"
  by (simp add: request_value_def handle_errors_def)

text \<open>The digits of an invite's code make a bucket.\<close>

lemma invite_bucket:
  "get_major_param_id (hr_target (op_get_invite token ''ab12'' 0 :: 'j http_request)) = Some 12"
  by (simp add: request_defs get_major_param_id_def find_index_def is_digit_def Let_def dec_val_def digit_val_def from_chars_def)

end
