(* ===== verification/Request_Cases.thy ===== *)
theory Request_Cases
  imports Shard_Requests Json_Sample "HOL-Library.AList"
begin

text \<open>The JSON of \<open>Json_Sample\<close> obeys the laws of the library; concrete embeds, mentions and requests.\<close>

definition js_set :: "js \<Rightarrow> string \<Rightarrow> js \<Rightarrow> js" where
  "js_set v k x = (case v of JObj kvs \<Rightarrow> JObj (AList.update k x kvs) | _ \<Rightarrow> JObj [(k, x)])"

definition js_maker :: "js json_maker" where
  "js_maker = \<lparr>mk_set = js_set, mk_str = JStr, mk_int = JInt, mk_bool = JBool, mk_arr = JArr\<rparr>"

lemma js_writer: "json_writer js_api js_maker"
proof
  fix v k x assume "is_record js_api v"
  then show "j_object js_api (mk_set js_maker v k x) = Some ((members_of js_api v)(k \<mapsto> x))"
    by (cases v) (auto simp: is_record_def members_of_def j_object_def j_is_null_def js_api_def js_maker_def js_members_def
        js_set_def update_conv')
qed (simp_all add: j_is_null_def js_api_def js_maker_def js_str_def js_int_def js_bool_def js_arr_def js_items_def)

interpretation js: json_writer js_api js_maker
  by (rule js_writer)

section \<open>Embeds\<close>

definition sample_embed :: embed where
  "sample_embed = empty_embed\<lparr>em_title := Some ''title'', em_footer := Some \<lparr>ef_text = ''foot'', ef_icon_url = None, ef_proxy_icon_url = Some ''u''\<rparr>,
     em_provider := Some \<lparr>ep_name = None, ep_url = None\<rparr>,
     em_fields := Some [\<lparr>fd_name = ''n'', fd_value = ''v'', fd_inline = Some True\<rparr>]\<rparr>"


definition moderator :: guild_role where
  "moderator = default_role\<lparr>role_id := Snowflake 9, role_name := ''moderator'', role_permissions := permission_of_u64 8\<rparr>"

theorem written_entities_witness: "read_role js_api (role_to_json js_api js_maker moderator) = Inr moderator"
proof -
  have "perm_normal (role_permissions moderator)" by (simp add: moderator_def)
  then show ?thesis using written_entities [OF js_writer, of moderator undefined undefined undefined] by blast
qed

theorem allowed_mentions_written_witness:
  "read_mentions js_api (allowed_mentions2_to_json js_api js_maker
     \<lparr>am2_everyone = False, am2_roles = All_or_none True, am2_users = Ids [Snowflake 3]\<rparr>)
   = (Inr [''roles''], Inr None, Inr (Some [Snowflake 3]))"
  using allowed_mentions_written [OF js_writer, of undefined
      "\<lparr>am2_everyone = False, am2_roles = All_or_none True, am2_users = Ids [Snowflake 3]\<rparr>"]
  by simp

section \<open>Requests\<close>

definition nick_request :: "js http_request" where
  "nick_request = op_change_nick js_api js_maker ''Bot abc'' (Snowflake 41) (Snowflake 7) ''nick''"

lemma nick_request_of_shard: "shard_request js_api js_maker ''Bot abc'' (Some (Snowflake 41)) nick_request"
  unfolding nick_request_def by (rule shard_request.intros)


theorem only_own_limit_holds_witness:
  "c_consumer (admit \<lparr>rq_target = hr_target nick_request, rq_payload = ()\<rparr> connection_start)
   = Sending \<lparr>rq_target = hr_target nick_request, rq_payload = ()\<rparr>"
proof -
  have "rl_inv (c_limiter (connection_start :: unit http_connection))" by (simp add: connection_start_def rl_inv_empty)
  moreover have "limited (connection_start :: unit http_connection) = {}"
    by (simp add: connection_start_def limited_def rl_buckets_def rl_empty_def)
  ultimately show ?thesis
    using only_own_limit_holds [OF nick_request_of_shard, of "\<lparr>rq_target = hr_target nick_request, rq_payload = ()\<rparr>" connection_start]
    by simp
qed

end
