(* ===== verification/Cpp_Arith.thy ===== *)
theory Cpp_Arith
  imports Prelude Complex_Main "HOL-Library.Log_Nat" "HOL-Library.Signed_Division"
begin

text \<open>
  Arithmetic of the C++ language that the audio code relies on: the range of \<open>int\<close> and its division,
  and \<open>double\<close>. A finite \<open>double\<close> is the rational it stands for; a conversion or an operation yields the exact
  result rounded to 53 binary digits, half way to even. Only positive numbers of a moderate size occur, so
  neither infinities nor denormal numbers are here.
\<close>

section \<open>Integers\<close>

definition in_int :: "int \<Rightarrow> bool" where
  "in_int n \<longleftrightarrow> - (2 ^ 31) \<le> n \<and> n < 2 ^ 31"

lemma sint_in_int: "in_int n \<Longrightarrow> sint (word_of_int n :: 32 word) = n"
  by (simp add: in_int_def signed_of_int signed_take_bit_int_eq_self)

lemma unat_of_positive: "0 \<le> n \<Longrightarrow> n < 2 ^ 31 \<Longrightarrow> unat (word_of_int n :: 64 word) = nat n"
  by (simp add: unsigned_of_int take_bit_int_eq_self)

lemma sdiv_pos [simp]: "0 \<le> a \<Longrightarrow> 0 \<le> b \<Longrightarrow> a sdiv b = a div (b :: int)"
  by (cases "a = 0"; cases "b = 0") (simp_all add: signed_divide_int_def)

section \<open>Doubles\<close>

definition round_even :: "rat \<Rightarrow> int" where
  "round_even x =
     (let n = \<lfloor>x\<rfloor>; r = x - of_int n
      in if r < 1 / 2 then n else if 1 / 2 < r then n + 1 else if even n then n else n + 1)"

definition double_exp :: "rat \<Rightarrow> int" where
  "double_exp x =
     (let (p, q) = quotient_of x; e = bitlen p - bitlen q in if 2 powi e \<le> x then e else e - 1)"

definition to_double :: "rat \<Rightarrow> rat" where
  "to_double x =
     (if x = 0 then 0
      else of_int (round_even (x * 2 powi (52 - double_exp x))) * 2 powi (double_exp x - 52))"

lemma round_even_close: "\<bar>of_int (round_even x) - x\<bar> \<le> 1 / 2"
proof -
  have "of_int \<lfloor>x\<rfloor> \<le> x" "x < of_int \<lfloor>x\<rfloor> + 1" by linarith+
  then show ?thesis by (auto simp: round_even_def Let_def abs_le_iff)
qed

lemma double_exp_below:
  assumes "0 < x"
  shows "2 powi double_exp x \<le> x"
proof (cases "2 powi (bitlen (fst (quotient_of x)) - bitlen (snd (quotient_of x))) \<le> x")
  case True
  then show ?thesis by (simp add: double_exp_def Let_def split_beta)
next
  case False
  obtain p q where pq: "quotient_of x = (p, q)" by force
  have x: "x = of_int p / of_int q" and q: "0 < q"
    using pq by (simp_all add: quotient_of_div quotient_of_denom_pos)
  with assms have p: "0 < p" by (simp add: zero_less_divide_iff)
  let ?a = "nat (bitlen p - 1)" and ?b = "nat (bitlen q)"
  have ab: "2 ^ ?a \<le> p" "q < 2 ^ ?b" using bitlen_bounds [OF p] bitlen_bounds [OF q] by auto
  have pos: "0 < bitlen p" using p bitlen_eq_zero_iff [of p] bitlen_nonneg [of p] by linarith
  have e: "bitlen p - bitlen q - 1 = int ?a - int ?b" using pos bitlen_nonneg [of q] by simp
  have "(2::rat) powi (bitlen p - bitlen q - 1) = 2 ^ ?a / 2 ^ ?b"
    unfolding e using power_int_diff [of "2::rat" "int ?a" "int ?b"] by (simp only: power_int_of_nat) simp
  also have "\<dots> \<le> of_int p / of_int q"
  proof (rule frac_le)
    show "(2::rat) ^ ?a \<le> of_int p" using ab(1) by (metis of_int_le_iff of_int_numeral of_int_power)
    show "of_int q \<le> (2::rat) ^ ?b" using ab(2) by (metis less_imp_le of_int_le_iff of_int_numeral of_int_power)
  qed (use p q in auto)
  finally show ?thesis using False pq x by (simp add: double_exp_def)
qed

text \<open>The relative error of a conversion.\<close>

lemma to_double_close:
  assumes "0 < x"
  shows "\<bar>to_double x - x\<bar> \<le> x / 2 ^ 53"
proof -
  let ?e = "double_exp x" and ?y = "x * 2 powi (52 - double_exp x)"
  have inv: "(2::rat) powi (52 - ?e) * 2 powi (?e - 52) = 1"
    by (simp flip: power_int_add)
  have x: "?y * 2 powi (?e - 52) = x" by (simp only: mult.assoc inv mult_1_right)
  have "to_double x - x = of_int (round_even ?y) * 2 powi (?e - 52) - x"
    using assms by (simp add: to_double_def)
  also have "\<dots> = (of_int (round_even ?y) - ?y) * 2 powi (?e - 52)" by (simp only: left_diff_distrib x)
  finally have "to_double x - x = (of_int (round_even ?y) - ?y) * 2 powi (?e - 52)" .
  then have "\<bar>to_double x - x\<bar> = \<bar>of_int (round_even ?y) - ?y\<bar> * 2 powi (?e - 52)"
    by (simp add: abs_mult)
  also have "\<dots> \<le> (1 / 2) * 2 powi (?e - 52)" by (intro mult_right_mono round_even_close) simp
  also have "\<dots> = 2 powi ?e / 2 ^ 53" by (simp add: power_int_diff)
  also have "\<dots> \<le> x / 2 ^ 53" by (intro divide_right_mono double_exp_below assms) simp
  finally show ?thesis .
qed

end
