(* ===== verification/Audio.thy ===== *)
theory Audio
  imports Cpp_Arith Json
begin

text \<open>
  The sources of audio: frames and their resampling (\<open>common/audio_source.h\<close>), PCM data cut into frames,
  and the frames of \<open>common/ytdl_audio_source.h\<close>.

  A frame's \<open>frame_data\<close> is a view of samples that lie in the frame's own storage or elsewhere:
  \<open>fr_data\<close> are the samples seen and \<open>fr_own\<close> says whether the view starts at the storage. Reads and writes
  outside a view or a vector, and arithmetic outside the range of \<open>int\<close>, have no defined result.
\<close>

section \<open>Views and loops\<close>

type_synonym pcm = "16 word"

definition read_at :: "'a list \<Rightarrow> int \<Rightarrow> 'a res" where
  "read_at xs k = (if 0 \<le> k \<and> k < int (length xs) then Inr (xs ! nat k) else Inl Undef)"

definition write_at :: "'a list \<Rightarrow> int \<Rightarrow> 'a \<Rightarrow> 'a list res" where
  "write_at xs k v = (if 0 \<le> k \<and> k < int (length xs) then Inr (xs[nat k := v]) else Inl Undef)"

lemma write_at_mid: "k = int (length p) \<Longrightarrow> write_at (p @ z # q) k v = Inr (p @ v # q)"
  by (simp add: write_at_def)

text \<open>A loop that counts up from 0.\<close>

fun count_loop :: "(nat \<Rightarrow> 's \<Rightarrow> 's res) \<Rightarrow> nat \<Rightarrow> 's \<Rightarrow> 's res" where
  "count_loop f 0 s = Inr s"
| "count_loop f (Suc n) s = rbind (count_loop f n s) (f n)"

section \<open>Frames and resampling\<close>

record audio_frame =
  fr_data :: "pcm list"
  fr_rate :: int
  fr_channels :: int
  fr_bit_rate :: int
  fr_size :: int
  fr_storage :: "pcm list"
  fr_own :: bool

text \<open>The sample of the old frame that is taken for the \<open>i\<close>th of the new one, computed with doubles.\<close>

definition idx_in_unsampled :: "audio_frame \<Rightarrow> int \<Rightarrow> nat \<Rightarrow> int" where
  "idx_in_unsampled f new_sampling_rate i =
     \<lfloor>to_double (of_nat i / to_double (of_int new_sampling_rate / of_int (fr_rate f)))\<rfloor>"

definition resample_step :: "audio_frame \<Rightarrow> int \<Rightarrow> int \<Rightarrow> nat \<Rightarrow> pcm list \<Rightarrow> pcm list res" where
  "resample_step f nc nr i xs =
     (let idx = int i * nc; src = idx_in_unsampled f nr i * fr_channels f; old = read_at (fr_data f)
      in if nc = 1 \<and> fr_channels f = 1 then rbind (old src) (write_at xs idx)
         else if nc = 2 \<and> fr_channels f = 2 then
           rbind (old src) (\<lambda>a. rbind (old (src + 1)) (\<lambda>b.
             rbind (write_at xs idx a) (\<lambda>ys. write_at ys (idx + 1) b)))
         else if nc = 2 \<and> fr_channels f = 1 then
           rbind (old src) (\<lambda>a. rbind (write_at xs (idx + 1) a) (\<lambda>ys. write_at ys idx a))
         else count_loop (\<lambda>j ys. rbind (old (src + min (int j) (fr_channels f - 1))) (write_at ys (idx + int j)))
                (nat nc) xs)"

definition resample_easy :: "audio_frame \<Rightarrow> int \<Rightarrow> int \<Rightarrow> audio_frame res" where
  "resample_easy f nc nr =
     (if nc = fr_channels f \<and> nr = fr_rate f then Inr (if fr_own f then f\<lparr>fr_data := fr_storage f\<rparr> else f)
      else if fr_rate f = 0 \<or> \<not> in_int (fr_size f * 1000) then Inl Undef
      else let ms = fr_size f * 1000 sdiv fr_rate f; needed = nc * nr * ms sdiv 1000; n = nr * ms sdiv 1000
        in if \<not> in_int (nc * nr) \<or> \<not> in_int (nc * nr * ms) \<or> \<not> in_int (nr * ms) then Inl Undef
           else if needed < 0 then Inl Throws
           else rbind (count_loop (resample_step f nc nr) (nat n) (replicate (nat needed) 0)) (\<lambda>xs.
             Inr \<lparr>fr_data = xs, fr_rate = nr, fr_channels = nc, fr_bit_rate = 0, fr_size = n,
               fr_storage = xs, fr_own = True\<rparr>))"

section \<open>PCM data\<close>

record audio_data =
  ad_pcm :: "pcm list"
  ad_rate :: int
  ad_channels :: int
  ad_bit_rate :: int

function chunk :: "nat \<Rightarrow> 'a list \<Rightarrow> 'a list list" where
  "chunk n xs = (if n = 0 \<or> xs = [] then [] else take n xs # chunk n (drop n xs))"
  by pat_completeness auto
termination by (relation "measure (length \<circ> snd)") auto

declare chunk.simps [simp del]

text \<open>The frames of some milliseconds; a frame of no sample makes \<open>size() / frame_size\<close> divide by zero.\<close>

definition pcm_frames :: "audio_data \<Rightarrow> int \<Rightarrow> audio_frame list res" where
  "pcm_frames d ms =
     (let sample_size = ad_channels d;
          samples_per_frame = sint (word_of_int (ad_rate d * ms) :: 32 word) sdiv 1000;
          frame_size = samples_per_frame * sample_size
      in if \<not> in_int frame_size then Inl Undef
         else let n = unat (word_of_int frame_size :: u64)
           in if n = 0 then Inl Undef
              else Inr (map (\<lambda>a. \<lparr>fr_data = a, fr_rate = ad_rate d, fr_channels = ad_channels d,
                     fr_bit_rate = ad_bit_rate d, fr_size = samples_per_frame, fr_storage = [], fr_own = False\<rparr>)
                (chunk n (take (length (ad_pcm d) div n * n) (ad_pcm d)))))"

text \<open>
  The next frame of \<open>youtube-dl\<close> through \<open>ffmpeg\<close>: \<open>async_read\<close> fills the whole buffer or reports an
  error, after which there is no frame. The pipe is the samples still to come.
\<close>

definition ytdl_next :: "int \<Rightarrow> pcm list \<Rightarrow> audio_frame option \<times> pcm list" where
  "ytdl_next ms pipe =
     (let samples = 48000 * ms sdiv 1000; n = nat (samples * 2)
      in if length pipe < n then (None, [])
         else (Some \<lparr>fr_data = take n pipe, fr_rate = 48000, fr_channels = 2, fr_bit_rate = 0, fr_size = samples,
                 fr_storage = take n pipe, fr_own = True\<rparr>, drop n pipe))"

text \<open>What \<open>send_voice\<close> and \<open>send_async\<close> make of a frame before they encode it.\<close>

definition encoder_format :: "audio_frame \<Rightarrow> audio_frame res" where
  "encoder_format f = (if fr_channels f \<noteq> 2 \<or> fr_rate f \<noteq> 48000 then resample_easy f 2 48000 else Inr f)"

section \<open>Where resampling reads and writes\<close>

text \<open>A frame holds its samples.\<close>

definition frame_ok :: "audio_frame \<Rightarrow> bool" where
  "frame_ok f \<longleftrightarrow> 0 < fr_rate f \<and> 0 < fr_channels f \<and> 0 \<le> fr_size f
     \<and> int (length (fr_data f)) = fr_size f * fr_channels f"

text \<open>The samples at time \<open>i\<close> of the new frame.\<close>

definition new_samples :: "audio_frame \<Rightarrow> int \<Rightarrow> int \<Rightarrow> nat \<Rightarrow> pcm list" where
  "new_samples f nc nr i =
     map (\<lambda>j. fr_data f ! nat (idx_in_unsampled f nr i * fr_channels f + min (int j) (fr_channels f - 1))) [0..<nat nc]"

lemma length_new_samples [simp]: "length (new_samples f nc nr i) = nat nc"
  by (simp add: new_samples_def)

lemma old_sample:
  assumes "frame_ok f" "0 \<le> s" "s < fr_size f" "0 \<le> j" "j < fr_channels f"
  shows "read_at (fr_data f) (s * fr_channels f + j) = Inr (fr_data f ! nat (s * fr_channels f + j))"
proof -
  have "(s + 1) * fr_channels f \<le> fr_size f * fr_channels f" using assms by (intro mult_right_mono) (auto simp: frame_ok_def)
  with assms show ?thesis by (simp add: read_at_def frame_ok_def distrib_right)
qed

text \<open>One turn of the loop writes the samples of one time, in each of its four branches.\<close>

lemma resample_step_writes:
  assumes ok: "frame_ok f" and s: "0 \<le> idx_in_unsampled f nr i" "idx_in_unsampled f nr i < fr_size f"
    and p: "int (length p) = int i * nc" and nc: "0 < nc" "nat nc \<le> m"
  shows "resample_step f nc nr i (p @ replicate m 0) = Inr (p @ new_samples f nc nr i @ replicate (m - nat nc) 0)"
proof -
  let ?ch = "fr_channels f" and ?s = "idx_in_unsampled f nr i"
  have ch: "0 < ?ch" using ok by (simp add: frame_ok_def)
  have old: "0 \<le> j \<Longrightarrow> j < ?ch \<Longrightarrow> read_at (fr_data f) (?s * ?ch + j) = Inr (fr_data f ! nat (?s * ?ch + j))" for j
    by (rule old_sample [OF ok s])
  have old0: "read_at (fr_data f) (?s * ?ch) = Inr (fr_data f ! nat (?s * ?ch))" using old [of 0] ch by simp
  have m: "m = Suc (m - 1)" using nc by linarith
  have m2: "nc = 2 \<Longrightarrow> m = Suc (Suc (m - 2))" using nc by linarith
  have at: "nc = 2 \<Longrightarrow> write_at (p @ a # b # q) (int i * 2 + 1) v = Inr (p @ a # v # q)" for a b v q
    using write_at_mid [of "int i * 2 + 1" "p @ [a]" b q v] p by simp
  have at0: "write_at (p @ a # q) (int i * nc) v = Inr (p @ v # q)" for a v q
    using write_at_mid [of "int i * nc" p a q v] p by simp
  show ?thesis
  proof (cases "nc = 1 \<and> ?ch = 1")
    case True
    moreover have "replicate m (0 :: pcm) = 0 # replicate (m - 1) 0" by (metis m replicate_Suc)
    ultimately show ?thesis using old0 at0 by (simp add: resample_step_def new_samples_def)
  next
    case mono: False
    show ?thesis
    proof (cases "nc = 2 \<and> (?ch = 2 \<or> ?ch = 1)")
      case True
      have "[0..<nat nc] = [0, 1]" using True by (simp add: upt_rec)
      with True old0 old [of 1] at at0 show ?thesis
        by (subst m2) (auto simp: resample_step_def new_samples_def Let_def)
    next
      case False
      let ?g = "\<lambda>j ys. rbind (read_at (fr_data f) (?s * ?ch + min (int j) (?ch - 1))) (write_at ys (int i * nc + int j))"
      let ?v = "\<lambda>j. fr_data f ! nat (?s * ?ch + min (int j) (?ch - 1))"
      have "j \<le> nat nc \<Longrightarrow> count_loop ?g j (p @ replicate m 0) = Inr (p @ map ?v [0..<j] @ replicate (m - j) 0)" for j
      proof (induction j)
        case (Suc j)
        then have "m - j = Suc (m - Suc j)" using nc by linarith
        moreover have "write_at ((p @ map ?v [0..<j]) @ 0 # replicate (m - Suc j) 0) (int i * nc + int j) (?v j)
            = Inr ((p @ map ?v [0..<j]) @ ?v j # replicate (m - Suc j) 0)"
          by (rule write_at_mid) (use p in simp)
        ultimately show ?case using Suc old [of "min (int j) (?ch - 1)"] ch by simp
      qed simp
      from this [of "nat nc"] mono False show ?thesis
        by (auto simp: resample_step_def new_samples_def)
    qed
  qed
qed

lemma resample_writes:
  assumes ok: "frame_ok f" and nc: "0 < nc" and m: "n * nat nc \<le> m"
    and s: "\<And>i. i < n \<Longrightarrow> 0 \<le> idx_in_unsampled f nr i \<and> idx_in_unsampled f nr i < fr_size f"
  shows "count_loop (resample_step f nc nr) n (replicate m 0)
    = Inr (concat (map (new_samples f nc nr) [0..<n]) @ replicate (m - n * nat nc) 0)"
  using m s
proof (induction n)
  case (Suc n)
  have len: "int (length (concat (map (new_samples f nc nr) [0..<n]))) = int n * nc"
    using nc by (simp add: length_concat sum_list_triv comp_def)
  have "resample_step f nc nr n (concat (map (new_samples f nc nr) [0..<n]) @ replicate (m - n * nat nc) 0)
    = Inr (concat (map (new_samples f nc nr) [0..<n]) @ new_samples f nc nr n @ replicate (m - n * nat nc - nat nc) 0)"
    by (rule resample_step_writes [OF ok]) (use Suc.prems len nc in auto)
  with Suc show ?case by (simp add: diff_diff_left add.commute)
qed simp

section \<open>How far the doubles are off\<close>

lemma double_pos: "0 < x \<Longrightarrow> 0 < to_double x"
proof -
  assume x: "0 < x"
  then have "x / 2 ^ 53 < x" by simp
  with to_double_close [OF x] show ?thesis by linarith
qed

lemma double_of_zero [simp]: "to_double 0 = 0"
  by (simp add: to_double_def)

text \<open>A quotient of a quotient, each rounded.\<close>

lemma double_quotient_close:
  fixes r :: rat
  assumes r: "0 < r" and x: "0 \<le> x"
  shows "\<bar>to_double (x / to_double r) - x / r\<bar> \<le> x / r * (3 / 2 ^ 53)"
proof (cases "x = 0")
  case False
  let ?e = "1 / 2 ^ 53 :: rat" and ?R = "to_double r"
  have R: "r * (1 - ?e) \<le> ?R" "?R \<le> r * (1 + ?e)" "0 < ?R"
  proof -
    have "\<bar>?R - r\<bar> \<le> r * ?e" using to_double_close [OF r] by simp
    then have "?R - r \<le> r * ?e" "r - ?R \<le> r * ?e" by linarith+
    then show "r * (1 - ?e) \<le> ?R" "?R \<le> r * (1 + ?e)" unfolding right_diff_distrib distrib_left by linarith+
  qed (rule double_pos [OF r])
  have pos: "0 < x / ?R" "0 < x / r" using False x r R(3) by auto
  have up: "x / ?R \<le> x / (r * (1 - ?e))" by (rule divide_left_mono) (use R r x in auto)
  have low: "x / (r * (1 + ?e)) \<le> x / ?R" by (rule divide_left_mono) (use R r x in auto)
  have "\<bar>to_double (x / ?R) - x / ?R\<bar> \<le> x / ?R * ?e" using to_double_close [OF pos(1)] by simp
  then have y: "to_double (x / ?R) \<le> x / ?R * (1 + ?e)" "x / ?R * (1 - ?e) \<le> to_double (x / ?R)"
    by (auto simp: algebra_simps abs_le_iff)
  have "x / ?R * (1 + ?e) \<le> x / (r * (1 - ?e)) * (1 + ?e)" by (rule mult_right_mono [OF up]) simp
  also have "\<dots> = x / r * ((1 + ?e) / (1 - ?e))" by simp
  also have "\<dots> \<le> x / r * (1 + 3 / 2 ^ 53)" by (rule mult_left_mono) (use pos in auto)
  finally have 1: "to_double (x / ?R) \<le> x / r * (1 + 3 / 2 ^ 53)" using y by linarith
  have "x / r * (1 - 3 / 2 ^ 53) \<le> x / r * ((1 - ?e) / (1 + ?e))" by (rule mult_left_mono) (use pos in auto)
  also have "\<dots> = x / (r * (1 + ?e)) * (1 - ?e)" by simp
  also have "\<dots> \<le> x / ?R * (1 - ?e)" by (rule mult_right_mono [OF low]) simp
  finally have 2: "x / r * (1 - 3 / 2 ^ 53) \<le> to_double (x / ?R)" using y by linarith
  from 1 2 show ?thesis by (auto simp: algebra_simps abs_le_iff)
qed simp

lemma div_bracket:
  fixes n a :: int
  assumes "0 < n"
  shows "a div n * n \<le> a" "a + 1 \<le> (a div n + 1) * n"
proof -
  have "a mod n + 1 \<le> n" using pos_mod_bound [OF assms, of a] by (rule zless_imp_add1_zle)
  then show "a div n * n \<le> a" "a + 1 \<le> (a div n + 1) * n"
    using pos_mod_sign [OF assms, of a] unfolding distrib_right minus_mod_eq_div_mult [symmetric] by linarith+
qed

text \<open>The index is the exact one or the one before.\<close>

lemma idx_close:
  assumes nr: "0 < nr" and old: "0 < fr_rate f" and small: "3 * (int i * fr_rate f) < 2 ^ 53"
  shows "idx_in_unsampled f nr i \<le> int i * fr_rate f div nr \<and> int i * fr_rate f div nr \<le> idx_in_unsampled f nr i + 1"
proof -
  let ?r = "of_int nr / of_int (fr_rate f) :: rat" and ?X = "of_int (int i * fr_rate f) / of_int nr :: rat"
  let ?y = "to_double (of_nat i / to_double ?r)" and ?k = "int i * fr_rate f div nr"
  have "of_nat i / ?r = ?X" by simp
  with double_quotient_close [of ?r "of_nat i"] nr old
  have close: "\<bar>?y - ?X\<bar> \<le> ?X * (3 / 2 ^ 53)" by simp
  have "(3 * of_int (int i * fr_rate f) :: rat) < 2 ^ 53"
    using small by (metis of_int_less_iff of_int_mult of_int_numeral of_int_power)
  then have "?X * (3 / 2 ^ 53) < 1 / of_int nr" using nr by (simp add: field_simps)
  with close have near: "?y < ?X + 1 / of_int nr" "?X - 1 / of_int nr < ?y" by (auto simp: abs_le_iff)
  have q: "?k * nr \<le> int i * fr_rate f" "int i * fr_rate f + 1 \<le> (?k + 1) * nr"
    by (rule div_bracket [OF nr])+
  have "(of_int (?k * nr) :: rat) \<le> of_int (int i * fr_rate f)" using q(1) by (rule of_int_le_iff [THEN iffD2])
  then have low: "of_int ?k \<le> ?X" using nr by (simp add: field_simps)
  have "(of_int (int i * fr_rate f + 1) :: rat) \<le> of_int ((?k + 1) * nr)"
    using q(2) by (rule of_int_le_iff [THEN iffD2])
  then have up: "?X + 1 / of_int nr \<le> of_int ?k + 1" using nr by (simp add: field_simps)
  have "1 / of_int nr \<le> (1 :: rat)" using nr by simp
  with near low up have "?y < of_int ?k + 1" "of_int ?k - 1 < ?y" by linarith+
  then show ?thesis by (simp add: idx_in_unsampled_def) linarith
qed

lemma nth_concat_rows:
  "(\<And>i. length (row i) = c) \<Longrightarrow> i < n \<Longrightarrow> j < c \<Longrightarrow> concat (map row [0..<n]) ! (i * c + j) = row i ! j"
proof (induction n)
  case (Suc n)
  have len: "length (concat (map row [0..<n])) = n * c"
    using Suc.prems(1) by (simp add: length_concat sum_list_triv comp_def)
  show ?case
  proof (cases "i < n")
    case True
    have "(i + 1) * c \<le> n * c" using True by (intro mult_le_mono1) simp
    with Suc True len show ?thesis by (simp add: nth_append)
  next
    case False
    with Suc.prems(2) have "i = n" by simp
    with len Suc.prems(1,3) show ?thesis by (simp add: nth_append)
  qed
qed simp

section \<open>What resampling yields\<close>

text \<open>The length of a frame in milliseconds, as it is computed: a part of a millisecond is lost.\<close>

abbreviation frame_ms :: "audio_frame \<Rightarrow> int" where
  "frame_ms f \<equiv> fr_size f * 1000 div fr_rate f"

lemma resample_needed:
  assumes "0 < nc" "0 < nr" "0 \<le> ms"
  shows "nat (nr * ms div 1000) * nat nc \<le> nat (nc * nr * ms div 1000)"
proof -
  let ?a = "nr * ms"
  have "?a div 1000 * nc * 1000 \<le> nc * ?a" using assms by (simp add: mult.commute [of _ nc])
  then have "?a div 1000 * nc * 1000 div 1000 \<le> nc * ?a div 1000" by (rule zdiv_mono1) simp
  then have le: "?a div 1000 * nc \<le> nc * nr * ms div 1000" by (simp add: mult.assoc)
  have "nat (?a div 1000) * nat nc = nat (?a div 1000 * nc)"
    using assms by (simp add: nat_mult_distrib pos_imp_zdiv_nonneg_iff)
  with le show ?thesis by (simp add: nat_mono)
qed

lemma idx_inside:
  assumes f: "frame_ok f" "fr_size f * 1000 < 2 ^ 31" and nr: "0 < nr" "nr < 2 ^ 29"
    and i: "int i < nr * frame_ms f div 1000"
  shows "0 \<le> idx_in_unsampled f nr i \<and> idx_in_unsampled f nr i < fr_size f
    \<and> idx_in_unsampled f nr i \<le> int i * fr_rate f div nr \<and> int i * fr_rate f div nr \<le> idx_in_unsampled f nr i + 1"
proof -
  have rate: "0 < fr_rate f" and size: "0 \<le> fr_size f" using f(1) by (simp_all add: frame_ok_def)
  have "int i * 1000 < nr * frame_ms f" using div_bracket(1) [of 1000 "nr * frame_ms f"] i by linarith
  then have "int i * 1000 * fr_rate f < nr * frame_ms f * fr_rate f" using rate by simp
  also have "\<dots> \<le> nr * (fr_size f * 1000)"
    using div_bracket(1) [OF rate, of "fr_size f * 1000"] nr by (simp only: mult.assoc mult_left_mono less_imp_le)
  finally have less: "int i * fr_rate f < fr_size f * nr" by (simp add: mult.commute [of nr])
  have "fr_size f * nr \<le> 2147483 * nr" using f(2) nr by (intro mult_right_mono) auto
  moreover have "nr < 536870912" using nr by simp
  ultimately have "3 * (int i * fr_rate f) < 9007199254740992" using less by linarith
  then have "3 * (int i * fr_rate f) < 2 ^ 53" by simp
  note close = idx_close [OF nr(1) rate this]
  have "int i * fr_rate f div nr * nr < fr_size f * nr" using div_bracket(1) [OF nr(1)] less by (rule le_less_trans)
  then have "int i * fr_rate f div nr < fr_size f" using nr by simp
  moreover have "0 \<le> idx_in_unsampled f nr i"
    unfolding idx_in_unsampled_def using nr rate
    by (cases "i = 0") (auto intro!: less_imp_le double_pos divide_pos_pos)
  ultimately show ?thesis using close by linarith
qed

definition new_data :: "audio_frame \<Rightarrow> int \<Rightarrow> int \<Rightarrow> pcm list" where
  "new_data f nc nr =
     (let n = nat (nr * frame_ms f div 1000)
      in concat (map (new_samples f nc nr) [0..<n]) @ replicate (nat (nc * nr * frame_ms f div 1000) - n * nat nc) 0)"

lemma resample_easy_yields:
  assumes f: "frame_ok f" and other: "nc \<noteq> fr_channels f \<or> nr \<noteq> fr_rate f" and nc: "0 < nc" and nr: "0 < nr" "nr < 2 ^ 29"
    and fits: "fr_size f * 1000 < 2 ^ 31" "nc * nr < 2 ^ 31" "nc * nr * frame_ms f < 2 ^ 31"
  shows "resample_easy f nc nr = Inr \<lparr>fr_data = new_data f nc nr, fr_rate = nr, fr_channels = nc, fr_bit_rate = 0,
      fr_size = nr * frame_ms f div 1000, fr_storage = new_data f nc nr, fr_own = True\<rparr>"
    and "int (length (new_data f nc nr)) = nc * nr * frame_ms f div 1000"
proof -
  let ?ms = "frame_ms f" and ?n = "nr * frame_ms f div 1000" and ?m = "nc * nr * frame_ms f div 1000"
  have rate: "0 < fr_rate f" and size: "0 \<le> fr_size f" using f by (simp_all add: frame_ok_def)
  then have ms: "0 \<le> ?ms" by (simp add: pos_imp_zdiv_nonneg_iff)
  have pos: "0 \<le> nc * nr" "0 \<le> nr * ?ms" "0 \<le> nc * nr * ?ms" using nc nr ms by simp_all
  have "1 * (nr * ?ms) \<le> nc * (nr * ?ms)" using nc pos by (intro mult_right_mono) auto
  with fits(3) have "nr * ?ms < 2 ^ 31" by (simp add: mult.assoc)
  with pos fits size have ints: "in_int (fr_size f * 1000)" "in_int (nc * nr)" "in_int (nc * nr * ?ms)" "in_int (nr * ?ms)"
    by (simp_all add: in_int_def)
  have m: "0 \<le> ?m" using pos by (simp add: pos_imp_zdiv_nonneg_iff)
  then have no: "(?m < 0) = False" by simp
  have needed: "nat ?n * nat nc \<le> nat ?m" by (rule resample_needed [OF nc nr(1) ms])
  have "count_loop (resample_step f nc nr) (nat ?n) (replicate (nat ?m) 0) = Inr (new_data f nc nr)"
    unfolding new_data_def Let_def
    by (rule resample_writes [OF f nc needed]) (use idx_inside [OF f fits(1) nr] in auto)
  with ints other rate size nr nc ms pos
  show "resample_easy f nc nr = Inr \<lparr>fr_data = new_data f nc nr, fr_rate = nr, fr_channels = nc, fr_bit_rate = 0,
      fr_size = ?n, fr_storage = new_data f nc nr, fr_own = True\<rparr>"
    by (auto simp: resample_easy_def Let_def no)
  show "int (length (new_data f nc nr)) = ?m"
    using needed m by (simp add: new_data_def Let_def length_concat sum_list_triv comp_def)
qed

lemma new_data_at:
  assumes "int i < nr * frame_ms f div 1000" "int j < nc"
  shows "new_data f nc nr ! (i * nat nc + j) =
    fr_data f ! nat (idx_in_unsampled f nr i * fr_channels f + min (int j) (fr_channels f - 1))"
proof -
  let ?n = "nat (nr * frame_ms f div 1000)"
  have ij: "i < ?n" "j < nat nc" using assms by simp_all
  have len: "length (concat (map (new_samples f nc nr) [0..<?n])) = ?n * nat nc"
    by (simp add: length_concat sum_list_triv comp_def)
  have "(i + 1) * nat nc \<le> ?n * nat nc" using ij by (intro mult_le_mono1) simp
  with ij len have "new_data f nc nr ! (i * nat nc + j) = concat (map (new_samples f nc nr) [0..<?n]) ! (i * nat nc + j)"
    by (simp add: new_data_def Let_def nth_append)
  also have "\<dots> = new_samples f nc nr i ! j" by (rule nth_concat_rows) (use ij in auto)
  finally show ?thesis using ij by (simp add: new_samples_def)
qed

text \<open>C33: Resampling a frame that holds its samples to another format reads and writes inside the frames only. It
  yields a frame of as many samples per channel as the old one has whole milliseconds' worth of, and each is the
  old sample at the same time or the one before it, of the same channel or of the last the old frame has.\<close>
theorem resample_in_bounds:
  assumes "frame_ok f" "nc \<noteq> fr_channels f \<or> nr \<noteq> fr_rate f" "0 < nc" "0 < nr" "nr < 2 ^ 29"
    and "fr_size f * 1000 < 2 ^ 31" "nc * nr < 2 ^ 31" "nc * nr * frame_ms f < 2 ^ 31"
  shows "\<exists>g. resample_easy f nc nr = Inr g \<and> fr_rate g = nr \<and> fr_channels g = nc
    \<and> fr_size g = nr * frame_ms f div 1000 \<and> int (length (fr_data g)) = nc * nr * frame_ms f div 1000
    \<and> (\<forall>i j. int i < fr_size g \<longrightarrow> int j < nc \<longrightarrow>
        (\<exists>k. k \<le> int i * fr_rate f div nr \<and> int i * fr_rate f div nr \<le> k + 1 \<and> 0 \<le> k \<and> k < fr_size f
           \<and> fr_data g ! (i * nat nc + j) = fr_data f ! nat (k * fr_channels f + min (int j) (fr_channels f - 1))))"
  using resample_easy_yields [OF assms] idx_inside [OF assms(1,6,4,5)] new_data_at [of _ nr f _ nc] by auto

section \<open>PCM data in frames\<close>

lemma concat_chunk: "0 < n \<Longrightarrow> concat (chunk n xs) = xs"
  by (induction n xs rule: chunk.induct) (subst chunk.simps, auto)

lemma chunk_length: "n dvd length xs \<Longrightarrow> ys \<in> set (chunk n xs) \<Longrightarrow> length ys = n"
proof (induction n xs rule: chunk.induct)
  case (1 n xs)
  show ?case
  proof (cases "n = 0 \<or> xs = []")
    case False
    with 1(2) have "n \<le> length xs" "n dvd length (drop n xs)" by (auto intro: dvd_imp_le)
    with 1 False show ?thesis by (subst (asm) (2) chunk.simps) auto
  qed (use 1(3) in \<open>simp add: chunk.simps [of n xs]\<close>)
qed

lemma pcm_frames_ok:
  assumes rate: "0 < ad_rate d" "0 < ms" "ad_rate d * ms < 2 ^ 31" and ch: "0 < ad_channels d"
    and size: "0 < ad_rate d * ms div 1000" "ad_rate d * ms div 1000 * ad_channels d < 2 ^ 31"
  shows "\<exists>fs. pcm_frames d ms = Inr fs
    \<and> (\<forall>f \<in> set fs. frame_ok f \<and> fr_size f = ad_rate d * ms div 1000 \<and> fr_rate f = ad_rate d \<and> fr_channels f = ad_channels d)
    \<and> (\<exists>rest. concat (map fr_data fs) @ rest = ad_pcm d \<and> int (length rest) < ad_rate d * ms div 1000 * ad_channels d)"
proof -
  let ?spf = "ad_rate d * ms div 1000" and ?k = "ad_rate d * ms div 1000 * ad_channels d" and ?p = "ad_pcm d"
  have pos: "0 \<le> ad_rate d * ms" using rate by simp
  have "sint (word_of_int (ad_rate d * ms) :: 32 word) = ad_rate d * ms"
    using pos rate(3) by (intro sint_in_int) (simp add: in_int_def)
  with pos have spf: "sint (word_of_int (ad_rate d * ms) :: 32 word) sdiv 1000 = ?spf" by simp
  have k: "0 < ?k" using size ch by simp
  then have u: "unat (word_of_int ?k :: u64) = nat ?k"
    using size(2) by (intro unat_of_positive) simp_all
  let ?n = "nat ?k" and ?m = "length ?p div nat ?k * nat ?k"
  let ?f = "\<lambda>a. \<lparr>fr_data = a, fr_rate = ad_rate d, fr_channels = ad_channels d, fr_bit_rate = ad_bit_rate d,
      fr_size = ?spf, fr_storage = [], fr_own = False\<rparr>"
  let ?fs = "map ?f (chunk ?n (take ?m ?p))"
  have n: "0 < ?n" using k by simp
  have frames: "pcm_frames d ms = Inr ?fs"
    using k size(2) n by (simp add: pcm_frames_def spf u Let_def in_int_def del: of_int_mult)
  have m: "?m \<le> length ?p" by simp
  have "\<forall>f \<in> set ?fs. frame_ok f \<and> fr_size f = ?spf \<and> fr_rate f = ad_rate d \<and> fr_channels f = ad_channels d"
  proof
    fix f assume "f \<in> set ?fs"
    then obtain a where a: "f = ?f a" "a \<in> set (chunk ?n (take ?m ?p))" by auto
    then have "length a = ?n" by (intro chunk_length) (simp_all add: min_absorb2 [OF m])
    with a(1) k rate ch size show "frame_ok f \<and> fr_size f = ?spf \<and> fr_rate f = ad_rate d \<and> fr_channels f = ad_channels d"
      by (simp add: frame_ok_def)
  qed
  moreover have "concat (map fr_data ?fs) @ drop ?m ?p = ?p" using concat_chunk [OF n, of "take ?m ?p"] by (simp add: comp_def)
  moreover have "int (length (drop ?m ?p)) < ?k"
  proof -
    have "length (drop ?m ?p) = length ?p mod ?n" by (simp add: minus_div_mult_eq_mod)
    also have "\<dots> < ?n" using n by simp
    finally show ?thesis by (simp only: zless_nat_eq_int_zless)
  qed
  ultimately show ?thesis using frames by blast
qed

text \<open>Every 20 milliseconds of PCM data at a multiple of 50 Hz reach the encoder as 960 samples for each of two
  channels at 48000 Hz, which it takes.\<close>

lemma encoder_takes_960:
  assumes rate: "ad_rate d = 50 * s" "0 < s" "s < 2147484" and ch: "0 < ad_channels d" "s * ad_channels d < 2 ^ 31"
    and frames: "pcm_frames d 20 = Inr fs" "f \<in> set fs"
  shows "\<exists>g. encoder_format f = Inr g \<and> fr_rate g = 48000 \<and> fr_channels g = 2 \<and> fr_size g = 960 \<and> length (fr_data g) = 1920"
proof -
  have s: "ad_rate d * 20 div 1000 = s" using rate by simp
  have f: "frame_ok f" "fr_size f = s" "fr_rate f = 50 * s" "fr_channels f = ad_channels d"
    using pcm_frames_ok [OF _ _ _ ch(1), of 20] frames rate ch s by auto
  then have ms: "frame_ms f = 20" using rate by simp
  show ?thesis
  proof (cases "fr_channels f \<noteq> 2 \<or> fr_rate f \<noteq> 48000")
    case True
    then have "2 \<noteq> fr_channels f \<or> 48000 \<noteq> fr_rate f" by auto
    from resample_easy_yields [OF f(1) this] True f(2) ms rate show ?thesis by (simp add: encoder_format_def)
  next
    case False
    with f have "fr_size f = 960" "int (length (fr_data f)) = 1920" by (simp_all add: frame_ok_def)
    with False show ?thesis by (simp add: encoder_format_def)
  qed
qed

text \<open>PCM data is cut into frames that hold exactly their number of samples and come in order, and less than one
  frame is left out, at the end. Every frame of 20 milliseconds of data at a multiple of 50 Hz reaches the encoder
  as 960 samples for each of two channels at 48000 Hz.\<close>
theorem pcm_whole_frames:
  assumes "0 < ad_rate d" "ad_rate d * 20 < 2 ^ 31" "50 dvd ad_rate d" "0 < ad_channels d"
    and "ad_rate d * 20 div 1000 * ad_channels d < 2 ^ 31"
  shows "\<exists>fs. pcm_frames d 20 = Inr fs
    \<and> (\<exists>rest. concat (map fr_data fs) @ rest = ad_pcm d \<and> int (length rest) < ad_rate d div 50 * ad_channels d)
    \<and> (\<forall>f \<in> set fs. frame_ok f \<and> fr_size f = ad_rate d div 50
         \<and> (\<exists>g. encoder_format f = Inr g \<and> fr_rate g = 48000 \<and> fr_channels g = 2 \<and> fr_size g = 960 \<and> length (fr_data g) = 1920))"
proof -
  obtain s where s: "ad_rate d = 50 * s" using assms(3) by blast
  then have "0 < s" "ad_rate d * 20 div 1000 = s" "s < 2147484" using assms by simp_all
  with s show ?thesis using pcm_frames_ok [of d 20] encoder_takes_960 [OF s] assms by auto
qed

text \<open>A rate that is no multiple of 50 Hz: the 220 samples of 20 milliseconds at 11025 Hz are 19 whole milliseconds,
  and the encoder gets 912 samples, a length it does not have.\<close>

lemma cd_quarter_rate_short:
  assumes "ad_rate d = 11025" "ad_channels d = 1" "pcm_frames d 20 = Inr fs" "f \<in> set fs"
  shows "\<exists>g. encoder_format f = Inr g \<and> fr_size g = 912"
proof -
  have f: "frame_ok f" "fr_size f = 220" "fr_rate f = 11025" "fr_channels f = 1"
    using pcm_frames_ok [of d 20] assms by auto
  from resample_easy_yields [OF f(1), of 2 48000] f show ?thesis by (simp add: encoder_format_def)
qed

end
