(* ===== verification/Voice.thy ===== *)
theory Voice
  imports Audio Handlers
begin

unbundle bit_operations_syntax

text \<open>
  A voice connection (\<open>include/discord_voice_connection.h\<close>, \<open>src/discord_voice_connection.cpp\<close>,
  \<open>common/opus_encoder.h\<close>): the handshake on its web socket, the discovery of its own address, the voice packets,
  and the coroutine that plays audio with the cancelling of it.

  The opus encoder, \<open>libsodium\<close>'s secret box and the parser of addresses are not part of the repository:
  they are the fields of \<open>voice_env\<close>. What is written to the web socket and to the UDP socket is recorded in order.
  A store through a cast to a wider integer writes the integer's bytes; \<open>htons\<close> and \<open>htonl\<close> make that
  the most significant byte first.
\<close>

section \<open>Bytes\<close>

definition be16 :: "u16 \<Rightarrow> u8 list" where
  "be16 w = [ucast (drop_bit 8 w), ucast w]"

definition be32 :: "u32 \<Rightarrow> u8 list" where
  "be32 w = [ucast (drop_bit 24 w), ucast (drop_bit 16 w), ucast (drop_bit 8 w), ucast w]"

definition of_be16 :: "u8 \<Rightarrow> u8 \<Rightarrow> u16" where
  "of_be16 a b = push_bit 8 (ucast a) OR ucast b"

section \<open>The connection\<close>

definition int_to_string :: "int \<Rightarrow> string" where
  "int_to_string n = (if n < 0 then ''-'' @ std_to_string (nat (- n)) else std_to_string (nat n))"

datatype voice_message =
  Vm_identify snowflake snowflake string string | Vm_first_heartbeat | Vm_heartbeat int | Vm_speaking int int u32
| Vm_select_protocol string u16

record 'e voice_env =
  ve_encode :: "'e \<Rightarrow> audio_frame \<Rightarrow> 'e \<times> u8 list option"
  ve_secretbox :: "u8 list \<Rightarrow> u8 list \<Rightarrow> u8 list \<Rightarrow> u8 list"
  ve_address :: "string \<Rightarrow> string option"

text \<open>
  \<open>vc_setup\<close> counts how often the promise of the set-up was resolved; \<open>vc_hb_loops\<close>, \<open>vc_connecting\<close> and
  \<open>vc_discovering\<close> count the coroutines that wait for the heartbeat timer, for the connection of the UDP socket and for
  the answer on it; \<open>vc_reconnects\<close> counts the reconnections of the web socket. A promise of \<open>cancel_current_data\<close> is a number,
  \<open>vc_promises\<close> the number of those made; \<open>vc_resolved\<close> are those resolved, in order.
\<close>

record 'e voice =
  vc_guild_id :: snowflake
  vc_my_id :: snowflake
  vc_token :: string
  vc_session_id :: string
  vc_interval :: int
  vc_ssrc :: u32
  vc_setup :: nat
  vc_delay :: int
  vc_alive :: bool
  vc_ip :: string
  vc_port :: int
  vc_hb_number :: int
  vc_modes :: "string list"
  vc_timestamp :: u32
  vc_endpoint :: "string \<times> u16"
  vc_key :: "u8 list"
  vc_encoder :: 'e
  vc_playing :: bool
  vc_canceled :: bool
  vc_promises :: nat
  vc_resolved :: "nat list"
  vc_hb_loops :: nat
  vc_connecting :: nat
  vc_discovering :: nat
  vc_reconnects :: nat
  vc_ws :: "voice_message list"
  vc_closed :: bool
  vc_probes :: "u8 list list"
  vc_packets :: "u8 list list"

definition new_voice :: "snowflake \<Rightarrow> snowflake \<Rightarrow> string \<Rightarrow> string \<Rightarrow> 'e \<Rightarrow> 'e voice" where
  "new_voice guild me token session encoder = \<lparr>vc_guild_id = guild, vc_my_id = me, vc_token = token, vc_session_id = session,
     vc_interval = 0, vc_ssrc = 0, vc_setup = 0, vc_delay = 0, vc_alive = True, vc_ip = '''', vc_port = 0, vc_hb_number = 1,
     vc_modes = [], vc_timestamp = 0, vc_endpoint = ('''', 0), vc_key = [], vc_encoder = encoder, vc_playing = False,
     vc_canceled = False, vc_promises = 0, vc_resolved = [], vc_hb_loops = 0, vc_connecting = 0, vc_discovering = 0,
     vc_reconnects = 0, vc_ws = [], vc_closed = False, vc_probes = [], vc_packets = []\<rparr>"

definition ws_send :: "voice_message \<Rightarrow> 'e voice \<Rightarrow> 'e voice" where
  "ws_send m c = c\<lparr>vc_ws := vc_ws c @ [m]\<rparr>"

text \<open>The texts of the messages, line by line.\<close>

definition line :: "nat \<Rightarrow> string \<Rightarrow> string" where
  "line n t = replicate n (CHR '' '') @ t @ [CHR 0x0A]"

definition tab_line :: "nat \<Rightarrow> string \<Rightarrow> string" where
  "tab_line n t = replicate n (CHR 0x09) @ t @ [CHR 0x0A]"

definition jkey :: "string \<Rightarrow> string" where "jkey k = quote @ k @ quote @ '':''"

fun voice_text :: "voice_message \<Rightarrow> string" where
  "voice_text (Vm_identify guild me session token) =
     line 0 '''' @ line 0 '''' @ line 0 ''{'' @ line 4 (jkey ''op'' @ '' 0,'') @ line 4 (jkey ''d'' @ '' {'')
     @ line 8 (jkey ''server_id'' @ '' '' @ quote @ std_to_string (unat (sf_val guild)) @ quote @ '','')
     @ line 8 (jkey ''user_id'' @ '' '' @ quote @ std_to_string (unat (sf_val me)) @ quote @ '','')
     @ line 8 (jkey ''session_id'' @ '' '' @ quote @ session @ quote @ '','')
     @ line 8 (jkey ''token'' @ '' '' @ quote @ token @ quote) @ line 4 ''}'' @ line 0 ''}''"
| "voice_text (Vm_speaking n delay ssrc) =
     line 0 '''' @ line 0 ''{'' @ line 4 (jkey ''op'' @ '' 5,'') @ line 4 (jkey ''d'' @ '' {'')
     @ line 8 (jkey ''speaking'' @ '' '' @ int_to_string n @ '','')
     @ line 8 (jkey ''delay'' @ '' '' @ int_to_string delay @ '','')
     @ line 8 (jkey ''ssrc'' @ '' '' @ std_to_string (unat ssrc)) @ line 4 ''}'' @ line 0 ''}''"
| "voice_text Vm_first_heartbeat =
     line 0 '''' @ tab_line 4 ''{'' @ tab_line 4 (jkey ''op'' @ ''3,'') @ tab_line 4 (jkey ''d'' @ ''1'')
     @ tab_line 4 ''}'' @ replicate 4 (CHR 0x09)"
| "voice_text (Vm_heartbeat n) =
     line 0 '''' @ tab_line 3 ''{'' @ tab_line 3 (jkey ''op'' @ ''3,'') @ tab_line 3 (jkey ''d'' @ int_to_string n)
     @ tab_line 3 ''}'' @ replicate 3 (CHR 0x09)"
| "voice_text (Vm_select_protocol address port) =
     line 0 ''{'' @ tab_line 1 (jkey ''op'' @ '' 1,'') @ tab_line 1 (jkey ''d'' @ '' {'')
     @ tab_line 2 (jkey ''protocol'' @ '' '' @ quote @ ''udp'' @ quote @ '','') @ tab_line 2 (jkey ''data'' @ '' {'')
     @ tab_line 3 (jkey ''address'' @ '' '' @ quote @ address @ quote @ '','')
     @ tab_line 3 (jkey ''port'' @ '' '' @ std_to_string (unat port) @ '','')
     @ tab_line 3 (jkey ''mode'' @ '' '' @ quote @ ''xsalsa20_poly1305'' @ quote)
     @ tab_line 2 ''}'' @ tab_line 1 ''}'' @ ''}''"

section \<open>The handshake\<close>

definition send_identify :: "'e voice \<Rightarrow> 'e voice" where
  "send_identify c = ws_send (Vm_identify (vc_guild_id c) (vc_my_id c) (vc_session_id c) (vc_token c)) c"

text \<open>\<open>start\<close> identifies and reads.\<close>

definition start_voice :: "'e voice \<Rightarrow> 'e voice" where
  "start_voice c = send_identify c"

text \<open>The heartbeat is sent every three quarters of the interval by a coroutine that goes on while the connection lives.\<close>

definition on_hello :: "'j json_api \<Rightarrow> 'j \<Rightarrow> 'e voice handler" where
  "on_hello J d =
     hread (rbind (at_mut J d ''heartbeat_interval'') (as_int J)) (\<lambda>n.
       if \<not> in_int (n * 3) then hfail Undef
       else hmod (\<lambda>c. let c = ws_send Vm_first_heartbeat (c\<lparr>vc_interval := n * 3 sdiv 4\<rparr>)
         in if vc_alive c then c\<lparr>vc_hb_loops := vc_hb_loops c + 1\<rparr> else c))"

text \<open>The timer of one of the coroutines ends, with an error or not.\<close>

definition voice_heartbeat :: "bool \<Rightarrow> 'e voice \<Rightarrow> 'e voice" where
  "voice_heartbeat ec c =
     (if ec then c\<lparr>vc_hb_loops := vc_hb_loops c - 1\<rparr>
      else let c = (ws_send (Vm_heartbeat (vc_hb_number c)) c)\<lparr>vc_hb_number := vc_hb_number c + 1\<rparr>
        in if vc_alive c then c else c\<lparr>vc_hb_loops := vc_hb_loops c - 1\<rparr>)"

definition on_ready :: "'j json_api \<Rightarrow> 'j \<Rightarrow> 'e voice handler" where
  "on_ready J d = hseq
     [hread (rbind (at_mut J d ''ssrc'') (as_int J)) (\<lambda>n. hmod (\<lambda>c. c\<lparr>vc_ssrc := word_of_int n\<rparr>)),
      hread (rbind (at_mut J d ''ip'') (as_str J)) (\<lambda>v. hmod (\<lambda>c. c\<lparr>vc_ip := v\<rparr>)),
      hread (rbind (at_mut J d ''port'') (as_int J)) (\<lambda>n. hmod (\<lambda>c. c\<lparr>vc_port := n\<rparr>)),
      hread (rbind (at_mut J d ''modes'') (as_vector (as_str J) J)) (\<lambda>v. hmod (\<lambda>c. c\<lparr>vc_modes := v\<rparr>)),
      hmod (\<lambda>c. c\<lparr>vc_connecting := vc_connecting c + 1\<rparr>)]"

text \<open>The probe: 74 bytes with the type 1, the length 70, the source and the port.\<close>

definition discovery_probe :: "u32 \<Rightarrow> int \<Rightarrow> u8 list" where
  "discovery_probe ssrc port = [0, 1] @ be16 70 @ be32 ssrc @ replicate 64 0 @ be16 (word_of_int port)"

definition udp_connected :: "'e voice \<Rightarrow> 'e voice" where
  "udp_connected c = c\<lparr>vc_connecting := vc_connecting c - 1, vc_discovering := vc_discovering c + 1,
     vc_probes := vc_probes c @ [discovery_probe (vc_ssrc c) (vc_port c)]\<rparr>"

text \<open>
  The answer fills a buffer of 74 zeros from its start. The address is the C string at 8; without a zero byte it
  runs out of the buffer. An address that cannot be parsed throws, and the coroutine ends.
\<close>

definition c_string :: "u8 list \<Rightarrow> string res" where
  "c_string bs = (if 0 \<in> set bs then Inr (map (\<lambda>b. char_of (unat b)) (takeWhile (\<lambda>b. b \<noteq> 0) bs)) else Inl Undef)"

definition read_answer :: "'e voice_env \<Rightarrow> u8 list \<Rightarrow> (string \<times> u16) res" where
  "read_answer E received =
     (let msg = take 74 received @ replicate (74 - length received) 0
      in rbind (c_string (drop 8 msg)) (\<lambda>t.
         rbind (or_throw (ve_address E t)) (\<lambda>a. Inr (a, of_be16 (msg ! 72) (msg ! 73)))))"

definition send_op1_select_protocol :: "'e voice \<Rightarrow> 'e voice" where
  "send_op1_select_protocol c = ws_send (Vm_select_protocol (fst (vc_endpoint c)) (snd (vc_endpoint c))) c"

definition do_ip_discovery :: "'e voice_env \<Rightarrow> u8 list \<Rightarrow> 'e voice handler" where
  "do_ip_discovery E received =
     hthen (hmod (\<lambda>c. c\<lparr>vc_discovering := vc_discovering c - 1\<rparr>))
       (hread (read_answer E received) (\<lambda>ep. hmod (\<lambda>c. send_op1_select_protocol (c\<lparr>vc_endpoint := ep\<rparr>))))"

text \<open>The promise lives in the coroutine that sets the connection up, which ends when it is resolved: a second value is
  set on no promise.\<close>

definition on_session_discription :: "'j json_api \<Rightarrow> 'j \<Rightarrow> 'e voice handler" where
  "on_session_discription J d =
     hread (rbind (at_mut J d ''secret_key'') (as_vector (\<lambda>v. rmap word_of_int (as_int J v)) J)) (\<lambda>k.
       hthen (hmod (\<lambda>c. c\<lparr>vc_key := k\<rparr>))
         (hget (\<lambda>c. if vc_setup c = 0 then hmod (\<lambda>c. c\<lparr>vc_setup := 1\<rparr>) else hfail Undef)))"

definition on_msg_recv :: "'j json_api \<Rightarrow> 'j \<Rightarrow> int \<Rightarrow> 'e voice handler" where
  "on_msg_recv J d opcode =
     (if opcode = 2 then on_ready J d
      else if opcode = 4 then on_session_discription J d
      else if opcode = 8 then on_hello J d
      else hdone)"

definition on_voice_read :: "'j json_api \<Rightarrow> (string \<Rightarrow> 'j option) \<Rightarrow> string \<Rightarrow> 'e voice handler" where
  "on_voice_read J parse s =
     hread (or_throw (parse s)) (\<lambda>json.
       hread (rbind (at_mut J json ''op'') (as_int J)) (\<lambda>opcode.
         hread (at_mut J json ''d'') (\<lambda>d. on_msg_recv J d opcode)))"

text \<open>An error of the web socket: only its number and whether the operation was aborted are looked at.\<close>

definition on_voice_error :: "bool \<Rightarrow> int \<Rightarrow> 'e voice \<Rightarrow> 'e voice" where
  "on_voice_error aborted ec c =
     (if \<not> aborted \<and> ec \<noteq> 4014 then c\<lparr>vc_reconnects := vc_reconnects c + 1\<rparr> else c)"

section \<open>Voice packets\<close>

definition rtp_header :: "u16 \<Rightarrow> u32 \<Rightarrow> u32 \<Rightarrow> u8 list" where
  "rtp_header sequence_number timestamp ssrc = [0x80, 0x78] @ be16 sequence_number @ be32 timestamp @ be32 ssrc"

text \<open>The nonce is the header and zeros; a key shorter than 32 bytes is read past its end.\<close>

definition encrypt_xsalsa20_poly1305 :: "'e voice_env \<Rightarrow> u8 list \<Rightarrow> u8 list \<Rightarrow> u8 list \<Rightarrow> u8 list res" where
  "encrypt_xsalsa20_poly1305 E key header audio =
     (if length key < 32 then Inl Undef
      else Inr (header @ ve_secretbox E (take 32 key) (header @ replicate 12 0) audio))"

text \<open>The encoder reads two samples for each of the frame's, and throws on an error.\<close>

definition encode_into_buffer :: "'e voice_env \<Rightarrow> 'e \<Rightarrow> audio_frame \<Rightarrow> 'e \<times> u8 list res" where
  "encode_into_buffer E e f =
     (if int (length (fr_data f)) < 2 * fr_size f then (e, Inl Undef)
      else case ve_encode E e f of (e', None) \<Rightarrow> (e', Inl Throws) | (e', Some bs) \<Rightarrow> (e', Inr bs))"

definition send_frame :: "'e voice_env \<Rightarrow> audio_frame \<Rightarrow> u16 \<Rightarrow> u32 \<Rightarrow> 'e voice handler" where
  "send_frame E f sequence_number ssrc c =
     (case encode_into_buffer E (vc_encoder c) f of (e, r) \<Rightarrow>
        hread r (\<lambda>audio. hread (encrypt_xsalsa20_poly1305 E (vc_key c) (rtp_header sequence_number (vc_timestamp c) ssrc) audio)
          (\<lambda>packet. hmod (\<lambda>c. c\<lparr>vc_packets := vc_packets c @ [packet],
             vc_timestamp := vc_timestamp c + word_of_int (fr_size f)\<rparr>)))
          (c\<lparr>vc_encoder := e\<rparr>))"

section \<open>Playing\<close>

text \<open>
  Where the coroutine of \<open>send_voice\<close> is: not running; before the store to \<open>is_playing\<close>; at the head of the loop with
  the frames to come, the sequence number and the source; after the exchange that has seen the cancelling; after the store that ends
  playing; back on the strand. The last two know whether the playing was cancelled. The steps run from one access of
  the atomics to the next, so every interleaving with \<open>cancel_current_data\<close> is a sequence of steps.
\<close>

datatype play_place =
  Idle | Starting "audio_frame list" | Frames "audio_frame list" u16 u32 | Taken | Quiet bool | Strand bool

definition control_speaking :: "int \<Rightarrow> 'e voice \<Rightarrow> 'e voice" where
  "control_speaking is_speaking c = ws_send (Vm_speaking is_speaking (vc_delay c) (vc_ssrc c)) c"

definition set_cancel_promise :: "'e voice \<Rightarrow> 'e voice" where
  "set_cancel_promise c = c\<lparr>vc_resolved := vc_resolved c @ [vc_promises c]\<rparr>"

text \<open>One step of the coroutine. A fault of a frame leaves it: nothing after the loop runs.\<close>

definition play_step :: "'e voice_env \<Rightarrow> play_place \<Rightarrow> 'e voice \<Rightarrow> fault option \<times> play_place \<times> 'e voice" where
  "play_step E p c =
     (case p of
        Idle \<Rightarrow> (None, Idle, c)
      | Starting fs \<Rightarrow> (None, Frames fs 0 (vc_ssrc c), c\<lparr>vc_playing := True\<rparr>)
      | Frames [] n ssrc \<Rightarrow> (None, Quiet False, c\<lparr>vc_playing := False\<rparr>)
      | Frames (f # fs) n ssrc \<Rightarrow>
          if vc_canceled c then (None, Taken, c\<lparr>vc_canceled := False\<rparr>)
          else (case hread (encoder_format f) (\<lambda>g. send_frame E g n ssrc) c of
                  (None, c') \<Rightarrow> (None, Frames fs (n + 1) ssrc, c')
                | (Some x, c') \<Rightarrow> (Some x, Idle, c'))
      | Taken \<Rightarrow> (None, Quiet True, c\<lparr>vc_playing := False\<rparr>)
      | Quiet cancelled \<Rightarrow> (None, Strand cancelled, control_speaking 0 c)
      | Strand True \<Rightarrow> (None, Idle, set_cancel_promise c)
      | Strand False \<Rightarrow>
          (None, Idle, if vc_canceled c then set_cancel_promise (c\<lparr>vc_canceled := False\<rparr>) else c))"

definition send_voice :: "audio_frame list \<Rightarrow> 'e voice \<Rightarrow> play_place \<times> 'e voice" where
  "send_voice frames c = (Starting frames, control_speaking 1 c)"

text \<open>The result is whether the task is ready at once.\<close>

definition cancel_current_data :: "'e voice \<Rightarrow> bool \<times> 'e voice" where
  "cancel_current_data c =
     (if \<not> vc_playing c \<or> vc_canceled c then (True, c)
      else (False, c\<lparr>vc_promises := vc_promises c + 1, vc_canceled := True\<rparr>))"

definition close_voice :: "'e voice \<Rightarrow> 'e voice" where
  "close_voice c = snd (cancel_current_data (c\<lparr>vc_alive := False, vc_closed := True\<rparr>))"

end
