(* ===== verification/Voice_Laws.thy ===== *)
theory Voice_Laws
  imports Voice
begin

text \<open>
  What a voice connection does: the discovery of its address, the headers of its packets, playing and cancelling.
\<close>

section \<open>Bytes\<close>

lemma length_be [simp]: "length (be16 w) = 2" "length (be32 v) = 4"
  by (simp_all add: be16_def be32_def)

lemma of_be16_back: "of_be16 (be16 w ! 0) (be16 w ! Suc 0) = w"
  unfolding be16_def of_be16_def
  by (intro bit_word_eqI) (auto simp: bit_simps split: nat.splits)

lemma be32_inj: "be32 v = be32 w \<longleftrightarrow> v = w"
proof
  assume "be32 v = be32 w"
  then have b: "(ucast (drop_bit 24 v) :: u8) = ucast (drop_bit 24 w)" "(ucast (drop_bit 16 v) :: u8) = ucast (drop_bit 16 w)"
    "(ucast (drop_bit 8 v) :: u8) = ucast (drop_bit 8 w)" "(ucast v :: u8) = ucast w"
    by (simp_all add: be32_def)
  show "v = w"
  proof (rule bit_word_eqI)
    fix n assume "n < LENGTH(32)"
    then consider "n < 8" | "8 \<le> n" "n < 16" | "16 \<le> n" "n < 24" | "24 \<le> n" "n < 32" by fastforce
    then show "bit v n \<longleftrightarrow> bit w n"
    proof cases
      case 1
      then show ?thesis using arg_cong [OF b(4), of "\<lambda>x. bit x n"] by (simp add: bit_simps less_diff_conv2)
    next
      case 2
      then show ?thesis using arg_cong [OF b(3), of "\<lambda>x. bit x (n - 8)"] by (simp add: bit_simps less_diff_conv2)
    next
      case 3
      then show ?thesis using arg_cong [OF b(2), of "\<lambda>x. bit x (n - 16)"] by (simp add: bit_simps less_diff_conv2)
    next
      case 4
      then show ?thesis using arg_cong [OF b(1), of "\<lambda>x. bit x (n - 24)"] by (simp add: bit_simps less_diff_conv2)
    qed
  qed
qed simp

lemma rtp_header_inj: "rtp_header n t s = rtp_header m u s \<Longrightarrow> t = u"
  by (simp add: rtp_header_def be16_def be32_inj)

lemma length_rtp_header [simp]: "length (rtp_header n t s) = 12"
  by (simp add: rtp_header_def)

section \<open>Runs of the player\<close>

text \<open>
  Playing, cancelling and closing in any order, with one coroutine at a time. In a run that is not racy no other
  thread cancels between the exchange that sees a cancelling and the store that ends playing, which follows
  it without a suspension.
\<close>

definition silent :: "'e voice \<Rightarrow> bool" where
  "silent c \<longleftrightarrow> \<not> vc_playing c \<and> \<not> vc_canceled c \<and> vc_promises c = 0 \<and> vc_resolved c = [] \<and> vc_packets c = []"

inductive play_run :: "'e voice_env \<Rightarrow> bool \<Rightarrow> (audio_frame \<Rightarrow> bool) \<Rightarrow> 'e voice \<Rightarrow> play_place \<Rightarrow> 'e voice \<Rightarrow> bool"
  for E racy good c0 where
  Begin: "silent c0 \<Longrightarrow> play_run E racy good c0 Idle c0"
| Send: "play_run E racy good c0 Idle c \<Longrightarrow> list_all good fs \<Longrightarrow> send_voice fs c = (p', c') \<Longrightarrow> play_run E racy good c0 p' c'"
| Step: "play_run E racy good c0 p c \<Longrightarrow> play_step E p c = (r, p', c') \<Longrightarrow> r \<noteq> Some Undef \<Longrightarrow> play_run E racy good c0 p' c'"
| Cancel: "play_run E racy good c0 p c \<Longrightarrow> racy \<or> p \<noteq> Taken \<Longrightarrow> play_run E racy good c0 p (snd (cancel_current_data c))"
| Close: "play_run E racy good c0 p c \<Longrightarrow> racy \<or> p \<noteq> Taken \<Longrightarrow> play_run E racy good c0 p (close_voice c)"

lemmas voice_simps = control_speaking_def ws_send_def set_cancel_promise_def send_voice_def

text \<open>What a frame does to the connection.\<close>

lemma send_frame_cases:
  assumes "hread (encoder_format f) (\<lambda>g. send_frame E g n s) c = (r, c')"
  obtains (fault) x e where "r = Some x" "c' = c\<lparr>vc_encoder := e\<rparr>"
  | (sent) g e' audio packet where "r = None" "encoder_format f = Inr g" "encode_into_buffer E (vc_encoder c) g = (e', Inr audio)"
      "encrypt_xsalsa20_poly1305 E (vc_key c) (rtp_header n (vc_timestamp c) s) audio = Inr packet"
      "c' = c\<lparr>vc_encoder := e', vc_packets := vc_packets c @ [packet], vc_timestamp := vc_timestamp c + word_of_int (fr_size g)\<rparr>"
proof (cases "encoder_format f")
  case (Inl x)
  with assms show ?thesis by (intro fault [of x "vc_encoder c"]) (simp_all add: hread_def)
next
  case (Inr g)
  obtain e' a where a: "encode_into_buffer E (vc_encoder c) g = (e', a)" by force
  show ?thesis
  proof (cases a)
    case (Inl x)
    with assms Inr a show ?thesis by (intro fault [of x e']) (simp_all add: hread_def send_frame_def)
  next
    case ok: (Inr audio)
    show ?thesis
    proof (cases "encrypt_xsalsa20_poly1305 E (vc_key c) (rtp_header n (vc_timestamp c) s) audio")
      case (Inl x)
      with assms Inr a ok show ?thesis by (intro fault [of x e']) (simp_all add: hread_def send_frame_def)
    next
      case (Inr packet)
      with assms \<open>encoder_format f = Inr g\<close> a ok show ?thesis
        by (intro sent [of g e' audio packet]) (simp_all add: hread_def send_frame_def hmod_def)
    qed
  qed
qed

lemma play_step_frame:
  assumes "play_step E (Frames (f # fs) n s) c = (r, p', c')" "\<not> vc_canceled c"
  shows "\<exists>r'. hread (encoder_format f) (\<lambda>g. send_frame E g n s) c = (r', c')
    \<and> r = r' \<and> p' = (if r' = None then Frames fs (n + 1) s else Idle)"
  using assms by (auto simp: play_step_def split: prod.splits option.splits)

section \<open>Cancelling\<close>

text \<open>A cancelling waits for its answer.\<close>

definition cancel_waits :: "play_place \<Rightarrow> 'e voice \<Rightarrow> bool" where
  "cancel_waits p c \<longleftrightarrow> vc_canceled c \<or> p \<in> {Taken, Quiet True, Strand True}"

definition cancel_inv :: "play_place \<Rightarrow> 'e voice \<Rightarrow> bool" where
  "cancel_inv p c \<longleftrightarrow>
     (if cancel_waits p c then 0 < vc_promises c \<and> vc_resolved c = [1 ..< vc_promises c]
      else vc_resolved c = [1 ..< Suc (vc_promises c)])
     \<and> (p \<in> {Taken, Quiet True, Strand True} \<longrightarrow> \<not> vc_canceled c)
     \<and> (vc_canceled c \<longrightarrow> vc_playing c \<or> p \<in> {Quiet False, Strand False})
     \<and> (\<forall>b. p = Quiet b \<or> p = Strand b \<longrightarrow> \<not> vc_playing c)"

lemma cancel_inv_cancel:
  "cancel_inv p c \<Longrightarrow> p \<noteq> Taken \<Longrightarrow> cancel_inv p (snd (cancel_current_data c))"
  by (auto simp: cancel_inv_def cancel_waits_def cancel_current_data_def split: if_splits)

lemma cancel_inv_step:
  assumes "cancel_inv p c" "play_step E p c = (r, p', c')"
  shows "cancel_inv p' c'"
proof (cases "\<exists>f fs n s. p = Frames (f # fs) n s \<and> \<not> vc_canceled c")
  case True
  then obtain f fs n s where p: "p = Frames (f # fs) n s" "\<not> vc_canceled c" by blast
  from play_step_frame [OF assms(2) [unfolded p(1)] p(2)] obtain r' where
    h: "hread (encoder_format f) (\<lambda>g. send_frame E g n s) c = (r', c')" "p' = (if r' = None then Frames fs (n + 1) s else Idle)"
    by blast
  from h(1) show ?thesis
    by (cases rule: send_frame_cases) (use assms(1) p h(2) in \<open>auto simp: cancel_inv_def cancel_waits_def\<close>)
next
  case False
  with assms show ?thesis
    by (auto simp: play_step_def cancel_inv_def cancel_waits_def voice_simps split: play_place.splits list.splits bool.splits if_splits)
qed

lemma play_run_cancel_inv: "play_run E False good c0 p c \<Longrightarrow> cancel_inv p c"
proof (induction rule: play_run.induct)
  case (Begin)
  then show ?case by (simp add: silent_def cancel_inv_def cancel_waits_def)
next
  case (Send c fs p' c')
  then show ?case by (auto simp: cancel_inv_def cancel_waits_def voice_simps)
next
  case (Step p c r p' c')
  then show ?case by (blast intro: cancel_inv_step)
next
  case (Close p c)
  then have "cancel_inv p (c\<lparr>vc_alive := False, vc_closed := True\<rparr>)" by (simp add: cancel_inv_def cancel_waits_def)
  with Close show ?case by (simp add: close_voice_def cancel_inv_cancel)
qed (simp add: cancel_inv_cancel)


text \<open>The coroutine by itself for some steps.\<close>

fun play_steps :: "'e voice_env \<Rightarrow> nat \<Rightarrow> play_place \<Rightarrow> 'e voice \<Rightarrow> fault option \<times> play_place \<times> 'e voice" where
  "play_steps E 0 p c = (None, p, c)"
| "play_steps E (Suc n) p c =
     (case play_step E p c of (None, p', c') \<Rightarrow> play_steps E n p' c' | (Some x, p', c') \<Rightarrow> (Some x, p', c'))"

text \<open>C31: A cancelling that was made while audio is played ends it at the next frame: four steps later nothing is played,
  no packet more was sent, the end of speaking was told and the promise of the cancelling is resolved.\<close>
theorem cancelled_stops:
  assumes "play_run E False good c0 (Frames fs n s) c" "vc_canceled c"
  shows "\<exists>c'. play_steps E 4 (Frames fs n s) c = (None, Idle, c') \<and> \<not> vc_playing c' \<and> \<not> vc_canceled c'
    \<and> vc_packets c' = vc_packets c \<and> vc_ws c' = vc_ws c @ [Vm_speaking 0 (vc_delay c) (vc_ssrc c)]
    \<and> vc_resolved c' = [1 ..< Suc (vc_promises c)]"
proof -
  have "0 < vc_promises c" "vc_resolved c = [1 ..< vc_promises c]"
    using play_run_cancel_inv [OF assms(1)] assms(2) by (simp_all add: cancel_inv_def cancel_waits_def)
  then show ?thesis
    using assms(2) by (cases fs) (auto simp: play_step_def voice_simps eval_nat_numeral)
qed

text \<open>In a racy run a second cancelling between the exchange and the store makes a new promise: the first is never
  resolved, and the second resolves twice, the second time when the next audio is played.\<close>

lemma cancelled_twice:
  assumes "vc_playing c" "\<not> vc_canceled c" "vc_promises c = n" "vc_resolved c = [1 ..< n]"
    and "play_steps E 3 Taken (snd (cancel_current_data c)) = (r, p, d)"
    and "send_voice (f # fs) d = (q, d')" "play_steps E 5 q d' = (r', p', d'')"
  shows "vc_resolved d'' = [1 ..< n] @ [Suc n, Suc n]"
  using assms by (auto simp: play_step_def voice_simps cancel_current_data_def eval_nat_numeral)

text \<open>A frame that cannot be encoded leaves \<open>is_playing\<close> set: a cancelling after it makes a promise although nothing
  is played, and only audio that is sent later, which it ends at its first frame, resolves it.\<close>

lemma failed_frame_plays_on:
  assumes "play_step E (Frames (f # fs) n s) c = (Some x, p, d)" "vc_playing c"
  shows "p = Idle \<and> vc_playing d"
proof -
  have "\<not> vc_canceled c" using assms(1) by (auto simp: play_step_def)
  from play_step_frame [OF assms(1) this] obtain r' where
    h: "hread (encoder_format f) (\<lambda>g. send_frame E g n s) c = (r', d)" "r' = Some x" "p = (if r' = None then Frames fs (n + 1) s else Idle)"
    by blast
  from h(1) show ?thesis by (cases rule: send_frame_cases) (use h assms(2) in auto)
qed

section \<open>The headers of the packets\<close>

text \<open>The frames take 20 milliseconds, as \<open>pcm_whole_frames\<close> shows of PCM data.\<close>

definition lasts_20ms :: "audio_frame \<Rightarrow> bool" where
  "lasts_20ms f \<longleftrightarrow> (\<exists>g. encoder_format f = Inr g \<and> fr_size g = 960)"

definition packets_inv :: "u32 \<Rightarrow> u32 \<Rightarrow> play_place \<Rightarrow> 'e voice \<Rightarrow> bool" where
  "packets_inv t0 ssrc p c \<longleftrightarrow> vc_ssrc c = ssrc \<and> vc_timestamp c = t0 + of_nat (960 * length (vc_packets c))
     \<and> (\<forall>j < length (vc_packets c). \<exists>n. take 12 (vc_packets c ! j) = rtp_header n (t0 + of_nat (960 * j)) ssrc)
     \<and> (case p of Starting fs \<Rightarrow> list_all lasts_20ms fs | Frames fs n s \<Rightarrow> list_all lasts_20ms fs \<and> s = ssrc | _ \<Rightarrow> True)"

lemma encrypt_header: "encrypt_xsalsa20_poly1305 E k h audio = Inr packet \<Longrightarrow> length h = 12 \<Longrightarrow> take 12 packet = h"
  by (auto simp: encrypt_xsalsa20_poly1305_def split: if_splits)

lemma packets_inv_cong:
  assumes "packets_inv t0 ssrc p c" "vc_ssrc c' = vc_ssrc c" "vc_timestamp c' = vc_timestamp c" "vc_packets c' = vc_packets c"
    and "case p' of Starting fs \<Rightarrow> list_all lasts_20ms fs | Frames fs n s \<Rightarrow> list_all lasts_20ms fs \<and> s = ssrc | _ \<Rightarrow> True"
  shows "packets_inv t0 ssrc p' c'"
  using assms by (simp add: packets_inv_def)

lemma packets_inv_sent:
  assumes inv: "packets_inv t0 ssrc (Frames (f # fs) n s) c" and g: "encoder_format f = Inr g"
    and packet: "encrypt_xsalsa20_poly1305 E (vc_key c) (rtp_header n (vc_timestamp c) s) audio = Inr packet"
  shows "packets_inv t0 ssrc (Frames fs (n + 1) s) (c\<lparr>vc_encoder := e, vc_packets := vc_packets c @ [packet],
    vc_timestamp := vc_timestamp c + word_of_int (fr_size g)\<rparr>)"
proof -
  have "fr_size g = 960" using inv g by (auto simp: packets_inv_def lasts_20ms_def)
  moreover have "take 12 packet = rtp_header n (vc_timestamp c) s" by (rule encrypt_header [OF packet]) simp
  ultimately show ?thesis using inv by (auto simp: packets_inv_def nth_append less_Suc_eq algebra_simps)
qed

lemma packets_inv_step:
  assumes "packets_inv t0 ssrc p c" "play_step E p c = (r, p', c')"
  shows "packets_inv t0 ssrc p' c'"
proof (cases "\<exists>f fs n s. p = Frames (f # fs) n s \<and> \<not> vc_canceled c")
  case True
  then obtain f fs n s where p: "p = Frames (f # fs) n s" "\<not> vc_canceled c" by blast
  from play_step_frame [OF assms(2) [unfolded p(1)] p(2)] obtain r' where
    h: "hread (encoder_format f) (\<lambda>g. send_frame E g n s) c = (r', c')" "p' = (if r' = None then Frames fs (n + 1) s else Idle)"
    by blast
  from h(1) show ?thesis
  proof (cases rule: send_frame_cases)
    case fault
    then show ?thesis using assms(1) h(2) by (auto intro: packets_inv_cong)
  next
    case (sent g e' audio packet)
    then show ?thesis using packets_inv_sent [OF assms(1) [unfolded p(1)] sent(2,4)] h(2) by simp
  qed
next
  case False
  with assms(2) show ?thesis
    by (intro packets_inv_cong [OF assms(1)])
       (use assms(1) in \<open>auto simp: play_step_def voice_simps packets_inv_def split: play_place.splits list.splits bool.splits if_splits\<close>)
qed

lemma play_run_packets:
  "play_run E racy lasts_20ms c0 p c \<Longrightarrow> packets_inv (vc_timestamp c0) (vc_ssrc c0) p c"
proof (induction rule: play_run.induct)
  case (Begin)
  then show ?case by (simp add: silent_def packets_inv_def)
next
  case (Send c fs p' c')
  then show ?case by (auto simp: voice_simps intro: packets_inv_cong)
next
  case (Step p c r p' c')
  then show ?case by (blast intro: packets_inv_step)
next
  case (Cancel p c)
  from Cancel.IH show ?case
    by (rule packets_inv_cong) (use Cancel.IH in \<open>auto simp: cancel_current_data_def packets_inv_def\<close>)
next
  case (Close p c)
  from Close.IH show ?case
    by (rule packets_inv_cong) (use Close.IH in \<open>auto simp: close_voice_def cancel_current_data_def packets_inv_def\<close>)
qed

lemma timestamps_differ:
  assumes "i < j" "j - i < 2 ^ 26"
  shows "(of_nat (960 * i) :: u32) \<noteq> of_nat (960 * j)"
proof
  assume "(of_nat (960 * i) :: u32) = of_nat (960 * j)"
  then have "960 * j mod 2 ^ 32 = 960 * i mod (2 ^ 32 :: nat)"
    by (simp add: word_of_nat_eq_iff take_bit_eq_mod del: of_nat_mult)
  then have "(2 ^ 32 :: nat) dvd 960 * j - 960 * i"
    using mod_eq_dvd_iff_nat [of "960 * i" "960 * j"] assms(1) by simp
  then have "(64 * 2 ^ 26 :: nat) dvd 64 * ((j - i) * 15)" by (simp add: diff_mult_distrib2)
  then have "(2 ^ 26 :: nat) dvd (j - i) * 15" by (rule nat_mult_dvd_cancel1 [THEN iffD1, rotated]) simp
  moreover have "coprime (2 ^ 26 :: nat) 15" by (simp only: coprime_power_left_iff coprime_left_2_iff_odd) simp
  ultimately have "(2 ^ 26 :: nat) dvd j - i" by (simp only: coprime_dvd_mult_left_iff)
  with assms show False by (auto dest: dvd_imp_le)
qed


section \<open>Packets\<close>

definition voice_packet :: "'e voice_env \<Rightarrow> u8 list \<Rightarrow> u8 list \<Rightarrow> u8 list \<Rightarrow> u8 list" where
  "voice_packet E k h audio = h @ ve_secretbox E (take 32 k) (h @ replicate 12 0) audio"

text \<open>A frame that the encoder gets as 960 samples for each of two channels, and an encoder that takes all such.\<close>

definition encodable :: "audio_frame \<Rightarrow> bool" where
  "encodable f \<longleftrightarrow> (\<exists>g. encoder_format f = Inr g \<and> fr_size g = 960 \<and> length (fr_data g) = 1920)"

definition encoder_total :: "'e voice_env \<Rightarrow> bool" where
  "encoder_total E \<longleftrightarrow> (\<forall>e g. fr_size g = 960 \<and> length (fr_data g) = 1920 \<longrightarrow> snd (ve_encode E e g) \<noteq> None)"

lemma send_encodable:
  assumes "encodable f" "encoder_total E" "32 \<le> length (vc_key c)" "\<not> vc_canceled c"
  obtains g e a where "encoder_format f = Inr g" "ve_encode E (vc_encoder c) g = (e, Some a)"
    "play_step E (Frames (f # fs) n s) c = (None, Frames fs (n + 1) s,
       c\<lparr>vc_encoder := e, vc_packets := vc_packets c @ [voice_packet E (vc_key c) (rtp_header n (vc_timestamp c) s) a],
         vc_timestamp := vc_timestamp c + 960\<rparr>)"
proof -
  obtain g where g: "encoder_format f = Inr g" "fr_size g = 960" "length (fr_data g) = 1920"
    using assms(1) by (auto simp: encodable_def)
  with assms(2) obtain e a where a: "ve_encode E (vc_encoder c) g = (e, Some a)"
    by (metis encoder_total_def not_None_eq prod.collapse)
  show thesis
    by (rule that [OF g(1) a])
       (use g a assms(3,4) in \<open>simp add: play_step_def send_frame_def encode_into_buffer_def encrypt_xsalsa20_poly1305_def
          handler_simps voice_packet_def\<close>)
qed

text \<open>C32: Frames that are not cancelled are all sent, each as one packet and in order: the packets are numbered from the first
  sequence number, their timestamps are 960 apart, and each holds its frame's encoding, sealed under its header.\<close>
theorem uninterrupted_packets:
  assumes "list_all encodable fs" "encoder_total E" "32 \<le> length (vc_key c)" "\<not> vc_canceled c"
  shows "\<exists>c' audio. play_steps E (length fs) (Frames fs n s) c = (None, Frames [] (n + of_nat (length fs)) s, c')
    \<and> vc_packets c' = vc_packets c @ map (\<lambda>i. voice_packet E (vc_key c)
        (rtp_header (n + of_nat i) (vc_timestamp c + of_nat (960 * i)) s) (audio i)) [0 ..< length fs]
    \<and> (\<forall>i < length fs. \<exists>g e e'. encoder_format (fs ! i) = Inr g \<and> ve_encode E e g = (e', Some (audio i)))"
  using assms
proof (induction fs arbitrary: n c)
  case (Cons f fs)
  have f: "encodable f" and fs: "list_all encodable fs" using Cons.prems(1) by simp_all
  obtain g e a where g: "encoder_format f = Inr g" and a: "ve_encode E (vc_encoder c) g = (e, Some a)"
    and step: "play_step E (Frames (f # fs) n s) c = (None, Frames fs (n + 1) s,
       c\<lparr>vc_encoder := e, vc_packets := vc_packets c @ [voice_packet E (vc_key c) (rtp_header n (vc_timestamp c) s) a],
         vc_timestamp := vc_timestamp c + 960\<rparr>)" (is "_ = (_, _, ?c)")
    by (rule send_encodable [OF f Cons.prems(2-4)])
  obtain c' audio where
    run: "play_steps E (length fs) (Frames fs (n + 1) s) ?c = (None, Frames [] (n + 1 + of_nat (length fs)) s, c')"
    and packets: "vc_packets c' = vc_packets ?c @ map (\<lambda>i. voice_packet E (vc_key c)
        (rtp_header (n + 1 + of_nat i) (vc_timestamp c + 960 + of_nat (960 * i)) s) (audio i)) [0 ..< length fs]"
    and coded: "\<forall>i < length fs. \<exists>g e e'. encoder_format (fs ! i) = Inr g \<and> ve_encode E e g = (e', Some (audio i))"
    using Cons.IH [of ?c "n + 1"] fs Cons.prems by auto
  let ?audio = "case_nat a audio"
  have "[0 ..< length (f # fs)] = 0 # map Suc [0 ..< length fs]" by (simp add: upt_conv_Cons map_Suc_upt del: upt_Suc)
  with packets have "vc_packets c' = vc_packets c @ map (\<lambda>i. voice_packet E (vc_key c)
      (rtp_header (n + of_nat i) (vc_timestamp c + of_nat (960 * i)) s) (?audio i)) [0 ..< length (f # fs)]"
    by (simp add: algebra_simps comp_def del: upt_Suc)
  moreover have "play_steps E (length (f # fs)) (Frames (f # fs) n s) c = (None, Frames [] (n + of_nat (length (f # fs))) s, c')"
    using step run by (simp add: algebra_simps)
  moreover have "\<forall>i < length (f # fs). \<exists>g e e'. encoder_format ((f # fs) ! i) = Inr g \<and> ve_encode E e g = (e', Some (?audio i))"
    using coded g a by (auto simp: less_Suc_eq_0_disj)
  ultimately show ?case by blast
qed simp

section \<open>The handshake\<close>

text \<open>What a server answers to the probe: the address in a field of 64 bytes, and the port.\<close>

definition discovery_answer :: "u8 list \<Rightarrow> string \<Rightarrow> u16 \<Rightarrow> u8 list" where
  "discovery_answer pre address port =
     pre @ map (\<lambda>ch. of_nat (of_char ch)) address @ replicate (64 - length address) 0 @ be16 port"

lemma char_of_byte: "char_of (unat (of_nat (of_char ch) :: u8)) = ch"
  by (simp add: unsigned_of_nat take_bit_eq_mod)

lemma byte_zero: "(of_nat (of_char ch) :: u8) = 0 \<longleftrightarrow> ch = CHR 0x00"
proof
  assume "(of_nat (of_char ch) :: u8) = 0"
  then have "unat (of_nat (of_char ch) :: u8) = 0" by simp
  then show "ch = CHR 0x00" using char_of_byte [of ch] by (simp add: char_of_def)
qed simp

lemma c_string_back:
  assumes "CHR 0x00 \<notin> set t"
  shows "c_string (map (\<lambda>ch. of_nat (of_char ch)) t @ 0 # bs) = Inr t"
proof -
  have "takeWhile (\<lambda>b. b \<noteq> 0) (map (\<lambda>ch. of_nat (of_char ch)) t @ (0 :: u8) # bs) = map (\<lambda>ch. of_nat (of_char ch)) t"
    using assms by (subst takeWhile_append2) (auto simp: byte_zero)
  then show ?thesis by (simp add: c_string_def char_of_byte comp_def)
qed

lemma read_answer_back:
  assumes pre: "length pre = 8" and t: "length t < 64" "CHR 0x00 \<notin> set t" and E: "ve_address E t = Some a"
  shows "read_answer E (discovery_answer pre t p) = Inr (a, p)"
proof -
  let ?b = "map (\<lambda>ch. of_nat (of_char ch)) t :: u8 list" and ?ans = "discovery_answer pre t p"
  have len: "length ?ans = 74" using pre t(1) by (simp add: discovery_answer_def)
  have "drop 8 ?ans = ?b @ replicate (64 - length t) 0 @ be16 p" using pre by (simp add: discovery_answer_def)
  moreover have "replicate (64 - length t) (0 :: u8) = 0 # replicate (63 - length t) 0"
  proof -
    have "64 - length t = Suc (63 - length t)" using t(1) by simp
    then show ?thesis by (simp only: replicate_Suc)
  qed
  ultimately have str: "c_string (drop 8 ?ans) = Inr t" using c_string_back [OF t(2)] by simp
  have "?ans = (pre @ ?b @ replicate (64 - length t) 0) @ be16 p" "length (pre @ ?b @ replicate (64 - length t) 0) = 72"
    using pre t(1) by (simp_all add: discovery_answer_def)
  then have "?ans ! 72 = be16 p ! 0" "?ans ! 73 = be16 p ! 1" by (simp_all only: nth_append) simp_all
  with len str E show ?thesis by (simp add: read_answer_def Let_def of_be16_back)
qed

text \<open>An answer to the probe that names an address and a port in the protocol's layout sets them as the connection's
  own and is told to the gateway, whatever its first 8 bytes are.\<close>
theorem discovery_roundtrip:
  assumes "length pre = 8" "length t < 64" "CHR 0x00 \<notin> set t" "ve_address E t = Some a"
  shows "\<exists>c'. do_ip_discovery E (discovery_answer pre t p) c = (None, c')
    \<and> vc_endpoint c' = (a, p) \<and> vc_ws c' = vc_ws c @ [Vm_select_protocol a p]"
  using read_answer_back [OF assms, of p]
  by (simp add: do_ip_discovery_def hthen_def handler_simps send_op1_select_protocol_def ws_send_def)

text \<open>A server that goes through the handshake: the connection identifies, starts its heartbeat, asks for its address
  with the given source and port, names the address and has the key; then the set-up is done, once.\<close>

lemma voice_handshake:
  assumes hello: "rbind (at_mut J h ''heartbeat_interval'') (as_int J) = Inr n" "in_int (n * 3)" "0 \<le> n"
    and ready: "rbind (at_mut J r ''ssrc'') (as_int J) = Inr ssrc" "rbind (at_mut J r ''ip'') (as_str J) = Inr ip"
      "rbind (at_mut J r ''port'') (as_int J) = Inr port" "rbind (at_mut J r ''modes'') (as_vector (as_str J) J) = Inr modes"
    and answer: "read_answer E ans = Inr (a, p)"
    and desc: "rbind (at_mut J d ''secret_key'') (as_vector (\<lambda>v. rmap word_of_int (as_int J v)) J) = Inr k"
  shows "\<exists>c1 c2 c3 c4. on_msg_recv J h 8 (start_voice (new_voice g me token session e)) = (None, c1)
    \<and> on_msg_recv J r 2 c1 = (None, c2) \<and> do_ip_discovery E ans (udp_connected c2) = (None, c3)
    \<and> on_msg_recv J d 4 c3 = (None, c4)
    \<and> vc_ws c4 = [Vm_identify g me session token, Vm_first_heartbeat, Vm_select_protocol a p]
    \<and> vc_probes c4 = [discovery_probe (word_of_int ssrc) port] \<and> vc_interval c4 = n * 3 div 4 \<and> vc_hb_loops c4 = 1
    \<and> vc_key c4 = k \<and> vc_setup c4 = 1 \<and> (\<forall>c5. on_msg_recv J d 4 c4 \<noteq> (None, c5))"
  using assms
  by (simp add: on_msg_recv_def on_hello_def on_ready_def on_session_discription_def do_ip_discovery_def udp_connected_def
      start_voice_def send_identify_def new_voice_def ws_send_def send_op1_select_protocol_def hthen_def handler_simps)

text \<open>A second hello, as after a reconnection, starts a second heartbeat coroutine.\<close>

lemma second_hello_second_loop:
  assumes "on_hello J h c = (None, c1)" "vc_alive c"
  shows "vc_hb_loops c1 = vc_hb_loops c + 1 \<and> vc_hb_number c1 = vc_hb_number c"
  using assms by (auto simp: on_hello_def hread_def handler_simps ws_send_def Let_def split: sum.splits if_splits)

end
