(* ===== verification/Voice_Cases.thy ===== *)
theory Voice_Cases
  imports Voice_Laws
begin

text \<open>
  The theorems on audio and voice applied to small inputs: a mono frame that is resampled, stereo data at 44100 Hz,
  and a connection that plays frames of silence and is cancelled.
\<close>

section \<open>Audio\<close>

definition mono_frame :: audio_frame where
  "mono_frame = \<lparr>fr_data = replicate 480 7, fr_rate = 24000, fr_channels = 1, fr_bit_rate = 0, fr_size = 480,
     fr_storage = [], fr_own = False\<rparr>"

theorem resample_in_bounds_witness:
  "\<exists>g. resample_easy mono_frame 2 48000 = Inr g \<and> fr_size g = 960 \<and> int (length (fr_data g)) = 1920
    \<and> (\<exists>k. k \<le> 250 \<and> 250 \<le> k + 1 \<and> fr_data g ! (500 * 2 + 1) = fr_data mono_frame ! nat (k + 0))"
proof -
  have "frame_ok mono_frame" by (simp add: frame_ok_def mono_frame_def)
  from resample_in_bounds [OF this, of 2 48000] obtain g where
    g: "resample_easy mono_frame 2 48000 = Inr g" "fr_size g = 960" "int (length (fr_data g)) = 1920"
    and at: "\<forall>i j. int i < fr_size g \<longrightarrow> int j < 2 \<longrightarrow>
        (\<exists>k. k \<le> int i * 24000 div 48000 \<and> int i * 24000 div 48000 \<le> k + 1 \<and> 0 \<le> k \<and> k < 480
           \<and> fr_data g ! (i * 2 + j) = fr_data mono_frame ! nat (k * 1 + min (int j) (1 - 1)))"
    by (auto simp: mono_frame_def)
  from at [rule_format, of 500 1] g show ?thesis by auto
qed

definition cd_data :: audio_data where
  "cd_data = \<lparr>ad_pcm = replicate 2000 7, ad_rate = 44100, ad_channels = 2, ad_bit_rate = 0\<rparr>"

theorem pcm_whole_frames_witness:
  "\<exists>fs rest. pcm_frames cd_data 20 = Inr fs \<and> concat (map fr_data fs) @ rest = replicate 2000 7 \<and> int (length rest) < 1764
    \<and> (\<forall>f \<in> set fs. \<exists>g. encoder_format f = Inr g \<and> fr_size g = 960 \<and> length (fr_data g) = 1920)"
proof -
  have "(50 :: int) dvd 44100" by simp
  moreover have "ad_rate cd_data = 44100" "ad_channels cd_data = 2" "ad_pcm cd_data = replicate 2000 7" by (simp_all add: cd_data_def)
  ultimately have "\<exists>fs. pcm_frames cd_data 20 = Inr fs
    \<and> (\<exists>rest. concat (map fr_data fs) @ rest = replicate 2000 7 \<and> int (length rest) < 1764)
    \<and> (\<forall>f \<in> set fs. frame_ok f \<and> fr_size f = 882
         \<and> (\<exists>g. encoder_format f = Inr g \<and> fr_rate g = 48000 \<and> fr_channels g = 2 \<and> fr_size g = 960 \<and> length (fr_data g) = 1920))"
    using pcm_whole_frames [of cd_data] by simp
  then show ?thesis by blast
qed

section \<open>Voice\<close>

definition silence :: audio_frame where
  "silence = \<lparr>fr_data = replicate 1920 0, fr_rate = 48000, fr_channels = 2, fr_bit_rate = 0, fr_size = 960,
     fr_storage = [], fr_own = False\<rparr>"

definition sample_env :: "nat voice_env" where
  "sample_env = \<lparr>ve_encode = (\<lambda>e f. (e + 1, Some [0xF8, 0xFF, of_nat e])), ve_secretbox = (\<lambda>k n a. map (\<lambda>x. x XOR hd k) a @ take 4 n),
     ve_address = (\<lambda>t. if t = '''' then None else Some t)\<rparr>"

definition sample_voice :: "nat voice" where
  "sample_voice = (new_voice (Snowflake 7) (Snowflake 8) ''token'' ''session'' 0)\<lparr>vc_key := replicate 32 1, vc_ssrc := 99\<rparr>"

lemma sample_encodable: "encodable silence" "lasts_20ms silence" "encoder_total sample_env" "32 \<le> length (vc_key sample_voice)"
  by (auto simp: encodable_def lasts_20ms_def encoder_total_def encoder_format_def silence_def sample_env_def sample_voice_def)

lemma sample_silent: "silent sample_voice"
  by (simp add: silent_def sample_voice_def new_voice_def)

lemma play_steps_run:
  "play_run E racy good c0 p c \<Longrightarrow> play_steps E n p c = (None, p', c') \<Longrightarrow> play_run E racy good c0 p' c'"
proof (induction n arbitrary: p c)
  case (Suc n)
  then show ?case by (auto split: prod.splits option.splits dest: play_run.Step)
qed simp

text \<open>Two frames are sent, then the third is cancelled.\<close>

lemma sample_frame:
  assumes "\<not> vc_canceled c" "32 \<le> length (vc_key c)"
  shows "\<exists>c'. play_step sample_env (Frames (silence # fs) n s) c = (None, Frames fs (n + 1) s, c')
    \<and> length (vc_packets c') = Suc (length (vc_packets c)) \<and> vc_playing c' = vc_playing c \<and> \<not> vc_canceled c'
    \<and> vc_promises c' = vc_promises c \<and> vc_key c' = vc_key c"
  by (rule send_encodable [OF sample_encodable(1,3) assms(2,1), of fs n s]) (use assms in simp)

lemma sample_play_eq:
  "\<exists>c. play_steps sample_env 3 (fst (send_voice (replicate 3 silence) sample_voice))
     (snd (send_voice (replicate 3 silence) sample_voice)) = (None, Frames [silence] 2 99, c)
   \<and> length (vc_packets c) = 2 \<and> vc_playing c \<and> \<not> vc_canceled c \<and> vc_promises c = 0"
proof -
  let ?c = "control_speaking 1 sample_voice"
  have can: "\<not> vc_canceled ?c" "32 \<le> length (vc_key ?c)" "vc_ssrc ?c = 99" "vc_packets ?c = []" "vc_promises ?c = 0"
    by (simp_all add: voice_simps sample_voice_def new_voice_def)
  obtain c1 where c1: "play_step sample_env (Frames [silence, silence, silence] 0 99) (?c\<lparr>vc_playing := True\<rparr>)
      = (None, Frames [silence, silence] 1 99, c1)"
    "length (vc_packets c1) = 1" "vc_playing c1" "\<not> vc_canceled c1" "vc_promises c1 = 0" "32 \<le> length (vc_key c1)"
    using sample_frame [of "?c\<lparr>vc_playing := True\<rparr>" "[silence, silence]" 0 99] can by auto
  obtain c2 where c2: "play_step sample_env (Frames [silence, silence] 1 99) c1 = (None, Frames [silence] 2 99, c2)"
    "length (vc_packets c2) = 2" "vc_playing c2" "\<not> vc_canceled c2" "vc_promises c2 = 0"
    using sample_frame [of c1 "[silence]" 1 99] c1 by auto
  have "play_step sample_env (Starting [silence, silence, silence]) ?c
      = (None, Frames [silence, silence, silence] 0 99, ?c\<lparr>vc_playing := True\<rparr>)"
    using can by (simp add: play_step_def)
  with c1 c2 show ?thesis by (simp add: numeral_3_eq_3 send_voice_def)
qed

lemma sample_runs:
  "\<exists>c. play_run sample_env False lasts_20ms sample_voice (Frames [silence] 2 99) c \<and> length (vc_packets c) = 2
     \<and> vc_canceled c \<and> vc_promises c = 1"
proof -
  obtain c where c: "play_steps sample_env 3 (fst (send_voice (replicate 3 silence) sample_voice))
     (snd (send_voice (replicate 3 silence) sample_voice)) = (None, Frames [silence] 2 99, c)"
    "length (vc_packets c) = 2" "vc_playing c" "\<not> vc_canceled c" "vc_promises c = 0"
    using sample_play_eq by blast
  have "play_run sample_env False lasts_20ms sample_voice (fst (send_voice (replicate 3 silence) sample_voice))
     (snd (send_voice (replicate 3 silence) sample_voice))"
    by (rule play_run.Send [OF play_run.Begin [OF sample_silent], where fs = "replicate 3 silence"])
      (simp_all add: sample_encodable list_all_iff)
  from play_steps_run [OF this c(1)]
  have "play_run sample_env False lasts_20ms sample_voice (Frames [silence] 2 99) (snd (cancel_current_data c))"
    by (rule play_run.Cancel) simp
  with c show ?thesis by (auto simp: cancel_current_data_def)
qed



theorem cancelled_stops_witness:
  "\<exists>c c'. play_run sample_env False lasts_20ms sample_voice (Frames [silence] 2 99) c
     \<and> play_steps sample_env 4 (Frames [silence] 2 99) c = (None, Idle, c') \<and> vc_resolved c' = [1] \<and> length (vc_packets c') = 2"
proof -
  obtain c where c: "play_run sample_env False lasts_20ms sample_voice (Frames [silence] 2 99) c" "length (vc_packets c) = 2"
    "vc_canceled c" "vc_promises c = 1"
    using sample_runs by blast
  from cancelled_stops [OF c(1,3)] c show ?thesis by force
qed

theorem uninterrupted_packets_witness:
  "\<exists>c' audio. play_steps sample_env 2 (Frames [silence, silence] 0 99) sample_voice = (None, Frames [] 2 99, c')
    \<and> vc_packets c' = [voice_packet sample_env (replicate 32 1) (rtp_header 0 0 99) (audio 0),
         voice_packet sample_env (replicate 32 1) (rtp_header 1 960 99) (audio (1 :: nat))]"
  using uninterrupted_packets [of "[silence, silence]" sample_env sample_voice 0 99] sample_encodable
  by (auto simp: sample_voice_def new_voice_def eval_nat_numeral)

theorem discovery_roundtrip_witness:
  "\<exists>c'. do_ip_discovery sample_env (discovery_answer (replicate 8 5) ''10.0.0.7'' 50000) sample_voice = (None, c')
    \<and> vc_endpoint c' = (''10.0.0.7'', 50000)"
  using discovery_roundtrip [of "replicate 8 5" "''10.0.0.7''" sample_env "''10.0.0.7''" 50000 sample_voice]
  by (auto simp: sample_env_def)

end
