(* ===== verification/Voice_Connect.thy ===== *)
theory Voice_Connect
  imports Gateway Voice
begin

text \<open>
  How a shard sets up a voice connection: \<open>internal_shard::connect_voice\<close> asks the gateway and waits for the two
  answers, which the handlers of VOICE_SERVER_UPDATE and VOICE_STATE_UPDATE hand to it through promises kept by the guild's id,
  and \<open>voice_connect_impl\<close> then goes through the handshake. \<open>m_opcode4\<close> stores its promises only where there are none
  yet: the others are lost, and what waits for them waits for ever.
\<close>

section \<open>The coroutine\<close>

text \<open>Where it is: it waits for the endpoint, then for the session; the flags say whether its promises were stored. Then it sets the
  connection up with the gateway's address, the token and the session.\<close>

datatype 'j connecting =
  Waits_endpoint bool bool
| Waits_session 'j bool
| Setting_up string string string

definition connect_voice :: "snowflake \<Rightarrow> snowflake \<Rightarrow> 'j shard \<Rightarrow> (fault option \<times> 'j shard) \<times> 'j connecting option" where
  "connect_voice g ch s =
     (if s_vc_guilds s g then ((Some Throws, s), None)
      else (hthen (hmod (\<lambda>s. s\<lparr>s_vc_guilds := (s_vc_guilds s)(g := True)\<rparr>)) (m_opcode4 g ch) s,
            Some (Waits_endpoint (s_endpoint_promises s g = None) (s_session_promises s g = None))))"

definition erase_promises :: "snowflake \<Rightarrow> 'j shard \<Rightarrow> 'j shard" where
  "erase_promises g s = s\<lparr>s_session_promises := (s_session_promises s)(g := None),
     s_endpoint_promises := (s_endpoint_promises s)(g := None)\<rparr>"

text \<open>A step of it in the given state, when it does not wait: an exception ends it.\<close>

definition connect_step :: "'j config \<Rightarrow> snowflake \<Rightarrow> 'j shard \<Rightarrow> 'j connecting \<Rightarrow> (fault + 'j shard \<times> 'j connecting) option" where
  "connect_step c g s p =
     (case p of
        Waits_endpoint own own2 \<Rightarrow>
          (case s_endpoint_promises s g of Some (e # _) \<Rightarrow> if own then Some (Inr (s, Waits_session e own2)) else None | _ \<Rightarrow> None)
      | Waits_session e own \<Rightarrow>
          (case s_session_promises s g of
             Some (sid # _) \<Rightarrow> if own then Some
               (rbind (ev c e ''endpoint'' as_str) (\<lambda>ep.
                rbind (ev c e ''token'' as_str) (\<lambda>tok.
                  Inr (erase_promises g s, Setting_up (''wss://'' @ ep @ ''/?v=4'') tok sid)))) else None
           | _ \<Rightarrow> None)
      | Setting_up _ _ _ \<Rightarrow> None)"

text \<open>\<open>voice_connect_impl\<close>: the connection that is started on the new web socket.\<close>

definition voice_connect_impl :: "snowflake \<Rightarrow> 'e \<Rightarrow> 'j shard \<Rightarrow> 'j connecting \<Rightarrow> 'e voice option" where
  "voice_connect_impl g encoder s p =
     (case p of Setting_up gateway tok sid \<Rightarrow> Some (start_voice (new_voice g (u_id (s_self s)) tok sid encoder)) | _ \<Rightarrow> None)"

section \<open>The answers\<close>

lemma in_guild_promises:
  "s_session_promises (snd (in_guild i h s)) = s_session_promises s" "s_endpoint_promises (snd (in_guild i h s)) = s_endpoint_promises s"
  "s_self (snd (in_guild i h s)) = s_self s"
  by (auto simp: in_guild_def put_guild_def split: option.splits prod.splits)

lemma hthen_snd: "(\<And>t. f (snd (k t)) = f t) \<Longrightarrow> f (snd (hthen h k s)) = f (snd (h s))"
  by (cases "h s") (auto simp: hthen_def split: option.splits)

lemma change_voice_promises:
  "s_session_promises (snd (change_voice_state c e i u s)) = s_session_promises s"
  "s_endpoint_promises (snd (change_voice_state c e i u s)) = s_endpoint_promises s"
  "s_self (snd (change_voice_state c e i u s)) = s_self s"
proof -
  let ?same = "\<lambda>f. f (snd (change_voice_state c e i u s)) = f s"
  have "?same f" if f: "\<And>i h s. f (snd (in_guild i h s)) = f s"
    "\<And>s m n. f (s\<lparr>s_vc_guilds := m, s_voice_connections := n\<rparr>) = f s" for f :: "_ \<Rightarrow> 'b"
  proof (cases "s_guilds s i")
    case (Some gs)
    then show ?thesis
      by (auto simp: change_voice_state_def hget_def hdone_def hmod_def hread_def Let_def f hthen_snd split: sum.splits)
  qed (simp add: change_voice_state_def hget_def hdone_def)
  from this [of s_session_promises] this [of s_endpoint_promises] this [of s_self] show
    "?same s_session_promises" "?same s_endpoint_promises" "?same s_self"
    by (simp_all add: in_guild_promises)
qed

lemma server_update:
  assumes "ev c e ''guild_id'' as_sf = Inr g"
  shows "on_voice_server_update c e s = (None, s\<lparr>s_endpoint_promises := (s_endpoint_promises s)(g \<mapsto>
    (case s_endpoint_promises s g of None \<Rightarrow> [] | Some vs \<Rightarrow> vs) @ [e])\<rparr>)"
  using assms by (simp add: on_voice_server_update_def handler_simps hread_Inr)

lemma state_update:
  assumes "ev_guild_id c e = Inr g" "s_guilds s g = Some gs" "gs_id gs = g"
    and "value_or (as_sf (c_json c)) (u_id (s_self s)) (c_json c) e ''user_id'' = Inr (u_id (s_self s))"
    and "ev c e ''session_id'' as_str = Inr sid" "s_session_promises s g = Some vs"
  shows "s_session_promises (snd (on_voice_state_update c e s)) g = Some (vs @ [sid])"
    and "s_endpoint_promises (snd (on_voice_state_update c e s)) = s_endpoint_promises s"
    and "s_self (snd (on_voice_state_update c e s)) = s_self s"
  using assms
  by (simp_all add: on_voice_state_update_def hread_Inr hget_def set_session_promise_def hthen_def hmod_def change_voice_promises)

text \<open>A guild that nobody waits for and that is not connected.\<close>

definition voice_idle :: "snowflake \<Rightarrow> 'j shard \<Rightarrow> bool" where
  "voice_idle g s \<longleftrightarrow> \<not> s_vc_guilds s g \<and> s_endpoint_promises s g = None \<and> s_session_promises s g = None"

text \<open>C6: A connection to the voice of an idle guild tells the gateway once, waits for both answers, in whichever order they
  come, and then sets up exactly the connection they name: it identifies with the session of the one and the token of the other,
  and its promises are gone. Asking again meanwhile throws.\<close>
theorem voice_connects:
  assumes idle: "voice_idle g s" and guild: "s_guilds s g = Some gs" "gs_id gs = g"
    and state: "ev_guild_id c e1 = Inr g" "ev c e1 ''session_id'' as_str = Inr sid"
      "value_or (as_sf (c_json c)) (u_id (s_self s)) (c_json c) e1 ''user_id'' = Inr (u_id (s_self s))"
    and server: "ev c e2 ''guild_id'' as_sf = Inr g" "ev c e2 ''endpoint'' as_str = Inr ep" "ev c e2 ''token'' as_str = Inr tok"
    and start: "connect_voice g ch s = ((r, t), Some p)"
    and answers: "u = (if state_first then snd (on_voice_server_update c e2 (snd (on_voice_state_update c e1 t)))
                       else snd (on_voice_state_update c e1 (snd (on_voice_server_update c e2 t))))"
  shows "r = None \<and> s_sent t = s_sent s @ [Ws_voice_state g ch] \<and> connect_step c g t p = None
    \<and> connect_voice g ch t = ((Some Throws, t), None)
    \<and> (\<exists>p1 u' p2. connect_step c g u p = Some (Inr (u, p1)) \<and> connect_step c g u p1 = Some (Inr (u', p2))
         \<and> s_endpoint_promises u' g = None \<and> s_session_promises u' g = None
         \<and> p2 = Setting_up (''wss://'' @ ep @ ''/?v=4'') tok sid
         \<and> map_option vc_ws (voice_connect_impl g encoder u' p2) = Some [Vm_identify g (u_id (s_self s)) sid tok])"
proof -
  have t: "r = None" "s_sent t = s_sent s @ [Ws_voice_state g ch]" "p = Waits_endpoint True True" "s_vc_guilds t g"
    "s_endpoint_promises t g = Some []" "s_session_promises t g = Some []" "s_guilds t = s_guilds s" "s_self t = s_self s"
    using idle start by (auto simp: voice_idle_def connect_voice_def m_opcode4_def hthen_def hmod_def send_def)
  have u: "s_endpoint_promises u g = Some [e2]" "s_session_promises u g = Some [sid]" "s_self u = s_self s"
  proof -
    have st: "s_session_promises (snd (on_voice_state_update c e1 v)) g = Some [sid]"
      "s_endpoint_promises (snd (on_voice_state_update c e1 v)) = s_endpoint_promises v"
      "s_self (snd (on_voice_state_update c e1 v)) = s_self s"
      if "s_guilds v = s_guilds s" "s_self v = s_self s" "s_session_promises v g = Some []" for v
      using state_update [of c e1 g v gs sid "[]"] state guild that by simp_all
    show "s_endpoint_promises u g = Some [e2]" "s_session_promises u g = Some [sid]" "s_self u = s_self s"
      using st [of t] st [of "snd (on_voice_server_update c e2 t)"] t answers
      by (auto simp: server_update [OF server(1)])
  qed
  show ?thesis
    using t u server
    by (simp add: connect_step_def connect_voice_def erase_promises_def voice_connect_impl_def start_voice_def send_identify_def
        new_voice_def ws_send_def)
qed

text \<open>The gateway also tells the server of a guild that nobody waits for, as when the server changes during a call: its
  promise stays, and what connects to the guild later waits for ever.\<close>

lemma stale_server_blocks:
  assumes "ev c e ''guild_id'' as_sf = Inr g" "\<not> s_vc_guilds s g"
    and "on_voice_server_update c e s = (r, t)" "connect_voice g ch t = ((r', t'), p)"
  shows "\<exists>q. p = Some q \<and> (\<forall>c' u. connect_step c' g u q = None)"
  using assms server_update [OF assms(1), of s]
  by (auto simp: connect_voice_def connect_step_def split: option.splits list.splits)

end
