(* ===== verification/Connect_Cases.thy ===== *)
theory Connect_Cases
  imports Voice_Connect Json_Sample
begin

text \<open>A shard connects to the voice of the guild it waits for; the server's address comes before the session.\<close>

definition session_event :: js where
  "session_event = JObj [(''guild_id'', num 10), (''session_id'', JStr ''abc''), (''channel_id'', num 12)]"

definition server_event :: js where
  "server_event = JObj [(''guild_id'', num 10), (''endpoint'', JStr ''eu.voice''), (''token'', JStr ''secret'')]"

lemma voice_events_read:
  "ev_guild_id sample_config session_event = Inr (Snowflake 10)"
  "ev sample_config session_event ''session_id'' as_str = Inr ''abc''"
  "value_or (as_sf (c_json sample_config)) me (c_json sample_config) session_event ''user_id'' = Inr me"
  "ev sample_config server_event ''guild_id'' as_sf = Inr (Snowflake 10)"
  "ev sample_config server_event ''endpoint'' as_str = Inr ''eu.voice''"
  "ev sample_config server_event ''token'' as_str = Inr ''secret''"
proof -
  show "value_or (as_sf (c_json sample_config)) me (c_json sample_config) session_event ''user_id'' = Inr me"
    by (simp add: value_or_def session_event_def sample_config_def js_api_def j_object_def j_is_null_def js_members_def)
qed code_simp+

theorem voice_connects_witness:
  "\<exists>p p1 u' p2 t. connect_voice (Snowflake 10) (Snowflake 12) loading_state = ((None, t), Some p)
    \<and> (let u = snd (on_voice_state_update sample_config session_event (snd (on_voice_server_update sample_config server_event t)))
       in connect_step sample_config (Snowflake 10) u p = Some (Inr (u, p1))
          \<and> connect_step sample_config (Snowflake 10) u p1 = Some (Inr (u', p2)))
    \<and> p2 = Setting_up ''wss://eu.voice/?v=4'' ''secret'' ''abc''"
proof -
  obtain r t p where start: "connect_voice (Snowflake 10) (Snowflake 12) loading_state = ((r, t), Some p)"
    by (auto simp: connect_voice_def loading_state_def put_guild_def initial_shard_def
        m_opcode4_def hthen_def hmod_def send_def)
  have idle: "voice_idle (Snowflake 10) loading_state"
    by (simp add: voice_idle_def loading_state_def put_guild_def initial_shard_def)
  from voice_connects [OF idle large_guild_waits(1,3) voice_events_read(1,2,3,4,5,6) start,
      of "snd (on_voice_state_update sample_config session_event (snd (on_voice_server_update sample_config server_event t)))" False 0]
  show ?thesis using start by (auto simp: Let_def)
qed

end
