(* ===== verification/Web_Socket.thy ===== *)
theory Web_Socket
  imports Async_Mutex Handlers
begin

text \<open>
  The web sockets: the parser of their addresses (\<open>common/web_socket_helpers.cpp\<close> with the parsers of
  \<open>common/parsing_stuff.h\<close> it is made of), the writers that share a socket through an \<open>async_mutex\<close>
  (\<open>src/rename_later_5.cpp\<close>, \<open>web_socket_session_impl::send_thing\<close>) and the loop that reads
  (\<open>web_socket_session_impl::start_reads\<close>). Boost's streams are not part of the repository: a write or a read
  ends with a result that the environment chooses.
\<close>

section \<open>Parsers\<close>

text \<open>A parser yields its value and the rest of the text, fails, or has no defined result.\<close>

type_synonym 'a url_parser = "string \<Rightarrow> ('a \<times> string) option res"

definition url_until :: "(char \<Rightarrow> bool) \<Rightarrow> string url_parser" where
  "url_until f s = (let count = find_index f s in Inr (Some (take count s, drop count s)))"

definition url_str_parser :: "string \<Rightarrow> bool url_parser" where
  "url_str_parser str data =
     (if length data < length str \<or> take (length str) data \<noteq> str then Inr None
      else Inr (Some (True, drop (length str) data)))"

definition url_optional :: "'a url_parser \<Rightarrow> 'a option url_parser" where
  "url_optional p s = rbind (p s) (\<lambda>t. case t of Some (v, rest) \<Rightarrow> Inr (Some (Some v, rest)) | None \<Rightarrow> Inr (Some (None, s)))"

definition consecutive :: "'a url_parser \<Rightarrow> 'b url_parser \<Rightarrow> ('a \<times> 'b) url_parser" where
  "consecutive p q s =
     rbind (p s) (\<lambda>t. case t of None \<Rightarrow> Inr None
       | Some (a, rest) \<Rightarrow> rbind (q rest) (\<lambda>u. case u of None \<Rightarrow> Inr None | Some (b, rest') \<Rightarrow> Inr (Some ((a, b), rest'))))"

text \<open>The port: without a character behind its digits \<open>find_first_not_of\<close> finds nothing and the digits are read from an
  end past the text.\<close>

definition url_port_parser :: "int url_parser" where
  "url_port_parser part =
     (if part = [] \<or> hd part \<noteq> CHR '':'' then Inr None
      else let part = tl part; end_of_port = find_index (\<lambda>ch. \<not> is_digit ch) part
        in if end_of_port = length part then Inl Undef
           else if end_of_port = 0 then Inr None
           else Inr (Some (fst (from_chars_int 32 0 (take end_of_port part)), drop end_of_port part)))"

definition parse_url_better :: "string \<Rightarrow> (string \<times> string \<times> int option \<times> string) res" where
  "parse_url_better url =
     rbind (consecutive (url_until (\<lambda>ch. ch = CHR '':''))
              (consecutive (url_str_parser ''://'')
                (consecutive (url_until (\<lambda>ch. ch = CHR '':'' \<or> ch = CHR ''/'' \<or> ch = CHR 0x5C))
                  (url_optional url_port_parser))) url)
       (\<lambda>r. case r of None \<Rightarrow> Inl Throws | Some ((service, _, domain, port), path) \<Rightarrow> Inr (service, domain, port, path))"

text \<open>What \<open>wss_from_uri\<close> and \<open>reconnect_wss_from_url\<close> look up and ask for: the host, the service or port, the path.\<close>

definition wss_target :: "string \<Rightarrow> (string \<times> string \<times> string) res" where
  "wss_target full_uri =
     rbind (parse_url_better full_uri) (\<lambda>(service, host, port, path).
       Inr (host, if service = ''wss'' then ''https'' else service, path))"

section \<open>Writers\<close>

text \<open>How a write ends: done, aborted, on a closed socket, or with another error. A write of bytes is tried again on a closed one.\<close>

datatype write_result = Written | Aborted | Closed | Failed

definition gives_up :: "bool \<Rightarrow> write_result \<Rightarrow> bool" where
  "gives_up binary ec \<longleftrightarrow> ec = Aborted \<or> ec = Closed \<and> \<not> binary"

text \<open>A sender waits for the lock, writes, pauses 5 seconds before it tries again, or unlocks.\<close>

datatype phase = Quiet_sender | Locking | Writing | Pausing | Unlocking

text \<open>\<open>wr_job\<close> is the message a task sends, until it is written or given up; a message has a flag for bytes.\<close>

record 'm writers =
  wr_mutex :: mutex
  wr_phase :: "task \<Rightarrow> phase"
  wr_job :: "task \<rightharpoonup> bool \<times> 'm"
  wr_given :: "(bool \<times> 'm) list"
  wr_written :: "(bool \<times> 'm) list"
  wr_dropped :: "(bool \<times> 'm) list"

definition new_writers :: "'m writers" where
  "new_writers = \<lparr>wr_mutex = new_mutex, wr_phase = (\<lambda>_. Quiet_sender), wr_job = Map.empty, wr_given = [], wr_written = [], wr_dropped = []\<rparr>"

definition send_thing :: "task \<Rightarrow> bool \<times> 'm \<Rightarrow> 'm writers \<Rightarrow> 'm writers" where
  "send_thing p msg w = w\<lparr>wr_mutex := lock_load p (wr_mutex w), wr_phase := (wr_phase w)(p := Locking),
     wr_job := (wr_job w)(p \<mapsto> msg), wr_given := wr_given w @ [msg]\<rparr>"

definition async_write :: "task \<Rightarrow> write_result \<Rightarrow> 'm writers \<Rightarrow> 'm writers" where
  "async_write p ec w =
     (case wr_job w p of None \<Rightarrow> w
      | Some msg \<Rightarrow>
          if ec = Written then w\<lparr>wr_written := wr_written w @ [msg], wr_job := (wr_job w)(p := None), wr_phase := (wr_phase w)(p := Unlocking)\<rparr>
          else if gives_up (fst msg) ec then
            w\<lparr>wr_dropped := wr_dropped w @ [msg], wr_job := (wr_job w)(p := None), wr_phase := (wr_phase w)(p := Unlocking)\<rparr>
          else w\<lparr>wr_phase := (wr_phase w)(p := Pausing)\<rparr>)"

text \<open>A step of \<open>unlock\<close>; its end is the end of the sender.\<close>

definition unlocking :: "task \<Rightarrow> mutex \<Rightarrow> 'm writers \<Rightarrow> 'm writers" where
  "unlocking p m w = w\<lparr>wr_mutex := m, wr_phase := (wr_phase w)(p := if mx_place m p = Outside then Quiet_sender else Unlocking)\<rparr>"

inductive wr_step :: "'m writers \<Rightarrow> 'm writers \<Rightarrow> bool" where
  Send: "wr_phase w p = Quiet_sender \<Longrightarrow> wr_step w (send_thing p msg w)"
| Try_lock: "wr_phase w p = Locking \<Longrightarrow> mx_place (wr_mutex w) p = Trying seen \<Longrightarrow>
    wr_step w (w\<lparr>wr_mutex := lock_cas p seen (wr_mutex w)\<rparr>)"
| Resume: "wr_phase w p = Locking \<Longrightarrow> mx_place (wr_mutex w) p = Owner \<Longrightarrow> wr_step w (w\<lparr>wr_phase := (wr_phase w)(p := Writing)\<rparr>)"
| Write: "wr_phase w p = Writing \<Longrightarrow> wr_step w (async_write p ec w)"
| Timer: "wr_phase w p = Pausing \<Longrightarrow> wr_step w (w\<lparr>wr_phase := (wr_phase w)(p := Writing)\<rparr>)"
| Unlock: "wr_phase w p = Unlocking \<Longrightarrow> mx_place (wr_mutex w) p = Owner \<Longrightarrow> unlock_cas p (wr_mutex w) = Some m \<Longrightarrow>
    wr_step w (unlocking p m w)"
| Exchange: "wr_phase w p = Unlocking \<Longrightarrow> mx_place (wr_mutex w) p = Exchanging \<Longrightarrow>
    wr_step w (unlocking p (unlock_exchange p (wr_mutex w)) w)"
| Hand: "wr_phase w p = Unlocking \<Longrightarrow> mx_place (wr_mutex w) p = Handing \<Longrightarrow> unlock_hand p (wr_mutex w) = Some m \<Longrightarrow>
    wr_step w (unlocking p m w)"

inductive wr_reachable :: "'m writers \<Rightarrow> bool" where
  New: "wr_reachable new_writers"
| Step: "wr_reachable w \<Longrightarrow> wr_step w w' \<Longrightarrow> wr_reachable w'"

section \<open>The reader\<close>

datatype read_result = Got_text string | Got_binary "8 word list" | Read_error

text \<open>
  \<open>start_reads\<close> returns at once when somebody reads. One turn of its loop: a closed socket and a read error end it; what was read
  goes to the callback, whose exception ends it too. The result says whether the loop goes on.
\<close>

definition start_reads :: "bool \<Rightarrow> bool \<times> bool" where
  "start_reads reading = (\<not> reading, True)"

definition read_turn :: "(string \<Rightarrow> 's handler) \<Rightarrow> (8 word list \<Rightarrow> 's handler) \<Rightarrow> 's handler \<Rightarrow> bool \<Rightarrow> read_result \<Rightarrow> bool \<times> 's
    \<Rightarrow> (fault option \<times> bool) \<times> bool \<times> 's" where
  "read_turn on_read on_binary on_error open_now got st =
     (case st of (reading, s) \<Rightarrow>
        if \<not> open_now then ((None, False), False, s)
        else case got of
            Read_error \<Rightarrow> (case on_error s of (r, s') \<Rightarrow> ((r, False), False, s'))
          | Got_text t \<Rightarrow> (case on_read t s of (r, s') \<Rightarrow> ((r, r = None), reading, s'))
          | Got_binary b \<Rightarrow> (case on_binary b s of (r, s') \<Rightarrow> ((r, r = None), reading, s')))"

text \<open>A callback that throws leaves the socket marked as being read: no later call reads again.\<close>

lemma throwing_callback_stops_reads:
  assumes "read_turn f g h True (Got_text t) (snd (start_reads False), s) = ((Some x, b), reading, s')"
  shows "\<not> b \<and> fst (start_reads reading) = False"
  using assms by (auto simp: read_turn_def start_reads_def split: prod.splits)

section \<open>What the writers keep\<close>

fun phase_ok :: "phase \<Rightarrow> place \<Rightarrow> bool" where
  "phase_ok Quiet_sender q \<longleftrightarrow> q = Outside"
| "phase_ok Locking q \<longleftrightarrow> q = Suspended \<or> q = Owner \<or> (\<exists>s. q = Trying s)"
| "phase_ok Writing q \<longleftrightarrow> q = Owner"
| "phase_ok Pausing q \<longleftrightarrow> q = Owner"
| "phase_ok Unlocking q \<longleftrightarrow> owning q"

definition sending :: "phase \<Rightarrow> bool" where
  "sending ph \<longleftrightarrow> ph = Locking \<or> ph = Writing \<or> ph = Pausing"

definition wr_pending :: "'m writers \<Rightarrow> (bool \<times> 'm) multiset" where
  "wr_pending w = image_mset (\<lambda>p. the (wr_job w p)) (mset_set (dom (wr_job w)))"

definition wr_inv :: "'m writers \<Rightarrow> bool" where
  "wr_inv w \<longleftrightarrow> mx_reachable (wr_mutex w)
     \<and> (\<forall>p. phase_ok (wr_phase w p) (mx_place (wr_mutex w) p) \<and> (wr_job w p \<noteq> None \<longleftrightarrow> sending (wr_phase w p)))
     \<and> finite (dom (wr_job w)) \<and> mset (wr_given w) = mset (wr_written w) + mset (wr_dropped w) + wr_pending w"

text \<open>Places after the steps of the mutex.\<close>

lemma places_after:
  "mx_place (lock_load p m) = (mx_place m)(p := Trying (mx_state m))"
  "\<exists>q. (q = Suspended \<or> q = Owner \<or> (\<exists>s. q = Trying s)) \<and> mx_place (lock_cas p seen m) = (mx_place m)(p := q)"
  "mx_place (unlock_exchange p m) = (mx_place m)(p := Handing)"
  by (auto simp: lock_load_def lock_cas_def unlock_exchange_def Let_def)

lemma place_after_unlock:
  assumes "unlock_cas p m = Some m'"
  shows "\<exists>q. (q = Outside \<or> owning q) \<and> mx_place m' = (mx_place m)(p := q)"
proof -
  from assms have "mx_place m' = (mx_place m)(p := Handing) \<or> mx_place m' = (mx_place m)(p := Outside)
      \<or> mx_place m' = (mx_place m)(p := Exchanging)"
    by (auto simp: unlock_cas_def split: if_splits)
  moreover have "owning Handing" "owning Exchanging" by simp_all
  ultimately show ?thesis by blast
qed

lemma places_after_hand:
  assumes "mx_reachable m" "mx_place m p = Handing" "unlock_hand p m = Some m'"
  shows "\<exists>q. mx_place m q = Suspended \<and> q \<noteq> p \<and> mx_place m' = (mx_place m)(p := Outside, q := Owner)"
proof -
  obtain v where "shows_as m v" using reachable_view [OF assms(1)] by blast
  from hand_over [OF this assms(2)] assms(2,3) show ?thesis by force
qed

lemma pending_add:
  assumes "wr_job w p = None" "finite (dom (wr_job w))" "wr_job w' = (wr_job w)(p \<mapsto> msg)"
  shows "wr_pending w' = add_mset msg (wr_pending w)"
proof -
  have "p \<notin> dom (wr_job w)" using assms(1) by auto
  then have "image_mset (\<lambda>q. the (wr_job w' q)) (mset_set (dom (wr_job w))) = wr_pending w"
    unfolding wr_pending_def assms(3) by (intro image_mset_cong) (use assms(2) in auto)
  then show ?thesis using assms \<open>p \<notin> dom (wr_job w)\<close> by (simp add: wr_pending_def)
qed

lemma pending_remove:
  assumes "wr_job w p = Some msg" "finite (dom (wr_job w))" "wr_job w' = (wr_job w)(p := None)"
  shows "wr_pending w = add_mset msg (wr_pending w')"
  by (rule pending_add [of w' p]) (use assms in auto)

lemma pending_upd [simp]:
  "wr_pending (w\<lparr>wr_mutex := m\<rparr>) = wr_pending w" "wr_pending (w\<lparr>wr_phase := f\<rparr>) = wr_pending w"
  "wr_pending (w\<lparr>wr_mutex := m, wr_phase := f\<rparr>) = wr_pending w"
  by (simp_all add: wr_pending_def)

text \<open>A step changes the phase and the message of one task \<open>p\<close>; the other tasks stay in a place that fits their phase.\<close>

lemma wr_inv_update:
  assumes inv: "wr_inv w" and reach: "mx_reachable (wr_mutex w')"
    and others: "\<forall>r. r \<noteq> p \<longrightarrow> wr_phase w' r = wr_phase w r \<and> wr_job w' r = wr_job w r
      \<and> phase_ok (wr_phase w r) (mx_place (wr_mutex w') r)"
    and p: "phase_ok (wr_phase w' p) (mx_place (wr_mutex w') p)" "wr_job w' p \<noteq> None \<longleftrightarrow> sending (wr_phase w' p)"
    and msgs: "mset (wr_given w') = mset (wr_written w') + mset (wr_dropped w') + wr_pending w'"
  shows "wr_inv w'"
proof -
  have "dom (wr_job w') \<subseteq> insert p (dom (wr_job w))" using others by (force simp: dom_def)
  then have "finite (dom (wr_job w'))" using inv by (auto simp: wr_inv_def intro: finite_subset)
  moreover have "phase_ok (wr_phase w' r) (mx_place (wr_mutex w') r) \<and> (wr_job w' r \<noteq> None \<longleftrightarrow> sending (wr_phase w' r))" for r
    using others p inv by (cases "r = p") (simp_all add: wr_inv_def)
  ultimately show ?thesis using reach msgs by (simp add: wr_inv_def)
qed

lemma wr_inv_places: "wr_inv w \<Longrightarrow> phase_ok (wr_phase w p) (mx_place (wr_mutex w) p)"
  by (simp add: wr_inv_def)

lemma wr_inv_job: "wr_inv w \<Longrightarrow> wr_job w p \<noteq> None \<longleftrightarrow> sending (wr_phase w p)"
  by (simp add: wr_inv_def)

lemma wr_inv_parts:
  "wr_inv w \<Longrightarrow> mx_reachable (wr_mutex w)" "wr_inv w \<Longrightarrow> finite (dom (wr_job w))"
  "wr_inv w \<Longrightarrow> mset (wr_given w) = mset (wr_written w) + mset (wr_dropped w) + wr_pending w"
  by (simp_all add: wr_inv_def)

lemma wr_inv_step:
  assumes inv: "wr_inv w" and step: "wr_step w w'"
  shows "wr_inv w'"
  using step
proof cases
  case (Send p msg)
  then have out: "mx_place (wr_mutex w) p = Outside" using wr_inv_places [OF inv, of p] by simp
  have none: "wr_job w p = None" using wr_inv_job [OF inv, of p] Send by (cases "wr_job w p") (simp_all add: sending_def)
  from mx_reachable.Step [OF wr_inv_parts(1) [OF inv] mx_step.Lock [OF out]]
  have "mx_reachable (lock_load p (wr_mutex w))" .
  with Send none pending_add [OF none wr_inv_parts(2) [OF inv], of w' msg] wr_inv_parts(3) [OF inv] show ?thesis
    by (intro wr_inv_update [OF inv, where p = p]) (simp_all add: send_thing_def places_after(1) sending_def wr_inv_places [OF inv])
next
  case (Try_lock p seen)
  from mx_reachable.Step [OF wr_inv_parts(1) [OF inv] mx_step.Cas [OF Try_lock(3)]]
  have "mx_reachable (lock_cas p seen (wr_mutex w))" .
  moreover obtain q where "q = Suspended \<or> q = Owner \<or> (\<exists>s. q = Trying s)"
    "mx_place (lock_cas p seen (wr_mutex w)) = (mx_place (wr_mutex w))(p := q)"
    using places_after(2) by blast
  ultimately show ?thesis using Try_lock wr_inv_job [OF inv, of p] wr_inv_parts(3) [OF inv]
    by (intro wr_inv_update [OF inv, where p = p]) (simp_all add: wr_inv_places [OF inv])
next
  case (Resume p)
  then show ?thesis using wr_inv_job [OF inv, of p] wr_inv_parts [OF inv]
    by (intro wr_inv_update [OF inv, where p = p]) (simp_all add: wr_inv_places [OF inv] sending_def)
next
  case (Write p ec)
  then obtain msg where job: "wr_job w p = Some msg" using wr_inv_job [OF inv, of p] by (auto simp: sending_def)
  have own: "mx_place (wr_mutex w) p = Owner" using wr_inv_places [OF inv, of p] Write by simp
  show ?thesis
  proof (cases "ec = Written \<or> gives_up (fst msg) ec")
    case True
    then have w': "wr_job w' = (wr_job w)(p := None)" "wr_mutex w' = wr_mutex w" "wr_phase w' = (wr_phase w)(p := Unlocking)"
      "wr_given w' = wr_given w" "mset (wr_written w') + mset (wr_dropped w') = add_mset msg (mset (wr_written w) + mset (wr_dropped w))"
      using Write job by (auto simp: async_write_def)
    from pending_remove [OF job wr_inv_parts(2) [OF inv] w'(1)]
    have "mset (wr_given w') = mset (wr_written w') + mset (wr_dropped w') + wr_pending w'"
      by (simp add: w'(4,5) wr_inv_parts(3) [OF inv])
    then show ?thesis
      by (intro wr_inv_update [OF inv, where p = p]) (simp_all add: w'(1-3) own wr_inv_parts(1) [OF inv] wr_inv_places [OF inv] sending_def)
  next
    case False
    with Write job own wr_inv_parts [OF inv] show ?thesis
      by (intro wr_inv_update [OF inv, where p = p]) (simp_all add: async_write_def wr_inv_places [OF inv] sending_def)
  qed
next
  case (Timer p)
  then show ?thesis using wr_inv_places [OF inv, of p] wr_inv_job [OF inv, of p] wr_inv_parts [OF inv]
    by (intro wr_inv_update [OF inv, where p = p]) (simp_all add: wr_inv_places [OF inv] sending_def)
next
  case (Unlock p m)
  from mx_reachable.Step [OF wr_inv_parts(1) [OF inv] mx_step.Unlock [OF Unlock(3,4)]] have "mx_reachable m" .
  moreover obtain q where "q = Outside \<or> owning q" "mx_place m = (mx_place (wr_mutex w))(p := q)"
    using place_after_unlock [OF Unlock(4)] by blast
  ultimately show ?thesis using Unlock wr_inv_job [OF inv, of p] wr_inv_parts(3) [OF inv]
    by (intro wr_inv_update [OF inv, where p = p]) (auto simp: unlocking_def sending_def wr_inv_places [OF inv])
next
  case (Exchange p)
  from mx_reachable.Step [OF wr_inv_parts(1) [OF inv] mx_step.Exchange [OF Exchange(3)]]
  have "mx_reachable (unlock_exchange p (wr_mutex w))" .
  then show ?thesis using Exchange wr_inv_job [OF inv, of p] wr_inv_parts(3) [OF inv]
    by (intro wr_inv_update [OF inv, where p = p])
      (simp_all add: unlocking_def places_after(3) sending_def wr_inv_places [OF inv])
next
  case (Hand p m)
  note reach = wr_inv_parts(1) [OF inv]
  from mx_reachable.Step [OF reach mx_step.Hand [OF Hand(3,4)]] have "mx_reachable m" .
  moreover obtain q where q: "mx_place (wr_mutex w) q = Suspended" "q \<noteq> p" "mx_place m = (mx_place (wr_mutex w))(p := Outside, q := Owner)"
    using places_after_hand [OF reach Hand(3,4)] by blast
  moreover have "wr_phase w q = Locking" using wr_inv_places [OF inv, of q] q(1) by (cases "wr_phase w q") simp_all
  ultimately show ?thesis using Hand wr_inv_job [OF inv, of p] wr_inv_parts(3) [OF inv]
    by (intro wr_inv_update [OF inv, where p = p]) (simp_all add: unlocking_def sending_def wr_inv_places [OF inv])
qed

lemma wr_reachable_inv: "wr_reachable w \<Longrightarrow> wr_inv w"
proof (induction rule: wr_reachable.induct)
  case New
  then show ?case by (auto simp: wr_inv_def new_writers_def wr_pending_def sending_def new_mutex_def
      intro: mx_reachable.New [unfolded new_mutex_def])
qed (rule wr_inv_step)

text \<open>C15: Writers that share a socket never write at once, nor while one of them waits before it tries again, whatever their
  writes end with; and every message that was given to them is written once, given up once, or still being sent.\<close>
theorem one_writer_at_a_time:
  assumes "wr_reachable w"
  shows "(\<forall>p q. wr_phase w p \<in> {Writing, Pausing} \<longrightarrow> wr_phase w q \<in> {Writing, Pausing} \<longrightarrow> p = q)
    \<and> mset (wr_given w) = mset (wr_written w) + mset (wr_dropped w) + wr_pending w"
proof -
  have inv: "wr_inv w" by (rule wr_reachable_inv [OF assms])
  have "p = q" if "wr_phase w p \<in> {Writing, Pausing}" "wr_phase w q \<in> {Writing, Pausing}" for p q
  proof -
    have "mx_place (wr_mutex w) r = Owner" if "wr_phase w r \<in> {Writing, Pausing}" for r
      using inv that by (auto simp: wr_inv_def dest: spec [of _ r])
    with that one_owner [of "wr_mutex w" q] inv show ?thesis by (simp add: wr_inv_def)
  qed
  with inv show ?thesis by (auto simp: wr_inv_def)
qed

text \<open>Task 1 writes while task 2 waits for the lock.\<close>

definition two_writers :: "string writers" where
  "two_writers =
     (let w1 = send_thing 1 (False, ''identify'') new_writers;
          w2 = w1\<lparr>wr_mutex := lock_cas 1 Unlocked (wr_mutex w1)\<rparr>;
          w3 = w2\<lparr>wr_phase := (wr_phase w2)(1 := Writing)\<rparr>;
          w4 = send_thing 2 (False, ''heartbeat'') w3
      in w4\<lparr>wr_mutex := lock_cas 2 (Locked None) (wr_mutex w4)\<rparr>)"

lemmas two_writers_simps = two_writers_def Let_def send_thing_def new_writers_def lock_load_def lock_cas_def new_mutex_def

lemma two_writers_reachable: "wr_reachable two_writers"
proof -
  let ?w1 = "send_thing 1 (False, ''identify'') new_writers"
  let ?w2 = "?w1\<lparr>wr_mutex := lock_cas 1 Unlocked (wr_mutex ?w1)\<rparr>"
  let ?w3 = "?w2\<lparr>wr_phase := (wr_phase ?w2)(1 := Writing)\<rparr>"
  let ?w4 = "send_thing 2 (False, ''heartbeat'') ?w3"
  note simps = two_writers_simps
  have "wr_reachable ?w1" by (rule wr_reachable.Step [OF wr_reachable.New wr_step.Send]) (simp add: simps)
  then have "wr_reachable ?w2" by (rule wr_reachable.Step [OF _ wr_step.Try_lock]) (simp_all add: simps)
  then have "wr_reachable ?w3" by (rule wr_reachable.Step [OF _ wr_step.Resume]) (simp_all add: simps)
  then have "wr_reachable ?w4" by (rule wr_reachable.Step [OF _ wr_step.Send]) (simp add: simps)
  then show ?thesis unfolding two_writers_def Let_def
    by (rule wr_reachable.Step [OF _ wr_step.Try_lock]) (simp_all add: simps)
qed

theorem one_writer_at_a_time_witness:
  "wr_phase two_writers 1 = Writing \<and> wr_phase two_writers 2 \<notin> {Writing, Pausing}
    \<and> mset (wr_given two_writers) = mset (wr_written two_writers) + mset (wr_dropped two_writers) + wr_pending two_writers"
proof -
  have one: "wr_phase two_writers 1 = Writing" by (simp add: two_writers_simps)
  from one_writer_at_a_time [OF two_writers_reachable]
  have "\<And>q. wr_phase two_writers q \<in> {Writing, Pausing} \<Longrightarrow> 1 = q"
    "mset (wr_given two_writers) = mset (wr_written two_writers) + mset (wr_dropped two_writers) + wr_pending two_writers"
    using one by blast+
  from this(1) [of 2] this(2) one show ?thesis by auto
qed

text \<open>Bytes on a closed socket are written again for ever, and whoever waits for the lock with them.\<close>

lemma bytes_on_closed_socket:
  assumes "wr_job w p = Some (True, m)"
  shows "wr_phase (async_write p Closed w) p = Pausing \<and> wr_mutex (async_write p Closed w) = wr_mutex w"
  using assms by (simp add: async_write_def gives_up_def)

section \<open>Addresses\<close>

lemma find_index_append: "list_all (\<lambda>x. \<not> f x) xs \<Longrightarrow> f y \<Longrightarrow> find_index f (xs @ y # ys) = length xs"
  by (simp add: find_index_def takeWhile_append2 list_all_iff)

definition url_of :: "string \<Rightarrow> string \<Rightarrow> nat option \<Rightarrow> string \<Rightarrow> string" where
  "url_of service host port path = service @ ''://'' @ host
     @ (case port of None \<Rightarrow> '''' | Some n \<Rightarrow> '':'' @ std_to_string n) @ path"

lemma port_back:
  assumes "n < 2 ^ 31" "path \<noteq> []" "\<not> is_digit (hd path)"
  shows "url_port_parser ('':'' @ std_to_string n @ path) = Inr (Some (int n, path))"
proof -
  let ?d = "std_to_string n"
  obtain c cs where path: "path = c # cs" using assms(2) by (cases path) auto
  have i: "find_index (\<lambda>ch. \<not> is_digit ch) (?d @ path) = length ?d"
    unfolding path by (rule find_index_append) (use assms(3) path std_to_string_digits [of n] in \<open>simp_all add: list_all_iff\<close>)
  have minus: "hd ?d \<noteq> CHR ''-''"
  proof
    assume "hd ?d = CHR ''-''"
    moreover have "is_digit (hd ?d)" using std_to_string_digits [of n] by (cases ?d) (auto simp: list_all_iff)
    ultimately show False by (simp add: is_digit_def)
  qed
  have tw: "takeWhile is_digit ?d = ?d" using std_to_string_digits [of n] by (simp add: takeWhile_eq_all_conv list_all_iff)
  have "fst (from_chars_int 32 0 ?d) = int n" using minus assms(1) by (simp add: from_chars_int_def Let_def tw)
  with i path show ?thesis by (simp add: url_port_parser_def)
qed

text \<open>C19: An address with a service, a host, maybe a port, and a path is parsed back into them.\<close>
theorem url_roundtrip:
  assumes "CHR '':'' \<notin> set service" "list_all (\<lambda>ch. ch \<notin> {CHR '':'', CHR ''/'', CHR 0x5C}) host"
    and "path \<noteq> []" "hd path = CHR ''/''" "case port of None \<Rightarrow> True | Some n \<Rightarrow> n < 2 ^ 31"
  shows "parse_url_better (url_of service host port path) = Inr (service, host, map_option int port, path)"
proof -
  let ?sep = "\<lambda>ch. ch = CHR '':'' \<or> ch = CHR ''/'' \<or> ch = CHR 0x5C"
  let ?tail = "(case port of None \<Rightarrow> '''' | Some n \<Rightarrow> '':'' @ std_to_string n) @ path"
  have service: "find_index (\<lambda>ch. ch = CHR '':'') (service @ CHR '':'' # rest) = length service" for rest
    by (rule find_index_append) (use assms(1) in \<open>auto simp: list_all_iff\<close>)
  obtain c rest where tail: "?tail = c # rest" "?sep c"
    using assms(3,4) by (cases path; cases port) auto
  have host: "find_index ?sep (host @ ?tail) = length host"
    unfolding tail(1) by (rule find_index_append) (use assms(2) tail(2) in \<open>auto simp: list_all_iff\<close>)
  have "url_optional url_port_parser ?tail = Inr (Some (map_option int port, path))"
  proof (cases port)
    case None
    with assms(3,4) show ?thesis by (auto simp: url_optional_def url_port_parser_def)
  next
    case (Some n)
    moreover have "\<not> is_digit (hd path)" using assms(4) by (simp add: is_digit_def)
    ultimately show ?thesis using port_back [of n path] assms(3,5) by (simp add: url_optional_def)
  qed
  with host service [of "''//'' @ host @ ?tail"] show ?thesis
    by (simp add: parse_url_better_def consecutive_def url_until_def url_str_parser_def url_of_def Let_def)
qed

theorem url_roundtrip_witness:
  "parse_url_better ''wss://gateway.discord.gg:443/x'' = Inr (''wss'', ''gateway.discord.gg'', Some 443, ''/x'')"
proof -
  have "url_of ''wss'' ''gateway.discord.gg'' (Some 443) ''/x'' = ''wss://gateway.discord.gg:443/x''"
    by code_simp
  with url_roundtrip [of "''wss''" "''gateway.discord.gg''" "''/x''" "Some 443"] show ?thesis by simp
qed

text \<open>An address that ends with its port has no defined result, and the port of one that has a path is not used.\<close>

lemma url_ending_with_port: "parse_url_better ''wss://host:443'' = Inl Undef"
  by code_simp

lemma url_port_ignored: "wss_target ''wss://host:8443/x'' = Inr (''host'', ''https'', ''/x'')"
  by code_simp

end
