(* ===== verification/Nc_Connection.thy ===== *)
theory Nc_Connection
  imports Http_Connection
begin

text \<open>
  The HTTP connection of the library without a cache (\<open>no_cache/http_connection.h\<close>, \<open>no_cache/src/http_connection.cpp\<close>,
  \<open>http_connection2\<close>). It differs from the other one in its limiter, whose entries are sorted by time and whose timers end the
  limit that ends first, and in its queue, for one consumer. Times are milliseconds; a response is an input of its step.
  The older \<open>http_connection\<close> of the same files is in \<open>Nc_Worker\<close>.
\<close>

section \<open>The limiter\<close>

record 'o nc_entry =
  ne_id :: u64
  ne_until :: int
  ne_requests :: "'o list"

record 'o nc_limiter =
  nl_entries :: "'o nc_entry list"
  nl_timers :: "(u64 \<times> int) list"

definition nl_empty :: "'o nc_limiter" where
  "nl_empty = \<lparr>nl_entries = [], nl_timers = []\<rparr>"

text \<open>\<open>rate_limit_id\<close> arms a timer with the id and the time.\<close>

definition rate_limit_id :: "u64 \<Rightarrow> int \<Rightarrow> 'o option \<Rightarrow> 'o nc_limiter \<Rightarrow> 'o nc_limiter" where
  "rate_limit_id major_param_id tp rq l =
     (let e = (case rq of Some r \<Rightarrow> \<lparr>ne_id = major_param_id, ne_until = tp, ne_requests = [r]\<rparr>
                        | None \<Rightarrow> \<lparr>ne_id = major_param_id, ne_until = tp, ne_requests = []\<rparr>)
      in l\<lparr>nl_entries := insert_at (upper_bound (map ne_until (nl_entries l)) tp) e (nl_entries l),
           nl_timers := nl_timers l @ [(major_param_id, tp)]\<rparr>)"

definition check_rate_limit :: "u64 \<Rightarrow> 'o \<Rightarrow> 'o nc_limiter \<Rightarrow> bool \<times> 'o nc_limiter" where
  "check_rate_limit i rq l =
     (let it = find_index (\<lambda>e. ne_id e = i) (nl_entries l)
      in if it \<noteq> length (nl_entries l)
         then (True, l\<lparr>nl_entries := (nl_entries l)
            [it := (nl_entries l ! it)\<lparr>ne_requests := ne_requests (nl_entries l ! it) @ [rq]\<rparr>]\<rparr>)
         else (False, l))"

text \<open>What \<open>resend_rate_limted_requests_for\<close> takes out when a timer runs out: the first entry, whatever the id. Without an
  entry the result is not defined.\<close>

definition resend_front :: "u64 \<times> int \<Rightarrow> 'o nc_limiter \<Rightarrow> ('o list \<times> 'o nc_limiter) option" where
  "resend_front t l =
     (case nl_entries l of [] \<Rightarrow> None
      | e # es \<Rightarrow> Some (ne_requests e, l\<lparr>nl_entries := es, nl_timers := remove1 t (nl_timers l)\<rparr>))"

section \<open>Sending\<close>

text \<open>
  \<open>send_rq\<close> on what the network gives in each round: the error of the write, the error of the read, 0 for none, and the
  response as the read leaves it. Behind the read the code looks at the error of the write. The result is the number of
  reconnections and the response; \<open>None\<close> when the rounds do not suffice.
\<close>

fun nc_send_rq :: "(int \<times> int \<times> 'r) list \<Rightarrow> nat \<Rightarrow> (nat \<times> 'r) option" where
  "nc_send_rq [] n = None"
| "nc_send_rq ((ec, ec2, res) # rounds) n =
     (if ec \<noteq> 0 \<and> ec = 10053 then nc_send_rq rounds (n + 1)
      else if ec2 \<noteq> 0 \<and> ec = 1 then nc_send_rq rounds (n + 1)
      else Some (n, res))"

text \<open>\<open>reconnect\<close> tries again until resolving, connecting and the handshake succeed: the attempts it takes.\<close>

fun nc_reconnect :: "(bool \<times> bool \<times> bool) list \<Rightarrow> nat option" where
  "nc_reconnect [] = None"
| "nc_reconnect ((resolved, connected, shaken) # tries) =
     (if \<not> resolved \<or> \<not> connected \<or> \<not> shaken then map_option Suc (nc_reconnect tries) else Some 1)"

section \<open>The connection\<close>

text \<open>Of a response: the status, the body of a 429, and the values of the headers \<open>X-RateLimit-Remaining\<close> and
  \<open>X-RateLimit-Reset\<close>.\<close>

record nc_response =
  nr_status :: int
  nr_body :: "(nat \<times> bool) option"
  nr_remaining :: "string option"
  nr_reset :: "string option"

record 'x nc_connection =
  n_queue :: "'x discord_request mpsc_queue"
  n_limiter :: "'x discord_request nc_limiter"
  n_rate_limited_until :: nat
  n_global_rate_limited :: bool
  n_consumer :: "'x discord_request consumer"
  n_finished :: "('x discord_request \<times> nc_response) list"

definition nc_connection_start :: "'x nc_connection" where
  "nc_connection_start = \<lparr>n_queue = mpsc_empty, n_limiter = nl_empty, n_rate_limited_until = 0,
     n_global_rate_limited = False, n_consumer = Ready, n_finished = []\<rparr>"

definition nc_sleep_till :: "nat \<Rightarrow> 'x nc_connection \<Rightarrow> 'x nc_connection" where
  "nc_sleep_till time_point c = c\<lparr>n_rate_limited_until := time_point, n_global_rate_limited := True\<rparr>"

definition nc_resume_with :: "'x discord_request deliveries \<Rightarrow> 'x nc_connection \<Rightarrow> 'x nc_connection" where
  "nc_resume_with ds c = (case ds of [] \<Rightarrow> c | (_, r) # _ \<Rightarrow> c\<lparr>n_consumer := Got r\<rparr>)"

definition nc_send :: "'x discord_request \<Rightarrow> 'x nc_connection \<Rightarrow> 'x nc_connection" where
  "nc_send d c = (case mpsc_push d (n_queue c) of (ds, q) \<Rightarrow> nc_resume_with ds (c\<lparr>n_queue := q\<rparr>))"

text \<open>\<open>start_sending\<close> takes the next request.\<close>

definition nc_pop_request :: "'x nc_connection \<Rightarrow> 'x nc_connection" where
  "nc_pop_request c =
     (case mpsc_pop 0 (n_queue c) of (ds, q) \<Rightarrow> nc_resume_with ds (c\<lparr>n_queue := q, n_consumer := Waiting\<rparr>))"

text \<open>\<open>send_to_discord\<close>: the mutex it locks is never contended, as only \<open>start_sending\<close> calls it.\<close>

definition nc_admit :: "'x discord_request \<Rightarrow> 'x nc_connection \<Rightarrow> 'x nc_connection" where
  "nc_admit r c =
     (case get_major_param_id (rq_target r) of
        None \<Rightarrow> c\<lparr>n_consumer := Crashed r\<rparr>
      | Some b \<Rightarrow> (case check_rate_limit b r (n_limiter c) of
          (True, l) \<Rightarrow> c\<lparr>n_limiter := l, n_consumer := Ready\<rparr>
        | (False, l) \<Rightarrow> c\<lparr>n_limiter := l, n_consumer := Sending r\<rparr>))"

definition nc_send_to_discord :: "nat \<Rightarrow> 'x discord_request \<Rightarrow> 'x nc_connection \<Rightarrow> 'x nc_connection" where
  "nc_send_to_discord now r c =
     (if get_major_param_id (rq_target r) = None then c\<lparr>n_consumer := Crashed r\<rparr>
      else if n_global_rate_limited c then
        if n_rate_limited_until c > now then c\<lparr>n_consumer := Global_sleep r (n_rate_limited_until c)\<rparr>
        else nc_admit r (c\<lparr>n_global_rate_limited := False\<rparr>)
      else nc_admit r c)"

definition nc_wake_global :: "'x discord_request \<Rightarrow> 'x nc_connection \<Rightarrow> 'x nc_connection" where
  "nc_wake_global r c = nc_admit r (c\<lparr>n_global_rate_limited := False\<rparr>)"

text \<open>\<open>send_to_discord_\<close> on the response to \<open>r\<close>. The reset header counts seconds; without it, although there are none
  remaining, the result is not defined.\<close>

definition nc_handle_response :: "(nat \<Rightarrow> 'x nc_connection \<Rightarrow> 'x nc_connection) \<Rightarrow> nat \<Rightarrow>
    'x discord_request \<Rightarrow> nc_response \<Rightarrow> 'x nc_connection \<Rightarrow> 'x nc_connection" where
  "nc_handle_response on_global now r res c =
     (if nr_status res = 429 then
        (case nr_body res of
           None \<Rightarrow> c\<lparr>n_consumer := Crashed r\<rparr>
         | Some (retry_after, global) \<Rightarrow>
             let tp = now + retry_after in
             if global then (on_global tp c)\<lparr>n_consumer := Retry_sleep r tp\<rparr>
             else (case get_major_param_id (rq_target r) of
                 None \<Rightarrow> c\<lparr>n_consumer := Crashed r\<rparr>
               | Some b \<Rightarrow> c\<lparr>n_limiter := rate_limit_id b (int tp) (Some r) (n_limiter c), n_consumer := Ready\<rparr>))
      else if nr_remaining res = Some ''0'' then
        (case nr_reset res of
           None \<Rightarrow> c\<lparr>n_consumer := Crashed r\<rparr>
         | Some s \<Rightarrow> let time = 1000 * fst (from_chars_int 64 0 s) in
             (case get_major_param_id (rq_target r) of
               None \<Rightarrow> c\<lparr>n_consumer := Crashed r\<rparr>
             | Some b \<Rightarrow> c\<lparr>n_limiter := rate_limit_id b time None (n_limiter c), n_consumer := Ready,
                 n_finished := n_finished c @ [(r, res)]\<rparr>))
      else c\<lparr>n_consumer := Ready, n_finished := n_finished c @ [(r, res)]\<rparr>)"

definition nc_finish_limit :: "(u64 \<times> int) \<Rightarrow> 'x nc_connection \<Rightarrow> 'x nc_connection option" where
  "nc_finish_limit t c =
     (case resend_front t (n_limiter c) of
        None \<Rightarrow> None
      | Some (requests, l) \<Rightarrow> Some (foldl (\<lambda>c r. nc_send r c) (c\<lparr>n_limiter := l\<rparr>) requests))"

section \<open>Steps\<close>

record 'x nc_config =
  nf_now :: nat
  nf_sent :: "'x discord_request list"
  nf_conn :: "'x nc_connection"

text \<open>The handlers of the timers that have run out may come in any order.\<close>

inductive nc_http_step :: "'x nc_config \<Rightarrow> 'x nc_config \<Rightarrow> bool" where
  nc_user: "nc_http_step s (s\<lparr>nf_sent := nf_sent s @ [r], nf_conn := nc_send r (nf_conn s)\<rparr>)"
| nc_tick: "now \<ge> nf_now s \<Longrightarrow> nc_http_step s (s\<lparr>nf_now := now\<rparr>)"
| nc_limited: "nc_http_step s (s\<lparr>nf_conn := nc_sleep_till t (nf_conn s)\<rparr>)"
| nc_pop: "n_consumer (nf_conn s) = Ready \<Longrightarrow> nc_http_step s (s\<lparr>nf_conn := nc_pop_request (nf_conn s)\<rparr>)"
| nc_got: "n_consumer (nf_conn s) = Got r \<Longrightarrow>
    nc_http_step s (s\<lparr>nf_conn := nc_send_to_discord (nf_now s) r (nf_conn s)\<rparr>)"
| nc_wake: "n_consumer (nf_conn s) = Global_sleep r t \<Longrightarrow> t \<le> nf_now s \<Longrightarrow>
    nc_http_step s (s\<lparr>nf_conn := nc_wake_global r (nf_conn s)\<rparr>)"
| nc_responded: "n_consumer (nf_conn s) = Sending r \<Longrightarrow> on_global = nc_sleep_till \<or> on_global = (\<lambda>_ c. c) \<Longrightarrow>
    nc_http_step s (s\<lparr>nf_conn := nc_handle_response on_global (nf_now s) r res (nf_conn s)\<rparr>)"
| nc_retry: "n_consumer (nf_conn s) = Retry_sleep r t \<Longrightarrow> t \<le> nf_now s \<Longrightarrow>
    nc_http_step s (s\<lparr>nf_conn := (nf_conn s)\<lparr>n_consumer := Sending r\<rparr>\<rparr>)"
| nc_timer: "t \<in> set (nl_timers (n_limiter (nf_conn s))) \<Longrightarrow> snd t \<le> int (nf_now s) \<Longrightarrow>
    nc_finish_limit t (nf_conn s) = Some c \<Longrightarrow> nc_http_step s (s\<lparr>nf_conn := c\<rparr>)"

definition nc_config_start :: "'x nc_config" where
  "nc_config_start = \<lparr>nf_now = 0, nf_sent = [], nf_conn = nc_connection_start\<rparr>"

inductive nc_reachable :: "'x nc_config \<Rightarrow> bool" where
  nc_start: "nc_reachable nc_config_start"
| nc_step: "nc_reachable s \<Longrightarrow> nc_http_step s t \<Longrightarrow> nc_reachable t"

section \<open>The limiter's laws\<close>

definition nl_ids :: "'o nc_limiter \<Rightarrow> u64 list" where
  "nl_ids l = map ne_id (nl_entries l)"

definition nl_held :: "'o nc_limiter \<Rightarrow> 'o list" where
  "nl_held l = concat (map ne_requests (nl_entries l))"

text \<open>One entry per id, sorted by time, and as many timers.\<close>

definition nl_inv :: "'o nc_limiter \<Rightarrow> bool" where
  "nl_inv l \<longleftrightarrow> distinct (nl_ids l) \<and> sorted (map ne_until (nl_entries l)) \<and> length (nl_timers l) = length (nl_entries l)"

text \<open>At no time from \<open>now\<close> on have more timers run out than limits ended.\<close>

definition timely :: "int \<Rightarrow> 'o nc_limiter \<Rightarrow> bool" where
  "timely now l \<longleftrightarrow> (\<forall>t \<ge> now. length (filter (\<lambda>m. snd m \<le> t) (nl_timers l)) \<le> length (filter (\<lambda>e. ne_until e \<le> t) (nl_entries l)))"

lemma nl_empty_inv: "nl_inv nl_empty" "nl_held nl_empty = []" "nl_ids nl_empty = []" "timely now nl_empty"
  by (simp_all add: nl_inv_def nl_empty_def nl_held_def nl_ids_def timely_def)

lemma distinct_insert_at: "distinct (insert_at i x xs) \<longleftrightarrow> distinct (x # xs)"
  by (rule mset_eq_imp_distinct_iff) (simp add: mset_insert_at)

lemma length_filter_insert_at: "length (filter f (insert_at i x xs)) = length (filter f (x # xs))"
  by (metis mset_filter mset_insert_at mset.simps(2) size_mset)

lemma rate_limit_id_ok:
  assumes "nl_inv l" "b \<notin> set (nl_ids l)"
  shows "nl_inv (rate_limit_id b u x l)" "set (nl_ids (rate_limit_id b u x l)) = insert b (set (nl_ids l))"
    "mset (nl_held (rate_limit_id b u x l)) = mset (nl_held l) + (case x of Some r \<Rightarrow> {#r#} | None \<Rightarrow> {#})"
    "timely now l \<Longrightarrow> timely now (rate_limit_id b u x l)"
proof -
  have "sorted (insert_at (upper_bound (map ne_until (nl_entries l)) u) u (map ne_until (nl_entries l)))"
    using assms(1) by (intro insert_upper_sorted) (simp add: nl_inv_def)
  then show "nl_inv (rate_limit_id b u x l)" using assms
    by (simp add: nl_inv_def rate_limit_id_def Let_def nl_ids_def map_insert_at distinct_insert_at length_insert_at
        split: option.splits)
  show "set (nl_ids (rate_limit_id b u x l)) = insert b (set (nl_ids l))"
    "mset (nl_held (rate_limit_id b u x l)) = mset (nl_held l) + (case x of Some r \<Rightarrow> {#r#} | None \<Rightarrow> {#})"
    by (simp_all add: rate_limit_id_def Let_def nl_ids_def nl_held_def map_insert_at set_insert_at mset_concat_insert_at
        split: option.splits)
  show "timely now (rate_limit_id b u x l)" if "timely now l"
    using that by (auto simp: timely_def rate_limit_id_def Let_def length_filter_insert_at split: option.splits)
qed

lemma check_rate_limit_ok:
  assumes "nl_inv l"
  shows "b \<notin> set (nl_ids l) \<Longrightarrow> check_rate_limit b x l = (False, l)"
    and "b \<in> set (nl_ids l) \<Longrightarrow> \<exists>l'. check_rate_limit b x l = (True, l') \<and> nl_inv l' \<and> nl_ids l' = nl_ids l
      \<and> mset (nl_held l') = add_mset x (mset (nl_held l)) \<and> (timely now l \<longrightarrow> timely now l')"
proof -
  let ?it = "find_index (\<lambda>e. ne_id e = b) (nl_entries l)"
  show "check_rate_limit b x l = (False, l)" if "b \<notin> set (nl_ids l)"
    using that find_index_none [of "\<lambda>e. ne_id e = b" "nl_entries l"] by (auto simp: check_rate_limit_def Let_def nl_ids_def)
  show "\<exists>l'. check_rate_limit b x l = (True, l') \<and> nl_inv l' \<and> nl_ids l' = nl_ids l
      \<and> mset (nl_held l') = add_mset x (mset (nl_held l)) \<and> (timely now l \<longrightarrow> timely now l')" if "b \<in> set (nl_ids l)"
  proof -
    have "?it \<noteq> length (nl_entries l)"
      using that find_index_none [of "\<lambda>e. ne_id e = b" "nl_entries l"] by (auto simp: nl_ids_def)
    then have it: "?it < length (nl_entries l)" by (blast dest: find_index_less)
    let ?e = "nl_entries l ! ?it"
    let ?l = "l\<lparr>nl_entries := (nl_entries l)[?it := ?e\<lparr>ne_requests := ne_requests ?e @ [x]\<rparr>]\<rparr>"
    have c: "check_rate_limit b x l = (True, ?l)" using it by (simp add: check_rate_limit_def Let_def)
    have same: "nl_ids ?l = nl_ids l" "map ne_until (nl_entries ?l) = map ne_until (nl_entries l)"
      using it by (simp_all add: nl_ids_def map_update_same)
    have "mset (nl_held ?l) + mset (ne_requests ?e) = mset (nl_held l) + mset (ne_requests ?e @ [x])"
      using mset_concat_update [OF it, of ne_requests "?e\<lparr>ne_requests := ne_requests ?e @ [x]\<rparr>"] by (simp add: nl_held_def)
    then have h: "mset (nl_held ?l) = add_mset x (mset (nl_held l))" by simp
    have "length (filter (\<lambda>e. ne_until e \<le> t) (nl_entries ?l)) = length (filter (\<lambda>e. ne_until e \<le> t) (nl_entries l))" for t
      using arg_cong [OF same(2), of "\<lambda>us. length (filter (\<lambda>u. u \<le> t) us)"] by (simp add: filter_map o_def)
    then have "timely now ?l" if "timely now l" using that by (simp add: timely_def)
    moreover have "nl_inv ?l" using assms same by (simp add: nl_inv_def)
    ultimately show ?thesis using c same(1) h by blast
  qed
qed

lemma resend_front_ok:
  assumes "nl_inv l" "t \<in> set (nl_timers l)"
  shows "\<exists>e es l'. nl_entries l = e # es \<and> resend_front t l = Some (ne_requests e, l') \<and> nl_inv l' \<and> nl_entries l' = es
    \<and> mset (ne_requests e) + mset (nl_held l') = mset (nl_held l)
    \<and> (timely now l \<and> snd t \<le> now \<longrightarrow> ne_until e \<le> now \<and> timely now l')"
proof -
  obtain e es where es: "nl_entries l = e # es" using assms by (cases "nl_entries l") (auto simp: nl_inv_def)
  let ?l = "l\<lparr>nl_entries := es, nl_timers := remove1 t (nl_timers l)\<rparr>"
  have "nl_inv ?l" using assms es by (auto simp: nl_inv_def nl_ids_def length_remove1)
  moreover have "ne_until e \<le> now \<and> timely now ?l" if "timely now l" "snd t \<le> now"
  proof -
    have le: "ne_until e \<le> ne_until x" if "x \<in> set es" for x using assms(1) es that by (simp add: nl_inv_def)
    have "filter (\<lambda>m. snd m \<le> now) (nl_timers l) \<noteq> []" using assms(2) that(2) by (auto simp: filter_empty_conv)
    moreover have "length (filter (\<lambda>m. snd m \<le> now) (nl_timers l)) \<le> length (filter (\<lambda>e. ne_until e \<le> now) (nl_entries l))"
      using that(1) by (simp add: timely_def)
    ultimately have "filter (\<lambda>e. ne_until e \<le> now) (nl_entries l) \<noteq> []" by force
    then obtain x where "x \<in> set (nl_entries l)" "ne_until x \<le> now" by (auto simp: filter_empty_conv)
    then have now: "ne_until e \<le> now" using es le by force
    have "length (filter (\<lambda>m. snd m \<le> u) (remove1 t (nl_timers l))) \<le> length (filter (\<lambda>e. ne_until e \<le> u) es)" if u: "u \<ge> now" for u
    proof -
      have "t \<in> set (filter (\<lambda>m. snd m \<le> u) (nl_timers l))" using assms(2) \<open>snd t \<le> now\<close> u by simp
      then have "length (filter (\<lambda>m. snd m \<le> u) (remove1 t (nl_timers l))) = length (filter (\<lambda>m. snd m \<le> u) (nl_timers l)) - 1"
        by (simp add: filter_remove1 length_remove1)
      also have "\<dots> \<le> length (filter (\<lambda>e. ne_until e \<le> u) (nl_entries l)) - 1"
        using \<open>timely now l\<close> u by (intro diff_le_mono) (simp add: timely_def)
      finally show ?thesis using es now u by simp
    qed
    with now show ?thesis by (simp add: timely_def)
  qed
  ultimately show ?thesis using es by (simp add: resend_front_def nl_held_def)
qed

interpretation nl: limit_store nl_inv "\<lambda>l. set (nl_ids l)" "\<lambda>l. mset (nl_held l)" "\<lambda>l. set (nl_timers l)"
  check_rate_limit "\<lambda>b u. rate_limit_id b u None" "\<lambda>b u x. rate_limit_id b u (Some x)" resend_front
proof (unfold_locales, goal_cases)
  case (2 l b x)
  then show ?case using check_rate_limit_ok(2) [of l b x] by force
next
  case (5 l t)
  then obtain e es l' where "nl_entries l = e # es" "resend_front t l = Some (ne_requests e, l')" "nl_inv l'" "nl_entries l' = es"
    "mset (ne_requests e) + mset (nl_held l') = mset (nl_held l)" using resend_front_ok [of l t] by blast
  then show ?case by (auto simp: nl_ids_def)
qed (simp_all add: check_rate_limit_ok rate_limit_id_ok)

section \<open>The connection's invariant\<close>

definition nc_requests :: "'x nc_connection \<Rightarrow> 'x discord_request multiset" where
  "nc_requests c = mset (mpsc_data (n_queue c)) + held_by (n_consumer c)
     + mset (nl_held (n_limiter c)) + mset (map fst (n_finished c))"

definition nc_inv :: "int \<Rightarrow> 'x nc_connection \<Rightarrow> bool" where
  "nc_inv now c \<longleftrightarrow> mpsc_inv (n_queue c) \<and> nl_inv (n_limiter c) \<and> timely now (n_limiter c)
     \<and> mpsc_waiter (n_queue c) = (if n_consumer c = Waiting then Some 0 else None)
     \<and> (\<forall>r. in_flight (n_consumer c) = Some r \<longrightarrow>
          (\<exists>b. get_major_param_id (rq_target r) = Some b \<and> b \<notin> set (nl_ids (n_limiter c))))"

lemmas nc_defs = nc_inv_def nc_requests_def held_by_def in_flight_def

lemma nc_inv_start: "nc_inv now nc_connection_start" "nc_requests nc_connection_start = {#}"
  by (simp_all add: nc_defs nc_connection_start_def mpsc_empty_def mpsc_inv_def nl_empty_inv)

lemma nc_inv_later: "nc_inv now c \<Longrightarrow> now \<le> now' \<Longrightarrow> nc_inv now' c"
  by (auto simp: nc_inv_def timely_def)

lemma nc_send_ok:
  assumes "nc_inv now c"
  shows "nc_inv now (nc_send r c) \<and> nc_requests (nc_send r c) = add_mset r (nc_requests c) \<and> n_limiter (nc_send r c) = n_limiter c"
  using assms by (auto simp: nc_send_def mpsc_push_def nc_resume_with_def nc_defs mpsc_inv_def split: option.splits)

lemma nc_pop_ok:
  assumes "nc_inv now c" "n_consumer c = Ready"
  shows "nc_inv now (nc_pop_request c) \<and> nc_requests (nc_pop_request c) = nc_requests c
    \<and> n_limiter (nc_pop_request c) = n_limiter c"
  using assms by (cases "mpsc_data (n_queue c)")
    (auto simp: nc_pop_request_def mpsc_pop_def nc_resume_with_def nc_defs mpsc_inv_def)

lemma nc_admit_ok:
  assumes "nc_inv now c" "held_by (n_consumer c) = {#r#}" "n_consumer c \<noteq> Waiting"
  shows "nc_inv now (nc_admit r c) \<and> nc_requests (nc_admit r c) = nc_requests c
    \<and> nl_ids (n_limiter (nc_admit r c)) = nl_ids (n_limiter c)"
proof (cases "get_major_param_id (rq_target r)")
  case None
  with assms show ?thesis by (simp add: nc_admit_def nc_defs)
next
  case (Some b)
  have inv: "nl_inv (n_limiter c)" using assms(1) by (simp add: nc_inv_def)
  show ?thesis
  proof (cases "b \<in> set (nl_ids (n_limiter c))")
    case True
    from check_rate_limit_ok(2) [OF inv True, of r now] obtain l where
      l: "check_rate_limit b r (n_limiter c) = (True, l)" "nl_inv l" "nl_ids l = nl_ids (n_limiter c)"
        "mset (nl_held l) = add_mset r (mset (nl_held (n_limiter c)))" "timely now (n_limiter c) \<longrightarrow> timely now l"
      by blast
    with Some assms show ?thesis by (simp add: nc_admit_def nc_inv_def nc_requests_def held_by_def in_flight_def)
  next
    case False
    from check_rate_limit_ok(1) [OF inv False] Some False assms show ?thesis
      by (simp add: nc_admit_def nc_inv_def nc_requests_def held_by_def in_flight_def)
  qed
qed

lemma nc_global_off: "nc_inv now (c\<lparr>n_global_rate_limited := x\<rparr>) = nc_inv now c"
  "nc_requests (c\<lparr>n_global_rate_limited := x\<rparr>) = nc_requests c"
  by (simp_all add: nc_inv_def nc_requests_def)

lemma nc_send_to_discord_ok:
  assumes "nc_inv now c" "n_consumer c = Got r"
  shows "nc_inv now (nc_send_to_discord u r c) \<and> nc_requests (nc_send_to_discord u r c) = nc_requests c
    \<and> nl_ids (n_limiter (nc_send_to_discord u r c)) = nl_ids (n_limiter c)"
proof -
  have "nc_inv now (nc_admit r d) \<and> nc_requests (nc_admit r d) = nc_requests c
      \<and> nl_ids (n_limiter (nc_admit r d)) = nl_ids (n_limiter c)"
    if "d = c \<or> d = c\<lparr>n_global_rate_limited := False\<rparr>" for d
    using nc_admit_ok [of now d r] assms that by (auto simp: nc_global_off held_by_def)
  with assms show ?thesis
    by (simp add: nc_send_to_discord_def) (auto simp: nc_inv_def nc_requests_def held_by_def in_flight_def)
qed

lemma nc_wake_ok:
  assumes "nc_inv now c" "n_consumer c = Global_sleep r t"
  shows "nc_inv now (nc_wake_global r c) \<and> nc_requests (nc_wake_global r c) = nc_requests c
    \<and> nl_ids (n_limiter (nc_wake_global r c)) = nl_ids (n_limiter c)"
  using nc_admit_ok [of now "c\<lparr>n_global_rate_limited := False\<rparr>" r] assms
  by (simp add: nc_wake_global_def nc_global_off held_by_def)

lemma nc_sleep_ok: "nc_inv now (nc_sleep_till t c) = nc_inv now c" "nc_requests (nc_sleep_till t c) = nc_requests c"
  "n_limiter (nc_sleep_till t c) = n_limiter c"
  by (simp_all add: nc_sleep_till_def nc_defs)

lemma nc_handle_ok:
  assumes "nc_inv now c" "n_consumer c = Sending r" "f = nc_sleep_till \<or> f = (\<lambda>_ c. c)"
  shows "nc_inv now (nc_handle_response f u r res c) \<and> nc_requests (nc_handle_response f u r res c) = nc_requests c
    \<and> set (nl_ids (n_limiter c)) \<subseteq> set (nl_ids (n_limiter (nc_handle_response f u r res c)))"
proof -
  from assms(1,2) obtain b where b: "get_major_param_id (rq_target r) = Some b" "b \<notin> set (nl_ids (n_limiter c))"
    by (auto simp: nc_inv_def in_flight_def)
  have i: "nl_inv (n_limiter c)" "timely now (n_limiter c)" using assms(1) by (simp_all add: nc_inv_def)
  note ok = rate_limit_id_ok(1-3) [OF i(1) b(2)] rate_limit_id_ok(4) [OF i(1) b(2) i(2)]
  let ?c = "nc_handle_response f u r res c"
  have waiter: "mpsc_waiter (n_queue c) = None" "mpsc_inv (n_queue c)" using assms(1,2) by (simp_all add: nc_inv_def)
  consider (crash) "?c = c\<lparr>n_consumer := Crashed r\<rparr>"
    | (sleep) t where "?c = (f t c)\<lparr>n_consumer := Retry_sleep r t\<rparr>"
    | (hold) t where "?c = c\<lparr>n_limiter := rate_limit_id b t (Some r) (n_limiter c), n_consumer := Ready\<rparr>"
    | (limit) t where "?c = c\<lparr>n_limiter := rate_limit_id b t None (n_limiter c), n_consumer := Ready,
         n_finished := n_finished c @ [(r, res)]\<rparr>"
    | (answered) "?c = c\<lparr>n_consumer := Ready, n_finished := n_finished c @ [(r, res)]\<rparr>"
  proof (cases "nr_status res = 429")
    case True
    show thesis
    proof (cases "nr_body res")
      case None
      with True have "?c = c\<lparr>n_consumer := Crashed r\<rparr>" by (simp add: nc_handle_response_def)
      then show thesis by (rule crash)
    next
      case (Some p)
      obtain ra g where p: "p = (ra, g)" by (cases p)
      show thesis
      proof (cases g)
        case True
        have "?c = (f (u + ra) c)\<lparr>n_consumer := Retry_sleep r (u + ra)\<rparr>"
          using Some p True \<open>nr_status res = 429\<close> by (simp add: nc_handle_response_def Let_def)
        then show thesis by (rule sleep)
      next
        case False
        have "?c = c\<lparr>n_limiter := rate_limit_id b (int (u + ra)) (Some r) (n_limiter c), n_consumer := Ready\<rparr>"
          using Some p False b(1) \<open>nr_status res = 429\<close> by (simp add: nc_handle_response_def Let_def)
        then show thesis by (rule hold)
      qed
    qed
  next
    case False
    show thesis
    proof (cases "nr_remaining res = Some ''0''")
      case True
      show thesis
      proof (cases "nr_reset res")
        case None
        with True False have "?c = c\<lparr>n_consumer := Crashed r\<rparr>" by (simp add: nc_handle_response_def)
        then show thesis by (rule crash)
      next
        case (Some t)
        with True False b(1) have "?c = c\<lparr>n_limiter := rate_limit_id b (1000 * fst (from_chars_int 64 0 t)) None (n_limiter c),
            n_consumer := Ready, n_finished := n_finished c @ [(r, res)]\<rparr>"
          by (simp add: nc_handle_response_def Let_def)
        then show thesis by (rule limit)
      qed
    next
      case False
      with \<open>nr_status res \<noteq> 429\<close> have "?c = c\<lparr>n_consumer := Ready, n_finished := n_finished c @ [(r, res)]\<rparr>"
        by (simp add: nc_handle_response_def)
      then show thesis by (rule answered)
    qed
  qed
  then show ?thesis
  proof cases
    case crash
    then show ?thesis using assms(2) i waiter by (simp add: nc_defs)
  next
    case (sleep t)
    with assms show ?thesis using i waiter b by (auto simp: nc_defs nc_sleep_till_def)
  next
    case (hold t)
    then show ?thesis using assms(2) waiter ok [of t "Some r"] by (simp add: nc_defs) blast
  next
    case (limit t)
    then show ?thesis using assms(2) waiter ok [of t None] by (simp add: nc_defs) blast
  next
    case answered
    then show ?thesis using assms(2) i waiter by (simp add: nc_defs)
  qed
qed

lemma nc_send_all_ok:
  "nc_inv now c \<Longrightarrow> nc_inv now (foldl (\<lambda>c r. nc_send r c) c rs)
    \<and> nc_requests (foldl (\<lambda>c r. nc_send r c) c rs) = mset rs + nc_requests c
    \<and> n_limiter (foldl (\<lambda>c r. nc_send r c) c rs) = n_limiter c"
  by (induction rs arbitrary: c) (simp_all add: nc_send_ok)

lemma nc_finish_ok:
  assumes "nc_inv now c" "t \<in> set (nl_timers (n_limiter c))" "snd t \<le> now"
  shows "\<exists>c' e es. nc_finish_limit t c = Some c' \<and> nc_inv now c' \<and> nc_requests c' = nc_requests c
    \<and> nl_entries (n_limiter c) = e # es \<and> nl_entries (n_limiter c') = es \<and> ne_until e \<le> now"
proof -
  have i: "nl_inv (n_limiter c)" "timely now (n_limiter c)" using assms(1) by (simp_all add: nc_inv_def)
  from resend_front_ok [OF i(1) assms(2), of now] i(2) assms(3) obtain e es l where
    l: "nl_entries (n_limiter c) = e # es" "resend_front t (n_limiter c) = Some (ne_requests e, l)" "nl_inv l"
      "nl_entries l = es" "mset (ne_requests e) + mset (nl_held l) = mset (nl_held (n_limiter c))" "ne_until e \<le> now" "timely now l"
    by blast
  have "set (nl_ids l) \<subseteq> set (nl_ids (n_limiter c))" by (auto simp: nl_ids_def l(1,4))
  then have inv: "nc_inv now (c\<lparr>n_limiter := l\<rparr>)" using assms(1) l(3,7) by (simp add: nc_inv_def) blast
  have same: "mset (ne_requests e) + nc_requests (c\<lparr>n_limiter := l\<rparr>) = nc_requests c"
    by (simp add: nc_requests_def flip: l(5))
  let ?c = "foldl (\<lambda>c r. nc_send r c) (c\<lparr>n_limiter := l\<rparr>) (ne_requests e)"
  have "nc_finish_limit t c = Some ?c" by (simp add: nc_finish_limit_def l(2))
  moreover have "nc_inv now ?c" "nc_requests ?c = nc_requests c" "nl_entries (n_limiter ?c) = es"
    using nc_send_all_ok [OF inv, of "ne_requests e"] same l(4) by simp_all
  ultimately show ?thesis using l(1,6) by blast
qed

lemma nc_step_ok:
  assumes "nc_http_step s t" "nc_inv (int (nf_now s)) (nf_conn s)" "nc_requests (nf_conn s) = mset (nf_sent s)"
  shows "nc_inv (int (nf_now t)) (nf_conn t) \<and> nc_requests (nf_conn t) = mset (nf_sent t)"
  using assms
proof cases
  case (nc_timer tm c)
  from nc_finish_ok [OF assms(2) nc_timer(2,3)] nc_timer assms(3) show ?thesis by auto
next
  case (nc_user r)
  with nc_send_ok [OF assms(2), of r] assms(3) show ?thesis by simp
next
  case nc_pop
  with nc_pop_ok [OF assms(2)] assms(3) show ?thesis by simp
next
  case (nc_got r)
  with nc_send_to_discord_ok [OF assms(2)] assms(3) show ?thesis by simp
next
  case (nc_wake r u)
  with nc_wake_ok [OF assms(2)] assms(3) show ?thesis by simp
next
  case (nc_responded r f res)
  with nc_handle_ok [OF assms(2)] assms(3) show ?thesis by simp
next
  case (nc_retry r tm)
  with assms(2,3) show ?thesis by (simp add: nc_defs)
next
  case (nc_tick now)
  with assms(2,3) nc_inv_later [OF assms(2), of "int now"] show ?thesis by simp
qed (use assms in \<open>simp_all add: nc_sleep_ok\<close>)

lemma nc_reachable_inv: "nc_reachable s \<Longrightarrow> nc_inv (int (nf_now s)) (nf_conn s) \<and> nc_requests (nf_conn s) = mset (nf_sent s)"
  by (induction rule: nc_reachable.induct) (auto simp: nc_config_start_def nc_inv_start nc_step_ok)

section \<open>What the connection promises\<close>

lemma nc_step_ids:
  assumes "nc_http_step s t" and inv: "nc_inv (int (nf_now s)) (nf_conn s)"
  shows "set (nl_ids (n_limiter (nf_conn s))) \<subseteq> set (nl_ids (n_limiter (nf_conn t)))
    \<or> (\<exists>e es. nl_entries (n_limiter (nf_conn s)) = e # es \<and> nl_entries (n_limiter (nf_conn t)) = es
         \<and> ne_until e \<le> int (nf_now s))"
  using assms(1)
proof cases
  case (nc_timer tm c)
  from nc_finish_ok [OF inv nc_timer(2,3)] nc_timer show ?thesis by auto
next
  case (nc_user r)
  with nc_send_ok [OF inv, of r] show ?thesis by simp
next
  case nc_pop
  with nc_pop_ok [OF inv] show ?thesis by simp
next
  case (nc_got r)
  with nc_send_to_discord_ok [OF inv] show ?thesis by simp
next
  case (nc_wake r u)
  with nc_wake_ok [OF inv] show ?thesis by simp
next
  case (nc_responded r f res)
  with nc_handle_ok [OF inv] show ?thesis by simp
qed (simp_all add: nc_sleep_ok)


text \<open>A timer can release the requests of another id: 9's timer runs out first, 5's requests go out and 5's limit is gone; both
  limits had ended.\<close>

lemma timer_of_another_id:
  "nl_ids (snd (the (resend_front (9, 200) (rate_limit_id 9 200 None (rate_limit_id 5 100 (Some ''a'') nl_empty))))) = [9]"
  by (simp add: rate_limit_id_def resend_front_def nl_empty_def nl_ids_def insert_at_def upper_bound_def)

text \<open>A response that could not be read is taken as the response: only the error of the write is looked at.\<close>

lemma failed_read_is_a_response: "ec2 \<noteq> 0 \<Longrightarrow> nc_send_rq [(0, ec2, res)] n = Some (n, res)"
  by simp

text \<open>\<open>reconnect\<close> ends when an attempt succeeds.\<close>

lemma nc_reconnect_returns: "(True, True, True) \<in> set tries \<Longrightarrow> \<exists>n. nc_reconnect tries = Some n \<and> n \<le> length tries"
proof (induction tries)
  case (Cons x xs)
  then show ?case by (cases x) auto
qed simp

section \<open>A concrete run\<close>

text \<open>A request of channel 5 is answered with 429 and held back for a second.\<close>

definition nc_busy :: nc_response where
  "nc_busy = \<lparr>nr_status = 429, nr_body = Some (1000, False), nr_remaining = None, nr_reset = None\<rparr>"

definition nc_sending :: "unit nc_config" where
  "nc_sending = \<lparr>nf_now = 0, nf_sent = [sample_request],
     nf_conn = nc_send_to_discord 0 sample_request (nc_pop_request (nc_send sample_request nc_connection_start))\<rparr>"

definition nc_held :: "unit nc_config" where
  "nc_held = nc_sending\<lparr>nf_conn := nc_handle_response nc_sleep_till 0 sample_request nc_busy (nf_conn nc_sending)\<rparr>"

lemmas nc_eval = nc_connection_start_def nc_send_def mpsc_push_def mpsc_pop_def mpsc_empty_def nc_resume_with_def
  nc_pop_request_def

lemma nc_sending_conn: "n_consumer (nf_conn nc_sending) = Sending sample_request" "n_limiter (nf_conn nc_sending) = nl_empty"
  "n_finished (nf_conn nc_sending) = []" "mpsc_data (n_queue (nf_conn nc_sending)) = []"
  by (simp_all add: nc_sending_def nc_send_to_discord_def nc_admit_def sample_bucket check_rate_limit_ok(1) nl_empty_inv nc_eval)

lemma nc_held_reachable: "nc_reachable nc_held"
proof -
  let ?s0 = "nc_config_start :: unit nc_config"
  let ?s1 = "?s0\<lparr>nf_sent := nf_sent ?s0 @ [sample_request], nf_conn := nc_send sample_request (nf_conn ?s0)\<rparr>"
  let ?s2 = "?s1\<lparr>nf_conn := nc_pop_request (nf_conn ?s1)\<rparr>"
  have "nc_reachable ?s1" by (rule nc_step [OF nc_start nc_user])
  then have "nc_reachable ?s2" by (rule nc_step [OF _ nc_pop]) (simp add: nc_config_start_def nc_eval)
  then have "nc_reachable (?s2\<lparr>nf_conn := nc_send_to_discord (nf_now ?s2) sample_request (nf_conn ?s2)\<rparr>)"
    by (rule nc_step [OF _ nc_got]) (simp add: nc_config_start_def nc_eval)
  then have "nc_reachable nc_sending" by (simp add: nc_sending_def nc_config_start_def)
  from nc_step [OF this nc_responded [OF nc_sending_conn(1), of nc_sleep_till nc_busy]] show ?thesis
    by (simp add: nc_held_def nc_sending_def)
qed

lemma nc_held_limiter: "n_limiter (nf_conn nc_held) = rate_limit_id 5 1000 (Some sample_request) nl_empty"
  by (simp add: nc_held_def nc_handle_response_def nc_busy_def sample_bucket nc_sending_conn)


end
