(* ===== verification/Nc_Entities.thy ===== *)
theory Nc_Entities
  imports Messages
begin

text \<open>
  The objects of the library without a cache (\<open>no_cache/*.h\<close> and their sources, namespace \<open>cacheless\<close>) and how they are read
  from JSON. Ids, emojis, reactions, attachments and activities are read as those of the other library are and use its
  definitions; the rest differs: public fields, permissions of 64 bits read as numbers, overwrites whose type is a word.
  The reader of time stamps sets nothing, as there.
\<close>

section \<open>Permissions\<close>

type_synonym nc_permission = u64

definition nc_add_permissions :: "nc_permission \<Rightarrow> nc_permission \<Rightarrow> nc_permission" where
  "nc_add_permissions p this = this OR p"

definition nc_remove_permissions :: "nc_permission \<Rightarrow> nc_permission \<Rightarrow> nc_permission" where
  "nc_remove_permissions p this = this AND NOT p"

definition nc_combine_permissions :: "nc_permission \<Rightarrow> nc_permission \<Rightarrow> nc_permission" where
  "nc_combine_permissions other this = this OR other"

definition nc_has_permission :: "nc_permission \<Rightarrow> nc_permission \<Rightarrow> bool" where
  "nc_has_permission p this \<longleftrightarrow> this AND p = p"

definition nc_perm_or :: "nc_permission \<Rightarrow> nc_permission \<Rightarrow> nc_permission" where
  "nc_perm_or this other = nc_combine_permissions this other"

definition nc_perm_and :: "nc_permission \<Rightarrow> nc_permission \<Rightarrow> nc_permission" where
  "nc_perm_and this other = this AND other"

definition nc_intersection :: "nc_permission \<Rightarrow> nc_permission \<Rightarrow> nc_permission" where
  "nc_intersection this other = nc_perm_and this other"

definition nc_perm_plus :: "nc_permission \<Rightarrow> nc_permission \<Rightarrow> nc_permission" where
  "nc_perm_plus this o2 = nc_add_permissions this o2"

definition nc_perm_minus :: "nc_permission \<Rightarrow> nc_permission \<Rightarrow> nc_permission" where
  "nc_perm_minus this o2 = nc_remove_permissions o2 this"

definition as_u64 :: "'j json_api \<Rightarrow> 'j \<Rightarrow> u64 res" where
  "as_u64 J v = rmap word_of_int (as_int J v)"

definition read_nc_permission :: "'j json_api \<Rightarrow> 'j \<Rightarrow> nc_permission res" where
  "read_nc_permission J v = (if j_is_null J v then Inr 0 else as_u64 J v)"

lemmas nc_permission_defs = nc_add_permissions_def nc_remove_permissions_def nc_combine_permissions_def nc_has_permission_def
  nc_perm_or_def nc_perm_and_def nc_intersection_def nc_perm_plus_def nc_perm_minus_def

text \<open>Here the difference is the difference of the sets of flags, as it is not in the other library.\<close>

lemma nc_has_iff: "nc_has_permission b a \<longleftrightarrow> (\<forall>n. bit b n \<longrightarrow> bit a n)"
proof
  assume "nc_has_permission b a"
  then show "\<forall>n. bit b n \<longrightarrow> bit a n" by (metis nc_has_permission_def bit_and_iff)
next
  assume "\<forall>n. bit b n \<longrightarrow> bit a n"
  then have "a AND b = b" by (intro bit_eqI) (auto simp: bit_and_iff)
  then show "nc_has_permission b a" by (simp add: nc_has_permission_def)
qed

interpretation nc_perms: flag_set_diff bit "\<lambda>_. True" "0 :: nc_permission" nc_perm_plus "\<lambda>a b. nc_has_permission b a" nc_perm_minus
proof (unfold_locales, goal_cases)
  case (7 a b n)
  then show ?case by (auto simp: nc_permission_defs bit_simps dest: bit_imp_le_length)
qed (auto simp: nc_permission_defs bit_simps nc_has_iff [unfolded nc_has_permission_def] intro: bit_eqI)

section \<open>Users, members, roles\<close>

record nc_user =
  nu_id :: snowflake
  nu_username :: string
  nu_avatar :: string
  nu_discriminator :: "16 word"
  nu_bot :: bool

definition nc_default_user :: nc_user where
  "nc_default_user = \<lparr>nu_id = no_id, nu_username = '''', nu_avatar = '''', nu_discriminator = 0, nu_bot = False\<rparr>"

definition nc_user_fields :: "'j json_api \<Rightarrow> 'j \<Rightarrow> 'a nc_user_scheme assignment list" where
  "nc_user_fields J e =
     [assign (rbind (at_const J e ''id'') (as_sf J)) (\<lambda>v u. u\<lparr>nu_id := v\<rparr>),
      assign (rbind (at_const J e ''username'') (as_str J)) (\<lambda>v u. u\<lparr>nu_username := v\<rparr>),
      assign (value_or (as_bool J) False J e ''bot'') (\<lambda>v u. u\<lparr>nu_bot := v\<rparr>),
      assign (rbind (value_or (as_str J) ''-1'' J e ''discriminator'') std_stoi)
        (\<lambda>v u. u\<lparr>nu_discriminator := word_of_int v\<rparr>),
      assign (rbind (at_const J e ''avatar'') (str_or_null J)) (\<lambda>v u. u\<lparr>nu_avatar := v\<rparr>)]"

definition read_nc_user :: "'j json_api \<Rightarrow> 'j \<Rightarrow> nc_user res" where
  "read_nc_user J e = fresh (nc_user_fields J e) nc_default_user"

record nc_member = nc_user +
  nm_roles :: "snowflake list"
  nm_nick :: string
  nm_deaf :: bool
  nm_mute :: bool

definition nc_default_member :: nc_member where
  "nc_default_member = nc_user.extend nc_default_user \<lparr>nm_roles = [], nm_nick = '''', nm_deaf = False, nm_mute = False\<rparr>"

definition read_nc_member :: "'j json_api \<Rightarrow> 'j \<Rightarrow> nc_member res" where
  "read_nc_member J e =
     fresh (sub_fields (at_const J e ''user'') (nc_user_fields J) @
       [(\<lambda>m. case find_key J e ''nick'' of
           None \<Rightarrow> Inr m
         | Some v \<Rightarrow> if j_is_null J v then Inr m else assign (as_str J v) (\<lambda>v m. m\<lparr>nm_nick := v\<rparr>) m),
        assign (rbind (at_const J e ''roles'') (as_vector (as_sf J) J)) (\<lambda>v m. m\<lparr>nm_roles := v\<rparr>),
        assign (rbind (at_const J e ''deaf'') (as_bool J)) (\<lambda>v m. m\<lparr>nm_deaf := v\<rparr>),
        assign (rbind (at_const J e ''mute'') (as_bool J)) (\<lambda>v m. m\<lparr>nm_mute := v\<rparr>)])
       nc_default_member"

text \<open>\<open>make_member_from_msg\<close>.\<close>

definition nc_member_from_msg :: "'j json_api \<Rightarrow> 'j \<Rightarrow> 'j \<Rightarrow> nc_member res" where
  "nc_member_from_msg J user_json member_json =
     fresh (nc_user_fields J user_json @
       [(\<lambda>m. case find_key J member_json ''nick'' of
           None \<Rightarrow> Inr m
         | Some v \<Rightarrow> assign (str_or_null J v) (\<lambda>v m. m\<lparr>nm_nick := v\<rparr>) m),
        assign (rbind (at_const J member_json ''roles'') (as_vector (as_sf J) J)) (\<lambda>v m. m\<lparr>nm_roles := v\<rparr>),
        assign (rbind (at_const J member_json ''deaf'') (as_bool J)) (\<lambda>v m. m\<lparr>nm_deaf := v\<rparr>),
        assign (rbind (at_const J member_json ''mute'') (as_bool J)) (\<lambda>v m. m\<lparr>nm_mute := v\<rparr>)])
       nc_default_member"

record nc_role =
  nr_id :: snowflake
  nr_name :: string
  nr_position :: int
  nr_permissions :: nc_permission
  nr_managed :: bool
  nr_mentionable :: bool
  nr_hoist :: bool

definition nc_default_role :: nc_role where
  "nc_default_role = \<lparr>nr_id = no_id, nr_name = '''', nr_position = 0, nr_permissions = 0, nr_managed = False,
     nr_mentionable = False, nr_hoist = False\<rparr>"

definition read_nc_role :: "'j json_api \<Rightarrow> 'j \<Rightarrow> nc_role res" where
  "read_nc_role J e =
     (if j_is_null J e then Inr nc_default_role
      else fresh
       [assign (rbind (at_const J e ''id'') (as_sf J)) (\<lambda>v r. r\<lparr>nr_id := v\<rparr>),
        assign (rbind (at_const J e ''position'') (as_int J)) (\<lambda>v r. r\<lparr>nr_position := v\<rparr>),
        assign (rbind (at_const J e ''permissions'') (read_nc_permission J)) (\<lambda>v r. r\<lparr>nr_permissions := v\<rparr>),
        assign (rbind (at_const J e ''hoist'') (as_bool J)) (\<lambda>v r. r\<lparr>nr_hoist := v\<rparr>),
        assign (rbind (at_const J e ''managed'') (as_bool J)) (\<lambda>v r. r\<lparr>nr_managed := v\<rparr>),
        assign (rbind (at_const J e ''name'') (as_str J)) (\<lambda>v r. r\<lparr>nr_name := v\<rparr>),
        assign (rbind (at_const J e ''mentionable'') (as_bool J)) (\<lambda>v r. r\<lparr>nr_mentionable := v\<rparr>)]
       nc_default_role)"

section \<open>Channels\<close>

datatype nc_overwrite_type = Nc_role | Nc_member

definition string_to_overwrite_type :: "string \<Rightarrow> nc_overwrite_type res" where
  "string_to_overwrite_type str =
     (if str = ''role'' then Inr Nc_role else if str = ''member'' then Inr Nc_member else Inl Throws)"

record nc_overwrite =
  no_ow_id :: snowflake
  no_ow_type :: nc_overwrite_type
  no_ow_allow :: u64
  no_ow_deny :: u64

definition read_nc_overwrite :: "'j json_api \<Rightarrow> 'j \<Rightarrow> nc_overwrite res" where
  "read_nc_overwrite J e =
     fresh
       [assign (rbind (at_const J e ''id'') (as_sf J)) (\<lambda>v r. r\<lparr>no_ow_id := v\<rparr>),
        assign (rbind (rbind (at_const J e ''type'') (as_str J)) string_to_overwrite_type) (\<lambda>v r. r\<lparr>no_ow_type := v\<rparr>),
        assign (rbind (at_const J e ''allow'') (as_u64 J)) (\<lambda>v r. r\<lparr>no_ow_allow := v\<rparr>),
        assign (rbind (at_const J e ''deny'') (as_u64 J)) (\<lambda>v r. r\<lparr>no_ow_deny := v\<rparr>)]
       \<lparr>no_ow_id = no_id, no_ow_type = Nc_role, no_ow_allow = 0, no_ow_deny = 0\<rparr>"

record nc_channel =
  nch_id :: snowflake
  nch_name :: string

definition nc_channel_fields :: "'j json_api \<Rightarrow> 'j \<Rightarrow> 'a nc_channel_scheme assignment list" where
  "nc_channel_fields J e =
     [assign (rbind (at_const J e ''id'') (as_sf J)) (\<lambda>v c. c\<lparr>nch_id := v\<rparr>),
      assign (value_or (as_str J) '''' J e ''name'') (\<lambda>v c. c\<lparr>nch_name := v\<rparr>)]"

text \<open>\<open>partial_guild_channel\<close>; \<open>guild_channel\<close> and \<open>channel_catagory\<close> add nothing to it.\<close>

record nc_guild_channel = nc_channel +
  ngc_guild_id :: snowflake
  ngc_nsfw :: bool
  ngc_position :: int
  ngc_overwrites :: "nc_overwrite list"
  ngc_parent_id :: snowflake

definition nc_default_guild_channel :: nc_guild_channel where
  "nc_default_guild_channel = \<lparr>nch_id = no_id, nch_name = '''', ngc_guild_id = no_id, ngc_nsfw = False, ngc_position = 0,
     ngc_overwrites = [], ngc_parent_id = no_id\<rparr>"

definition nc_guild_channel_fields :: "'j json_api \<Rightarrow> 'j \<Rightarrow> 'a nc_guild_channel_scheme assignment list" where
  "nc_guild_channel_fields J e =
     nc_channel_fields J e @
     [assign (value_or (as_sf J) no_id J e ''guild_id'') (\<lambda>v c. c\<lparr>ngc_guild_id := v\<rparr>),
      assign (value_or (as_bool J) False J e ''nsfw'') (\<lambda>v c. c\<lparr>ngc_nsfw := v\<rparr>),
      assign (rbind (at_const J e ''position'') (as_int J)) (\<lambda>v c. c\<lparr>ngc_position := v\<rparr>),
      assign (rbind (at_const J e ''permission_overwrites'') (as_vector (read_nc_overwrite J) J)) (\<lambda>v c. c\<lparr>ngc_overwrites := v\<rparr>),
      assign (value_or (as_sf J) no_id J e ''parent_id'') (\<lambda>v c. c\<lparr>ngc_parent_id := v\<rparr>)]"

definition read_nc_category :: "'j json_api \<Rightarrow> 'j \<Rightarrow> nc_guild_channel res" where
  "read_nc_category J e = fresh (nc_guild_channel_fields J e) nc_default_guild_channel"

record nc_text_channel = nc_guild_channel +
  ntc_topic :: string
  ntc_last_message_id :: snowflake
  ntc_type :: text_channel_type

definition read_nc_text_channel :: "'j json_api \<Rightarrow> 'j \<Rightarrow> nc_text_channel res" where
  "read_nc_text_channel J e =
     fresh (nc_guild_channel_fields J e @
       [assign (rbind (at_const J e ''topic'') (str_or_null J)) (\<lambda>v c. c\<lparr>ntc_topic := v\<rparr>),
        assign (value_or (as_sf J) no_id J e ''last_message_id'') (\<lambda>v c. c\<lparr>ntc_last_message_id := v\<rparr>)])
       (nc_guild_channel.extend nc_default_guild_channel
          \<lparr>ntc_topic = '''', ntc_last_message_id = no_id, ntc_type = Tc_normal\<rparr>)"

text \<open>The type that the number of the event's channel gives it.\<close>

definition nc_set_type :: "int \<Rightarrow> nc_text_channel \<Rightarrow> nc_text_channel" where
  "nc_set_type type ch =
     (let ch = (if type = 5 then ch\<lparr>ntc_type := Tc_news\<rparr> else ch)
      in if type = 6 then ch\<lparr>ntc_type := Tc_store\<rparr> else ch)"

record nc_voice_channel = nc_guild_channel +
  nvc_user_limit :: int
  nvc_bitrate :: int

definition read_nc_voice_channel :: "'j json_api \<Rightarrow> 'j \<Rightarrow> nc_voice_channel res" where
  "read_nc_voice_channel J e =
     fresh (nc_guild_channel_fields J e @
       [assign (rbind (at_const J e ''user_limit'') (as_int J)) (\<lambda>v c. c\<lparr>nvc_user_limit := v\<rparr>),
        assign (rbind (at_const J e ''bitrate'') (as_int J)) (\<lambda>v c. c\<lparr>nvc_bitrate := v\<rparr>)])
       (nc_guild_channel.extend nc_default_guild_channel \<lparr>nvc_user_limit = 0, nvc_bitrate = 0\<rparr>)"

record nc_dm_channel = nc_channel +
  ndm_last_message_id :: snowflake
  ndm_recipients :: "snowflake \<rightharpoonup> nc_user"

definition read_nc_dm_channel :: "'j json_api \<Rightarrow> 'j \<Rightarrow> nc_dm_channel res" where
  "read_nc_dm_channel J e =
     fresh (nc_channel_fields J e @
       [assign (rbind (at_const J e ''recipients'') (as_range (read_nc_user J) J)) (\<lambda>v c. c\<lparr>ndm_recipients := map_of_ids nu_id v\<rparr>),
        assign (rbind (at_const J e ''last_message_id'') (as_sf J)) (\<lambda>v c. c\<lparr>ndm_last_message_id := v\<rparr>)])
       \<lparr>nch_id = no_id, nch_name = '''', ndm_last_message_id = no_id, ndm_recipients = Map.empty\<rparr>"

section \<open>Voice states and presences\<close>

record nc_voice_state =
  nvs_channel_id :: snowflake
  nvs_user_id :: snowflake
  nvs_session_id :: string
  nvs_deaf :: bool
  nvs_mute :: bool
  nvs_self_deaf :: bool
  nvs_self_mute :: bool
  nvs_suppress :: bool
  nvs_member :: "nc_member option"
  nvs_guild_id :: "snowflake option"

text \<open>A field that is read when the key is there, null or not.\<close>

definition if_contains :: "'j json_api \<Rightarrow> 'j \<Rightarrow> string \<Rightarrow> ('j \<Rightarrow> 'v res) \<Rightarrow> ('v \<Rightarrow> 'a \<Rightarrow> 'a) \<Rightarrow> 'a assignment" where
  "if_contains J e k rd upd a = (case find_key J e k of None \<Rightarrow> Inr a | Some v \<Rightarrow> assign (rd v) upd a)"

definition read_nc_voice_state :: "'j json_api \<Rightarrow> 'j \<Rightarrow> nc_voice_state res" where
  "read_nc_voice_state J e =
     fresh
       [assign (rbind (at_const J e ''channel_id'') (as_sf J)) (\<lambda>v s. s\<lparr>nvs_channel_id := v\<rparr>),
        assign (rbind (at_const J e ''user_id'') (as_sf J)) (\<lambda>v s. s\<lparr>nvs_user_id := v\<rparr>),
        assign (rbind (at_const J e ''session_id'') (as_str J)) (\<lambda>v s. s\<lparr>nvs_session_id := v\<rparr>),
        assign (rbind (at_const J e ''deaf'') (as_bool J)) (\<lambda>v s. s\<lparr>nvs_deaf := v\<rparr>),
        assign (rbind (at_const J e ''mute'') (as_bool J)) (\<lambda>v s. s\<lparr>nvs_mute := v\<rparr>),
        assign (rbind (at_const J e ''self_deaf'') (as_bool J)) (\<lambda>v s. s\<lparr>nvs_self_deaf := v\<rparr>),
        assign (rbind (at_const J e ''self_mute'') (as_bool J)) (\<lambda>v s. s\<lparr>nvs_self_mute := v\<rparr>),
        assign (rbind (at_const J e ''suppress'') (as_bool J)) (\<lambda>v s. s\<lparr>nvs_suppress := v\<rparr>),
        if_contains J e ''member'' (read_nc_member J) (\<lambda>v s. s\<lparr>nvs_member := Some v\<rparr>),
        if_contains J e ''guild_id'' (as_sf J) (\<lambda>v s. s\<lparr>nvs_guild_id := Some v\<rparr>)]
       \<lparr>nvs_channel_id = no_id, nvs_user_id = no_id, nvs_session_id = '''', nvs_deaf = False, nvs_mute = False,
        nvs_self_deaf = False, nvs_self_mute = False, nvs_suppress = False, nvs_member = None, nvs_guild_id = None\<rparr>"

record nc_client_status =
  ncs_desktop :: "string option"
  ncs_mobile :: "string option"
  ncs_web :: "string option"

definition read_nc_client_status :: "'j json_api \<Rightarrow> 'j \<Rightarrow> nc_client_status res" where
  "read_nc_client_status J e =
     fresh
       [if_contains J e ''desktop'' (as_str J) (\<lambda>v s. s\<lparr>ncs_desktop := Some v\<rparr>),
        if_contains J e ''mobile'' (as_str J) (\<lambda>v s. s\<lparr>ncs_mobile := Some v\<rparr>),
        if_contains J e ''web'' (as_str J) (\<lambda>v s. s\<lparr>ncs_web := Some v\<rparr>)]
       \<lparr>ncs_desktop = None, ncs_mobile = None, ncs_web = None\<rparr>"

record nc_presence =
  npr_user_id :: snowflake
  npr_game :: "activity option"
  npr_guild_id :: snowflake
  npr_status :: status
  npr_activities :: "activity list"
  npr_client_status :: nc_client_status

definition read_nc_presence :: "'j json_api \<Rightarrow> 'j \<Rightarrow> nc_presence res" where
  "read_nc_presence J e =
     fresh
       [assign (rbind (rbind (at_const J e ''user'') (\<lambda>u. at_const J u ''id'')) (as_sf J)) (\<lambda>v p. p\<lparr>npr_user_id := v\<rparr>),
        assign (rbind (at_const J e ''game'') (as_optional (read_activity J) J)) (\<lambda>v p. p\<lparr>npr_game := v\<rparr>),
        assign (rbind (at_const J e ''guild_id'') (as_sf J)) (\<lambda>v p. p\<lparr>npr_guild_id := v\<rparr>),
        assign (rmap string_to_status (rbind (at_const J e ''status'') (as_str J))) (\<lambda>v p. p\<lparr>npr_status := v\<rparr>),
        assign (rbind (at_const J e ''activities'') (as_vector (read_activity J) J)) (\<lambda>v p. p\<lparr>npr_activities := v\<rparr>),
        assign (rbind (at_const J e ''client_status'') (read_nc_client_status J)) (\<lambda>v p. p\<lparr>npr_client_status := v\<rparr>)]
       \<lparr>npr_user_id = no_id, npr_game = None, npr_guild_id = no_id, npr_status = St_dnd, npr_activities = [],
        npr_client_status = \<lparr>ncs_desktop = None, ncs_mobile = None, ncs_web = None\<rparr>\<rparr>"

section \<open>Guilds\<close>

record nc_partial_guild =
  ng_id :: snowflake
  ng_name :: string
  ng_icon :: string
  ng_splash :: string
  ng_owner_id :: snowflake
  ng_client_permissions :: nc_permission
  ng_region :: string
  ng_afk_channel_id :: snowflake
  ng_afk_timeout :: int
  ng_embed_enabled :: bool
  ng_embed_channel_id :: snowflake
  ng_verification_level :: int
  ng_default_message_notifications :: int
  ng_explicit_content_filter :: bool
  ng_roles :: "snowflake \<rightharpoonup> nc_role"
  ng_emojis :: "partial_emoji list"
  ng_features :: "string list"
  ng_mfa_level :: int
  ng_application_id :: "snowflake option"
  ng_widget_enabled :: bool
  ng_widget_channel_id :: "snowflake option"
  ng_system_channel_id :: snowflake

definition nc_default_partial_guild :: nc_partial_guild where
  "nc_default_partial_guild = \<lparr>ng_id = no_id, ng_name = '''', ng_icon = '''', ng_splash = '''', ng_owner_id = no_id,
     ng_client_permissions = 0, ng_region = '''', ng_afk_channel_id = no_id, ng_afk_timeout = 0, ng_embed_enabled = False,
     ng_embed_channel_id = no_id, ng_verification_level = 0, ng_default_message_notifications = 0,
     ng_explicit_content_filter = False, ng_roles = Map.empty, ng_emojis = [], ng_features = [], ng_mfa_level = 0,
     ng_application_id = None, ng_widget_enabled = False, ng_widget_channel_id = None, ng_system_channel_id = no_id\<rparr>"

text \<open>Here too the widget's channel is set to the id of the application.\<close>

definition nc_widget_field :: "'j json_api \<Rightarrow> 'j \<Rightarrow> 'a nc_partial_guild_scheme assignment" where
  "nc_widget_field J e g =
     (if ng_widget_enabled g then
        rbind (value_or (as_sf J) no_id J e ''application_id'') (\<lambda>t.
          assign (value_or (as_sf J) no_id J e ''widget_channel_id'')
            (\<lambda>t2 g. if t2 \<noteq> no_id then g\<lparr>ng_widget_channel_id := Some t\<rparr> else g) g)
      else Inr g)"

definition nc_partial_guild_fields :: "'j json_api \<Rightarrow> 'j \<Rightarrow> 'a nc_partial_guild_scheme assignment list" where
  "nc_partial_guild_fields J e =
     [assign (rbind (at_const J e ''id'') (as_sf J)) (\<lambda>v g. g\<lparr>ng_id := v\<rparr>),
      assign (rbind (at_const J e ''name'') (as_str J)) (\<lambda>v g. g\<lparr>ng_name := v\<rparr>),
      assign (rbind (at_const J e ''icon'') (str_or_null J)) (\<lambda>v g. g\<lparr>ng_icon := v\<rparr>),
      assign (rbind (at_const J e ''splash'') (str_or_null J)) (\<lambda>v g. g\<lparr>ng_splash := v\<rparr>),
      assign (rbind (at_const J e ''owner_id'') (as_sf J)) (\<lambda>v g. g\<lparr>ng_owner_id := v\<rparr>),
      assign (value_or (read_nc_permission J) 0 J e ''permissions'') (\<lambda>v g. g\<lparr>ng_client_permissions := v\<rparr>),
      assign (rbind (at_const J e ''region'') (as_str J)) (\<lambda>v g. g\<lparr>ng_region := v\<rparr>),
      assign (rbind (at_const J e ''afk_channel_id'') (as_sf J)) (\<lambda>v g. g\<lparr>ng_afk_channel_id := v\<rparr>),
      assign (rbind (at_const J e ''afk_timeout'') (as_int J)) (\<lambda>v g. g\<lparr>ng_afk_timeout := v\<rparr>),
      assign (value_or (as_bool J) False J e ''embed_enabled'') (\<lambda>v g. g\<lparr>ng_embed_enabled := v\<rparr>),
      assign (value_or (as_sf J) no_id J e ''embed_channel_id'') (\<lambda>v g. g\<lparr>ng_embed_channel_id := v\<rparr>),
      assign (rbind (at_const J e ''verification_level'') (as_int J)) (\<lambda>v g. g\<lparr>ng_verification_level := v\<rparr>),
      assign (rbind (at_const J e ''default_message_notifications'') (as_int J))
        (\<lambda>v g. g\<lparr>ng_default_message_notifications := v\<rparr>),
      assign (rbind (at_const J e ''explicit_content_filter'') (as_int J)) (\<lambda>v g. g\<lparr>ng_explicit_content_filter := (v \<noteq> 0)\<rparr>),
      assign (rbind (at_const J e ''roles'') (as_range (read_nc_role J) J)) (\<lambda>v g. g\<lparr>ng_roles := map_of_ids nr_id v\<rparr>),
      assign (rbind (at_const J e ''emojis'') (as_vector (read_emoji J) J)) (\<lambda>v g. g\<lparr>ng_emojis := v\<rparr>),
      assign (rbind (at_const J e ''features'') (as_vector (as_str J) J)) (\<lambda>v g. g\<lparr>ng_features := v\<rparr>),
      assign (rbind (at_const J e ''mfa_level'') (as_int J)) (\<lambda>v g. g\<lparr>ng_mfa_level := v\<rparr>),
      assign (value_or (as_sf J) no_id J e ''application_id'')
        (\<lambda>t g. if t \<noteq> no_id then g\<lparr>ng_application_id := Some t\<rparr> else g),
      assign (value_or (as_bool J) False J e ''widget_enabled'') (\<lambda>v g. g\<lparr>ng_widget_enabled := v\<rparr>),
      nc_widget_field J e,
      assign (rbind (at_const J e ''system_channel_id'') (as_sf J)) (\<lambda>v g. g\<lparr>ng_system_channel_id := v\<rparr>)]"

definition read_nc_partial_guild :: "'j json_api \<Rightarrow> 'j \<Rightarrow> nc_partial_guild res" where
  "read_nc_partial_guild J e = fresh (nc_partial_guild_fields J e) nc_default_partial_guild"

text \<open>The class \<open>Guild\<close>; its members, activities and lists of channel ids stay empty.\<close>

record nc_guild = nc_partial_guild +
  ng_large :: bool
  ng_unavailable :: bool
  ng_member_count :: int
  ng_text_channels :: "snowflake \<rightharpoonup> nc_text_channel"
  ng_voice_channels :: "snowflake \<rightharpoonup> nc_voice_channel"
  ng_categories :: "snowflake \<rightharpoonup> nc_guild_channel"
  ng_voice_states :: "nc_voice_state list"

definition nc_default_guild :: nc_guild where
  "nc_default_guild = nc_partial_guild.extend nc_default_partial_guild
     \<lparr>ng_large = False, ng_unavailable = False, ng_member_count = 0, ng_text_channels = Map.empty,
      ng_voice_channels = Map.empty, ng_categories = Map.empty, ng_voice_states = []\<rparr>"

text \<open>\<open>insert\<close> keeps an element that is there; what comes behind it changes the element of the key.\<close>

definition insert_then :: "snowflake \<Rightarrow> 'c \<Rightarrow> ('c \<Rightarrow> 'c) \<Rightarrow> (snowflake \<rightharpoonup> 'c) \<Rightarrow> snowflake \<rightharpoonup> 'c" where
  "insert_then k v f m = m(k \<mapsto> f (case m k of None \<Rightarrow> v | Some w \<Rightarrow> w))"

definition add_channel :: "'j json_api \<Rightarrow> 'j \<Rightarrow> nc_guild assignment" where
  "add_channel J ch g =
     rbind (rbind (at_const J ch ''type'') (as_int J)) (\<lambda>type.
       if type = 0 \<or> type = 5 \<or> type = 6 then
         rbind (rbind (at_const J ch ''id'') (as_sf J)) (\<lambda>i. rbind (read_nc_text_channel J ch) (\<lambda>v.
           Inr (g\<lparr>ng_text_channels := insert_then i v (\<lambda>c. nc_set_type type (c\<lparr>ngc_guild_id := ng_id g\<rparr>)) (ng_text_channels g)\<rparr>)))
       else if type = 2 then
         rbind (rbind (at_const J ch ''id'') (as_sf J)) (\<lambda>i. rbind (read_nc_voice_channel J ch) (\<lambda>v.
           Inr (g\<lparr>ng_voice_channels := insert_then i v (\<lambda>c. c\<lparr>ngc_guild_id := ng_id g\<rparr>) (ng_voice_channels g)\<rparr>)))
       else if type = 4 then
         rbind (rbind (at_const J ch ''id'') (as_sf J)) (\<lambda>i. rbind (read_nc_category J ch) (\<lambda>v.
           Inr (g\<lparr>ng_categories := insert_then i v (\<lambda>c. c\<lparr>ngc_guild_id := ng_id g\<rparr>) (ng_categories g)\<rparr>)))
       else Inr g)"

definition nc_guild_fields :: "'j json_api \<Rightarrow> 'j \<Rightarrow> nc_guild assignment list" where
  "nc_guild_fields J e =
     nc_partial_guild_fields J e @
     [assign (rbind (at_const J e ''large'') (as_bool J)) (\<lambda>v g. g\<lparr>ng_large := v\<rparr>),
      assign (rbind (at_const J e ''unavailable'') (as_bool J)) (\<lambda>v g. g\<lparr>ng_unavailable := v\<rparr>),
      assign (rbind (at_const J e ''member_count'') (as_int J)) (\<lambda>v g. g\<lparr>ng_member_count := v\<rparr>),
      assign (rbind (at_const J e ''voice_states'') (as_vector (read_nc_voice_state J) J)) (\<lambda>v g. g\<lparr>ng_voice_states := v\<rparr>)]
     @ (case at_const J e ''channels'' of Inl x \<Rightarrow> [\<lambda>_. Inl x] | Inr chs \<Rightarrow> map (add_channel J) (j_items J chs))"

definition read_nc_guild :: "'j json_api \<Rightarrow> 'j \<Rightarrow> nc_guild res" where
  "read_nc_guild J e = fresh (nc_guild_fields J e) nc_default_guild"

record nc_unavailable_guild =
  nug_guild_id :: snowflake
  nug_unavailable :: bool

definition read_nc_unavailable_guild :: "'j json_api \<Rightarrow> 'j \<Rightarrow> nc_unavailable_guild res" where
  "read_nc_unavailable_guild J e =
     fresh
       [assign (rbind (at_const J e ''guild_id'') (as_sf J)) (\<lambda>v g. g\<lparr>nug_guild_id := v\<rparr>),
        assign (rbind (at_const J e ''unavailable'') (as_bool J)) (\<lambda>v g. g\<lparr>nug_unavailable := v\<rparr>)]
       \<lparr>nug_guild_id = no_id, nug_unavailable = False\<rparr>"

section \<open>Messages\<close>

record nc_message =
  nmsg_author_id :: snowflake
  nmsg_id :: snowflake
  nmsg_channel_id :: snowflake
  nmsg_attachments :: "attachment list"
  nmsg_reactions :: "reaction list"
  nmsg_content :: string
  nmsg_tts :: bool
  nmsg_mention_everyone :: bool

definition nc_default_message :: nc_message where
  "nc_default_message = \<lparr>nmsg_author_id = no_id, nmsg_id = no_id, nmsg_channel_id = no_id, nmsg_attachments = [],
     nmsg_reactions = [], nmsg_content = '''', nmsg_tts = False, nmsg_mention_everyone = False\<rparr>"

text \<open>Embeds are not read.\<close>

definition nc_message_fields :: "'j json_api \<Rightarrow> 'j \<Rightarrow> 'a nc_message_scheme assignment list" where
  "nc_message_fields J e =
     [assign (rbind (at_const J e ''author'') (author_id J)) (\<lambda>v m. m\<lparr>nmsg_author_id := v\<rparr>),
      assign (rbind (at_const J e ''id'') (as_sf J)) (\<lambda>v m. m\<lparr>nmsg_id := v\<rparr>),
      assign (rbind (at_const J e ''channel_id'') (as_sf J)) (\<lambda>v m. m\<lparr>nmsg_channel_id := v\<rparr>),
      assign (rbind (at_const J e ''content'') (as_str J)) (\<lambda>v m. m\<lparr>nmsg_content := v\<rparr>),
      assign (rbind (at_const J e ''mention_everyone'') (as_bool J)) (\<lambda>v m. m\<lparr>nmsg_mention_everyone := v\<rparr>),
      assign (at_const J e ''timestamp'') (\<lambda>_ m. m),
      assign (rbind (at_const J e ''tts'') (as_bool J)) (\<lambda>v m. m\<lparr>nmsg_tts := v\<rparr>),
      assign (rbind (at_const J e ''mention_everyone'') (as_bool J)) (\<lambda>v m. m\<lparr>nmsg_mention_everyone := v\<rparr>),
      assign (rbind (at_const J e ''attachments'') (as_vector (read_attachment J) J)) (\<lambda>v m. m\<lparr>nmsg_attachments := v\<rparr>),
      assign (value_or (as_vector (read_reaction J) J) [] J e ''reactions'') (\<lambda>v m. m\<lparr>nmsg_reactions := v\<rparr>)]"

record nc_guild_message = nc_message +
  ngm_author :: nc_member
  ngm_guild_id :: snowflake
  ngm_mention_roles :: "snowflake list"
  ngm_mentions :: "nc_member list"

record nc_dm_message = nc_message +
  ndmm_author :: nc_user
  ndmm_mentions :: "nc_user list"

text \<open>\<open>create_msg\<close>. The author of a webhook's message is read into the user of the member. A mention has its member.\<close>

definition nc_mention :: "'j json_api \<Rightarrow> 'j \<Rightarrow> nc_member res" where
  "nc_mention J m = rbind (at_const J m ''member'') (\<lambda>mem. nc_member_from_msg J m mem)"

definition nc_guild_author :: "'j json_api \<Rightarrow> 'j \<Rightarrow> nc_member res" where
  "nc_guild_author J e =
     (if find_key J e ''webhook_id'' \<noteq> None
      then rbind (at_const J e ''author'') (\<lambda>a. fresh (nc_user_fields J a) nc_default_member)
      else rbind (at_const J e ''author'') (\<lambda>a. rbind (at_const J e ''member'') (\<lambda>m. nc_member_from_msg J a m)))"

definition create_nc_guild_message :: "'j json_api \<Rightarrow> 'j \<Rightarrow> nc_guild_message res" where
  "create_nc_guild_message J e =
     fresh (nc_message_fields J e @
       [assign (nc_guild_author J e) (\<lambda>v m. m\<lparr>ngm_author := v\<rparr>),
        assign (rbind (at_const J e ''mentions'') (as_range (nc_mention J) J)) (\<lambda>v m. m\<lparr>ngm_mentions := v\<rparr>),
        assign (rbind (at_const J e ''mention_roles'') (as_vector (as_sf J) J)) (\<lambda>v m. m\<lparr>ngm_mention_roles := v\<rparr>),
        assign (rbind (at_const J e ''guild_id'') (as_sf J)) (\<lambda>v m. m\<lparr>ngm_guild_id := v\<rparr>)])
       (nc_message.extend nc_default_message
          \<lparr>ngm_author = nc_default_member, ngm_guild_id = no_id, ngm_mention_roles = [], ngm_mentions = []\<rparr>)"

definition create_nc_dm_message :: "'j json_api \<Rightarrow> 'j \<Rightarrow> nc_dm_message res" where
  "create_nc_dm_message J e =
     fresh (nc_message_fields J e @
       [assign (rbind (at_const J e ''author'') (read_nc_user J)) (\<lambda>v m. m\<lparr>ndmm_author := v\<rparr>),
        assign (rbind (at_const J e ''mentions'') (as_vector (read_nc_user J) J)) (\<lambda>v m. m\<lparr>ndmm_mentions := v\<rparr>)])
       (nc_message.extend nc_default_message \<lparr>ndmm_author = nc_default_user, ndmm_mentions = []\<rparr>)"

text \<open>\<open>createMsgUpdate\<close>.\<close>

record nc_msg_update =
  nup_author_id :: snowflake
  nup_id :: snowflake
  nup_channel_id :: snowflake
  nup_content :: string
  nup_tts :: bool
  nup_mention_everyone :: "bool option"
  nup_attachments :: "attachment list"
  nup_reactions :: "reaction list"

definition nc_msg_update_fields :: "'j json_api \<Rightarrow> 'j \<Rightarrow> 'a nc_msg_update_scheme assignment list" where
  "nc_msg_update_fields J e =
     [if_contains J e ''author'' (author_id J) (\<lambda>v m. m\<lparr>nup_author_id := v\<rparr>),
      assign (rbind (at_const J e ''id'') (as_sf J)) (\<lambda>v m. m\<lparr>nup_id := v\<rparr>),
      assign (rbind (at_const J e ''channel_id'') (as_sf J)) (\<lambda>v m. m\<lparr>nup_channel_id := v\<rparr>),
      assign (value_or (as_str J) '''' J e ''content'') (\<lambda>v m. m\<lparr>nup_content := v\<rparr>),
      assign (value_or (as_bool J) False J e ''mention_everyone'') (\<lambda>v m. m\<lparr>nup_mention_everyone := Some v\<rparr>),
      assign (value_or (as_bool J) False J e ''tts'') (\<lambda>v m. m\<lparr>nup_tts := v\<rparr>),
      assign (value_or (as_optional (as_bool J) J) None J e ''mention_everyone'') (\<lambda>v m. m\<lparr>nup_mention_everyone := v\<rparr>),
      assign (value_or (as_vector (read_attachment J) J) [] J e ''attachments'') (\<lambda>v m. m\<lparr>nup_attachments := v\<rparr>),
      assign (value_or (as_vector (read_reaction J) J) [] J e ''reactions'') (\<lambda>v m. m\<lparr>nup_reactions := v\<rparr>)]"

definition nc_default_update :: nc_msg_update where
  "nc_default_update = \<lparr>nup_author_id = no_id, nup_id = no_id, nup_channel_id = no_id, nup_content = '''', nup_tts = False,
     nup_mention_everyone = Some False, nup_attachments = [], nup_reactions = []\<rparr>"

record nc_guild_update = nc_msg_update +
  ngu_author :: "nc_member option"
  ngu_mention_roles :: "snowflake list option"
  ngu_mentions :: "nc_member list option"

record nc_dm_update = nc_msg_update +
  ndu_author :: "nc_user option"
  ndu_mentions :: "nc_user list option"

definition create_nc_guild_update :: "'j json_api \<Rightarrow> 'j \<Rightarrow> nc_guild_update res" where
  "create_nc_guild_update J e =
     fresh (nc_msg_update_fields J e @
       [(\<lambda>m. case (find_key J e ''author'', find_key J e ''member'') of
           (Some a, Some mem) \<Rightarrow> assign (nc_member_from_msg J a mem) (\<lambda>v m. m\<lparr>ngu_author := Some v\<rparr>) m
         | _ \<Rightarrow> Inr m),
        if_contains J e ''mentions'' (as_range (nc_mention J) J) (\<lambda>v m. m\<lparr>ngu_mentions := Some v\<rparr>),
        if_contains J e ''mentions_roles'' (as_vector (as_sf J) J) (\<lambda>v m. m\<lparr>ngu_mention_roles := Some v\<rparr>)])
       (nc_msg_update.extend nc_default_update \<lparr>ngu_author = None, ngu_mention_roles = None, ngu_mentions = None\<rparr>)"

definition create_nc_dm_update :: "'j json_api \<Rightarrow> 'j \<Rightarrow> nc_dm_update res" where
  "create_nc_dm_update J e =
     fresh (nc_msg_update_fields J e @
       [assign (value_or (as_optional (read_nc_user J) J) None J e ''author'') (\<lambda>v m. m\<lparr>ndu_author := v\<rparr>),
        if_contains J e ''mentions'' (as_vector (read_nc_user J) J) (\<lambda>v m. m\<lparr>ndu_mentions := Some v\<rparr>)])
       (nc_msg_update.extend nc_default_update \<lparr>ndu_author = None, ndu_mentions = None\<rparr>)"

end
