(* ===== verification/Nc_Shard.thy ===== *)
theory Nc_Shard
  imports Nc_Entities Shard_State
begin

text \<open>
  The shard of the library without a cache (\<open>no_cache/internal_shard.h\<close>, \<open>no_cache/src/internal_shard.cpp\<close>, \<open>heartbeat_context\<close>,
  \<open>no_cache/events.h\<close>): it turns an event of the gateway into a value for the client's callback and keeps nothing of it. The
  callbacks of the client are recorded with their event, as in the model of the other shard; so are the texts for the gateway.
\<close>

section \<open>Events and callbacks\<close>

text \<open>The structures of \<open>events.h\<close>. Those of invites and pins are not used.\<close>

datatype nc_event =
  Ready_event
| Text_channel_create nc_text_channel | Voice_channel_create nc_voice_channel
| Dm_channel_create nc_dm_channel | Category_create nc_guild_channel
| Text_channel_update nc_text_channel | Voice_channel_update nc_voice_channel
| Dm_channel_update nc_dm_channel | Category_update nc_guild_channel
| Text_channel_delete nc_text_channel | Voice_channel_delete nc_voice_channel
| Dm_channel_delete nc_dm_channel | Category_delete nc_guild_channel
| Guild_created nc_guild | Guild_removed nc_unavailable_guild
| Ban_added snowflake nc_user | Ban_removed snowflake nc_user
| Emojis_updated snowflake "partial_emoji list"
| Member_added snowflake nc_member | Member_removed snowflake nc_user
| Member_updated snowflake nc_user "nc_role list" "string option"
| Role_created snowflake nc_role | Role_updated snowflake nc_role | Role_deleted snowflake snowflake
| Guild_message_created nc_guild_message | Dm_message_created nc_dm_message
| Guild_message_deleted snowflake snowflake snowflake | Dm_message_deleted snowflake snowflake
| Guild_messages_deleted "snowflake list" snowflake snowflake | Dm_messages_deleted "snowflake list" snowflake
| Guild_reaction_added snowflake snowflake snowflake nc_member partial_emoji
| Dm_reaction_added snowflake snowflake snowflake partial_emoji
| Guild_reaction_removed snowflake snowflake snowflake snowflake partial_emoji
| Dm_reaction_removed snowflake snowflake snowflake partial_emoji
| Guild_reactions_removed snowflake snowflake snowflake | Dm_reactions_removed snowflake snowflake
| Guild_typing snowflake snowflake nc_member | Dm_typing snowflake snowflake
| Presence_updated nc_presence

text \<open>The callbacks of \<open>client.h\<close>, one for each kind of event.\<close>

datatype nc_callback =
  Cb_ready | Cb_text_create | Cb_voice_create | Cb_dm_create | Cb_category_create
| Cb_text_update | Cb_voice_update | Cb_dm_update | Cb_category_update
| Cb_text_delete | Cb_voice_delete | Cb_dm_delete | Cb_category_delete
| Cb_guild_ready | Cb_guild_remove | Cb_ban_add | Cb_ban_remove | Cb_emoji_update
| Cb_member_add | Cb_member_remove | Cb_member_update | Cb_member_chunk | Cb_guild_update
| Cb_role_create | Cb_role_update | Cb_role_delete
| Cb_guild_msg | Cb_dm_msg | Cb_guild_msg_update | Cb_dm_msg_update | Cb_guild_msg_delete | Cb_dm_msg_delete
| Cb_bulk_delete | Cb_dm_bulk_delete | Cb_guild_reaction_add | Cb_dm_reaction_add
| Cb_guild_reaction_remove | Cb_dm_reaction_remove | Cb_guild_reaction_remove_all | Cb_dm_reaction_remove_all
| Cb_guild_typing | Cb_dm_typing | Cb_presence

section \<open>The state\<close>

text \<open>\<open>ns_events\<close> are the callbacks called so far. A promise that a voice connection waits for is the list of the values set on it;
  \<open>ns_timers\<close> counts the heartbeat timers, \<open>ns_invalid\<close> are the answers to invalid sessions that wait for their 5 seconds, and
  \<open>ns_to_identify\<close> the identifications that wait for the time the client gave them. \<open>ns_reading\<close> holds while the loop runs.\<close>

record 'j nc_shard =
  ns_seq :: u64
  ns_id :: snowflake
  ns_session_id :: string
  ns_trace :: "string list"
  ns_trace2 :: 'j
  ns_status :: status
  ns_game :: string
  ns_disconnected :: bool
  ns_closed :: "int list"
  ns_hb_interval :: int
  ns_ack :: bool
  ns_timers :: nat
  ns_invalid :: "'j list"
  ns_to_identify :: "ws_message list"
  ns_reading :: bool
  ns_asked_to_identify :: nat
  ns_notified :: nat
  ns_sent :: "ws_message list"
  ns_events :: "(nc_callback \<times> nc_event) list"
  ns_endpoint_promises :: "snowflake \<rightharpoonup> 'j list"
  ns_session_promises :: "snowflake \<rightharpoonup> string list"

definition nc_initial_shard :: "'j json_api \<Rightarrow> 'j nc_shard" where
  "nc_initial_shard J = \<lparr>ns_seq = 0, ns_id = no_id, ns_session_id = '''', ns_trace = [], ns_trace2 = j_null J,
     ns_status = St_online, ns_game = '''', ns_disconnected = False, ns_closed = [], ns_hb_interval = 0, ns_ack = False,
     ns_timers = 0, ns_invalid = [], ns_to_identify = [], ns_reading = True, ns_asked_to_identify = 0, ns_notified = 0, ns_sent = [], ns_events = [],
     ns_endpoint_promises = Map.empty, ns_session_promises = Map.empty\<rparr>"

text \<open>The client: its JSON library, which callbacks are set, and which calls throw.\<close>

record 'j nc_client =
  k_json :: "'j json_api"
  k_has :: "nc_callback \<Rightarrow> bool"
  k_throws :: "nc_callback \<times> nc_event \<Rightarrow> bool"
  k_intents :: intents
  k_shard_number :: int
  k_num_shards :: int

definition nev :: "'j nc_client \<Rightarrow> 'j \<Rightarrow> string \<Rightarrow> ('j json_api \<Rightarrow> 'j \<Rightarrow> 'a res) \<Rightarrow> 'a res" where
  "nev c e k rd = rbind (at_mut (k_json c) e k) (rd (k_json c))"

definition nev_guild_id :: "'j nc_client \<Rightarrow> 'j \<Rightarrow> snowflake res" where
  "nev_guild_id c e = value_or (as_sf (k_json c)) no_id (k_json c) e ''guild_id''"

definition nc_invoke :: "'j nc_client \<Rightarrow> nc_callback \<Rightarrow> nc_event \<Rightarrow> 'j nc_shard handler" where
  "nc_invoke c cb x s = (if k_throws c (cb, x) then Some Throws else None, s\<lparr>ns_events := ns_events s @ [(cb, x)]\<rparr>)"

definition nc_call :: "'j nc_client \<Rightarrow> nc_callback \<Rightarrow> nc_event \<Rightarrow> 'j nc_shard handler" where
  "nc_call c cb x = (if k_has c cb then nc_invoke c cb x else hdone)"

text \<open>An event that is read only when its callback is set.\<close>

definition nc_read_call :: "'j nc_client \<Rightarrow> nc_callback \<Rightarrow> nc_event res \<Rightarrow> 'j nc_shard handler" where
  "nc_read_call c cb r = (if k_has c cb then hread r (nc_invoke c cb) else hdone)"

section \<open>Session events\<close>

definition nc_on_ready :: "'j nc_client \<Rightarrow> 'j \<Rightarrow> 'j nc_shard handler" where
  "nc_on_ready c e =
     hread (at_mut (k_json c) e ''_trace'') (\<lambda>t.
     hthen (hmod (\<lambda>s. s\<lparr>ns_trace2 := t\<rparr>))
     (hread (nev c e ''user'' read_nc_user) (\<lambda>me.
     hread (nev c e ''session_id'' as_str) (\<lambda>sid.
     hthen (hmod (\<lambda>s. s\<lparr>ns_session_id := sid\<rparr>))
     (hread (at_mut (k_json c) e ''guilds'') (\<lambda>_.
     hthen (hmod (\<lambda>s. s\<lparr>ns_id := nu_id me\<rparr>))
     (nc_call c Cb_ready Ready_event)))))))"

definition nc_on_resumed :: "'j nc_client \<Rightarrow> 'j \<Rightarrow> 'j nc_shard handler" where
  "nc_on_resumed c e = hread (nev c e ''_trace'' (\<lambda>J. as_vector (as_str J) J)) (\<lambda>t. hmod (\<lambda>s. s\<lparr>ns_trace := t\<rparr>))"

definition nc_on_event_hello :: "'j nc_client \<Rightarrow> 'j \<Rightarrow> 'j nc_shard handler" where
  "nc_on_event_hello c e =
     hread (rbind (at_checked (k_json c) e ''_trace'') (as_vector (as_str (k_json c)) (k_json c))) (\<lambda>t.
     hthen (hmod (\<lambda>s. s\<lparr>ns_trace := t\<rparr>))
     (hread (nev c e ''heartbeat_interval'' as_int) (\<lambda>n. hmod (\<lambda>s. s\<lparr>ns_hb_interval := n\<rparr>))))"

section \<open>Channels\<close>

definition nc_on_channel_create :: "'j nc_client \<Rightarrow> 'j \<Rightarrow> 'j nc_shard handler" where
  "nc_on_channel_create c e =
     hread (nev c e ''type'' as_int) (\<lambda>type.
       if type = 0 \<or> type = 5 \<or> type = 6 then
         hread (read_nc_text_channel (k_json c) e) (\<lambda>ch. nc_call c Cb_text_create (Text_channel_create (nc_set_type type ch)))
       else if type = 1 \<or> type = 3 then
         nc_read_call c Cb_dm_create (rmap Dm_channel_create (read_nc_dm_channel (k_json c) e))
       else if type = 2 then
         nc_read_call c Cb_voice_create (rmap Voice_channel_create (read_nc_voice_channel (k_json c) e))
       else if type = 4 then
         nc_read_call c Cb_category_create (rmap Category_create (read_nc_category (k_json c) e))
       else hdone)"

definition nc_on_channel_delete :: "'j nc_client \<Rightarrow> 'j \<Rightarrow> 'j nc_shard handler" where
  "nc_on_channel_delete c e =
     hread (nev c e ''type'' as_int) (\<lambda>type.
       if type = 0 \<or> type = 5 \<or> type = 6 then
         hread (read_nc_text_channel (k_json c) e) (\<lambda>ch. nc_call c Cb_text_delete (Text_channel_delete (nc_set_type type ch)))
       else if type = 1 \<or> type = 3 then
         hread (read_nc_dm_channel (k_json c) e) (\<lambda>ch. nc_call c Cb_dm_delete (Dm_channel_delete ch))
       else if type = 2 then
         hread (read_nc_voice_channel (k_json c) e) (\<lambda>ch. nc_call c Cb_voice_delete (Voice_channel_delete ch))
       else if type = 4 then
         hread (read_nc_category (k_json c) e) (\<lambda>ch. nc_call c Cb_category_delete (Category_delete ch))
       else hdone)"

definition nc_on_channel_update :: "'j nc_client \<Rightarrow> 'j \<Rightarrow> 'j nc_shard handler" where
  "nc_on_channel_update c e =
     hread (nev c e ''type'' as_int) (\<lambda>type.
       if type = 0 \<or> type = 5 \<or> type = 6 then
         hread (read_nc_text_channel (k_json c) e) (\<lambda>ch. nc_call c Cb_text_update (Text_channel_update (nc_set_type type ch)))
       else if type = 1 \<or> type = 3 then
         nc_read_call c Cb_dm_update (rmap Dm_channel_update (read_nc_dm_channel (k_json c) e))
       else if type = 2 then
         hread (read_nc_voice_channel (k_json c) e) (\<lambda>ch. nc_call c Cb_voice_update (Voice_channel_update ch))
       else if type = 4 then
         hread (read_nc_category (k_json c) e) (\<lambda>ch. nc_call c Cb_category_update (Category_update ch))
       else hdone)"

section \<open>Guilds, members, roles\<close>

definition nc_on_guild_create :: "'j nc_client \<Rightarrow> 'j \<Rightarrow> 'j nc_shard handler" where
  "nc_on_guild_create c e = hread (read_nc_guild (k_json c) e) (\<lambda>g. nc_call c Cb_guild_ready (Guild_created g))"

text \<open>The guild of an update is read and dropped.\<close>

definition nc_on_guild_update :: "'j nc_client \<Rightarrow> 'j \<Rightarrow> 'j nc_shard handler" where
  "nc_on_guild_update c e =
     hread (nev c e ''id'' as_sf) (\<lambda>_. hread (read_nc_partial_guild (k_json c) e) (\<lambda>_. hdone))"

text \<open>An exception of the handler ends in it.\<close>

definition nc_on_guild_delete :: "'j nc_client \<Rightarrow> 'j \<Rightarrow> 'j nc_shard handler" where
  "nc_on_guild_delete c e s =
     (case hread (read_nc_unavailable_guild (k_json c) e) (\<lambda>g. nc_call c Cb_guild_remove (Guild_removed g)) s of
        (Some Throws, t) \<Rightarrow> (None, t) | r \<Rightarrow> r)"

text \<open>The user of a ban is read from the event, not from its \<open>user\<close>.\<close>

definition nc_on_ban_add :: "'j nc_client \<Rightarrow> 'j \<Rightarrow> 'j nc_shard handler" where
  "nc_on_ban_add c e =
     hread (read_nc_user (k_json c) e) (\<lambda>u. hread (nev c e ''guild_id'' as_sf) (\<lambda>g. nc_call c Cb_ban_add (Ban_added g u)))"

definition nc_on_ban_remove :: "'j nc_client \<Rightarrow> 'j \<Rightarrow> 'j nc_shard handler" where
  "nc_on_ban_remove c e =
     hread (read_nc_user (k_json c) e) (\<lambda>u. hread (nev c e ''guild_id'' as_sf) (\<lambda>g. nc_call c Cb_ban_remove (Ban_removed g u)))"

definition nc_on_emoji_update :: "'j nc_client \<Rightarrow> 'j \<Rightarrow> 'j nc_shard handler" where
  "nc_on_emoji_update c e =
     hread (nev c e ''guild_id'' as_sf) (\<lambda>g.
     hread (nev c e ''emojis'' (\<lambda>J. as_vector (read_emoji J) J)) (\<lambda>es. nc_call c Cb_emoji_update (Emojis_updated g es)))"

definition nc_on_integrations_update :: "'j nc_client \<Rightarrow> 'j \<Rightarrow> 'j nc_shard handler" where
  "nc_on_integrations_update c e = hread (nev c e ''id'' as_sf) (\<lambda>_. hdone)"

definition nc_on_member_add :: "'j nc_client \<Rightarrow> 'j \<Rightarrow> 'j nc_shard handler" where
  "nc_on_member_add c e =
     hread (nev c e ''guild_id'' as_sf) (\<lambda>g.
     hread (read_nc_member (k_json c) e) (\<lambda>m. nc_call c Cb_member_add (Member_added g m)))"

definition nc_on_member_remove :: "'j nc_client \<Rightarrow> 'j \<Rightarrow> 'j nc_shard handler" where
  "nc_on_member_remove c e =
     hread (nev c e ''guild_id'' as_sf) (\<lambda>g.
     hread (nev c e ''user'' read_nc_user) (\<lambda>u. nc_call c Cb_member_remove (Member_removed g u)))"

text \<open>The roles of an update are read as roles; they are ids.\<close>

definition nc_on_member_update :: "'j nc_client \<Rightarrow> 'j \<Rightarrow> 'j nc_shard handler" where
  "nc_on_member_update c e =
     hread (nev c e ''guild_id'' as_sf) (\<lambda>g.
     hread (nev c e ''user'' read_nc_user) (\<lambda>u.
     hread (nev c e ''roles'' (\<lambda>J. as_vector (read_nc_role J) J)) (\<lambda>rs.
     if find_key (k_json c) e ''nick'' \<noteq> None then
       hread (nev c e ''nick'' as_str) (\<lambda>n. nc_call c Cb_member_update (Member_updated g u rs (Some n)))
     else nc_call c Cb_member_update (Member_updated g u rs None))))"

text \<open>A chunk of members is read and dropped.\<close>

definition nc_on_members_chunk :: "'j nc_client \<Rightarrow> 'j \<Rightarrow> 'j nc_shard handler" where
  "nc_on_members_chunk c e =
     hread (nev c e ''members'' (\<lambda>J. as_vector (read_nc_member J) J)) (\<lambda>_.
     hread (nev c e ''chunk_count'' as_int) (\<lambda>_.
     hread (nev c e ''chunk_index'' as_int) (\<lambda>_.
     hread (nev c e ''guild_id'' as_sf) (\<lambda>_.
     hread (nev c e ''presences'' (\<lambda>J. as_vector (read_nc_presence J) J)) (\<lambda>_. hdone)))))"

definition nc_on_role_create :: "'j nc_client \<Rightarrow> 'j \<Rightarrow> 'j nc_shard handler" where
  "nc_on_role_create c e =
     hread (nev c e ''guild_id'' as_sf) (\<lambda>g.
     hread (nev c e ''role'' read_nc_role) (\<lambda>r. nc_call c Cb_role_create (Role_created g r)))"

definition nc_on_role_update :: "'j nc_client \<Rightarrow> 'j \<Rightarrow> 'j nc_shard handler" where
  "nc_on_role_update c e =
     hread (nev c e ''guild_id'' as_sf) (\<lambda>g.
     hread (nev c e ''role'' read_nc_role) (\<lambda>r. nc_call c Cb_role_update (Role_updated g r)))"

definition nc_on_role_delete :: "'j nc_client \<Rightarrow> 'j \<Rightarrow> 'j nc_shard handler" where
  "nc_on_role_delete c e =
     hread (nev c e ''guild_id'' as_sf) (\<lambda>g.
     hread (nev c e ''role_id'' as_sf) (\<lambda>r. nc_call c Cb_role_delete (Role_deleted g r)))"

section \<open>Messages\<close>

definition nc_on_message_create :: "'j nc_client \<Rightarrow> 'j \<Rightarrow> 'j nc_shard handler" where
  "nc_on_message_create c e =
     (if find_key (k_json c) e ''guild_id'' \<noteq> None
      then hread (create_nc_guild_message (k_json c) e) (\<lambda>m. nc_call c Cb_guild_msg (Guild_message_created m))
      else hread (create_nc_dm_message (k_json c) e) (\<lambda>m. nc_call c Cb_dm_msg (Dm_message_created m)))"

text \<open>An update of a message is read and dropped.\<close>

definition nc_on_message_update :: "'j nc_client \<Rightarrow> 'j \<Rightarrow> 'j nc_shard handler" where
  "nc_on_message_update c e =
     (if find_key (k_json c) e ''guild_id'' \<noteq> None
      then hread (create_nc_guild_update (k_json c) e) (\<lambda>_. hdone)
      else hread (create_nc_dm_update (k_json c) e) (\<lambda>_. hdone))"

definition nc_on_message_delete :: "'j nc_client \<Rightarrow> 'j \<Rightarrow> 'j nc_shard handler" where
  "nc_on_message_delete c e =
     hread (nev c e ''id'' as_sf) (\<lambda>i. hread (nev c e ''channel_id'' as_sf) (\<lambda>ch. hread (nev_guild_id c e) (\<lambda>g.
       if g \<noteq> no_id then nc_call c Cb_guild_msg_delete (Guild_message_deleted i ch g)
       else nc_call c Cb_dm_msg_delete (Dm_message_deleted i ch))))"

definition nc_on_message_delete_bulk :: "'j nc_client \<Rightarrow> 'j \<Rightarrow> 'j nc_shard handler" where
  "nc_on_message_delete_bulk c e =
     hread (nev c e ''ids'' (\<lambda>J. as_vector (as_sf J) J)) (\<lambda>is. hread (nev c e ''channel_id'' as_sf) (\<lambda>ch. hread (nev_guild_id c e) (\<lambda>g.
       if g \<noteq> no_id then nc_call c Cb_bulk_delete (Guild_messages_deleted is ch g)
       else nc_call c Cb_dm_bulk_delete (Dm_messages_deleted is ch))))"

definition nc_on_reaction_add :: "'j nc_client \<Rightarrow> 'j \<Rightarrow> 'j nc_shard handler" where
  "nc_on_reaction_add c e =
     hread (nev c e ''channel_id'' as_sf) (\<lambda>ch. hread (nev c e ''emoji'' read_emoji) (\<lambda>em.
     hread (nev_guild_id c e) (\<lambda>g. hread (nev c e ''message_id'' as_sf) (\<lambda>i.
       if g \<noteq> no_id then
         hread (nev c e ''member'' read_nc_member) (\<lambda>m. nc_call c Cb_guild_reaction_add (Guild_reaction_added ch g i m em))
       else
         hread (nev c e ''user_id'' as_sf) (\<lambda>u. nc_call c Cb_dm_reaction_add (Dm_reaction_added u ch i em))))))"

definition nc_on_reaction_remove :: "'j nc_client \<Rightarrow> 'j \<Rightarrow> 'j nc_shard handler" where
  "nc_on_reaction_remove c e =
     hread (nev c e ''channel_id'' as_sf) (\<lambda>ch. hread (nev c e ''emoji'' read_emoji) (\<lambda>em. hread (nev c e ''message_id'' as_sf) (\<lambda>i.
       if find_key (k_json c) e ''guild_id'' \<noteq> None then
         hread (nev c e ''user_id'' as_sf) (\<lambda>u. hread (nev c e ''guild_id'' as_sf) (\<lambda>g.
           nc_call c Cb_guild_reaction_remove (Guild_reaction_removed u ch g i em)))
       else
         hread (nev c e ''user_id'' as_sf) (\<lambda>u. nc_call c Cb_dm_reaction_remove (Dm_reaction_removed u ch i em)))))"

definition nc_on_reaction_remove_all :: "'j nc_client \<Rightarrow> 'j \<Rightarrow> 'j nc_shard handler" where
  "nc_on_reaction_remove_all c e =
     hread (nev c e ''channel_id'' as_sf) (\<lambda>ch. hread (nev c e ''message_id'' as_sf) (\<lambda>i. hread (nev_guild_id c e) (\<lambda>g.
       if g \<noteq> no_id then nc_call c Cb_guild_reaction_remove_all (Guild_reactions_removed ch i g)
       else nc_call c Cb_dm_reaction_remove_all (Dm_reactions_removed ch i))))"

section \<open>Presences, typing, voice\<close>

definition nc_on_presence_update :: "'j nc_client \<Rightarrow> 'j \<Rightarrow> 'j nc_shard handler" where
  "nc_on_presence_update c e = hread (read_nc_presence (k_json c) e) (\<lambda>p. nc_call c Cb_presence (Presence_updated p))"

definition nc_on_typing_start :: "'j nc_client \<Rightarrow> 'j \<Rightarrow> 'j nc_shard handler" where
  "nc_on_typing_start c e =
     hread (nev c e ''channel_id'' as_sf) (\<lambda>ch. hread (nev_guild_id c e) (\<lambda>g.
       if g \<noteq> no_id then hread (nev c e ''member'' read_nc_member) (\<lambda>m. nc_call c Cb_guild_typing (Guild_typing ch g m))
       else hread (nev c e ''user_id'' as_sf) (\<lambda>u. nc_call c Cb_dm_typing (Dm_typing ch u))))"

definition nc_on_voice_state_update :: "'j nc_client \<Rightarrow> 'j \<Rightarrow> 'j nc_shard handler" where
  "nc_on_voice_state_update c e =
     hread (nev_guild_id c e) (\<lambda>g.
     hget (\<lambda>s. hread (value_or (as_sf (k_json c)) (ns_id s) (k_json c) e ''user_id'') (\<lambda>u.
     hread (read_nc_voice_state (k_json c) e) (\<lambda>_.
       if u = ns_id s \<and> ns_session_promises s g \<noteq> None then
         hread (nev c e ''session_id'' as_str) (\<lambda>sid. hmod (\<lambda>s. s\<lparr>ns_session_promises :=
           (ns_session_promises s)(g := map_option (\<lambda>vs. vs @ [sid]) (ns_session_promises s g))\<rparr>))
       else hdone))))"

definition nc_on_voice_server_update :: "'j nc_client \<Rightarrow> 'j \<Rightarrow> 'j nc_shard handler" where
  "nc_on_voice_server_update c e =
     hread (nev c e ''guild_id'' as_sf) (\<lambda>g. hmod (\<lambda>s. s\<lparr>ns_endpoint_promises := (ns_endpoint_promises s)(g \<mapsto>
       (case ns_endpoint_promises s g of None \<Rightarrow> [] | Some vs \<Rightarrow> vs) @ [e])\<rparr>))"

section \<open>Dispatch\<close>

definition nc_process_event :: "'j nc_client \<Rightarrow> event_name \<Rightarrow> 'j \<Rightarrow> 'j nc_shard handler" where
  "nc_process_event c ename e =
     (case ename of
        HELLO \<Rightarrow> nc_on_event_hello c e
      | READY \<Rightarrow> nc_on_ready c e
      | RESUMED \<Rightarrow> nc_on_resumed c e
      | INVALID_SESSION \<Rightarrow> hdone
      | CHANNEL_CREATE \<Rightarrow> nc_on_channel_create c e
      | CHANNEL_UPDATE \<Rightarrow> nc_on_channel_update c e
      | CHANNEL_DELETE \<Rightarrow> nc_on_channel_delete c e
      | CHANNEL_PINS_UPDATE \<Rightarrow> hdone
      | GUILD_CREATE \<Rightarrow> nc_on_guild_create c e
      | GUILD_UPDATE \<Rightarrow> nc_on_guild_update c e
      | GUILD_DELETE \<Rightarrow> nc_on_guild_delete c e
      | GUILD_BAN_ADD \<Rightarrow> nc_on_ban_add c e
      | GUILD_BAN_REMOVE \<Rightarrow> nc_on_ban_remove c e
      | GUILD_EMOJI_UPDATE \<Rightarrow> nc_on_emoji_update c e
      | GUILD_INTEGRATIONS_UPDATE \<Rightarrow> nc_on_integrations_update c e
      | GUILD_MEMBER_ADD \<Rightarrow> nc_on_member_add c e
      | GUILD_MEMBER_REMOVE \<Rightarrow> nc_on_member_remove c e
      | GUILD_MEMBER_UPDATE \<Rightarrow> nc_on_member_update c e
      | GUILD_MEMBERS_CHUNK \<Rightarrow> nc_on_members_chunk c e
      | GUILD_ROLE_CREATE \<Rightarrow> nc_on_role_create c e
      | GUILD_ROLE_UPDATE \<Rightarrow> nc_on_role_update c e
      | GUILD_ROLE_DELETE \<Rightarrow> nc_on_role_delete c e
      | MESSAGE_CREATE \<Rightarrow> nc_on_message_create c e
      | MESSAGE_UPDATE \<Rightarrow> nc_on_message_update c e
      | MESSAGE_DELETE \<Rightarrow> nc_on_message_delete c e
      | MESSAGE_DELETE_BULK \<Rightarrow> nc_on_message_delete_bulk c e
      | MESSAGE_REACTION_ADD \<Rightarrow> nc_on_reaction_add c e
      | MESSAGE_REACTION_REMOVE \<Rightarrow> nc_on_reaction_remove c e
      | MESSAGE_REACTION_REMOVE_ALL \<Rightarrow> nc_on_reaction_remove_all c e
      | PRESENCE_UPDATE \<Rightarrow> nc_on_presence_update c e
      | TYPING_START \<Rightarrow> nc_on_typing_start c e
      | USER_UPDATE \<Rightarrow> hdone
      | VOICE_STATE_UPDATE \<Rightarrow> nc_on_voice_state_update c e
      | VOICE_SERVER_UPDATE \<Rightarrow> nc_on_voice_server_update c e
      | WEBHOOKS_UPDATE \<Rightarrow> hdone)"

text \<open>\<open>m_opcode0\<close> swallows exceptions.\<close>

definition nc_opcode0 :: "'j nc_client \<Rightarrow> 'j \<Rightarrow> event_name \<Rightarrow> u64 \<Rightarrow> 'j nc_shard handler" where
  "nc_opcode0 c e ename n s =
     (case nc_process_event c ename e (s\<lparr>ns_seq := max n (ns_seq s)\<rparr>) of (Some Throws, t) \<Rightarrow> (None, t) | r \<Rightarrow> r)"

section \<open>The session\<close>

definition nc_ws_send :: "ws_message \<Rightarrow> 'j nc_shard handler" where
  "nc_ws_send m = hmod (\<lambda>s. s\<lparr>ns_sent := ns_sent s @ [m]\<rparr>)"

definition nc_shard_reconnect :: "'j nc_shard handler" where
  "nc_shard_reconnect = hget (\<lambda>s. if ns_disconnected s then hdone
     else hmod (\<lambda>s. s\<lparr>ns_disconnected := True, ns_closed := ns_closed s @ [1001]\<rparr>))"

definition nc_send_resume :: "'j nc_shard handler" where
  "nc_send_resume = hget (\<lambda>s. nc_ws_send (Ws_resume (ns_session_id s) (ns_seq s)))"

definition nc_opcode1 :: "'j nc_shard handler" where
  "nc_opcode1 = hget (\<lambda>s. if ns_disconnected s then hdone else nc_ws_send Ws_opcode1_heartbeat)"

definition nc_identify_message :: "'j nc_client \<Rightarrow> 'j nc_shard \<Rightarrow> ws_message" where
  "nc_identify_message c s = Ws_identify (k_shard_number c) (k_num_shards c) (ns_status s) (ns_game s) (k_intents c)"

text \<open>\<open>send_identity\<close> tells the client that the shard has identified; \<open>m_send_identity\<close>, the answer to an invalid session, does
  not: its text is sent by a timer.\<close>

definition nc_send_identity :: "'j nc_client \<Rightarrow> 'j nc_shard handler" where
  "nc_send_identity c = hget (\<lambda>s. hthen (nc_ws_send (nc_identify_message c s)) (hmod (\<lambda>s. s\<lparr>ns_notified := Suc (ns_notified s)\<rparr>)))"

definition nc_opcode2 :: "'j nc_client \<Rightarrow> 'j nc_shard handler" where
  "nc_opcode2 c = hmod (\<lambda>s. s\<lparr>ns_to_identify := ns_to_identify s @ [nc_identify_message c s]\<rparr>)"

definition nc_opcode3 :: "'j nc_shard handler" where
  "nc_opcode3 = hget (\<lambda>s. nc_ws_send (Ws_presence (ns_status s) (ns_game s)))"

definition nc_update_presence :: "status \<Rightarrow> string \<Rightarrow> 'j nc_shard handler" where
  "nc_update_presence st g = hthen (hmod (\<lambda>s. s\<lparr>ns_status := st, ns_game := g\<rparr>)) nc_opcode3"

definition nc_opcode4 :: "snowflake \<Rightarrow> snowflake \<Rightarrow> 'j nc_shard handler" where
  "nc_opcode4 g ch =
     hthen (hmod (\<lambda>s. s\<lparr>
        ns_endpoint_promises := (if ns_endpoint_promises s g = None then (ns_endpoint_promises s)(g \<mapsto> []) else ns_endpoint_promises s),
        ns_session_promises := (if ns_session_promises s g = None then (ns_session_promises s)(g \<mapsto> []) else ns_session_promises s)\<rparr>))
     (nc_ws_send (Ws_voice_state g ch))"

definition nc_opcode8 :: "snowflake \<Rightarrow> 'j nc_shard handler" where
  "nc_opcode8 g = nc_ws_send (Ws_request_members g)"

definition nc_opcode9 :: "'j \<Rightarrow> 'j nc_shard handler" where
  "nc_opcode9 d = hmod (\<lambda>s. s\<lparr>ns_invalid := ns_invalid s @ [d]\<rparr>)"

definition nc_after_invalid :: "'j nc_client \<Rightarrow> 'j \<Rightarrow> 'j nc_shard handler" where
  "nc_after_invalid c d = hread (as_bool (k_json c) d) (\<lambda>b. if b then nc_send_resume else nc_opcode2 c)"

definition nc_hb_start :: "'j nc_shard handler" where
  "nc_hb_start = hthen (nc_ws_send Ws_start_heartbeat) (hmod (\<lambda>s. s\<lparr>ns_ack := False, ns_timers := Suc (ns_timers s)\<rparr>))"

definition nc_send_heartbeat :: "'j nc_shard handler" where
  "nc_send_heartbeat =
     hget (\<lambda>s. if \<not> ns_ack s then nc_shard_reconnect
       else if ns_disconnected s then hdone
       else hthen (nc_ws_send (Ws_heartbeat (ns_seq s))) (hmod (\<lambda>s. s\<lparr>ns_ack := False, ns_timers := Suc (ns_timers s)\<rparr>)))"

text \<open>Every hello asks the client for a turn to identify.\<close>

definition nc_opcode10 :: "'j nc_client \<Rightarrow> 'j \<Rightarrow> 'j nc_shard handler" where
  "nc_opcode10 c d =
     hread (nev c d ''heartbeat_interval'' as_int) (\<lambda>n.
     hthen (hmod (\<lambda>s. s\<lparr>ns_hb_interval := n\<rparr>))
     (hthen nc_hb_start (hmod (\<lambda>s. s\<lparr>ns_asked_to_identify := Suc (ns_asked_to_identify s)\<rparr>))))"

definition nc_opcode11 :: "'j nc_shard handler" where
  "nc_opcode11 = hmod (\<lambda>s. s\<lparr>ns_ack := True\<rparr>)"

definition nc_do_stuff :: "'j nc_client \<Rightarrow> 'j \<Rightarrow> int \<Rightarrow> 'j nc_shard handler" where
  "nc_do_stuff c stuffs op =
     (if op = 0 then
        hread (at_mut (k_json c) stuffs ''d'') (\<lambda>d.
        hread (nev c stuffs ''t'' as_str) (\<lambda>t.
        hread (nev c stuffs ''s'' as_int) (\<lambda>n. nc_opcode0 c d (to_event_name t) (word_of_int n))))
      else if op = 1 then nc_opcode1
      else if op = 7 then nc_shard_reconnect
      else if op = 9 then hread (at_mut (k_json c) stuffs ''d'') nc_opcode9
      else if op = 10 then hread (at_mut (k_json c) stuffs ''d'') (nc_opcode10 c)
      else if op = 11 then hread (at_mut (k_json c) stuffs ''d'') (\<lambda>_. nc_opcode11)
      else hdone)"

end
