(* ===== verification/Nc_Laws.thy ===== *)
theory Nc_Laws
  imports Nc_Shard Json_Sample
begin

text \<open>
  What the shard without a cache tells its client: an event leads to at most one call, of a callback that is set and belongs to
  the event, and the call depends on the event alone; some events never lead to one.
\<close>

section \<open>Calls of a handler\<close>

fun nc_kind :: "nc_event \<Rightarrow> nc_callback" where
  "nc_kind Ready_event = Cb_ready"
| "nc_kind (Text_channel_create _) = Cb_text_create" | "nc_kind (Voice_channel_create _) = Cb_voice_create"
| "nc_kind (Dm_channel_create _) = Cb_dm_create" | "nc_kind (Category_create _) = Cb_category_create"
| "nc_kind (Text_channel_update _) = Cb_text_update" | "nc_kind (Voice_channel_update _) = Cb_voice_update"
| "nc_kind (Dm_channel_update _) = Cb_dm_update" | "nc_kind (Category_update _) = Cb_category_update"
| "nc_kind (Text_channel_delete _) = Cb_text_delete" | "nc_kind (Voice_channel_delete _) = Cb_voice_delete"
| "nc_kind (Dm_channel_delete _) = Cb_dm_delete" | "nc_kind (Category_delete _) = Cb_category_delete"
| "nc_kind (Guild_created _) = Cb_guild_ready" | "nc_kind (Guild_removed _) = Cb_guild_remove"
| "nc_kind (Ban_added _ _) = Cb_ban_add" | "nc_kind (Ban_removed _ _) = Cb_ban_remove"
| "nc_kind (Emojis_updated _ _) = Cb_emoji_update"
| "nc_kind (Member_added _ _) = Cb_member_add" | "nc_kind (Member_removed _ _) = Cb_member_remove"
| "nc_kind (Member_updated _ _ _ _) = Cb_member_update"
| "nc_kind (Role_created _ _) = Cb_role_create" | "nc_kind (Role_updated _ _) = Cb_role_update"
| "nc_kind (Role_deleted _ _) = Cb_role_delete"
| "nc_kind (Guild_message_created _) = Cb_guild_msg" | "nc_kind (Dm_message_created _) = Cb_dm_msg"
| "nc_kind (Guild_message_deleted _ _ _) = Cb_guild_msg_delete" | "nc_kind (Dm_message_deleted _ _) = Cb_dm_msg_delete"
| "nc_kind (Guild_messages_deleted _ _ _) = Cb_bulk_delete" | "nc_kind (Dm_messages_deleted _ _) = Cb_dm_bulk_delete"
| "nc_kind (Guild_reaction_added _ _ _ _ _) = Cb_guild_reaction_add" | "nc_kind (Dm_reaction_added _ _ _ _) = Cb_dm_reaction_add"
| "nc_kind (Guild_reaction_removed _ _ _ _ _) = Cb_guild_reaction_remove"
| "nc_kind (Dm_reaction_removed _ _ _ _) = Cb_dm_reaction_remove"
| "nc_kind (Guild_reactions_removed _ _ _) = Cb_guild_reaction_remove_all"
| "nc_kind (Dm_reactions_removed _ _) = Cb_dm_reaction_remove_all"
| "nc_kind (Guild_typing _ _ _) = Cb_guild_typing" | "nc_kind (Dm_typing _ _) = Cb_dm_typing"
| "nc_kind (Presence_updated _) = Cb_presence"

text \<open>The callbacks an event can lead to.\<close>

definition nc_callbacks :: "event_name \<Rightarrow> nc_callback list" where
  "nc_callbacks ename = (case ename of
     READY \<Rightarrow> [Cb_ready]
   | CHANNEL_CREATE \<Rightarrow> [Cb_text_create, Cb_voice_create, Cb_dm_create, Cb_category_create]
   | CHANNEL_UPDATE \<Rightarrow> [Cb_text_update, Cb_voice_update, Cb_dm_update, Cb_category_update]
   | CHANNEL_DELETE \<Rightarrow> [Cb_text_delete, Cb_voice_delete, Cb_dm_delete, Cb_category_delete]
   | GUILD_CREATE \<Rightarrow> [Cb_guild_ready] | GUILD_DELETE \<Rightarrow> [Cb_guild_remove]
   | GUILD_BAN_ADD \<Rightarrow> [Cb_ban_add] | GUILD_BAN_REMOVE \<Rightarrow> [Cb_ban_remove] | GUILD_EMOJI_UPDATE \<Rightarrow> [Cb_emoji_update]
   | GUILD_MEMBER_ADD \<Rightarrow> [Cb_member_add] | GUILD_MEMBER_REMOVE \<Rightarrow> [Cb_member_remove]
   | GUILD_MEMBER_UPDATE \<Rightarrow> [Cb_member_update]
   | GUILD_ROLE_CREATE \<Rightarrow> [Cb_role_create] | GUILD_ROLE_UPDATE \<Rightarrow> [Cb_role_update] | GUILD_ROLE_DELETE \<Rightarrow> [Cb_role_delete]
   | MESSAGE_CREATE \<Rightarrow> [Cb_guild_msg, Cb_dm_msg] | MESSAGE_DELETE \<Rightarrow> [Cb_guild_msg_delete, Cb_dm_msg_delete]
   | MESSAGE_DELETE_BULK \<Rightarrow> [Cb_bulk_delete, Cb_dm_bulk_delete]
   | MESSAGE_REACTION_ADD \<Rightarrow> [Cb_guild_reaction_add, Cb_dm_reaction_add]
   | MESSAGE_REACTION_REMOVE \<Rightarrow> [Cb_guild_reaction_remove, Cb_dm_reaction_remove]
   | MESSAGE_REACTION_REMOVE_ALL \<Rightarrow> [Cb_guild_reaction_remove_all, Cb_dm_reaction_remove_all]
   | PRESENCE_UPDATE \<Rightarrow> [Cb_presence] | TYPING_START \<Rightarrow> [Cb_guild_typing, Cb_dm_typing]
   | _ \<Rightarrow> [])"

text \<open>What a handler does to the rest of the session: nothing.\<close>

definition same_session :: "'j nc_shard \<Rightarrow> 'j nc_shard \<Rightarrow> bool" where
  "same_session s t \<longleftrightarrow> ns_sent t = ns_sent s \<and> ns_closed t = ns_closed s \<and> ns_disconnected t = ns_disconnected s
     \<and> ns_seq t = ns_seq s \<and> ns_timers t = ns_timers s \<and> ns_invalid t = ns_invalid s \<and> ns_to_identify t = ns_to_identify s \<and> ns_reading t = ns_reading s
     \<and> ns_asked_to_identify t = ns_asked_to_identify s \<and> ns_notified t = ns_notified s"

definition allowed_calls :: "'j nc_client \<Rightarrow> nc_callback list \<Rightarrow> (nc_callback \<times> nc_event) list \<Rightarrow> bool" where
  "allowed_calls c cbs xs \<longleftrightarrow> length xs \<le> 1 \<and> (\<forall>(cb, x) \<in> set xs. k_has c cb \<and> cb = nc_kind x \<and> cb \<in> set cbs)"

text \<open>A handler makes the same calls in every state.\<close>

definition tells :: "'j nc_client \<Rightarrow> nc_callback list \<Rightarrow> 'j nc_shard handler \<Rightarrow> bool" where
  "tells c cbs h \<longleftrightarrow> (\<exists>xs. allowed_calls c cbs xs \<and> (\<forall>s. ns_events (snd (h s)) = ns_events s @ xs \<and> same_session s (snd (h s))))"

named_theorems tells_intros

lemma tells_silent: "(\<And>s. ns_events (snd (h s)) = ns_events s \<and> same_session s (snd (h s))) \<Longrightarrow> tells c cbs h"
  unfolding tells_def by (intro exI [of _ "[]"]) (simp add: allowed_calls_def)

lemma tells_hdone [tells_intros]: "tells c cbs hdone"
  by (rule tells_silent) (simp add: hdone_def same_session_def)

lemma tells_hfail: "tells c cbs (\<lambda>s. (Some x, s))"
  by (rule tells_silent) (simp add: same_session_def)

lemma tells_hread [tells_intros]: "(\<And>a. tells c cbs (k a)) \<Longrightarrow> tells c cbs (hread r k)"
proof (cases r)
  case (Inl x)
  then have "hread r k = (\<lambda>s. (Some x, s))" by (intro ext) (simp add: hread_def)
  then show ?thesis by (simp add: tells_hfail)
next
  case (Inr a)
  assume "\<And>a. tells c cbs (k a)"
  with Inr show ?thesis by (simp add: hread_Inr)
qed

lemma tells_if [tells_intros]: "tells c cbs h \<Longrightarrow> tells c cbs k \<Longrightarrow> tells c cbs (if b then h else k)"
  by simp

lemma tells_invoke [tells_intros]:
  assumes "k_has c cb" "cb = nc_kind x" "cb \<in> set cbs"
  shows "tells c cbs (nc_invoke c cb x)"
  unfolding tells_def
  by (intro exI [of _ "[(cb, x)]"]) (use assms in \<open>simp add: allowed_calls_def nc_invoke_def same_session_def\<close>)

lemma tells_call [tells_intros]: "cb = nc_kind x \<Longrightarrow> cb \<in> set cbs \<Longrightarrow> tells c cbs (nc_call c cb x)"
  by (simp add: nc_call_def tells_hdone tells_invoke)

lemma tells_read_call [tells_intros]:
  assumes "cb \<in> set cbs" "\<And>x. cb = nc_kind (f x)"
  shows "tells c cbs (nc_read_call c cb (rmap f r))"
proof (cases r)
  case (Inl x)
  then have "hread (rmap f r) (nc_invoke c cb) = (\<lambda>s. (Some x, s))" by (intro ext) (simp add: hread_def)
  then show ?thesis by (simp add: nc_read_call_def tells_hdone tells_hfail)
next
  case (Inr a)
  then show ?thesis using assms by (simp add: nc_read_call_def hread_Inr tells_hdone tells_invoke)
qed

lemma tells_hmod_then [tells_intros]:
  assumes "\<And>s. ns_events (f s) = ns_events s \<and> same_session s (f s)" "tells c cbs k"
  shows "tells c cbs (hthen (hmod f) k)"
proof -
  from assms(2) obtain xs where xs: "allowed_calls c cbs xs"
    "\<And>s. ns_events (snd (k s)) = ns_events s @ xs \<and> same_session s (snd (k s))" unfolding tells_def by blast
  have "ns_events (snd (hthen (hmod f) k s)) = ns_events s @ xs \<and> same_session s (snd (hthen (hmod f) k s))" for s
    using assms(1) [of s] xs(2) [of "f s"] by (simp add: hthen_def hmod_def same_session_def)
  with xs(1) show ?thesis unfolding tells_def by blast
qed

lemma tells_hmod [tells_intros]:
  "(\<And>s. ns_events (f s) = ns_events s \<and> same_session s (f s)) \<Longrightarrow> tells c cbs (hmod f)"
  by (rule tells_silent) (simp add: hmod_def)

text \<open>A handler whose exceptions end in it.\<close>

lemma tells_caught:
  assumes "tells c cbs h"
  shows "tells c cbs (\<lambda>s. case h s of (Some Throws, t) \<Rightarrow> (None, t) | r \<Rightarrow> r)"
proof -
  have "snd (case h s of (Some Throws, t) \<Rightarrow> (None, t) | r \<Rightarrow> r) = snd (h s)" for s
    by (auto split: prod.splits option.splits fault.splits)
  with assms show ?thesis by (simp add: tells_def)
qed

lemma tells_voice_state: "tells c cbs (nc_on_voice_state_update c e)"
  by (rule tells_silent)
    (auto simp: nc_on_voice_state_update_def hread_def hget_def hdone_def hmod_def same_session_def split: sum.splits)

lemmas nc_handler_defs = nc_on_ready_def nc_on_resumed_def nc_on_event_hello_def nc_on_channel_create_def
  nc_on_channel_delete_def nc_on_channel_update_def nc_on_guild_create_def nc_on_guild_update_def
  nc_on_ban_add_def nc_on_ban_remove_def nc_on_emoji_update_def nc_on_integrations_update_def nc_on_member_add_def
  nc_on_member_remove_def nc_on_member_update_def nc_on_members_chunk_def nc_on_role_create_def nc_on_role_update_def
  nc_on_role_delete_def nc_on_message_create_def nc_on_message_update_def nc_on_message_delete_def
  nc_on_message_delete_bulk_def nc_on_reaction_add_def nc_on_reaction_remove_def nc_on_reaction_remove_all_def
  nc_on_presence_update_def nc_on_typing_start_def nc_on_voice_server_update_def

lemma tells_guild_delete: "tells c [Cb_guild_remove] (nc_on_guild_delete c e)"
  unfolding nc_on_guild_delete_def [abs_def]
  by (rule tells_caught) (intro tells_intros, simp_all)

lemma tells_process_event: "tells c (nc_callbacks ename) (nc_process_event c ename e)"
  by (cases ename;
      simp add: nc_process_event_def nc_callbacks_def tells_guild_delete tells_voice_state tells_hdone;
      (unfold nc_handler_defs)?; (intro tells_intros)?;
      (simp add: same_session_def)?)

section \<open>What the client is told\<close>

text \<open>What the client is told of an event depends on the event alone, not on what came before: it is at most one call, of a
  callback that is set and is one of the event's. No exception leaves the dispatch, and but for the sequence number the session
  stays as it is.\<close>
lemma told_by_event_alone:
  "\<exists>xs. length xs \<le> 1 \<and> (\<forall>(cb, x) \<in> set xs. k_has c cb \<and> cb = nc_kind x \<and> cb \<in> set (nc_callbacks ename))
     \<and> (\<forall>s n. ns_events (snd (nc_opcode0 c e ename n s)) = ns_events s @ xs
          \<and> same_session (s\<lparr>ns_seq := max n (ns_seq s)\<rparr>) (snd (nc_opcode0 c e ename n s))
          \<and> fst (nc_opcode0 c e ename n s) \<noteq> Some Throws)"
proof -
  obtain xs where xs: "allowed_calls c (nc_callbacks ename) xs"
    "\<And>s. ns_events (snd (nc_process_event c ename e s)) = ns_events s @ xs \<and> same_session s (snd (nc_process_event c ename e s))"
    using tells_process_event [of c ename e] unfolding tells_def by blast
  have "ns_events (snd (nc_opcode0 c e ename n s)) = ns_events s @ xs
      \<and> same_session (s\<lparr>ns_seq := max n (ns_seq s)\<rparr>) (snd (nc_opcode0 c e ename n s))
      \<and> fst (nc_opcode0 c e ename n s) \<noteq> Some Throws" for s n
    using xs(2) [of "s\<lparr>ns_seq := max n (ns_seq s)\<rparr>"]
    by (cases "nc_process_event c ename e (s\<lparr>ns_seq := max n (ns_seq s)\<rparr>)")
      (auto simp: nc_opcode0_def split: option.splits fault.splits)
  with xs(1) show ?thesis unfolding allowed_calls_def by blast
qed

text \<open>Chunks of members, updates of guilds and updates of messages are read and never told.\<close>

lemma never_told:
  assumes "ename \<in> {GUILD_MEMBERS_CHUNK, GUILD_UPDATE, MESSAGE_UPDATE, GUILD_INTEGRATIONS_UPDATE, CHANNEL_PINS_UPDATE,
    USER_UPDATE, VOICE_STATE_UPDATE}"
  shows "ns_events (snd (nc_process_event c ename e s)) = ns_events s"
proof -
  have "nc_callbacks ename = []" using assms by (auto simp: nc_callbacks_def)
  moreover obtain xs where "allowed_calls c (nc_callbacks ename) xs" "ns_events (snd (nc_process_event c ename e s)) = ns_events s @ xs"
    using tells_process_event [of c ename e] unfolding tells_def by blast
  ultimately show ?thesis by (cases xs) (auto simp: allowed_calls_def)
qed

section \<open>Events that are not understood\<close>

lemma fresh_first_fails: "f a = Inl x \<Longrightarrow> fresh (f # fs) a = Inl x"
  by (simp add: fresh_def)

text \<open>The event of a removed guild names it \<open>id\<close>; the reader asks a constant object for \<open>guild_id\<close>.\<close>

lemma guild_delete_undefined:
  assumes "j_object (k_json c) e = Some m" "m ''guild_id'' = None"
  shows "fst (nc_on_guild_delete c e s) = Some Undef"
  using assms by (simp add: nc_on_guild_delete_def read_nc_unavailable_guild_def fresh_first_fails at_const_def hread_def)

text \<open>The event of a ban has its user under \<open>user\<close> and no \<open>id\<close>.\<close>

lemma ban_undefined:
  assumes "j_object (k_json c) e = Some m" "m ''id'' = None"
  shows "fst (nc_on_ban_add c e s) = Some Undef" "fst (nc_on_ban_remove c e s) = Some Undef"
  using assms
  by (simp_all add: nc_on_ban_add_def nc_on_ban_remove_def read_nc_user_def nc_user_fields_def fresh_first_fails at_const_def hread_def)

text \<open>The roles of a member's update are ids: texts, which are no roles. An update of a member that has a role is never told.\<close>

lemma member_update_not_told:
  assumes "nev c e ''roles'' as_arr = Inr (r # rs)" "j_is_null (k_json c) r = False" "j_object (k_json c) r = None"
  shows "ns_events (snd (nc_on_member_update c e s)) = ns_events s"
proof -
  have "nev c e ''roles'' (\<lambda>J. as_vector (read_nc_role J) J) = Inl Throws"
    using assms by (auto simp: nev_def as_vector_def rbind_Inr_iff read_nc_role_def fresh_first_fails at_const_def)
  then show ?thesis by (simp add: nc_on_member_update_def hread_def split: sum.splits)
qed

section \<open>A concrete event\<close>

definition nc_sample :: "js nc_client" where
  "nc_sample = \<lparr>k_json = js_api, k_has = (\<lambda>_. True), k_throws = (\<lambda>_. False), k_intents = c_intents sample_config,
     k_shard_number = 0, k_num_shards = 1\<rparr>"

definition role_deleted_event :: js where
  "role_deleted_event = JObj [(''guild_id'', num 10), (''role_id'', num 12)]"

lemma role_deleted_told:
  "snd (nc_opcode0 nc_sample role_deleted_event GUILD_ROLE_DELETE 0 (nc_initial_shard js_api))
     = (nc_initial_shard js_api)\<lparr>ns_events := [(Cb_role_delete, Role_deleted (Snowflake 10) (Snowflake 12))]\<rparr>"
proof -
  have "nev nc_sample role_deleted_event ''guild_id'' as_sf = Inr (Snowflake 10)"
    "nev nc_sample role_deleted_event ''role_id'' as_sf = Inr (Snowflake 12)" by code_simp+
  then show ?thesis
    by (simp add: nc_opcode0_def nc_process_event_def nc_on_role_delete_def hread_Inr nc_call_def nc_invoke_def nc_sample_def
        nc_initial_shard_def)
qed

lemma role_deleted_told_anywhere:
  "\<forall>s. ns_events (snd (nc_opcode0 nc_sample role_deleted_event GUILD_ROLE_DELETE 5 s))
     = ns_events s @ [(Cb_role_delete, Role_deleted (Snowflake 10) (Snowflake 12))]"
proof -
  obtain xs where xs: "\<And>s n. ns_events (snd (nc_opcode0 nc_sample role_deleted_event GUILD_ROLE_DELETE n s)) = ns_events s @ xs"
    using told_by_event_alone [of nc_sample GUILD_ROLE_DELETE role_deleted_event] by blast
  from xs [of 0 "nc_initial_shard js_api"] have "xs = [(Cb_role_delete, Role_deleted (Snowflake 10) (Snowflake 12))]"
    by (simp add: role_deleted_told) (simp add: nc_initial_shard_def)
  with xs show ?thesis by simp
qed

end
