(* ===== verification/Nc_Gateway.thy ===== *)
theory Nc_Gateway
  imports Nc_Laws
begin

text \<open>
  The life of a shard without a cache (\<open>no_cache/src/init_shard.cpp\<close>, \<open>heartbeat_context.cpp\<close>, the opcodes of
  \<open>no_cache/src/internal_shard.cpp\<close>) as steps: frames, failed reads, timers and what the client asks for. The client is told of the
  frames that were read, in order, and of nothing else. A voice connection is set up as in the other library.
\<close>

section \<open>The loop\<close>

definition nc_end_loop :: "'j nc_shard handler" where
  "nc_end_loop = hmod (\<lambda>s. s\<lparr>ns_reading := False\<rparr>)"

text \<open>A read that failed with an error of the given value.\<close>

definition nc_on_read_error :: "int \<Rightarrow> 'j nc_shard handler" where
  "nc_on_read_error code =
     (if code \<in> {4000, 4003, 4007, 4009} then nc_send_resume
      else if code \<in> {4004, 4005, 4008, 4011} then nc_end_loop
      else hthen (hmod (\<lambda>s. s\<lparr>ns_closed := ns_closed s @ [1000]\<rparr>)) nc_end_loop)"

definition nc_on_frame :: "'j nc_client \<Rightarrow> 'j \<Rightarrow> 'j nc_shard handler" where
  "nc_on_frame c f = hread (nev c f ''op'' as_int) (nc_do_stuff c f)"

text \<open>An exception ends the loop.\<close>

definition nc_loop_body :: "'j nc_shard handler \<Rightarrow> 'j nc_shard handler" where
  "nc_loop_body h s = (case h s of (Some Throws, t) \<Rightarrow> nc_end_loop t | r \<Rightarrow> r)"

text \<open>An identification whose time has come.\<close>

definition nc_identify_due :: "nat \<Rightarrow> 'j nc_shard handler" where
  "nc_identify_due i = hget (\<lambda>s. hthen (hmod (\<lambda>s. s\<lparr>ns_to_identify := take i (ns_to_identify s) @ drop (Suc i) (ns_to_identify s)\<rparr>))
     (nc_ws_send (ns_to_identify s ! i)))"

text \<open>The steps, with the frames read so far. A step without a defined result is not a step.\<close>

inductive nc_run :: "'j nc_client \<Rightarrow> 'j list \<Rightarrow> 'j nc_shard \<Rightarrow> bool" for c where
  Initial: "nc_run c [] (nc_initial_shard (k_json c))"
| Frame: "nc_run c fs s \<Longrightarrow> ns_reading s \<Longrightarrow> nc_loop_body (nc_on_frame c f) s = (None, t) \<Longrightarrow> nc_run c (fs @ [f]) t"
| Read_error: "nc_run c fs s \<Longrightarrow> ns_reading s \<Longrightarrow> nc_on_read_error code s = (None, t) \<Longrightarrow> nc_run c fs t"
| Failure: "nc_run c fs s \<Longrightarrow> ns_reading s \<Longrightarrow> nc_end_loop s = (None, t) \<Longrightarrow> nc_run c fs t"
| Heartbeat: "nc_run c fs s \<Longrightarrow> ns_timers s > 0 \<Longrightarrow> nc_send_heartbeat (s\<lparr>ns_timers := ns_timers s - 1\<rparr>) = (None, t)
    \<Longrightarrow> nc_run c fs t"
| Invalid: "nc_run c fs s \<Longrightarrow> ns_invalid s = ds @ d # ds' \<Longrightarrow>
    nc_after_invalid c d (s\<lparr>ns_invalid := ds @ ds'\<rparr>) = (r, t) \<Longrightarrow> r \<noteq> Some Undef \<Longrightarrow> nc_run c fs t"
| Identify_due: "nc_run c fs s \<Longrightarrow> i < length (ns_to_identify s) \<Longrightarrow> nc_identify_due i s = (None, t) \<Longrightarrow> nc_run c fs t"
| Identify: "nc_run c fs s \<Longrightarrow> nc_send_identity c s = (None, t) \<Longrightarrow> nc_run c fs t"
| Presence: "nc_run c fs s \<Longrightarrow> nc_update_presence st g s = (None, t) \<Longrightarrow> nc_run c fs t"
| Members: "nc_run c fs s \<Longrightarrow> nc_opcode8 g s = (None, t) \<Longrightarrow> nc_run c fs t"
| Voice: "nc_run c fs s \<Longrightarrow> nc_opcode4 g ch s = (None, t) \<Longrightarrow> nc_run c fs t"

section \<open>Voice connections\<close>

text \<open>\<open>connect_voice\<close> waits for the endpoint and the session. The flags say whether its promises were stored.\<close>

datatype 'j nc_connecting =
  Nc_waits_endpoint bool bool
| Nc_waits_session 'j bool
| Nc_setting_up string string string

definition nc_connect_voice :: "snowflake \<Rightarrow> snowflake \<Rightarrow> 'j nc_shard \<Rightarrow> 'j nc_shard \<times> 'j nc_connecting" where
  "nc_connect_voice g ch s =
     (snd (nc_opcode4 g ch s), Nc_waits_endpoint (ns_endpoint_promises s g = None) (ns_session_promises s g = None))"

definition nc_connect_step ::
    "'j nc_client \<Rightarrow> snowflake \<Rightarrow> 'j nc_shard \<Rightarrow> 'j nc_connecting \<Rightarrow> (fault + 'j nc_shard \<times> 'j nc_connecting) option" where
  "nc_connect_step c g s p =
     (case p of
        Nc_waits_endpoint own own2 \<Rightarrow>
          (case ns_endpoint_promises s g of Some (e # _) \<Rightarrow> if own then Some (Inr (s, Nc_waits_session e own2)) else None | _ \<Rightarrow> None)
      | Nc_waits_session e own \<Rightarrow>
          (case ns_session_promises s g of
             Some (sid # _) \<Rightarrow> if own then Some
               (rbind (nev c e ''endpoint'' as_str) (\<lambda>ep.
                rbind (nev c e ''token'' as_str) (\<lambda>tok.
                  Inr (s\<lparr>ns_session_promises := (ns_session_promises s)(g := None),
                         ns_endpoint_promises := (ns_endpoint_promises s)(g := None)\<rparr>,
                       Nc_setting_up (''wss://'' @ ep @ ''/?v=4'') tok sid)))) else None
           | _ \<Rightarrow> None)
      | Nc_setting_up _ _ _ \<Rightarrow> None)"

section \<open>What a run tells\<close>

text \<open>A handler adds the same calls in every state.\<close>

definition adds_calls :: "'j nc_client \<Rightarrow> (nc_callback \<times> nc_event) list \<Rightarrow> 'j nc_shard handler \<Rightarrow> bool" where
  "adds_calls c xs h \<longleftrightarrow> (\<forall>s. ns_events (snd (h s)) = ns_events s @ xs)"

definition one_call :: "'j nc_client \<Rightarrow> 'j nc_shard handler \<Rightarrow> bool" where
  "one_call c h \<longleftrightarrow> (\<exists>xs. length xs \<le> 1 \<and> adds_calls c xs h)"

lemma one_call_quiet: "adds_calls c [] h \<Longrightarrow> one_call c h"
  unfolding one_call_def by (intro exI [of _ "[]"]) simp

lemma one_call_hread: "(\<And>a. one_call c (k a)) \<Longrightarrow> one_call c (hread r k)"
proof (cases r)
  case (Inl x)
  then show ?thesis by (intro one_call_quiet) (simp add: adds_calls_def hread_def)
qed (simp add: hread_Inr)

named_theorems quiet

lemma quiet_hmod [quiet]: "(\<And>s. ns_events (f s) = ns_events s) \<Longrightarrow> adds_calls c [] (hmod f)"
  by (simp add: adds_calls_def hmod_def)

lemma quiet_hthen [quiet]: "adds_calls c [] h \<Longrightarrow> adds_calls c [] k \<Longrightarrow> adds_calls c [] (hthen h k)"
  by (simp add: adds_calls_def hthen_def split: prod.split option.split) (metis snd_conv)

lemma quiet_hget [quiet]: "(\<And>s. adds_calls c [] (h s)) \<Longrightarrow> adds_calls c [] (hget h)"
  by (simp add: adds_calls_def hget_def)

lemma quiet_hread [quiet]: "(\<And>a. adds_calls c [] (k a)) \<Longrightarrow> adds_calls c [] (hread r k)"
  by (simp add: adds_calls_def hread_def split: sum.split)

lemma quiet_if [quiet]: "adds_calls c [] h \<Longrightarrow> adds_calls c [] k \<Longrightarrow> adds_calls c [] (if b then h else k)"
  by simp

lemma quiet_hdone [quiet]: "adds_calls c [] hdone" by (simp add: adds_calls_def hdone_def)

lemmas session_defs = nc_ws_send_def nc_shard_reconnect_def nc_send_resume_def nc_opcode1_def nc_send_identity_def nc_opcode2_def
  nc_opcode3_def nc_update_presence_def nc_opcode4_def nc_opcode8_def nc_opcode9_def nc_after_invalid_def nc_hb_start_def
  nc_send_heartbeat_def nc_opcode10_def nc_opcode11_def nc_end_loop_def nc_on_read_error_def nc_identify_due_def

lemma quiet_session:
  "adds_calls c [] nc_shard_reconnect" "adds_calls c [] nc_opcode1" "adds_calls c [] (nc_send_identity c)"
  "adds_calls c [] (nc_update_presence st g)" "adds_calls c [] (nc_opcode4 i ch)" "adds_calls c [] (nc_opcode8 i)"
  "adds_calls c [] (nc_opcode9 d)" "adds_calls c [] (nc_after_invalid c d)" "adds_calls c [] nc_send_heartbeat"
  "adds_calls c [] (nc_opcode10 c d)" "adds_calls c [] nc_opcode11" "adds_calls c [] nc_end_loop"
  "adds_calls c [] (nc_on_read_error code)" "adds_calls c [] (nc_identify_due j)"
  by (unfold session_defs, (intro quiet; simp)+)

lemma one_call_dispatch: "one_call c (nc_opcode0 c e ename n)"
  using told_by_event_alone [of c ename e] unfolding one_call_def adds_calls_def by blast

lemma one_call_frame: "one_call c (nc_on_frame c f)"
  unfolding nc_on_frame_def nc_do_stuff_def
  by (auto intro!: one_call_hread one_call_dispatch one_call_quiet [OF quiet_session(1)] one_call_quiet [OF quiet_session(2)]
      one_call_quiet [OF quiet_session(7)] one_call_quiet [OF quiet_session(10)] one_call_quiet [OF quiet_session(11)]
      one_call_quiet [OF quiet_hdone])

text \<open>The calls a frame leads to.\<close>

definition nc_told :: "'j nc_client \<Rightarrow> 'j \<Rightarrow> (nc_callback \<times> nc_event) list" where
  "nc_told c f = ns_events (snd (nc_on_frame c f (nc_initial_shard (k_json c))))"

lemma adds_told: "adds_calls c (nc_told c f) (nc_on_frame c f)" "length (nc_told c f) \<le> 1"
  using one_call_frame [of c f] unfolding one_call_def nc_told_def adds_calls_def by (auto simp: nc_initial_shard_def)

lemma adds_loop_body: "adds_calls c xs h \<Longrightarrow> adds_calls c xs (nc_loop_body h)"
  using quiet_session(12) [of c]
  by (auto simp: adds_calls_def nc_loop_body_def nc_end_loop_def hmod_def split: prod.split option.split fault.split)
    (metis snd_conv)+

lemma addsD: "adds_calls c xs h \<Longrightarrow> h s = (r, t) \<Longrightarrow> ns_events t = ns_events s @ xs"
  unfolding adds_calls_def by (metis snd_conv)

text \<open>C39: In every run, what the client was told is what the frames that were read say, frame by frame and in order: a frame leads to
  at most one call, which depends on nothing but the frame. Failed reads, heartbeats, sessions that end, identifications and
  what the client asks for lead to none.\<close>
theorem nc_frames_told:
  assumes "nc_run c fs s"
  shows "ns_events s = concat (map (nc_told c) fs) \<and> length (ns_events s) \<le> length fs"
proof -
  have "ns_events s = concat (map (nc_told c) fs)"
    using assms
  proof (induction rule: nc_run.induct)
    case Initial
    then show ?case by (simp add: nc_initial_shard_def)
  next
    case (Frame fs s f t)
    then show ?case using addsD [OF adds_loop_body [OF adds_told(1)] Frame(3)] by simp
  next
    case (Heartbeat fs s t)
    then show ?case using addsD [OF quiet_session(9) Heartbeat(3)] by simp
  next
    case (Invalid fs s ds d ds' r t)
    then show ?case using addsD [OF quiet_session(8) Invalid(3)] by simp
  qed (auto dest: addsD [OF quiet_session(13)] addsD [OF quiet_session(12)] addsD [OF quiet_session(14)]
      addsD [OF quiet_session(3)] addsD [OF quiet_session(4)] addsD [OF quiet_session(6)] addsD [OF quiet_session(5)])
  moreover have "length (concat (map (nc_told c) fs)) \<le> length fs"
  proof (induction fs)
    case (Cons f fs)
    then show ?case using adds_told(2) [of c f] by simp
  qed simp
  ultimately show ?thesis by simp
qed

section \<open>A concrete run\<close>

text \<open>The gateway says hello, and a role is deleted.\<close>

definition greeted :: "js nc_shard" where
  "greeted = snd (nc_loop_body (nc_on_frame nc_sample hello_frame) (nc_initial_shard js_api))"

definition role_frame :: js where
  "role_frame = frame ''GUILD_ROLE_DELETE'' 5 role_deleted_event"

definition role_gone :: "js nc_shard" where
  "role_gone = snd (nc_loop_body (nc_on_frame nc_sample role_frame) greeted)"

lemma greeted_ok: "fst (nc_loop_body (nc_on_frame nc_sample hello_frame) (nc_initial_shard js_api)) = None" "ns_reading greeted"
  by code_simp+

lemma role_gone_ok: "fst (nc_loop_body (nc_on_frame nc_sample role_frame) greeted) = None"
  by code_simp

lemma role_gone_told: "map (map fst) (map (nc_told nc_sample) [hello_frame, role_frame]) = [[], [Cb_role_delete]]"
  by code_simp

lemma nc_sample_run: "nc_run nc_sample [hello_frame, role_frame] role_gone"
proof -
  have "nc_run nc_sample [hello_frame] greeted"
    using nc_run.Frame [OF nc_run.Initial, of nc_sample hello_frame greeted] greeted_ok
    by (simp add: nc_initial_shard_def nc_sample_def prod_eq_iff greeted_def)
  from nc_run.Frame [OF this greeted_ok(2), of role_frame role_gone] role_gone_ok
  show ?thesis by (simp add: prod_eq_iff role_gone_def)
qed

theorem nc_frames_told_witness: "map fst (ns_events role_gone) = [Cb_role_delete]"
  using conjunct1 [OF nc_frames_told [OF nc_sample_run]] role_gone_told by (simp add: map_concat)

end
