(* ===== verification/Nc_Client.thy ===== *)
theory Nc_Client
  imports Client
begin

text \<open>
  The client of the library without a cache (\<open>no_cache/client.h\<close>, \<open>no_cache/client.cpp\<close>): the answer of the gateway, its shards,
  and the turns in which they identify. Every hello asks for a turn and every identification is reported; the answer to an invalid
  session takes a time of its own. Times are milliseconds.
\<close>

section \<open>The gateway\<close>

definition nc_set_token :: "string \<Rightarrow> token_type \<Rightarrow> client \<Rightarrow> client" where
  "nc_set_token token type c =
     (case type of
        BOT \<Rightarrow> c\<lparr>cl_token := token, cl_auth_token := ''Bot '' @ token\<rparr>
      | BEARER \<Rightarrow> c\<lparr>cl_token := token, cl_auth_token := ''Bearer '' @ token\<rparr>)"

text \<open>Here the allowed concurrency is not read.\<close>

definition nc_get_gateway :: "'j json_api \<Rightarrow> int \<Rightarrow> 'j \<Rightarrow> client \<Rightarrow> client res" where
  "nc_get_gateway J status yay c =
     (if status = 401 then Inl Throws
      else rbind (rbind (at_mut J yay ''url'') (as_str J)) (\<lambda>url.
        let c = c\<lparr>cl_gateway := url @ ''/?v=8&encoding=json''\<rparr> in
        if cl_num_shards c = 0
        then rmap (\<lambda>n. c\<lparr>cl_num_shards := word_of_int n\<rparr>) (rbind (at_mut J yay ''shards'') (as_int J))
        else Inr c))"

definition nc_make_shards :: "client \<Rightarrow> nat list" where
  "nc_make_shards c = [0 ..< unat (cl_num_shards c)]"

text \<open>A global limit: only the time of it is kept, the loop that tells the shards is commented out.\<close>

definition nc_rate_limit_global :: "bool \<Rightarrow> int \<Rightarrow> int \<Rightarrow> int" where
  "nc_rate_limit_global locked now last_limit = (if \<not> locked \<and> last_limit - now < 3000 then now else last_limit)"

section \<open>Turns\<close>

text \<open>
  \<open>nt_timers\<close> are the timers that give a shard its turn, \<open>nt_identifying\<close> is the shard whose turn it is until it reports,
  \<open>nt_answers\<close> are the timers of the answers to invalid sessions. \<open>nt_done\<close> and \<open>nt_answered\<close> record the identifications
  that were started, with their times.
\<close>

record turns =
  nt_last_identify :: int
  nt_no_one :: bool
  nt_stack :: "nat list"
  nt_timers :: "(nat \<times> int) list"
  nt_identifying :: "nat option"
  nt_answers :: "(nat \<times> int) list"
  nt_done :: "(nat \<times> int) list"
  nt_answered :: "(nat \<times> int) list"

definition new_turns :: "int \<Rightarrow> turns" where
  "new_turns now = \<lparr>nt_last_identify = now - 6000, nt_no_one = True, nt_stack = [], nt_timers = [], nt_identifying = None,
     nt_answers = [], nt_done = [], nt_answered = []\<rparr>"

definition nc_queue_to_identify :: "nat \<Rightarrow> turns \<Rightarrow> turns" where
  "nc_queue_to_identify s q =
     (if nt_no_one q
      then q\<lparr>nt_no_one := False, nt_timers := nt_timers q @ [(s, nt_last_identify q + 5000)]\<rparr>
      else q\<lparr>nt_stack := nt_stack q @ [s]\<rparr>)"

definition nc_notify_identified :: "int \<Rightarrow> turns \<Rightarrow> turns" where
  "nc_notify_identified now q =
     (let q = q\<lparr>nt_last_identify := now, nt_identifying := None\<rparr> in
      if nt_stack q \<noteq> []
      then q\<lparr>nt_stack := butlast (nt_stack q), nt_timers := nt_timers q @ [(last (nt_stack q), now + 5000)]\<rparr>
      else q\<lparr>nt_no_one := True\<rparr>)"

definition nc_turn :: "nat \<Rightarrow> int \<Rightarrow> int \<Rightarrow> turns \<Rightarrow> turns" where
  "nc_turn s t now q =
     q\<lparr>nt_timers := remove1 (s, t) (nt_timers q), nt_identifying := Some s, nt_done := nt_done q @ [(s, now)]\<rparr>"

text \<open>\<open>get_time_point_for_identifying\<close>, which \<open>m_send_identity\<close> asks for the time of its timer.\<close>

definition get_time_point_for_identifying :: "int \<Rightarrow> turns \<Rightarrow> int \<times> turns" where
  "get_time_point_for_identifying now q =
     (let t = max now (nt_last_identify q + 5100) in (t, q\<lparr>nt_last_identify := t\<rparr>))"

definition nc_answer :: "nat \<Rightarrow> int \<Rightarrow> turns \<Rightarrow> turns" where
  "nc_answer s now q = (let (t, q) = get_time_point_for_identifying now q in q\<lparr>nt_answers := nt_answers q @ [(s, t)]\<rparr>)"

definition nc_answer_timer :: "nat \<Rightarrow> int \<Rightarrow> int \<Rightarrow> turns \<Rightarrow> turns" where
  "nc_answer_timer s t now q = q\<lparr>nt_answers := remove1 (s, t) (nt_answers q), nt_answered := nt_answered q @ [(s, now)]\<rparr>"

text \<open>A run, with the shards that asked for a turn, those that answered, and the clock.\<close>

inductive nc_turns_run :: "nat list \<Rightarrow> nat list \<Rightarrow> int \<Rightarrow> turns \<Rightarrow> bool" where
  New: "nc_turns_run [] [] now (new_turns now)"
| Tick: "nc_turns_run ss as now q \<Longrightarrow> now \<le> now' \<Longrightarrow> nc_turns_run ss as now' q"
| Queue: "nc_turns_run ss as now q \<Longrightarrow> nc_turns_run (ss @ [s]) as now (nc_queue_to_identify s q)"
| Turn: "nc_turns_run ss as now q \<Longrightarrow> (s, t) \<in> set (nt_timers q) \<Longrightarrow> t \<le> now \<Longrightarrow> nc_turns_run ss as now (nc_turn s t now q)"
| Notify: "nc_turns_run ss as now q \<Longrightarrow> nt_identifying q = Some s \<Longrightarrow> nc_turns_run ss as now (nc_notify_identified now q)"
| Answer: "nc_turns_run ss as now q \<Longrightarrow> nc_turns_run ss (as @ [s]) now (nc_answer s now q)"
| Answered: "nc_turns_run ss as now q \<Longrightarrow> (s, t) \<in> set (nt_answers q) \<Longrightarrow> t \<le> now
    \<Longrightarrow> nc_turns_run ss as now (nc_answer_timer s t now q)"

section \<open>What the turns promise\<close>

definition turns_inv :: "int \<Rightarrow> turns \<Rightarrow> bool" where
  "turns_inv now q \<longleftrightarrow>
     (if nt_no_one q then nt_timers q = [] \<and> nt_stack q = [] \<and> nt_identifying q = None
      else (\<exists>s t. nt_timers q = [(s, t)] \<and> nt_identifying q = None) \<or> (nt_timers q = [] \<and> nt_identifying q \<noteq> None))
     \<and> successively (\<lambda>a b. a + 5000 \<le> b) (map snd (nt_done q))
     \<and> (nt_done q \<noteq> [] \<longrightarrow> snd (last (nt_done q)) \<le> now
          \<and> (nt_no_one q \<longrightarrow> snd (last (nt_done q)) \<le> nt_last_identify q)
          \<and> (\<forall>(s, t) \<in> set (nt_timers q). snd (last (nt_done q)) + 5000 \<le> t))"

definition turn_shards :: "turns \<Rightarrow> nat multiset" where
  "turn_shards q = mset (nt_stack q) + mset (map fst (nt_timers q)) + mset (map fst (nt_done q))"

definition answer_shards :: "turns \<Rightarrow> nat multiset" where
  "answer_shards q = mset (map fst (nt_answers q)) + mset (map fst (nt_answered q))"

lemma answer_timer_keeps:
  "turns_inv now (nc_answer_timer s t now q) = turns_inv now q" "turn_shards (nc_answer_timer s t now q) = turn_shards q"
  "(s, t) \<in> set (nt_answers q) \<Longrightarrow> answer_shards (nc_answer_timer s t now q) = answer_shards q"
proof -
  show "turns_inv now (nc_answer_timer s t now q) = turns_inv now q" "turn_shards (nc_answer_timer s t now q) = turn_shards q"
    by (simp_all add: turns_inv_def turn_shards_def nc_answer_timer_def)
  assume "(s, t) \<in> set (nt_answers q)"
  then have "mset (nt_answers q) = add_mset (s, t) (mset (remove1 (s, t) (nt_answers q)))" by simp
  then have "image_mset fst (mset (nt_answers q)) = add_mset s (image_mset fst (mset (remove1 (s, t) (nt_answers q))))"
    by (metis fst_conv image_mset_add_mset)
  then show "answer_shards (nc_answer_timer s t now q) = answer_shards q"
    by (simp add: answer_shards_def nc_answer_timer_def)
qed

lemma turns_run_inv: "nc_turns_run ss as now q \<Longrightarrow> turns_inv now q \<and> turn_shards q = mset ss \<and> answer_shards q = mset as"
proof (induction rule: nc_turns_run.induct)
  case (Turn ss as now q s t)
  then have "nt_timers q = [(s, t)]" by (auto simp: turns_inv_def split: if_splits)
  with Turn show ?case
    by (cases "nt_done q = []")
      (auto simp: turns_inv_def turn_shards_def answer_shards_def nc_turn_def successively_append_iff last_map split: if_splits)
next
  case (Notify ss as now q s)
  then have "nt_timers q = []" "\<not> nt_no_one q" by (auto simp: turns_inv_def split: if_splits)
  with Notify show ?case
    by (cases "nt_stack q" rule: rev_cases)
      (auto simp: turns_inv_def turn_shards_def answer_shards_def nc_notify_identified_def Let_def)
next
  case (Answer ss as now q s)
  then show ?case
    by (auto simp: turns_inv_def turn_shards_def answer_shards_def nc_answer_def get_time_point_for_identifying_def Let_def
        split: if_splits)
next
  case (Answered ss as now q s t)
  then show ?case by (simp add: answer_timer_keeps)
qed (auto simp: turns_inv_def turn_shards_def answer_shards_def new_turns_def nc_queue_to_identify_def split: if_splits)


section \<open>A concrete run\<close>

text \<open>Shard 1 identifies at once and 2 waits; then the session of 3 is invalid. Its answer comes 100 milliseconds after the turn of 2.\<close>

definition one_identified :: turns where
  "one_identified = nc_notify_identified 0 (nc_turn 1 (- 1000) 0 (nc_queue_to_identify 2 (nc_queue_to_identify 1 (new_turns 0))))"

definition two_and_three :: turns where
  "two_and_three = nc_answer_timer 3 5100 5100 (nc_turn 2 5000 5000 (nc_answer 3 0 one_identified))"

lemmas turn_defs = one_identified_def two_and_three_def nc_notify_identified_def nc_turn_def nc_queue_to_identify_def new_turns_def
  nc_answer_def get_time_point_for_identifying_def nc_answer_timer_def

lemma one_identified_run: "nc_turns_run [1, 2] [] 0 one_identified"
proof -
  let ?q = "nc_queue_to_identify 2 (nc_queue_to_identify 1 (new_turns 0))"
  have "nc_turns_run [1, 2] [] 0 ?q"
    using nc_turns_run.Queue [OF nc_turns_run.Queue [OF nc_turns_run.New], of 1 2] by simp
  then have "nc_turns_run [1, 2] [] 0 (nc_turn 1 (- 1000) 0 ?q)"
    by (rule nc_turns_run.Turn) (simp_all add: turn_defs)
  then show ?thesis unfolding one_identified_def by (rule nc_turns_run.Notify) (simp add: turn_defs)
qed

lemma two_and_three_run: "nc_turns_run [1, 2] [3] 5100 two_and_three"
proof -
  let ?q = "nc_answer 3 0 one_identified"
  have "nc_turns_run [1, 2] [3] 0 ?q" using nc_turns_run.Answer [OF one_identified_run, of 3] by simp
  then have "nc_turns_run [1, 2] [3] 5000 ?q" by (rule nc_turns_run.Tick) simp
  then have "nc_turns_run [1, 2] [3] 5000 (nc_turn 2 5000 5000 ?q)" by (rule nc_turns_run.Turn) (simp_all add: turn_defs)
  then have "nc_turns_run [1, 2] [3] 5100 (nc_turn 2 5000 5000 ?q)" by (rule nc_turns_run.Tick) simp
  then show ?thesis unfolding two_and_three_def by (rule nc_turns_run.Answered) (simp_all add: turn_defs)
qed

text \<open>An answer to an invalid session and a turn are not 5 seconds apart, as the gateway demands.\<close>

lemma answer_too_early: "nc_turns_run [1, 2] [3] 5100 two_and_three \<and> nt_done two_and_three = [(1, 0), (2, 5000)]
    \<and> nt_answered two_and_three = [(3, 5100)]"
  using two_and_three_run by (simp add: turn_defs)


end
