(* ===== verification/Guild_Access.thy ===== *)
theory Guild_Access
  imports Shard_Keeps Json_Sample
begin

text \<open>
  What the user of the library asks of a guild (\<open>include/guild.h\<close>, \<open>src/guild.cpp\<close>), of a member (\<open>guild_member.h\<close>) and of a shard
  that is destroyed (\<open>~internal_shard\<close>). The guild's channels and members are reached through its pointer \<open>m_stuff\<close>; some functions ask
  first whether the guild is dead.
\<close>

section \<open>A guild\<close>

definition throw_if_dead :: "'j guild_and_stuff \<Rightarrow> unit res" where
  "throw_if_dead gs = (if g_is_dead (gs_guild gs) then Inl Throws else Inr ())"

text \<open>\<open>m_stuff->\<close>\<close>

definition guild_stuff :: "'j guild_and_stuff \<Rightarrow> 'j guild_and_stuff res" where
  "guild_stuff gs = (if g_stuff (gs_guild gs) then Inr gs else Inl Undef)"

definition live_stuff :: "'j guild_and_stuff \<Rightarrow> 'j guild_and_stuff res" where
  "live_stuff gs = rbind (throw_if_dead gs) (\<lambda>_. guild_stuff gs)"

definition map_at :: "('k \<rightharpoonup> 'v) \<Rightarrow> 'k \<Rightarrow> 'v res" where
  "map_at m k = (case m k of Some v \<Rightarrow> Inr v | None \<Rightarrow> Inl Throws)"

definition guild_members :: "'j guild_and_stuff \<Rightarrow> (snowflake \<rightharpoonup> guild_member) res" where
  "guild_members gs = rmap gs_members (guild_stuff gs)"

definition members_list :: "'j guild_and_stuff \<Rightarrow> guild_member set res" where
  "members_list gs = rmap (\<lambda>x. ran (gs_members x)) (live_stuff gs)"

definition guild_owner :: "'j guild_and_stuff \<Rightarrow> guild_member res" where
  "guild_owner gs = rbind (live_stuff gs) (\<lambda>x. map_at (gs_members x) (pg_owner_id (gs_guild gs)))"

definition my_member :: "'j guild_and_stuff \<Rightarrow> guild_member res" where
  "my_member gs = rbind (live_stuff gs) (\<lambda>x. map_at (gs_members x) (g_bot_id (gs_guild gs)))"

text \<open>The lists of channels are lazy: reading an element looks its id up.\<close>

definition text_channels_list :: "'j guild_and_stuff \<Rightarrow> text_channel res list res" where
  "text_channels_list gs = rmap (\<lambda>x. map (map_at (gs_text x)) (g_text_ids (gs_guild gs))) (live_stuff gs)"

definition voice_channels_list :: "'j guild_and_stuff \<Rightarrow> voice_channel res list res" where
  "voice_channels_list gs = rmap (\<lambda>x. map (map_at (gs_voice x)) (g_voice_ids (gs_guild gs))) (live_stuff gs)"

definition dereference :: "'v option res \<Rightarrow> 'v res" where
  "dereference r = rbind r (\<lambda>p. case p of Some v \<Rightarrow> Inr v | None \<Rightarrow> Inl Undef)"

definition channel_catagories_list :: "'j guild_and_stuff \<Rightarrow> guild_channel res list res" where
  "channel_catagories_list gs =
     rmap (\<lambda>x. map (\<lambda>i. dereference (map_at (gs_categories x) i)) (g_category_ids (gs_guild gs))) (live_stuff gs)"

definition text_channels :: "'j guild_and_stuff \<Rightarrow> (snowflake \<rightharpoonup> text_channel) res" where
  "text_channels gs = rmap gs_text (live_stuff gs)"

definition voice_channels :: "'j guild_and_stuff \<Rightarrow> (snowflake \<rightharpoonup> voice_channel) res" where
  "voice_channels gs = rmap gs_voice (live_stuff gs)"

definition afk_channel :: "'j guild_and_stuff \<Rightarrow> voice_channel option res" where
  "afk_channel gs =
     rbind (throw_if_dead gs) (\<lambda>_.
       if pg_afk_channel_id (gs_guild gs) \<noteq> no_id
       then rbind (guild_stuff gs) (\<lambda>x. rmap Some (map_at (gs_voice x) (pg_afk_channel_id (gs_guild gs))))
       else Inr None)"

definition system_channel :: "'j guild_and_stuff \<Rightarrow> text_channel res" where
  "system_channel gs = rbind (guild_stuff gs) (\<lambda>x. map_at (gs_text x) (pg_system_channel_id (gs_guild gs)))"

definition voice_channel_for :: "snowflake \<Rightarrow> 'j guild_and_stuff \<Rightarrow> voice_channel option res" where
  "voice_channel_for u gs =
     rbind (throw_if_dead gs) (\<lambda>_.
       case find (\<lambda>v. vs_user_id v = u) (g_voice_states (gs_guild gs)) of
         None \<Rightarrow> Inr None
       | Some v \<Rightarrow> rbind (guild_stuff gs) (\<lambda>x. rmap Some (map_at (gs_voice x) (vs_channel_id v))))"

definition activity_for :: "snowflake \<Rightarrow> 'j guild_and_stuff \<Rightarrow> activity list option" where
  "activity_for i gs = g_activities (gs_guild gs) i"

definition status_for :: "snowflake \<Rightarrow> 'j guild_and_stuff \<Rightarrow> status option" where
  "status_for i gs = g_status (gs_guild gs) i"

section \<open>A member's roles\<close>

definition roles_exclude_everyone :: "'j guild_and_stuff \<Rightarrow> guild_member \<Rightarrow> guild_role res list" where
  "roles_exclude_everyone gs m = map (map_at (pg_roles (gs_guild gs))) (gm_roles m)"

definition all_member_roles :: "'j guild_and_stuff \<Rightarrow> guild_member \<Rightarrow> guild_role res list" where
  "all_member_roles gs m = map (\<lambda>i. if i = length (gm_roles m) then map_at (pg_roles (gs_guild gs)) (pg_id (gs_guild gs))
     else map_at (pg_roles (gs_guild gs)) (gm_roles m ! i)) [0 ..< Suc (length (gm_roles m))]"

section \<open>The end of a shard\<close>

definition set_dead :: "'j guild \<Rightarrow> 'j guild" where
  "set_dead g = g\<lparr>g_is_dead := True\<rparr>"

definition destroy_shard :: "'j shard \<Rightarrow> 'j shard" where
  "destroy_shard s = s\<lparr>s_guilds := (\<lambda>i. map_option (\<lambda>gs. gs\<lparr>gs_guild := set_dead (gs_guild gs)\<rparr>) (s_guilds s i)),
     s_closed := s_closed s @ [4000], s_disconnected := True\<rparr>"

section \<open>What the user gets\<close>

lemma map_at_keyed: "keyed f m \<Longrightarrow> map_at m k = Inr v \<Longrightarrow> f v = k"
  by (auto simp: map_at_def keyed_def split: option.splits)

lemmas access_defs = guild_members_def members_list_def guild_owner_def my_member_def text_channels_list_def
  voice_channels_list_def channel_catagories_list_def text_channels_def voice_channels_def system_channel_def

lemma no_stuff:
  assumes "shard_ok s" "s_guilds s i = Some gs"
  shows "guild_stuff gs = Inl Undef" "live_stuff gs = (if g_is_dead (gs_guild gs) then Inl Throws else Inl Undef)"
  using shard_ok_guild [OF assms] by (simp_all add: guild_stuff_def live_stuff_def throw_if_dead_def gs_ok_def guild_ok_def)

text \<open>C8: What a guild answers in every state a shard reaches. Nothing sets the pointer to its channels and members: what asks for them
  has no defined result, or throws when the guild is dead. The afk channel and the channel of a member are answered as far as there
  is none. Activities and statuses are answered, and an element of the roles of a member is a role with the id that was asked for, or
  an exception.\<close>
theorem guild_access_fails:
  assumes "gw_reachable c s" "s_guilds s i = Some gs"
  defines "r \<equiv> if g_is_dead (gs_guild gs) then Throws else Undef"
  shows "members_list gs = Inl r \<and> guild_owner gs = Inl r \<and> my_member gs = Inl r \<and> text_channels gs = Inl r
    \<and> voice_channels gs = Inl r \<and> text_channels_list gs = Inl r \<and> voice_channels_list gs = Inl r
    \<and> channel_catagories_list gs = Inl r \<and> guild_members gs = Inl Undef \<and> system_channel gs = Inl Undef
    \<and> afk_channel gs = (if \<not> g_is_dead (gs_guild gs) \<and> pg_afk_channel_id (gs_guild gs) = no_id then Inr None else Inl r)
    \<and> voice_channel_for u gs = (if \<not> g_is_dead (gs_guild gs) \<and> u \<notin> vs_user_id ` set (g_voice_states (gs_guild gs)) then Inr None else Inl r)
    \<and> (k < length (gm_roles m) \<longrightarrow> roles_exclude_everyone gs m ! k = all_member_roles gs m ! k
        \<and> (\<forall>x. all_member_roles gs m ! k = Inr x \<longrightarrow> role_id x = gm_roles m ! k))"
proof -
  have ok: "shard_ok s" using assms(1) by (rule gw_reachable_ok)
  note none = no_stuff [OF ok assms(2)]
  have roles: "keyed role_id (pg_roles (gs_guild gs))" using shard_ok_guild [OF ok assms(2)] by (simp add: gs_ok_def guild_ok_def)
  have found: "find (\<lambda>v. vs_user_id v = u) (g_voice_states (gs_guild gs)) = None \<longleftrightarrow> u \<notin> vs_user_id ` set (g_voice_states (gs_guild gs))"
    by (auto simp: find_None_iff)
  have "voice_channel_for u gs = (if \<not> g_is_dead (gs_guild gs) \<and> u \<notin> vs_user_id ` set (g_voice_states (gs_guild gs)) then Inr None else Inl r)"
    using none(1) found by (auto simp: voice_channel_for_def throw_if_dead_def r_def split: option.splits)
  moreover have "k < length (gm_roles m) \<longrightarrow> roles_exclude_everyone gs m ! k = all_member_roles gs m ! k
      \<and> (\<forall>x. all_member_roles gs m ! k = Inr x \<longrightarrow> role_id x = gm_roles m ! k)"
    using map_at_keyed [OF roles] by (simp add: roles_exclude_everyone_def all_member_roles_def nth_append)
  ultimately show ?thesis
    using none by (simp add: access_defs afk_channel_def throw_if_dead_def r_def)
qed

text \<open>Once the shard is destroyed, every guild that the user still holds is dead.\<close>

lemma destroyed_throws:
  assumes "s_guilds (destroy_shard s) i = Some gs"
  shows "throw_if_dead gs = Inl Throws" "guild_owner gs = Inl Throws" "afk_channel gs = Inl Throws" "voice_channel_for u gs = Inl Throws"
  using assms
  by (auto simp: destroy_shard_def set_dead_def throw_if_dead_def guild_owner_def live_stuff_def afk_channel_def voice_channel_for_def)

section \<open>A concrete guild\<close>

lemma session_guild: "map_option (\<lambda>gs. g_is_dead (gs_guild gs)) (s_guilds session_state (Snowflake 30)) = Some False"
  by code_simp

theorem guild_access_fails_witness:
  "\<exists>gs. s_guilds session_state (Snowflake 30) = Some gs \<and> guild_owner gs = Inl Undef \<and> text_channels_list gs = Inl Undef"
proof -
  obtain gs where gs: "s_guilds session_state (Snowflake 30) = Some gs" "\<not> g_is_dead (gs_guild gs)"
    using session_guild by auto
  show ?thesis using guild_access_fails [OF session_state_reachable gs(1)] gs by simp
qed

end
