(* ===== verification/Text_Parsing.thy ===== *)
theory Text_Parsing
  imports Parsers
begin

text \<open>
  \<open>common/parsing_stuff.h\<close>, the parsers of the addresses of web sockets: an older copy of the parsers of \<open>command_parser/\<close>, with the same
  results (\<open>parse_result\<close>) and a few differences, which \<open>two_parser_libraries\<close> states. A parser that runs past its text does not occur
  here: only what it is built from can have no result.
\<close>

section \<open>Results\<close>

text \<open>The conversion to a result of another type keeps the alternative; a propagated failure keeps a reason only.\<close>

fun tp_convert :: "('a \<Rightarrow> 'b) \<Rightarrow> 'a parse_result \<Rightarrow> 'b parse_result" where
  "tp_convert f (Parsed v r) = Parsed (f v) r"
| "tp_convert f (Fail_reason x) = Fail_reason x"
| "tp_convert f Fail_no_reason = Fail_no_reason"
| "tp_convert f Monostate = Monostate"

fun tp_propagate :: "'a parse_result \<Rightarrow> 'b parse_result" where
  "tp_propagate (Fail_reason x) = Fail_reason x"
| "tp_propagate _ = Fail_no_reason"

section \<open>Combinators\<close>

fun tp_try_multiple :: "string \<Rightarrow> 'a parser \<Rightarrow> 'a parser list \<Rightarrow> 'a parse_result option" where
  "tp_try_multiple s p [] = p s"
| "tp_try_multiple s p (q # ps) = Option.bind (p s) (\<lambda>r. if success r then Some r else tp_try_multiple s q ps)"

text \<open>A tuple of one type is a list. Failures lose their reason.\<close>

fun tp_multi_consecutive :: "string \<Rightarrow> 'a parser \<Rightarrow> 'a parser list \<Rightarrow> 'a list parse_result option" where
  "tp_multi_consecutive s p [] = map_option (\<lambda>t. case t of Parsed v r \<Rightarrow> Parsed [v] r | _ \<Rightarrow> Fail_no_reason) (p s)"
| "tp_multi_consecutive s p (q # ps) =
     Option.bind (p s) (\<lambda>t. case t of
       Parsed v r \<Rightarrow> map_option (\<lambda>y. case y of Parsed vs r' \<Rightarrow> Parsed (v # vs) r' | _ \<Rightarrow> Fail_no_reason) (tp_multi_consecutive r q ps)
     | _ \<Rightarrow> Some Fail_no_reason)"

definition tp_consecutive_and_join :: "'a parser \<Rightarrow> 'b parser \<Rightarrow> ('a \<Rightarrow> 'b \<Rightarrow> 'c) \<Rightarrow> 'c parser" where
  "tp_consecutive_and_join p q f s =
     Option.bind (p s) (\<lambda>t. case t of
       Parsed v r \<Rightarrow> map_option (\<lambda>o2. case o2 of Parsed w r' \<Rightarrow> Parsed (f v w) r' | _ \<Rightarrow> Fail_no_reason) (q r)
     | _ \<Rightarrow> Some Fail_no_reason)"

text \<open>\<open>multi_parser\<close> and \<open>consecutive_parser\<close> are these with their arguments stored; \<open>ignore_left\<close> and \<open>ignore_right\<close> are joins.\<close>

definition tp_multi_parser :: "'a parser \<Rightarrow> 'a parser list \<Rightarrow> 'a parser" where
  "tp_multi_parser p ps s = tp_try_multiple s p ps"

definition tp_consecutive_parser :: "'a parser \<Rightarrow> 'b parser \<Rightarrow> ('a \<Rightarrow> 'b \<Rightarrow> 'c) \<Rightarrow> 'c parser" where
  "tp_consecutive_parser p q f s = tp_consecutive_and_join p q f s"

definition ignore_left :: "'a \<Rightarrow> 'b \<Rightarrow> 'b" where "ignore_left a b = b"

definition ignore_right :: "'a \<Rightarrow> 'b \<Rightarrow> 'a" where "ignore_right a b = a"

definition tp_optional :: "'a parser \<Rightarrow> 'a option parser" where
  "tp_optional p s = map_option (\<lambda>t. case t of Parsed v r \<Rightarrow> Parsed (Some v) r | _ \<Rightarrow> Parsed None s) (p s)"

text \<open>\<open>parse_first_of\<close>: the index of the parser that succeeds and its value.\<close>

fun tp_first_of_impl :: "string \<Rightarrow> nat \<Rightarrow> 'v parser \<Rightarrow> 'v parser list \<Rightarrow> (nat \<times> 'v) parse_result option" where
  "tp_first_of_impl s idx p ps =
     Option.bind (p s) (\<lambda>r. case r of
       Parsed v rest \<Rightarrow> Some (Parsed (idx, v) rest)
     | _ \<Rightarrow> (case ps of [] \<Rightarrow> Some Fail_no_reason | q # qs \<Rightarrow> tp_first_of_impl s (Suc idx) q qs))"

definition tp_first_of :: "string \<Rightarrow> 'v parser \<Rightarrow> 'v parser list \<Rightarrow> (nat \<times> 'v) parse_result option" where
  "tp_first_of s p ps = tp_first_of_impl s 0 p ps"

section \<open>Characters and strings\<close>

definition tp_is_whitespace :: "char \<Rightarrow> bool" where
  "tp_is_whitespace c = (code_of c = 32 \<or> code_of c = 10 \<or> code_of c = 9 \<or> code_of c = 11 \<or> code_of c = 12 \<or> code_of c = 13)"

definition tp_is_alpha :: "char \<Rightarrow> bool" where
  "tp_is_alpha c = (code_of c \<ge> 65 \<and> code_of c \<le> 90 \<or> code_of c \<ge> 97 \<and> code_of c \<le> 122)"

definition tp_is_numeric :: "char \<Rightarrow> bool" where
  "tp_is_numeric c = (code_of c \<ge> 48 \<and> code_of c \<le> 57)"

definition tp_whitespace :: "nat parser" where
  "tp_whitespace s = (let n = find_index (\<lambda>c. \<not> tp_is_whitespace c) s in Some (Parsed n (drop n s)))"

definition tp_char :: "bool \<Rightarrow> char \<Rightarrow> bool parser" where
  "tp_char fail_on_fail c s =
     (case s of [] \<Rightarrow> Some Fail_no_reason
      | x # xs \<Rightarrow> if x = c then Some (Parsed True xs) else if fail_on_fail then Some Fail_no_reason else Some (Parsed False s))"

definition tp_run :: "(char \<Rightarrow> bool) \<Rightarrow> string parser" where
  "tp_run pred s = (let n = find_index (\<lambda>c. \<not> pred c) s in Some (Parsed (take n s) (drop n s)))"

definition tp_alpha_word :: "string parser" where "tp_alpha_word = tp_run tp_is_alpha"

definition tp_alpha_numeric_word :: "string parser" where
  "tp_alpha_numeric_word = tp_run (\<lambda>c. tp_is_alpha c \<or> tp_is_numeric c)"

definition tp_run1 :: "(char \<Rightarrow> bool) \<Rightarrow> string parser" where
  "tp_run1 f s = (let n = find_index (\<lambda>c. \<not> f c) s in if n = 0 then Some Fail_no_reason else Some (Parsed (take n s) (drop n s)))"

definition tp_until :: "(char \<Rightarrow> bool) \<Rightarrow> string parser" where
  "tp_until f s = (let n = find_index f s in Some (Parsed (take n s) (drop n s)))"

definition tp_upto_n :: "nat \<Rightarrow> string parser" where
  "tp_upto_n n s = (if length s \<ge> n then Some (Parsed (take n s) (drop n s)) else Some (Parsed s []))"

definition tp_str :: "bool \<Rightarrow> string \<Rightarrow> bool parser" where
  "tp_str fail_on_fail str data =
     (if length data < length str \<or> take (length str) data \<noteq> str
      then if fail_on_fail then Some Fail_no_reason else Some (Parsed False data)
      else Some (Parsed True (drop (length str) data)))"

text \<open>\<open>ci_equal\<close> compares up to the first difference of the upper case; both ends must be reached. The second text is not shorter.\<close>

fun tp_mismatch :: "string \<Rightarrow> string \<Rightarrow> string \<times> string" where
  "tp_mismatch (a # as) (b # bs) = (if to_upper a = to_upper b then tp_mismatch as bs else (a # as, b # bs))"
| "tp_mismatch as bs = (as, bs)"

definition tp_ci_str :: "bool \<Rightarrow> string \<Rightarrow> bool parser" where
  "tp_ci_str fail_on_fail str data =
     (if length data < length str \<or> tp_mismatch (take (length str) data) str \<noteq> ([], [])
      then if fail_on_fail then Some Fail_no_reason else Some (Parsed False data)
      else Some (Parsed True (drop (length str) data)))"

definition tp_quote :: "char parser" where
  "tp_quote s = (case s of [] \<Rightarrow> Some Fail_no_reason
     | c # cs \<Rightarrow> if c = CHR 0x22 \<or> c = CHR 0x27 then Some (Parsed c cs) else Some Fail_no_reason)"

text \<open>The loop over the index \<open>i\<close>: the position before the closing quote. Behind a backslash a character is skipped, be it there or not.\<close>

function tp_quote_scan :: "char \<Rightarrow> string \<Rightarrow> nat \<Rightarrow> nat option" where
  "tp_quote_scan q s i =
     (if i < length s then
        if s ! i = q then Some (i - 1)
        else if s ! i = CHR 0x5C then tp_quote_scan q s (i + 2)
        else tp_quote_scan q s (i + 1)
      else None)"
  by pat_completeness auto
termination by (relation "measure (\<lambda>(q, s, i). length s - i)") auto

declare tp_quote_scan.simps [simp del]

definition tp_quote_string :: "string parser" where
  "tp_quote_string s =
     (if s = [] \<or> (hd s \<noteq> CHR 0x22 \<and> hd s \<noteq> CHR 0x27) then Some Fail_no_reason
      else case tp_quote_scan (hd s) s 1 of
        None \<Rightarrow> Some Fail_no_reason
      | Some n \<Rightarrow> Some (Parsed (take n (drop 1 s)) (drop (n + 2) s)))"

section \<open>The two libraries\<close>

lemma find_index_takeWhile: "find_index (\<lambda>c. \<not> f c) s = length (takeWhile f s)"
  by (induction s) (auto simp: find_index_def)

lemma tp_quote_scan_end: "length s \<le> i \<Longrightarrow> tp_quote_scan q s i = None"
  by (simp add: tp_quote_scan.simps)

lemma tp_quote_scan_at:
  "tp_quote_scan q (xs @ c # cs) (length xs) =
     (if c = q then Some (length xs - 1)
      else if c = CHR 0x5C then tp_quote_scan q (xs @ c # cs) (length xs + 2)
      else tp_quote_scan q (xs @ c # cs) (length xs + 1))"
  by (subst tp_quote_scan.simps) simp

lemma quote_scan_index:
  "tp_quote_scan q (xs @ s) (length xs) = (case quote_scan q s of Some (Some n) \<Rightarrow> Some (length xs + n - 1) | _ \<Rightarrow> None)"
proof (induction q s arbitrary: xs rule: quote_scan.induct)
  case (1 q)
  then show ?case by (simp add: tp_quote_scan_end)
next
  case (2 q c cs)
  show ?case
  proof (cases "c \<noteq> q \<and> c = CHR 0x5C")
    case True
    show ?thesis
    proof (cases cs)
      case Nil
      then show ?thesis using True by (simp add: tp_quote_scan_at tp_quote_scan_end)
    next
      case (Cons d ds)
      have "tp_quote_scan q (xs @ c # d # ds) (length xs + 2) = (case quote_scan q ds of Some (Some n) \<Rightarrow> Some (length xs + 2 + n - 1) | _ \<Rightarrow> None)"
        using "2.IH"(1) [of d ds "xs @ [c, d]"] True Cons by (auto split: option.splits)
      then show ?thesis using True Cons
        by (simp add: tp_quote_scan_at split: option.split)
    qed
  next
    case False
    have "c \<noteq> q \<Longrightarrow> tp_quote_scan q (xs @ c # cs) (length xs + 1) = (case quote_scan q cs of Some (Some n) \<Rightarrow> Some (length xs + 1 + n - 1) | _ \<Rightarrow> None)"
      using "2.IH"(2) [of "xs @ [c]"] False by (auto split: option.splits)
    then show ?thesis using False by (auto simp: tp_quote_scan_at split: option.split)
  qed
qed

lemma mismatch_ci: "length a = length b \<Longrightarrow> tp_mismatch a b = ([], []) \<longleftrightarrow> map to_upper a = map to_upper b"
  by (induction a b rule: tp_mismatch.induct) auto

lemma try_multiple_first_of:
  "tp_try_multiple s p ps =
     (case tp_first_of_impl s i p ps of Some (Parsed (_, v) r) \<Rightarrow> Some (Parsed v r) | _ \<Rightarrow> tp_try_multiple s p ps)"
proof (induction ps arbitrary: i p)
  case Nil
  then show ?case by (auto split: option.splits parse_result.splits bind_split)
next
  case (Cons q ps)
  show ?case
  proof (cases "p s")
    case (Some r)
    then show ?thesis using Cons [of q "Suc i"] by (cases r) (auto split: option.splits parse_result.splits)
  qed simp
qed

lemmas tp_defs = tp_whitespace_def tp_char_def tp_run_def tp_run1_def tp_until_def tp_upto_n_def tp_str_def tp_ci_str_def
  tp_quote_def tp_alpha_word_def tp_alpha_numeric_word_def tp_quote_string_def

text \<open>C22: The parsers of \<open>common/\<close> are those of \<open>command_parser/\<close> but for this: a word may be empty, a string is answered with a truth value,
  and where the other parser of quotations reads past the end of a text that ends with a backslash, this one fails.\<close>
theorem two_parser_libraries:
  "tp_whitespace s = whitespace_parser s \<and> tp_char b c s = char_parser b c s \<and> tp_quote s = quote_parser s
   \<and> tp_until f s = parse_until f s \<and> tp_upto_n n s = upto_n_parser n s \<and> tp_run f s = predicate_parser f s
   \<and> tp_run1 f s = predicate_at_least_1_parser f s \<and> tp_ci_str b str s = ci_str_parser b str s
   \<and> tp_str b str s = map_option (tp_convert (\<lambda>v. starts_with s str)) (str_parser b str s)
   \<and> (if s \<noteq> [] \<and> is_alpha_char (hd s) then tp_alpha_word s = alpha_word_parser s
      else alpha_word_parser s = Some Fail_no_reason \<and> tp_alpha_word s = Some (Parsed [] s))
   \<and> tp_quote_string s = (case quote_string_parser s of None \<Rightarrow> Some Fail_no_reason | Some r \<Rightarrow> Some r)"
proof -
  have alpha: "tp_is_alpha = is_alpha_char" by (auto simp: fun_eq_iff tp_is_alpha_def is_alpha_char_def)
  have white: "tp_is_whitespace = is_whitespace_char"
    by (auto simp: fun_eq_iff tp_is_whitespace_def is_whitespace_char_def code_of_def)
  have "tp_quote_string s = (case quote_string_parser s of None \<Rightarrow> Some Fail_no_reason | Some r \<Rightarrow> Some r)"
  proof (cases s)
    case (Cons q cs)
    show ?thesis using quote_scan_index [of q "[q]" cs] Cons
      by (auto simp: tp_quote_string_def quote_string_parser_def split: option.splits)
  qed (simp add: tp_quote_string_def quote_string_parser_def)
  moreover have "tp_ci_str b str s = ci_str_parser b str s"
    by (auto simp: tp_ci_str_def ci_str_parser_def ci_equal_def mismatch_ci)
  moreover have "tp_str b str s = map_option (tp_convert (\<lambda>v. starts_with s str)) (str_parser b str s)"
    by (auto simp: tp_str_def str_parser_def starts_with_def)
  moreover have "if s \<noteq> [] \<and> is_alpha_char (hd s) then tp_alpha_word s = alpha_word_parser s
      else alpha_word_parser s = Some Fail_no_reason \<and> tp_alpha_word s = Some (Parsed [] s)"
    by (cases s) (auto simp: tp_alpha_word_def tp_run_def alpha_word_parser_def find_index_takeWhile alpha)
  moreover have "tp_whitespace s = whitespace_parser s"
    by (simp add: tp_whitespace_def whitespace_parser_def find_index_takeWhile white)
  moreover have "tp_char b c s = char_parser b c s" "tp_quote s = quote_parser s"
    by (auto simp: tp_char_def char_parser_def tp_quote_def quote_parser_def split: list.splits)
  moreover have "tp_until f s = parse_until f s" "tp_upto_n n s = upto_n_parser n s" "tp_run f s = predicate_parser f s"
      "tp_run1 f s = predicate_at_least_1_parser f s"
    by (simp_all add: tp_until_def parse_until_def tp_upto_n_def upto_n_parser_def tp_run_def predicate_parser_def
        tp_run1_def predicate_at_least_1_parser_def find_index_takeWhile)
  ultimately show ?thesis by simp
qed

text \<open>An address's parser and the parser of options never look behind their text; the optional flag of \<open>char_parser\<close> does not help on
  an empty text.\<close>

lemma tp_char_empty: "tp_char False c [] = Some Fail_no_reason" "tp_str False [c] [] = Some (Parsed False [])"
  by (simp_all add: tp_char_def tp_str_def)

end
