(* ===== verification/Ref_Count.thy ===== *)
theory Ref_Count
  imports Prelude
begin

text \<open>
  \<open>common/ref_count_ptr.h\<close>: objects that count the pointers to them, and the pointer that does it. The count is atomic and the pointers of
  several threads share objects, so an operation is a sequence of atomic steps, which those of other pointers may come between: setting the
  pointer, increasing the count, decreasing it, deleting the object. An object is a number that is not used again, and so is
  a pointer. What C++ asks of the threads is in the guards: a pointer that one thread writes is not used by another.
  The count, an \<open>int\<close> in the source, is unbounded. \<open>ref_counted_thread_unsafe\<close> has the same steps without other threads between them.
\<close>

section \<open>States and steps\<close>

datatype rc_phase = Steady | Counting | Deleting

text \<open>\<open>rc_copies\<close> are the constructions \<open>(p, q)\<close> of \<open>p\<close> from \<open>q\<close> that have read the pointer and not increased the count.\<close>

record rc_state =
  rc_count :: "nat \<Rightarrow> int"
  rc_live :: "nat list"
  rc_dead :: "nat list"
  rc_ptr :: "nat \<Rightarrow> nat option"
  rc_phase :: "nat \<Rightarrow> rc_phase"
  rc_copies :: "(nat \<times> nat) list"

definition rc_empty :: rc_state where
  "rc_empty = \<lparr>rc_count = (\<lambda>_. 0), rc_live = [], rc_dead = [], rc_ptr = (\<lambda>_. None), rc_phase = (\<lambda>_. Steady), rc_copies = []\<rparr>"

datatype rc_action = Make nat nat | Copy nat nat | Count nat | Move nat nat | Swap nat nat | Release nat | Delete nat

text \<open>A pointer that may be written, and one that may be constructed.\<close>

definition rc_writable :: "nat \<Rightarrow> rc_state \<Rightarrow> bool" where
  "rc_writable p s \<longleftrightarrow> rc_phase s p = Steady \<and> p \<notin> snd ` set (rc_copies s)"

definition rc_unused :: "nat \<Rightarrow> rc_state \<Rightarrow> bool" where
  "rc_unused p s \<longleftrightarrow> rc_writable p s \<and> rc_ptr s p = None"

text \<open>\<open>increment_ref_count\<close>, and \<open>decrement_ref_count\<close> with its answer.\<close>

definition increment_ref_count :: "nat \<Rightarrow> rc_state \<Rightarrow> rc_state" where
  "increment_ref_count a s = s\<lparr>rc_count := (rc_count s)(a := rc_count s a + 1)\<rparr>"

definition decrement_ref_count :: "nat \<Rightarrow> rc_state \<Rightarrow> bool \<times> rc_state" where
  "decrement_ref_count a s = (rc_count s a = 1, s\<lparr>rc_count := (rc_count s)(a := rc_count s a - 1)\<rparr>)"

definition rc_set :: "nat \<Rightarrow> nat option \<Rightarrow> rc_phase \<Rightarrow> rc_state \<Rightarrow> rc_state" where
  "rc_set p x ph s = s\<lparr>rc_ptr := (rc_ptr s)(p := x), rc_phase := (rc_phase s)(p := ph)\<rparr>"

text \<open>\<open>make_ref_count_ptr\<close> allocates an object whose count is 0 and constructs a pointer from its address.\<close>

definition rc_make :: "nat \<Rightarrow> nat \<Rightarrow> rc_state \<Rightarrow> rc_state" where
  "rc_make p a s = rc_set p (Some a) Counting (s\<lparr>rc_live := rc_live s @ [a], rc_count := (rc_count s)(a := 0)\<rparr>)"

text \<open>The constructors from a pointer, of the same or another type, or from what its \<open>get()\<close> gave.\<close>

definition rc_copy :: "nat \<Rightarrow> nat \<Rightarrow> rc_state \<Rightarrow> rc_state" where
  "rc_copy p q s = (if rc_ptr s q = None then s else rc_set p (rc_ptr s q) Counting (s\<lparr>rc_copies := (p, q) # rc_copies s\<rparr>))"

definition rc_add :: "nat \<Rightarrow> rc_state \<Rightarrow> rc_state" where
  "rc_add p s = (case rc_ptr s p of None \<Rightarrow> s
     | Some a \<Rightarrow> rc_set p (Some a) Steady ((increment_ref_count a s)\<lparr>rc_copies := filter (\<lambda>c. fst c \<noteq> p) (rc_copies s)\<rparr>))"

definition rc_move :: "nat \<Rightarrow> nat \<Rightarrow> rc_state \<Rightarrow> rc_state" where
  "rc_move p q s = s\<lparr>rc_ptr := (rc_ptr s)(p := rc_ptr s q, q := None)\<rparr>"

definition rc_swap :: "nat \<Rightarrow> nat \<Rightarrow> rc_state \<Rightarrow> rc_state" where
  "rc_swap p q s = s\<lparr>rc_ptr := (rc_ptr s)(p := rc_ptr s q, q := rc_ptr s p)\<rparr>"

text \<open>The destructor: the decrement, and the deletion when it says so.\<close>

definition rc_release :: "nat \<Rightarrow> rc_state \<Rightarrow> rc_state" where
  "rc_release p s = (case rc_ptr s p of None \<Rightarrow> s
     | Some a \<Rightarrow> (case decrement_ref_count a s of (gone, s') \<Rightarrow> if gone then rc_set p (Some a) Deleting s' else rc_set p None Steady s'))"

definition rc_delete :: "nat \<Rightarrow> rc_state \<Rightarrow> rc_state" where
  "rc_delete p s = (case rc_ptr s p of None \<Rightarrow> s
     | Some a \<Rightarrow> rc_set p None Steady (s\<lparr>rc_live := filter (\<lambda>b. b \<noteq> a) (rc_live s), rc_dead := rc_dead s @ [a]\<rparr>))"

fun rc_step :: "rc_action \<Rightarrow> rc_state \<Rightarrow> rc_state option" where
  "rc_step (Make p a) s = (if rc_unused p s \<and> a \<notin> set (rc_live s) \<and> a \<notin> set (rc_dead s) then Some (rc_make p a s) else None)"
| "rc_step (Copy p q) s = (if rc_unused p s \<and> p \<noteq> q \<and> rc_phase s q = Steady then Some (rc_copy p q s) else None)"
| "rc_step (Count p) s = (if rc_phase s p = Counting then Some (rc_add p s) else None)"
| "rc_step (Move p q) s = (if rc_unused p s \<and> p \<noteq> q \<and> rc_writable q s then Some (rc_move p q s) else None)"
| "rc_step (Swap p q) s = (if rc_writable p s \<and> rc_writable q s then Some (rc_swap p q s) else None)"
| "rc_step (Release p) s = (if rc_writable p s then Some (rc_release p s) else None)"
| "rc_step (Delete p) s = (if rc_phase s p = Deleting then Some (rc_delete p s) else None)"

fun rc_run :: "rc_action list \<Rightarrow> rc_state \<Rightarrow> rc_state option" where
  "rc_run [] s = Some s"
| "rc_run (x # xs) s = Option.bind (rc_step x s) (rc_run xs)"

section \<open>Operations of one thread\<close>

definition rc_construct :: "nat \<Rightarrow> nat \<Rightarrow> rc_state \<Rightarrow> rc_state option" where
  "rc_construct p q s = Option.bind (rc_step (Copy p q) s) (\<lambda>s. if rc_ptr s p = None then Some s else rc_step (Count p) s)"

definition rc_destroy :: "nat \<Rightarrow> rc_state \<Rightarrow> rc_state option" where
  "rc_destroy p s = Option.bind (rc_step (Release p) s) (\<lambda>s. if rc_phase s p = Deleting then rc_step (Delete p) s else Some s)"

text \<open>The assignments construct a pointer \<open>n\<close>, swap with it and destroy it.\<close>

definition rc_assign :: "nat \<Rightarrow> nat \<Rightarrow> nat \<Rightarrow> rc_state \<Rightarrow> rc_state option" where
  "rc_assign n p q s = Option.bind (rc_construct n q s) (\<lambda>s. Option.bind (rc_step (Swap n p) s) (rc_destroy n))"

definition rc_assign_move :: "nat \<Rightarrow> nat \<Rightarrow> nat \<Rightarrow> rc_state \<Rightarrow> rc_state option" where
  "rc_assign_move n p q s = Option.bind (rc_step (Move n q) s) (\<lambda>s. Option.bind (rc_step (Swap p n) s) (rc_destroy n))"

text \<open>\<open>~guild_lifetime_extender\<close>: the guild is marked as dead, then the pointer is destroyed. It is not asked whether there is a guild.\<close>

definition extender_end :: "nat \<Rightarrow> (nat \<Rightarrow> bool) \<times> rc_state \<Rightarrow> ((nat \<Rightarrow> bool) \<times> rc_state) option" where
  "extender_end p t = (case t of (dead, s) \<Rightarrow> Option.bind (rc_ptr s p) (\<lambda>a. map_option (Pair (dead(a := True))) (rc_destroy p s)))"

section \<open>The invariant\<close>

definition rc_holders :: "rc_state \<Rightarrow> nat \<Rightarrow> nat set" where
  "rc_holders s a = {p. rc_ptr s p = Some a \<and> rc_phase s p = Steady}"

text \<open>A pointer whose object no other pointer has.\<close>

definition rc_alone :: "rc_state \<Rightarrow> nat \<Rightarrow> bool" where
  "rc_alone s p \<longleftrightarrow> (\<forall>q. q \<noteq> p \<longrightarrow> rc_ptr s q \<noteq> rc_ptr s p)"

definition rc_ok :: "rc_state \<Rightarrow> bool" where
  "rc_ok s \<longleftrightarrow> finite {p. rc_ptr s p \<noteq> None} \<and> distinct (rc_live s @ rc_dead s) \<and> (\<forall>a. a \<in> set (rc_live s) \<longleftrightarrow> (\<exists>p. rc_ptr s p = Some a))
     \<and> (\<forall>p a. rc_ptr s p = Some a \<longrightarrow> rc_count s a = int (card (rc_holders s a)))
     \<and> (\<forall>p. rc_phase s p \<noteq> Steady \<longrightarrow> rc_ptr s p \<noteq> None)
     \<and> (\<forall>p q. (p, q) \<in> set (rc_copies s) \<longrightarrow> rc_ptr s p = rc_ptr s q \<and> rc_phase s q = Steady \<and> rc_phase s p = Counting)
     \<and> (\<forall>p. rc_phase s p = Counting \<longrightarrow> p \<in> fst ` set (rc_copies s) \<or> rc_alone s p)
     \<and> (\<forall>p. rc_phase s p = Deleting \<longrightarrow> rc_alone s p)"

lemmas rc_okI = rc_ok_def [THEN iffD2]

lemmas rc_okD =
  rc_ok_def [THEN iffD1, THEN conjunct1]
  rc_ok_def [THEN iffD1, THEN conjunct2, THEN conjunct1, rule_format]
  rc_ok_def [THEN iffD1, THEN conjunct2, THEN conjunct2, THEN conjunct1, rule_format]
  rc_ok_def [THEN iffD1, THEN conjunct2, THEN conjunct2, THEN conjunct2, THEN conjunct1, rule_format]
  rc_ok_def [THEN iffD1, THEN conjunct2, THEN conjunct2, THEN conjunct2, THEN conjunct2, THEN conjunct1, rule_format]
  rc_ok_def [THEN iffD1, THEN conjunct2, THEN conjunct2, THEN conjunct2, THEN conjunct2, THEN conjunct2, THEN conjunct1, rule_format]
  rc_ok_def [THEN iffD1, THEN conjunct2, THEN conjunct2, THEN conjunct2, THEN conjunct2, THEN conjunct2, THEN conjunct2, THEN conjunct1, rule_format]
  rc_ok_def [THEN iffD1, THEN conjunct2, THEN conjunct2, THEN conjunct2, THEN conjunct2, THEN conjunct2, THEN conjunct2, THEN conjunct2, rule_format]

lemma rc_live_ptr: "rc_ok s \<Longrightarrow> rc_ptr s p = Some a \<Longrightarrow> a \<in> set (rc_live s)"
  by (rule rc_okD(3) [THEN iffD2, OF _ exI])

lemma rc_live_held: "rc_ok s \<Longrightarrow> a \<in> set (rc_live s) \<Longrightarrow> \<exists>p. rc_ptr s p = Some a"
  by (rule rc_okD(3) [THEN iffD1])

lemma finite_holders: "rc_ok s \<Longrightarrow> finite (rc_holders s a)"
  by (rule finite_subset [OF _ rc_okD(1)]) (auto simp: rc_holders_def)

lemma unused_alone:
  assumes "rc_ok s" "rc_unused p s"
  shows "rc_ptr s p = None" "rc_phase s p = Steady" "p \<notin> fst ` set (rc_copies s)" "p \<notin> snd ` set (rc_copies s)"
proof -
  show steady: "rc_phase s p = Steady" "rc_ptr s p = None" "p \<notin> snd ` set (rc_copies s)"
    using assms(2) by (simp_all add: rc_unused_def rc_writable_def)
  show "p \<notin> fst ` set (rc_copies s)"
  proof
    assume "p \<in> fst ` set (rc_copies s)"
    then obtain q where "(p, q) \<in> set (rc_copies s)" by force
    then show False using rc_okD(6) [OF assms(1)] steady(1) by force
  qed
qed

lemma rc_make_fields [simp]:
  "rc_ptr (rc_make p a s) = (rc_ptr s)(p := Some a)" "rc_phase (rc_make p a s) = (rc_phase s)(p := Counting)"
  "rc_live (rc_make p a s) = rc_live s @ [a]" "rc_dead (rc_make p a s) = rc_dead s"
  "rc_count (rc_make p a s) = (rc_count s)(a := 0)" "rc_copies (rc_make p a s) = rc_copies s"
  by (simp_all add: rc_make_def rc_set_def)

lemma rc_make_ok:
  assumes "rc_ok s" "rc_unused p s" "a \<notin> set (rc_live s)" "a \<notin> set (rc_dead s)"
  shows "rc_ok (rc_make p a s)"
proof -
  note p = unused_alone [OF assms(1,2)] and ok = rc_okD [OF assms(1)]
  have free: "rc_ptr s q \<noteq> Some a" for q using ok(3) assms(3) by blast
  have holders: "rc_holders (rc_make p a s) b = rc_holders s b" for b
    using p free by (auto simp: rc_holders_def)
  have none: "rc_holders s a = {}" using free by (simp add: rc_holders_def)
  have fin: "{q. rc_ptr (rc_make p a s) q \<noteq> None} = insert p {q. rc_ptr s q \<noteq> None}" by auto
  have alone: "rc_alone (rc_make p a s) q" if "q = p \<or> rc_alone s q \<and> rc_ptr s q \<noteq> None" for q
    using free p that by (auto simp: rc_alone_def)
  have other: "rc_ptr s q \<noteq> None" if "rc_phase s q = Counting \<or> rc_phase s q = Deleting" for q using ok(5) [of q] that by auto
  show ?thesis
  proof (rule rc_okI, intro conjI allI impI)
    show "finite {q. rc_ptr (rc_make p a s) q \<noteq> None}" unfolding fin using ok(1) by simp
    show "distinct (rc_live (rc_make p a s) @ rc_dead (rc_make p a s))" using ok(2) assms(3,4) by auto
    show "b \<in> set (rc_live (rc_make p a s)) \<longleftrightarrow> (\<exists>q. rc_ptr (rc_make p a s) q = Some b)" for b
      using ok(3) [of b] p by (auto, metis option.distinct(1))
    show "rc_count (rc_make p a s) b = int (card (rc_holders (rc_make p a s) b))" if "rc_ptr (rc_make p a s) q = Some b" for q b
      unfolding holders using that ok(4) [of q b] none free [of q] by (auto split: if_splits)
    show "rc_ptr (rc_make p a s) q \<noteq> None" if "rc_phase (rc_make p a s) q \<noteq> Steady" for q
      using that ok(5) [of q] by (auto split: if_splits)
    show "rc_ptr (rc_make p a s) r = rc_ptr (rc_make p a s) q" "rc_phase (rc_make p a s) q = Steady" "rc_phase (rc_make p a s) r = Counting"
      if "(r, q) \<in> set (rc_copies (rc_make p a s))" for r q
      using that ok(6) [of r q] p by force+
    show "q \<in> fst ` set (rc_copies (rc_make p a s)) \<or> rc_alone (rc_make p a s) q" if "rc_phase (rc_make p a s) q = Counting" for q
      using that ok(7) [of q] alone [of q] other [of q] by (auto split: if_splits)
    show "rc_alone (rc_make p a s) q" if "rc_phase (rc_make p a s) q = Deleting" for q
      using that ok(8) [of q] alone [of q] other [of q] by (auto split: if_splits)
  qed
qed

lemma rc_copy_ok:
  assumes "rc_ok s" "rc_unused p s" "p \<noteq> q" "rc_phase s q = Steady"
  shows "rc_ok (rc_copy p q s)"
proof (cases "rc_ptr s q")
  case None
  then show ?thesis using assms(1) by (simp add: rc_copy_def)
next
  case (Some a)
  note p = unused_alone [OF assms(1,2)] and ok = rc_okD [OF assms(1)]
  define t where "t = rc_copy p q s"
  have t: "rc_ptr t = (rc_ptr s)(p := Some a)" "rc_phase t = (rc_phase s)(p := Counting)" "rc_live t = rc_live s" "rc_dead t = rc_dead s"
    "rc_count t = rc_count s" "rc_copies t = (p, q) # rc_copies s"
    using Some by (simp_all add: t_def rc_copy_def rc_set_def)
  have holders: "rc_holders t b = rc_holders s b" for b using p by (auto simp: rc_holders_def t)
  have fin: "{r. rc_ptr t r \<noteq> None} = insert p {r. rc_ptr s r \<noteq> None}" by (auto simp: t)
  have alone: "rc_alone t r" if "rc_alone s r" "rc_ptr s r \<noteq> None" "r \<noteq> q" "r \<noteq> p" for r
    using that Some by (auto simp: rc_alone_def t)
  have q: "rc_phase t q = Steady" "rc_ptr t q = Some a" using assms(3,4) Some by (simp_all add: t)
  have "rc_ok t"
  proof (rule rc_okI, intro conjI allI impI)
    show "finite {r. rc_ptr t r \<noteq> None}" unfolding fin using ok(1) by simp
    show "distinct (rc_live t @ rc_dead t)" using ok(2) by (simp add: t)
    show "b \<in> set (rc_live t) \<longleftrightarrow> (\<exists>r. rc_ptr t r = Some b)" for b
      using ok(3) [of b] p(1) Some assms(3) by (auto simp: t, metis option.distinct(1))
    show "rc_count t b = int (card (rc_holders t b))" if "rc_ptr t r = Some b" for r b
      unfolding holders using that ok(4) [of r b] ok(4) [of q b] Some by (auto simp: t split: if_splits)
    show "rc_ptr t r \<noteq> None" if "rc_phase t r \<noteq> Steady" for r using that ok(5) [of r] by (auto simp: t split: if_splits)
    show "rc_ptr t r = rc_ptr t x" "rc_phase t x = Steady" "rc_phase t r = Counting" if "(r, x) \<in> set (rc_copies t)" for r x
      using that ok(6) [of r x] p q by (force simp: t)+
    show "r \<in> fst ` set (rc_copies t) \<or> rc_alone t r" if "rc_phase t r = Counting" for r
      using that ok(7) [of r] ok(5) [of r] alone [of r] assms(4) by (cases "r = p"; cases "r = q") (auto simp: t)
    show "rc_alone t r" if "rc_phase t r = Deleting" for r
      using that ok(8) [of r] ok(5) [of r] alone [of r] assms(4) by (cases "r = p"; cases "r = q") (auto simp: t)
  qed
  then show ?thesis by (simp add: t_def)
qed

lemma rc_add_ok:
  assumes "rc_ok s" "rc_phase s p = Counting"
  shows "rc_ok (rc_add p s)"
proof -
  note ok = rc_okD [OF assms(1)]
  obtain a where a: "rc_ptr s p = Some a" using ok(5) [of p] assms(2) by auto
  define t where "t = rc_add p s"
  have t: "rc_ptr t = rc_ptr s" "rc_phase t = (rc_phase s)(p := Steady)" "rc_live t = rc_live s" "rc_dead t = rc_dead s"
    "rc_count t = (rc_count s)(a := rc_count s a + 1)" "rc_copies t = filter (\<lambda>c. fst c \<noteq> p) (rc_copies s)"
    using a by (simp_all add: t_def rc_add_def rc_set_def increment_ref_count_def fun_eq_iff)
  have holders: "rc_holders t b = (if b = a then insert p (rc_holders s b) else rc_holders s b)" for b
    using a by (auto simp: rc_holders_def t)
  have new: "p \<notin> rc_holders s a" using assms(2) by (simp add: rc_holders_def)
  have "rc_ok t"
  proof (rule rc_okI, intro conjI allI impI)
    show "finite {r. rc_ptr t r \<noteq> None}" using ok(1) by (simp add: t)
    show "distinct (rc_live t @ rc_dead t)" using ok(2) by (simp add: t)
    show "b \<in> set (rc_live t) \<longleftrightarrow> (\<exists>r. rc_ptr t r = Some b)" for b using ok(3) [of b] by (simp add: t)
    show "rc_count t b = int (card (rc_holders t b))" if "rc_ptr t r = Some b" for r b
      using that ok(4) [of r b] ok(4) [of p a] a new finite_holders [OF assms(1)] by (simp add: holders t)
    show "rc_ptr t r \<noteq> None" if "rc_phase t r \<noteq> Steady" for r using that ok(5) [of r] by (auto simp: t split: if_splits)
    show "rc_ptr t r = rc_ptr t x" "rc_phase t x = Steady" "rc_phase t r = Counting" if "(r, x) \<in> set (rc_copies t)" for r x
      using that ok(6) [of r x] by (auto simp: t)
    show "r \<in> fst ` set (rc_copies t) \<or> rc_alone t r" if "rc_phase t r = Counting" for r
      using that ok(7) [of r] by (force simp: t rc_alone_def split: if_splits)
    show "rc_alone t r" if "rc_phase t r = Deleting" for r
      using that ok(8) [of r] by (auto simp: t rc_alone_def split: if_splits)
  qed
  then show ?thesis by (simp add: t_def)
qed

lemma rc_swap_ok:
  assumes "rc_ok s" "rc_writable p s" "rc_writable q s"
    and copies: "p \<notin> fst ` set (rc_copies s)" "q \<notin> fst ` set (rc_copies s)"
  shows "rc_ok (rc_swap p q s)"
proof -
  note ok = rc_okD [OF assms(1)]
  have steady: "rc_phase s p = Steady" "rc_phase s q = Steady" "p \<notin> snd ` set (rc_copies s)" "q \<notin> snd ` set (rc_copies s)"
    using assms(2,3) by (simp_all add: rc_writable_def)
  define \<pi> where "\<pi> r = (if r = p then q else if r = q then p else r)" for r
  define t where "t = rc_swap p q s"
  have t: "rc_ptr t r = rc_ptr s (\<pi> r)" "rc_phase t = rc_phase s" "rc_live t = rc_live s" "rc_dead t = rc_dead s"
    "rc_count t = rc_count s" "rc_copies t = rc_copies s" for r
    by (simp_all add: t_def rc_swap_def \<pi>_def)
  have \<pi>: "\<pi> (\<pi> r) = r" "rc_phase s (\<pi> r) = rc_phase s r" for r using steady by (auto simp: \<pi>_def)
  have inj: "inj \<pi>" by (rule inj_on_inverseI [of _ \<pi>]) (simp add: \<pi>)
  have ex: "(\<exists>r. P (\<pi> r)) \<longleftrightarrow> (\<exists>r. P r)" for P using \<pi>(1) by metis
  have eq: "\<pi> r = x \<longleftrightarrow> r = \<pi> x" for r x using \<pi>(1) by metis
  have holders: "rc_holders t b = \<pi> ` rc_holders s b" for b
    by (auto simp: rc_holders_def t \<pi> image_iff) (metis \<pi>)
  have fin: "{r. rc_ptr t r \<noteq> None} = \<pi> ` {r. rc_ptr s r \<noteq> None}"
    by (auto simp: t image_iff) (metis \<pi>(1))+
  have alone: "rc_alone t r" if "rc_alone s (\<pi> r)" for r using that by (auto simp: rc_alone_def t) (metis \<pi>(1))
  have far: "\<pi> r = r" if "rc_phase s r \<noteq> Steady" for r using that steady by (auto simp: \<pi>_def)
  have "rc_ok t"
  proof (rule rc_okI, intro conjI allI impI)
    show "finite {r. rc_ptr t r \<noteq> None}" unfolding fin using ok(1) by simp
    show "distinct (rc_live t @ rc_dead t)" using ok(2) by (simp add: t)
    show "b \<in> set (rc_live t) \<longleftrightarrow> (\<exists>r. rc_ptr t r = Some b)" for b using ok(3) [of b] ex [of "\<lambda>r. rc_ptr s r = Some b"] by (simp add: t)
    show "rc_count t b = int (card (rc_holders t b))" if "rc_ptr t r = Some b" for r b
      unfolding holders using that ok(4) [of "\<pi> r" b] card_image [OF inj_on_subset [OF inj subset_UNIV]] by (simp add: t)
    show "rc_ptr t r \<noteq> None" if "rc_phase t r \<noteq> Steady" for r using that ok(5) [of r] far [of r] by (simp add: t)
    show "rc_ptr t r = rc_ptr t x" "rc_phase t x = Steady" "rc_phase t r = Counting" if "(r, x) \<in> set (rc_copies t)" for r x
    proof -
      have "x \<noteq> p" "x \<noteq> q" "r \<noteq> p" "r \<noteq> q" using that steady(3,4) copies by (force simp: t)+
      then show "rc_ptr t r = rc_ptr t x" "rc_phase t x = Steady" "rc_phase t r = Counting"
        using that ok(6) [of r x] by (simp_all add: t \<pi>_def)
    qed
    show "r \<in> fst ` set (rc_copies t) \<or> rc_alone t r" if "rc_phase t r = Counting" for r
      using that ok(7) [of r] far [of r] alone [of r] by (auto simp: t)
    show "rc_alone t r" if "rc_phase t r = Deleting" for r
      using that ok(8) [of r] far [of r] alone [of r] by (auto simp: t)
  qed
  then show ?thesis by (simp add: t_def)
qed

lemma steady_no_copy: "rc_ok s \<Longrightarrow> rc_phase s p = Steady \<Longrightarrow> p \<notin> fst ` set (rc_copies s)"
  using rc_okD(6) by force

lemma rc_drop_ok:
  assumes "rc_ok s" "rc_writable p s" "rc_ptr s p = Some a" "rc_count s a \<noteq> 1"
  shows "rc_ok (rc_set p None Steady (s\<lparr>rc_count := (rc_count s)(a := rc_count s a - 1)\<rparr>))" (is "rc_ok ?t")
proof -
  note ok = rc_okD [OF assms(1)]
  have p: "rc_phase s p = Steady" "p \<notin> snd ` set (rc_copies s)" "p \<notin> fst ` set (rc_copies s)"
    using assms(2) steady_no_copy [OF assms(1)] by (simp_all add: rc_writable_def)
  define t where "t = ?t"
  have t: "rc_ptr t = (rc_ptr s)(p := None)" "rc_phase t = (rc_phase s)(p := Steady)" "rc_live t = rc_live s" "rc_dead t = rc_dead s"
    "rc_count t = (rc_count s)(a := rc_count s a - 1)" "rc_copies t = rc_copies s"
    by (simp_all add: t_def rc_set_def)
  have mem: "p \<in> rc_holders s a" using assms(3) p by (simp add: rc_holders_def)
  have holders: "rc_holders t b = (if b = a then rc_holders s a - {p} else rc_holders s b)" for b
    using assms(3) by (auto simp: rc_holders_def t)
  have count: "rc_count s a = int (card (rc_holders s a))" using ok(4) assms(3) by simp
  then have "rc_holders s a \<noteq> {p}" using assms(4) by auto
  then obtain h where h: "h \<noteq> p" "rc_ptr s h = Some a" using mem by (auto simp: rc_holders_def)
  have fin: "{r. rc_ptr t r \<noteq> None} \<subseteq> {r. rc_ptr s r \<noteq> None}" by (auto simp: t)
  have alone: "rc_alone t r" if "rc_alone s r" "rc_ptr s r \<noteq> None" "r \<noteq> p" for r using that by (auto simp: rc_alone_def t)
  have "rc_ok t"
  proof (rule rc_okI, intro conjI allI impI)
    show "finite {r. rc_ptr t r \<noteq> None}" using finite_subset [OF fin ok(1)] .
    show "distinct (rc_live t @ rc_dead t)" using ok(2) by (simp add: t)
    show "b \<in> set (rc_live t) \<longleftrightarrow> (\<exists>r. rc_ptr t r = Some b)" for b
    proof (cases "b = a")
      case True
      then show ?thesis using ok(3) [of b] h by (auto simp: t)
    next
      case False
      then have "rc_ptr t r = Some b \<longleftrightarrow> rc_ptr s r = Some b" for r using assms(3) by (auto simp: t)
      then show ?thesis using ok(3) [of b] by (simp add: t)
    qed
    show "rc_count t b = int (card (rc_holders t b))" if "rc_ptr t r = Some b" for r b
      using that ok(4) [of r b] count mem finite_holders [OF assms(1)] card_gt_0_iff [of "rc_holders s a"]
      by (auto simp: holders t of_nat_diff Suc_leI split: if_splits)
    show "rc_ptr t r \<noteq> None" if "rc_phase t r \<noteq> Steady" for r using that ok(5) [of r] by (auto simp: t split: if_splits)
    show "rc_ptr t r = rc_ptr t x" "rc_phase t x = Steady" "rc_phase t r = Counting" if "(r, x) \<in> set (rc_copies t)" for r x
      using that ok(6) [of r x] p by (force simp: t)+
    show "r \<in> fst ` set (rc_copies t) \<or> rc_alone t r" if "rc_phase t r = Counting" for r
      using that ok(7) [of r] ok(5) [of r] alone [of r] by (cases "r = p") (auto simp: t)
    show "rc_alone t r" if "rc_phase t r = Deleting" for r
      using that ok(8) [of r] ok(5) [of r] alone [of r] by (cases "r = p") (auto simp: t)
  qed
  then show ?thesis by (simp add: t_def)
qed

text \<open>The last pointer of an object is the only one in any phase.\<close>

lemma last_alone:
  assumes "rc_ok s" "rc_writable p s" "rc_ptr s p = Some a" "rc_count s a = 1"
  shows "rc_alone s p" "rc_holders s a = {p}"
proof -
  note ok = rc_okD [OF assms(1)]
  have p: "rc_phase s p = Steady" "p \<notin> snd ` set (rc_copies s)" using assms(2) by (simp_all add: rc_writable_def)
  have mem: "p \<in> rc_holders s a" using assms(3) p by (simp add: rc_holders_def)
  have "card (rc_holders s a) = 1" using ok(4) [OF assms(3)] assms(4) by simp
  then show one: "rc_holders s a = {p}" using mem by (metis card_1_singletonE singletonD)
  have "False" if r: "r \<noteq> p" "rc_ptr s r = Some a" for r
  proof (cases "rc_phase s r")
    case Steady
    then show False using r one by (auto simp: rc_holders_def)
  next
    case Counting
    then consider x where "(r, x) \<in> set (rc_copies s)" | "rc_alone s r" using ok(7) [of r] by force
    then show False
    proof cases
      case 1
      then have "x \<in> rc_holders s a" using ok(6) [OF 1] r(2) by (simp add: rc_holders_def)
      then show False using one p(2) 1 by force
    next
      case 2
      then show False using r assms(3) by (auto simp: rc_alone_def)
    qed
  next
    case Deleting
    then show False using ok(8) [of r] r assms(3) by (auto simp: rc_alone_def)
  qed
  then show "rc_alone s p" using assms(3) by (auto simp: rc_alone_def)
qed

lemma rc_last_ok:
  assumes "rc_ok s" "rc_writable p s" "rc_ptr s p = Some a" "rc_count s a = 1"
  shows "rc_ok (rc_set p (Some a) Deleting (s\<lparr>rc_count := (rc_count s)(a := 0)\<rparr>))" (is "rc_ok ?t")
proof -
  note ok = rc_okD [OF assms(1)]
  have p: "rc_phase s p = Steady" "p \<notin> snd ` set (rc_copies s)" "p \<notin> fst ` set (rc_copies s)"
    using assms(2) steady_no_copy [OF assms(1)] by (simp_all add: rc_writable_def)
  define t where "t = ?t"
  have t: "rc_ptr t = rc_ptr s" "rc_phase t = (rc_phase s)(p := Deleting)" "rc_live t = rc_live s" "rc_dead t = rc_dead s"
    "rc_count t = (rc_count s)(a := 0)" "rc_copies t = rc_copies s"
    using assms(3) by (auto simp: t_def rc_set_def fun_eq_iff)
  have alone: "rc_alone t r \<longleftrightarrow> rc_alone s r" for r by (simp add: rc_alone_def t)
  have holders: "rc_holders t b = (if b = a then {} else rc_holders s b)" for b
    using assms(3) last_alone(2) [OF assms] by (auto simp: rc_holders_def t)
  have "rc_ok t"
  proof (rule rc_okI, intro conjI allI impI)
    show "finite {r. rc_ptr t r \<noteq> None}" using ok(1) by (simp add: t)
    show "distinct (rc_live t @ rc_dead t)" using ok(2) by (simp add: t)
    show "b \<in> set (rc_live t) \<longleftrightarrow> (\<exists>r. rc_ptr t r = Some b)" for b using ok(3) [of b] by (simp add: t)
    show "rc_count t b = int (card (rc_holders t b))" if "rc_ptr t r = Some b" for r b
      using that ok(4) [of r b] by (simp add: holders t)
    show "rc_ptr t r \<noteq> None" if "rc_phase t r \<noteq> Steady" for r using that ok(5) [of r] assms(3) by (auto simp: t split: if_splits)
    show "rc_ptr t r = rc_ptr t x" "rc_phase t x = Steady" "rc_phase t r = Counting" if "(r, x) \<in> set (rc_copies t)" for r x
      using that ok(6) [of r x] p by (force simp: t)+
    show "r \<in> fst ` set (rc_copies t) \<or> rc_alone t r" if "rc_phase t r = Counting" for r
      using that ok(7) [of r] unfolding alone by (auto simp: t split: if_splits)
    show "rc_alone t r" if "rc_phase t r = Deleting" for r
      using that ok(8) [of r] last_alone(1) [OF assms] unfolding alone by (auto simp: t split: if_splits)
  qed
  then show ?thesis by (simp add: t_def)
qed

lemma rc_release_ok:
  assumes "rc_ok s" "rc_writable p s"
  shows "rc_ok (rc_release p s)"
  using assms rc_drop_ok [OF assms] rc_last_ok [OF assms]
  by (auto simp: rc_release_def decrement_ref_count_def split: option.split)

lemma rc_delete_ok:
  assumes "rc_ok s" "rc_phase s p = Deleting"
  shows "rc_ok (rc_delete p s)"
proof -
  note ok = rc_okD [OF assms(1)]
  obtain a where a: "rc_ptr s p = Some a" using ok(5) [of p] assms(2) by auto
  have only: "rc_alone s p" using ok(8) assms(2) .
  have p: "p \<notin> snd ` set (rc_copies s)" "p \<notin> fst ` set (rc_copies s)" using ok(6) assms(2) by force+
  define t where "t = rc_delete p s"
  have t: "rc_ptr t = (rc_ptr s)(p := None)" "rc_phase t = (rc_phase s)(p := Steady)" "rc_live t = filter (\<lambda>b. b \<noteq> a) (rc_live s)"
    "rc_dead t = rc_dead s @ [a]" "rc_count t = rc_count s" "rc_copies t = rc_copies s"
    using a by (simp_all add: t_def rc_delete_def rc_set_def)
  have fin: "{r. rc_ptr t r \<noteq> None} \<subseteq> {r. rc_ptr s r \<noteq> None}" by (auto simp: t)
  have holders: "rc_holders t b = rc_holders s b" for b using a assms(2) by (auto simp: rc_holders_def t)
  have alone: "rc_alone t r" if "rc_alone s r" "rc_ptr s r \<noteq> None" "r \<noteq> p" for r using that by (auto simp: rc_alone_def t)
  have "rc_ok t"
  proof (rule rc_okI, intro conjI allI impI)
    show "finite {r. rc_ptr t r \<noteq> None}" using finite_subset [OF fin ok(1)] .
    show "distinct (rc_live t @ rc_dead t)" using ok(2) ok(3) [of a] a by (auto simp: t)
    show "b \<in> set (rc_live t) \<longleftrightarrow> (\<exists>r. rc_ptr t r = Some b)" for b
      using ok(3) [of b] only a by (auto simp: t rc_alone_def) (metis option.inject)
    show "rc_count t b = int (card (rc_holders t b))" if "rc_ptr t r = Some b" for r b
      unfolding holders using that ok(4) [of r b] by (simp add: t split: if_splits)
    show "rc_ptr t r \<noteq> None" if "rc_phase t r \<noteq> Steady" for r using that ok(5) [of r] by (auto simp: t split: if_splits)
    show "rc_ptr t r = rc_ptr t x" "rc_phase t x = Steady" "rc_phase t r = Counting" if "(r, x) \<in> set (rc_copies t)" for r x
      using that ok(6) [of r x] p by (force simp: t)+
    show "r \<in> fst ` set (rc_copies t) \<or> rc_alone t r" if "rc_phase t r = Counting" for r
      using that ok(7) [of r] ok(5) [of r] alone [of r] by (cases "r = p") (auto simp: t)
    show "rc_alone t r" if "rc_phase t r = Deleting" for r
      using that ok(8) [of r] ok(5) [of r] alone [of r] by (cases "r = p") (auto simp: t)
  qed
  then show ?thesis by (simp add: t_def)
qed

section \<open>Every interleaving\<close>

lemma rc_move_swap: "rc_unused p s \<Longrightarrow> rc_move p q s = rc_swap p q s"
  by (simp add: rc_move_def rc_swap_def rc_unused_def)

lemma rc_swap_ok': "rc_ok s \<Longrightarrow> rc_writable p s \<Longrightarrow> rc_writable q s \<Longrightarrow> rc_ok (rc_swap p q s)"
  by (rule rc_swap_ok) (auto simp: rc_writable_def dest: steady_no_copy)

lemma rc_step_ok:
  assumes "rc_ok s" "rc_step x s = Some t"
  shows "rc_ok t"
  using assms(2)
proof (cases x)
  case (Move p q)
  then have "rc_unused p s" "rc_writable q s" "t = rc_swap p q s"
    using assms(2) by (auto simp: rc_move_swap split: if_splits)
  then show ?thesis using rc_swap_ok' [OF assms(1)] by (simp add: rc_unused_def)
qed (use assms in \<open>auto intro: rc_make_ok rc_copy_ok rc_add_ok rc_swap_ok' rc_release_ok rc_delete_ok split: if_splits\<close>)

lemma rc_empty_ok: "rc_ok rc_empty"
  by (simp add: rc_ok_def rc_empty_def)

lemma rc_run_ok: "rc_run xs s = Some t \<Longrightarrow> rc_ok s \<Longrightarrow> rc_ok t"
  by (induction xs arbitrary: s) (auto split: bind_splits intro: rc_step_ok)

text \<open>C11: However the operations of the pointers interleave, a pointer leads to an object that lives, until the very step that deletes it;
  no object is deleted twice, and none that no pointer leads to stays undeleted. The count is the number of pointers that have
  finished their construction and have not begun their destruction.\<close>
theorem objects_deleted_once:
  assumes "rc_run xs rc_empty = Some s"
  shows "(rc_ptr s p = Some a \<longrightarrow> a \<in> set (rc_live s) \<and> a \<notin> set (rc_dead s)) \<and> distinct (rc_dead s)
    \<and> (a \<in> set (rc_live s) \<longrightarrow> (\<exists>p. rc_ptr s p = Some a) \<and> rc_count s a = int (card (rc_holders s a)))"
proof -
  note ok = rc_okD [OF rc_run_ok [OF assms rc_empty_ok]]
  show ?thesis using ok(2) ok(3) [of a] ok(4) [of _ a] by auto
qed

section \<open>What an operation does when nothing comes between\<close>

definition rc_quiet :: "rc_state \<Rightarrow> bool" where
  "rc_quiet s \<longleftrightarrow> rc_ok s \<and> (\<forall>p. rc_phase s p = Steady) \<and> rc_copies s = []"

lemma quiet_writable: "rc_quiet s \<Longrightarrow> rc_writable p s"
  by (simp add: rc_quiet_def rc_writable_def)

lemma quiet_unused: "rc_quiet s \<Longrightarrow> rc_ptr s p = None \<Longrightarrow> rc_unused p s"
  by (simp add: rc_unused_def quiet_writable)

lemma rc_construct_quiet:
  assumes "rc_quiet s" "rc_ptr s p = None" "p \<noteq> q"
  shows "\<exists>t. rc_construct p q s = Some t \<and> rc_quiet t \<and> rc_ptr t = (rc_ptr s)(p := rc_ptr s q) \<and> rc_dead t = rc_dead s"
proof (cases "rc_ptr s q")
  case None
  then have "rc_construct p q s = Some s"
    using assms quiet_unused [OF assms(1,2)] by (simp add: rc_construct_def rc_copy_def rc_quiet_def)
  then show ?thesis using assms None by (auto simp: fun_upd_idem)
next
  case (Some a)
  have ok: "rc_ok s" and q: "rc_phase s q = Steady" "rc_copies s = []" "\<forall>p. rc_phase s p = Steady"
    using assms(1) by (simp_all add: rc_quiet_def)
  define u where "u = rc_copy p q s"
  have u: "rc_ok u" "rc_phase u p = Counting" "rc_ptr u = (rc_ptr s)(p := Some a)" "rc_step (Copy p q) s = Some u"
    using rc_copy_ok [OF ok quiet_unused [OF assms(1,2)] assms(3) q(1)] Some assms(3) quiet_unused [OF assms(1,2)] q
    by (simp_all add: u_def rc_copy_def rc_set_def)
  have "rc_quiet (rc_add p u)"
    using rc_add_ok [OF u(1,2)] q Some by (auto simp: rc_quiet_def rc_add_def u_def rc_copy_def rc_set_def increment_ref_count_def)
  moreover have "rc_construct p q s = Some (rc_add p u)"
    unfolding rc_construct_def u(4) using u by simp
  moreover have "rc_ptr (rc_add p u) = (rc_ptr s)(p := rc_ptr s q)" "rc_dead (rc_add p u) = rc_dead s"
    using u Some by (simp_all add: rc_add_def rc_set_def increment_ref_count_def u_def rc_copy_def)
  ultimately show ?thesis by blast
qed

text \<open>A destroyed pointer takes its object along when no other pointer has it.\<close>

definition rc_dies :: "(nat \<Rightarrow> nat option) \<Rightarrow> nat option \<Rightarrow> nat list" where
  "rc_dies ptrs x = (case x of None \<Rightarrow> [] | Some a \<Rightarrow> if Some a \<in> range ptrs then [] else [a])"

lemma rc_destroy_quiet:
  assumes "rc_quiet s"
  shows "\<exists>t. rc_destroy p s = Some t \<and> rc_quiet t \<and> rc_ptr t = (rc_ptr s)(p := None) \<and> rc_dead t = rc_dead s @ rc_dies ((rc_ptr s)(p := None)) (rc_ptr s p)"
proof (cases "rc_ptr s p")
  case None
  then have "rc_destroy p s = Some s" using assms quiet_writable [OF assms] by (simp add: rc_destroy_def rc_release_def rc_quiet_def)
  then show ?thesis using assms None by (auto simp: fun_upd_idem rc_dies_def)
next
  case (Some a)
  have ok: "rc_ok s" and q: "rc_copies s = []" "\<forall>p. rc_phase s p = Steady" using assms by (simp_all add: rc_quiet_def)
  note w = quiet_writable [OF assms, of p]
  define u where "u = rc_release p s"
  have u: "rc_ok u" "rc_step (Release p) s = Some u" using rc_release_ok [OF ok w] w by (simp_all add: u_def)
  show ?thesis
  proof (cases "rc_count s a = 1")
    case True
    then have del: "rc_phase u p = Deleting" "rc_ptr u = rc_ptr s"
      using Some by (auto simp: u_def rc_release_def decrement_ref_count_def rc_set_def)
    have "rc_ptr s r \<noteq> Some a" if "r \<noteq> p" for r using last_alone(1) [OF ok w Some True] that Some by (auto simp: rc_alone_def)
    then have "Some a \<notin> range ((rc_ptr s)(p := None))" by (auto simp: image_iff) (metis option.distinct(1))
    then have "rc_dies ((rc_ptr s)(p := None)) (rc_ptr s p) = [a]" using Some by (auto simp: rc_dies_def)
    moreover have "rc_quiet (rc_delete p u)" using rc_delete_ok [OF u(1) del(1)] q Some True
      by (auto simp: rc_quiet_def rc_delete_def u_def rc_release_def decrement_ref_count_def rc_set_def)
    moreover have "rc_destroy p s = Some (rc_delete p u)" unfolding rc_destroy_def u(2) using del by simp
    moreover have "rc_ptr (rc_delete p u) = (rc_ptr s)(p := None)" "rc_dead (rc_delete p u) = rc_dead s @ [a]"
      using Some True by (simp_all add: rc_delete_def u_def rc_release_def decrement_ref_count_def rc_set_def)
    ultimately show ?thesis by auto
  next
    case False
    then have t: "rc_ptr u = (rc_ptr s)(p := None)" "rc_dead u = rc_dead s" "rc_phase u = rc_phase s" "rc_copies u = []"
      using Some q by (auto simp: u_def rc_release_def decrement_ref_count_def rc_set_def fun_eq_iff)
    have "a \<in> set (rc_live s)" using rc_live_ptr [OF ok Some] .
    moreover have "rc_live u = rc_live s" using Some False by (simp add: u_def rc_release_def decrement_ref_count_def rc_set_def)
    ultimately have "a \<in> set (rc_live u)" by simp
    then obtain r where "rc_ptr u r = Some a" using rc_live_held [OF u(1)] by blast
    then have "Some a \<in> range (rc_ptr u)" by (rule range_eqI [OF sym])
    then have "rc_dies ((rc_ptr s)(p := None)) (rc_ptr s p) = []" unfolding rc_dies_def Some t(1) [symmetric] by simp
    moreover have "rc_destroy p s = Some u" unfolding rc_destroy_def u(2) using t q by simp
    moreover have "rc_quiet u" unfolding rc_quiet_def using u(1) t(3,4) q by (simp only: simp_thms)
    ultimately show ?thesis using t by auto
  qed
qed

text \<open>An assignment, also of a pointer to itself, makes the pointer lead to the other one's object and deletes the object it had
  before when no pointer is left of it. The new pointer \<open>n\<close> is gone afterwards.\<close>

lemma rc_assign_quiet:
  assumes "rc_quiet s" "rc_ptr s n = None" "n \<noteq> p" "n \<noteq> q"
  shows "\<exists>t. rc_assign n p q s = Some t \<and> rc_quiet t \<and> rc_ptr t = (rc_ptr s)(p := rc_ptr s q) \<and> rc_dead t = rc_dead s @ rc_dies (rc_ptr t) (rc_ptr s p)"
proof -
  obtain u where u: "rc_construct n q s = Some u" "rc_quiet u" "rc_ptr u = (rc_ptr s)(n := rc_ptr s q)" "rc_dead u = rc_dead s"
    using rc_construct_quiet [OF assms(1,2,4)] by blast
  define v where "v = rc_swap n p u"
  have v: "rc_quiet v" "rc_step (Swap n p) u = Some v" "rc_dead v = rc_dead s" "rc_ptr v = (rc_ptr s)(p := rc_ptr s q, n := rc_ptr s p)"
    using u assms(3) rc_swap_ok' [of u n p] quiet_writable [OF u(2)]
    by (auto simp: v_def rc_quiet_def rc_swap_def fun_eq_iff)
  have "(rc_ptr v)(n := None) = (rc_ptr s)(p := rc_ptr s q)" using v(4) assms(2,3) by (auto simp: fun_eq_iff)
  then show ?thesis
    using rc_destroy_quiet [OF v(1), of n] v(3,4) unfolding rc_assign_def u(1) by (auto simp del: rc_step.simps simp: v(2))
qed

text \<open>The end of a \<open>guild_lifetime_extender\<close> that has no guild, as one that was moved from, has no defined result; that of a copy
  marks the guild as dead although others still keep it.\<close>

lemma extender_without_guild: "rc_ptr s p = None \<Longrightarrow> extender_end p (dead, s) = None"
  by (simp add: extender_end_def)

lemma extender_copy_ends_guild:
  assumes "rc_quiet s" "rc_ptr s p = Some a" "rc_ptr s q = Some a" "p \<noteq> q"
  shows "\<exists>t. extender_end p (dead, s) = Some (dead(a := True), t) \<and> rc_ptr t q = Some a \<and> rc_dead t = rc_dead s"
proof -
  obtain t where "rc_destroy p s = Some t" "rc_ptr t = (rc_ptr s)(p := None)" "rc_dead t = rc_dead s @ rc_dies ((rc_ptr s)(p := None)) (rc_ptr s p)"
    using rc_destroy_quiet [OF assms(1)] by blast
  moreover have "rc_dies ((rc_ptr s)(p := None)) (rc_ptr s p) = []"
    using assms by (auto simp: rc_dies_def image_iff)
  ultimately show ?thesis using assms by (simp add: extender_end_def)
qed

section \<open>A concrete run\<close>

text \<open>Two threads: one copies its pointer for the other, which copies it again while the first destroys its own.\<close>

definition rc_two_threads :: "rc_action list" where
  "rc_two_threads = [Make 0 7, Count 0, Copy 1 0, Count 1, Copy 2 1, Release 0, Count 2, Release 1, Make 3 8, Release 2, Count 3, Delete 2]"

lemma rc_two_threads_run:
  "\<exists>s. rc_run rc_two_threads rc_empty = Some s \<and> rc_dead s = [7] \<and> rc_live s = [8] \<and> rc_count s 8 = 1"
  by (simp add: rc_two_threads_def rc_empty_def rc_unused_def rc_writable_def rc_make_def rc_copy_def rc_add_def rc_release_def rc_delete_def
      rc_set_def increment_ref_count_def decrement_ref_count_def)

theorem objects_deleted_once_witness:
  "\<exists>s. rc_run rc_two_threads rc_empty = Some s \<and> distinct (rc_dead s) \<and> (\<exists>p. rc_ptr s p = Some 8) \<and> card (rc_holders s 8) = 1"
proof -
  obtain s where s: "rc_run rc_two_threads rc_empty = Some s" "rc_live s = [8]" "rc_count s 8 = 1"
    using rc_two_threads_run by auto
  show ?thesis using objects_deleted_once [OF s(1), of 0 8] s by auto
qed

end
