(* ===== verification/Ref_Stable.thy ===== *)
theory Ref_Stable
  imports Json
begin

text \<open>
  Maps whose values stay where they are: \<open>indirect\<close> (\<open>common/indirect.h\<close>), a pointer that owns its value and copies it with itself, and
  \<open>ref_stable_map\<close> (\<open>common/ref_stable_map.h\<close>), a hash table of them. The roles of a guild, its members and the recipients of a direct message
  are stored in such maps, and the library keeps pointers to them. Values live in cells with addresses; the hash table, a third-party
  container, is a map from keys to what is stored, and its order of iteration is not modelled. A move of a value leaves the old
  one behind, which is not read again.
\<close>

section \<open>Cells\<close>

record 'v cells =
  cell :: "nat \<Rightarrow> 'v option"
  fresh_cell :: nat

definition no_cells :: "'v cells" where "no_cells = \<lparr>cell = (\<lambda>_. None), fresh_cell = 0\<rparr>"

definition make_unique :: "'v \<Rightarrow> 'v cells \<Rightarrow> nat \<times> 'v cells" where
  "make_unique v h = (fresh_cell h, h\<lparr>cell := (cell h)(fresh_cell h := Some v), fresh_cell := Suc (fresh_cell h)\<rparr>)"

definition write_cell :: "nat \<Rightarrow> 'v \<Rightarrow> 'v cells \<Rightarrow> 'v cells" where
  "write_cell a v h = h\<lparr>cell := (cell h)(a := Some v)\<rparr>"

text \<open>The destructor of a pointer, which may be null.\<close>

definition free_cell :: "nat option \<Rightarrow> 'v cells \<Rightarrow> 'v cells" where
  "free_cell x h = (case x of None \<Rightarrow> h | Some a \<Rightarrow> h\<lparr>cell := (cell h)(a := None)\<rparr>)"

section \<open>The owning pointer\<close>

text \<open>An \<open>indirect\<close> is its pointer. It is null after it was moved from.\<close>

type_synonym ind = "nat option"

definition ind_of :: "'v \<Rightarrow> 'v cells \<Rightarrow> ind \<times> 'v cells" where
  "ind_of v h = (case make_unique v h of (a, h') \<Rightarrow> (Some a, h'))"

definition ind_deref :: "ind \<Rightarrow> 'v cells \<Rightarrow> 'v res" where
  "ind_deref x h = (case Option.bind x (cell h) of None \<Rightarrow> Inl Undef | Some v \<Rightarrow> Inr v)"

definition ind_copy :: "ind \<Rightarrow> 'v cells \<Rightarrow> (ind \<times> 'v cells) res" where
  "ind_copy x h = rmap (\<lambda>v. ind_of v h) (ind_deref x h)"

text \<open>The new pointer and what is left of the other one.\<close>

definition ind_move :: "ind \<Rightarrow> ind \<times> ind" where "ind_move x = (x, None)"

text \<open>\<open>operator=\<close> of a constant reference, of an rvalue (the new value of the other comes second) and of a value.\<close>

definition ind_assign :: "ind \<Rightarrow> ind \<Rightarrow> 'v cells \<Rightarrow> 'v cells res" where
  "ind_assign x y h = rbind (ind_deref y h) (\<lambda>v. case x of None \<Rightarrow> Inl Undef | Some a \<Rightarrow> Inr (write_cell a v h))"

definition ind_assign_move :: "ind \<Rightarrow> ind \<Rightarrow> 'v cells \<Rightarrow> (ind \<times> ind) \<times> 'v cells" where
  "ind_assign_move x y h = (ind_move y, free_cell x h)"

definition ind_assign_value :: "ind \<Rightarrow> 'v \<Rightarrow> 'v cells \<Rightarrow> ind \<times> 'v cells" where
  "ind_assign_value x v h = (case x of None \<Rightarrow> ind_of v h | Some a \<Rightarrow> (Some a, write_cell a v h))"

text \<open>The comparisons with a value. The one for inequality is written as the one for equality.\<close>

definition ind_eq :: "ind \<Rightarrow> 'v \<Rightarrow> 'v cells \<Rightarrow> bool res" where "ind_eq x v h = rmap (\<lambda>w. v = w) (ind_deref x h)"
definition ind_neq :: "ind \<Rightarrow> 'v \<Rightarrow> 'v cells \<Rightarrow> bool res" where "ind_neq x v h = rmap (\<lambda>w. v = w) (ind_deref x h)"
definition ind_less :: "ind \<Rightarrow> 'v::linorder \<Rightarrow> 'v cells \<Rightarrow> bool res" where "ind_less x v h = rmap (\<lambda>w. w < v) (ind_deref x h)"
definition ind_geq :: "ind \<Rightarrow> 'v::linorder \<Rightarrow> 'v cells \<Rightarrow> bool res" where "ind_geq x v h = rmap (\<lambda>w. \<not> w < v) (ind_deref x h)"
definition ind_greater :: "ind \<Rightarrow> 'v::linorder \<Rightarrow> 'v cells \<Rightarrow> bool res" where "ind_greater x v h = rmap (\<lambda>w. v < w) (ind_deref x h)"
definition ind_leq :: "ind \<Rightarrow> 'v::linorder \<Rightarrow> 'v cells \<Rightarrow> bool res" where "ind_leq x v h = rmap (\<lambda>w. \<not> v < w) (ind_deref x h)"

section \<open>The map\<close>

type_synonym 'k table = "'k \<rightharpoonup> ind"
type_synonym ('k, 'v) rsm = "'k table \<times> 'v cells"

text \<open>A pair is given to the table with a new cell; when the key is there the pair is destroyed. The answer is whether it was stored.\<close>

fun rs_insert :: "'k \<Rightarrow> 'v \<Rightarrow> ('k, 'v) rsm \<Rightarrow> bool \<times> ('k, 'v) rsm" where
  "rs_insert k v (m, h) = (case ind_of v h of (x, h') \<Rightarrow>
     if m k = None then (True, m(k := Some x), h') else (False, m, free_cell x h'))"

definition rs_insert_range :: "('k \<times> 'v) list \<Rightarrow> ('k, 'v) rsm \<Rightarrow> ('k, 'v) rsm" where
  "rs_insert_range kvs s = fold (\<lambda>(k, v) s. snd (rs_insert k v s)) kvs s"

fun rs_emplace :: "'k \<Rightarrow> 'v \<Rightarrow> ('k, 'v) rsm \<Rightarrow> bool \<times> ('k, 'v) rsm" where
  "rs_emplace k v (m, h) =
     (if m k = None then (case ind_of v h of (x, h') \<Rightarrow> (True, m(k := Some x), h')) else (False, m, h))"

text \<open>\<open>operator[]\<close>: the default \<open>d\<close> is stored under a missing key. The result is the address of the value.\<close>

fun rs_subscript :: "'k \<Rightarrow> 'v \<Rightarrow> ('k, 'v) rsm \<Rightarrow> nat res \<times> ('k, 'v) rsm" where
  "rs_subscript k d (m, h) =
     (case m k of
       None \<Rightarrow> (case make_unique d h of (a, h') \<Rightarrow> (Inr a, m(k := Some (Some a)), h'))
     | Some None \<Rightarrow> (Inl Undef, m, h)
     | Some (Some a) \<Rightarrow> (Inr a, m, h))"

fun rs_at :: "'k \<Rightarrow> ('k, 'v) rsm \<Rightarrow> nat res" where
  "rs_at k (m, h) = (case m k of None \<Rightarrow> Inl Throws | Some None \<Rightarrow> Inl Undef | Some (Some a) \<Rightarrow> Inr a)"

fun rs_find :: "'k \<Rightarrow> ('k, 'v) rsm \<Rightarrow> 'k option" where
  "rs_find k (m, h) = (if m k = None then None else Some k)"

definition rs_contains :: "'k \<Rightarrow> ('k, 'v) rsm \<Rightarrow> bool" where
  "rs_contains k s \<longleftrightarrow> rs_find k s \<noteq> None"

text \<open>\<open>*it\<close> of an iterator at a key.\<close>

fun rs_read :: "'k \<Rightarrow> ('k, 'v) rsm \<Rightarrow> ('k \<times> 'v) res" where
  "rs_read k (m, h) = (case m k of None \<Rightarrow> Inl Undef | Some x \<Rightarrow> rmap (Pair k) (ind_deref x h))"

fun rs_erase :: "'k \<Rightarrow> ('k, 'v) rsm \<Rightarrow> ('k, 'v) rsm" where
  "rs_erase k (m, h) = (case m k of None \<Rightarrow> (m, h) | Some x \<Rightarrow> (m(k := None), free_cell x h))"

text \<open>A range of iterators is the list of its keys.\<close>

definition rs_erase_range :: "'k list \<Rightarrow> ('k, 'v) rsm \<Rightarrow> ('k, 'v) rsm" where
  "rs_erase_range ks s = fold rs_erase ks s"

fun rs_clear :: "('k, 'v) rsm \<Rightarrow> ('k, 'v) rsm" where
  "rs_clear (m, h) = (Map.empty, h\<lparr>cell := (\<lambda>a. if Some (Some a) \<in> range m then None else cell h a)\<rparr>)"

definition rs_size :: "('k, 'v) rsm \<Rightarrow> nat" where "rs_size s = card (dom (fst s))"
definition rs_is_empty :: "('k, 'v) rsm \<Rightarrow> bool" where "rs_is_empty s \<longleftrightarrow> rs_size s = 0"

text \<open>A node that was taken out: its key and its value. Taking out at the end gives one with default values.\<close>

fun rs_extract :: "'k \<Rightarrow> ('k, 'v) rsm \<Rightarrow> ('k \<times> ind) res \<times> ('k, 'v) rsm" where
  "rs_extract k (m, h) = (case m k of None \<Rightarrow> (Inl Throws, m, h) | Some x \<Rightarrow> (Inr (k, x), m(k := None), h))"

fun rs_extract_at :: "'k \<Rightarrow> 'v \<Rightarrow> 'k option \<Rightarrow> ('k, 'v) rsm \<Rightarrow> ('k \<times> ind) \<times> ('k, 'v) rsm" where
  "rs_extract_at dk dv it (m, h) =
     (case Option.bind it (\<lambda>k. map_option (Pair k) (m k)) of
       None \<Rightarrow> (case ind_of dv h of (x, h') \<Rightarrow> ((dk, x), m, h'))
     | Some (k, x) \<Rightarrow> ((k, x), m(k := None), h))"

text \<open>Giving a node back: only \<open>insert(value_type)\<close> fits its pair, which copies the value.\<close>

fun rs_insert_node :: "'k \<times> ind \<Rightarrow> ('k, 'v) rsm \<Rightarrow> ('k, 'v) rsm res" where
  "rs_insert_node (k, x) (m, h) = rmap (\<lambda>v. snd (rs_insert k v (m, h))) (ind_deref x h)"

text \<open>The table emplaces, and assigns to the \<open>indirect\<close> when the key was there.\<close>

fun rs_insert_or_assign :: "'k \<Rightarrow> 'v \<Rightarrow> ('k, 'v) rsm \<Rightarrow> bool \<times> ('k, 'v) rsm" where
  "rs_insert_or_assign k v (m, h) =
     (case m k of
       None \<Rightarrow> rs_emplace k v (m, h)
     | Some x \<Rightarrow> (case ind_assign_value x v h of (y, h') \<Rightarrow> (False, m(k := Some y), h')))"

text \<open>The table compares sizes and asks for every element whether the values differ, which \<open>ind_neq\<close> answers.\<close>

definition rs_equal :: "'k list \<Rightarrow> ('k, 'v) rsm \<Rightarrow> ('k, 'v) rsm \<Rightarrow> bool res" where
  "rs_equal order s t =
     (if rs_size s \<noteq> rs_size t then Inr False
      else fold (\<lambda>k r. rbind r (\<lambda>b. if \<not> b then Inr False else
        case (fst s k, fst t k) of
          (Some x, Some y) \<Rightarrow> rbind (ind_deref y (snd t)) (\<lambda>v. rmap Not (ind_neq x v (snd s)))
        | _ \<Rightarrow> Inr False)) order (Inr True))"

section \<open>Operations and what they should do\<close>

datatype ('k, 'v) rs_op =
  Insert 'k 'v | Emplace 'k 'v | Subscript 'k 'v | Erase 'k | Clear | Extract 'k | Insert_or_assign 'k 'v | Write 'k 'v

text \<open>\<open>Subscript\<close> carries the default, \<open>Extract\<close> drops its node and \<open>Write\<close> assigns to \<open>at\<close>, if that does not throw.\<close>

fun rs_do :: "('k, 'v) rs_op \<Rightarrow> ('k, 'v) rsm \<Rightarrow> ('k, 'v) rsm" where
  "rs_do (Insert k v) s = snd (rs_insert k v s)"
| "rs_do (Emplace k v) s = snd (rs_emplace k v s)"
| "rs_do (Subscript k d) s = snd (rs_subscript k d s)"
| "rs_do (Erase k) s = rs_erase k s"
| "rs_do Clear s = rs_clear s"
| "rs_do (Extract k) s = (case rs_extract k s of (Inl _, t) \<Rightarrow> t | (Inr (_, x), m, h) \<Rightarrow> (m, free_cell x h))"
| "rs_do (Insert_or_assign k v) s = snd (rs_insert_or_assign k v s)"
| "rs_do (Write k v) s = (case rs_at k s of Inl _ \<Rightarrow> s | Inr a \<Rightarrow> (fst s, write_cell a v (snd s)))"

definition put_new :: "'k \<Rightarrow> 'v \<Rightarrow> ('k \<rightharpoonup> 'v) \<Rightarrow> 'k \<rightharpoonup> 'v" where
  "put_new k v m = (if m k = None then m(k \<mapsto> v) else m)"

fun map_do :: "('k, 'v) rs_op \<Rightarrow> ('k \<rightharpoonup> 'v) \<Rightarrow> 'k \<rightharpoonup> 'v" where
  "map_do (Insert k v) m = put_new k v m"
| "map_do (Emplace k v) m = put_new k v m"
| "map_do (Subscript k d) m = put_new k d m"
| "map_do (Erase k) m = m(k := None)"
| "map_do Clear m = Map.empty"
| "map_do (Extract k) m = m(k := None)"
| "map_do (Insert_or_assign k v) m = m(k \<mapsto> v)"
| "map_do (Write k v) m = (if m k = None then m else m(k \<mapsto> v))"

fun removes :: "('k, 'v) rs_op \<Rightarrow> 'k \<Rightarrow> bool" where
  "removes (Erase k) x \<longleftrightarrow> x = k"
| "removes (Extract k) x \<longleftrightarrow> x = k"
| "removes Clear x \<longleftrightarrow> True"
| "removes _ x \<longleftrightarrow> False"

section \<open>The map is a map, and its references are stable\<close>

text \<open>Every key has a cell of its own.\<close>

definition rs_ok :: "('k, 'v) rsm \<Rightarrow> bool" where
  "rs_ok s \<longleftrightarrow> (\<forall>k x. fst s k = Some x \<longrightarrow> (\<exists>a v. x = Some a \<and> a < fresh_cell (snd s) \<and> cell (snd s) a = Some v))
     \<and> (\<forall>k l a. fst s k = Some (Some a) \<longrightarrow> fst s l = Some (Some a) \<longrightarrow> k = l)"

definition rs_view :: "('k, 'v) rsm \<Rightarrow> 'k \<rightharpoonup> 'v" where
  "rs_view s k = Option.bind (fst s k) (\<lambda>x. Option.bind x (cell (snd s)))"

lemmas rs_defs = ind_of_def make_unique_def free_cell_def write_cell_def ind_assign_value_def ind_deref_def put_new_def

lemma rs_ok_cell: "rs_ok (m, h) \<Longrightarrow> m k = Some x \<Longrightarrow> \<exists>a v. x = Some a \<and> a < fresh_cell h \<and> cell h a = Some v"
  by (simp add: rs_ok_def)

lemma rs_ok_inj: "rs_ok (m, h) \<Longrightarrow> m k = Some (Some a) \<Longrightarrow> m l = Some (Some a) \<Longrightarrow> k = l"
  unfolding rs_ok_def by (metis fst_conv)

lemma rs_okI:
  assumes "\<And>k x. m k = Some x \<Longrightarrow> \<exists>a v. x = Some a \<and> a < fresh_cell h \<and> cell h a = Some v"
    and "\<And>k l a. m k = Some (Some a) \<Longrightarrow> m l = Some (Some a) \<Longrightarrow> k = l"
  shows "rs_ok (m, h)"
  using assms by (simp add: rs_ok_def)

lemma rs_ok_less: "rs_ok (m, h) \<Longrightarrow> m k = Some (Some a) \<Longrightarrow> a < fresh_cell h"
  using rs_ok_cell [of m h k "Some a"] by auto

text \<open>The elementary changes: a new key, a cell that is not used, another value, a key less.\<close>

lemma rs_put:
  assumes "rs_ok (m, h)" "m k = None"
  shows "rs_ok (m(k := Some (Some (fresh_cell h))), snd (make_unique v h))"
    and "rs_view (m(k := Some (Some (fresh_cell h))), snd (make_unique v h)) = (rs_view (m, h))(k \<mapsto> v)"
proof -
  have old: "a \<noteq> fresh_cell h" if "m l = Some (Some a)" for l a using rs_ok_less [OF assms(1) that] by simp
  show "rs_ok (m(k := Some (Some (fresh_cell h))), snd (make_unique v h))"
  proof (rule rs_okI)
    fix l x assume l: "(m(k := Some (Some (fresh_cell h)))) l = Some x"
    show "\<exists>a w. x = Some a \<and> a < fresh_cell (snd (make_unique v h)) \<and> cell (snd (make_unique v h)) a = Some w"
    proof (cases "l = k")
      case False
      then obtain a w where "x = Some a" "a < fresh_cell h" "cell h a = Some w" using l rs_ok_cell [OF assms(1), of l x] by auto
      then show ?thesis by (simp add: make_unique_def)
    qed (use l in \<open>auto simp: make_unique_def\<close>)
  next
    fix l l' a assume l: "(m(k := Some (Some (fresh_cell h)))) l = Some (Some a)" "(m(k := Some (Some (fresh_cell h)))) l' = Some (Some a)"
    have new: "i = k \<longleftrightarrow> a = fresh_cell h" if "(m(k := Some (Some (fresh_cell h)))) i = Some (Some a)" for i
      using that old [of i a] by (auto split: if_splits)
    show "l = l'"
    proof (cases "a = fresh_cell h")
      case False
      then have "l \<noteq> k" "l' \<noteq> k" using new l by blast+
      then have "m l = Some (Some a)" "m l' = Some (Some a)" using l by simp_all
      then show ?thesis by (rule rs_ok_inj [OF assms(1)])
    qed (use new l in blast)
  qed
  show "rs_view (m(k := Some (Some (fresh_cell h))), snd (make_unique v h)) = (rs_view (m, h))(k \<mapsto> v)"
  proof
    fix l
    show "rs_view (m(k := Some (Some (fresh_cell h))), snd (make_unique v h)) l = ((rs_view (m, h))(k \<mapsto> v)) l"
      using old [of l] by (auto simp: rs_view_def make_unique_def split: bind_split)
  qed
qed

lemma rs_junk:
  assumes "rs_ok (m, h)"
  shows "rs_ok (m, free_cell (Some (fresh_cell h)) (snd (make_unique v h)))"
    and "rs_view (m, free_cell (Some (fresh_cell h)) (snd (make_unique v h))) = rs_view (m, h)"
proof -
  have old: "a \<noteq> fresh_cell h" if "m l = Some (Some a)" for l a using rs_ok_less [OF assms that] by simp
  show "rs_ok (m, free_cell (Some (fresh_cell h)) (snd (make_unique v h)))"
  proof (rule rs_okI)
    fix l x assume "m l = Some x"
    moreover from this obtain a w where "x = Some a" "a < fresh_cell h" "cell h a = Some w" using rs_ok_cell [OF assms] by blast
    ultimately show "\<exists>a w. x = Some a \<and> a < fresh_cell (free_cell (Some (fresh_cell h)) (snd (make_unique v h)))
        \<and> cell (free_cell (Some (fresh_cell h)) (snd (make_unique v h))) a = Some w"
      using old [of l a] by (simp add: make_unique_def free_cell_def)
  qed (rule rs_ok_inj [OF assms])
  show "rs_view (m, free_cell (Some (fresh_cell h)) (snd (make_unique v h))) = rs_view (m, h)"
    using old by (auto simp: rs_view_def fun_eq_iff make_unique_def free_cell_def split: bind_splits)
qed

lemma rs_over:
  assumes "rs_ok (m, h)" "m k = Some (Some a)"
  shows "rs_ok (m, write_cell a v h)" "rs_view (m, write_cell a v h) = (rs_view (m, h))(k \<mapsto> v)"
proof -
  have other: "b \<noteq> a" if "m l = Some (Some b)" "l \<noteq> k" for l b using rs_ok_inj [OF assms(1,2)] that by auto
  show "rs_ok (m, write_cell a v h)"
  proof (rule rs_okI)
    fix l x assume "m l = Some x"
    then show "\<exists>b w. x = Some b \<and> b < fresh_cell (write_cell a v h) \<and> cell (write_cell a v h) b = Some w"
      using rs_ok_cell [OF assms(1), of l x] by (auto simp: write_cell_def)
  qed (rule rs_ok_inj [OF assms(1)])
  show "rs_view (m, write_cell a v h) = (rs_view (m, h))(k \<mapsto> v)"
    using other assms(2) by (auto simp: rs_view_def fun_eq_iff write_cell_def split: bind_splits)
qed

lemma rs_less:
  assumes "rs_ok (m, h)" "m k = Some (Some a)"
  shows "rs_ok (m(k := None), free_cell (Some a) h)" "rs_view (m(k := None), free_cell (Some a) h) = (rs_view (m, h))(k := None)"
proof -
  have other: "b \<noteq> a" if "m l = Some (Some b)" "l \<noteq> k" for l b using rs_ok_inj [OF assms(1,2)] that by auto
  show "rs_ok (m(k := None), free_cell (Some a) h)"
  proof (rule rs_okI)
    fix l x assume "(m(k := None)) l = Some x"
    then show "\<exists>b w. x = Some b \<and> b < fresh_cell (free_cell (Some a) h) \<and> cell (free_cell (Some a) h) b = Some w"
      using rs_ok_cell [OF assms(1), of l x] other [of l] by (auto simp: free_cell_def split: if_splits)
  next
    fix l l' b assume "(m(k := None)) l = Some (Some b)" "(m(k := None)) l' = Some (Some b)"
    then show "l = l'" by (intro rs_ok_inj [OF assms(1), of l b l']) (auto split: if_splits)
  qed
  show "rs_view (m(k := None), free_cell (Some a) h) = (rs_view (m, h))(k := None)"
    using other assms(2) by (auto simp: rs_view_def fun_eq_iff free_cell_def split: bind_splits)
qed

lemma rs_all_gone: "rs_ok (rs_clear (m, h))" "rs_view (rs_clear (m, h)) = Map.empty"
  by (auto simp: rs_ok_def rs_view_def fun_eq_iff)

lemma rs_view_none: "rs_ok (m, h) \<Longrightarrow> rs_view (m, h) k = None \<longleftrightarrow> m k = None"
  using rs_ok_cell [of m h k] by (cases "m k") (auto simp: rs_view_def)

lemma rs_at_iff: "rs_at k s = Inr a \<longleftrightarrow> fst s k = Some (Some a)"
  by (cases s) (auto split: option.split)

text \<open>What an operation is on a key that is not there, and on one that is.\<close>

lemma rs_do_absent:
  assumes "m l = None"
  shows "rs_do (Insert l v) (m, h) = (m(l := Some (Some (fresh_cell h))), snd (make_unique v h))"
    "rs_do (Emplace l v) (m, h) = (m(l := Some (Some (fresh_cell h))), snd (make_unique v h))"
    "rs_do (Subscript l v) (m, h) = (m(l := Some (Some (fresh_cell h))), snd (make_unique v h))"
    "rs_do (Insert_or_assign l v) (m, h) = (m(l := Some (Some (fresh_cell h))), snd (make_unique v h))"
    "rs_do (Erase l) (m, h) = (m, h)" "rs_do (Extract l) (m, h) = (m, h)" "rs_do (Write l v) (m, h) = (m, h)"
  using assms by (simp_all add: ind_of_def make_unique_def)

lemma rs_do_present:
  assumes "m l = Some (Some b)"
  shows "rs_do (Insert l v) (m, h) = (m, free_cell (Some (fresh_cell h)) (snd (make_unique v h)))"
    "rs_do (Emplace l v) (m, h) = (m, h)" "rs_do (Subscript l v) (m, h) = (m, h)"
    "rs_do (Insert_or_assign l v) (m, h) = (m, write_cell b v h)"
    "rs_do (Erase l) (m, h) = (m(l := None), free_cell (Some b) h)" "rs_do (Extract l) (m, h) = (m(l := None), free_cell (Some b) h)"
    "rs_do (Write l v) (m, h) = (m, write_cell b v h)"
  using assms by (simp_all add: ind_of_def make_unique_def ind_assign_value_def fun_upd_idem)

lemma rs_do_key:
  assumes ok: "rs_ok (m, h)" and op: "op \<in> {Insert l v, Emplace l v, Subscript l v, Insert_or_assign l v, Erase l, Extract l, Write l v}"
  shows "rs_ok (rs_do op (m, h)) \<and> rs_view (rs_do op (m, h)) = map_do op (rs_view (m, h))
    \<and> (\<not> removes op k \<longrightarrow> m k = Some (Some a) \<longrightarrow> fst (rs_do op (m, h)) k = Some (Some a))"
proof (cases "m l")
  case None
  then show ?thesis using op rs_put [OF ok None, of v] ok rs_view_none [OF ok, of l]
    by (auto simp: rs_do_absent put_new_def fun_upd_idem simp del: rs_do.simps)
next
  case (Some x)
  then obtain b where b: "m l = Some (Some b)" using rs_ok_cell [OF ok Some] by auto
  have "rs_view (m, h) l \<noteq> None" using rs_view_none [OF ok, of l] Some by simp
  then show ?thesis using op rs_junk [OF ok, of v] rs_over [OF ok b, of v] rs_less [OF ok b] ok b
    by (auto simp: rs_do_present put_new_def simp del: rs_do.simps)
qed


lemma rs_run_refines:
  assumes "rs_ok s"
  shows "rs_ok (fold rs_do ops s) \<and> rs_view (fold rs_do ops s) = fold map_do ops (rs_view s)"
  using assms
proof (induction ops arbitrary: s)
  case (Cons op ops)
  obtain m h where s: "s = (m, h)" by force
  have "rs_ok (rs_do op s) \<and> rs_view (rs_do op s) = map_do op (rs_view s)"
    using rs_do_key [OF Cons.prems [unfolded s]] rs_all_gone [of m h] unfolding s by (cases op) (simp_all del: rs_do.simps(1-4,6-8))
  then show ?case using Cons.IH [of "rs_do op s"] by simp
qed simp

text \<open>Two maps are compared with the values' inequality inverted: a map that is not empty differs from itself.\<close>

lemma rs_equal_false: "fold (\<lambda>k r. rbind r (\<lambda>b. if \<not> b then Inr False else f k)) ks (Inr False) = Inr False"
  by (induction ks) (simp_all add: rbind_def)

lemma rs_equal_itself:
  assumes "rs_ok (m, h)" "set order \<subseteq> dom m" "order \<noteq> []"
  shows "rs_equal order (m, h) (m, h) = Inr False"
proof -
  obtain k ks where order: "order = k # ks" using assms(3) by (cases order) auto
  then obtain x where x: "m k = Some x" using assms(2) by auto
  then obtain a v where "x = Some a" "cell h a = Some v" using rs_ok_cell [OF assms(1)] by blast
  then show ?thesis using x order
    by (simp add: rs_equal_def ind_neq_def ind_deref_def rbind_def rmap_def rs_equal_false [unfolded rbind_def])
qed

text \<open>A node that is taken out and given back has its value copied: the references follow the node, not the map.\<close>

lemma node_comes_back_elsewhere:
  assumes "rs_ok (m, h)" "rs_extract k (m, h) = (Inr n, t)" "rs_insert_node n t = Inr u"
  shows "rs_view u = rs_view (m, h)" "rs_at k u \<noteq> rs_at k (m, h)"
proof -
  obtain x where x: "m k = Some x" using assms(2) by (cases "m k") auto
  then obtain a v where a: "x = Some a" "a < fresh_cell h" "cell h a = Some v" using rs_ok_cell [OF assms(1)] by blast
  have n: "n = (k, Some a)" and t: "t = (m(k := None), h)" using assms(2) x a by auto
  have u: "u = (m(k := Some (Some (fresh_cell h))), snd (make_unique v h))"
    using assms(3) a unfolding n t by (simp add: ind_deref_def rmap_def ind_of_def make_unique_def)
  show "rs_at k u \<noteq> rs_at k (m, h)" using x a by (simp add: u)
  show "rs_view u = rs_view (m, h)"
  proof
    fix l
    have "b \<noteq> fresh_cell h" if "m l = Some (Some b)" for b using rs_ok_less [OF assms(1) that] by simp
    then show "rs_view u l = rs_view (m, h) l" using x a by (auto simp: rs_view_def u make_unique_def split: bind_split)
  qed
qed

lemma copy_of_moved_undefined: "ind_copy (snd (ind_move x)) h = Inl Undef"
  by (simp add: ind_copy_def ind_move_def ind_deref_def rmap_def)

section \<open>The map of counted pointers\<close>

text \<open>\<open>ref_stable_map2\<close> (\<open>common/ref_stable2.h\<close>) has pointers that count (\<open>Ref_Count\<close>) in the place of owning ones: the state has the counts beside
  the cells. What belongs to the map is counted in it once.\<close>

type_synonym ('k, 'v) rs2 = "'k table \<times> 'v cells \<times> (nat \<Rightarrow> nat)"

definition make_ref_count_ptr :: "'v \<Rightarrow> 'v cells \<times> (nat \<Rightarrow> nat) \<Rightarrow> nat \<times> 'v cells \<times> (nat \<Rightarrow> nat)" where
  "make_ref_count_ptr v hc = (case make_unique v (fst hc) of (a, h) \<Rightarrow> (a, h, (snd hc)(a := 1)))"

definition drop_ptr :: "ind \<Rightarrow> 'v cells \<times> (nat \<Rightarrow> nat) \<Rightarrow> 'v cells \<times> (nat \<Rightarrow> nat)" where
  "drop_ptr x hc = (case x of None \<Rightarrow> hc
     | Some a \<Rightarrow> (if snd hc a = 1 then free_cell x (fst hc) else fst hc, (snd hc)(a := snd hc a - 1)))"

text \<open>\<open>insert\<close> and \<open>emplace\<close> make the object before they look for the key.\<close>

fun rs2_insert :: "'k \<Rightarrow> 'v \<Rightarrow> ('k, 'v) rs2 \<Rightarrow> bool \<times> ('k, 'v) rs2" where
  "rs2_insert k v (m, hc) = (case make_ref_count_ptr v hc of (a, hc') \<Rightarrow>
     if m k = None then (True, m(k := Some (Some a)), hc') else (False, m, drop_ptr (Some a) hc'))"

fun rs2_emplace :: "'k \<Rightarrow> 'v \<Rightarrow> ('k, 'v) rs2 \<Rightarrow> bool \<times> ('k, 'v) rs2" where
  "rs2_emplace k v (m, hc) = (case make_ref_count_ptr v hc of (a, hc') \<Rightarrow>
     if m k = None then (True, m(k := Some (Some a)), hc') else (False, m, drop_ptr (Some a) hc'))"

fun rs2_subscript :: "'k \<Rightarrow> 'v \<Rightarrow> ('k, 'v) rs2 \<Rightarrow> nat \<times> ('k, 'v) rs2" where
  "rs2_subscript k d (m, hc) =
     (case Option.bind (m k) (\<lambda>x. x) of
       None \<Rightarrow> (case make_ref_count_ptr d hc of (a, hc') \<Rightarrow> (a, m(k := Some (Some a)), hc'))
     | Some a \<Rightarrow> (a, m, hc))"

fun rs2_at :: "'k \<Rightarrow> ('k, 'v) rs2 \<Rightarrow> nat res" where
  "rs2_at k (m, hc) = (case m k of None \<Rightarrow> Inl Throws | Some None \<Rightarrow> Inl Undef | Some (Some a) \<Rightarrow> Inr a)"

fun rs2_erase :: "'k \<Rightarrow> ('k, 'v) rs2 \<Rightarrow> ('k, 'v) rs2" where
  "rs2_erase k (m, hc) = (case m k of None \<Rightarrow> (m, hc) | Some x \<Rightarrow> (m(k := None), drop_ptr x hc))"

fun rs2_extract :: "'k \<Rightarrow> ('k, 'v) rs2 \<Rightarrow> ('k \<times> ind) res \<times> ('k, 'v) rs2" where
  "rs2_extract k (m, hc) = (case m k of None \<Rightarrow> (Inl Throws, m, hc) | Some x \<Rightarrow> (Inr (k, x), m(k := None), hc))"

fun rs2_insert_or_assign :: "'k \<Rightarrow> 'v \<Rightarrow> ('k, 'v) rs2 \<Rightarrow> bool \<times> ('k, 'v) rs2" where
  "rs2_insert_or_assign k v (m, hc) = (case make_ref_count_ptr v hc of (a, hc') \<Rightarrow>
     case m k of None \<Rightarrow> (True, m(k := Some (Some a)), hc')
     | Some x \<Rightarrow> (False, m(k := Some (Some a)), drop_ptr x hc'))"

text \<open>Here assigning to a key does not keep references: the object is another one, and the old one is gone unless a pointer outside
  the map keeps it.\<close>

lemma rs2_assign_moves:
  assumes "m k = Some (Some a)" "a < fresh_cell h" "rs2_insert_or_assign k v (m, h, c) = (b, t)"
  shows "rs2_at k t \<noteq> Inr a" "c a = 1 \<Longrightarrow> cell (fst (snd t)) a = None" "c a \<noteq> 1 \<Longrightarrow> cell (fst (snd t)) a = cell h a"
  using assms by (auto simp: make_ref_count_ptr_def make_unique_def drop_ptr_def free_cell_def)

section \<open>A concrete map\<close>

definition two_roles :: "(nat, string) rsm" where
  "two_roles = fold rs_do [Insert 1 ''admin'', Emplace 2 ''guest'', Insert 1 ''again'', Erase 3] (Map.empty, no_cells)"

lemma two_roles_ok: "rs_ok two_roles"
  unfolding two_roles_def by (rule rs_run_refines [THEN conjunct1]) (simp add: rs_ok_def no_cells_def)

lemma two_roles_at: "rs_at 2 two_roles = Inr 1" "rs_view two_roles 1 = Some ''admin''"
  by (simp_all add: two_roles_def no_cells_def rs_view_def ind_of_def make_unique_def free_cell_def)


end
