(* ===== verification/Nc_Waiting.thy ===== *)
theory Nc_Waiting
  imports Prelude "HOL-Library.Multiset"
begin

text \<open>
  How the user waits for a response in the library without a cache: \<open>shared_state\<close> and the waiting functions of \<open>request_base\<close>
  (\<open>no_cache/requests.h\<close>), with the connection's side of it (\<open>http_connection2::send_to_discord\<close>). Any number of coroutines suspend
  and any number of threads block, while the connection sends, may be limited and sends again, and completes. Each step is what one
  of them does between two operations on an atomic or a mutex, and the steps come in any order that the mutexes allow.
\<close>

section \<open>The state\<close>

text \<open>The connection holds \<open>ready_mut\<close> while it sends, until it has notified.\<close>

datatype sending_phase = Not_sending | Under_way | Completed | Threads_told | Finished

datatype thread_phase = Asleep | Woken | Returned

text \<open>\<open>ss_pushing\<close> is the coroutine that holds \<open>waiter_mut\<close>, having seen that the response is not there. \<open>ss_resumed\<close> are
  the coroutines that were resumed or posted to be, in order.\<close>

record shared_state =
  ss_done :: bool
  ss_waiters :: "nat list"
  ss_pushing :: "nat option"
  ss_resumed :: "nat list"
  ss_threads :: "nat \<Rightarrow> thread_phase option"
  ss_phase :: sending_phase

definition new_shared_state :: shared_state where
  "new_shared_state = \<lparr>ss_done = False, ss_waiters = [], ss_pushing = None, ss_resumed = [], ss_threads = (\<lambda>_. None), ss_phase = Not_sending\<rparr>"

text \<open>\<open>ready_mut\<close> is free.\<close>

definition ready_free :: "shared_state \<Rightarrow> bool" where
  "ready_free s \<longleftrightarrow> ss_phase s = Not_sending \<or> ss_phase s = Finished"

section \<open>Waiting\<close>

text \<open>\<open>await_suspend\<close>: under \<open>waiter_mut\<close> the response is asked for; the coroutine goes on at once, or it is stored in a second step,
  between which the connection may complete.\<close>

definition await_suspend :: "nat \<Rightarrow> shared_state \<Rightarrow> shared_state" where
  "await_suspend h s = (if ss_done s then s\<lparr>ss_resumed := ss_resumed s @ [h]\<rparr> else s\<lparr>ss_pushing := Some h\<rparr>)"

definition push_waiter :: "nat \<Rightarrow> shared_state \<Rightarrow> shared_state" where
  "push_waiter h s = s\<lparr>ss_waiters := ss_waiters s @ [h], ss_pushing := None\<rparr>"

text \<open>\<open>wait\<close> asks under \<open>ready_mut\<close> and sleeps if there is no response, as often as it is woken.\<close>

definition wait_once :: "nat \<Rightarrow> shared_state \<Rightarrow> shared_state" where
  "wait_once t s = s\<lparr>ss_threads := (ss_threads s)(t := Some (if ss_done s then Returned else Asleep))\<rparr>"

definition wake_thread :: "nat \<Rightarrow> shared_state \<Rightarrow> shared_state" where
  "wake_thread t s = s\<lparr>ss_threads := (ss_threads s)(t := Some Woken)\<rparr>"

section \<open>The connection\<close>

text \<open>\<open>send_to_discord\<close> takes \<open>ready_mut\<close>; a limit ends the sending, and the request is sent again later.\<close>

definition begin_sending :: "shared_state \<Rightarrow> shared_state" where "begin_sending s = s\<lparr>ss_phase := Under_way\<rparr>"
definition put_off :: "shared_state \<Rightarrow> shared_state" where "put_off s = s\<lparr>ss_phase := Not_sending\<rparr>"
definition complete :: "shared_state \<Rightarrow> shared_state" where "complete s = s\<lparr>ss_done := True, ss_phase := Completed\<rparr>"

text \<open>\<open>notify\<close>: the threads, then under \<open>waiter_mut\<close> the coroutines.\<close>

definition notify_threads :: "shared_state \<Rightarrow> shared_state" where
  "notify_threads s = s\<lparr>ss_threads := (\<lambda>t. map_option (\<lambda>p. if p = Asleep then Woken else p) (ss_threads s t)), ss_phase := Threads_told\<rparr>"

definition notify_coroutines :: "shared_state \<Rightarrow> shared_state" where
  "notify_coroutines s = s\<lparr>ss_resumed := ss_resumed s @ ss_waiters s, ss_waiters := [], ss_phase := Finished\<rparr>"

section \<open>Runs\<close>

text \<open>A thread can also be woken by nothing.\<close>

datatype ss_action = Await nat | Push | Block nat | Recheck nat | Spurious nat
  | Send | Limit | Complete | Notify_threads | Notify_coroutines

fun ss_step :: "ss_action \<Rightarrow> shared_state \<Rightarrow> shared_state option" where
  "ss_step (Await h) s = (if ss_pushing s = None then Some (await_suspend h s) else None)"
| "ss_step Push s = map_option (\<lambda>h. push_waiter h s) (ss_pushing s)"
| "ss_step (Block t) s = (if ready_free s \<and> ss_threads s t = None then Some (wait_once t s) else None)"
| "ss_step (Recheck t) s = (if ready_free s \<and> ss_threads s t = Some Woken then Some (wait_once t s) else None)"
| "ss_step (Spurious t) s = (if ss_threads s t = Some Asleep then Some (wake_thread t s) else None)"
| "ss_step Send s = (if ss_phase s = Not_sending then Some (begin_sending s) else None)"
| "ss_step Limit s = (if ss_phase s = Under_way then Some (put_off s) else None)"
| "ss_step Complete s = (if ss_phase s = Under_way then Some (complete s) else None)"
| "ss_step Notify_threads s = (if ss_phase s = Completed then Some (notify_threads s) else None)"
| "ss_step Notify_coroutines s = (if ss_phase s = Threads_told \<and> ss_pushing s = None then Some (notify_coroutines s) else None)"

fun ss_run :: "ss_action list \<Rightarrow> shared_state \<Rightarrow> shared_state option" where
  "ss_run [] s = Some s"
| "ss_run (x # xs) s = Option.bind (ss_step x s) (ss_run xs)"

text \<open>The coroutines that a run has suspended, in order.\<close>

definition awaited :: "ss_action list \<Rightarrow> nat list" where
  "awaited xs = concat (map (\<lambda>x. case x of Await h \<Rightarrow> [h] | _ \<Rightarrow> []) xs)"

lemma awaited_simps [simp]: "awaited [] = []" "awaited (x # xs) = (case x of Await h \<Rightarrow> h # awaited xs | _ \<Rightarrow> awaited xs)"
  by (auto simp: awaited_def split: ss_action.split)

section \<open>Nobody is forgotten\<close>

definition all_coroutines :: "shared_state \<Rightarrow> nat multiset" where
  "all_coroutines s = mset (ss_resumed s) + mset (ss_waiters s) + mset (case ss_pushing s of None \<Rightarrow> [] | Some h \<Rightarrow> [h])"

definition ss_ok :: "shared_state \<Rightarrow> bool" where
  "ss_ok s \<longleftrightarrow> (ss_done s \<longleftrightarrow> ss_phase s \<in> {Completed, Threads_told, Finished})
     \<and> (\<not> ss_done s \<longrightarrow> ss_resumed s = [] \<and> (\<forall>t. ss_threads s t \<noteq> Some Returned))
     \<and> (ss_phase s = Finished \<longrightarrow> ss_waiters s = [] \<and> ss_pushing s = None)
     \<and> (ss_phase s = Threads_told \<or> ss_phase s = Finished \<longrightarrow> (\<forall>t. ss_threads s t \<noteq> Some Asleep))"

lemmas ss_defs = await_suspend_def push_waiter_def wait_once_def wake_thread_def begin_sending_def put_off_def complete_def
  notify_threads_def notify_coroutines_def ready_free_def all_coroutines_def

lemma ss_step_counts: "ss_step x s = Some t \<Longrightarrow> all_coroutines t = all_coroutines s + mset (awaited [x])"
  by (cases x) (auto simp: ss_defs split: if_splits option.splits)

lemma ss_step_ok:
  assumes "ss_ok s" "ss_step x s = Some t"
  shows "ss_ok t"
proof (cases x)
  case (Await h)
  then have "t = await_suspend h s" "ss_pushing s = None" using assms(2) by (simp_all split: if_splits)
  then show ?thesis using assms(1) by (auto simp: ss_ok_def await_suspend_def)
next
  case Push
  then obtain h where "t = push_waiter h s" "ss_pushing s = Some h" using assms(2) by auto
  then show ?thesis using assms(1) by (auto simp: ss_ok_def push_waiter_def)
next
  case (Block u)
  then have "t = wait_once u s" "ready_free s" using assms(2) by (simp_all split: if_splits)
  then show ?thesis using assms(1) by (auto simp: ss_ok_def wait_once_def ready_free_def)
next
  case (Recheck u)
  then have "t = wait_once u s" "ready_free s" using assms(2) by (simp_all split: if_splits)
  then show ?thesis using assms(1) by (auto simp: ss_ok_def wait_once_def ready_free_def)
next
  case (Spurious u)
  then have "t = wake_thread u s" using assms(2) by (simp split: if_splits)
  then show ?thesis using assms(1) by (auto simp: ss_ok_def wake_thread_def)
next
  case Send
  then have "t = begin_sending s" "ss_phase s = Not_sending" using assms(2) by (simp_all split: if_splits)
  then show ?thesis using assms(1) by (auto simp: ss_ok_def begin_sending_def)
next
  case Limit
  then have "t = put_off s" "ss_phase s = Under_way" using assms(2) by (simp_all split: if_splits)
  then show ?thesis using assms(1) by (auto simp: ss_ok_def put_off_def)
next
  case Complete
  then have "t = complete s" "ss_phase s = Under_way" using assms(2) by (simp_all split: if_splits)
  then show ?thesis using assms(1) by (auto simp: ss_ok_def complete_def)
next
  case Notify_threads
  then have "t = notify_threads s" "ss_phase s = Completed" using assms(2) by (simp_all split: if_splits)
  then show ?thesis using assms(1) by (auto simp: ss_ok_def notify_threads_def split: if_splits)
next
  case Notify_coroutines
  then have "t = notify_coroutines s" "ss_phase s = Threads_told" "ss_pushing s = None" using assms(2) by (simp_all split: if_splits)
  then show ?thesis using assms(1) by (auto simp: ss_ok_def notify_coroutines_def)
qed

lemma new_state_ok: "ss_ok new_shared_state" "all_coroutines new_shared_state = {#}"
  by (simp_all add: ss_ok_def all_coroutines_def new_shared_state_def)

lemma ss_run_ok:
  "ss_run xs s = Some t \<Longrightarrow> ss_ok s \<Longrightarrow> ss_ok t \<and> all_coroutines t = all_coroutines s + mset (awaited xs)"
proof (induction xs arbitrary: s)
  case (Cons x xs)
  then obtain u where u: "ss_step x s = Some u" "ss_run xs u = Some t" by (auto split: bind_splits)
  show ?case using Cons.IH [OF u(2) ss_step_ok [OF Cons.prems(2) u(1)]] ss_step_counts [OF u(1)]
    by (auto split: ss_action.splits)
qed simp

text \<open>What is left to do until the connection has finished with a request that is not limited any more.\<close>

definition finishing :: "shared_state \<Rightarrow> ss_action list" where
  "finishing s = (if ss_pushing s = None then [] else [Push]) @ (case ss_phase s of
      Not_sending \<Rightarrow> [Send, Complete, Notify_threads, Notify_coroutines]
    | Under_way \<Rightarrow> [Complete, Notify_threads, Notify_coroutines]
    | Completed \<Rightarrow> [Notify_threads, Notify_coroutines]
    | Threads_told \<Rightarrow> [Notify_coroutines]
    | Finished \<Rightarrow> [])"

lemma can_finish: "\<exists>t. ss_run (finishing s) s = Some t \<and> ss_phase t = Finished"
  by (cases "ss_phase s"; cases "ss_pushing s") (simp_all add: finishing_def ss_defs)

text \<open>C37: However the coroutines, threads and the connection interleave: nobody goes on before the response is there; when the connection has
  finished, every coroutine that was suspended has been resumed exactly once, no thread is asleep, and one that was woken returns at
  its next step. The connection can always finish.\<close>
theorem nobody_forgotten:
  assumes "ss_run xs new_shared_state = Some s"
  shows "(ss_resumed s \<noteq> [] \<or> ss_threads s t = Some Returned \<longrightarrow> ss_done s)
    \<and> (ss_phase s = Finished \<longrightarrow> mset (ss_resumed s) = mset (awaited xs) \<and> ss_threads s t \<noteq> Some Asleep
        \<and> (ss_threads s t = Some Woken \<longrightarrow> (\<exists>u. ss_step (Recheck t) s = Some u \<and> ss_threads u t = Some Returned)))
    \<and> (\<exists>u. ss_run (finishing s) s = Some u \<and> ss_phase u = Finished)"
  using ss_run_ok [OF assms new_state_ok(1)] new_state_ok(2) can_finish [of s]
  by (auto simp: ss_ok_def all_coroutines_def wait_once_def ready_free_def)

section \<open>A concrete run\<close>

text \<open>A coroutine asks just before the response comes and is stored after it, a thread sleeps through a limit, another coroutine comes
  when all is over.\<close>

definition crossing :: "ss_action list" where
  "crossing = [Block 1, Send, Limit, Await 5, Push, Send, Await 6, Complete, Notify_threads, Push, Notify_coroutines, Await 7, Recheck 1]"

lemma crossing_run: "\<exists>s. ss_run crossing new_shared_state = Some s \<and> ss_phase s = Finished"
  by (simp add: crossing_def new_shared_state_def ss_defs)

theorem nobody_forgotten_witness:
  "\<exists>s. ss_run crossing new_shared_state = Some s \<and> mset (ss_resumed s) = {#5, 6, 7#}"
proof -
  obtain s where s: "ss_run crossing new_shared_state = Some s" "ss_phase s = Finished" using crossing_run by blast
  then have "mset (ss_resumed s) = mset (awaited crossing)" using nobody_forgotten [OF s(1)] by blast
  then show ?thesis using s(1) by (simp add: crossing_def)
qed

end
