(* ===== verification/Nc_Requests.thy ===== *)
theory Nc_Requests
  imports Shard_Requests Nc_Connection Nc_Entities
begin

text \<open>
  The requests of the library without a cache (\<open>no_cache/requests.h\<close>, \<open>no_cache/src/shard.cpp\<close>, \<open>no_cache/shard.h\<close>): its classes with the
  version of its interface, what becomes of a response, and the requests of its shards, which take ids. They are made with the parts of
  \<open>Requests\<close> and \<open>Shard_Requests\<close>; an embed is written as there. How a user waits for a response is in \<open>Nc_Waiting\<close>.
\<close>

section \<open>The classes\<close>

definition nrq_get_guild :: "snowflake \<Rightarrow> request_class" where [request_defs]:
  "nrq_get_guild i = Rq Verb_get False (''/guilds/'' @ sf_text i)"

definition nrq_send_message :: "snowflake \<Rightarrow> request_class" where [request_defs]:
  "nrq_send_message ch = Rq Verb_post True (''/channels/'' @ sf_text ch @ ''/messages'')"

definition nrq_send_message_with_file :: "snowflake \<Rightarrow> request_class" where [request_defs]:
  "nrq_send_message_with_file ch = Rq Verb_post True (''/channels/'' @ sf_text ch @ ''/messages'')"

definition nrq_add_role :: "snowflake \<Rightarrow> snowflake \<Rightarrow> snowflake \<Rightarrow> request_class" where [request_defs]:
  "nrq_add_role g m r = Rq Verb_put False (''/guilds/'' @ sf_text g @ ''/members/'' @ sf_text m @ ''/roles/'' @ sf_text r)"

definition nrq_remove_role :: "snowflake \<Rightarrow> snowflake \<Rightarrow> snowflake \<Rightarrow> request_class" where [request_defs]:
  "nrq_remove_role g m r = Rq Verb_delete False (''/guilds/'' @ sf_text g @ ''/members/'' @ sf_text m @ ''/roles/'' @ sf_text r)"

definition nrq_create_role :: "snowflake \<Rightarrow> request_class" where [request_defs]:
  "nrq_create_role g = Rq Verb_post True (''/guilds/'' @ sf_text g @ ''/roles'')"

definition nrq_delete_role :: "snowflake \<Rightarrow> snowflake \<Rightarrow> request_class" where [request_defs]:
  "nrq_delete_role g r = Rq Verb_delete False (''/guilds/'' @ sf_text g @ ''/roles/'' @ sf_text r)"

definition nrq_modify_role :: "snowflake \<Rightarrow> snowflake \<Rightarrow> request_class" where [request_defs]:
  "nrq_modify_role g r = Rq Verb_patch True (''/guilds/'' @ sf_text g @ ''/roles/'' @ sf_text r)"

definition nrq_kick_member :: "snowflake \<Rightarrow> snowflake \<Rightarrow> request_class" where [request_defs]:
  "nrq_kick_member g m = Rq Verb_delete False (''/guilds/'' @ sf_text g @ ''/members/'' @ sf_text m)"

definition nrq_ban_member :: "snowflake \<Rightarrow> snowflake \<Rightarrow> request_class" where [request_defs]:
  "nrq_ban_member g m = Rq Verb_put True (''/guilds/'' @ sf_text g @ ''/bans/'' @ sf_text m)"

definition nrq_modify_member :: "snowflake \<Rightarrow> snowflake \<Rightarrow> request_class" where [request_defs]:
  "nrq_modify_member g m = Rq Verb_patch True (''/guilds/'' @ sf_text g @ ''/members/'' @ sf_text m)"

definition nrq_change_my_nick :: "snowflake \<Rightarrow> request_class" where [request_defs]:
  "nrq_change_my_nick g = Rq Verb_patch True (''/guilds/'' @ sf_text g @ ''/members/@me/nick'')"

definition nrq_delete_message :: "snowflake \<Rightarrow> snowflake \<Rightarrow> request_class" where [request_defs]:
  "nrq_delete_message ch msg = Rq Verb_delete False (''/channels/'' @ sf_text ch @ ''/messages/'' @ sf_text msg)"

definition nrq_edit_message :: "snowflake \<Rightarrow> snowflake \<Rightarrow> request_class" where [request_defs]:
  "nrq_edit_message ch msg = Rq Verb_patch True (''/channels/'' @ sf_text ch @ ''/messages/'' @ sf_text msg)"

definition nrq_get_messages :: "snowflake \<Rightarrow> request_class" where [request_defs]:
  "nrq_get_messages ch = Rq Verb_get True (''/channels/'' @ sf_text ch @ ''/messages'')"

definition nrq_unban_member :: "snowflake \<Rightarrow> snowflake \<Rightarrow> request_class" where [request_defs]:
  "nrq_unban_member g user_id = Rq Verb_delete False (''/guilds/'' @ sf_text g @ ''/bans/'' @ sf_text user_id)"

definition nrq_create_text_channel :: "snowflake \<Rightarrow> request_class" where [request_defs]:
  "nrq_create_text_channel g = Rq Verb_post True (''/guilds/'' @ sf_text g @ ''/channels'')"

definition nrq_create_voice_channel :: "snowflake \<Rightarrow> request_class" where [request_defs]:
  "nrq_create_voice_channel g = Rq Verb_post True (''/guilds/'' @ sf_text g @ ''/channels'')"

definition nrq_create_channel_catagory :: "snowflake \<Rightarrow> request_class" where [request_defs]:
  "nrq_create_channel_catagory g = Rq Verb_post True (''/guilds/'' @ sf_text g @ ''/channels'')"

definition nrq_delete_emoji :: "snowflake \<Rightarrow> snowflake \<Rightarrow> request_class" where [request_defs]:
  "nrq_delete_emoji g e = Rq Verb_delete False (''/guilds/'' @ sf_text g @ ''/emojis/'' @ sf_text e)"

definition nrq_modify_emoji :: "snowflake \<Rightarrow> snowflake \<Rightarrow> request_class" where [request_defs]:
  "nrq_modify_emoji g e = Rq Verb_patch True (''/guilds/'' @ sf_text g @ ''/emojis/'' @ sf_text e)"

definition nrq_delete_message_bulk :: "snowflake \<Rightarrow> request_class" where [request_defs]:
  "nrq_delete_message_bulk ch = Rq Verb_post True (''/channels/'' @ sf_text ch @ ''/messages/bulk-delete'')"

definition nrq_leave_guild :: "snowflake \<Rightarrow> request_class" where [request_defs]:
  "nrq_leave_guild g = Rq Verb_delete False (''/@me/guilds/'' @ sf_text g)"

definition nrq_get_voice_regions :: "request_class" where [request_defs]:
  "nrq_get_voice_regions = Rq Verb_get False (''/voice/regions'')"

definition nrq_current_guilds :: "request_class" where [request_defs]:
  "nrq_current_guilds = Rq Verb_get False (''/users/@me/guilds'')"

definition nrq_add_reaction :: "snowflake \<Rightarrow> snowflake \<Rightarrow> string \<Rightarrow> request_class" where [request_defs]:
  "nrq_add_reaction ch msg emo = Rq Verb_put False (''/channels/'' @ sf_text ch @ ''/messages/'' @ sf_text msg @ ''/reactions/'' @ emo @ ''/@me'')"

definition nrq_delete_own_reaction :: "snowflake \<Rightarrow> snowflake \<Rightarrow> string \<Rightarrow> request_class" where [request_defs]:
  "nrq_delete_own_reaction ch msg emo = Rq Verb_delete False (''/channels/'' @ sf_text ch @ ''/messages/'' @ sf_text msg @ ''/reactions/'' @ emo @ ''/@me'')"

definition nrq_delete_user_reaction :: "snowflake \<Rightarrow> snowflake \<Rightarrow> string \<Rightarrow> snowflake \<Rightarrow> request_class" where [request_defs]:
  "nrq_delete_user_reaction ch msg emo member = Rq Verb_delete False (''/channels/'' @ sf_text ch @ ''/messages/'' @ sf_text msg @ ''/reactions/'' @ emo @ ''/'' @ sf_text member)"

definition nrq_get_reactions :: "snowflake \<Rightarrow> snowflake \<Rightarrow> string \<Rightarrow> request_class" where [request_defs]:
  "nrq_get_reactions ch msg emo = Rq Verb_get False (''/channels/'' @ sf_text ch @ ''/messages/'' @ sf_text msg @ ''/reactions/'' @ emo)"

definition nrq_delete_all_reactions :: "snowflake \<Rightarrow> snowflake \<Rightarrow> request_class" where [request_defs]:
  "nrq_delete_all_reactions ch msg = Rq Verb_delete False (''/channels/'' @ sf_text ch @ ''/messages/'' @ sf_text msg @ ''/reactions'')"

definition nrq_delete_all_reactions_emoji :: "snowflake \<Rightarrow> snowflake \<Rightarrow> string \<Rightarrow> request_class" where [request_defs]:
  "nrq_delete_all_reactions_emoji ch msg emo = Rq Verb_delete False (''/channels/'' @ sf_text ch @ ''/messages/'' @ sf_text msg @ ''/reactions/'' @ emo)"

definition nrq_typing_start :: "snowflake \<Rightarrow> request_class" where [request_defs]:
  "nrq_typing_start ch = Rq Verb_post False (''/channels/'' @ sf_text ch @ ''/typing'')"

definition nrq_delete_channel_permission :: "snowflake \<Rightarrow> snowflake \<Rightarrow> request_class" where [request_defs]:
  "nrq_delete_channel_permission ch overwrite = Rq Verb_delete False (''/channels/'' @ sf_text ch @ ''/permissions/'' @ sf_text overwrite)"

definition nrq_modify_guild :: "snowflake \<Rightarrow> request_class" where [request_defs]:
  "nrq_modify_guild g = Rq Verb_patch True (''/guild/'' @ sf_text g)"

definition nrq_modify_channel_positions :: "snowflake \<Rightarrow> request_class" where [request_defs]:
  "nrq_modify_channel_positions g = Rq Verb_patch True (''/guilds/'' @ sf_text g @ ''/channels'')"

definition nrq_add_guild_member :: "snowflake \<Rightarrow> snowflake \<Rightarrow> request_class" where [request_defs]:
  "nrq_add_guild_member g i = Rq Verb_put True (''/guilds/'' @ sf_text g @ ''/members/'' @ sf_text i)"

definition nrq_delete_channel :: "snowflake \<Rightarrow> request_class" where [request_defs]:
  "nrq_delete_channel ch = Rq Verb_delete False (''/channels/'' @ sf_text ch)"

definition nrq_add_pinned_msg :: "snowflake \<Rightarrow> snowflake \<Rightarrow> request_class" where [request_defs]:
  "nrq_add_pinned_msg ch msg = Rq Verb_put False (''/channels/'' @ sf_text ch @ ''/pins/'' @ sf_text msg)"

definition nrq_remove_pinned_msg :: "snowflake \<Rightarrow> snowflake \<Rightarrow> request_class" where [request_defs]:
  "nrq_remove_pinned_msg ch msg = Rq Verb_delete False (''/channels/'' @ sf_text ch @ ''/pins/'' @ sf_text msg)"

definition nrq_list_guild_members :: "snowflake \<Rightarrow> request_class" where [request_defs]:
  "nrq_list_guild_members g = Rq Verb_get True (''/guilds/'' @ sf_text g @ ''/members'')"

definition nrq_edit_channel_permissions :: "snowflake \<Rightarrow> snowflake \<Rightarrow> request_class" where [request_defs]:
  "nrq_edit_channel_permissions ch overwrite = Rq Verb_put True (''/channels/'' @ sf_text ch @ ''/permissions/'' @ sf_text overwrite)"

definition nrq_create_dm :: "request_class" where [request_defs]:
  "nrq_create_dm = Rq Verb_post True (''/users/@me/channels'')"

definition nrq_create_group_dm :: "request_class" where [request_defs]:
  "nrq_create_group_dm = Rq Verb_post True (''/users/@me/channels'')"

definition nrq_create_channel_invite :: "snowflake \<Rightarrow> request_class" where [request_defs]:
  "nrq_create_channel_invite ch = Rq Verb_post True (''/channels/'' @ sf_text ch @ ''/invites'')"

definition nrq_get_invite :: "string \<Rightarrow> request_class" where [request_defs]:
  "nrq_get_invite code = Rq Verb_get True (''/invites/'' @ code)"

definition nrq_delete_invite :: "string \<Rightarrow> request_class" where [request_defs]:
  "nrq_delete_invite code = Rq Verb_delete False (''/invites/'' @ code)"

definition nrq_get_guild_integrations :: "snowflake \<Rightarrow> request_class" where [request_defs]:
  "nrq_get_guild_integrations g = Rq Verb_get False (''/guilds/'' @ sf_text g @ ''/integrations'')"

definition nrq_create_guild_integration :: "snowflake \<Rightarrow> request_class" where [request_defs]:
  "nrq_create_guild_integration g = Rq Verb_post True (''/guilds/'' @ sf_text g @ ''/integrations'')"

definition nrq_get_message :: "snowflake \<Rightarrow> snowflake \<Rightarrow> request_class" where [request_defs]:
  "nrq_get_message ch msg = Rq Verb_get False (''/channels/'' @ sf_text ch @ ''/messages/'' @ sf_text msg)"

definition nrq_get_webhook :: "snowflake \<Rightarrow> request_class" where [request_defs]:
  "nrq_get_webhook i = Rq Verb_get False (''/webhooks/'' @ sf_text i)"

definition nrq_get_webhook_with_token :: "snowflake \<Rightarrow> string \<Rightarrow> request_class" where [request_defs]:
  "nrq_get_webhook_with_token i token = Rq Verb_get False (''/webhooks/'' @ sf_text i @ ''/'' @ token)"

definition nrq_get_channel_webhooks :: "snowflake \<Rightarrow> request_class" where [request_defs]:
  "nrq_get_channel_webhooks ch = Rq Verb_get False (''/channels/'' @ sf_text ch @ ''/webhooks'')"

definition nrq_get_guild_webhooks :: "snowflake \<Rightarrow> request_class" where [request_defs]:
  "nrq_get_guild_webhooks g = Rq Verb_get False (''/channels/'' @ sf_text g @ ''/webhooks'')"

definition nrq_create_webhook :: "snowflake \<Rightarrow> request_class" where [request_defs]:
  "nrq_create_webhook ch = Rq Verb_post True (''/channels/'' @ sf_text ch @ ''/webhooks'')"

definition nrq_execute_webhook :: "snowflake \<Rightarrow> string \<Rightarrow> request_class" where [request_defs]:
  "nrq_execute_webhook i token = Rq Verb_post True (''/webhooks/'' @ sf_text i @ ''/'' @ token)"

definition nrq_modify_webhook :: "snowflake \<Rightarrow> request_class" where [request_defs]:
  "nrq_modify_webhook i = Rq Verb_patch True (''/webhooks/'' @ sf_text i)"

definition nrq_modify_webhook_with_token :: "snowflake \<Rightarrow> string \<Rightarrow> request_class" where [request_defs]:
  "nrq_modify_webhook_with_token i token = Rq Verb_patch True (''/webhooks/'' @ sf_text i @ ''/'' @ token)"

definition nrq_get_audit_log :: "snowflake \<Rightarrow> request_class" where [request_defs]:
  "nrq_get_audit_log g = Rq Verb_get False (''/guilds/'' @ sf_text g @ ''/audit-logs'')"

definition nrq_get_guild_channels :: "snowflake \<Rightarrow> request_class" where [request_defs]:
  "nrq_get_guild_channels g = Rq Verb_get False (''/guilds/'' @ sf_text g @ ''/channels'')"

section \<open>What the classes share\<close>

definition nc_api_target :: "request_class \<Rightarrow> string" where [request_defs]:
  "nc_api_target c = ''/api/v6'' @ rc_target c"

definition nc_handle_errors :: "bool \<Rightarrow> int \<Rightarrow> request_error option" where
  "nc_handle_errors stored status =
     (if stored then Some Stored
      else if status = 400 then Some Bad_request
      else if status = 401 then Some Unauthorized
      else if status = 403 then Some Forbidden
      else if status = 404 then Some Not_found
      else if status = 405 then Some Method_not_allowed
      else if status = 502 then Some Gateway_unavailable
      else if status \<ge> 500 then Some Server_error
      else None)"

text \<open>\<open>value\<close>, and \<open>overload_value\<close> of the class that reads an id only.\<close>

definition nc_value :: "(string \<Rightarrow> 'j option) \<Rightarrow> ('j \<Rightarrow> 'a option) \<Rightarrow> bool \<Rightarrow> int \<Rightarrow> string \<Rightarrow> request_error + 'a option" where
  "nc_value parse reader stored status content =
     (case nc_handle_errors stored status of Some e \<Rightarrow> Inl e | None \<Rightarrow> Inr (Option.bind (parse content) reader))"

definition added_member_value :: "'j json_api \<Rightarrow> (string \<Rightarrow> 'j option) \<Rightarrow> string \<Rightarrow> snowflake res" where
  "added_member_value J parse content =
     (case parse content of None \<Rightarrow> Inl Throws | Some v \<Rightarrow> rbind (at_mut J v ''id'') (as_sf J))"

section \<open>Making a request\<close>

definition nc_set_up_request :: "string \<Rightarrow> (string \<times> string) list" where
  "nc_set_up_request token =
     [(''Application'', ''cerwy''), (''Authorization'', token), (''Host'', ''discord.com''), (''User-Agent'', ''watland''),
      (''Accept'', ''text/html,application/xhtml+xml,application/xml;q=0.9,*/*;q=0.8''),
      (''Accept-Language'', ''en-US,en;q=0.5'')]"

definition nc_create_request :: "string \<Rightarrow> request_class \<Rightarrow> 'j http_request" where [request_defs]:
  "nc_create_request token c =
     \<lparr>hr_verb = rc_verb c, hr_target = nc_api_target c, hr_headers = nc_set_up_request token, hr_body = No_body\<rparr>"

definition nc_create_json_request :: "string \<Rightarrow> 'j body \<Rightarrow> request_class \<Rightarrow> 'j http_request" where [request_defs]:
  "nc_create_json_request token b c =
     \<lparr>hr_verb = rc_verb c, hr_target = nc_api_target c, hr_headers = application_json # nc_set_up_request token, hr_body = b\<rparr>"

text \<open>A permission is written as its number, an overwrite with its type's name.\<close>

definition nc_permission_to_json :: "'j json_maker \<Rightarrow> nc_permission \<Rightarrow> 'j" where
  "nc_permission_to_json W p = mk_int W (uint p)"

definition overwrite_type_to_string :: "nc_overwrite_type \<Rightarrow> string" where
  "overwrite_type_to_string t = (case t of Nc_role \<Rightarrow> ''role'' | Nc_member \<Rightarrow> ''member'')"

definition nc_overwrite_to_json :: "'j json_api \<Rightarrow> 'j json_maker \<Rightarrow> nc_overwrite \<Rightarrow> 'j" where
  "nc_overwrite_to_json J W data = json_object J W
     [(''id'', sf_json J W (no_ow_id data)), (''type'', mk_str W (overwrite_type_to_string (no_ow_type data))),
      (''allow'', nc_permission_to_json W (no_ow_allow data)), (''deny'', nc_permission_to_json W (no_ow_deny data))]"

section \<open>The requests of a shard\<close>

definition nop_send_message :: "'j json_api \<Rightarrow> 'j json_maker \<Rightarrow> string \<Rightarrow> snowflake \<Rightarrow> string \<Rightarrow> 'j http_request" where [request_defs]:
  "nop_send_message J W token ch content = nc_create_json_request token (Dumped (json_object J W
       [(''content'', mk_str W content)])) (nrq_send_message ch)"

definition nop_send_message_embed :: "'j json_api \<Rightarrow> 'j json_maker \<Rightarrow> string \<Rightarrow> snowflake \<Rightarrow> string \<Rightarrow> embed \<Rightarrow> 'j http_request" where [request_defs]:
  "nop_send_message_embed J W token ch content embed1 = nc_create_json_request token (Dumped (json_object J W
       [(''content'', mk_str W content), (''embed'', embed_to_json J W embed1)])) (nrq_send_message ch)"

definition nop_add_role :: "string \<Rightarrow> snowflake \<Rightarrow> snowflake \<Rightarrow> snowflake \<Rightarrow> 'j http_request" where [request_defs]:
  "nop_add_role token g m r = nc_create_request token (nrq_add_role g m r)"

definition nop_remove_role :: "string \<Rightarrow> snowflake \<Rightarrow> snowflake \<Rightarrow> snowflake \<Rightarrow> 'j http_request" where [request_defs]:
  "nop_remove_role token g m r = nc_create_request token (nrq_remove_role g m r)"

definition nop_remove_all_roles :: "string \<Rightarrow> snowflake \<Rightarrow> snowflake \<Rightarrow> 'j http_request" where [request_defs]:
  "nop_remove_all_roles token g m =
     nc_create_json_request token (Text (''{'' @ quote @ ''roles'' @ quote @ '':[]}'')) (nrq_modify_member g m)"

definition nop_create_role :: "'j json_api \<Rightarrow> 'j json_maker \<Rightarrow> string \<Rightarrow> snowflake \<Rightarrow> string \<Rightarrow> nc_permission \<Rightarrow> int \<Rightarrow> bool \<Rightarrow> bool \<Rightarrow> 'j http_request" where [request_defs]:
  "nop_create_role J W token g name p color hoist mentionable = nc_create_json_request token (Dumped (json_object J W
       [(''name'', mk_str W name), (''permissions'', nc_permission_to_json W p), (''color'', mk_int W color),
        (''hoist'', mk_bool W hoist), (''mentionable'', mk_bool W mentionable)])) (nrq_create_role g)"

definition nop_delete_role :: "string \<Rightarrow> snowflake \<Rightarrow> snowflake \<Rightarrow> 'j http_request" where [request_defs]:
  "nop_delete_role token g r = nc_create_request token (nrq_delete_role g r)"

definition nop_change_nick :: "'j json_api \<Rightarrow> 'j json_maker \<Rightarrow> string \<Rightarrow> snowflake \<Rightarrow> snowflake \<Rightarrow> string \<Rightarrow> 'j http_request" where [request_defs]:
  "nop_change_nick J W token g m new_nick = nc_create_json_request token (Dumped (json_object J W
       [(''nick'', mk_str W new_nick)])) (nrq_modify_member g m)"

definition nop_change_my_nick :: "'j json_api \<Rightarrow> 'j json_maker \<Rightarrow> string \<Rightarrow> snowflake \<Rightarrow> string \<Rightarrow> 'j http_request" where [request_defs]:
  "nop_change_my_nick J W token g new_nick = nc_create_json_request token (Dumped (json_object J W
       [(''nick'', mk_str W new_nick)])) (nrq_change_my_nick g)"

definition nop_kick_member :: "string \<Rightarrow> snowflake \<Rightarrow> snowflake \<Rightarrow> 'j http_request" where [request_defs]:
  "nop_kick_member token g m = nc_create_request token (nrq_kick_member g m)"

definition nop_ban_member :: "'j json_api \<Rightarrow> 'j json_maker \<Rightarrow> string \<Rightarrow> snowflake \<Rightarrow> snowflake \<Rightarrow> string \<Rightarrow> int \<Rightarrow> 'j http_request" where [request_defs]:
  "nop_ban_member J W token g m reason days = nc_create_json_request token (Dumped (json_object J W
       [(''delete-message-days'', mk_int W days), (''reason'', mk_str W reason)])) (nrq_ban_member g m)"

definition nop_unban_member :: "string \<Rightarrow> snowflake \<Rightarrow> snowflake \<Rightarrow> 'j http_request" where [request_defs]:
  "nop_unban_member token g user_id = nc_create_request token (nrq_unban_member g user_id)"

definition nop_get_messages :: "'j json_api \<Rightarrow> 'j json_maker \<Rightarrow> string \<Rightarrow> snowflake \<Rightarrow> int \<Rightarrow> 'j http_request" where [request_defs]:
  "nop_get_messages J W token ch n = nc_create_json_request token (Dumped (json_object J W
       [(''limit'', mk_int W n)])) (nrq_get_messages ch)"

definition nop_get_messages_before :: "'j json_api \<Rightarrow> 'j json_maker \<Rightarrow> string \<Rightarrow> snowflake \<Rightarrow> snowflake \<Rightarrow> int \<Rightarrow> 'j http_request" where [request_defs]:
  "nop_get_messages_before J W token ch i n = nc_create_json_request token (Dumped (json_object J W
       [(''limit'', mk_int W n), (''before'', sf_json J W i)])) (nrq_get_messages ch)"

definition nop_get_messages_after :: "'j json_api \<Rightarrow> 'j json_maker \<Rightarrow> string \<Rightarrow> snowflake \<Rightarrow> snowflake \<Rightarrow> int \<Rightarrow> 'j http_request" where [request_defs]:
  "nop_get_messages_after J W token ch i n = nc_create_json_request token (Dumped (json_object J W
       [(''limit'', mk_int W n), (''after'', sf_json J W i)])) (nrq_get_messages ch)"

definition nop_get_messages_around :: "'j json_api \<Rightarrow> 'j json_maker \<Rightarrow> string \<Rightarrow> snowflake \<Rightarrow> snowflake \<Rightarrow> int \<Rightarrow> 'j http_request" where [request_defs]:
  "nop_get_messages_around J W token ch i n = nc_create_json_request token (Dumped (json_object J W
       [(''limit'', mk_int W n), (''around'', sf_json J W i)])) (nrq_get_messages ch)"

definition nop_create_text_channel :: "'j json_api \<Rightarrow> 'j json_maker \<Rightarrow> string \<Rightarrow> snowflake \<Rightarrow> string \<Rightarrow> nc_overwrite list \<Rightarrow> bool \<Rightarrow> 'j http_request" where [request_defs]:
  "nop_create_text_channel J W token g name overwrites nsfw = nc_create_json_request token (Dumped (json_object J W
       [(''type'', mk_int W 0), (''name'', mk_str W name),
        (''permission_overwrites'', mk_arr W (map (nc_overwrite_to_json J W) overwrites)),
        (''nsfw'', mk_bool W nsfw)])) (nrq_create_text_channel g)"

definition nop_edit_message :: "'j json_api \<Rightarrow> 'j json_maker \<Rightarrow> string \<Rightarrow> snowflake \<Rightarrow> snowflake \<Rightarrow> string \<Rightarrow> 'j http_request" where [request_defs]:
  "nop_edit_message J W token ch msg new_content = nc_create_json_request token (Dumped (json_object J W
       [(''content'', mk_str W new_content)])) (nrq_edit_message ch msg)"

definition nop_create_voice_channel :: "'j json_api \<Rightarrow> 'j json_maker \<Rightarrow> string \<Rightarrow> snowflake \<Rightarrow> string \<Rightarrow> nc_overwrite list \<Rightarrow> bool \<Rightarrow> int \<Rightarrow> 'j http_request" where [request_defs]:
  "nop_create_voice_channel J W token g name overwrites nsfw bit_rate =
     nc_create_json_request token (Dumped (json_object J W
       [(''nsfw'', mk_bool W nsfw), (''name'', mk_str W name),
        (''permission_overwrites'', mk_arr W (map (nc_overwrite_to_json J W) overwrites)),
        (''bit_rate'', mk_int W bit_rate)])) (nrq_create_voice_channel g)"

definition nop_create_channel_catagory :: "'j json_api \<Rightarrow> 'j json_maker \<Rightarrow> string \<Rightarrow> snowflake \<Rightarrow> string \<Rightarrow> nc_overwrite list \<Rightarrow> bool \<Rightarrow> 'j http_request" where [request_defs]:
  "nop_create_channel_catagory J W token g name overwrites nsfw =
     nc_create_json_request token (Dumped (json_object J W
       [(''nsfw'', mk_bool W nsfw), (''name'', mk_str W name),
        (''permission_overwrites'', mk_arr W (map (nc_overwrite_to_json J W) overwrites))])) (nrq_create_channel_catagory g)"

definition nop_delete_message :: "string \<Rightarrow> snowflake \<Rightarrow> snowflake \<Rightarrow> 'j http_request" where [request_defs]:
  "nop_delete_message token ch msg = nc_create_request token (nrq_delete_message ch msg)"

definition nop_delete_message_bulk :: "'j json_api \<Rightarrow> 'j json_maker \<Rightarrow> string \<Rightarrow> snowflake \<Rightarrow> snowflake list \<Rightarrow> 'j http_request" where [request_defs]:
  "nop_delete_message_bulk J W token ch msgs = nc_create_json_request token (Dumped (json_object J W
       [(''messages'', mk_arr W (map (sf_json J W) msgs))])) (nrq_delete_message_bulk ch)"

definition nop_delete_emoji :: "string \<Rightarrow> snowflake \<Rightarrow> snowflake \<Rightarrow> 'j http_request" where [request_defs]:
  "nop_delete_emoji token g e = nc_create_request token (nrq_delete_emoji g e)"

definition nop_modify_emoji :: "'j json_api \<Rightarrow> 'j json_maker \<Rightarrow> string \<Rightarrow> snowflake \<Rightarrow> snowflake \<Rightarrow> string \<Rightarrow> snowflake list \<Rightarrow> 'j http_request" where [request_defs]:
  "nop_modify_emoji J W token g e s role_ids = nc_create_json_request token (Dumped (json_object J W
       [(''name'', mk_str W s), (''roles'', mk_arr W (map (sf_json J W) role_ids))])) (nrq_modify_emoji g e)"

definition nop_leave_guild :: "string \<Rightarrow> snowflake \<Rightarrow> 'j http_request" where [request_defs]:
  "nop_leave_guild token g = nc_create_request token (nrq_leave_guild g)"

definition nop_add_reaction :: "string \<Rightarrow> snowflake \<Rightarrow> snowflake \<Rightarrow> string \<Rightarrow> 'j http_request" where [request_defs]:
  "nop_add_reaction token ch msg e = nc_create_request token (nrq_add_reaction ch msg e)"

definition nop_delete_own_reaction :: "string \<Rightarrow> snowflake \<Rightarrow> snowflake \<Rightarrow> string \<Rightarrow> 'j http_request" where [request_defs]:
  "nop_delete_own_reaction token ch msg e = nc_create_request token (nrq_delete_own_reaction ch msg e)"

definition nop_delete_user_reaction :: "string \<Rightarrow> snowflake \<Rightarrow> snowflake \<Rightarrow> string \<Rightarrow> snowflake \<Rightarrow> 'j http_request" where [request_defs]:
  "nop_delete_user_reaction token ch msg e u = nc_create_request token (nrq_delete_user_reaction ch msg e u)"

definition nop_get_reactions :: "string \<Rightarrow> snowflake \<Rightarrow> snowflake \<Rightarrow> string \<Rightarrow> 'j http_request" where [request_defs]:
  "nop_get_reactions token ch msg e = nc_create_request token (nrq_get_reactions ch msg e)"

definition nop_delete_all_reactions :: "string \<Rightarrow> snowflake \<Rightarrow> snowflake \<Rightarrow> 'j http_request" where [request_defs]:
  "nop_delete_all_reactions token ch msg = nc_create_request token (nrq_delete_all_reactions ch msg)"

definition nop_delete_all_reactions_emoji :: "string \<Rightarrow> snowflake \<Rightarrow> snowflake \<Rightarrow> string \<Rightarrow> 'j http_request" where [request_defs]:
  "nop_delete_all_reactions_emoji token ch msg e = nc_create_request token (nrq_delete_all_reactions_emoji ch msg e)"

definition nop_typing_start :: "string \<Rightarrow> snowflake \<Rightarrow> 'j http_request" where [request_defs]:
  "nop_typing_start token ch = nc_create_request token (nrq_typing_start ch)"

definition nop_delete_channel_permissions :: "string \<Rightarrow> snowflake \<Rightarrow> snowflake \<Rightarrow> 'j http_request" where [request_defs]:
  "nop_delete_channel_permissions token ch overwrite =
     nc_create_request token (nrq_delete_channel_permission ch overwrite)"

definition nop_list_guild_members :: "'j json_api \<Rightarrow> 'j json_maker \<Rightarrow> string \<Rightarrow> snowflake \<Rightarrow> int \<Rightarrow> snowflake \<Rightarrow> 'j http_request" where [request_defs]:
  "nop_list_guild_members J W token g n after = nc_create_json_request token (Dumped (json_object J W
       [(''limit'', mk_int W n), (''after'', sf_json J W after)])) (nrq_list_guild_members g)"

definition nop_edit_channel_permissions :: "'j json_api \<Rightarrow> 'j json_maker \<Rightarrow> string \<Rightarrow> snowflake \<Rightarrow> nc_overwrite \<Rightarrow> 'j http_request" where [request_defs]:
  "nop_edit_channel_permissions J W token ch overwrite = nc_create_json_request token (Dumped (json_object J W
       [(''allow'', nc_permission_to_json W (no_ow_allow overwrite)),
        (''deny'', nc_permission_to_json W (no_ow_deny overwrite)),
        (''type'', mk_str W (overwrite_type_to_string (no_ow_type overwrite)))])) (nrq_edit_channel_permissions ch (no_ow_id overwrite))"

definition nop_create_dm :: "'j json_api \<Rightarrow> 'j json_maker \<Rightarrow> string \<Rightarrow> snowflake \<Rightarrow> 'j http_request" where [request_defs]:
  "nop_create_dm J W token u = nc_create_json_request token (Dumped (json_object J W
       [(''recipient_id'', sf_json J W u)])) nrq_create_dm"

definition nop_get_guild_integrations :: "string \<Rightarrow> snowflake \<Rightarrow> 'j http_request" where [request_defs]:
  "nop_get_guild_integrations token g = nc_create_request token (nrq_get_guild_integrations g)"

definition nop_create_guild_integration :: "'j json_api \<Rightarrow> 'j json_maker \<Rightarrow> string \<Rightarrow> snowflake \<Rightarrow> string \<Rightarrow> snowflake \<Rightarrow> 'j http_request" where [request_defs]:
  "nop_create_guild_integration J W token g type i = nc_create_json_request token (Dumped (json_object J W
       [(''type'', mk_str W type), (''id'', sf_json J W i)])) (nrq_create_guild_integration g)"

definition nop_delete_channel :: "string \<Rightarrow> snowflake \<Rightarrow> 'j http_request" where [request_defs]:
  "nop_delete_channel token ch = nc_create_request token (nrq_delete_channel ch)"

definition nop_add_pinned_msg :: "string \<Rightarrow> snowflake \<Rightarrow> snowflake \<Rightarrow> 'j http_request" where [request_defs]:
  "nop_add_pinned_msg token ch msg = nc_create_request token (nrq_add_pinned_msg ch msg)"

definition nop_remove_pinned_msg :: "string \<Rightarrow> snowflake \<Rightarrow> snowflake \<Rightarrow> 'j http_request" where [request_defs]:
  "nop_remove_pinned_msg token ch msg = nc_create_request token (nrq_remove_pinned_msg ch msg)"

definition nop_get_voice_regions :: "string \<Rightarrow> 'j http_request" where [request_defs]:
  "nop_get_voice_regions token = nc_create_request token nrq_get_voice_regions"

definition nop_create_channel_invite :: "'j json_api \<Rightarrow> 'j json_maker \<Rightarrow> string \<Rightarrow> snowflake \<Rightarrow> int \<Rightarrow> int \<Rightarrow> bool \<Rightarrow> bool \<Rightarrow> 'j http_request" where [request_defs]:
  "nop_create_channel_invite J W token ch max_age max_uses temporary unique =
     nc_create_json_request token (Dumped (json_object J W
       [(''max_age'', mk_int W max_age), (''max_uses'', mk_int W max_uses), (''temporary'', mk_bool W temporary),
        (''unique'', mk_bool W unique)])) (nrq_create_channel_invite ch)"

definition nop_create_webhook :: "'j json_api \<Rightarrow> 'j json_maker \<Rightarrow> string \<Rightarrow> snowflake \<Rightarrow> string \<Rightarrow> 'j http_request" where [request_defs]:
  "nop_create_webhook J W token ch name = nc_create_json_request token (Dumped (json_object J W
       [(''name'', mk_str W name), (''avatar'', j_null J)])) (nrq_create_webhook ch)"

definition nop_get_guild_webhooks :: "string \<Rightarrow> snowflake \<Rightarrow> 'j http_request" where [request_defs]:
  "nop_get_guild_webhooks token g = nc_create_request token (nrq_get_guild_webhooks g)"

definition nop_get_channel_webhooks :: "string \<Rightarrow> snowflake \<Rightarrow> 'j http_request" where [request_defs]:
  "nop_get_channel_webhooks token ch = nc_create_request token (nrq_get_channel_webhooks ch)"

definition nop_get_webhook_with_token :: "string \<Rightarrow> snowflake \<Rightarrow> string \<Rightarrow> 'j http_request" where [request_defs]:
  "nop_get_webhook_with_token token i webhook_token =
     nc_create_request token (nrq_get_webhook_with_token i webhook_token)"

definition nop_get_webhook :: "string \<Rightarrow> snowflake \<Rightarrow> 'j http_request" where [request_defs]:
  "nop_get_webhook token i = nc_create_request token (nrq_get_webhook i)"

definition nop_send_with_webhook :: "'j json_api \<Rightarrow> 'j json_maker \<Rightarrow> string \<Rightarrow> snowflake \<Rightarrow> string \<Rightarrow> string \<Rightarrow> 'j http_request" where [request_defs]:
  "nop_send_with_webhook J W token i webhook_token s = nc_create_json_request token (Dumped (json_object J W
       [(''content'', mk_str W s)])) (nrq_execute_webhook i webhook_token)"

definition nop_fetch_message :: "string \<Rightarrow> snowflake \<Rightarrow> snowflake \<Rightarrow> 'j http_request" where [request_defs]:
  "nop_fetch_message token ch msg = nc_create_request token (nrq_get_message ch msg)"

definition nop_get_audit_log :: "string \<Rightarrow> snowflake \<Rightarrow> 'j http_request" where [request_defs]:
  "nop_get_audit_log token g = nc_create_request token (nrq_get_audit_log g)"

definition nop_modify_channel_positions :: "'j json_api \<Rightarrow> 'j json_maker \<Rightarrow> string \<Rightarrow> snowflake \<Rightarrow> (snowflake \<times> int) list \<Rightarrow> 'j http_request" where [request_defs]:
  "nop_modify_channel_positions J W token g positions = nc_create_json_request token
       (Dumped (mk_arr W (map (\<lambda>(i, position). json_object J W [(''id'', sf_json J W i), (''position'', mk_int W position)]) positions))) (nrq_modify_channel_positions g)"

definition nop_add_guild_member :: "'j json_api \<Rightarrow> 'j json_maker \<Rightarrow> string \<Rightarrow> snowflake \<Rightarrow> snowflake \<Rightarrow> string \<Rightarrow> snowflake list \<Rightarrow> string \<Rightarrow> bool \<Rightarrow> bool \<Rightarrow> 'j http_request" where [request_defs]:
  "nop_add_guild_member J W token g i access_token roles nick deaf mute =
     nc_create_json_request token (Dumped (json_object J W
       [(''access_token'', mk_str W access_token), (''nick'', mk_str W nick), (''deaf'', mk_bool W deaf),
        (''mute'', mk_bool W mute), (''roles'', mk_arr W (map (sf_json J W) roles))])) (nrq_add_guild_member g i)"

text \<open>An invite is asked for with the number as body, which is empty for 0.\<close>

definition nop_get_invite :: "string \<Rightarrow> string \<Rightarrow> int \<Rightarrow> 'j http_request" where [request_defs]:
  "nop_get_invite token code n =
     nc_create_json_request token (Text (if n \<noteq> 0 then std_to_string_int n else '''')) (nrq_get_invite code)"

definition nop_delete_invite :: "string \<Rightarrow> string \<Rightarrow> 'j http_request" where [request_defs]:
  "nop_delete_invite token code = nc_create_request token (nrq_delete_invite code)"

section \<open>All requests\<close>

text \<open>The requests but those for invites, with the id that names their bucket.\<close>

inductive nc_shard_request :: "'j json_api \<Rightarrow> 'j json_maker \<Rightarrow> string \<Rightarrow> snowflake option \<Rightarrow> 'j http_request \<Rightarrow> bool"
  for J W token where
  "nc_shard_request J W token (Some ch) (nop_send_message J W token ch content)"
| "nc_shard_request J W token (Some ch) (nop_send_message_embed J W token ch content embed1)"
| "nc_shard_request J W token (Some g) (nop_add_role token g m r)"
| "nc_shard_request J W token (Some g) (nop_remove_role token g m r)"
| "nc_shard_request J W token (Some g) (nop_remove_all_roles token g m)"
| "nc_shard_request J W token (Some g) (nop_create_role J W token g name p color hoist mentionable)"
| "nc_shard_request J W token (Some g) (nop_delete_role token g r)"
| "nc_shard_request J W token (Some g) (nop_change_nick J W token g m new_nick)"
| "nc_shard_request J W token (Some g) (nop_change_my_nick J W token g new_nick)"
| "nc_shard_request J W token (Some g) (nop_kick_member token g m)"
| "nc_shard_request J W token (Some g) (nop_ban_member J W token g m reason days)"
| "nc_shard_request J W token (Some g) (nop_unban_member token g user_id)"
| "nc_shard_request J W token (Some ch) (nop_get_messages J W token ch n)"
| "nc_shard_request J W token (Some ch) (nop_get_messages_before J W token ch i n)"
| "nc_shard_request J W token (Some ch) (nop_get_messages_after J W token ch i n)"
| "nc_shard_request J W token (Some ch) (nop_get_messages_around J W token ch i n)"
| "nc_shard_request J W token (Some g) (nop_create_text_channel J W token g name overwrites nsfw)"
| "nc_shard_request J W token (Some ch) (nop_edit_message J W token ch msg new_content)"
| "nc_shard_request J W token (Some g) (nop_create_voice_channel J W token g name overwrites nsfw bit_rate)"
| "nc_shard_request J W token (Some g) (nop_create_channel_catagory J W token g name overwrites nsfw)"
| "nc_shard_request J W token (Some ch) (nop_delete_message token ch msg)"
| "nc_shard_request J W token (Some ch) (nop_delete_message_bulk J W token ch msgs)"
| "nc_shard_request J W token (Some g) (nop_delete_emoji token g e)"
| "nc_shard_request J W token (Some g) (nop_modify_emoji J W token g e s role_ids)"
| "nc_shard_request J W token (Some g) (nop_leave_guild token g)"
| "nc_shard_request J W token (Some ch) (nop_add_reaction token ch msg e)"
| "nc_shard_request J W token (Some ch) (nop_delete_own_reaction token ch msg e)"
| "nc_shard_request J W token (Some ch) (nop_delete_user_reaction token ch msg e u)"
| "nc_shard_request J W token (Some ch) (nop_get_reactions token ch msg e)"
| "nc_shard_request J W token (Some ch) (nop_delete_all_reactions token ch msg)"
| "nc_shard_request J W token (Some ch) (nop_delete_all_reactions_emoji token ch msg e)"
| "nc_shard_request J W token (Some ch) (nop_typing_start token ch)"
| "nc_shard_request J W token (Some ch) (nop_delete_channel_permissions token ch overwrite)"
| "nc_shard_request J W token (Some g) (nop_list_guild_members J W token g n after)"
| "nc_shard_request J W token (Some ch) (nop_edit_channel_permissions J W token ch overwrite)"
| "nc_shard_request J W token None (nop_create_dm J W token u)"
| "nc_shard_request J W token (Some g) (nop_get_guild_integrations token g)"
| "nc_shard_request J W token (Some g) (nop_create_guild_integration J W token g type i)"
| "nc_shard_request J W token (Some ch) (nop_delete_channel token ch)"
| "nc_shard_request J W token (Some ch) (nop_add_pinned_msg token ch msg)"
| "nc_shard_request J W token (Some ch) (nop_remove_pinned_msg token ch msg)"
| "nc_shard_request J W token None (nop_get_voice_regions token)"
| "nc_shard_request J W token (Some ch) (nop_create_channel_invite J W token ch max_age max_uses temporary unique)"
| "nc_shard_request J W token (Some ch) (nop_create_webhook J W token ch name)"
| "nc_shard_request J W token (Some g) (nop_get_guild_webhooks token g)"
| "nc_shard_request J W token (Some ch) (nop_get_channel_webhooks token ch)"
| "nc_shard_request J W token (Some i) (nop_get_webhook_with_token token i webhook_token)"
| "nc_shard_request J W token (Some i) (nop_get_webhook token i)"
| "nc_shard_request J W token (Some i) (nop_send_with_webhook J W token i webhook_token s)"
| "nc_shard_request J W token (Some ch) (nop_fetch_message token ch msg)"
| "nc_shard_request J W token (Some g) (nop_get_audit_log token g)"
| "nc_shard_request J W token (Some g) (nop_modify_channel_positions J W token g positions)"
| "nc_shard_request J W token (Some g) (nop_add_guild_member J W token g i access_token roles nick deaf mute)"

text \<open>The version does not matter to the bucket: it is cut off by its length.\<close>

lemma nc_major: "get_major_param_id (''/api/v6'' @ s) = get_major_param_id (''/api/v8'' @ s)"
  by (simp add: get_major_param_id_def)

lemma nc_bucket_id:
  assumes "list_all (\<lambda>c. \<not> is_digit c) pre" "rest = [] \<or> hd rest = CHR ''/''"
  shows "get_major_param_id (''/api/v6'' @ pre @ sf_text i @ rest) = Some (sf_val i)"
  using bucket_id [OF assms] by (simp only: nc_major)

lemma nc_bucket_last: "list_all (\<lambda>c. \<not> is_digit c) pre \<Longrightarrow> get_major_param_id (''/api/v6'' @ pre @ sf_text i) = Some (sf_val i)"
  using nc_bucket_id [of pre "[]"] by simp

lemma nc_bucket_none: "list_all (\<lambda>c. \<not> is_digit c) pre \<Longrightarrow> get_major_param_id (''/api/v6'' @ pre) = Some 0"
  using bucket_none by (simp only: nc_major)

lemma nc_request_bucket:
  assumes "nc_shard_request J W token m r"
  shows "get_major_param_id (hr_target r) = Some (case m of None \<Rightarrow> 0 | Some i \<Rightarrow> sf_val i)"
  using assms
  by cases (simp_all only: request_defs http_request.simps request_class.sel option.case,
    (rule nc_bucket_id nc_bucket_last nc_bucket_none; simp add: is_digit_def)+)

lemma nc_request_shape:
  assumes "nc_shard_request J W token m r"
  shows "set (nc_set_up_request token) \<subseteq> set (hr_headers r) \<and> (application_json \<in> set (hr_headers r) \<longleftrightarrow> hr_body r \<noteq> No_body)"
  using assms by cases (auto simp: request_defs nc_set_up_request_def application_json_def)

text \<open>A request that no limit of its guild, channel or webhook holds is sent by the connection, and one that a limit holds is kept
  behind it: what a shard asks for is never held by another's limit.\<close>
theorem nc_own_limit_holds:
  assumes "nc_shard_request J W token (Some i) r" "rq_target q = hr_target r"
  shows "n_consumer (nc_admit q c) = (if fst (check_rate_limit (sf_val i) q (n_limiter c)) then Ready else Sending q)
    \<and> (''Authorization'', token) \<in> set (hr_headers r)"
  using nc_request_bucket [OF assms(1)] nc_request_shape [OF assms(1)] assms(2)
  by (auto simp: nc_admit_def nc_set_up_request_def split: prod.split bool.split)

text \<open>An overwrite that is written is read back.\<close>

text \<open>An overwrite that is written is read back.\<close>

context json_writer
begin

lemma nc_overwrite_back: "read_nc_overwrite J (nc_overwrite_to_json J W d) = Inr d"
proof -
  let ?v = "nc_overwrite_to_json J W d"
  have v: "is_record J ?v" by (simp add: nc_overwrite_to_json_def json_object_def records Let_def)
  have "at_const J ?v ''id'' = Inr (sf_json J W (no_ow_id d))"
    "at_const J ?v ''type'' = Inr (mk_str W (overwrite_type_to_string (no_ow_type d)))"
    "at_const J ?v ''allow'' = Inr (mk_int W (uint (no_ow_allow d)))" "at_const J ?v ''deny'' = Inr (mk_int W (uint (no_ow_deny d)))"
    by (rule at_back [OF v]; simp add: nc_overwrite_to_json_def nc_permission_to_json_def json_object_def records Let_def)+
  then show ?thesis
    by (cases "no_ow_type d") (simp_all add: read_nc_overwrite_def fresh_def made_back sf_json_back as_u64_def
        overwrite_type_to_string_def string_to_overwrite_type_def)
qed

end

end
