(* ===== verification/Nc_Voice.thy ===== *)
theory Nc_Voice
  imports Voice_Cases Nc_Gateway
begin

text \<open>
  The voice connection of the library without a cache (\<open>no_cache/discord_voice_connection.h\<close>,
  \<open>no_cache/src/discord_voice_connection.cpp\<close>, \<open>no_cache/src/voice_connect_impl.cpp\<close>). It is an older copy of the one in \<open>Voice\<close>: the
  functions whose text is the same are the same functions here. It resamples with \<open>resample_meh\<close>, which interpolates, it
  does not close while audio is played, and its \<open>cancel_current_data\<close> sets no flag.

  The rounding of \<open>std::lerp\<close> is left to the implementation of the C++ library: it is the parameter \<open>L\<close>.
\<close>

section \<open>Resampling with interpolation\<close>

definition to_float :: "rat \<Rightarrow> rat" where
  "to_float x = (if x = 0 then 0 else of_int (round_even (x * 2 powi (23 - double_exp x))) * 2 powi (double_exp x - 23))"

definition pcm_int :: "pcm \<Rightarrow> rat" where "pcm_int w = of_int (sint w)"

text \<open>A number is cut to an integer; one that does not fit has no defined result.\<close>

definition to_pcm :: "rat \<Rightarrow> pcm res" where
  "to_pcm x = (let n = (if 0 \<le> x then \<lfloor>x\<rfloor> else \<lceil>x\<rceil>) in if - (2 ^ 15) \<le> n \<and> n < 2 ^ 15 then Inr (word_of_int n) else Inl Undef)"

text \<open>The samples from the last one that was used to this one, in steps of the channels; places in the old frame are used
  as places in the new one.\<close>

definition fill_between :: "(rat \<Rightarrow> rat \<Rightarrow> rat \<Rightarrow> rat) \<Rightarrow> int \<Rightarrow> int \<Rightarrow> int \<Rightarrow> pcm list \<Rightarrow> pcm list res" where
  "fill_between L nc prev idx xs =
     count_loop (\<lambda>m ys. let j = prev + int m * nc; t = to_float (of_int (j - prev) / of_int (idx - prev))
       in count_loop (\<lambda>k zs. rbind (read_at zs (prev + int k)) (\<lambda>a. rbind (read_at zs (idx + int k)) (\<lambda>b.
            rbind (to_pcm (L (pcm_int a) (pcm_int b) t)) (write_at zs (j + int k))))) (nat nc) ys)
       (nat ((idx - prev + nc - 1) div nc)) xs"

definition meh_step :: "(rat \<Rightarrow> rat \<Rightarrow> rat \<Rightarrow> rat) \<Rightarrow> audio_frame \<Rightarrow> int \<Rightarrow> int \<Rightarrow> nat \<Rightarrow> pcm list \<times> int \<Rightarrow> (pcm list \<times> int) res" where
  "meh_step L f nc nr i s =
     (case s of (xs, prev) \<Rightarrow>
        let idx = idx_in_unsampled f nr i * fr_channels f
        in rbind (resample_step f nc nr i xs) (\<lambda>ys.
             rmap (\<lambda>zs. (zs, idx)) (if idx \<noteq> prev + 1 then fill_between L nc prev idx ys else Inr ys)))"

definition resample_meh :: "(rat \<Rightarrow> rat \<Rightarrow> rat \<Rightarrow> rat) \<Rightarrow> audio_frame \<Rightarrow> int \<Rightarrow> int \<Rightarrow> audio_frame res" where
  "resample_meh L f nc nr =
     (if nc = fr_channels f \<and> nr = fr_rate f then Inr (if fr_own f then f\<lparr>fr_data := fr_storage f\<rparr> else f)
      else if fr_rate f = 0 \<or> \<not> in_int (fr_size f * 1000) then Inl Undef
      else let ms = fr_size f * 1000 sdiv fr_rate f; needed = nc * nr * ms sdiv 1000; n = nr sdiv 1000 * ms
        in if \<not> in_int (nc * nr) \<or> \<not> in_int (nc * nr * ms) \<or> \<not> in_int n then Inl Undef
           else if needed < 0 then Inl Throws
           else rbind (count_loop (meh_step L f nc nr) (nat n) (replicate (nat needed) 0, - 1)) (\<lambda>s.
             Inr \<lparr>fr_data = fst s, fr_rate = nr, fr_channels = nc, fr_bit_rate = 0, fr_size = n,
               fr_storage = fst s, fr_own = True\<rparr>))"

definition nv_format :: "(rat \<Rightarrow> rat \<Rightarrow> rat \<Rightarrow> rat) \<Rightarrow> audio_frame \<Rightarrow> audio_frame res" where
  "nv_format L f = (if fr_channels f \<noteq> 2 \<or> fr_rate f \<noteq> 48000 then resample_meh L f 2 48000 else Inr f)"

section \<open>The connection\<close>

definition nv_send_identify :: "'e voice \<Rightarrow> 'e voice" where "nv_send_identify = send_identify"

definition nv_start :: "'e voice \<Rightarrow> 'e voice" where "nv_start c = nv_send_identify c"

definition nv_on_hello :: "'j json_api \<Rightarrow> 'j \<Rightarrow> 'e voice handler" where "nv_on_hello = on_hello"

definition nv_heartbeat :: "bool \<Rightarrow> 'e voice \<Rightarrow> 'e voice" where "nv_heartbeat = voice_heartbeat"

definition nv_on_ready :: "'j json_api \<Rightarrow> 'j \<Rightarrow> 'e voice handler" where "nv_on_ready = on_ready"

definition nv_on_session_discription :: "'j json_api \<Rightarrow> 'j \<Rightarrow> 'e voice handler" where
  "nv_on_session_discription = on_session_discription"

definition nv_udp_connected :: "'e voice \<Rightarrow> 'e voice" where "nv_udp_connected = udp_connected"

definition nv_select_protocol :: "'e voice \<Rightarrow> 'e voice" where "nv_select_protocol = send_op1_select_protocol"

text \<open>The answer on the UDP socket, and what \<open>connect_udp\<close> goes on with.\<close>

definition nv_discovered :: "'e voice_env \<Rightarrow> u8 list \<Rightarrow> 'e voice handler" where
  "nv_discovered E received =
     hthen (hmod (\<lambda>c. c\<lparr>vc_discovering := vc_discovering c - 1\<rparr>))
       (hread (read_answer E received) (\<lambda>ep. hmod (\<lambda>c. nv_select_protocol (c\<lparr>vc_endpoint := ep\<rparr>))))"

definition nv_on_msg_recv :: "'j json_api \<Rightarrow> 'j \<Rightarrow> int \<Rightarrow> 'e voice handler" where
  "nv_on_msg_recv J d opcode =
     (if opcode = 2 then nv_on_ready J d
      else if opcode = 4 then nv_on_session_discription J d
      else if opcode = 8 then nv_on_hello J d
      else hdone)"

definition nv_on_read :: "'j json_api \<Rightarrow> (string \<Rightarrow> 'j option) \<Rightarrow> string \<Rightarrow> 'e voice handler" where
  "nv_on_read J parse s =
     hread (or_throw (parse s)) (\<lambda>json.
       hread (rbind (at_mut J json ''op'') (as_int J)) (\<lambda>opcode.
         hread (at_mut J json ''d'') (\<lambda>d. nv_on_msg_recv J d opcode)))"

text \<open>After any error but an aborted operation the web socket is reconnected; reading, which the error has ended, is not
  started again.\<close>

definition nv_on_error :: "bool \<Rightarrow> 'e voice \<Rightarrow> 'e voice" where
  "nv_on_error aborted c = (if \<not> aborted then c\<lparr>vc_reconnects := vc_reconnects c + 1\<rparr> else c)"

definition nv_control_speaking :: "int \<Rightarrow> 'e voice \<Rightarrow> 'e voice" where "nv_control_speaking = control_speaking"

definition nv_encrypt :: "'e voice_env \<Rightarrow> u8 list \<Rightarrow> u8 list \<Rightarrow> u8 list \<Rightarrow> u8 list res" where
  "nv_encrypt = encrypt_xsalsa20_poly1305"

section \<open>Playing\<close>

text \<open>Where \<open>send_voice\<close> is: not running; before it sets \<open>is_playing\<close>; at the head of the loop; after the end of
  speaking was told, when it was cancelled and when not; on the strand, cancelled.\<close>

datatype nv_place =
  Nv_idle | Nv_starting "audio_frame list" | Nv_frames "audio_frame list" u16 u32 | Nv_cancelled | Nv_on_strand | Nv_ended

definition nv_send_voice :: "audio_frame list \<Rightarrow> 'e voice \<Rightarrow> nv_place \<times> 'e voice" where
  "nv_send_voice frames c = (Nv_starting frames, nv_control_speaking 1 c)"

definition nv_send_frame :: "(rat \<Rightarrow> rat \<Rightarrow> rat \<Rightarrow> rat) \<Rightarrow> 'e voice_env \<Rightarrow> audio_frame \<Rightarrow> u16 \<Rightarrow> u32 \<Rightarrow> 'e voice handler" where
  "nv_send_frame L E f n ssrc =
     hread (nv_format L f) (\<lambda>g c.
       case encode_into_buffer E (vc_encoder c) g of (e, r) \<Rightarrow>
         hread r (\<lambda>audio. hread (nv_encrypt E (vc_key c) (rtp_header n (vc_timestamp c) ssrc) audio)
           (\<lambda>packet. hmod (\<lambda>c. c\<lparr>vc_packets := vc_packets c @ [packet],
              vc_timestamp := vc_timestamp c + word_of_int (fr_size g)\<rparr>)))
           (c\<lparr>vc_encoder := e\<rparr>))"

definition nv_step :: "(rat \<Rightarrow> rat \<Rightarrow> rat \<Rightarrow> rat) \<Rightarrow> 'e voice_env \<Rightarrow> nv_place \<Rightarrow> 'e voice \<Rightarrow> fault option \<times> nv_place \<times> 'e voice" where
  "nv_step L E p c =
     (case p of
        Nv_idle \<Rightarrow> (None, Nv_idle, c)
      | Nv_starting fs \<Rightarrow> (None, Nv_frames fs 0 (vc_ssrc c), c\<lparr>vc_playing := True\<rparr>)
      | Nv_frames [] n ssrc \<Rightarrow> (None, Nv_ended, nv_control_speaking 0 c)
      | Nv_frames (f # fs) n ssrc \<Rightarrow>
          if vc_canceled c then (None, Nv_cancelled, nv_control_speaking 0 (c\<lparr>vc_canceled := False\<rparr>))
          else (case nv_send_frame L E f n ssrc c of
                  (None, c') \<Rightarrow> (None, Nv_frames fs (n + 1) ssrc, c')
                | (Some x, c') \<Rightarrow> (Some x, Nv_idle, c'))
      | Nv_cancelled \<Rightarrow> (None, Nv_on_strand, c\<lparr>vc_playing := False\<rparr>)
      | Nv_on_strand \<Rightarrow> (None, Nv_idle, set_cancel_promise c)
      | Nv_ended \<Rightarrow> (None, Nv_idle, c\<lparr>vc_playing := False\<rparr>))"

text \<open>The ready task is made and dropped: there is always a new promise, and nothing else.\<close>

definition nv_cancel_current_data :: "'e voice \<Rightarrow> bool \<times> 'e voice" where
  "nv_cancel_current_data c = (False, c\<lparr>vc_promises := vc_promises c + 1\<rparr>)"

definition nv_close :: "'e voice \<Rightarrow> 'e voice" where
  "nv_close c = c\<lparr>vc_alive := False, vc_closed := True\<rparr>"

section \<open>Setting up a connection\<close>

text \<open>What \<open>connect_voice\<close> goes on with: the connection that is started on the new web socket. Its user is not set: it is the id 0.\<close>

definition nv_connect_impl :: "snowflake \<Rightarrow> 'e \<Rightarrow> 'j nc_connecting \<Rightarrow> 'e voice option" where
  "nv_connect_impl g encoder p =
     (case p of Nc_setting_up gateway tok sid \<Rightarrow> Some (nv_start (new_voice g (Snowflake 0) tok sid encoder)) | _ \<Rightarrow> None)"

section \<open>Cancelling does nothing\<close>

text \<open>Runs of one connection: audio is sent when none is, the coroutine goes on, the user cancels, the user closes.\<close>

datatype nv_event = Nv_send "audio_frame list" | Nv_go | Nv_cancel | Nv_close

fun nv_event_step :: "(rat \<Rightarrow> rat \<Rightarrow> rat \<Rightarrow> rat) \<Rightarrow> 'e voice_env \<Rightarrow> nv_event \<Rightarrow> nv_place \<times> 'e voice \<Rightarrow> (nv_place \<times> 'e voice) option" where
  "nv_event_step L E (Nv_send fs) (p, c) = (if p = Nv_idle then Some (nv_send_voice fs c) else None)"
| "nv_event_step L E Nv_go (p, c) = (case nv_step L E p c of (r, p', c') \<Rightarrow> if r = Some Undef then None else Some (p', c'))"
| "nv_event_step L E Nv_cancel (p, c) = Some (p, snd (nv_cancel_current_data c))"
| "nv_event_step L E Nv_close (p, c) = Some (p, nv_close c)"

fun nv_run :: "(rat \<Rightarrow> rat \<Rightarrow> rat \<Rightarrow> rat) \<Rightarrow> 'e voice_env \<Rightarrow> nv_event list \<Rightarrow> nv_place \<times> 'e voice \<Rightarrow> (nv_place \<times> 'e voice) option" where
  "nv_run L E [] s = Some s"
| "nv_run L E (e # es) s = Option.bind (nv_event_step L E e s) (nv_run L E es)"

definition nv_plays :: "nv_event \<Rightarrow> bool" where
  "nv_plays e \<longleftrightarrow> (case e of Nv_send _ \<Rightarrow> True | Nv_go \<Rightarrow> True | _ \<Rightarrow> False)"

text \<open>No cancelling was seen.\<close>

definition uncancelled :: "nv_place \<Rightarrow> 'e voice \<Rightarrow> bool" where
  "uncancelled p c \<longleftrightarrow> \<not> vc_canceled c \<and> p \<noteq> Nv_cancelled \<and> p \<noteq> Nv_on_strand"

text \<open>What a frame does depends on the encoder, the key and the time stamp, and changes the encoder, the packets and the time stamp.\<close>

definition nv_frame_result :: "(rat \<Rightarrow> rat \<Rightarrow> rat \<Rightarrow> rat) \<Rightarrow> 'e voice_env \<Rightarrow> audio_frame \<Rightarrow> u16 \<Rightarrow> u32 \<Rightarrow> 'e \<Rightarrow> u8 list \<Rightarrow> u32
    \<Rightarrow> 'e \<times> (u8 list \<times> int) res" where
  "nv_frame_result L E f n s e k t =
     (case nv_format L f of Inl x \<Rightarrow> (e, Inl x)
      | Inr g \<Rightarrow> (case encode_into_buffer E e g of (e', r) \<Rightarrow>
          (e', rbind r (\<lambda>audio. rmap (\<lambda>packet. (packet, fr_size g)) (nv_encrypt E k (rtp_header n t s) audio)))))"

lemma nv_send_frame_result:
  "nv_send_frame L E f n s c =
     (case nv_frame_result L E f n s (vc_encoder c) (vc_key c) (vc_timestamp c) of
        (e, Inl x) \<Rightarrow> (Some x, c\<lparr>vc_encoder := e\<rparr>)
      | (e, Inr (packet, m)) \<Rightarrow> (None, c\<lparr>vc_encoder := e, vc_packets := vc_packets c @ [packet],
            vc_timestamp := vc_timestamp c + word_of_int m\<rparr>))"
proof (cases "nv_format L f")
  case (Inl x)
  then show ?thesis by (simp add: nv_send_frame_def nv_frame_result_def hread_def)
next
  case (Inr g)
  obtain e a where e: "encode_into_buffer E (vc_encoder c) g = (e, a)" by force
  show ?thesis
  proof (cases a)
    case (Inl x)
    with Inr e show ?thesis by (simp add: nv_send_frame_def nv_frame_result_def hread_def)
  next
    case ok: (Inr audio)
    show ?thesis
      by (cases "nv_encrypt E (vc_key c) (rtp_header n (vc_timestamp c) s) audio")
         (use Inr e ok in \<open>simp_all add: nv_send_frame_def nv_frame_result_def hread_def hmod_def\<close>)
  qed
qed

lemma nv_send_frame_cases:
  obtains (fault) x e where "nv_send_frame L E f n s c = (Some x, c\<lparr>vc_encoder := e\<rparr>)"
      "\<And>y a b. nv_send_frame L E f n s (c\<lparr>vc_promises := y, vc_alive := a, vc_closed := b\<rparr>)
         = (Some x, c\<lparr>vc_promises := y, vc_alive := a, vc_closed := b, vc_encoder := e\<rparr>)"
  | (sent) e ps t where "nv_send_frame L E f n s c = (None, c\<lparr>vc_encoder := e, vc_packets := ps, vc_timestamp := t\<rparr>)"
      "\<And>y a b. nv_send_frame L E f n s (c\<lparr>vc_promises := y, vc_alive := a, vc_closed := b\<rparr>)
         = (None, c\<lparr>vc_promises := y, vc_alive := a, vc_closed := b, vc_encoder := e, vc_packets := ps, vc_timestamp := t\<rparr>)"
proof -
  obtain e r where r: "nv_frame_result L E f n s (vc_encoder c) (vc_key c) (vc_timestamp c) = (e, r)" by force
  show thesis
  proof (cases r)
    case (Inl x)
    with r show ?thesis by (intro fault [of x e]) (simp_all add: nv_send_frame_result)
  next
    case (Inr v)
    obtain packet m where "v = (packet, m)" by force
    with r Inr show ?thesis
      by (intro sent [where e = e and ps = "vc_packets c @ [packet]" and t = "vc_timestamp c + word_of_int m"]) (simp_all add: nv_send_frame_result)
  qed
qed

lemma nv_step_unheard:
  assumes "uncancelled p c" "nv_step L E p c = (r, q, d)"
  shows "uncancelled q d \<and> vc_resolved d = vc_resolved c \<and> vc_promises d = vc_promises c
    \<and> nv_step L E p (c\<lparr>vc_promises := x, vc_alive := a, vc_closed := b\<rparr>) = (r, q, d\<lparr>vc_promises := x, vc_alive := a, vc_closed := b\<rparr>)"
proof (cases "\<exists>f fs n s. p = Nv_frames (f # fs) n s")
  case True
  then obtain f fs n s where p: "p = Nv_frames (f # fs) n s" by blast
  have c: "\<not> vc_canceled c" using assms(1) by (simp add: uncancelled_def)
  show ?thesis
  proof (cases rule: nv_send_frame_cases [of L E f n s c])
    case (fault y e)
    with assms(2) c show ?thesis by (auto simp: p nv_step_def uncancelled_def)
  next
    case (sent e ps t)
    with assms(2) c show ?thesis by (auto simp: p nv_step_def uncancelled_def)
  qed
next
  case other: False
  show ?thesis
  proof (cases p)
    case (Nv_frames fs n s)
    with other have "fs = []" by (cases fs) auto
    with Nv_frames assms show ?thesis
      by (auto simp: nv_step_def uncancelled_def nv_control_speaking_def control_speaking_def ws_send_def)
  qed (use assms in \<open>auto simp: nv_step_def uncancelled_def\<close>)
qed

lemma nv_control_unheard:
  "nv_control_speaking m (c\<lparr>vc_promises := x, vc_alive := a, vc_closed := b\<rparr>)
   = (nv_control_speaking m c)\<lparr>vc_promises := x, vc_alive := a, vc_closed := b\<rparr>"
  "vc_canceled (nv_control_speaking m c) = vc_canceled c" "vc_resolved (nv_control_speaking m c) = vc_resolved c"
  "vc_promises (nv_control_speaking m c) = vc_promises c"
  by (simp_all add: nv_control_speaking_def control_speaking_def ws_send_def)

lemma nv_run_unheard:
  assumes "nv_run L E es (p0, c0) = Some (p, c)" "uncancelled p0 c0"
  shows "vc_resolved c = vc_resolved c0 \<and> vc_promises c = vc_promises c0 + length (filter ((=) Nv_cancel) es)
    \<and> nv_run L E (filter nv_plays es) (p0, c0\<lparr>vc_promises := x, vc_alive := a, vc_closed := b\<rparr>)
      = Some (p, c\<lparr>vc_promises := x, vc_alive := a, vc_closed := b\<rparr>)"
  using assms
proof (induction es arbitrary: p0 c0)
  case (Cons e es)
  from Cons.prems(1) obtain p1 c1 where step: "nv_event_step L E e (p0, c0) = Some (p1, c1)" and run: "nv_run L E es (p1, c1) = Some (p, c)"
    by (auto simp: Option.bind_eq_Some_conv)
  show ?case
  proof (cases e)
    case (Nv_send fs)
    with step have eq: "p0 = Nv_idle" "p1 = Nv_starting fs" "c1 = nv_control_speaking 1 c0"
      by (auto simp: nv_send_voice_def split: if_splits)
    with Cons.prems(2) have "uncancelled p1 c1" by (simp add: uncancelled_def nv_control_unheard)
    from Cons.IH [OF run this] eq Nv_send show ?thesis
      by (simp add: nv_plays_def nv_send_voice_def nv_control_unheard)
  next
    case Nv_go
    obtain r q d where go: "nv_step L E p0 c0 = (r, q, d)" by (metis prod_cases3)
    with step Nv_go have eq: "r \<noteq> Some Undef" "q = p1" "d = c1" by (auto split: if_splits)
    from nv_step_unheard [OF Cons.prems(2) go, where x = x and a = a and b = b] Cons.IH [OF run] eq Nv_go
    show ?thesis by (simp add: nv_plays_def)
  next
    case Nv_cancel
    with step Cons.prems(2) have "uncancelled p1 c1" by (auto simp: uncancelled_def nv_cancel_current_data_def)
    with Cons.IH [OF run] Nv_cancel step show ?thesis by (auto simp: nv_plays_def nv_cancel_current_data_def)
  next
    case Nv_close
    with step Cons.prems(2) have "uncancelled p1 c1" by (auto simp: uncancelled_def nv_close_def)
    with Cons.IH [OF run] Nv_close step show ?thesis by (auto simp: nv_plays_def nv_close_def)
  qed
qed simp

text \<open>C38: Without a cache, cancelling and closing change nothing about what is played: every call of
  \<open>cancel_current_data\<close> makes a promise that is never resolved, and the packets and messages of a run are those of the same run
  without its cancellings and closings.\<close>
theorem nc_cancel_ignored:
  assumes "nv_run L E es (Nv_idle, c0) = Some (p, c)" "\<not> vc_canceled c0"
  shows "vc_resolved c = vc_resolved c0 \<and> vc_promises c = vc_promises c0 + length (filter ((=) Nv_cancel) es)
    \<and> (\<exists>d. nv_run L E (filter nv_plays es) (Nv_idle, c0) = Some (p, d) \<and> vc_packets d = vc_packets c \<and> vc_ws d = vc_ws c)"
proof -
  have "uncancelled Nv_idle c0" using assms(2) by (simp add: uncancelled_def)
  note run = nv_run_unheard [OF assms(1) this, where x = "vc_promises c0" and a = "vc_alive c0" and b = "vc_closed c0"]
  then have "nv_run L E (filter nv_plays es) (Nv_idle, c0)
      = Some (p, c\<lparr>vc_promises := vc_promises c0, vc_alive := vc_alive c0, vc_closed := vc_closed c0\<rparr>)" by simp
  with run show ?thesis by auto
qed

section \<open>Both libraries play alike\<close>

fun nv_steps :: "(rat \<Rightarrow> rat \<Rightarrow> rat \<Rightarrow> rat) \<Rightarrow> 'e voice_env \<Rightarrow> nat \<Rightarrow> nv_place \<Rightarrow> 'e voice \<Rightarrow> fault option \<times> nv_place \<times> 'e voice" where
  "nv_steps L E 0 p c = (None, p, c)"
| "nv_steps L E (Suc n) p c =
     (case nv_step L E p c of (None, p', c') \<Rightarrow> nv_steps L E n p' c' | (Some x, p', c') \<Rightarrow> (Some x, p', c'))"

definition same_place :: "play_place \<Rightarrow> nv_place" where
  "same_place p = (case p of Frames fs n s \<Rightarrow> Nv_frames fs n s | _ \<Rightarrow> Nv_idle)"

definition plain_frame :: "audio_frame \<Rightarrow> bool" where
  "plain_frame f \<longleftrightarrow> fr_channels f = 2 \<and> fr_rate f = 48000"

lemma plain_frame_sent:
  "plain_frame f \<Longrightarrow> hread (encoder_format f) (\<lambda>g. send_frame E g n s) c = nv_send_frame L E f n s c"
  by (simp add: plain_frame_def encoder_format_def nv_format_def nv_send_frame_def send_frame_def hread_Inr nv_encrypt_def)

text \<open>Frames that need no resampling are sent as the other library sends them, faults included.\<close>

lemma nv_plays_alike:
  assumes "list_all plain_frame fs" "n \<le> length fs" "\<not> vc_canceled c"
  shows "nv_steps L E n (Nv_frames fs k s) c = (case play_steps E n (Frames fs k s) c of (r, p, d) \<Rightarrow> (r, same_place p, d))"
  using assms
proof (induction n arbitrary: fs k c)
  case (Suc n)
  then obtain f gs where fs: "fs = f # gs" by (cases fs) auto
  have f: "plain_frame f" and gs: "list_all plain_frame gs" using Suc.prems(1) fs by simp_all
  show ?case
  proof (cases rule: nv_send_frame_cases [of L E f k s c])
    case (fault x e)
    with f Suc.prems(3) show ?thesis
      by (simp add: fs nv_step_def play_step_def plain_frame_sent [where L = L] same_place_def)
  next
    case (sent e ps t)
    have "\<not> vc_canceled (c\<lparr>vc_encoder := e, vc_packets := ps, vc_timestamp := t\<rparr>)" using Suc.prems(3) by simp
    from Suc.IH [OF gs _ this, of "k + 1"] sent(1) f Suc.prems(2,3) show ?thesis
      by (simp add: fs nv_step_def play_step_def plain_frame_sent [where L = L])
  qed
qed (simp add: same_place_def)

section \<open>Frames at 96 kHz\<close>

text \<open>Places in the old frame are used for the new one, so a frame with more samples than it should have cannot be resampled.\<close>

lemma count_loop_res:
  assumes "count_loop f n s = Inr t" "\<And>i s t. f i s = Inr t \<Longrightarrow> P s \<Longrightarrow> P t" "P s"
  shows "P t"
  using assms(1)
proof (induction n arbitrary: t)
  case (Suc n)
  then show ?case using assms(2) by (auto simp: rbind_Inr_iff)
qed (use assms(3) in simp)

lemma write_at_length: "write_at xs k v = Inr ys \<Longrightarrow> length ys = length xs"
  by (auto simp: write_at_def split: if_splits)

lemma resample_step_length: "resample_step f nc nr i xs = Inr ys \<Longrightarrow> length ys = length xs"
  unfolding resample_step_def Let_def
  by (auto simp: rbind_Inr_iff split: if_splits dest!: write_at_length
      elim!: count_loop_res [where P = "\<lambda>ys. length ys = length xs"])

lemma fill_between_length: "fill_between L nc a b xs = Inr ys \<Longrightarrow> length ys = length xs"
  unfolding fill_between_def Let_def
  by (erule count_loop_res [where P = "\<lambda>ys. length ys = length xs"])
     (auto simp: rbind_Inr_iff dest!: write_at_length elim!: count_loop_res [where P = "\<lambda>ys. length ys = length xs"])

lemma meh_loop_place:
  assumes "count_loop (meh_step L f nc nr) n (xs, k) = Inr (ys, l)"
  shows "length ys = length xs \<and> (0 < n \<longrightarrow> l = idx_in_unsampled f nr (n - 1) * fr_channels f)"
  using assms
proof (induction n arbitrary: ys l)
  case (Suc n)
  from Suc.prems obtain zs m where before: "count_loop (meh_step L f nc nr) n (xs, k) = Inr (zs, m)"
    and step: "meh_step L f nc nr n (zs, m) = Inr (ys, l)"
    by (auto simp: rbind_Inr_iff)
  from step have "length ys = length zs" "l = idx_in_unsampled f nr n * fr_channels f"
    by (auto simp: meh_step_def Let_def rbind_Inr_iff rmap_def split: if_splits sum.splits
        dest!: resample_step_length fill_between_length)
  with Suc.IH [OF before] show ?case by simp
qed simp

lemma count_loop_first: "\<exists>x. g 0 s = Inl x \<Longrightarrow> \<exists>x. count_loop g (Suc n) s = Inl x"
  by (induction n) auto

lemma fill_between_outside:
  assumes "a < b" "int (length xs) \<le> a" "0 < nc"
  shows "\<exists>x. fill_between L nc a b xs = Inl x"
proof -
  have "0 < nat ((b - a + nc - 1) div nc)" using assms by (simp add: pos_imp_zdiv_pos_iff)
  then obtain m where m: "nat ((b - a + nc - 1) div nc) = Suc m" by (cases "nat ((b - a + nc - 1) div nc)") auto
  obtain k where k: "nat nc = Suc k" using assms(3) by (cases "nat nc") auto
  show ?thesis
    unfolding fill_between_def m k Let_def
    by (intro count_loop_first) (use assms(2) in \<open>simp add: read_at_def\<close>)
qed

lemma resample_meh_too_fast:
  assumes f: "fr_rate f = 96000" "fr_channels f = 2" "fr_size f = 1920"
  shows "\<not> (\<exists>g. nv_format L f = Inr g)"
proof
  assume "\<exists>g. nv_format L f = Inr g"
  then obtain s where s: "count_loop (meh_step L f 2 48000) 960 (replicate 1920 0, - 1) = Inr s"
    using f by (auto simp: nv_format_def resample_meh_def Let_def in_int_def rbind_Inr_iff split: if_splits)
  obtain ys l where "s = (ys, l)" by force
  with s obtain xs k where before: "count_loop (meh_step L f 2 48000) 959 (replicate 1920 0, - 1) = Inr (xs, k)"
    and step: "meh_step L f 2 48000 959 (xs, k) = Inr (ys, l)"
    using count_loop.simps(2) [of "meh_step L f 2 48000" 959] by (auto simp: rbind_Inr_iff)
  from meh_loop_place [OF before] f have len: "length xs = 1920" and k: "k = idx_in_unsampled f 48000 958 * 2" by auto
  have idx: "idx_in_unsampled f 48000 958 \<in> {1915, 1916}" "idx_in_unsampled f 48000 959 \<in> {1917, 1918}"
    using idx_close [of 48000 f 958] idx_close [of 48000 f 959] f by auto
  from step obtain zs where "length zs = 1920" "\<exists>us. fill_between L 2 k (idx_in_unsampled f 48000 959 * 2) zs = Inr us"
    using idx k f len by (auto simp: meh_step_def Let_def rbind_Inr_iff rmap_def split: if_splits sum.splits dest!: resample_step_length; presburger)
  moreover have "\<exists>x. fill_between L 2 k (idx_in_unsampled f 48000 959 * 2) zs = Inl x" if "length zs = 1920" for zs
    by (rule fill_between_outside) (use idx k that in auto)
  ultimately show False by fastforce
qed

section \<open>Setting up\<close>

text \<open>A second connection to a guild that is being connected waits for ever.\<close>

lemma nv_second_connect_waits:
  assumes "nc_connect_voice g ch s = (t, p)" "nc_connect_voice g ch' t = (u, q)"
  shows "\<forall>c v. nc_connect_step c g v q = None"
  using assms
  by (auto simp: nc_connect_voice_def nc_opcode4_def nc_ws_send_def hthen_def hmod_def nc_connect_step_def split: option.splits list.splits)

text \<open>Whoever the bot is, its voice connection identifies as the user 0.\<close>

lemma nv_identifies_as_nobody:
  "nv_connect_impl g encoder p = Some c \<Longrightarrow> \<exists>sid tok. vc_ws c = [Vm_identify g no_id sid tok]"
  by (auto simp: nv_connect_impl_def nv_start_def nv_send_identify_def send_identify_def ws_send_def new_voice_def no_id_def
      split: nc_connecting.splits)

section \<open>A cancelling that is not heard\<close>

definition plain_lerp :: "rat \<Rightarrow> rat \<Rightarrow> rat \<Rightarrow> rat" where "plain_lerp a b t = a + t * (b - a)"

definition unheard_events :: "nv_event list" where
  "unheard_events = [Nv_send [silence, silence], Nv_go, Nv_go, Nv_cancel, Nv_go, Nv_close, Nv_go, Nv_go]"

lemma unheard_run:
  "\<exists>c. nv_run plain_lerp sample_env unheard_events (Nv_idle, sample_voice) = Some (Nv_idle, c) \<and> length (vc_packets c) = 2"
  by (simp add: unheard_events_def nv_send_voice_def nv_control_speaking_def control_speaking_def ws_send_def nv_step_def
      nv_cancel_current_data_def nv_close_def nv_send_frame_result nv_frame_result_def nv_format_def silence_def
      encode_into_buffer_def sample_env_def sample_voice_def new_voice_def nv_encrypt_def encrypt_xsalsa20_poly1305_def rmap_def)

theorem nc_cancel_ignored_witness:
  "\<exists>c. nv_run plain_lerp sample_env unheard_events (Nv_idle, sample_voice) = Some (Nv_idle, c) \<and> length (vc_packets c) = 2
     \<and> vc_promises c = 1 \<and> vc_resolved c = []"
proof -
  obtain c where c: "nv_run plain_lerp sample_env unheard_events (Nv_idle, sample_voice) = Some (Nv_idle, c)" "length (vc_packets c) = 2"
    using unheard_run by blast
  have "\<not> vc_canceled sample_voice" "vc_promises sample_voice = 0" "vc_resolved sample_voice = []"
    by (simp_all add: sample_voice_def new_voice_def)
  with nc_cancel_ignored [OF c(1)] c show ?thesis by (auto simp: unheard_events_def)
qed

end
