(* ===== verification/Guild_Admin.thy ===== *)
theory Guild_Admin
  imports Shard_Requests Json_Sample
begin

text \<open>
  What is read for those who run a guild: webhooks (\<open>include/webhook.h\<close>), invites (\<open>invite.h\<close>), integrations (\<open>guild_integration.h\<close>) and the
  audit log (\<open>audit_log.h\<close>), whose changes have values of the types that their keys name; and the client of a single webhook
  (\<open>webhook_client.h\<close>). An \<open>indirect\<close> is its value.
\<close>

section \<open>Webhooks and invites\<close>

record webhook =
  wh_id :: snowflake
  wh_type :: int
  wh_guild_id :: snowflake
  wh_channel_id :: snowflake
  wh_name :: "string option"
  wh_avatar :: "string option"
  wh_token :: "string option"

definition read_webhook :: "'j json_api \<Rightarrow> 'j \<Rightarrow> webhook res" where
  "read_webhook J e =
     fresh
       [assign (rbind (at_const J e ''id'') (as_sf J)) (\<lambda>v h. h\<lparr>wh_id := v\<rparr>),
        assign (rbind (at_const J e ''type'') (as_int J)) (\<lambda>v h. h\<lparr>wh_type := v\<rparr>),
        assign (value_or (as_sf J) no_id J e ''guild_id'') (\<lambda>v h. h\<lparr>wh_guild_id := v\<rparr>),
        assign (rbind (at_const J e ''channel_id'') (as_sf J)) (\<lambda>v h. h\<lparr>wh_channel_id := v\<rparr>),
        assign (opt (as_str J) J e ''name'') (\<lambda>v h. h\<lparr>wh_name := v\<rparr>),
        assign (rbind (at_const J e ''avatar'') (as_optional (as_str J) J)) (\<lambda>v h. h\<lparr>wh_avatar := v\<rparr>),
        assign (opt (as_str J) J e ''token'') (\<lambda>v h. h\<lparr>wh_token := v\<rparr>)]
       \<lparr>wh_id = no_id, wh_type = 0, wh_guild_id = no_id, wh_channel_id = no_id, wh_name = None, wh_avatar = None, wh_token = None\<rparr>"

definition webhook_guild_id :: "webhook \<Rightarrow> snowflake option" where
  "webhook_guild_id h = (if sf_val (wh_guild_id h) \<noteq> 0 then Some (wh_guild_id h) else None)"

record invite_guild =
  ig_id :: snowflake
  ig_name :: string
  ig_splash :: string
  ig_icon :: string

record invite_channel =
  ic_id :: snowflake
  ic_name :: string
  ic_type :: int

record invite =
  iv_code :: string
  iv_guild :: invite_guild
  iv_channel :: invite_channel

definition read_invite_guild :: "'j json_api \<Rightarrow> 'j \<Rightarrow> invite_guild res" where
  "read_invite_guild J e =
     fresh
       [assign (rbind (at_const J e ''id'') (as_sf J)) (\<lambda>v g. g\<lparr>ig_id := v\<rparr>),
        assign (rbind (at_const J e ''name'') (as_str J)) (\<lambda>v g. g\<lparr>ig_name := v\<rparr>),
        assign (rbind (at_const J e ''splash'') (as_str J)) (\<lambda>v g. g\<lparr>ig_splash := v\<rparr>),
        assign (rbind (at_const J e ''icon'') (as_str J)) (\<lambda>v g. g\<lparr>ig_icon := v\<rparr>)]
       \<lparr>ig_id = no_id, ig_name = '''', ig_splash = '''', ig_icon = ''''\<rparr>"

definition read_invite_channel :: "'j json_api \<Rightarrow> 'j \<Rightarrow> invite_channel res" where
  "read_invite_channel J e =
     fresh
       [assign (rbind (at_const J e ''id'') (as_sf J)) (\<lambda>v c. c\<lparr>ic_id := v\<rparr>),
        assign (rbind (at_const J e ''name'') (as_str J)) (\<lambda>v c. c\<lparr>ic_name := v\<rparr>),
        assign (rbind (at_const J e ''type'') (as_int J)) (\<lambda>v c. c\<lparr>ic_type := v\<rparr>)]
       \<lparr>ic_id = no_id, ic_name = '''', ic_type = 0\<rparr>"

definition read_invite :: "'j json_api \<Rightarrow> 'j \<Rightarrow> invite res" where
  "read_invite J e =
     rbind (rbind (at_const J e ''code'') (as_str J)) (\<lambda>code.
       rbind (rbind (at_const J e ''guild'') (read_invite_guild J)) (\<lambda>g.
         rmap (\<lambda>c. \<lparr>iv_code = code, iv_guild = g, iv_channel = c\<rparr>) (rbind (at_const J e ''channel'') (read_invite_channel J))))"

text \<open>Of the metadata only the number of uses that are allowed is read.\<close>

record invite_metadata =
  im_user :: "user option"
  im_uses :: int
  im_max_uses :: int

definition read_invite_metadata :: "'j json_api \<Rightarrow> 'j \<Rightarrow> invite_metadata res" where
  "read_invite_metadata J e =
     rmap (\<lambda>v. \<lparr>im_user = None, im_uses = 0, im_max_uses = v\<rparr>) (rbind (at_const J e ''max_uses'') (as_int J))"

section \<open>Integrations\<close>

record integration_account =
  ia_id :: string
  ia_name :: string

record partial_integration =
  pi_id :: snowflake
  pi_name :: string
  pi_type :: string
  pi_account :: integration_account

record guild_integration = partial_integration +
  gi_enabled :: bool
  gi_syncing :: bool
  gi_role_id :: snowflake
  gi_enable_emoticons :: "bool option"
  gi_expire_grace_period :: int
  gi_user :: user

definition read_integration_account :: "'j json_api \<Rightarrow> 'j \<Rightarrow> integration_account res" where
  "read_integration_account J e =
     rbind (rbind (at_const J e ''id'') (as_str J)) (\<lambda>i.
       rmap (\<lambda>n. \<lparr>ia_id = i, ia_name = n\<rparr>) (rbind (at_const J e ''name'') (as_str J)))"

definition read_partial_integration :: "'j json_api \<Rightarrow> 'j \<Rightarrow> partial_integration res" where
  "read_partial_integration J e =
     fresh
       [assign (rbind (at_const J e ''id'') (as_sf J)) (\<lambda>v i. i\<lparr>pi_id := v\<rparr>),
        assign (rbind (at_const J e ''name'') (as_str J)) (\<lambda>v i. i\<lparr>pi_name := v\<rparr>),
        assign (rbind (at_const J e ''type'') (as_str J)) (\<lambda>v i. i\<lparr>pi_type := v\<rparr>),
        assign (rbind (at_const J e ''account'') (read_integration_account J)) (\<lambda>v i. i\<lparr>pi_account := v\<rparr>)]
       \<lparr>pi_id = no_id, pi_name = '''', pi_type = '''', pi_account = \<lparr>ia_id = '''', ia_name = ''''\<rparr>\<rparr>"

text \<open>The reader of an integration of a guild does not read what a partial one has; the behaviour on expiring and the time stamp are
  asked for and not used.\<close>

definition read_guild_integration :: "'j json_api \<Rightarrow> 'j \<Rightarrow> guild_integration res" where
  "read_guild_integration J e =
     fresh
       [assign (rbind (at_const J e ''enabled'') (as_bool J)) (\<lambda>v i. i\<lparr>gi_enabled := v\<rparr>),
        assign (rbind (at_const J e ''syncing'') (as_bool J)) (\<lambda>v i. i\<lparr>gi_syncing := v\<rparr>),
        assign (rbind (at_const J e ''role_id'') (as_sf J)) (\<lambda>v i. i\<lparr>gi_role_id := v\<rparr>),
        assign (opt (as_bool J) J e ''enable_emoticons'') (\<lambda>v i. i\<lparr>gi_enable_emoticons := v\<rparr>),
        assign (at_const J e ''expire_behavior'') (\<lambda>_ i. i),
        assign (rbind (at_const J e ''expire_grace_period'') (as_int J)) (\<lambda>v i. i\<lparr>gi_expire_grace_period := v\<rparr>),
        assign (rbind (at_const J e ''user'') (read_user J)) (\<lambda>v i. i\<lparr>gi_user := v\<rparr>),
        assign (at_const J e ''synced_at'') (\<lambda>_ i. i)]
       \<lparr>pi_id = no_id, pi_name = '''', pi_type = '''', pi_account = \<lparr>ia_id = '''', ia_name = ''''\<rparr>, gi_enabled = False, gi_syncing = False,
        gi_role_id = no_id, gi_enable_emoticons = None, gi_expire_grace_period = 0, gi_user = default_user\<rparr>"

section \<open>The values of changes\<close>

record changed_role =
  cr_name :: "string option"
  cr_permissions :: "permission option"
  cr_id :: snowflake
  cr_color :: int
  cr_position :: int
  cr_hoist :: "bool option"
  cr_managed :: "bool option"
  cr_mentionable :: "bool option"

definition read_changed_role :: "'j json_api \<Rightarrow> 'j \<Rightarrow> changed_role res" where
  "read_changed_role J e =
     fresh
       [assign (opt (as_str J) J e ''name'') (\<lambda>v r. r\<lparr>cr_name := v\<rparr>),
        assign (value_or (\<lambda>v. rmap Some (as_permission J v)) None J e ''permissions'') (\<lambda>v r. r\<lparr>cr_permissions := v\<rparr>),
        assign (value_or (as_sf J) no_id J e ''id'') (\<lambda>v r. r\<lparr>cr_id := v\<rparr>),
        assign (value_or (as_int J) (-1) J e ''color'') (\<lambda>v r. r\<lparr>cr_color := v\<rparr>),
        assign (value_or (as_int J) (-1) J e ''position'') (\<lambda>v r. r\<lparr>cr_position := v\<rparr>),
        assign (opt (as_bool J) J e ''hoist'') (\<lambda>v r. r\<lparr>cr_hoist := v\<rparr>),
        assign (opt (as_bool J) J e ''managed'') (\<lambda>v r. r\<lparr>cr_managed := v\<rparr>),
        assign (opt (as_bool J) J e ''mentionable'') (\<lambda>v r. r\<lparr>cr_mentionable := v\<rparr>)]
       \<lparr>cr_name = None, cr_permissions = None, cr_id = no_id, cr_color = -1, cr_position = -1, cr_hoist = None, cr_managed = None,
        cr_mentionable = None\<rparr>"

definition changed_color :: "changed_role \<Rightarrow> int option" where "changed_color r = (if cr_color r = -1 then None else Some (cr_color r))"
definition changed_position :: "changed_role \<Rightarrow> int option" where
  "changed_position r = (if cr_position r = -1 then None else Some (cr_position r))"

datatype change_type = Ct_string | Ct_number | Ct_boolean | Ct_snowflake | Ct_role | Ct_overwrites | Ct_unknown

text \<open>The alternatives of a value, the first of which is there before anything is read.\<close>

datatype change_value = Cv_int "int option" | Cv_str "string option" | Cv_sf "snowflake option"
  | Cv_overwrites "permission_overwrite list option" | Cv_bool "bool option" | Cv_role "changed_role option"

record audit_change =
  ac_old :: change_value
  ac_new :: change_value
  ac_type :: change_type
  ac_key :: string

definition keys_that_are_int :: "string list" where
  "keys_that_are_int = [''afk_timeout'', ''mfa_level'', ''verification_level'', ''explicit_content_filter'', ''default_message_notification'',
     ''prune_delete_days'', ''position'', ''bitrate'', ''rate_limit_per_user'', ''permissions'', ''color'', ''allow'', ''deny'', ''max_uses'',
     ''uses'', ''max_age'']"

definition keys_that_are_string :: "string list" where
  "keys_that_are_string = [''name'', ''icon_hash'', ''splash_hash'', ''region'', ''vanity_url_code'', ''topic'', ''code'', ''nick'',
     ''avatar_hash'', ''type'']"

definition keys_that_are_bool :: "string list" where
  "keys_that_are_bool = [''widget_enabled'', ''nsfw'', ''hoist'', ''mentionable'', ''mentionable'', ''deaf'', ''mute'', ''enable_emoticons'']"

definition keys_that_are_snowflake :: "string list" where
  "keys_that_are_snowflake = [''owner_id'', ''afk_channel_id'', ''widget_channel_id'', ''system_channel_id'', ''application_id'',
     ''channel_id'', ''inviter_id'', ''id'']"

text \<open>\<open>is_string\<close> and \<open>is_number\<close>; a boolean can be converted to a number and is none.\<close>

definition j_is_string :: "'j json_api \<Rightarrow> 'j \<Rightarrow> bool" where "j_is_string J v \<longleftrightarrow> \<not> j_is_null J v \<and> j_str J v \<noteq> None"
definition j_is_number :: "'j json_api \<Rightarrow> 'j \<Rightarrow> bool" where "j_is_number J v \<longleftrightarrow> \<not> j_is_null J v \<and> j_bool J v = None \<and> j_int J v \<noteq> None"

text \<open>A value of the key \<open>type\<close>, which is a string or a number: a missing one leaves the alternative that was there.\<close>

definition read_type_value :: "'j json_api \<Rightarrow> 'j \<Rightarrow> string \<Rightarrow> change_value res" where
  "read_type_value J e k =
     (case find_key J e k of
       None \<Rightarrow> Inr (Cv_int None)
     | Some v \<Rightarrow> if j_is_string J v then rmap (\<lambda>s. Cv_str (Some s)) (as_str J v)
         else if j_is_number J v then rmap (\<lambda>n. Cv_str (Some (std_to_string_int n))) (as_int J v)
         else Inr (Cv_str None))"

text \<open>What is asked for with \<open>contains\<close> and then read, unlike an optional value, is not null.\<close>

definition read_if_there :: "('j \<Rightarrow> 'a res) \<Rightarrow> ('a option \<Rightarrow> change_value) \<Rightarrow> 'j json_api \<Rightarrow> 'j \<Rightarrow> string \<Rightarrow> change_value res" where
  "read_if_there rd c J e k = (case find_key J e k of None \<Rightarrow> Inr (c None) | Some v \<Rightarrow> rmap (\<lambda>a. c (Some a)) (rd v))"

definition read_both :: "(string \<Rightarrow> change_value res) \<Rightarrow> change_type \<Rightarrow> string \<Rightarrow> audit_change res" where
  "read_both rd t key =
     rbind (rd ''old_value'') (\<lambda>old. rmap (\<lambda>new. \<lparr>ac_old = old, ac_new = new, ac_type = t, ac_key = key\<rparr>) (rd ''new_value''))"

definition read_audit_change :: "'j json_api \<Rightarrow> 'j \<Rightarrow> audit_change res" where
  "read_audit_change J e =
     rbind (rbind (at_const J e ''key'') (as_str J)) (\<lambda>key.
       if key = ''type'' then
         rbind (read_type_value J e ''new_value'') (\<lambda>new. rmap (\<lambda>old. \<lparr>ac_old = old, ac_new = new, ac_type = Ct_string, ac_key = key\<rparr>)
           (read_type_value J e ''old_value''))
       else if key \<in> set keys_that_are_int then read_both (\<lambda>k. rmap Cv_int (opt (as_int J) J e k)) Ct_number key
       else if key \<in> set keys_that_are_bool then read_both (\<lambda>k. rmap Cv_bool (opt (as_bool J) J e k)) Ct_boolean key
       else if key \<in> set keys_that_are_snowflake then read_both (read_if_there (as_sf J) Cv_sf J e) Ct_snowflake key
       else if key \<in> set keys_that_are_string then read_both (\<lambda>k. rmap Cv_str (opt (as_str J) J e k)) Ct_string key
       else if key = ''permission_overwrites'' then
         read_both (read_if_there (as_vector (read_overwrite J) J) Cv_overwrites J e) Ct_overwrites key
       else if key = ''$add'' \<or> key = ''$remove'' then read_both (\<lambda>k. rmap Cv_role (opt (read_changed_role J) J e k)) Ct_role key
       else Inr \<lparr>ac_old = Cv_int None, ac_new = Cv_int None, ac_type = Ct_unknown, ac_key = key\<rparr>)"

text \<open>The access to a value: the type is asserted, and another alternative is an exception.\<close>

definition get_int :: "(audit_change \<Rightarrow> change_value) \<Rightarrow> audit_change \<Rightarrow> int option res" where
  "get_int side c = (if ac_type c \<noteq> Ct_number then Inl Undef else case side c of Cv_int v \<Rightarrow> Inr v | _ \<Rightarrow> Inl Throws)"

definition get_bool :: "(audit_change \<Rightarrow> change_value) \<Rightarrow> audit_change \<Rightarrow> bool option res" where
  "get_bool side c = (if ac_type c \<noteq> Ct_boolean then Inl Undef else case side c of Cv_bool v \<Rightarrow> Inr v | _ \<Rightarrow> Inl Throws)"

definition get_snowflake :: "(audit_change \<Rightarrow> change_value) \<Rightarrow> audit_change \<Rightarrow> snowflake option res" where
  "get_snowflake side c = (if ac_type c \<noteq> Ct_snowflake then Inl Undef else case side c of Cv_sf v \<Rightarrow> Inr v | _ \<Rightarrow> Inl Throws)"

definition get_string :: "(audit_change \<Rightarrow> change_value) \<Rightarrow> audit_change \<Rightarrow> string option res" where
  "get_string side c = (if ac_type c \<noteq> Ct_string then Inl Undef else case side c of Cv_str v \<Rightarrow> Inr v | _ \<Rightarrow> Inl Throws)"

definition get_role :: "(audit_change \<Rightarrow> change_value) \<Rightarrow> audit_change \<Rightarrow> changed_role option res" where
  "get_role side c = (if ac_type c \<noteq> Ct_role then Inl Undef else case side c of Cv_role v \<Rightarrow> Inr v | _ \<Rightarrow> Inl Throws)"

definition get_permissions :: "(audit_change \<Rightarrow> change_value) \<Rightarrow> audit_change \<Rightarrow> permission_overwrite list option res" where
  "get_permissions side c = (if ac_type c \<noteq> Ct_overwrites then Inl Undef else case side c of Cv_overwrites v \<Rightarrow> Inr v | _ \<Rightarrow> Inl Throws)"

section \<open>The log\<close>

record entry_info =
  en_delete_member_days :: "string option"
  en_members_removed :: "string option"
  en_channel_id :: "snowflake option"
  en_message_id :: "snowflake option"
  en_count :: "string option"
  en_id :: "snowflake option"
  en_type :: "string option"
  en_role_name :: "string option"

definition read_entry_info :: "'j json_api \<Rightarrow> 'j \<Rightarrow> entry_info res" where
  "read_entry_info J e =
     fresh
       [assign (opt (as_str J) J e ''delete_member_days'') (\<lambda>v i. i\<lparr>en_delete_member_days := v\<rparr>),
        assign (opt (as_str J) J e ''members_removed'') (\<lambda>v i. i\<lparr>en_members_removed := v\<rparr>),
        assign (value_or (as_sf J) no_id J e ''channel_id'') (\<lambda>v i. i\<lparr>en_channel_id := Some v\<rparr>),
        assign (value_or (as_sf J) no_id J e ''message_id'') (\<lambda>v i. i\<lparr>en_message_id := Some v\<rparr>),
        assign (opt (as_str J) J e ''count'') (\<lambda>v i. i\<lparr>en_count := v\<rparr>),
        assign (value_or (as_sf J) no_id J e ''id'') (\<lambda>v i. i\<lparr>en_id := Some v\<rparr>),
        assign (opt (as_str J) J e ''type'') (\<lambda>v i. i\<lparr>en_type := v\<rparr>),
        assign (opt (as_str J) J e ''role_name'') (\<lambda>v i. i\<lparr>en_role_name := v\<rparr>)]
       \<lparr>en_delete_member_days = None, en_members_removed = None, en_channel_id = None, en_message_id = None, en_count = None,
        en_id = None, en_type = None, en_role_name = None\<rparr>"

record audit_entry =
  ae_target_id :: "snowflake option"
  ae_changes :: "audit_change list"
  ae_user_id :: snowflake
  ae_id :: snowflake
  ae_action_type :: int
  ae_options :: "entry_info option"
  ae_reason :: "string option"

definition read_audit_entry :: "'j json_api \<Rightarrow> 'j \<Rightarrow> audit_entry res" where
  "read_audit_entry J e =
     fresh
       [assign (value_or (as_sf J) no_id J e ''target_id'') (\<lambda>v a. a\<lparr>ae_target_id := Some v\<rparr>),
        assign (value_or (as_vector (read_audit_change J) J) [] J e ''changes'') (\<lambda>v a. a\<lparr>ae_changes := v\<rparr>),
        assign (rbind (at_const J e ''user_id'') (as_sf J)) (\<lambda>v a. a\<lparr>ae_user_id := v\<rparr>),
        assign (rbind (at_const J e ''id'') (as_sf J)) (\<lambda>v a. a\<lparr>ae_id := v\<rparr>),
        assign (rbind (at_const J e ''action_type'') (as_int J)) (\<lambda>v a. a\<lparr>ae_action_type := v\<rparr>),
        assign (opt (read_entry_info J) J e ''options'') (\<lambda>v a. a\<lparr>ae_options := v\<rparr>),
        assign (opt (as_str J) J e ''reason'') (\<lambda>v a. a\<lparr>ae_reason := v\<rparr>)]
       \<lparr>ae_target_id = None, ae_changes = [], ae_user_id = no_id, ae_id = no_id, ae_action_type = 0, ae_options = None, ae_reason = None\<rparr>"

text \<open>\<open>target_id()\<close> answers the id of the entry.\<close>

definition entry_target_id :: "audit_entry \<Rightarrow> snowflake option" where "entry_target_id a = Some (ae_id a)"

record audit_log =
  al_webhooks :: "webhook list"
  al_users :: "user list"
  al_integrations :: "partial_integration list"
  al_entries :: "audit_entry list"

definition read_audit_log :: "'j json_api \<Rightarrow> 'j \<Rightarrow> audit_log res" where
  "read_audit_log J e =
     fresh
       [assign (rbind (at_const J e ''webhooks'') (as_vector (read_webhook J) J)) (\<lambda>v l. l\<lparr>al_webhooks := v\<rparr>),
        assign (rbind (at_const J e ''users'') (as_vector (read_user J) J)) (\<lambda>v l. l\<lparr>al_users := v\<rparr>),
        assign (rbind (at_const J e ''integrations'') (as_vector (read_partial_integration J) J)) (\<lambda>v l. l\<lparr>al_integrations := v\<rparr>),
        assign (rbind (at_const J e ''audit_log_entries'') (as_vector (read_audit_entry J) J)) (\<lambda>v l. l\<lparr>al_entries := v\<rparr>)]
       \<lparr>al_webhooks = [], al_users = [], al_integrations = [], al_entries = []\<rparr>"

section \<open>The client of a webhook\<close>

text \<open>Its requests carry no token but the one in the target.\<close>

definition wh_set_up_request :: "(string \<times> string) list" where
  "wh_set_up_request =
     [(''Application'', ''cerwy''), (''Host'', ''discord.com''), (''User-Agent'', ''watland''),
      (''Accept'', ''text/html,application/xhtml+xml,application/xml;q=0.9,*/*;q=0.8''), (''Accept-Language'', ''en-US,en;q=0.5'')]"

definition wh_send_request :: "'j body \<Rightarrow> request_class \<Rightarrow> 'j http_request" where [request_defs]:
  "wh_send_request b c =
     \<lparr>hr_verb = rc_verb c, hr_target = api_target c, hr_headers = application_json # wh_set_up_request, hr_body = b\<rparr>"

definition wh_send :: "'j json_api \<Rightarrow> 'j json_maker \<Rightarrow> snowflake \<Rightarrow> string \<Rightarrow> string \<Rightarrow> 'j http_request" where [request_defs]:
  "wh_send J W i token stuff = wh_send_request (Dumped (json_object J W [(''content'', mk_str W stuff)])) (rq_execute_webhook i token)"

lemma wh_send_bucket: "get_major_param_id (hr_target (wh_send J W i token stuff)) = Some (sf_val i)"
proof -
  have "get_major_param_id (''/api/v8'' @ ''/webhooks/'' @ sf_text i @ ''/'' @ token) = Some (sf_val i)"
    by (rule bucket_id) (simp_all add: is_digit_def)
  then show ?thesis by (simp add: request_defs)
qed

section \<open>The values of a change have the type of its key\<close>

lemmas change_getters = get_int_def get_bool_def get_snowflake_def get_string_def get_role_def get_permissions_def

lemma read_both_Inr:
  assumes "read_both rd t key = Inr c" "(side, k) \<in> {(ac_old, ''old_value''), (ac_new, ''new_value'')}"
  shows "rd k = Inr (side c)" "ac_type c = t" "ac_key c = key"
  using assms by (auto simp: read_both_def rmap_def rbind_Inr_iff)

lemma rmap_Inr: "rmap C r = Inr v \<Longrightarrow> \<exists>a. v = C a"
  by (cases r) auto

lemma read_if_there_Inr: "read_if_there rd C J e k = Inr v \<Longrightarrow> \<exists>a. v = C a"
  by (auto simp: read_if_there_def rmap_def rbind_Inr_iff split: option.splits)

lemma read_type_value_Inr:
  "read_type_value J e k = Inr v \<Longrightarrow> (if find_key J e k = None then v = Cv_int None else \<exists>a. v = Cv_str a)"
  by (auto simp: read_type_value_def rmap_def rbind_Inr_iff split: option.splits if_splits)

lemma key_sets:
  "''type'' \<notin> set keys_that_are_int" "''type'' \<notin> set keys_that_are_bool" "''type'' \<notin> set keys_that_are_snowflake"
  by (simp_all add: keys_that_are_int_def keys_that_are_bool_def keys_that_are_snowflake_def)

text \<open>A change that was read has values of the type it says it has, so that asking for them never throws, but for one: when a type was
  set and there was none before, or the other way round, asking for the missing side throws.\<close>
theorem audit_values_typed:
  assumes "read_audit_change J e = Inr c" "(side, k) \<in> {(ac_old, ''old_value''), (ac_new, ''new_value'')}"
  shows "(ac_type c = Ct_number \<longrightarrow> (\<exists>v. get_int side c = Inr v)) \<and> (ac_type c = Ct_boolean \<longrightarrow> (\<exists>v. get_bool side c = Inr v))
    \<and> (ac_type c = Ct_snowflake \<longrightarrow> (\<exists>v. get_snowflake side c = Inr v)) \<and> (ac_type c = Ct_role \<longrightarrow> (\<exists>v. get_role side c = Inr v))
    \<and> (ac_type c = Ct_overwrites \<longrightarrow> (\<exists>v. get_permissions side c = Inr v))
    \<and> (ac_type c = Ct_string \<longrightarrow> (if ac_key c = ''type'' \<and> find_key J e k = None then get_string side c = Inl Throws
         else \<exists>v. get_string side c = Inr v))"
proof -
  obtain key where key: "rbind (at_const J e ''key'') (as_str J) = Inr key"
    using assms(1) by (auto simp: read_audit_change_def rbind_Inr_iff)
  note c = assms(1) [unfolded read_audit_change_def key rbind_simps]
  show ?thesis
  proof (cases "key = ''type''")
    case True
    then show ?thesis using c assms(2)
      by (auto simp: rmap_def rbind_Inr_iff change_getters dest!: read_type_value_Inr split: if_splits)
  next
    case False
    then consider (int) "read_both (\<lambda>k. rmap Cv_int (opt (as_int J) J e k)) Ct_number key = Inr c"
      | (bool) "read_both (\<lambda>k. rmap Cv_bool (opt (as_bool J) J e k)) Ct_boolean key = Inr c"
      | (sf) "read_both (read_if_there (as_sf J) Cv_sf J e) Ct_snowflake key = Inr c"
      | (str) "read_both (\<lambda>k. rmap Cv_str (opt (as_str J) J e k)) Ct_string key = Inr c"
      | (overwrites) "read_both (read_if_there (as_vector (read_overwrite J) J) Cv_overwrites J e) Ct_overwrites key = Inr c"
      | (role) "read_both (\<lambda>k. rmap Cv_role (opt (read_changed_role J) J e k)) Ct_role key = Inr c"
      | (unknown) "ac_type c = Ct_unknown"
      using c by (auto split: if_splits)
    then show ?thesis
    proof cases
      case int
      note r = read_both_Inr [OF int assms(2)]
      then show ?thesis using rmap_Inr [OF r(1)] by (auto simp: change_getters)
    next
      case bool
      note r = read_both_Inr [OF bool assms(2)]
      then show ?thesis using rmap_Inr [OF r(1)] by (auto simp: change_getters)
    next
      case sf
      note r = read_both_Inr [OF sf assms(2)]
      then show ?thesis using read_if_there_Inr [OF r(1)] by (auto simp: change_getters)
    next
      case str
      note r = read_both_Inr [OF str assms(2)]
      then show ?thesis using False rmap_Inr [OF r(1)] by (auto simp: change_getters)
    next
      case overwrites
      note r = read_both_Inr [OF overwrites assms(2)]
      then show ?thesis using read_if_there_Inr [OF r(1)] by (auto simp: change_getters)
    next
      case role
      note r = read_both_Inr [OF role assms(2)]
      then show ?thesis using rmap_Inr [OF r(1)] by (auto simp: change_getters)
    qed simp
  qed
qed

text \<open>The roles that a member was given come as an array, which is not read: the whole log throws.\<close>

lemma given_roles_throw:
  assumes "rbind (at_const J e ''key'') (as_str J) = Inr ''$add''" "find_key J e ''old_value'' = None"
    "find_key J e ''new_value'' = Some v" "\<not> j_is_null J v" "j_object J v = None"
  shows "read_audit_change J e = Inl Throws"
proof -
  obtain m where m: "j_object J e = Some m" "m ''old_value'' = None" "m ''new_value'' = Some v"
    using assms(2,3) by (auto simp: find_key_def split: option.splits)
  have "read_changed_role J v = Inl Throws" using assms(5) by (simp add: read_changed_role_def fresh_def opt_def value_or_def)
  then show ?thesis
    using assms(1,4) m by (simp add: read_audit_change_def read_both_def opt_def value_or_def as_optional_def keys_that_are_int_def
        keys_that_are_bool_def keys_that_are_snowflake_def keys_that_are_string_def)
qed

text \<open>A set of permissions comes as a string and is asked for as a number.\<close>

lemma changed_permissions_throw:
  assumes "rbind (at_const J e ''key'') (as_str J) = Inr ''permissions''" "find_key J e ''old_value'' = Some v" "\<not> j_is_null J v" "j_int J v = None"
  shows "read_audit_change J e = Inl Throws"
proof -
  obtain m where m: "j_object J e = Some m" "m ''old_value'' = Some v"
    using assms(2) by (auto simp: find_key_def split: option.splits)
  then show ?thesis
    using assms(1,3,4) by (simp add: read_audit_change_def read_both_def opt_def value_or_def as_optional_def as_int_def keys_that_are_int_def)
qed

section \<open>A concrete log\<close>

definition type_set :: js where "type_set = JObj [(''key'', JStr ''type''), (''new_value'', JInt 2)]"

lemma type_set_read:
  "read_audit_change js_api type_set = Inr \<lparr>ac_old = Cv_int None, ac_new = Cv_str (Some ''2''), ac_type = Ct_string, ac_key = ''type''\<rparr>"
  by code_simp

theorem audit_values_typed_witness:
  "\<exists>c. read_audit_change js_api type_set = Inr c \<and> get_string ac_old c = Inl Throws \<and> (\<exists>v. get_string ac_new c = Inr v)"
  using audit_values_typed [OF type_set_read, of ac_old "''old_value''"] audit_values_typed [OF type_set_read, of ac_new "''new_value''"]
    type_set_read
  by (auto simp: find_key_def type_set_def j_object_def j_is_null_def js_api_def js_members_def)

text \<open>A role that was given to a member.\<close>

lemma role_given_throws:
  "read_audit_change js_api (JObj [(''key'', JStr ''$add''), (''new_value'', JArr [JObj [(''id'', num 9), (''name'', JStr ''role'')]])]) = Inl Throws"
  by (rule given_roles_throw [where v = "JArr [JObj [(''id'', num 9), (''name'', JStr ''role'')]]"])
    (simp_all add: at_const_def find_key_def j_object_def j_is_null_def js_api_def js_members_def as_str_def js_str_def)

end
