(* ===== verification/Mentions.thy ===== *)
theory Mentions
  imports Request_Cases
begin

unbundle bit_operations_syntax

text \<open>
  The template \<open>allowed_mentions<flags>\<close> of both libraries (\<open>include/allowed_mentions.h\<close>,
  \<open>no_cache/allowed_mentions.h\<close>): what may be mentioned is built up by calls that add a flag to the type. The flags of the type are
  a field here, and a call that does not compile, because of a \<open>requires\<close> or of the type of a member, has no result. The overloads that take a range are left out.
\<close>

section \<open>The flags\<close>

definition allows_everyone_flag :: "32 word" where "allows_everyone_flag = 1"

definition allows_all_users_flag :: "32 word" where "allows_all_users_flag = push_bit 1 1"

definition allows_all_roles_flag :: "32 word" where "allows_all_roles_flag = push_bit 2 1"

definition allows_roles_flag :: "32 word" where "allows_roles_flag = push_bit 3 1"

definition allows_users_flag :: "32 word" where "allows_users_flag = push_bit 4 1"

record mentions =
  mn_flags :: "32 word"
  mn_roles :: "snowflake list"
  mn_users :: "snowflake list"

definition allow_everyone :: "mentions \<Rightarrow> bool" where
  "allow_everyone m \<longleftrightarrow> mn_flags m AND allows_everyone_flag \<noteq> 0"

definition allow_all_roles :: "mentions \<Rightarrow> bool" where
  "allow_all_roles m \<longleftrightarrow> mn_flags m AND allows_all_roles_flag \<noteq> 0"

definition allow_all_users :: "mentions \<Rightarrow> bool" where
  "allow_all_users m \<longleftrightarrow> mn_flags m AND allows_all_users_flag \<noteq> 0"

definition allow_some_users :: "mentions \<Rightarrow> bool" where
  "allow_some_users m \<longleftrightarrow> mn_flags m AND allows_users_flag \<noteq> 0"

definition allow_some_roles :: "mentions \<Rightarrow> bool" where
  "allow_some_roles m \<longleftrightarrow> mn_flags m AND allows_roles_flag \<noteq> 0"

text \<open>Whether the members are vectors; both tests are for roles.\<close>

definition has_role_vector :: "mentions \<Rightarrow> bool" where "has_role_vector m = allow_some_roles m"

definition has_user_vector :: "mentions \<Rightarrow> bool" where "has_user_vector m = allow_some_roles m"

section \<open>Building\<close>

definition no_mentions :: mentions where
  "no_mentions = \<lparr>mn_flags = 0, mn_roles = [], mn_users = []\<rparr>"

definition mn_convert :: "32 word \<Rightarrow> mentions \<Rightarrow> mentions option" where
  "mn_convert flags other =
     (let me = no_mentions\<lparr>mn_flags := flags\<rparr>;
          move_users = (allow_some_users other \<and> allow_some_users me)
      in if (allow_all_roles me \<and> allow_some_roles me) \<or> (allow_all_users me \<and> allow_some_users me) then None
         else if flags OR mn_flags other \<noteq> flags then None
         else if move_users \<and> has_user_vector other \<noteq> has_user_vector me then None
         else Some (me\<lparr>mn_roles := if allow_some_roles other \<and> allow_some_roles me then mn_roles other else [],
                       mn_users := if move_users then mn_users other else []\<rparr>))"

definition mn_everyone :: "mentions \<Rightarrow> mentions option" where
  "mn_everyone m = (if allow_everyone m then None else mn_convert (mn_flags m OR allows_everyone_flag) m)"

definition mn_all_roles :: "mentions \<Rightarrow> mentions option" where
  "mn_all_roles m = (if allow_all_roles m \<or> allow_some_roles m then None else mn_convert (mn_flags m OR allows_all_roles_flag) m)"

definition mn_all_users :: "mentions \<Rightarrow> mentions option" where
  "mn_all_users m = (if allow_all_users m \<or> allow_some_users m then None else mn_convert (mn_flags m OR allows_all_users_flag) m)"

definition push_roles :: "snowflake list \<Rightarrow> mentions \<Rightarrow> mentions option" where
  "push_roles ids m = (if has_role_vector m then Some (m\<lparr>mn_roles := mn_roles m @ ids\<rparr>) else None)"

definition push_users :: "snowflake list \<Rightarrow> mentions \<Rightarrow> mentions option" where
  "push_users ids m = (if has_user_vector m then Some (m\<lparr>mn_users := mn_users m @ ids\<rparr>) else None)"

definition mn_add_roles :: "snowflake list \<Rightarrow> mentions \<Rightarrow> mentions option" where
  "mn_add_roles ids m =
     (if allow_all_roles m then None
      else if \<not> allow_some_roles m then Option.bind (mn_convert (mn_flags m OR allows_roles_flag) m) (push_roles ids)
      else push_roles ids m)"

definition mn_add_users :: "snowflake list \<Rightarrow> mentions \<Rightarrow> mentions option" where
  "mn_add_users ids m =
     (if allow_all_users m then None
      else if \<not> allow_some_users m then Option.bind (mn_convert (mn_flags m OR allows_users_flag) m) (push_users ids)
      else push_users ids m)"

text \<open>In the library without a cache, users that are added to others become roles.\<close>

definition nc_add_users :: "snowflake list \<Rightarrow> mentions \<Rightarrow> mentions option" where
  "nc_add_users ids m =
     (if allow_all_users m then None
      else if \<not> allow_some_users m then Option.bind (mn_convert (mn_flags m OR allows_users_flag) m) (push_users ids)
      else push_roles ids m)"

definition mentions_to_json :: "'j json_api \<Rightarrow> 'j json_maker \<Rightarrow> mentions \<Rightarrow> 'j" where
  "mentions_to_json J W stuff =
     (let parse = (if allow_everyone stuff then [mk_str W ''everyone''] else [])
            @ (if allow_all_roles stuff then [mk_str W ''roles''] else [])
            @ (if allow_all_users stuff then [mk_str W ''users''] else []);
          ids = (\<lambda>xs. mk_arr W (map (sf_json J W) xs));
          json = mk_set W (j_null J) ''parse'' (mk_arr W parse);
          json = put W ''roles'' (if allow_some_roles stuff then Some (ids (mn_roles stuff)) else None) json
      in put W ''users'' (if allow_some_users stuff then Some (ids (mn_users stuff)) else None) json)"

definition modify_message :: "'j json_api \<Rightarrow> 'j json_maker \<Rightarrow> mentions \<Rightarrow> 'j \<Rightarrow> 'j" where
  "modify_message J W stuff json = mk_set W json ''allowed_mentions'' (mentions_to_json J W stuff)"

section \<open>What is asked for is what is written\<close>

datatype mention_call = Mc_everyone | Mc_all_roles | Mc_all_users | Mc_roles "snowflake list" | Mc_users "snowflake list"

text \<open>The calls with the given meaning of \<open>add_users\<close>.\<close>

fun mention_step :: "(snowflake list \<Rightarrow> mentions \<Rightarrow> mentions option) \<Rightarrow> mention_call \<Rightarrow> mentions \<Rightarrow> mentions option" where
  "mention_step add Mc_everyone m = mn_everyone m"
| "mention_step add Mc_all_roles m = mn_all_roles m"
| "mention_step add Mc_all_users m = mn_all_users m"
| "mention_step add (Mc_roles ids) m = mn_add_roles ids m"
| "mention_step add (Mc_users ids) m = add ids m"

fun mention_calls :: "(snowflake list \<Rightarrow> mentions \<Rightarrow> mentions option) \<Rightarrow> mention_call list \<Rightarrow> mentions \<Rightarrow> mentions option" where
  "mention_calls add [] m = Some m"
| "mention_calls add (c # cs) m = Option.bind (mention_step add c m) (mention_calls add cs)"

definition asked_roles :: "mention_call list \<Rightarrow> snowflake list" where
  "asked_roles cs = concat (map (\<lambda>c. case c of Mc_roles ids \<Rightarrow> ids | _ \<Rightarrow> []) cs)"

definition asked_users :: "mention_call list \<Rightarrow> snowflake list" where
  "asked_users cs = concat (map (\<lambda>c. case c of Mc_users ids \<Rightarrow> ids | _ \<Rightarrow> []) cs)"

definition names_roles :: "mention_call \<Rightarrow> bool" where "names_roles c \<longleftrightarrow> (\<exists>ids. c = Mc_roles ids)"

definition names_users :: "mention_call \<Rightarrow> bool" where "names_users c \<longleftrightarrow> (\<exists>ids. c = Mc_users ids)"

lemma flag_tests:
  "allow_everyone m \<longleftrightarrow> bit (mn_flags m) 0" "allow_all_users m \<longleftrightarrow> bit (mn_flags m) 1" "allow_all_roles m \<longleftrightarrow> bit (mn_flags m) 2"
  "allow_some_roles m \<longleftrightarrow> bit (mn_flags m) 3" "allow_some_users m \<longleftrightarrow> bit (mn_flags m) 4"
  by (simp_all only: allow_everyone_def allow_all_users_def allow_all_roles_def allow_some_roles_def allow_some_users_def
      allows_everyone_flag_def allows_all_users_flag_def allows_all_roles_flag_def allows_roles_flag_def allows_users_flag_def
      bit_iff_and_push_bit_not_eq_0 push_bit_0_id id_apply)

lemma flag_bits:
  "bit allows_everyone_flag n \<longleftrightarrow> n = 0" "bit allows_all_users_flag n \<longleftrightarrow> n = 1" "bit allows_all_roles_flag n \<longleftrightarrow> n = 2"
  "bit allows_roles_flag n \<longleftrightarrow> n = 3" "bit allows_users_flag n \<longleftrightarrow> n = 4"
  by (auto simp: allows_everyone_flag_def allows_all_users_flag_def allows_all_roles_flag_def allows_roles_flag_def allows_users_flag_def
      bit_simps simp del: push_bit_of_1 push_bit_numeral)

text \<open>What a call does to the flags and the lists.\<close>

definition flag_of :: "mention_call \<Rightarrow> nat" where
  "flag_of c = (case c of Mc_everyone \<Rightarrow> 0 | Mc_all_users \<Rightarrow> 1 | Mc_all_roles \<Rightarrow> 2 | Mc_roles _ \<Rightarrow> 3 | Mc_users _ \<Rightarrow> 4)"

lemma mn_convert_Some:
  assumes "mn_convert (mn_flags m OR f) m = Some n"
  shows "mn_flags n = mn_flags m OR f" "mn_roles n = (if allow_some_roles m then mn_roles m else [])"
    "mn_users n = (if allow_some_users m then mn_users m else [])"
  using assms by (auto simp: mn_convert_def no_mentions_def flag_tests Let_def bit_or_iff split: if_splits)

lemma push_Some:
  "push_roles ids m = Some n \<Longrightarrow> bit (mn_flags m) 3 \<and> n = m\<lparr>mn_roles := mn_roles m @ ids\<rparr>"
  "push_users ids m = Some n \<Longrightarrow> bit (mn_flags m) 3 \<and> n = m\<lparr>mn_users := mn_users m @ ids\<rparr>"
  by (auto simp: push_roles_def push_users_def has_role_vector_def has_user_vector_def flag_tests split: if_splits)

lemma mn_add_roles_Some:
  assumes "mn_add_roles ids m = Some n"
  shows "(bit (mn_flags n) k \<longleftrightarrow> bit (mn_flags m) k \<or> k = 3) \<and> mn_roles n = (if bit (mn_flags m) 3 then mn_roles m else []) @ ids
    \<and> mn_users n = (if bit (mn_flags m) 3 \<or> bit (mn_flags m) 4 then mn_users m else [])"
proof (cases "allow_some_roles m")
  case True
  with assms show ?thesis by (auto simp: mn_add_roles_def flag_tests dest!: push_Some split: if_splits)
next
  case False
  with assms obtain c where c: "mn_convert (mn_flags m OR allows_roles_flag) m = Some c" "push_roles ids c = Some n"
    by (auto simp: mn_add_roles_def Option.bind_eq_Some_conv split: if_splits)
  from mn_convert_Some [OF c(1)] push_Some(1) [OF c(2)] False show ?thesis by (simp add: flag_tests flag_bits bit_or_iff)
qed

lemma mn_add_users_Some:
  assumes "mn_add_users ids m = Some n"
  shows "(bit (mn_flags n) k \<longleftrightarrow> bit (mn_flags m) k \<or> k = 4) \<and> mn_users n = (if bit (mn_flags m) 4 then mn_users m else []) @ ids
    \<and> mn_roles n = (if bit (mn_flags m) 3 \<or> bit (mn_flags m) 4 then mn_roles m else []) \<and> bit (mn_flags m) 3"
proof (cases "allow_some_users m")
  case True
  with assms show ?thesis by (auto simp: mn_add_users_def flag_tests dest!: push_Some split: if_splits)
next
  case False
  with assms obtain c where c: "mn_convert (mn_flags m OR allows_users_flag) m = Some c" "push_users ids c = Some n"
    by (auto simp: mn_add_users_def Option.bind_eq_Some_conv split: if_splits)
  from mn_convert_Some [OF c(1)] push_Some(2) [OF c(2)] False show ?thesis by (simp add: flag_tests flag_bits bit_or_iff)
qed

lemma mn_all_Some:
  "mn_everyone m = Some n \<Longrightarrow> mn_convert (mn_flags m OR allows_everyone_flag) m = Some n"
  "mn_all_roles m = Some n \<Longrightarrow> mn_convert (mn_flags m OR allows_all_roles_flag) m = Some n"
  "mn_all_users m = Some n \<Longrightarrow> mn_convert (mn_flags m OR allows_all_users_flag) m = Some n"
  by (simp_all add: mn_everyone_def mn_all_roles_def mn_all_users_def split: if_splits)

text \<open>What the calls have asked for so far.\<close>

definition as_asked :: "mention_call list \<Rightarrow> mentions \<Rightarrow> bool" where
  "as_asked cs m \<longleftrightarrow> (\<forall>k. bit (mn_flags m) k \<longleftrightarrow> k \<in> flag_of ` set cs) \<and> mn_roles m = asked_roles cs \<and> mn_users m = asked_users cs
     \<and> (bit (mn_flags m) 4 \<longrightarrow> bit (mn_flags m) 3) \<and> (\<not> bit (mn_flags m) 3 \<longrightarrow> mn_roles m = []) \<and> (\<not> bit (mn_flags m) 4 \<longrightarrow> mn_users m = [])"

lemma asked_snoc:
  "asked_roles (cs @ [c]) = asked_roles cs @ (case c of Mc_roles ids \<Rightarrow> ids | _ \<Rightarrow> [])"
  "asked_users (cs @ [c]) = asked_users cs @ (case c of Mc_users ids \<Rightarrow> ids | _ \<Rightarrow> [])"
  by (simp_all add: asked_roles_def asked_users_def)

lemma as_asked_none: "as_asked [] no_mentions"
  by (simp add: as_asked_def no_mentions_def asked_roles_def asked_users_def)

lemma as_asked_convert:
  assumes "as_asked cs m" "mn_convert (mn_flags m OR f) m = Some n" "\<And>k. bit f k \<longleftrightarrow> k = flag_of c" "flag_of c < 3"
  shows "as_asked (cs @ [c]) n"
proof -
  have "(case c of Mc_roles ids \<Rightarrow> ids | _ \<Rightarrow> []) = []" "(case c of Mc_users ids \<Rightarrow> ids | _ \<Rightarrow> []) = []"
    using assms(4) by (cases c; simp add: flag_of_def)+
  with mn_convert_Some [OF assms(2)] assms(1,3,4) show ?thesis
    by (auto simp: as_asked_def asked_snoc flag_tests bit_or_iff)
qed

lemma as_asked_step:
  assumes inv: "as_asked cs m" and step: "mention_step mn_add_users c m = Some n"
  shows "as_asked (cs @ [c]) n"
proof (cases c)
  case (Mc_roles ids)
  with step have add: "mn_add_roles ids m = Some n" by simp
  from mn_add_roles_Some [OF add] inv Mc_roles show ?thesis by (auto simp: as_asked_def asked_snoc flag_of_def)
next
  case (Mc_users ids)
  with step have add: "mn_add_users ids m = Some n" by simp
  from mn_add_users_Some [OF add] inv Mc_users show ?thesis by (auto simp: as_asked_def asked_snoc flag_of_def)
next
  case Mc_everyone
  with step have "mn_convert (mn_flags m OR allows_everyone_flag) m = Some n" by (simp add: mn_all_Some)
  from as_asked_convert [OF inv this] Mc_everyone show ?thesis by (simp add: flag_of_def flag_bits)
next
  case Mc_all_roles
  with step have "mn_convert (mn_flags m OR allows_all_roles_flag) m = Some n" by (simp add: mn_all_Some)
  from as_asked_convert [OF inv this] Mc_all_roles show ?thesis by (simp add: flag_of_def flag_bits)
next
  case Mc_all_users
  with step have "mn_convert (mn_flags m OR allows_all_users_flag) m = Some n" by (simp add: mn_all_Some)
  from as_asked_convert [OF inv this] Mc_all_users show ?thesis by (simp add: flag_of_def flag_bits)
qed

lemma flag_of_iff:
  "flag_of c = 0 \<longleftrightarrow> c = Mc_everyone" "flag_of c = Suc 0 \<longleftrightarrow> c = Mc_all_users" "flag_of c = 2 \<longleftrightarrow> c = Mc_all_roles"
  "flag_of c = 3 \<longleftrightarrow> names_roles c" "flag_of c = 4 \<longleftrightarrow> names_users c"
  by (cases c; simp add: flag_of_def names_roles_def names_users_def)+

lemma asked_flag: "as_asked cs m \<Longrightarrow> bit (mn_flags m) k \<longleftrightarrow> (\<exists>c \<in> set cs. flag_of c = k)"
  by (auto simp: as_asked_def)

lemma as_asked_calls:
  "mention_calls mn_add_users cs m = Some m' \<Longrightarrow> as_asked ds m \<Longrightarrow> as_asked (ds @ cs) m'"
proof (induction cs arbitrary: ds m)
  case (Cons c cs)
  then obtain n where n: "mention_step mn_add_users c m = Some n" "mention_calls mn_add_users cs n = Some m'"
    by (auto simp: Option.bind_eq_Some_conv)
  from Cons.IH [OF n(2) as_asked_step [OF Cons.prems(2) n(1)]] show ?case by simp
qed simp

lemma mentions_read:
  assumes "json_writer J W"
  shows "read_mentions J (mentions_to_json J W m) =
    (Inr ((if allow_everyone m then [''everyone''] else []) @ (if allow_all_roles m then [''roles''] else [])
        @ (if allow_all_users m then [''users''] else [])),
     Inr (if allow_some_roles m then Some (mn_roles m) else None), Inr (if allow_some_users m then Some (mn_users m) else None))"
  using json_writer.mentions_back [OF assms refl, where ?k1.0 = "''roles''" and ?k2.0 = "''users''"
      and ?l1.0 = "if allow_some_roles m then Some (mn_roles m) else None"
      and ?l2.0 = "if allow_some_users m then Some (mn_users m) else None"
      and parse = "(if allow_everyone m then [''everyone''] else []) @ (if allow_all_roles m then [''roles''] else [])
         @ (if allow_all_users m then [''users''] else [])"]
  by (cases "allow_everyone m"; cases "allow_all_roles m"; cases "allow_all_users m"; cases "allow_some_roles m"; cases "allow_some_users m";
      simp add: mentions_to_json_def Let_def)

text \<open>Whatever chain of calls builds up allowed mentions, as far as it compiles, the receiver reads exactly what was asked for: the
  kinds that were allowed as a whole, and the ids of all roles and of all users that were added, in order; a kind that was never asked
  for is not named.\<close>
theorem mentions_as_asked:
  assumes "json_writer J W" "mention_calls mn_add_users cs no_mentions = Some m"
  shows "read_mentions J (mentions_to_json J W m) =
    (Inr ((if Mc_everyone \<in> set cs then [''everyone''] else []) @ (if Mc_all_roles \<in> set cs then [''roles''] else [])
        @ (if Mc_all_users \<in> set cs then [''users''] else [])),
     Inr (if \<exists>c \<in> set cs. names_roles c then Some (asked_roles cs) else None),
     Inr (if \<exists>c \<in> set cs. names_users c then Some (asked_users cs) else None))"
proof -
  have "as_asked cs m" using as_asked_calls [OF assms(2) as_asked_none] by simp
  note flag = asked_flag [OF this]
  have "mn_roles m = asked_roles cs" "mn_users m = asked_users cs" using \<open>as_asked cs m\<close> by (simp_all add: as_asked_def)
  then show ?thesis by (simp add: mentions_read [OF assms(1)] flag_tests flag flag_of_iff)
qed

section \<open>What does not compile or goes astray\<close>

text \<open>Users can be added only where roles were.\<close>

lemma users_need_roles:
  assumes "mention_calls mn_add_users cs no_mentions = Some m" "\<exists>c \<in> set cs. names_users c"
  shows "\<exists>c \<in> set cs. names_roles c"
proof -
  have m: "as_asked cs m" using as_asked_calls [OF assms(1) as_asked_none] by simp
  then have "bit (mn_flags m) 4 \<longrightarrow> bit (mn_flags m) 3" unfolding as_asked_def by (elim conjE)
  with assms(2) show ?thesis by (simp add: asked_flag [OF m] flag_of_iff)
qed

lemma or_again: "(w OR v) OR w = w OR (v :: 32 word)"
  by (rule bit_word_eqI) (auto simp: bit_simps)

text \<open>Without a cache, users that are added to users are sent as roles.\<close>

lemma nc_users_become_roles:
  "\<exists>m. mention_calls nc_add_users [Mc_roles rs, Mc_users us, Mc_users vs] no_mentions = Some m \<and> mn_roles m = rs @ vs \<and> mn_users m = us"
  by (auto simp: nc_add_users_def mn_add_roles_def push_roles_def push_users_def has_role_vector_def has_user_vector_def mn_convert_def
      no_mentions_def flag_tests flag_bits bit_or_iff or_again Let_def)

section \<open>An example\<close>

definition sample_calls :: "mention_call list" where
  "sample_calls = [Mc_everyone, Mc_roles [Snowflake 5], Mc_users [Snowflake 7], Mc_roles [Snowflake 6]]"

lemma sample_calls_compile: "\<exists>m. mention_calls mn_add_users sample_calls no_mentions = Some m"
  by (auto simp: sample_calls_def mn_everyone_def mn_add_users_def mn_add_roles_def push_roles_def push_users_def has_role_vector_def
      has_user_vector_def mn_convert_def no_mentions_def flag_tests flag_bits bit_or_iff or_again Let_def)

theorem mentions_as_asked_witness:
  "\<exists>m. mention_calls mn_add_users sample_calls no_mentions = Some m
    \<and> read_mentions js_api (mentions_to_json js_api js_maker m)
        = (Inr [''everyone''], Inr (Some [Snowflake 5, Snowflake 6]), Inr (Some [Snowflake 7]))"
proof -
  obtain m where m: "mention_calls mn_add_users sample_calls no_mentions = Some m" using sample_calls_compile by blast
  from mentions_as_asked [OF js_writer m] m show ?thesis
    by (simp add: sample_calls_def asked_roles_def asked_users_def names_roles_def names_users_def)
qed

end
