(* ===== verification/Nc_Worker.thy ===== *)
theory Nc_Worker
  imports Nc_Connection Json
begin

text \<open>
  The first HTTP connection of the library without a cache, \<open>http_connection\<close> in \<open>no_cache/http_connection.h\<close> and
  \<open>no_cache/src/http_connection.cpp\<close>, which \<open>http_connection2\<close> has replaced, and its queue (\<open>common/concurrent_queue.h\<close>). A thread
  takes the requests out of the queue, blocks while it sends them and keeps those of limited ids in a list that is sorted by time. Every
  access of the queue is under its mutex and one step; what the network and the clock give is an input.
\<close>

section \<open>The queue\<close>

record 'o cqueue =
  cq_data :: "'o list"
  cq_canceled :: bool

definition cq_empty :: "'o cqueue" where "cq_empty = \<lparr>cq_data = [], cq_canceled = False\<rparr>"

definition cq_push :: "'o \<Rightarrow> 'o cqueue \<Rightarrow> 'o cqueue" where "cq_push t q = q\<lparr>cq_data := cq_data q @ [t]\<rparr>"

definition cq_cancel :: "'o cqueue \<Rightarrow> 'o cqueue" where "cq_cancel q = q\<lparr>cq_canceled := True\<rparr>"

definition cq_do_pop :: "'o cqueue \<Rightarrow> ('o \<times> 'o cqueue) option" where
  "cq_do_pop q = (case cq_data q of [] \<Rightarrow> None | t # ts \<Rightarrow> Some (t, q\<lparr>cq_data := ts\<rparr>))"

text \<open>\<open>pop\<close> waits while there is nothing and the queue is not cancelled, which is no result here, and throws when it is.\<close>

definition cq_pop :: "'o cqueue \<Rightarrow> (fault + 'o \<times> 'o cqueue) option" where
  "cq_pop q = (if cq_data q = [] \<and> \<not> cq_canceled q then None
     else if cq_canceled q then Some (Inl Throws) else map_option Inr (cq_do_pop q))"

definition cq_try_pop :: "'o cqueue \<Rightarrow> 'o option \<times> 'o cqueue" where
  "cq_try_pop q = (case cq_do_pop q of None \<Rightarrow> (None, q) | Some (t, q') \<Rightarrow> (Some t, q'))"

text \<open>The mutex may be taken by another thread.\<close>

definition cq_try_pop_busy :: "bool \<Rightarrow> 'o cqueue \<Rightarrow> 'o option \<times> 'o cqueue" where
  "cq_try_pop_busy locked q = (if locked then (None, q) else cq_try_pop q)"

text \<open>\<open>try_pop_until\<close>, first looked at by the clock at \<open>start\<close>, then woken or timed out at \<open>now\<close>: it waits on while there is nothing
  and the time has not come.\<close>

definition cq_try_pop_until :: "int \<Rightarrow> int \<Rightarrow> int \<Rightarrow> 'o cqueue \<Rightarrow> ('o option \<times> 'o cqueue) option" where
  "cq_try_pop_until start now end_time q =
     (if start > end_time then Some (None, q)
      else case cq_do_pop q of
        Some (t, q') \<Rightarrow> Some (Some t, q')
      | None \<Rightarrow> if now \<ge> end_time then Some (None, q) else None)"

section \<open>The thread\<close>

text \<open>Where it is: at the head of its loop, past its test and at the queue, between the requests it has taken, sending one of them, or ended by an exception that
  nothing catches.\<close>

datatype 'x working = At_head | At_queue | Has "'x discord_request list" | Sends "'x discord_request" u64 "'x discord_request list" | Terminated "'x discord_request list"

record 'x worker =
  w_queue :: "'x discord_request cqueue"
  w_limited :: "'x discord_request nc_entry list"
  w_until :: int
  w_global :: bool
  w_finished :: "('x discord_request \<times> nc_response) list"
  w_done :: bool
  w_at :: "'x working"

definition new_worker :: "'x worker" where
  "new_worker = \<lparr>w_queue = cq_empty, w_limited = [], w_until = 0, w_global = False, w_finished = [], w_done = False, w_at = At_head\<rparr>"

definition w_send :: "'x discord_request \<Rightarrow> 'x worker \<Rightarrow> 'x worker" where
  "w_send d w = w\<lparr>w_queue := cq_push d (w_queue w)\<rparr>"

definition w_sleep_till :: "int \<Rightarrow> 'x worker \<Rightarrow> 'x worker" where
  "w_sleep_till t w = w\<lparr>w_until := t, w_global := True\<rparr>"

definition w_stop :: "'x worker \<Rightarrow> 'x worker" where "w_stop w = w\<lparr>w_done := True\<rparr>"

definition w_destroy :: "'x worker \<Rightarrow> 'x worker" where
  "w_destroy w = (w_stop w)\<lparr>w_queue := cq_cancel (w_queue w)\<rparr>"

definition w_loop :: "'x worker \<Rightarrow> 'x worker option" where
  "w_loop w = (if w_done w then None else Some (w\<lparr>w_at := At_queue\<rparr>))"

text \<open>One turn of the loop, with the times at which \<open>try_pop_until\<close> looks; \<open>None\<close> while it waits.\<close>

definition w_turn :: "int \<Rightarrow> int \<Rightarrow> 'x worker \<Rightarrow> 'x worker option" where
  "w_turn start now w =
     (case w_limited w of
        [] \<Rightarrow> (case cq_pop (w_queue w) of
            None \<Rightarrow> None
          | Some (Inl _) \<Rightarrow> Some (w\<lparr>w_at := Terminated []\<rparr>)
          | Some (Inr (r, q)) \<Rightarrow> Some (w\<lparr>w_queue := q, w_at := Has [r]\<rparr>))
      | e # es \<Rightarrow> (case cq_try_pop_until start now (ne_until e) (w_queue w) of
            None \<Rightarrow> None
          | Some (Some r, q) \<Rightarrow> Some (w\<lparr>w_queue := q, w_at := Has [r]\<rparr>)
          | Some (None, q) \<Rightarrow> Some (w\<lparr>w_queue := q, w_limited := es, w_at := Has (ne_requests e)\<rparr>)))"

definition hold_at :: "u64 \<Rightarrow> int \<Rightarrow> 'o list \<Rightarrow> 'o nc_entry list \<Rightarrow> 'o nc_entry list" where
  "hold_at i tp rs es = insert_at (upper_bound (map ne_until es) tp) \<lparr>ne_id = i, ne_until = tp, ne_requests = rs\<rparr> es"

text \<open>\<open>send_to_discord\<close> up to the sending; a global limit makes the thread sleep until its time, which must have come.\<close>

definition w_send_to_discord :: "int \<Rightarrow> 'x worker \<Rightarrow> 'x worker option" where
  "w_send_to_discord now w =
     (case w_at w of
        Has [] \<Rightarrow> Some (w\<lparr>w_at := At_head\<rparr>)
      | Has (r # rs) \<Rightarrow> (case get_major_param_id (rq_target r) of
            None \<Rightarrow> Some (w\<lparr>w_at := Terminated (r # rs)\<rparr>)
          | Some i \<Rightarrow>
              let it = find_index (\<lambda>e. ne_id e = i) (w_limited w)
              in if it \<noteq> length (w_limited w)
                 then Some (w\<lparr>w_limited := (w_limited w)[it := (w_limited w ! it)\<lparr>ne_requests := ne_requests (w_limited w ! it) @ [r]\<rparr>],
                        w_at := Has rs\<rparr>)
                 else if w_global w then
                   if now \<ge> w_until w then Some (w\<lparr>w_global := False, w_at := Sends r i rs\<rparr>) else None
                 else Some (w\<lparr>w_at := Sends r i rs\<rparr>))
      | _ \<Rightarrow> None)"

text \<open>\<open>send_rq\<close> on the errors of its rounds, of the write and of the read, 0 for none: every error but two kinds makes it try again
  without a new connection. The result is the number of reconnections and the response.\<close>

fun w_send_rq :: "(int \<times> int \<times> 'r) list \<Rightarrow> nat \<Rightarrow> (nat \<times> 'r) option" where
  "w_send_rq [] n = None"
| "w_send_rq ((ec, ec2, res) # rounds) n =
     (if ec \<noteq> 0 then w_send_rq rounds (if ec = 100053 then n + 1 else n)
      else if ec2 \<noteq> 0 then w_send_rq rounds (if ec2 = 1 then n + 1 else n)
      else Some (n, res))"

text \<open>\<open>send_to_discord_\<close> on the response. After a global limit, which the client is told of, it sleeps and sends again. The number of
  remaining requests is taken for a time in seconds.\<close>

definition w_respond :: "int \<Rightarrow> nc_response \<Rightarrow> 'x worker \<Rightarrow> 'x worker option" where
  "w_respond now res w =
     (case w_at w of
        Sends r i rs \<Rightarrow>
          Some (if nr_status res = 429 then
             (case nr_body res of
                None \<Rightarrow> w\<lparr>w_at := Terminated (r # rs)\<rparr>
              | Some (retry_after, global) \<Rightarrow>
                  if global then w
                  else w\<lparr>w_limited := hold_at i (now + int retry_after) [r] (w_limited w), w_at := Has rs\<rparr>)
           else
             (let w = w\<lparr>w_finished := w_finished w @ [(r, res)], w_at := Has rs\<rparr>
              in case nr_remaining res of
                   None \<Rightarrow> w
                 | Some s \<Rightarrow> w\<lparr>w_limited := hold_at i (1000 * fst (from_chars_int 64 0 s)) [] (w_limited w)\<rparr>))
      | _ \<Rightarrow> None)"

section \<open>Runs\<close>

datatype 'x w_event = We_send "'x discord_request" | We_sleep int | We_stop | We_destroy | We_loop | We_turn int int | We_go int | We_response int nc_response

definition w_event :: "'x w_event \<Rightarrow> 'x worker \<Rightarrow> 'x worker option" where
  "w_event e w = (case e of
       We_send r \<Rightarrow> Some (w_send r w) | We_sleep t \<Rightarrow> Some (w_sleep_till t w) | We_stop \<Rightarrow> Some (w_stop w) | We_destroy \<Rightarrow> Some (w_destroy w)
     | We_loop \<Rightarrow> if w_at w = At_head then w_loop w else None
     | We_turn start now \<Rightarrow> if w_at w = At_queue then w_turn start now w else None
     | We_go now \<Rightarrow> w_send_to_discord now w
     | We_response now res \<Rightarrow> w_respond now res w)"

fun w_run :: "'x w_event list \<Rightarrow> 'x worker \<Rightarrow> 'x worker option" where
  "w_run [] w = Some w"
| "w_run (e # es) w = Option.bind (w_event e w) (w_run es)"

definition w_taken :: "'x working \<Rightarrow> 'x discord_request list" where
  "w_taken p = (case p of At_head \<Rightarrow> [] | At_queue \<Rightarrow> [] | Has rs \<Rightarrow> rs | Sends r _ rs \<Rightarrow> r # rs | Terminated rs \<Rightarrow> rs)"

text \<open>Every request the thread knows.\<close>

definition w_requests :: "'x worker \<Rightarrow> 'x discord_request multiset" where
  "w_requests w = mset (cq_data (w_queue w)) + mset (concat (map ne_requests (w_limited w))) + mset (w_taken (w_at w))
     + mset (map fst (w_finished w))"

definition w_given :: "'x w_event list \<Rightarrow> 'x discord_request list" where
  "w_given es = concat (map (\<lambda>e. case e of We_send r \<Rightarrow> [r] | _ \<Rightarrow> []) es)"

text \<open>One entry for an id, in the order of the times; nothing is sent for an id that has one, and what was answered with a limit is
  not finished.\<close>

definition w_ok :: "'x worker \<Rightarrow> bool" where
  "w_ok w \<longleftrightarrow> distinct (map ne_id (w_limited w)) \<and> sorted (map ne_until (w_limited w))
     \<and> (\<forall>r i rs. w_at w = Sends r i rs \<longrightarrow> i \<notin> set (map ne_id (w_limited w)) \<and> get_major_param_id (rq_target r) = Some i)
     \<and> (\<forall>x \<in> set (w_finished w). nr_status (snd x) \<noteq> 429)"

lemma hold_at_ok:
  assumes "distinct (map ne_id es)" "sorted (map ne_until es)" "i \<notin> set (map ne_id es)"
  shows "distinct (map ne_id (hold_at i t rs es))" "sorted (map ne_until (hold_at i t rs es))"
    "set (map ne_id (hold_at i t rs es)) = insert i (set (map ne_id es))"
    "mset (concat (map ne_requests (hold_at i t rs es))) = mset rs + mset (concat (map ne_requests es))"
  using assms insert_upper_sorted [of "map ne_until es" t]
  by (simp_all add: hold_at_def map_insert_at distinct_insert_at mset_concat_insert_at)

lemma w_turn_ok:
  assumes "w_ok w" "w_at w = At_queue" "w_turn start now w = Some v"
  shows "w_ok v \<and> w_requests v = w_requests w"
proof (cases "w_limited w")
  case Nil
  with assms show ?thesis
    by (auto simp: w_turn_def cq_pop_def cq_do_pop_def w_ok_def w_requests_def w_taken_def split: if_splits list.splits)
next
  case (Cons e es)
  with assms show ?thesis
    by (auto simp: w_turn_def cq_try_pop_until_def cq_do_pop_def w_ok_def w_requests_def w_taken_def split: if_splits list.splits)
qed

lemma w_send_to_discord_ok:
  assumes ok: "w_ok w" and step: "w_send_to_discord now w = Some v"
  shows "w_ok v \<and> w_requests v = w_requests w"
proof (cases "w_at w")
  case (Has rs)
  show ?thesis
  proof (cases rs)
    case Nil
    with Has ok step show ?thesis by (auto simp: w_send_to_discord_def w_ok_def w_requests_def w_taken_def)
  next
    case (Cons r rs')
    note at = Has Cons
    show ?thesis
    proof (cases "get_major_param_id (rq_target r)")
      case None
      with at ok step show ?thesis by (auto simp: w_send_to_discord_def w_ok_def w_requests_def w_taken_def)
    next
      case (Some i)
      let ?it = "find_index (\<lambda>e. ne_id e = i) (w_limited w)"
      show ?thesis
      proof (cases "?it = length (w_limited w)")
        case True
        then have "i \<notin> set (map ne_id (w_limited w))" by (auto simp: find_index_none)
        with at Some True ok step show ?thesis
          by (auto simp: w_send_to_discord_def w_ok_def w_requests_def w_taken_def Let_def split: if_splits)
      next
        case False
        then have it: "?it < length (w_limited w)" by (blast dest: find_index_less)
        let ?e = "w_limited w ! ?it"
        let ?es = "(w_limited w)[?it := ?e\<lparr>ne_requests := ne_requests ?e @ [r]\<rparr>]"
        have same: "map ne_id ?es = map ne_id (w_limited w)" "map ne_until ?es = map ne_until (w_limited w)"
          using it by (simp_all add: map_update_same)
        have "mset (concat (map ne_requests ?es)) + mset (ne_requests ?e) = mset (concat (map ne_requests (w_limited w))) + mset (ne_requests ?e @ [r])"
          using mset_concat_update [OF it, of ne_requests "?e\<lparr>ne_requests := ne_requests ?e @ [r]\<rparr>"] by simp
        then have "mset (concat (map ne_requests ?es)) = add_mset r (mset (concat (map ne_requests (w_limited w))))" by simp
        moreover have "v = w\<lparr>w_limited := ?es, w_at := Has rs'\<rparr>"
          using at Some False step by (simp add: w_send_to_discord_def Let_def)
        ultimately show ?thesis using ok at same by (simp add: w_ok_def w_requests_def w_taken_def)
      qed
    qed
  qed
qed (use step in \<open>simp_all add: w_send_to_discord_def\<close>)

lemma w_respond_ok:
  assumes ok: "w_ok w" and step: "w_respond now res w = Some v"
  shows "w_ok v \<and> w_requests v = w_requests w"
proof (cases "w_at w")
  case (Sends r i rs)
  have fresh: "i \<notin> set (map ne_id (w_limited w))" and sorted: "distinct (map ne_id (w_limited w))" "sorted (map ne_until (w_limited w))"
    using ok Sends by (simp_all add: w_ok_def)
  note hold = hold_at_ok [OF sorted fresh]
  show ?thesis
  proof (cases "nr_status res = 429")
    case True
    with Sends ok step hold show ?thesis
      by (auto simp: w_respond_def w_ok_def w_requests_def w_taken_def split: option.splits if_splits)
  next
    case False
    with Sends ok step hold show ?thesis
      by (cases "nr_remaining res") (auto simp: w_respond_def w_ok_def w_requests_def w_taken_def Let_def)
  qed
qed (use step in \<open>simp_all add: w_respond_def\<close>)

lemma w_event_ok:
  assumes "w_ok w" "w_event e w = Some v"
  shows "w_ok v \<and> w_requests v = w_requests w + mset (w_given [e])"
proof (cases e)
  case (We_turn start now)
  with assms w_turn_ok [of w start now v] show ?thesis by (simp add: w_event_def w_given_def split: if_splits)
next
  case (We_go now)
  with assms w_send_to_discord_ok [of w now v] show ?thesis by (simp add: w_event_def w_given_def)
next
  case (We_response now res)
  with assms w_respond_ok [of w now res v] show ?thesis by (simp add: w_event_def w_given_def)
qed (use assms in \<open>auto simp: w_event_def w_loop_def w_taken_def w_given_def w_send_def w_sleep_till_def w_stop_def w_destroy_def cq_push_def cq_cancel_def
    w_ok_def w_requests_def split: if_splits\<close>)

lemma w_run_ok: "w_run es w = Some v \<Longrightarrow> w_ok w \<Longrightarrow> w_ok v \<and> w_requests v = w_requests w + mset (w_given es)"
proof (induction es arbitrary: w)
  case (Cons e es)
  then obtain u where u: "w_event e w = Some u" "w_run es u = Some v" by (auto simp: Option.bind_eq_Some_conv)
  from Cons.IH [OF u(2)] w_event_ok [OF Cons.prems(2) u(1)] show ?case by (auto simp: w_given_def)
qed (simp add: w_given_def)

lemma new_worker_ok: "w_ok new_worker" "w_requests new_worker = {#}"
  by (simp_all add: w_ok_def w_requests_def new_worker_def cq_empty_def w_taken_def)

text \<open>The thread loses and doubles no request, whatever the network answers and however long it takes: each is in the queue, held behind a limit,
  in its hands or finished, and what is finished was not answered with a limit.\<close>

lemma worker_keeps_requests:
  assumes "w_run es new_worker = Some w"
  shows "mset (cq_data (w_queue w)) + mset (concat (map ne_requests (w_limited w))) + mset (w_taken (w_at w)) + mset (map fst (w_finished w))
      = mset (w_given es) \<and> (\<forall>(r, res) \<in> set (w_finished w). nr_status res \<noteq> 429)"
  using w_run_ok [OF assms new_worker_ok(1)] new_worker_ok(2) by (auto simp: w_requests_def w_ok_def)

section \<open>Where it fails\<close>

text \<open>The destructor cancels the queue: a thread that waits for a request gets an exception that nothing catches.\<close>

lemma destroyed_worker_terminates:
  assumes "w_at w = At_head" "w_limited w = []" "\<not> w_done w"
  shows "w_run [We_loop, We_destroy, We_turn start now] w
    = Some (w\<lparr>w_done := True, w_queue := cq_cancel (w_queue w), w_at := Terminated []\<rparr>)"
  using assms by (simp add: w_event_def w_loop_def w_destroy_def w_stop_def w_turn_def cq_pop_def cq_cancel_def)

text \<open>A write that keeps failing with another error than 100053 is tried for ever on the same connection.\<close>

lemma w_send_rq_stuck:
  assumes "\<forall>(ec, ec2, res) \<in> set rounds. ec \<noteq> 0 \<and> ec \<noteq> 100053"
  shows "w_send_rq rounds n = None"
  using assms by (induction rounds arbitrary: n) auto

text \<open>The entry that an answered request leaves says nothing: its time, the number of remaining requests, is past, so the next turn takes
  it out again.\<close>

lemma remaining_is_no_time:
  assumes "w_at w = Sends r i rs" "nr_status res \<noteq> 429" "nr_remaining res = Some ''0''" "w_limited w = []" "0 < start"
    and "w_respond now res w = Some v"
  shows "\<exists>u. w_turn start now' (v\<lparr>w_at := At_queue\<rparr>) = Some u \<and> w_limited u = [] \<and> w_at u = Has []"
proof -
  have "from_chars_int 64 0 ''0'' = (0, 1)" by (simp add: from_chars_int_def dec_val_def is_digit_def digit_val_def)
  with assms show ?thesis
    by (auto simp: w_respond_def hold_at_def insert_at_def w_turn_def cq_try_pop_until_def Let_def)
qed

end
