(* ===== verification/Views.thy ===== *)
theory Views
  imports Ref_Stable Snowflake "HOL-Library.Option_ord"
begin

text \<open>
  Small containers and views of \<open>common/\<close>: references that may be missing (\<open>optional_ref.h\<close>), values that are held or referred to
  (\<open>ref_or_inplace.h\<close>), maps seen through a function (\<open>map_transform.h\<close>), a view of a map (\<open>map_view.h\<close>), the maps of objects that
  guilds hand out (\<open>discord_obj_map\<close> in \<open>include/snowflake.h\<close>), and the caches of the last items (\<open>item_cache.h\<close>). A reference is the
  address of a cell.
\<close>

section \<open>Optional references\<close>

type_synonym optional_ref = "nat option"

definition load :: "'v cells \<Rightarrow> nat \<Rightarrow> 'v res" where
  "load h a = (case cell h a of None \<Rightarrow> Inl Undef | Some v \<Rightarrow> Inr v)"

definition oref_value :: "optional_ref \<Rightarrow> nat res" where
  "oref_value r = (case r of None \<Rightarrow> Inl Throws | Some a \<Rightarrow> Inr a)"

definition oref_deref :: "optional_ref \<Rightarrow> nat res" where
  "oref_deref r = (case r of None \<Rightarrow> Inl Undef | Some a \<Rightarrow> Inr a)"

definition oref_has_value :: "optional_ref \<Rightarrow> bool" where "oref_has_value r \<longleftrightarrow> r \<noteq> None"

definition oref_value_or :: "optional_ref \<Rightarrow> nat \<Rightarrow> nat" where
  "oref_value_or r other = (if oref_has_value r then the r else other)"

definition oref_emplace :: "nat \<Rightarrow> optional_ref" where "oref_emplace thing = Some thing"

definition oref_reset :: optional_ref where "oref_reset = None"

text \<open>The comparisons with a value, which is on the right, and on the left.\<close>

definition oref_test :: "bool \<Rightarrow> ('v \<Rightarrow> bool) \<Rightarrow> optional_ref \<Rightarrow> 'v cells \<Rightarrow> bool res" where
  "oref_test missing p r h = (case r of None \<Rightarrow> Inr missing | Some a \<Rightarrow> rmap p (load h a))"

definition oref_eq :: "optional_ref \<Rightarrow> 'v \<Rightarrow> 'v cells \<Rightarrow> bool res" where "oref_eq r v = oref_test False (\<lambda>w. w = v) r"
definition oref_neq :: "optional_ref \<Rightarrow> 'v \<Rightarrow> 'v cells \<Rightarrow> bool res" where "oref_neq r v = oref_test True (\<lambda>w. w \<noteq> v) r"
definition oref_less :: "optional_ref \<Rightarrow> 'v::linorder \<Rightarrow> 'v cells \<Rightarrow> bool res" where "oref_less r v = oref_test True (\<lambda>w. w < v) r"
definition oref_leq :: "optional_ref \<Rightarrow> 'v::linorder \<Rightarrow> 'v cells \<Rightarrow> bool res" where "oref_leq r v = oref_test True (\<lambda>w. w \<le> v) r"
definition oref_greater :: "optional_ref \<Rightarrow> 'v::linorder \<Rightarrow> 'v cells \<Rightarrow> bool res" where "oref_greater r v = oref_test False (\<lambda>w. w > v) r"
definition oref_geq :: "optional_ref \<Rightarrow> 'v::linorder \<Rightarrow> 'v cells \<Rightarrow> bool res" where "oref_geq r v = oref_test False (\<lambda>w. w \<ge> v) r"

definition value_eq :: "'v \<Rightarrow> optional_ref \<Rightarrow> 'v cells \<Rightarrow> bool res" where "value_eq v r = oref_test False (\<lambda>w. v = w) r"
definition value_neq :: "'v \<Rightarrow> optional_ref \<Rightarrow> 'v cells \<Rightarrow> bool res" where "value_neq v r = oref_test True (\<lambda>w. v \<noteq> w) r"
definition value_less :: "'v::linorder \<Rightarrow> optional_ref \<Rightarrow> 'v cells \<Rightarrow> bool res" where "value_less v r = oref_test False (\<lambda>w. v < w) r"
definition value_leq :: "'v::linorder \<Rightarrow> optional_ref \<Rightarrow> 'v cells \<Rightarrow> bool res" where "value_leq v r = oref_test False (\<lambda>w. v \<le> w) r"
definition value_greater :: "'v::linorder \<Rightarrow> optional_ref \<Rightarrow> 'v cells \<Rightarrow> bool res" where "value_greater v r = oref_test True (\<lambda>w. v > w) r"
definition value_geq :: "'v::linorder \<Rightarrow> optional_ref \<Rightarrow> 'v cells \<Rightarrow> bool res" where "value_geq v r = oref_test True (\<lambda>w. v \<ge> w) r"

text \<open>What a reference says, when what it refers to is there; a missing one is below every value, as a missing option is.\<close>

definition oref_live :: "optional_ref \<Rightarrow> 'v cells \<Rightarrow> bool" where
  "oref_live r h \<longleftrightarrow> (\<forall>a. r = Some a \<longrightarrow> cell h a \<noteq> None)"

definition oref_get :: "optional_ref \<Rightarrow> 'v cells \<Rightarrow> 'v option" where "oref_get r h = Option.bind r (cell h)"

lemma oref_order:
  assumes "oref_live r h"
  shows "oref_eq r v h = Inr (oref_get r h = Some v)" "oref_neq r v h = Inr (oref_get r h \<noteq> Some v)"
    "oref_less r v h = Inr (oref_get r h < Some v)" "oref_leq r v h = Inr (oref_get r h \<le> Some v)"
    "oref_greater r v h = Inr (oref_get r h > Some v)" "oref_geq r v h = Inr (oref_get r h \<ge> Some v)"
    "value_eq v r h = Inr (Some v = oref_get r h)" "value_neq v r h = Inr (Some v \<noteq> oref_get r h)"
    "value_less v r h = Inr (Some v < oref_get r h)" "value_leq v r h = Inr (Some v \<le> oref_get r h)"
    "value_greater v r h = Inr (Some v > oref_get r h)" "value_geq v r h = Inr (Some v \<ge> oref_get r h)"
  using assms
  by (cases r; auto simp: oref_live_def oref_get_def oref_eq_def oref_neq_def oref_less_def oref_leq_def oref_greater_def oref_geq_def
      value_eq_def value_neq_def value_less_def value_leq_def value_greater_def value_geq_def oref_test_def load_def)+

section \<open>A value, or a reference to one\<close>

datatype 'v ref_or_inplace = In_place 'v | By_reference "nat option"

definition roi_value :: "'v ref_or_inplace \<Rightarrow> 'v cells \<Rightarrow> 'v res" where
  "roi_value x h = (case x of In_place v \<Rightarrow> Inr v | By_reference p \<Rightarrow> rbind (oref_deref p) (load h))"

section \<open>A map seen through a function\<close>

text \<open>\<open>operator[]\<close> of a map that is not constant stores a default value under a missing key. The function is given the value that was
  looked up, but the pair when the view is iterated: \<open>f\<close> and \<open>g\<close> are its two meanings.\<close>

definition mt_subscript :: "('v \<Rightarrow> 'w) \<Rightarrow> 'v \<Rightarrow> 'k \<Rightarrow> ('k \<rightharpoonup> 'v) \<Rightarrow> 'w \<times> ('k \<rightharpoonup> 'v)" where
  "mt_subscript f d k m = (case m k of None \<Rightarrow> (f d, m(k \<mapsto> d)) | Some v \<Rightarrow> (f v, m))"

definition mt_at :: "('v \<Rightarrow> 'w) \<Rightarrow> 'k \<Rightarrow> ('k \<rightharpoonup> 'v) \<Rightarrow> 'w res" where
  "mt_at f k m = rmap f (or_throw (m k))"

definition mt_find :: "'k \<Rightarrow> ('k \<rightharpoonup> 'v) \<Rightarrow> 'k option" where "mt_find k m = (if m k = None then None else Some k)"

definition mt_read :: "('k \<times> 'v \<Rightarrow> 'w) \<Rightarrow> ('k \<rightharpoonup> 'v) \<Rightarrow> 'k \<Rightarrow> 'w res" where
  "mt_read g m it = (case m it of None \<Rightarrow> Inl Undef | Some v \<Rightarrow> Inr (g (it, v)))"

definition mt_contains :: "'k \<Rightarrow> ('k \<rightharpoonup> 'v) \<Rightarrow> bool" where "mt_contains k m \<longleftrightarrow> m k \<noteq> None"

definition mt_size :: "('k \<rightharpoonup> 'v) \<Rightarrow> nat" where "mt_size m = card (dom m)"

definition mt_empty :: "('k \<rightharpoonup> 'v) \<Rightarrow> bool" where "mt_empty m \<longleftrightarrow> mt_size m = 0"

text \<open>Looking up through the view is looking up in the map of the results, and only the subscript changes the map.\<close>

lemma mt_at_map: "mt_at f k m = or_throw ((map_option f \<circ> m) k)"
  by (cases "m k") (simp_all add: mt_at_def)

lemma mt_subscript_changes: "snd (mt_subscript f d k m) = m \<longleftrightarrow> mt_contains k m"
  by (auto simp: mt_subscript_def mt_contains_def fun_upd_idem_iff split: option.splits)

lemma mt_find_read: "mt_find k m = Some it \<Longrightarrow> \<exists>v. m k = Some v \<and> mt_read g m it = Inr (g (k, v))"
  by (auto simp: mt_find_def mt_read_def split: if_splits)

text \<open>A plain view. Incrementing with \<open>++it\<close> answers the old position and \<open>it++\<close> the new one: the place of the iterator comes second.\<close>

definition mv_at :: "'k \<Rightarrow> ('k \<rightharpoonup> 'v) \<Rightarrow> 'v res" where "mv_at k m = or_throw (m k)"

definition mv_count :: "'k \<Rightarrow> ('k \<rightharpoonup> 'v) \<Rightarrow> nat" where "mv_count k m = (if m k = None then 0 else 1)"

definition mv_pre_increment :: "nat \<Rightarrow> nat \<times> nat" where "mv_pre_increment it = (it, Suc it)"

definition mv_post_increment :: "nat \<Rightarrow> nat \<times> nat" where "mv_post_increment it = (Suc it, Suc it)"

section \<open>Maps of objects\<close>

text \<open>\<open>discord_obj_map\<close> points to a map; one that was built by default points nowhere.\<close>

type_synonym 'v obj_map = "(snowflake, 'v) rsm option"

definition om_at :: "snowflake \<Rightarrow> 'v obj_map \<Rightarrow> nat res" where
  "om_at s m = (case m of None \<Rightarrow> Inl Undef | Some d \<Rightarrow> rs_at s d)"

definition om_find :: "snowflake \<Rightarrow> 'v obj_map \<Rightarrow> snowflake option res" where
  "om_find s m = (case m of None \<Rightarrow> Inl Undef | Some d \<Rightarrow> Inr (rs_find s d))"

definition om_contains :: "snowflake \<Rightarrow> 'v obj_map \<Rightarrow> bool res" where
  "om_contains s m = rmap (\<lambda>it. it \<noteq> None) (om_find s m)"

definition om_size :: "'v obj_map \<Rightarrow> nat res" where
  "om_size m = (case m of None \<Rightarrow> Inl Undef | Some d \<Rightarrow> Inr (rs_size d))"

definition om_is_empty :: "'v obj_map \<Rightarrow> bool res" where "om_is_empty m = rmap (\<lambda>n. n = 0) (om_size m)"

lemma om_contains_at: "rs_ok d \<Longrightarrow> om_contains s (Some d) = Inr True \<longleftrightarrow> (\<exists>a. om_at s (Some d) = Inr a)"
  using rs_ok_cell [of "fst d" "snd d" s] by (cases d) (auto simp: om_contains_def om_find_def om_at_def split: option.splits)

section \<open>Caches of the last items\<close>

record 'a item_cache =
  ic_items :: "'a list"
  ic_size :: nat
  ic_position :: nat

definition stack_cache :: "'a \<Rightarrow> nat \<Rightarrow> 'a item_cache" where
  "stack_cache d n = \<lparr>ic_items = replicate n d, ic_size = n, ic_position = 0\<rparr>"

definition dynamic_cache :: "nat \<Rightarrow> 'a item_cache" where
  "dynamic_cache n = \<lparr>ic_items = [], ic_size = n, ic_position = 0\<rparr>"

text \<open>A cache of size 0 has no place and divides by zero. \<open>static_heap_allocated_item_cache\<close> does the same with pointers to the items.\<close>

definition stack_add :: "'a \<Rightarrow> 'a item_cache \<Rightarrow> 'a item_cache option" where
  "stack_add x c =
     (if ic_position c < length (ic_items c) \<and> ic_size c \<noteq> 0
      then Some (c\<lparr>ic_items := (ic_items c)[ic_position c := x], ic_position := (ic_position c + 1) mod ic_size c\<rparr>) else None)"

definition dynamic_add :: "'a \<Rightarrow> 'a item_cache \<Rightarrow> 'a item_cache option" where
  "dynamic_add x c =
     (if length (ic_items c) < ic_size c then Some (c\<lparr>ic_items := ic_items c @ [x]\<rparr>)
      else stack_add x c)"

definition set_cache_size :: "nat \<Rightarrow> 'a item_cache \<Rightarrow> 'a item_cache" where "set_cache_size n c = c\<lparr>ic_size := n\<rparr>"

fun add_all :: "('a \<Rightarrow> 'a item_cache \<Rightarrow> 'a item_cache option) \<Rightarrow> 'a list \<Rightarrow> 'a item_cache \<Rightarrow> 'a item_cache option" where
  "add_all add [] c = Some c"
| "add_all add (x # xs) c = Option.bind (add x c) (add_all add xs)"

text \<open>A cache that has been given \<open>xs\<close>: the last ones, from its position on.\<close>

definition caches :: "nat \<Rightarrow> 'a list \<Rightarrow> 'a item_cache \<Rightarrow> bool" where
  "caches n xs c \<longleftrightarrow> ic_size c = n \<and> (if length xs < n then ic_items c = xs \<and> ic_position c = 0
     else length (ic_items c) = n \<and> ic_position c < n \<and> rotate (ic_position c) (ic_items c) = drop (length xs - n) xs)"

lemma rotate_update:
  assumes "p < length ys"
  shows "rotate (Suc p mod length ys) (ys[p := x]) = tl (rotate p ys) @ [x]"
proof -
  have ys: "rotate p ys = drop p ys @ take p ys" using assms by (simp add: rotate_drop_take)
  have drop: "tl (drop p ys) = drop (Suc p) ys" "drop p ys \<noteq> []" using assms by (simp_all add: drop_Suc tl_drop)
  have upd: "ys[p := x] = take p ys @ x # drop (Suc p) ys" using assms by (simp add: upd_conv_take_nth_drop)
  show ?thesis
  proof (cases "Suc p = length ys")
    case True
    then show ?thesis using ys drop upd by simp
  next
    case False
    then have "Suc p mod length ys = Suc p" using assms by simp
    moreover have "rotate (Suc p) (ys[p := x]) = drop (Suc p) ys @ take p ys @ [x]"
      using assms False by (simp add: rotate_drop_take upd)
    ultimately show ?thesis using ys drop by simp
  qed
qed

lemma caches_add:
  assumes "caches n xs c" "0 < n"
  shows "\<exists>c'. dynamic_add x c = Some c' \<and> caches n (xs @ [x]) c'"
proof (cases "length xs < n")
  case True
  then have c: "ic_size c = n" "ic_items c = xs" "ic_position c = 0" using assms(1) by (simp_all add: caches_def)
  let ?c = "c\<lparr>ic_items := xs @ [x]\<rparr>"
  have "dynamic_add x c = Some ?c" using True c by (simp add: dynamic_add_def)
  moreover have "caches n (xs @ [x]) ?c" using True c assms(2) by (auto simp: caches_def)
  ultimately show ?thesis by blast
next
  case False
  then have c: "ic_size c = n" "length (ic_items c) = n" "ic_position c < n" "rotate (ic_position c) (ic_items c) = drop (length xs - n) xs"
    using assms(1) by (simp_all add: caches_def)
  let ?c = "c\<lparr>ic_items := (ic_items c)[ic_position c := x], ic_position := (ic_position c + 1) mod n\<rparr>"
  have "dynamic_add x c = Some ?c" using c assms(2) by (simp add: dynamic_add_def stack_add_def)
  moreover have "rotate (Suc (ic_position c) mod n) ((ic_items c)[ic_position c := x]) = tl (drop (length xs - n) xs) @ [x]"
    using rotate_update [of "ic_position c" "ic_items c" x] c by simp
  then have "caches n (xs @ [x]) ?c" using False c assms(2) by (auto simp: caches_def Suc_diff_le drop_Suc tl_drop)
  ultimately show ?thesis by blast
qed

lemma mset_rotated: "mset (rotate n xs) = mset xs"
proof (induction n)
  case (Suc n)
  have "mset (rotate1 ys) = mset ys" for ys :: "'a list" by (cases ys) simp_all
  with Suc show ?case by simp
qed simp

text \<open>A cache of a fixed size holds exactly the last items it was given.\<close>

lemma cache_holds_last:
  assumes "0 < n"
  shows "\<exists>c. add_all dynamic_add xs (dynamic_cache n) = Some c \<and> mset (ic_items c) = mset (drop (length xs - n) xs)"
proof -
  have run: "\<exists>c'. add_all dynamic_add ys c = Some c' \<and> caches n (zs @ ys) c'" if "caches n zs c" for ys zs c
    using that
  proof (induction ys arbitrary: zs c)
    case (Cons y ys)
    from caches_add [OF Cons.prems assms, of y] obtain d where d: "dynamic_add y c = Some d" "caches n (zs @ [y]) d" by blast
    from Cons.IH [OF d(2)] d(1) show ?case by simp
  qed simp
  have "caches n [] (dynamic_cache n)" using assms by (simp add: caches_def dynamic_cache_def)
  from run [OF this, of xs] obtain c where c: "add_all dynamic_add xs (dynamic_cache n) = Some c" "caches n xs c" by auto
  have "mset (ic_items c) = mset (drop (length xs - n) xs)"
  proof (cases "length xs < n")
    case False
    then have "rotate (ic_position c) (ic_items c) = drop (length xs - n) xs" using c(2) by (simp add: caches_def)
    then show ?thesis by (metis mset_rotated)
  qed (use c(2) in \<open>simp add: caches_def\<close>)
  with c(1) show ?thesis by blast
qed

text \<open>After a change of the size the oldest item is not the next to go.\<close>

lemma grown_cache_forgets_newer:
  "\<exists>c d. add_all dynamic_add [1, 2, 3 :: nat] (dynamic_cache 2) = Some c \<and> add_all dynamic_add [4, 5, 6] (set_cache_size 3 c) = Some d
     \<and> ic_items d = [3, 5, 6]"
  by (simp add: dynamic_add_def stack_add_def dynamic_cache_def set_cache_size_def)

end
